(* ===== verification/Prelude.thy ===== *)
theory Prelude
  imports Main
begin

text \<open>
  Shared vocabulary of the development.

  \<^item> Go strings are byte strings (\<^typ>\<open>string\<close>); the functions of the packages
    \<open>strings\<close> and \<open>strconv\<close> that the sources call are defined here on ASCII bytes
    (a byte outside ASCII is left alone by the case mappings and is never white space).
  \<^item> Database rows live in a list of rows (\<open>row_get\<close>, \<open>row_save\<close>, \<open>row_delete\<close>);
    the locale \<open>keyed_rows\<close> states what a table keyed by a primary key promises.
  \<^item> Code that can fail and that changes the store is a function
    \<open>'s \<times> bool list \<Rightarrow> ('e + 'a) \<times> ('s \<times> bool list)\<close>: the state survives an error, as it
    does in code that runs without a transaction. The list of booleans is the plan of
    faults: a call to the outside consumes one element and fails when it is \<open>True\<close>.
  \<^item> \<open>hoare P m Q E\<close> is the triple for such code: from a state with \<open>P\<close>, and
    under every plan of faults, a normal result satisfies \<open>Q\<close> and an error
    satisfies \<open>E\<close>. The rules are collected in \<open>wp\<close>.
\<close>

named_theorems wp "introduction rules for hoare triples"
named_theorems go_simps "unfolding rules for the string functions"

section \<open>Strings\<close>

definition HasPrefix :: "string \<Rightarrow> string \<Rightarrow> bool" where
  "HasPrefix s p \<longleftrightarrow> take (length p) s = p"

definition TrimPrefix :: "string \<Rightarrow> string \<Rightarrow> string" where
  "TrimPrefix s p = (if HasPrefix s p then drop (length p) s else s)"

definition is_space :: "char \<Rightarrow> bool" where
  "is_space c \<longleftrightarrow> c \<in> {CHR '' '', CHR 0x09, CHR 0x0A, CHR 0x0B, CHR 0x0C, CHR 0x0D}"

definition TrimLeftF :: "(char \<Rightarrow> bool) \<Rightarrow> string \<Rightarrow> string" where
  "TrimLeftF p s = dropWhile p s"

definition TrimRightF :: "(char \<Rightarrow> bool) \<Rightarrow> string \<Rightarrow> string" where
  "TrimRightF p s = rev (dropWhile p (rev s))"

definition TrimSpace :: "string \<Rightarrow> string" where
  "TrimSpace s = TrimRightF is_space (TrimLeftF is_space s)"

definition is_digit :: "char \<Rightarrow> bool" where
  "is_digit c \<longleftrightarrow> 48 \<le> (of_char c :: nat) \<and> (of_char c :: nat) \<le> 57"

definition is_lower :: "char \<Rightarrow> bool" where
  "is_lower c \<longleftrightarrow> 97 \<le> (of_char c :: nat) \<and> (of_char c :: nat) \<le> 122"

definition is_upper :: "char \<Rightarrow> bool" where
  "is_upper c \<longleftrightarrow> 65 \<le> (of_char c :: nat) \<and> (of_char c :: nat) \<le> 90"

definition to_upper :: "char \<Rightarrow> char" where
  "to_upper c = (if is_lower c then char_of ((of_char c :: nat) - 32) else c)"

definition to_lower :: "char \<Rightarrow> char" where
  "to_lower c = (if is_upper c then char_of ((of_char c :: nat) + 32) else c)"

definition ToUpper :: "string \<Rightarrow> string" where
  "ToUpper s = map to_upper s"

definition ToLower :: "string \<Rightarrow> string" where
  "ToLower s = map to_lower s"

text \<open>\<open>strings.EqualFold\<close>: equality up to the case of the letters.\<close>

definition EqualFold :: "string \<Rightarrow> string \<Rightarrow> bool" where
  "EqualFold a b \<longleftrightarrow> ToLower a = ToLower b"

text \<open>\<open>strings.SplitN\<close> for a one-byte separator and a positive count.\<close>

fun SplitN :: "string \<Rightarrow> char \<Rightarrow> nat \<Rightarrow> string list" where
  "SplitN s c 0 = []"
| "SplitN s c (Suc 0) = [s]"
| "SplitN s c (Suc (Suc n)) =
     (case dropWhile (\<lambda>x. x \<noteq> c) s of
        [] \<Rightarrow> [s]
      | _ # rest \<Rightarrow> takeWhile (\<lambda>x. x \<noteq> c) s # SplitN rest c (Suc n))"

definition digit_val :: "char \<Rightarrow> int" where
  "digit_val c = int ((of_char c :: nat) - 48)"

fun digits_val :: "int \<Rightarrow> string \<Rightarrow> int" where
  "digits_val acc [] = acc"
| "digits_val acc (c # cs) = digits_val (acc * 10 + digit_val c) cs"

text \<open>
  \<open>strconv.Atoi\<close> on a 64-bit platform: an optional sign, at least one decimal digit and
  nothing else, and a value that fits the type \<open>int\<close>; \<open>None\<close> is a non-nil error.
\<close>

definition Atoi :: "string \<Rightarrow> int option" where
  "Atoi s =
     (let neg = (s \<noteq> [] \<and> hd s = CHR ''-'');
          ds = (if s \<noteq> [] \<and> (hd s = CHR ''-'' \<or> hd s = CHR ''+'') then tl s else s);
          v = (if neg then - digits_val 0 ds else digits_val 0 ds)
      in if ds = [] \<or> \<not> list_all is_digit ds then None
         else if v < - (2 ^ 63) \<or> 2 ^ 63 \<le> v then None
         else Some v)"

text \<open>Decimal notation of a natural number, as \<open>%d\<close> prints it.\<close>

definition digit_char :: "nat \<Rightarrow> char" where
  "digit_char n = char_of (n + 48)"

fun show_nat :: "nat \<Rightarrow> string" where
  "show_nat n = (if n < 10 then [digit_char n] else show_nat (n div 10) @ [digit_char (n mod 10)])"

declare show_nat.simps [simp del]

definition show_int :: "int \<Rightarrow> string" where
  "show_int i = (if i < 0 then CHR ''-'' # show_nat (nat (- i)) else show_nat (nat i))"

section \<open>Rows of a table\<close>

definition row_get :: "('r \<Rightarrow> 'k) \<Rightarrow> 'k \<Rightarrow> 'r list \<Rightarrow> 'r option" where
  "row_get key i rs = List.find (\<lambda>r. key r = i) rs"

fun row_save :: "('r \<Rightarrow> 'k) \<Rightarrow> 'r \<Rightarrow> 'r list \<Rightarrow> 'r list" where
  "row_save key r [] = [r]"
| "row_save key r (x # xs) = (if key x = key r then r # xs else x # row_save key r xs)"

definition row_delete :: "('r \<Rightarrow> 'k) \<Rightarrow> 'k \<Rightarrow> 'r list \<Rightarrow> 'r list" where
  "row_delete key i rs = filter (\<lambda>r. key r \<noteq> i) rs"

section \<open>Code with a store and faults\<close>

type_synonym ('s, 'e, 'a) io = "'s \<times> bool list \<Rightarrow> ('e + 'a) \<times> ('s \<times> bool list)"

definition ret :: "'a \<Rightarrow> ('s, 'e, 'a) io" where
  "ret x = (\<lambda>s. (Inr x, s))"

definition throw :: "'e \<Rightarrow> ('s, 'e, 'a) io" where
  "throw e = (\<lambda>s. (Inl e, s))"

definition bind :: "('s, 'e, 'a) io \<Rightarrow> ('a \<Rightarrow> ('s, 'e, 'b) io) \<Rightarrow> ('s, 'e, 'b) io" where
  "bind m f = (\<lambda>s. case m s of (Inl e, s') \<Rightarrow> (Inl e, s') | (Inr x, s') \<Rightarrow> f x s')"

text \<open>\<open>if !b \<lbrace> return err \<rbrace>\<close>.\<close>

definition require :: "bool \<Rightarrow> 'e \<Rightarrow> ('s, 'e, unit) io" where
  "require b e = (if b then ret () else throw e)"

text \<open>A call whose error the caller inspects or discards instead of returning it.\<close>

definition attempt :: "('s, 'e, 'a) io \<Rightarrow> ('s, 'e, 'e + 'a) io" where
  "attempt m = (\<lambda>s. case m s of (r, s') \<Rightarrow> (Inr r, s'))"

text \<open>A call to the outside: it fails with \<open>e\<close> and no effect, or it runs.\<close>

definition call :: "'e \<Rightarrow> ('s \<Rightarrow> ('e + 'a) \<times> 's) \<Rightarrow> ('s, 'e, 'a) io" where
  "call e f = (\<lambda>(d, fs). case fs of
       [] \<Rightarrow> (case f d of (r, d') \<Rightarrow> (r, (d', [])))
     | b # bs \<Rightarrow> if b then (Inl e, (d, bs)) else (case f d of (r, d') \<Rightarrow> (r, (d', bs))))"

definition reads :: "'e \<Rightarrow> ('s \<Rightarrow> 'e + 'a) \<Rightarrow> ('s, 'e, 'a) io" where
  "reads e f = call e (\<lambda>d. (f d, d))"

definition writes :: "'e \<Rightarrow> ('s \<Rightarrow> 's) \<Rightarrow> ('s, 'e, unit) io" where
  "writes e f = call e (\<lambda>d. (Inr (), f d))"

text \<open>A write that the outside may refuse, for instance by a constraint; a refusal changes nothing.\<close>

definition updates :: "'e \<Rightarrow> ('s \<Rightarrow> 'e + 's) \<Rightarrow> ('s, 'e, unit) io" where
  "updates e f = call e (\<lambda>d. case f d of Inl x \<Rightarrow> (Inl x, d) | Inr d' \<Rightarrow> (Inr (), d'))"

text \<open>A write with a result: the key of a new row.\<close>

definition inserts :: "'e \<Rightarrow> ('s \<Rightarrow> 'e + ('a \<times> 's)) \<Rightarrow> ('s, 'e, 'a) io" where
  "inserts e f = call e (\<lambda>d. case f d of Inl x \<Rightarrow> (Inl x, d) | Inr (a, d') \<Rightarrow> (Inr a, d'))"

fun for_each :: "'a list \<Rightarrow> ('a \<Rightarrow> ('s, 'e, unit) io) \<Rightarrow> ('s, 'e, unit) io" where
  "for_each [] f = ret ()"
| "for_each (x # xs) f = bind (f x) (\<lambda>_. for_each xs f)"

definition hoare ::
  "('s \<Rightarrow> bool) \<Rightarrow> ('s, 'e, 'a) io \<Rightarrow> ('a \<Rightarrow> 's \<Rightarrow> bool) \<Rightarrow> ('e \<Rightarrow> 's \<Rightarrow> bool) \<Rightarrow> bool" where
  "hoare P m Q E \<longleftrightarrow> (\<forall>d fs. P d \<longrightarrow>
     (case m (d, fs) of (Inr x, (d', _)) \<Rightarrow> Q x d' | (Inl e, (d', _)) \<Rightarrow> E e d'))"

text \<open>The code keeps \<open>I\<close>, whether it returns normally or fails.\<close>

definition keeps :: "('s \<Rightarrow> bool) \<Rightarrow> ('s, 'e, 'a) io \<Rightarrow> bool" where
  "keeps I m \<longleftrightarrow> hoare I m (\<lambda>_. I) (\<lambda>_. I)"

section \<open>Lemmas on strings\<close>

lemma length_ToUpper [simp]: "length (ToUpper s) = length s"
  by (simp add: ToUpper_def)

lemma to_upper_idem [simp]: "to_upper (to_upper c) = to_upper c"
  by (auto simp: to_upper_def is_lower_def of_char_of)

lemma ToUpper_idem [simp]: "ToUpper (ToUpper s) = ToUpper s"
  by (simp add: ToUpper_def)

lemma EqualFold_refl [simp]: "EqualFold s s"
  by (simp add: EqualFold_def)

lemma EqualFold_sym: "EqualFold a b \<Longrightarrow> EqualFold b a"
  by (simp add: EqualFold_def)

lemma EqualFold_trans: "EqualFold a b \<Longrightarrow> EqualFold b c \<Longrightarrow> EqualFold a c"
  by (simp add: EqualFold_def)

lemma SplitN_no_sep [simp]: "c \<notin> set s \<Longrightarrow> SplitN s c (Suc n) = [s]"
proof -
  assume "c \<notin> set s"
  then have "dropWhile (\<lambda>x. x \<noteq> c) s = []" by (auto simp: dropWhile_eq_Nil_conv)
  then show ?thesis by (cases n) (simp_all del: dropWhile_eq_Nil_conv)
qed

lemma SplitN_sep:
  assumes "c \<notin> set a"
  shows "SplitN (a @ c # b) c (Suc (Suc n)) = a # SplitN b c (Suc n)"
proof -
  have "dropWhile (\<lambda>x. x \<noteq> c) (a @ c # b) = c # b"
    using assms by (subst dropWhile_append2) auto
  moreover have "takeWhile (\<lambda>x. x \<noteq> c) (a @ c # b) = a"
    using assms by (subst takeWhile_append2) auto
  ultimately show ?thesis by simp
qed

lemma digits_val_append: "digits_val acc (xs @ ys) = digits_val (digits_val acc xs) ys"
  by (induction xs arbitrary: acc) auto

lemma digits_val_nonneg: "0 \<le> acc \<Longrightarrow> 0 \<le> digits_val acc s"
  by (induction s arbitrary: acc) (auto simp: digit_val_def)

lemma of_char_digit_char: "n < 10 \<Longrightarrow> (of_char (digit_char n) :: nat) = n + 48"
  by (simp add: digit_char_def of_char_of)

lemma is_digit_digit_char [simp]: "n < 10 \<Longrightarrow> is_digit (digit_char n)"
  by (simp add: is_digit_def of_char_digit_char)

lemma digit_val_digit_char [simp]: "n < 10 \<Longrightarrow> digit_val (digit_char n) = int n"
  by (simp add: digit_val_def of_char_digit_char)

lemma show_nat_nonempty [simp]: "show_nat n \<noteq> []"
  by (subst show_nat.simps) simp

lemma show_nat_digits: "list_all is_digit (show_nat n)"
proof (induction n rule: show_nat.induct)
  case (1 n)
  then show ?case by (subst show_nat.simps) auto
qed

lemma digits_val_show_nat: "digits_val 0 (show_nat n) = int n"
proof (induction n rule: show_nat.induct)
  case (1 n)
  show ?case
  proof (cases "n < 10")
    case True
    then show ?thesis by (subst show_nat.simps) simp
  next
    case False
    then have "digits_val 0 (show_nat n) = int (n div 10) * 10 + int (n mod 10)"
      using "1.IH" by (subst show_nat.simps) (simp add: digits_val_append)
    also have "\<dots> = int n" by (simp add: zdiv_int zmod_int)
    finally show ?thesis .
  qed
qed

lemma is_digit_not_sign: "is_digit c \<Longrightarrow> c \<noteq> CHR ''-'' \<and> c \<noteq> CHR ''+'' \<and> c \<noteq> CHR ''.'' \<and> c \<noteq> CHR ''v''"
  by (auto simp: is_digit_def)

lemma show_nat_hd: "is_digit (hd (show_nat n))"
  using show_nat_digits [of n] by (cases "show_nat n") auto

lemma Atoi_show_nat: "int n < 2 ^ 63 \<Longrightarrow> Atoi (show_nat n) = Some (int n)"
  using show_nat_hd [of n] show_nat_digits [of n]
  by (auto simp: Atoi_def Let_def digits_val_show_nat dest: is_digit_not_sign)

lemma show_nat_inj: "show_nat m = show_nat n \<Longrightarrow> m = n"
  by (metis digits_val_show_nat of_nat_eq_iff)

section \<open>Lemmas on rows\<close>

lemma row_get_save [simp]:
  "row_get key i (row_save key r rs) = (if i = key r then Some r else row_get key i rs)"
  by (induction rs) (auto simp: row_get_def)

lemma row_get_delete [simp]:
  "row_get key i (row_delete key j rs) = (if i = j then None else row_get key i rs)"
  by (induction rs) (auto simp: row_get_def row_delete_def)

lemma row_get_key: "row_get key i rs = Some r \<Longrightarrow> key r = i"
  by (auto simp: row_get_def find_Some_iff)

lemma row_get_mem: "row_get key i rs = Some r \<Longrightarrow> r \<in> set rs"
  by (auto simp: row_get_def find_Some_iff)

lemma row_get_append:
  "row_get key i (xs @ ys) = (case row_get key i xs of Some r \<Rightarrow> Some r | None \<Rightarrow> row_get key i ys)"
  by (induction xs) (auto simp: row_get_def)

lemma row_get_None: "row_get key i rs = None \<longleftrightarrow> i \<notin> key ` set rs"
  by (auto simp: row_get_def find_None_iff)

lemma set_row_save: "set (row_save key r rs) \<subseteq> insert r (set rs)"
  by (induction rs) auto

lemma row_save_mem: "r \<in> set (row_save key r rs)"
  by (induction rs) auto

lemma row_save_keeps: "x \<in> set rs \<Longrightarrow> key x \<noteq> key r \<Longrightarrow> x \<in> set (row_save key r rs)"
  by (induction rs) auto

lemma key_row_save: "key ` set (row_save key r rs) = insert (key r) (key ` set rs)"
  by (induction rs) auto

lemma map_key_row_save:
  "map key (row_save key r rs) = (if key r \<in> key ` set rs then map key rs else map key rs @ [key r])"
  by (induction rs) auto

lemma distinct_row_save [simp]:
  "distinct (map key rs) \<Longrightarrow> distinct (map key (row_save key r rs))"
  by (simp add: map_key_row_save)

lemma distinct_row_delete [simp]:
  "distinct (map key rs) \<Longrightarrow> distinct (map key (row_delete key i rs))"
  by (simp add: row_delete_def distinct_map_filter)

lemma row_get_iff_mem:
  "distinct (map key rs) \<Longrightarrow> row_get key i rs = Some r \<longleftrightarrow> r \<in> set rs \<and> key r = i"
  by (induction rs) (auto simp: row_get_def)

lemma row_save_new: "key r \<notin> key ` set rs \<Longrightarrow> row_save key r rs = rs @ [r]"
  by (induction rs) auto

lemma set_row_save_distinct:
  "distinct (map key rs) \<Longrightarrow> set (row_save key r rs) = insert r {x \<in> set rs. key x \<noteq> key r}"
proof (induction rs)
  case (Cons x xs)
  then show ?case by (auto simp: image_iff)
qed simp

text \<open>
  What a client of a table relies on: the three operations of a repository (\<open>First\<close> by
  primary key, \<open>Save\<close> and \<open>Delete\<close>) and the laws that relate them.
\<close>

locale keyed_rows =
  fixes key :: "'r \<Rightarrow> 'k"
    and get :: "'k \<Rightarrow> 't \<Rightarrow> 'r option"
    and save :: "'r \<Rightarrow> 't \<Rightarrow> 't"
    and delete :: "'k \<Rightarrow> 't \<Rightarrow> 't"
  assumes get_save: "get i (save r t) = (if i = key r then Some r else get i t)"
    and get_delete: "get i (delete j t) = (if i = j then None else get i t)"
    and get_key: "get i t = Some r \<Longrightarrow> key r = i"
begin

lemma save_all:
  assumes "\<And>i r. get i t = Some r \<Longrightarrow> P r" and "P r"
  shows "get i (save r t) = Some r' \<Longrightarrow> P r'"
  using assms by (auto simp: get_save split: if_splits)

lemma delete_all:
  assumes "\<And>i r. get i t = Some r \<Longrightarrow> P r"
  shows "get i (delete j t) = Some r \<Longrightarrow> P r"
  using assms by (auto simp: get_delete split: if_splits)

lemma save_twice: "key r = key r' \<Longrightarrow> get i (save r' (save r t)) = get i (save r' t)"
  by (simp add: get_save)

lemma save_other: "i \<noteq> key r \<Longrightarrow> get i (save r t) = get i t"
  by (simp add: get_save)

end

interpretation rows: keyed_rows key "row_get key" "row_save key" "row_delete key" for key
  by unfold_locales (auto dest: row_get_key)

section \<open>Rules for triples\<close>

lemma hoareI:
  assumes "\<And>d fs x d' fs'. P d \<Longrightarrow> m (d, fs) = (Inr x, (d', fs')) \<Longrightarrow> Q x d'"
    and "\<And>d fs e d' fs'. P d \<Longrightarrow> m (d, fs) = (Inl e, (d', fs')) \<Longrightarrow> E e d'"
  shows "hoare P m Q E"
proof -
  have "case m (d, fs) of (Inr x, (d', _)) \<Rightarrow> Q x d' | (Inl e, (d', _)) \<Rightarrow> E e d'" if "P d" for d fs
  proof -
    obtain r d' fs' where m: "m (d, fs) = (r, (d', fs'))" by (metis prod.exhaust)
    with assms [OF that] show ?thesis by (cases r) simp_all
  qed
  then show ?thesis by (simp add: hoare_def)
qed

lemma hoare_Inr: "hoare P m Q E \<Longrightarrow> P d \<Longrightarrow> m (d, fs) = (Inr x, (d', fs')) \<Longrightarrow> Q x d'"
  unfolding hoare_def by (drule spec [of _ d], drule spec [of _ fs]) simp

lemma hoare_Inl: "hoare P m Q E \<Longrightarrow> P d \<Longrightarrow> m (d, fs) = (Inl e, (d', fs')) \<Longrightarrow> E e d'"
  unfolding hoare_def by (drule spec [of _ d], drule spec [of _ fs]) simp

lemma hoare_run:
  assumes "hoare (\<lambda>d. d = d0) m Q E" "m (d0, fs) = (r, (d', fs'))"
  shows "case r of Inl e \<Rightarrow> E e d' | Inr x \<Rightarrow> Q x d'"
  using assms by (cases r) (auto dest: hoare_Inr [OF assms(1) refl] hoare_Inl [OF assms(1) refl])

text \<open>Code that cannot return normally from a state, and leaves it alone.\<close>

lemma hoare_refused:
  assumes "hoare (\<lambda>d. d = d0) m (\<lambda>_ _. False) (\<lambda>_ d. d = d0)"
  shows "\<exists>e fs'. m (d0, fs) = (Inl e, (d0, fs'))"
proof -
  obtain r d' fs' where m: "m (d0, fs) = (r, (d', fs'))" by (metis prod.exhaust)
  then show ?thesis using hoare_run [OF assms m] by (cases r) auto
qed

text \<open>A triple for each single start state.\<close>

lemma hoare_state: "(\<And>d0. P d0 \<Longrightarrow> hoare (\<lambda>d. d = d0) m Q E) \<Longrightarrow> hoare P m Q E"
  by (simp add: hoare_def)

lemma hoare_pre: "hoare P' m Q E \<Longrightarrow> (\<And>d. P d \<Longrightarrow> P' d) \<Longrightarrow> hoare P m Q E"
  by (rule hoareI; (rule hoare_Inr hoare_Inl, assumption, drule meta_spec, drule (1) meta_mp, assumption, assumption))

lemma hoare_post:
  "hoare P m Q' E' \<Longrightarrow> (\<And>x d. Q' x d \<Longrightarrow> Q x d) \<Longrightarrow> (\<And>e d. E' e d \<Longrightarrow> E e d) \<Longrightarrow> hoare P m Q E"
  unfolding hoare_def by (fastforce split: prod.splits sum.splits)

lemma hoare_conj:
  "hoare P m Q E \<Longrightarrow> hoare P' m Q' E' \<Longrightarrow>
   hoare (\<lambda>d. P d \<and> P' d) m (\<lambda>x d. Q x d \<and> Q' x d) (\<lambda>e d. E e d \<and> E' e d)"
  unfolding hoare_def by (fastforce split: prod.splits sum.splits)

lemma hoare_False: "hoare (\<lambda>_. False) m Q E"
  by (simp add: hoare_def)

lemma hoare_ret [wp]: "hoare (Q x) (ret x) Q E"
  by (simp add: hoare_def ret_def)

lemma hoare_throw [wp]: "hoare (E e) (throw e) Q E"
  by (simp add: hoare_def throw_def)

lemma hoare_bind [wp]:
  "(\<And>x. hoare (R x) (f x) Q E) \<Longrightarrow> hoare P m R E \<Longrightarrow> hoare P (bind m f) Q E"
  unfolding hoare_def bind_def by (fastforce split: prod.splits sum.splits)

lemma hoare_require [wp]: "hoare (\<lambda>d. if b then Q () d else E e d) (require b e) Q E"
  by (simp add: require_def hoare_ret hoare_throw)

lemma hoare_attempt [wp]:
  "hoare P m (\<lambda>x. Q (Inr x)) (\<lambda>e. Q (Inl e)) \<Longrightarrow> hoare P (attempt m) Q E"
proof (rule hoareI)
  fix d fs x d' fs'
  assume h: "hoare P m (\<lambda>x. Q (Inr x)) (\<lambda>e. Q (Inl e))" "P d"
    and "attempt m (d, fs) = (Inr x, (d', fs'))"
  then have "m (d, fs) = (x, (d', fs'))" by (auto simp: attempt_def split: prod.splits)
  with h show "Q x d'" by (cases x) (auto dest: hoare_Inr hoare_Inl)
qed (auto simp: attempt_def split: prod.splits)

lemma hoare_reads [wp]:
  "hoare (\<lambda>d. E e d \<and> (\<forall>x. f d = Inr x \<longrightarrow> Q x d) \<and> (\<forall>e'. f d = Inl e' \<longrightarrow> E e' d)) (reads e f) Q E"
  unfolding hoare_def reads_def call_def by (auto split: prod.splits sum.splits list.splits)

lemma hoare_writes [wp]: "hoare (\<lambda>d. E e d \<and> Q () (f d)) (writes e f) Q E"
  unfolding hoare_def writes_def call_def by (auto split: prod.splits sum.splits list.splits)

lemma hoare_updates [wp]:
  "hoare (\<lambda>d. E e d \<and> (\<forall>d'. f d = Inr d' \<longrightarrow> Q () d') \<and> (\<forall>e'. f d = Inl e' \<longrightarrow> E e' d)) (updates e f) Q E"
  unfolding hoare_def updates_def call_def by (auto split: prod.splits sum.splits list.splits)

lemma hoare_inserts [wp]:
  "hoare (\<lambda>d. E e d \<and> (\<forall>a d'. f d = Inr (a, d') \<longrightarrow> Q a d') \<and> (\<forall>e'. f d = Inl e' \<longrightarrow> E e' d)) (inserts e f) Q E"
  unfolding hoare_def inserts_def call_def by (auto split: prod.splits sum.splits list.splits)

lemma hoare_if [wp]:
  "(b \<Longrightarrow> hoare P1 m1 Q E) \<Longrightarrow> (\<not> b \<Longrightarrow> hoare P2 m2 Q E) \<Longrightarrow>
   hoare (\<lambda>d. if b then P1 d else P2 d) (if b then m1 else m2) Q E"
  by simp

lemma hoare_case_option [wp]:
  "(x = None \<Longrightarrow> hoare P1 m1 Q E) \<Longrightarrow> (\<And>y. x = Some y \<Longrightarrow> hoare (P2 y) (m2 y) Q E) \<Longrightarrow>
   hoare (\<lambda>d. case x of None \<Rightarrow> P1 d | Some y \<Rightarrow> P2 y d) (case x of None \<Rightarrow> m1 | Some y \<Rightarrow> m2 y) Q E"
  by (cases x) auto

lemma hoare_case_sum [wp]:
  "(\<And>y. x = Inl y \<Longrightarrow> hoare (P1 y) (m1 y) Q E) \<Longrightarrow> (\<And>y. x = Inr y \<Longrightarrow> hoare (P2 y) (m2 y) Q E) \<Longrightarrow>
   hoare (\<lambda>d. case x of Inl y \<Rightarrow> P1 y d | Inr y \<Rightarrow> P2 y d) (case x of Inl y \<Rightarrow> m1 y | Inr y \<Rightarrow> m2 y) Q E"
  by (cases x) auto

lemma hoare_case_list [wp]:
  "(x = [] \<Longrightarrow> hoare P1 m1 Q E) \<Longrightarrow> (\<And>y ys. x = y # ys \<Longrightarrow> hoare (P2 y ys) (m2 y ys) Q E) \<Longrightarrow>
   hoare (\<lambda>d. case x of [] \<Rightarrow> P1 d | y # ys \<Rightarrow> P2 y ys d) (case x of [] \<Rightarrow> m1 | y # ys \<Rightarrow> m2 y ys) Q E"
  by (cases x) auto

lemma hoare_case_prod [wp]:
  "(\<And>a b. x = (a, b) \<Longrightarrow> hoare (P a b) (m a b) Q E) \<Longrightarrow>
   hoare (\<lambda>d. case x of (a, b) \<Rightarrow> P a b d) (case x of (a, b) \<Rightarrow> m a b) Q E"
  by (cases x) auto

text \<open>A triple from each single state, as a weakest precondition.\<close>

lemma hoare_spec:
  assumes "\<And>d0. hoare (\<lambda>d. d = d0) m (Q d0) (E d0)"
  shows "hoare (\<lambda>d. (\<forall>x d'. Q d x d' \<longrightarrow> R x d') \<and> (\<forall>e d'. E d e d' \<longrightarrow> F e d')) m R F"
  by (rule hoare_state, rule hoare_post [OF assms]) auto

text \<open>Code that only reads: what it returns from each state gives its precondition.\<close>

lemma hoare_readonly:
  assumes "\<And>d. hoare (\<lambda>d'. d' = d) m (\<lambda>x d'. d' = d \<and> R d x) (\<lambda>_ d'. d' = d)"
  shows "hoare (\<lambda>d. (\<forall>x. R d x \<longrightarrow> Q x d) \<and> (\<forall>e. E e d)) m Q E"
proof (rule hoareI)
  fix d fs x d' fs'
  assume "(\<forall>x. R d x \<longrightarrow> Q x d) \<and> (\<forall>e. E e d)" "m (d, fs) = (Inr x, (d', fs'))"
  with hoare_Inr [OF assms refl, of d fs x d' fs'] show "Q x d'" by simp
next
  fix d fs e d' fs'
  assume "(\<forall>x. R d x \<longrightarrow> Q x d) \<and> (\<forall>e. E e d)" "m (d, fs) = (Inl e, (d', fs'))"
  with hoare_Inl [OF assms refl, of d fs e d' fs'] show "E e d'" by simp
qed

text \<open>Code that keeps an invariant.\<close>

lemma keeps_hoare: "keeps I m \<Longrightarrow> hoare I m (\<lambda>_. I) (\<lambda>_. I)"
  by (simp add: keeps_def)

lemma keeps_run: "keeps I m \<Longrightarrow> I d \<Longrightarrow> m (d, fs) = (r, (d', fs')) \<Longrightarrow> I d'"
  unfolding keeps_def by (cases r) (auto dest: hoare_Inr hoare_Inl)

lemma keeps_conj: "keeps I m \<Longrightarrow> keeps J m \<Longrightarrow> keeps (\<lambda>d. I d \<and> J d) m"
  unfolding keeps_def by (rule hoare_post [OF hoare_conj]) auto

lemma keeps_ret [simp, intro]: "keeps I (ret x)"
  by (simp add: keeps_def hoare_def ret_def)

lemma keeps_throw [simp, intro]: "keeps I (throw e)"
  by (simp add: keeps_def hoare_def throw_def)

lemma keeps_require [simp, intro]: "keeps I (require b e)"
  by (simp add: require_def)

lemma keeps_reads [simp, intro]: "keeps I (reads e f)"
  unfolding keeps_def by (rule hoare_pre [OF hoare_reads]) auto

lemma keeps_writes [intro]: "(\<And>d. I d \<Longrightarrow> I (f d)) \<Longrightarrow> keeps I (writes e f)"
  unfolding keeps_def by (rule hoare_pre [OF hoare_writes]) auto

lemma keeps_updates [intro]: "(\<And>d d'. I d \<Longrightarrow> f d = Inr d' \<Longrightarrow> I d') \<Longrightarrow> keeps I (updates e f)"
  unfolding keeps_def by (rule hoare_pre [OF hoare_updates]) auto

lemma keeps_inserts [intro]:
  "(\<And>d a d'. I d \<Longrightarrow> f d = Inr (a, d') \<Longrightarrow> I d') \<Longrightarrow> keeps I (inserts e f)"
  unfolding keeps_def by (rule hoare_pre [OF hoare_inserts]) auto

lemma keeps_bind [intro]: "keeps I m \<Longrightarrow> (\<And>x. keeps I (f x)) \<Longrightarrow> keeps I (bind m f)"
  unfolding keeps_def by (rule hoare_bind)

lemma keeps_attempt [intro]: "keeps I m \<Longrightarrow> keeps I (attempt m)"
  unfolding keeps_def by (rule hoare_attempt)

lemma keeps_if [intro]: "(b \<Longrightarrow> keeps I m) \<Longrightarrow> (\<not> b \<Longrightarrow> keeps I m') \<Longrightarrow> keeps I (if b then m else m')"
  by simp

lemma keeps_case_option [intro]:
  "(x = None \<Longrightarrow> keeps I m) \<Longrightarrow> (\<And>y. x = Some y \<Longrightarrow> keeps I (f y)) \<Longrightarrow>
   keeps I (case x of None \<Rightarrow> m | Some y \<Rightarrow> f y)"
  by (cases x) auto

lemma keeps_case_sum [intro]:
  "(\<And>y. x = Inl y \<Longrightarrow> keeps I (f y)) \<Longrightarrow> (\<And>y. x = Inr y \<Longrightarrow> keeps I (g y)) \<Longrightarrow>
   keeps I (case x of Inl y \<Rightarrow> f y | Inr y \<Rightarrow> g y)"
  by (cases x) auto

lemma keeps_for_each [intro]:
  "(\<And>x. x \<in> set xs \<Longrightarrow> keeps I (f x)) \<Longrightarrow> keeps I (for_each xs f)"
  by (induction xs) auto

text \<open>Running code forwards, without faults.\<close>

lemma run_ret [simp]: "ret x s = (Inr x, s)"
  by (simp add: ret_def)

lemma run_throw [simp]: "throw e s = (Inl e, s)"
  by (simp add: throw_def)

lemma run_require [simp]: "require b e s = (if b then (Inr (), s) else (Inl e, s))"
  by (simp add: require_def)

lemma run_reads [simp]: "reads e f (d, []) = (f d, (d, []))"
  by (simp add: reads_def call_def)

lemma run_writes [simp]: "writes e f (d, []) = (Inr (), (f d, []))"
  by (simp add: writes_def call_def)

lemma run_updates [simp]:
  "updates e f (d, []) = (case f d of Inl x \<Rightarrow> (Inl x, (d, [])) | Inr d' \<Rightarrow> (Inr (), (d', [])))"
  by (simp add: updates_def call_def split: sum.splits)

lemma run_inserts [simp]:
  "inserts e f (d, []) = (case f d of Inl x \<Rightarrow> (Inl x, (d, [])) | Inr (a, d') \<Rightarrow> (Inr a, (d', [])))"
  by (simp add: inserts_def call_def split: sum.splits prod.splits)

lemma run_bind: "bind m f s = (case m s of (Inl e, s') \<Rightarrow> (Inl e, s') | (Inr x, s') \<Rightarrow> f x s')"
  by (simp add: bind_def)

lemma run_bind_Inr [simp]: "m s = (Inr x, s') \<Longrightarrow> bind m f s = f x s'"
  by (simp add: bind_def)

lemma run_bind_Inl [simp]: "m s = (Inl e, s') \<Longrightarrow> bind m f s = (Inl e, s')"
  by (simp add: bind_def)

lemma run_attempt [simp]: "m s = (r, s') \<Longrightarrow> attempt m s = (Inr r, s')"
  by (simp add: attempt_def)

lemma reads_state: "reads e f (d, fs) = (r, (d', fs')) \<Longrightarrow> d' = d"
  by (auto simp: reads_def call_def split: list.splits if_splits)

end
