(* ===== verification/Errors.thy ===== *)
theory Errors
  imports Prelude
begin

text \<open>
  The types that every component shares: keys, opaque documents, raw JSON columns and the
  errors that the sources return. \<open>uuid.UUID\<close> is \<^typ>\<open>nat\<close> and \<open>uuid.Nil\<close> is \<open>0\<close>.
\<close>

type_synonym uuid = nat

text \<open>A configuration block that the modelled code copies and never looks into.\<close>

type_synonym doc = string

text \<open>A \<open>json.RawMessage\<close> that is present: bytes that do not decode, or a document.\<close>

datatype 'a raw = Corrupt | Doc 'a

text \<open>
  Errors. The constructors before \<open>Panic\<close> are the sentinels that callers compare with
  \<open>errors.Is\<close>; \<open>Panic\<close> is a nil dereference, which ends the request; \<open>Msg\<close> is \<open>errors.New\<close> and \<open>Wrap\<close> is \<open>fmt.Errorf\<close> with \<open>%w\<close>, both with the
  format string of the source; \<open>Join\<close> is \<open>errors.Join\<close>.
\<close>

datatype error =
    ErrDB
  | ErrRecordNotFound
  | ErrDuplicatedKey
  | ErrPolicyNotFound
  | ErrJSON
  | ErrK8s
  | ErrK8sNotFound
  | ErrK8sAlreadyExists
  | ErrStreamNotFound
  | ErrTemplateNotStreamEnabled
  | ErrStreamHasRoutes
  | ErrStreamTemplateNotFound
  | ErrStreamTemplateWrongProject
  | ErrStreamNameTaken
  | ErrStreamNamespaceNotRegistered
  | ErrStreamNamespaceNotDeployable
  | ErrInvalidStreamName
  | ErrStreamsUnsupported
  | ErrDomainTemplateInUse
  | ErrNoListener
  | ErrListenerPortConflict
  | ErrTLSPassthroughNotSupported
  | ErrInvalidListener
  | ErrDomainNotFound
  | ErrCertificateNotFound
  | ErrCertificateWrongUsage
  | ErrGatewayApply
  | ErrCertificateNotReady
  | ErrNoBoundListener
  | ErrUnknownBoundListener
  | ErrNoHostedZone | ErrDNSRecordExists | ErrInvalidRecordType | ErrHostedZoneMismatch | ErrApexCNAME | ErrHostnameClaimed
  | ErrForeignRecordExists | ErrDNSProviderUnavailable | ErrDNS
  | ErrL4RejectsL7Field
  | ErrL4ExternalBackend
  | ErrL4MissingListenerPort
  | ErrL4MissingBackend
  | ErrPortCollision
  | ErrPortNotClaimed
  | ErrRouteOwnerAmbiguous
  | ErrRouteProtocolNotL4
  | ErrInvalidListenerPort
  | ErrReservedPort
  | ErrPortOutOfRange
  | ErrNoStreamPorts
  | ErrInvalidStreamPort
  | ErrStreamPortInUse
  | ErrCertificateInUse
  | ErrCSRRequired
  | ErrExportNotApplicable
  | ErrCertificateNotReadyForExport
  | ErrExportGrantUnavailable
  | ErrClientRequiresPrivateCA
  | ErrCSRRequiresClient
  | ErrServerRequiresManagedKey
  | Panic string
  | Msg string
  | Wrap string error
  | Join "error list"

fun errors_Is :: "error \<Rightarrow> error \<Rightarrow> bool" where
  "errors_Is (Wrap f e) t = (Wrap f e = t \<or> errors_Is e t)"
| "errors_Is (Join es) t = (Join es = t \<or> (\<exists>e \<in> set es. errors_Is e t))"
| "errors_Is e t = (e = t)"

section \<open>Checks\<close>

text \<open>
  A validator returns an error or nothing. A sequence of \<open>if ... \<lbrace> return err \<rbrace>\<close> statements is
  \<open>checks\<close> of the list of the single checks: the first error wins.
\<close>

type_synonym check = "error + unit"

definition fail_if :: "bool \<Rightarrow> string \<Rightarrow> check" where
  "fail_if b f = (if b then Inl (Msg f) else Inr ())"

fun checks :: "check list \<Rightarrow> check" where
  "checks [] = Inr ()"
| "checks (Inl e # cs) = Inl e"
| "checks (Inr _ # cs) = checks cs"

definition check_each :: "('a \<Rightarrow> check) \<Rightarrow> 'a list \<Rightarrow> check" where
  "check_each f xs = checks (map f xs)"

definition check_opt :: "('a \<Rightarrow> check) \<Rightarrow> 'a option \<Rightarrow> check" where
  "check_opt f x = (case x of None \<Rightarrow> Inr () | Some y \<Rightarrow> f y)"

definition check_when :: "bool \<Rightarrow> check \<Rightarrow> check" where
  "check_when b c = (if b then c else Inr ())"

text \<open>A check that returns a sentinel, or the sentinel wrapped with a message.\<close>

definition fail_with :: "bool \<Rightarrow> error \<Rightarrow> check" where
  "fail_with b e = (if b then Inl e else Inr ())"

text \<open>\<open>if err := ...; err != nil \<lbrace> return fmt.Errorf(f, err) \<rbrace>\<close>.\<close>

definition wrap_check :: "string \<Rightarrow> check \<Rightarrow> check" where
  "wrap_check f c = (case c of Inl e \<Rightarrow> Inl (Wrap f e) | Inr u \<Rightarrow> Inr u)"

lemma fail_if_ok [simp]: "fail_if b f = Inr () \<longleftrightarrow> \<not> b"
  by (simp add: fail_if_def)

lemma fail_with_ok [simp]: "fail_with b e = Inr () \<longleftrightarrow> \<not> b"
  by (simp add: fail_with_def)

lemma checks_ok [simp]: "checks cs = Inr () \<longleftrightarrow> (\<forall>c \<in> set cs. c = Inr ())"
  by (induction cs rule: checks.induct) auto

lemma check_each_ok [simp]: "check_each f xs = Inr () \<longleftrightarrow> (\<forall>x \<in> set xs. f x = Inr ())"
  by (simp add: check_each_def)

lemma check_opt_ok [simp]: "check_opt f x = Inr () \<longleftrightarrow> (\<forall>y. x = Some y \<longrightarrow> f y = Inr ())"
  by (simp add: check_opt_def split: option.splits)

lemma check_when_ok [simp]: "check_when b c = Inr () \<longleftrightarrow> (b \<longrightarrow> c = Inr ())"
  by (simp add: check_when_def)

lemma wrap_check_ok [simp]: "wrap_check f c = Inr () \<longleftrightarrow> c = Inr ()"
  by (simp add: wrap_check_def split: sum.splits)

end
