(* ===== verification/GoLib.thy ===== *)
theory GoLib
  imports Prelude
begin

text \<open>
  Functions of Go's standard library that the sources call and that decide what the
  validators accept: \<open>time.ParseDuration\<close>, \<open>net.ParseIP\<close> and \<open>net.ParseCIDR\<close>.

  \<open>ParseDuration\<close> works on 64-bit unsigned integers; the sum of the terms wraps as it does
  there. A fractional part is scaled exactly, where Go multiplies in \<open>float64\<close>: the two
  agree to the nanosecond for the fractions a double can hold. An address is the list of
  its bytes.
\<close>

section \<open>Durations\<close>

fun leadingInt :: "int \<Rightarrow> string \<Rightarrow> (int \<times> string) option" where
  "leadingInt x [] = Some (x, [])"
| "leadingInt x (c # cs) =
     (if \<not> is_digit c then Some (x, c # cs)
      else if x > 2 ^ 63 div 10 then None
      else if x * 10 + digit_val c > 2 ^ 63 then None
      else leadingInt (x * 10 + digit_val c) cs)"

text \<open>The digits after the point: their value, the power of ten they are divided by, and the rest.\<close>

fun leadingFraction :: "int \<Rightarrow> int \<Rightarrow> bool \<Rightarrow> string \<Rightarrow> int \<times> int \<times> string" where
  "leadingFraction x scale overflow [] = (x, scale, [])"
| "leadingFraction x scale overflow (c # cs) =
     (if \<not> is_digit c then (x, scale, c # cs)
      else if overflow \<or> x > (2 ^ 63 - 1) div 10 \<or> x * 10 + digit_val c > 2 ^ 63
      then leadingFraction x scale True cs
      else leadingFraction (x * 10 + digit_val c) (scale * 10) False cs)"

definition unitMap :: "(string \<times> int) list" where
  "unitMap =
    [(''ns'', 1), (''us'', 1000), ([CHR 0xC2, CHR 0xB5, CHR ''s''], 1000), ([CHR 0xCE, CHR 0xBC, CHR ''s''], 1000),
     (''ms'', 1000000), (''s'', 1000000000), (''m'', 60000000000), (''h'', 3600000000000)]"

definition is_numeric :: "char \<Rightarrow> bool" where
  "is_numeric c \<longleftrightarrow> is_digit c \<or> c = CHR ''.''"

text \<open>One term, a number and its unit, and what follows it.\<close>

definition duration_term :: "string \<Rightarrow> (int \<times> string) option" where
  "duration_term s =
     (if s = [] \<or> \<not> is_numeric (hd s) then None
      else (case leadingInt 0 s of None \<Rightarrow> None
      | Some (v, s1) \<Rightarrow>
         (let (f, scale, s2) = (if s1 \<noteq> [] \<and> hd s1 = CHR ''.'' then leadingFraction 0 1 False (tl s1) else (0, 1, s1));
              pre = (length s1 \<noteq> length s);
              post = (s1 \<noteq> [] \<and> hd s1 = CHR ''.'' \<and> length s2 \<noteq> length (tl s1));
              u = takeWhile (\<lambda>c. \<not> is_numeric c) s2
          in if \<not> pre \<and> \<not> post then None
             else if u = [] then None
             else (case map_of unitMap u of None \<Rightarrow> None
             | Some k \<Rightarrow>
                 if v > 2 ^ 63 div k then None
                 else if v * k + f * k div scale > 2 ^ 63 then None
                 else Some (v * k + f * k div scale, dropWhile (\<lambda>c. \<not> is_numeric c) s2)))))"

lemma leadingInt_length: "leadingInt x s = Some (v, r) \<Longrightarrow> length r \<le> length s"
  by (induction x s rule: leadingInt.induct) (auto split: if_splits)

lemma leadingFraction_length: "leadingFraction x k b s = (v, k', r) \<Longrightarrow> length r \<le> length s"
  by (induction x k b s rule: leadingFraction.induct) (auto split: if_splits)

lemma length_dropWhile_less: "takeWhile P s \<noteq> [] \<Longrightarrow> length (dropWhile P s) < length s"
  by (cases s) (auto simp: le_imp_less_Suc length_dropWhile_le split: if_splits)

lemma duration_term_length:
  assumes "duration_term s = Some (v, r)" shows "length r < length s"
proof -
  obtain w s1 where s1: "leadingInt 0 s = Some (w, s1)"
    using assms by (auto simp: duration_term_def split: if_splits option.splits)
  obtain f k s2 where s2: "(if s1 \<noteq> [] \<and> hd s1 = CHR ''.'' then leadingFraction 0 1 False (tl s1) else (0, 1, s1)) = (f, k, s2)"
    by (metis prod.exhaust)
  then have "length s2 \<le> length s1"
    using leadingFraction_length [of 0 1 False "tl s1" f k s2] by (cases s1) (auto split: if_splits)
  then have le: "length s2 \<le> length s" using leadingInt_length [OF s1] by simp
  have "r = dropWhile (\<lambda>c. \<not> is_numeric c) s2" "takeWhile (\<lambda>c. \<not> is_numeric c) s2 \<noteq> []"
    using assms s1 s2 by (auto simp: duration_term_def Let_def split: if_splits option.splits)
  then show ?thesis using length_dropWhile_less [of "\<lambda>c. \<not> is_numeric c" s2] le by simp
qed

function duration_terms :: "int \<Rightarrow> string \<Rightarrow> int option" where
  "duration_terms d s =
     (if s = [] then Some d
      else case duration_term s of None \<Rightarrow> None
      | Some (v, rest) \<Rightarrow>
          if (d + v) mod 2 ^ 64 > 2 ^ 63 then None else duration_terms ((d + v) mod 2 ^ 64) rest)"
  by auto
termination by (relation "measure (\<lambda>(d, s). length s)") (auto dest: duration_term_length)

declare duration_terms.simps [simp del]

text \<open>Nanoseconds; \<open>None\<close> is a non-nil error.\<close>

definition ParseDuration :: "string \<Rightarrow> int option" where
  "ParseDuration orig =
     (let signed = (orig \<noteq> [] \<and> (hd orig = CHR ''-'' \<or> hd orig = CHR ''+''));
          neg = (orig \<noteq> [] \<and> hd orig = CHR ''-'');
          s = (if signed then tl orig else orig)
      in if s = ''0'' then Some 0
         else if s = [] then None
         else case duration_terms 0 s of None \<Rightarrow> None
         | Some d \<Rightarrow> if neg then Some (- d)
             else if d > 2 ^ 63 - 1 then None else Some d)"

section \<open>Addresses\<close>

fun split_on :: "char \<Rightarrow> string \<Rightarrow> string list" where
  "split_on c [] = [[]]"
| "split_on c (x # xs) =
     (if x = c then [] # split_on c xs
      else case split_on c xs of [] \<Rightarrow> [[x]] | y # ys \<Rightarrow> (x # y) # ys)"

definition octet :: "string \<Rightarrow> int option" where
  "octet s =
     (if s = [] \<or> \<not> list_all is_digit s \<or> (length s > 1 \<and> hd s = CHR ''0'') \<or> digits_val 0 s > 255 then None
      else Some (digits_val 0 s))"

definition parseIPv4 :: "string \<Rightarrow> int list option" where
  "parseIPv4 s =
     (let os = map octet (split_on (CHR ''.'') s) in
      if length os = 4 \<and> list_all (\<lambda>x. x \<noteq> None) os then Some (map the os) else None)"

definition is_hex :: "char \<Rightarrow> bool" where
  "is_hex c \<longleftrightarrow> is_digit c \<or> (97 \<le> (of_char c :: nat) \<and> (of_char c :: nat) \<le> 102) \<or>
     (65 \<le> (of_char c :: nat) \<and> (of_char c :: nat) \<le> 70)"

definition hex_val :: "char \<Rightarrow> int" where
  "hex_val c = (if is_digit c then digit_val c
     else if 97 \<le> (of_char c :: nat) then int (of_char c - 87) else int (of_char c - 55))"

definition hex_group :: "string \<Rightarrow> int" where
  "hex_group ds = foldl (\<lambda>acc c. acc * 16 + hex_val c) 0 ds"

text \<open>
  The loop of \<open>parseIPv6\<close>: the bytes so far, the position of \<open>::\<close> and the text that is left.
\<close>

function ipv6_loop :: "int list \<Rightarrow> nat option \<Rightarrow> string \<Rightarrow> (int list \<times> nat option \<times> string) option" where
  "ipv6_loop bs ell s =
     (if length bs \<ge> 16 then Some (bs, ell, s)
      else let ds = takeWhile is_hex s; rest = dropWhile is_hex s;
               bs' = bs @ [hex_group ds div 256, hex_group ds mod 256] in
        if ds = [] \<or> length ds > 4 then None
        else if rest \<noteq> [] \<and> hd rest = CHR ''.'' then
          (if (ell = None \<and> length bs \<noteq> 12) \<or> length bs + 4 > 16 then None
           else case parseIPv4 s of None \<Rightarrow> None | Some q \<Rightarrow> Some (bs @ q, ell, []))
        else if rest = [] then Some (bs', ell, [])
        else if hd rest \<noteq> CHR '':'' \<or> tl rest = [] then None
        else if hd (tl rest) = CHR '':'' then
          (if ell \<noteq> None then None
           else if tl (tl rest) = [] then Some (bs', Some (length bs'), [])
           else ipv6_loop bs' (Some (length bs')) (tl (tl rest)))
        else ipv6_loop bs' ell (tl rest))"
  by auto
termination by (relation "measure (\<lambda>(bs, ell, s). 16 - length bs)") auto

declare ipv6_loop.simps [simp del]

definition expand_ellipsis :: "int list \<Rightarrow> nat \<Rightarrow> int list" where
  "expand_ellipsis bs e = take e bs @ replicate (16 - length bs) 0 @ drop e bs"

definition parseIPv6 :: "string \<Rightarrow> int list option" where
  "parseIPv6 s =
     (if s = ''::'' then Some (replicate 16 0)
      else case (if HasPrefix s ''::'' then ipv6_loop [] (Some 0) (drop 2 s) else ipv6_loop [] None s) of
        None \<Rightarrow> None
      | Some (bs, ell, rest) \<Rightarrow>
          if rest \<noteq> [] then None
          else if length bs < 16 then map_option (expand_ellipsis bs) ell
          else if ell \<noteq> None then None else Some bs)"

datatype addr = V4 "int list" | V6 "int list"

text \<open>
  \<open>netip.ParseAddr\<close>, without zones: \<open>net.ParseIP\<close> and \<open>net.ParseCIDR\<close> refuse an address
  with a zone. The first of \<open>.\<close>, \<open>:\<close> and \<open>%\<close> decides the family.
\<close>

definition ParseAddr :: "string \<Rightarrow> addr option" where
  "ParseAddr s =
     (case dropWhile (\<lambda>c. c \<noteq> CHR ''.'' \<and> c \<noteq> CHR '':'' \<and> c \<noteq> CHR ''%'') s of
        [] \<Rightarrow> None
      | c # _ \<Rightarrow>
          if c = CHR ''.'' then map_option V4 (parseIPv4 s)
          else if c = CHR '':'' \<and> CHR ''%'' \<notin> set s then map_option V6 (parseIPv6 s)
          else None)"

definition ParseIP :: "string \<Rightarrow> addr option" where
  "ParseIP = ParseAddr"

text \<open>\<open>IP.To4() != nil\<close>: an IPv4 address, or an IPv6 address of the form \<open>::ffff:a.b.c.d\<close>.\<close>

fun is_To4 :: "addr \<Rightarrow> bool" where
  "is_To4 (V4 bs) = True"
| "is_To4 (V6 bs) = (take 12 bs = replicate 10 0 @ [255, 255])"

fun BitLen :: "addr \<Rightarrow> int" where
  "BitLen (V4 bs) = 32"
| "BitLen (V6 bs) = 128"

definition mask_bits :: "string \<Rightarrow> int option" where
  "mask_bits s = (if s = [] \<or> \<not> list_all is_digit s then None else Some (digits_val 0 s))"

definition ParseCIDR :: "string \<Rightarrow> (addr \<times> int) option" where
  "ParseCIDR s =
     (case SplitN s (CHR ''/'') 2 of
        [a, bits] \<Rightarrow>
          (case ParseAddr a of None \<Rightarrow> None
           | Some ip \<Rightarrow> (case mask_bits bits of None \<Rightarrow> None
               | Some n \<Rightarrow> if n \<le> BitLen ip then Some (ip, n) else None))
      | _ \<Rightarrow> None)"

end
