(* ===== verification/Policies.thy ===== *)
theory Policies
  imports Errors GoLib Complex_Main
begin

text \<open>
  The policy blocks of a route and their validators: the backend traffic policy
  (\<open>src/internal/models/backend_traffic_policy.go\<close> and \<open>backend_traffic_policy_validation.go\<close>),
  the security policy (\<open>security_policy.go\<close>), the WAF and extension policies
  (\<open>waf_policy.go\<close>, \<open>envoy_extension_policy.go\<close>), and the inputs they are built from
  (\<open>src/internal/routeplan/input.go\<close>, \<open>securitypolicy_features.go\<close>).

  A pointer field is an option. A block that no modelled code looks into is a \<open>doc\<close>.
  Percentages, \<open>float32\<close> in Go, are rationals: the value a decoded JSON number has.
\<close>

section \<open>Backend traffic policy\<close>

record BackOffPolicy =
  boBaseInterval :: "string option"
  boMaxInterval :: "string option"

record PerRetryPolicy =
  prpBackOff :: "BackOffPolicy option"
  prpTimeout :: "string option"

record RetryOn =
  roHTTPStatusCodes :: "int list"
  roTriggers :: "string list"

record RetryConfig =
  rtyNumRetries :: "int option"
  rtyRetryOn :: "RetryOn option"
  rtyPerRetryPolicy :: "PerRetryPolicy option"

record ConsistentHashCookie =
  chcName :: string
  chcTTL :: "string option"
  chcAttributes :: "(string \<times> string) list"

record ConsistentHashConfig =
  chType :: string
  chHeader :: "string option"
  chCookie :: "ConsistentHashCookie option"

record LoadBalancerConfig =
  lbType :: string
  lbConsistentHash :: "ConsistentHashConfig option"

record CircuitBreakerConfig =
  cbMaxConnections :: "int option"
  cbMaxPendingRequests :: "int option"
  cbMaxParallelRequests :: "int option"
  cbMaxParallelRetries :: "int option"
  cbMaxRequestsPerConnection :: "int option"

record HTTPActiveHealthCheckConfig =
  hahPath :: string
  hahMethod :: "string option"
  hahExpectedStatuses :: "int list"

record HealthCheckPayload =
  hpType :: string
  hpText :: "string option"

record TCPActiveHealthCheckConfig =
  tahSend :: "HealthCheckPayload option"
  tahReceive :: "HealthCheckPayload option"

record GRPCActiveHealthCheckConfig =
  gahService :: "string option"

record ActiveHealthCheckConfig =
  ahcTimeout :: "string option"
  ahcInterval :: "string option"
  ahcUnhealthyThreshold :: "int option"
  ahcHealthyThreshold :: "int option"
  ahcType :: string
  ahcHTTP :: "HTTPActiveHealthCheckConfig option"
  ahcTCP :: "TCPActiveHealthCheckConfig option"
  ahcGRPC :: "GRPCActiveHealthCheckConfig option"

record PassiveHealthCheckConfig =
  phcConsecutiveGatewayErrors :: "int option"
  phcConsecutive5xxErrors :: "int option"
  phcConsecutiveLocalOriginFailures :: "int option"
  phcInterval :: "string option"
  phcBaseEjectionTime :: "string option"
  phcMaxEjectionPercent :: "int option"
  phcSplitExternalLocalOriginErrors :: "bool option"

record HealthCheckConfig =
  hcActive :: "ActiveHealthCheckConfig option"
  hcPassive :: "PassiveHealthCheckConfig option"
  hcPanicThreshold :: "int option"

record FaultInjectionDelayConfig =
  fidFixedDelay :: string
  fidPercentage :: "rat option"

record FaultInjectionAbortConfig =
  fiaHTTPStatus :: "int option"
  fiaGRPCStatus :: "int option"
  fiaPercentage :: "rat option"

record FaultInjectionConfig =
  fiDelay :: "FaultInjectionDelayConfig option"
  fiAbort :: "FaultInjectionAbortConfig option"

record RateLimitHeaderMatch =
  rlhName :: string
  rlhValue :: string
  rlhType :: string
  rlhInvert :: bool

record RateLimitSourceCIDR =
  rlcValue :: string
  rlcType :: string

record RateLimitPathMatch =
  rlpValue :: string
  rlpType :: string

record RateLimitSelector =
  rlsHeaders :: "RateLimitHeaderMatch list"
  rlsSourceCIDR :: "RateLimitSourceCIDR option"
  rlsPath :: "RateLimitPathMatch option"
  rlsMethods :: "string list"

record RateLimitRule =
  rlrRequests :: int
  rlrUnit :: string
  rlrClientSelectors :: "RateLimitSelector list"

record RateLimitConfig =
  rlGlobal :: "RateLimitRule list option"

record StatusCodeMatch =
  scmType :: string
  scmValue :: "int option"
  scmRange :: "(int \<times> int) option"

record ValueRef =
  vrGroup :: string
  vrKind :: string
  vrName :: string
  vrNamespace :: string

record ResponseOverrideRule =
  rorStatusCodes :: "StatusCodeMatch list"
  rorContentType :: string
  rorBodyType :: string
  rorBodyInline :: string
  rorBodyValueRef :: "ValueRef option"

record BTPHTTPTimeoutConfig =
  bhtRequestTimeout :: string
  bhtConnectionIdleTimeout :: string
  bhtMaxConnectionDuration :: string
  bhtMaxStreamDuration :: string

record BTPTimeoutConfig =
  btoTCP :: "string option"
  btoHTTP :: "BTPHTTPTimeoutConfig option"

text \<open>A compression entry is its type; the blocks for the single types have no fields.\<close>

record BackendTrafficPolicyConfig =
  btpCompression :: "doc list"
  btpRetry :: "RetryConfig option"
  btpLoadBalancer :: "LoadBalancerConfig option"
  btpCircuitBreaker :: "CircuitBreakerConfig option"
  btpHealthCheck :: "HealthCheckConfig option"
  btpFaultInjection :: "FaultInjectionConfig option"
  btpRateLimit :: "RateLimitConfig option"
  btpRequestBuffer :: "string option"
  btpResponseOverride :: "ResponseOverrideRule list"
  btpTimeout :: "BTPTimeoutConfig option"

definition BackendTrafficPolicyConfig_IsEmpty :: "BackendTrafficPolicyConfig \<Rightarrow> bool" where
  "BackendTrafficPolicyConfig_IsEmpty c \<longleftrightarrow>
     btpCompression c = [] \<and> btpRetry c = None \<and> btpLoadBalancer c = None \<and> btpCircuitBreaker c = None \<and>
     btpHealthCheck c = None \<and> btpFaultInjection c = None \<and> btpRateLimit c = None \<and>
     btpRequestBuffer c = None \<and> btpResponseOverride c = [] \<and> btpTimeout c = None"

text \<open>\<open>time.ParseDuration\<close> of a string, and the checks on its sign.\<close>

definition parses :: "string \<Rightarrow> bool" where
  "parses s \<longleftrightarrow> ParseDuration s \<noteq> None"

definition positive_duration :: "string \<Rightarrow> bool" where
  "positive_duration s \<longleftrightarrow> (case ParseDuration s of None \<Rightarrow> False | Some d \<Rightarrow> 0 < d)"

definition consistent_hash_check :: "ConsistentHashConfig \<Rightarrow> check" where
  "consistent_hash_check ch = checks
     [fail_if (chType ch \<notin> {''SourceIP'', ''Header'', ''Cookie''})
        ''invalid consistent hash type %q, must be one of: SourceIP, Header, Cookie'',
      check_when (chType ch = ''Header'')
        (fail_if (chHeader ch = None \<or> chHeader ch = Some []) ''header name is required when consistent hash type is Header''),
      check_when (chType ch = ''Cookie'') (checks
        [fail_if (case chCookie ch of None \<Rightarrow> True | Some k \<Rightarrow> chcName k = [])
           ''cookie name is required when consistent hash type is Cookie'',
         check_opt (\<lambda>k. check_opt (\<lambda>ttl. checks
           [fail_if (\<not> parses ttl) ''invalid cookie TTL %q: %w'',
            fail_if (case ParseDuration ttl of None \<Rightarrow> True | Some d \<Rightarrow> d < 0) ''cookie TTL must be non-negative, got %s''])
           (chcTTL k)) (chCookie ch)])]"

definition LoadBalancerConfig_Validate :: "LoadBalancerConfig \<Rightarrow> check" where
  "LoadBalancerConfig_Validate lb = checks
     [fail_if (lbType lb \<notin> {''RoundRobin'', ''Random'', ''LeastRequest'', ''ConsistentHash''})
        ''invalid load balancer type %q, must be one of: RoundRobin, Random, LeastRequest, ConsistentHash'',
      if lbType lb = ''ConsistentHash'' then
        (case lbConsistentHash lb of
           None \<Rightarrow> Inl (Msg ''consistentHash configuration is required when type is ConsistentHash'')
         | Some ch \<Rightarrow> consistent_hash_check ch)
      else fail_if (lbConsistentHash lb \<noteq> None) ''consistentHash configuration should only be set when type is ConsistentHash'']"

definition nonneg :: "int option \<Rightarrow> bool" where
  "nonneg x \<longleftrightarrow> (case x of None \<Rightarrow> True | Some n \<Rightarrow> 0 \<le> n)"

definition CircuitBreakerConfig_Validate :: "CircuitBreakerConfig \<Rightarrow> check" where
  "CircuitBreakerConfig_Validate cb = checks
     [fail_if (\<not> nonneg (cbMaxConnections cb)) ''maxConnections must be >= 0, got %d'',
      fail_if (\<not> nonneg (cbMaxPendingRequests cb)) ''maxPendingRequests must be >= 0, got %d'',
      fail_if (\<not> nonneg (cbMaxParallelRequests cb)) ''maxParallelRequests must be >= 0, got %d'',
      fail_if (\<not> nonneg (cbMaxParallelRetries cb)) ''maxParallelRetries must be >= 0, got %d'',
      fail_if (\<not> nonneg (cbMaxRequestsPerConnection cb)) ''maxRequestsPerConnection must be >= 0, got %d'']"

definition http_status :: "int \<Rightarrow> bool" where
  "http_status code \<longleftrightarrow> 100 \<le> code \<and> code \<le> 599"

definition ActiveHealthCheckConfig_Validate :: "ActiveHealthCheckConfig \<Rightarrow> check" where
  "ActiveHealthCheckConfig_Validate a = checks
     [fail_if (ahcType a = []) ''type is required'',
      fail_if (ahcType a \<notin> {''HTTP'', ''TCP'', ''GRPC''}) ''type must be HTTP, TCP, or GRPC, got %q'',
      check_when (ahcType a = ''HTTP'') (case ahcHTTP a of
          None \<Rightarrow> Inl (Msg ''HTTP health check requires a path'')
        | Some h \<Rightarrow> checks
            [fail_if (hahPath h = []) ''HTTP health check requires a path'',
             check_opt (\<lambda>m. fail_if (m \<notin> {''GET'', ''HEAD'', ''POST'', ''PUT'', ''DELETE'', ''OPTIONS'', ''PATCH''})
               ''invalid HTTP method: %q'') (hahMethod h),
             check_each (\<lambda>code. fail_if (\<not> http_status code) ''expected status must be 100-599, got %d'')
               (hahExpectedStatuses h)]),
      check_opt (\<lambda>s. fail_if (\<not> parses s) ''invalid timeout duration: %w'') (ahcTimeout a),
      check_opt (\<lambda>s. fail_if (\<not> parses s) ''invalid interval duration: %w'') (ahcInterval a)]"

definition PassiveHealthCheckConfig_Validate :: "PassiveHealthCheckConfig \<Rightarrow> check" where
  "PassiveHealthCheckConfig_Validate p = checks
     [check_opt (\<lambda>s. fail_if (\<not> parses s) ''invalid interval duration: %w'') (phcInterval p),
      check_opt (\<lambda>s. fail_if (\<not> parses s) ''invalid base ejection time duration: %w'') (phcBaseEjectionTime p)]"

definition HealthCheckConfig_Validate :: "HealthCheckConfig \<Rightarrow> check" where
  "HealthCheckConfig_Validate hc = checks
     [fail_if (hcActive hc = None \<and> hcPassive hc = None) ''at least one of active or passive health check must be configured'',
      check_opt (\<lambda>a. wrap_check ''active health check: %w'' (ActiveHealthCheckConfig_Validate a)) (hcActive hc),
      check_opt (\<lambda>p. wrap_check ''passive health check: %w'' (PassiveHealthCheckConfig_Validate p)) (hcPassive hc)]"

definition validRetryTriggers :: "string set" where
  "validRetryTriggers = {''5xx'', ''gateway-error'', ''reset'', ''reset-before-request'', ''connect-failure'',
     ''retriable-4xx'', ''refused-stream'', ''retriable-status-codes'', ''cancelled'', ''deadline-exceeded'',
     ''internal'', ''resource-exhausted'', ''unavailable''}"

text \<open>\<open>baseDuration\<close> and \<open>maxDuration\<close> stay 0 when their field is nil; both are positive otherwise.\<close>

definition backoff_check :: "BackOffPolicy \<Rightarrow> check" where
  "backoff_check bo = checks
     [check_opt (\<lambda>s. checks [fail_if (\<not> parses s) ''invalid backoff baseInterval %q: %w'',
                             fail_if (\<not> positive_duration s) ''backoff baseInterval must be positive, got %s'']) (boBaseInterval bo),
      check_opt (\<lambda>s. checks [fail_if (\<not> parses s) ''invalid backoff maxInterval %q: %w'',
                             fail_if (\<not> positive_duration s) ''backoff maxInterval must be positive, got %s'']) (boMaxInterval bo),
      fail_if (case (boBaseInterval bo, boMaxInterval bo) of
          (Some b, Some x) \<Rightarrow> (case (ParseDuration b, ParseDuration x) of
              (Some bd, Some xd) \<Rightarrow> bd > 0 \<and> xd > 0 \<and> xd < bd | _ \<Rightarrow> False)
        | _ \<Rightarrow> False) ''backoff maxInterval (%s) must be >= baseInterval (%s)'']"

definition RetryConfig_Validate :: "RetryConfig \<Rightarrow> check" where
  "RetryConfig_Validate r = checks
     [fail_if (\<not> nonneg (rtyNumRetries r)) ''numRetries must be >= 0, got %d'',
      check_opt (\<lambda>o'. checks
        [check_each (\<lambda>code. fail_if (\<not> http_status code) ''invalid HTTP status code %d, must be between 100 and 599'')
           (roHTTPStatusCodes o'),
         check_each (\<lambda>t. fail_if (t \<notin> validRetryTriggers) ''invalid retry trigger %q'') (roTriggers o')]) (rtyRetryOn r),
      check_opt (\<lambda>p. checks
        [check_opt (\<lambda>s. checks [fail_if (\<not> parses s) ''invalid per-retry timeout %q: %w'',
                                fail_if (\<not> positive_duration s) ''per-retry timeout must be positive, got %s'']) (prpTimeout p),
         check_opt backoff_check (prpBackOff p)]) (rtyPerRetryPolicy r)]"

definition rl_header_check :: "RateLimitHeaderMatch \<Rightarrow> check" where
  "rl_header_check h = checks
     [fail_if (rlhName h = []) ''rule[%d].clientSelectors[%d].headers[%d]: name is required'',
      fail_if (rlhType h \<notin> {[], ''Exact'', ''Distinct''})
        ''rule[%d].clientSelectors[%d].headers[%d]: type must be 'Exact' or 'Distinct', got %q'']"

definition rl_cidr_check :: "RateLimitSourceCIDR \<Rightarrow> check" where
  "rl_cidr_check c = checks
     [fail_if (rlcValue c = []) ''rule[%d].clientSelectors[%d].sourceCIDR: value is required'',
      fail_if (ParseCIDR (rlcValue c) = None \<and> ParseIP (rlcValue c) = None)
        ''rule[%d].clientSelectors[%d].sourceCIDR: invalid CIDR or IP format %q'',
      fail_if (rlcType c \<notin> {[], ''Exact'', ''Distinct''})
        ''rule[%d].clientSelectors[%d].sourceCIDR: type must be 'Exact' or 'Distinct', got %q'']"

definition rl_path_check :: "RateLimitPathMatch \<Rightarrow> check" where
  "rl_path_check p = checks
     [fail_if (rlpValue p = []) ''rule[%d].clientSelectors[%d].path: value is required'',
      fail_if (rlpType p \<notin> {''Exact'', ''PathPrefix'', ''RegularExpression''})
        ''rule[%d].clientSelectors[%d].path: type must be 'Exact', 'PathPrefix', or 'RegularExpression', got %q'']"

definition rl_rule_check :: "RateLimitRule \<Rightarrow> check" where
  "rl_rule_check rule = checks
     [fail_if (rlrRequests rule \<le> 0) ''rule[%d]: requests must be > 0'',
      fail_if (rlrUnit rule \<notin> {''Second'', ''Minute'', ''Hour'', ''Day''})
        ''rule[%d]: unit must be one of: Second, Minute, Hour, Day, got %q'',
      check_each (\<lambda>sel. checks
        [check_each rl_header_check (rlsHeaders sel), check_opt rl_cidr_check (rlsSourceCIDR sel),
         check_opt rl_path_check (rlsPath sel)]) (rlrClientSelectors rule)]"

definition RateLimitConfig_Validate :: "RateLimitConfig \<Rightarrow> check" where
  "RateLimitConfig_Validate rl = (case rlGlobal rl of
     None \<Rightarrow> Inl (Msg ''global rate limit configuration is required'')
   | Some rules \<Rightarrow> checks [fail_if (rules = []) ''at least one rate limit rule is required'', check_each rl_rule_check rules])"

definition percentage_check :: "rat option \<Rightarrow> check" where
  "percentage_check x = check_opt (\<lambda>p. fail_if (p < 0 \<or> p > 100) ''percentage must be between 0 and 100, got %f'') x"

definition FaultInjectionDelayConfig_Validate :: "FaultInjectionDelayConfig \<Rightarrow> check" where
  "FaultInjectionDelayConfig_Validate d = checks
     [fail_if (fidFixedDelay d = []) ''fixedDelay is required'',
      fail_if (\<not> parses (fidFixedDelay d)) ''invalid fixedDelay duration: %w'',
      percentage_check (fidPercentage d)]"

definition FaultInjectionAbortConfig_Validate :: "FaultInjectionAbortConfig \<Rightarrow> check" where
  "FaultInjectionAbortConfig_Validate a = checks
     [fail_if (fiaHTTPStatus a = None \<and> fiaGRPCStatus a = None) ''either httpStatus or grpcStatus is required'',
      fail_if (fiaHTTPStatus a \<noteq> None \<and> fiaGRPCStatus a \<noteq> None) ''cannot specify both httpStatus and grpcStatus'',
      check_opt (\<lambda>s. fail_if (\<not> http_status s) ''httpStatus must be between 100 and 599, got %d'') (fiaHTTPStatus a),
      check_opt (\<lambda>s. fail_if (s < 0 \<or> s > 16) ''grpcStatus must be between 0 and 16, got %d'') (fiaGRPCStatus a),
      percentage_check (fiaPercentage a)]"

definition FaultInjectionConfig_Validate :: "FaultInjectionConfig \<Rightarrow> check" where
  "FaultInjectionConfig_Validate fi = checks
     [fail_if (fiDelay fi = None \<and> fiAbort fi = None) ''at least one of delay or abort must be configured'',
      check_opt (\<lambda>d. wrap_check ''delay: %w'' (FaultInjectionDelayConfig_Validate d)) (fiDelay fi),
      check_opt (\<lambda>a. wrap_check ''abort: %w'' (FaultInjectionAbortConfig_Validate a)) (fiAbort fi)]"

text \<open>The expression \<open>^\d+(\.\d+)?(Ki?|Mi?|Gi?|Ti?)?$\<close>.\<close>

definition size_format :: "string \<Rightarrow> bool" where
  "size_format s =
     (let r = dropWhile is_digit s;
          frac = (r \<noteq> [] \<and> hd r = CHR ''.'');
          r' = (if frac then dropWhile is_digit (tl r) else r)
      in takeWhile is_digit s \<noteq> [] \<and> (frac \<longrightarrow> takeWhile is_digit (tl r) \<noteq> []) \<and>
         r' \<in> {[], ''K'', ''Ki'', ''M'', ''Mi'', ''G'', ''Gi'', ''T'', ''Ti''})"

definition RequestBufferConfig_Validate :: "string \<Rightarrow> check" where
  "RequestBufferConfig_Validate limit = checks
     [fail_if (limit = []) ''requestBuffer.limit is required'',
      fail_if (\<not> size_format limit) ''requestBuffer.limit must be a valid size (e.g., 4Ki, 1Mi), got %q'']"

definition StatusCodeMatch_Validate :: "StatusCodeMatch \<Rightarrow> check" where
  "StatusCodeMatch_Validate s = checks
     [fail_if (scmType s \<noteq> ''Value'' \<and> scmType s \<noteq> ''Range'') ''type must be 'Value' or 'Range', got %q'',
      check_when (scmType s = ''Value'') (case scmValue s of
          None \<Rightarrow> Inl (Msg ''value is required when type is Value'')
        | Some v \<Rightarrow> fail_if (\<not> http_status v) ''value must be between 100-599, got %d''),
      check_when (scmType s = ''Range'') (case scmRange s of
          None \<Rightarrow> Inl (Msg ''range is required when type is Range'')
        | Some (lo, hi) \<Rightarrow> checks
            [fail_if (\<not> http_status lo) ''range.start must be between 100-599, got %d'',
             fail_if (\<not> http_status hi) ''range.end must be between 100-599, got %d'',
             fail_if (lo > hi) ''range.start (%d) must be <= range.end (%d)''])]"

definition ResponseOverrideRule_Validate :: "ResponseOverrideRule \<Rightarrow> check" where
  "ResponseOverrideRule_Validate r = checks
     [fail_if (rorStatusCodes r = []) ''responseOverride.match.statusCodes is required'',
      check_each (\<lambda>sc. wrap_check ''responseOverride.match.statusCodes[%d]: %w'' (StatusCodeMatch_Validate sc)) (rorStatusCodes r),
      fail_if (rorContentType r = []) ''responseOverride.response.contentType is required'',
      fail_if (rorBodyType r = []) ''responseOverride.response.body.type is required'',
      fail_if (rorBodyType r = ''Inline'' \<and> rorBodyInline r = []) ''responseOverride.response.body.inline is required when type is Inline'',
      fail_if (rorBodyType r = ''ValueRef'' \<and> rorBodyValueRef r = None)
        ''responseOverride.response.body.valueRef is required when type is ValueRef'']"

text \<open>An empty duration string is an absent one.\<close>

definition optional_duration :: "string \<Rightarrow> string \<Rightarrow> check" where
  "optional_duration s f = fail_if (s \<noteq> [] \<and> \<not> parses s) f"

definition BTPTimeoutConfig_Validate :: "BTPTimeoutConfig \<Rightarrow> check" where
  "BTPTimeoutConfig_Validate t = checks
     [check_opt (\<lambda>s. optional_duration s ''invalid tcp.connectTimeout duration: %w'') (btoTCP t),
      check_opt (\<lambda>h. checks
        [optional_duration (bhtRequestTimeout h) ''invalid http.requestTimeout duration: %w'',
         optional_duration (bhtConnectionIdleTimeout h) ''invalid http.connectionIdleTimeout duration: %w'',
         optional_duration (bhtMaxConnectionDuration h) ''invalid http.maxConnectionDuration duration: %w'',
         optional_duration (bhtMaxStreamDuration h) ''invalid http.maxStreamDuration duration: %w'']) (btoHTTP t)]"

section \<open>Security policy\<close>

record SecretRef =
  srName :: string
  srNamespace :: string

record ExtAuthBackendRef =
  eabName :: string
  eabNamespace :: string
  eabPort :: int

record ExtAuthHTTPConfig =
  eahBackendRef :: ExtAuthBackendRef
  eahPath :: string
  eahHeadersToBackend :: "string list"

record ExtAuthConfig =
  eaType :: string
  eaHTTP :: "ExtAuthHTTPConfig option"
  eaGRPC :: "ExtAuthBackendRef option"
  eaFailOpen :: "bool option"
  eaHeadersToExtAuth :: "string list"
  eaHeadersToDownstreamOnDeny :: "string list"
  eaHeadersToDownstreamOnAllow :: "string list"
  eaHeadersToUpstreamOnAllow :: "string list"
  eaWithRequestBody :: "int option"

definition ExtAuthBackendRef_Validate :: "ExtAuthBackendRef \<Rightarrow> check" where
  "ExtAuthBackendRef_Validate r = checks
     [fail_if (eabName r = []) ''name is required'',
      fail_if (eabPort r < 1 \<or> eabPort r > 65535) ''port must be between 1 and 65535, got %d'']"

definition ExtAuthHTTPConfig_Validate :: "ExtAuthHTTPConfig \<Rightarrow> check" where
  "ExtAuthHTTPConfig_Validate c = checks
     [wrap_check ''backendRef: %w'' (ExtAuthBackendRef_Validate (eahBackendRef c)),
      fail_if (eahPath c = []) ''path is required for HTTP ext-auth'',
      fail_if (\<not> HasPrefix (eahPath c) ''/'') (''path must start with '/'' @ [CHR 0x27])]"

definition ExtAuthGRPCConfig_Validate :: "ExtAuthBackendRef \<Rightarrow> check" where
  "ExtAuthGRPCConfig_Validate r = wrap_check ''backendRef: %w'' (ExtAuthBackendRef_Validate r)"

definition ExtAuthConfig_Validate :: "ExtAuthConfig \<Rightarrow> check" where
  "ExtAuthConfig_Validate c = checks
     [fail_if (eaType c \<noteq> ''http'' \<and> eaType c \<noteq> ''grpc'') ''type must be 'http' or 'grpc', got %q'',
      check_when (eaType c = ''http'') (case eaHTTP c of
          None \<Rightarrow> Inl (Msg (''http config is required when type is 'http'' @ [CHR 0x27]))
        | Some h \<Rightarrow> wrap_check ''http: %w'' (ExtAuthHTTPConfig_Validate h)),
      check_when (eaType c = ''grpc'') (case eaGRPC c of
          None \<Rightarrow> Inl (Msg (''grpc config is required when type is 'grpc'' @ [CHR 0x27]))
        | Some g \<Rightarrow> wrap_check ''grpc: %w'' (ExtAuthGRPCConfig_Validate g)),
      check_opt (\<lambda>n. fail_if (n > 10 * 1024 * 1024) ''withRequestBody.maxBytes cannot exceed 10MB'') (eaWithRequestBody c)]"

record AuthorizationHeaderMatch =
  ahmName :: string
  ahmValues :: "string list"

record AuthorizationRule =
  arAction :: string
  arClientCIDRs :: "string list"
  arHeaders :: "AuthorizationHeaderMatch list"
  arMethods :: "string list option"

record AuthorizationConfig =
  acDefaultAction :: string
  acRules :: "AuthorizationRule list"

record APIKeyAuthConfig =
  akCredentialRefs :: "SecretRef list"
  akExtractFrom :: "string list list"

record JWTProvider =
  jpName :: string
  jpIssuer :: string
  jpAudiences :: "string list"
  jpRemoteJWKS :: "string option"
  jpClaimToHeaders :: "(string \<times> string) list"

record OIDCConfig =
  ocIssuer :: "string option"
  ocClientID :: string
  ocClientSecret :: "SecretRef option"
  ocRedirectURL :: string
  ocLogoutPath :: string
  ocScopes :: "string list"
  ocCookieDomain :: string

record CORSConfig =
  corsAllowOrigins :: "string list"
  corsAllowMethods :: "string list"
  corsAllowHeaders :: "string list"
  corsExposeHeaders :: "string list"
  corsMaxAge :: "int option"
  corsAllowCredentials :: "bool option"

record SecurityPolicyConfig =
  spcCORS :: "CORSConfig option"
  spcAuthorization :: "AuthorizationConfig option"
  spcAPIKeyAuth :: "APIKeyAuthConfig option"
  spcBasicAuth :: "SecretRef option"
  spcJWT :: "JWTProvider list option"
  spcOIDC :: "OIDCConfig option"
  spcExtAuth :: "ExtAuthConfig option"

definition HasAnyConfig :: "SecurityPolicyConfig \<Rightarrow> bool" where
  "HasAnyConfig c \<longleftrightarrow> spcCORS c \<noteq> None \<or> spcAuthorization c \<noteq> None \<or> spcAPIKeyAuth c \<noteq> None \<or>
     spcBasicAuth c \<noteq> None \<or> spcJWT c \<noteq> None \<or> spcOIDC c \<noteq> None \<or> spcExtAuth c \<noteq> None"

record AuthorizationInput =
  aiAllowedCIDRs :: "string list"
  aiHeaders :: "AuthorizationHeaderMatch list"
  aiMethods :: "string list"

record APIKeyAuthInput =
  kiSecretName :: string
  kiHeaderName :: string

record JWTInput =
  jiIssuer :: string
  jiJWKSURL :: string
  jiAudiences :: "string list"
  jiClaimToHeaders :: "(string \<times> string) list"

record OIDCInput =
  oiIssuer :: string
  oiClientID :: string
  oiClientSecretName :: string
  oiRedirectURL :: string
  oiLogoutPath :: string
  oiScopes :: "string list"
  oiCookieDomain :: string

record SecurityPolicyInput =
  siCORS :: "CORSConfig option"
  siAuthorization :: "AuthorizationInput option"
  siAPIKeyAuth :: "APIKeyAuthInput option"
  siJWT :: "JWTInput option"
  siOIDC :: "OIDCInput option"
  siExtAuth :: "ExtAuthConfig option"

definition FastGatewayNamespace :: string where
  "FastGatewayNamespace = ''fastgateway-system''"

definition NormalizeCIDR :: "string \<Rightarrow> string" where
  "NormalizeCIDR cidr =
     (if CHR ''/'' \<in> set cidr then cidr
      else case ParseIP cidr of
        None \<Rightarrow> cidr
      | Some ip \<Rightarrow> if is_To4 ip then cidr @ ''/32'' else cidr @ ''/128'')"

definition BuildAuthorizationConfigFromInput :: "AuthorizationInput option \<Rightarrow> AuthorizationConfig option" where
  "BuildAuthorizationConfigFromInput input = (case input of None \<Rightarrow> None
     | Some i \<Rightarrow>
         if aiAllowedCIDRs i = [] \<and> aiHeaders i = [] \<and> aiMethods i = [] then None
         else Some \<lparr>acDefaultAction = ''Deny'', acRules =
           [\<lparr>arAction = ''Allow'', arClientCIDRs = map NormalizeCIDR (aiAllowedCIDRs i), arHeaders = aiHeaders i,
             arMethods = (if aiMethods i = [] then None else Some (map ToUpper (aiMethods i)))\<rparr>]\<rparr>)"

definition BuildAPIKeyAuthConfigFromInput :: "APIKeyAuthInput option \<Rightarrow> APIKeyAuthConfig option" where
  "BuildAPIKeyAuthConfigFromInput input = map_option (\<lambda>i.
     \<lparr>akCredentialRefs = [\<lparr>srName = kiSecretName i, srNamespace = FastGatewayNamespace\<rparr>],
      akExtractFrom = [[kiHeaderName i]]\<rparr>) input"

definition BuildJWTConfigFromInput :: "JWTInput option \<Rightarrow> JWTProvider list option" where
  "BuildJWTConfigFromInput input = map_option (\<lambda>i.
     [\<lparr>jpName = ''route-jwt'', jpIssuer = jiIssuer i, jpAudiences = jiAudiences i,
       jpRemoteJWKS = Some (jiJWKSURL i), jpClaimToHeaders = jiClaimToHeaders i\<rparr>]) input"

definition BuildOIDCConfigFromInput :: "OIDCInput option \<Rightarrow> OIDCConfig option" where
  "BuildOIDCConfigFromInput input = map_option (\<lambda>i.
     \<lparr>ocIssuer = Some (oiIssuer i), ocClientID = oiClientID i,
      ocClientSecret = Some \<lparr>srName = oiClientSecretName i, srNamespace = FastGatewayNamespace\<rparr>,
      ocRedirectURL = oiRedirectURL i, ocLogoutPath = oiLogoutPath i, ocScopes = oiScopes i,
      ocCookieDomain = oiCookieDomain i\<rparr>) input"

section \<open>WAF and extension policies\<close>

record WafPolicyConfig =
  wafMode :: string
  wafRulesets :: "string list"
  wafAnomalyThreshold :: "int option"
  wafParanoiaLevel :: "int option"
  wafDisabledRuleIDs :: "int list"
  wafCustomDirectives :: "string list"

definition WafPolicyConfig_Validate :: "WafPolicyConfig \<Rightarrow> check" where
  "WafPolicyConfig_Validate c = checks
     [fail_if (wafMode c = []) ''mode is required'',
      fail_if (wafMode c \<noteq> ''block'' \<and> wafMode c \<noteq> ''detect'') ''mode must be 'block' or 'detect', got %q'',
      check_opt (\<lambda>n. fail_if (n < 1 \<or> n > 4) ''paranoiaLevel must be between 1 and 4, got %d'') (wafParanoiaLevel c),
      check_opt (\<lambda>n. fail_if (n < 1) ''anomalyThreshold must be at least 1, got %d'') (wafAnomalyThreshold c)]"

record LuaExtensionConfig =
  luaType :: string
  luaInline :: string
  luaValueRef :: "ValueRef option"

record WasmImageSource =
  wisURL :: string
  wisSHA256 :: string
  wisPullSecret :: "ValueRef option"

record WasmCodeSource =
  wcsType :: string
  wcsHTTP :: "(string \<times> string) option"
  wcsImage :: "WasmImageSource option"

text \<open>A JSON value; an object is the list of the keys it has, in no particular order.\<close>

datatype json = JNull | JStr string | JInt int | JNum rat | JBool bool | JList "json list" | JObj "(string \<times> json) list"

text \<open>The configuration of a Wasm module is a text that holds JSON.\<close>

record WasmExtensionConfig =
  wasmName :: string
  wasmRootID :: string
  wasmCode :: WasmCodeSource
  wasmConfig :: "json raw option"

record ExtProcBackendRef =
  epbName :: string
  epbNamespace :: string
  epbPort :: int

record ExtProcProcessingMode =
  epmRequest :: "string option"
  epmResponse :: "string option"

record ExtProcExtensionConfig =
  epxBackendRef :: ExtProcBackendRef
  epxProcessingMode :: "ExtProcProcessingMode option"
  epxFailOpen :: bool

record EnvoyExtensionPolicyConfig =
  eepLua :: "LuaExtensionConfig option"
  eepWasm :: "WasmExtensionConfig option"
  eepExtProc :: "ExtProcExtensionConfig option"

text \<open>
  \<open>BackendTrafficPolicyInput\<close>, \<open>EnvoyExtensionPolicyInput\<close> and \<open>WafPolicyInput\<close> have the
  fields of the configurations; the code copies them one by one, so an input is a value of
  the configuration's type.
\<close>

definition BTP_HasContent :: "BackendTrafficPolicyConfig \<Rightarrow> bool" where
  "BTP_HasContent i \<longleftrightarrow>
     btpCompression i \<noteq> [] \<or> btpRetry i \<noteq> None \<or> btpLoadBalancer i \<noteq> None \<or> btpCircuitBreaker i \<noteq> None \<or>
     btpHealthCheck i \<noteq> None \<or> btpFaultInjection i \<noteq> None \<or> btpRateLimit i \<noteq> None \<or>
     btpRequestBuffer i \<noteq> None \<or> btpResponseOverride i \<noteq> [] \<or> btpTimeout i \<noteq> None"

definition EEP_HasContent :: "EnvoyExtensionPolicyConfig \<Rightarrow> bool" where
  "EEP_HasContent i \<longleftrightarrow> eepLua i \<noteq> None \<or> eepWasm i \<noteq> None \<or> eepExtProc i \<noteq> None"

section \<open>Properties\<close>

lemma ParseCIDR_slash: "CHR ''/'' \<notin> set s \<Longrightarrow> ParseCIDR (s @ CHR ''/'' # b) =
    (case ParseAddr s of None \<Rightarrow> None
     | Some ip \<Rightarrow> (case mask_bits b of None \<Rightarrow> None | Some n \<Rightarrow> if n \<le> BitLen ip then Some (ip, n) else None))"
  by (simp add: ParseCIDR_def numeral_2_eq_2 SplitN_sep del: SplitN.simps(3))

lemma mask_bits_lits [simp]: "mask_bits ''32'' = Some 32" "mask_bits ''128'' = Some 128"
  by code_simp+

text \<open>An address without a prefix length is normalised to an address range that parses, with the same
  address: length 32 where the address counts as IPv4, 128 otherwise.\<close>

theorem normalized_host_prefix:
  assumes "CHR ''/'' \<notin> set s" "ParseIP s = Some ip"
  shows "ParseCIDR (NormalizeCIDR s) = Some (ip, if is_To4 ip then 32 else 128)"
  using assms by (cases ip) (auto simp: NormalizeCIDR_def ParseIP_def ParseCIDR_slash [of s "''32''", simplified]
      ParseCIDR_slash [of s "''128''", simplified])

theorem normalized_host_prefix_witness:
  "ParseCIDR (NormalizeCIDR ''10.0.0.1'') = Some (V4 [10, 0, 0, 1], 32)"
  using normalized_host_prefix [of "''10.0.0.1''" "V4 [10, 0, 0, 1]"] by code_simp

text \<open>The IPv4-mapped address \<open>::ffff:10.0.0.1\<close> is normalised to a range of prefix length
  32, which is read as an IPv6 range of 2^96 addresses and not as the one host that was entered.\<close>

theorem mapped_address_widened:
  "ParseCIDR (NormalizeCIDR ''::ffff:10.0.0.1'') = Some (V6 (replicate 10 0 @ [255, 255, 10, 0, 0, 1]), 32)"
  by code_simp

text \<open>The authorization block built from an input denies by default and has one allow rule, which
  carries the requested ranges and headers and is never unconditional; an input with no condition builds no
  block.\<close>

theorem authorization_denies_by_default:
  "case BuildAuthorizationConfigFromInput (Some i) of
     None \<Rightarrow> aiAllowedCIDRs i = [] \<and> aiHeaders i = [] \<and> aiMethods i = []
   | Some c \<Rightarrow> acDefaultAction c = ''Deny'' \<and> (\<exists>r. acRules c = [r] \<and> arAction r = ''Allow'' \<and>
       length (arClientCIDRs r) = length (aiAllowedCIDRs i) \<and> arHeaders r = aiHeaders i \<and>
       (0 < length (arClientCIDRs r) \<or> 0 < length (arHeaders r) \<or> (\<exists>ms. arMethods r = Some ms \<and> 0 < length ms)))"
  by (auto simp: BuildAuthorizationConfigFromInput_def)

lemma positive_duration_iff: "positive_duration s \<longleftrightarrow> (\<exists>t. ParseDuration s = Some t \<and> 0 < t)"
  by (simp add: positive_duration_def split: option.splits)

text \<open>A retry configuration that passes validation has a back-off whose intervals parse, are positive
  and are ordered.\<close>

theorem valid_retry_is_sane:
  assumes "RetryConfig_Validate r = Inr ()" "rtyPerRetryPolicy r = Some p" "prpBackOff p = Some bo"
    "boBaseInterval bo = Some b" "boMaxInterval bo = Some x"
  shows "\<exists>bt xt. ParseDuration b = Some bt \<and> ParseDuration x = Some xt \<and> 0 < bt \<and> bt \<le> xt"
  using assms by (auto simp: RetryConfig_Validate_def backoff_check_def positive_duration_iff not_less)

theorem valid_retry_is_sane_witness:
  "\<exists>bt xt. ParseDuration ''100ms'' = Some bt \<and> ParseDuration ''2s'' = Some xt \<and> 0 < bt \<and> bt \<le> xt"
proof -
  let ?bo = "\<lparr>boBaseInterval = Some ''100ms'', boMaxInterval = Some ''2s''\<rparr>"
  let ?r = "\<lparr>rtyNumRetries = Some 3, rtyRetryOn = None, rtyPerRetryPolicy = Some \<lparr>prpBackOff = Some ?bo, prpTimeout = None\<rparr>\<rparr>"
  have "RetryConfig_Validate ?r = Inr ()" by code_simp
  then show ?thesis by (rule valid_retry_is_sane [where bo = ?bo and p = "\<lparr>prpBackOff = Some ?bo, prpTimeout = None\<rparr>"]) simp_all
qed

end
