(* ===== verification/Settings.thy ===== *)
theory Settings
  imports Policies
begin

text \<open>
  The settings of a domain, \<open>src/internal/models/domain_settings.go\<close>: one record per struct, the \<open>IsEmpty\<close> and \<open>Validate\<close> methods and the TLS profiles.
  A pointer is an \<open>option\<close>; a pointer to a string that the code treats like an absent one when the string is empty stays an \<open>option\<close>.
\<close>

section \<open>Data\<close>

record XForwardedForConfig =
  xfNumTrustedHops :: int

record CustomHeaderConfig =
  cuName :: string
  cuFailClosed :: bool

record ClientIPDetectionConfig =
  cidXForwardedFor :: "XForwardedForConfig option"
  cidCustomHeader :: "CustomHeaderConfig option"

record ConnectionLimitConfig =
  clmMaxConnections :: "int option"
  clmCloseDelay :: "string option"
  clmMaxConnectionDuration :: "string option"
  clmMaxRequestsPerConnection :: "int option"

record TCPKeepaliveConfig =
  tkProbes :: "int option"
  tkIdleTime :: "string option"
  tkInterval :: "string option"

record ClientConnectionConfig =
  ccTCPKeepalive :: "TCPKeepaliveConfig option"
  ccProxyProtocol :: "bool option"
  ccConnectionLimit :: "ConnectionLimitConfig option"
  ccBufferLimit :: "string option"

record HTTPTimeoutConfig =
  htRequestReceivedTimeout :: "string option"
  htIdleTimeout :: "string option"

record TimeoutConfig =
  tmHTTP :: "HTTPTimeoutConfig option"

record TLSSettingsConfig =
  tsMinVersion :: "string option"
  tsMaxVersion :: "string option"
  tsCiphers :: "string list"
  tsECDHCurves :: "string list"
  tsSignatureAlgorithms :: "string list"

record MTLSCACert =
  mcaID :: string
  mcaName :: string
  mcaSecretName :: string
  mcaSecretKey :: string

record MTLSSANEntry =
  msnType :: string
  msnValue :: string

record DomainMTLSConfig =
  dmEnabled :: bool
  dmOptional :: bool
  dmCACerts :: "MTLSCACert list"
  dmSANWhitelist :: "MTLSSANEntry list"
  dmHashWhitelist :: "string list"

record DomainSettingsConfig =
  dscClientConnection :: "ClientConnectionConfig option"
  dscClientIPDetection :: "ClientIPDetectionConfig option"
  dscTimeout :: "TimeoutConfig option"
  dscHTTP3 :: "bool option"
  dscTLS :: "TLSSettingsConfig option"
  dscMTLS :: "DomainMTLSConfig option"

record DomainSettings =
  dstID :: uuid
  dstDomainID :: uuid
  dstProjectID :: uuid
  dstConfig :: DomainSettingsConfig

section \<open>Emptiness\<close>

text \<open>A pointer that is \<open>nil\<close>, or whose value is empty.\<close>

definition absent :: "('a \<Rightarrow> bool) \<Rightarrow> 'a option \<Rightarrow> bool" where
  "absent p x = (case x of None \<Rightarrow> True | Some y \<Rightarrow> p y)"

definition blank :: "string option \<Rightarrow> bool" where
  "blank s = absent (\<lambda>t. t = []) s"

definition ClientIPDetectionConfig_IsEmpty :: "ClientIPDetectionConfig \<Rightarrow> bool" where
  "ClientIPDetectionConfig_IsEmpty c \<longleftrightarrow> cidXForwardedFor c = None \<and> cidCustomHeader c = None"

definition ConnectionLimitConfig_IsEmpty :: "ConnectionLimitConfig \<Rightarrow> bool" where
  "ConnectionLimitConfig_IsEmpty c \<longleftrightarrow> clmMaxConnections c = None \<and> blank (clmCloseDelay c) \<and> blank (clmMaxConnectionDuration c) \<and>
     clmMaxRequestsPerConnection c = None"

definition ClientConnectionConfig_IsEmpty :: "ClientConnectionConfig \<Rightarrow> bool" where
  "ClientConnectionConfig_IsEmpty c \<longleftrightarrow> ccTCPKeepalive c = None \<and> absent Not (ccProxyProtocol c) \<and>
     absent ConnectionLimitConfig_IsEmpty (ccConnectionLimit c) \<and> blank (ccBufferLimit c)"

definition HTTPTimeoutConfig_IsEmpty :: "HTTPTimeoutConfig \<Rightarrow> bool" where
  "HTTPTimeoutConfig_IsEmpty h \<longleftrightarrow> blank (htRequestReceivedTimeout h) \<and> blank (htIdleTimeout h)"

definition TimeoutConfig_IsEmpty :: "TimeoutConfig \<Rightarrow> bool" where
  "TimeoutConfig_IsEmpty t \<longleftrightarrow> absent HTTPTimeoutConfig_IsEmpty (tmHTTP t)"

definition TLSSettingsConfig_IsEmpty :: "TLSSettingsConfig \<Rightarrow> bool" where
  "TLSSettingsConfig_IsEmpty t \<longleftrightarrow> blank (tsMinVersion t) \<and> blank (tsMaxVersion t) \<and> tsCiphers t = [] \<and> tsECDHCurves t = [] \<and>
     tsSignatureAlgorithms t = []"

definition DomainSettingsConfig_IsEmpty :: "DomainSettingsConfig \<Rightarrow> bool" where
  "DomainSettingsConfig_IsEmpty c \<longleftrightarrow> absent ClientConnectionConfig_IsEmpty (dscClientConnection c) \<and>
     absent ClientIPDetectionConfig_IsEmpty (dscClientIPDetection c) \<and> absent TimeoutConfig_IsEmpty (dscTimeout c) \<and> absent Not (dscHTTP3 c) \<and>
     absent TLSSettingsConfig_IsEmpty (dscTLS c) \<and> absent (\<lambda>m. \<not> dmEnabled m) (dscMTLS c)"

section \<open>Validation\<close>

text \<open>\<open>httpHeaderNameRegex\<close>: one or more token characters.\<close>

definition token_char :: "char \<Rightarrow> bool" where
  "token_char c \<longleftrightarrow> is_digit c \<or> (65 \<le> (of_char c :: nat) \<and> (of_char c :: nat) \<le> 90) \<or> (97 \<le> (of_char c :: nat) \<and> (of_char c :: nat) \<le> 122) \<or>
     c \<in> set (''!#$%&*+-.^_|~'' @ [CHR 0x27, CHR 0x60])"

definition httpHeaderNameRegex :: "string \<Rightarrow> bool" where
  "httpHeaderNameRegex s \<longleftrightarrow> s \<noteq> [] \<and> list_all token_char s"

definition ClientIPDetectionConfig_Validate :: "ClientIPDetectionConfig \<Rightarrow> check" where
  "ClientIPDetectionConfig_Validate c = checks
     [fail_if (cidXForwardedFor c \<noteq> None \<and> cidCustomHeader c \<noteq> None) ''xForwardedFor and customHeader are mutually exclusive'',
      check_opt (\<lambda>x. fail_if (xfNumTrustedHops x < 1 \<or> 10 < xfNumTrustedHops x) ''numTrustedHops must be between 1 and 10'') (cidXForwardedFor c),
      check_opt (\<lambda>h. checks
        [fail_if (cuName h = []) ''customHeader.name is required'',
         fail_if (\<not> httpHeaderNameRegex (cuName h)) ''customHeader.name must be a valid HTTP header name (alphanumeric and hyphens)'']) (cidCustomHeader c)]"

definition duration_check :: "string \<Rightarrow> string option \<Rightarrow> check" where
  "duration_check f s = check_opt (\<lambda>t. optional_duration t f) s"

definition ConnectionLimitConfig_Validate :: "ConnectionLimitConfig \<Rightarrow> check" where
  "ConnectionLimitConfig_Validate c = checks
     [check_opt (\<lambda>n. fail_if (n < 0) ''maxConnections must be non-negative'') (clmMaxConnections c),
      check_opt (\<lambda>n. fail_if (n < 0) ''maxRequestsPerConnection must be non-negative'') (clmMaxRequestsPerConnection c),
      duration_check ''invalid closeDelay duration: %w'' (clmCloseDelay c),
      duration_check ''invalid maxConnectionDuration: %w'' (clmMaxConnectionDuration c)]"

definition TCPKeepaliveConfig_Validate :: "TCPKeepaliveConfig \<Rightarrow> check" where
  "TCPKeepaliveConfig_Validate t = checks
     [check_opt (\<lambda>n. fail_if (n < 0) ''probes must be non-negative'') (tkProbes t),
      duration_check ''invalid idleTime duration: %w'' (tkIdleTime t), duration_check ''invalid interval duration: %w'' (tkInterval t)]"

definition ClientConnectionConfig_Validate :: "ClientConnectionConfig \<Rightarrow> check" where
  "ClientConnectionConfig_Validate c = checks
     [check_opt TCPKeepaliveConfig_Validate (ccTCPKeepalive c), check_opt ConnectionLimitConfig_Validate (ccConnectionLimit c)]"

definition HTTPTimeoutConfig_Validate :: "HTTPTimeoutConfig \<Rightarrow> check" where
  "HTTPTimeoutConfig_Validate h = checks
     [duration_check ''invalid requestReceivedTimeout duration: %w'' (htRequestReceivedTimeout h),
      duration_check ''invalid idleTimeout duration: %w'' (htIdleTimeout h)]"

definition TimeoutConfig_Validate :: "TimeoutConfig \<Rightarrow> check" where
  "TimeoutConfig_Validate t = check_opt HTTPTimeoutConfig_Validate (tmHTTP t)"

definition valid_tls_versions :: "string list" where
  "valid_tls_versions = [''TLS1.0'', ''TLSv1.0'', ''TLS1.1'', ''TLSv1.1'', ''TLS1.2'', ''TLSv1.2'', ''TLS1.3'', ''TLSv1.3'', ''Auto'', []]"

definition TLSSettingsConfig_Validate :: "TLSSettingsConfig \<Rightarrow> check" where
  "TLSSettingsConfig_Validate t = checks
     [check_opt (\<lambda>v. fail_if (v \<noteq> [] \<and> v \<notin> set valid_tls_versions) ''invalid minVersion: %s'') (tsMinVersion t),
      check_opt (\<lambda>v. fail_if (v \<noteq> [] \<and> v \<notin> set valid_tls_versions) ''invalid maxVersion: %s'') (tsMaxVersion t)]"

definition GetTLSProfileConfig :: "string \<Rightarrow> TLSSettingsConfig option" where
  "GetTLSProfileConfig profile =
     (let tls = (\<lambda>low ciphers. Some \<lparr>tsMinVersion = Some low, tsMaxVersion = Some ''TLS1.3'', tsCiphers = ciphers, tsECDHCurves = [],
        tsSignatureAlgorithms = []\<rparr>)
      in if profile = ''modern'' then tls ''TLS1.3'' []
         else if profile = ''intermediate'' then tls ''TLS1.2''
           [''TLS_ECDHE_ECDSA_WITH_AES_128_GCM_SHA256'', ''TLS_ECDHE_RSA_WITH_AES_128_GCM_SHA256'', ''TLS_ECDHE_ECDSA_WITH_AES_256_GCM_SHA384'',
            ''TLS_ECDHE_RSA_WITH_AES_256_GCM_SHA384'', ''TLS_ECDHE_ECDSA_WITH_CHACHA20_POLY1305_SHA256'', ''TLS_ECDHE_RSA_WITH_CHACHA20_POLY1305_SHA256'']
         else if profile = ''compatible'' then tls ''TLS1.0'' []
         else None)"

definition ValidateShape :: "DomainMTLSConfig \<Rightarrow> check" where
  "ValidateShape m =
     (if \<not> dmEnabled m then Inr ()
      else checks
        [check_each (\<lambda>s. checks
           [fail_if (msnType s \<noteq> ''DNS'' \<and> msnType s \<noteq> ''URI'') ''sanWhitelist[%d]: type must be DNS or URI, got %s'',
            fail_if (msnValue s = []) ''sanWhitelist[%d]: value cannot be empty'']) (dmSANWhitelist m),
         check_each (\<lambda>h. checks
           [fail_if (length h \<noteq> 64) ''hashWhitelist[%d]: must be 64 hex characters (SHA256), got %d'',
            fail_if (\<not> list_all is_hex h) ''hashWhitelist[%d]: must be 64 hex characters (SHA256), contains non-hex characters'']) (dmHashWhitelist m)])"

definition DomainMTLSConfig_Validate :: "DomainMTLSConfig \<Rightarrow> check" where
  "DomainMTLSConfig_Validate m =
     (if \<not> dmEnabled m then Inr ()
      else checks [ValidateShape m, fail_if (dmCACerts m = []) ''at least one CA certificate is required when mTLS is enabled''])"

section \<open>Facts\<close>

text \<open>Every profile that exists passes validation.\<close>

lemma profiles_valid: "GetTLSProfileConfig p = Some t \<Longrightarrow> TLSSettingsConfig_Validate t = Inr ()"
  by (auto simp: GetTLSProfileConfig_def TLSSettingsConfig_Validate_def valid_tls_versions_def check_opt_def Let_def split: if_splits)

lemma enabled_mtls_not_empty: "dscMTLS c = Some m \<Longrightarrow> dmEnabled m \<Longrightarrow> \<not> DomainSettingsConfig_IsEmpty c"
  by (simp add: DomainSettingsConfig_IsEmpty_def absent_def)

end
