(* ===== verification/Models.thy ===== *)
theory Models
  imports Settings
begin

text \<open>
  The data of \<open>src/internal/models\<close>: one record per struct and one datatype per
  enumeration. A field keeps the name of the struct's field behind a prefix that names
  the struct (\<open>apStatus\<close> is \<open>Approval.Status\<close>). Time stamps, preloaded relations and the
  fields marked \<open>gorm:"-"\<close> that only serve the JSON output are left out, except
  \<open>Approval.Stages\<close> and \<open>Route.PendingApproval\<close>, which the code reads.

  An enumeration whose value can arrive from a request or from an unknown row has a
  constructor for every other string, so that the \<open>default\<close> arms of the sources are
  branches of the model.
\<close>

section \<open>Users, projects and teams\<close>

datatype UserRole = UserRoleOwner | UserRoleUser

record User =
  usrID :: uuid
  usrRole :: UserRole

record Project =
  prjID :: uuid
  prjName :: string
  prjApprovalEnabled :: bool
  prjSelfApprovalAllowed :: bool

record ProjectAdmin =
  padProjectID :: uuid
  padUserID :: uuid

type_synonym Permission = string

definition PermRouteApprove :: Permission where "PermRouteApprove = ''route.approve''"
definition PermRouteCreate :: Permission where "PermRouteCreate = ''route.create''"
definition PermClientApprove :: Permission where "PermClientApprove = ''client.approve''"
definition PermDomainDelete :: Permission where "PermDomainDelete = ''domain.delete''"
definition PermProjectTeams :: Permission where "PermProjectTeams = ''project.teams''"
definition PermAuditView :: Permission where "PermAuditView = ''audit.view''"
definition PermCertificateView :: Permission where "PermCertificateView = ''certificate.view''"
definition PermCertificateCreate :: Permission where "PermCertificateCreate = ''certificate.create''"
definition PermCertificateEdit :: Permission where "PermCertificateEdit = ''certificate.edit''"
definition PermCertificateDelete :: Permission where "PermCertificateDelete = ''certificate.delete''"
definition PermCertificateApprove :: Permission where "PermCertificateApprove = ''certificate.approve''"

definition AllPermissions :: "Permission list" where
  "AllPermissions =
    [''route.view'', PermRouteCreate, ''route.edit'', ''route.delete'', ''route.deploy'', PermRouteApprove,
     ''client.view'', ''client.create'', ''client.edit'', ''client.delete'', ''client.manage_ip'',
     ''client.manage_apikey'', ''client.manage_jwt'', ''client.attach'', ''client.detach'', PermClientApprove,
     ''domain.view'', ''domain.create'', ''domain.edit'', PermDomainDelete,
     ''project.settings'', PermProjectTeams, ''project.approval_policy'',
     PermAuditView,
     PermCertificateView, PermCertificateCreate, PermCertificateEdit, PermCertificateDelete, PermCertificateApprove]"

definition PresetViewer :: "Permission list" where
  "PresetViewer = [''route.view'', ''client.view'', ''domain.view'', PermCertificateView]"

definition PresetEditor :: "Permission list" where
  "PresetEditor =
    [''route.view'', PermRouteCreate, ''route.edit'', ''route.delete'', ''route.deploy'',
     ''client.view'', ''client.create'', ''client.edit'', ''client.manage_ip'', ''client.manage_apikey'',
     ''client.manage_jwt'', ''client.attach'', ''client.detach'',
     ''domain.view'', ''domain.create'', ''domain.edit'',
     PermCertificateView, PermCertificateCreate, PermCertificateEdit, PermCertificateDelete]"

definition PresetApprover :: "Permission list" where
  "PresetApprover =
    [''route.view'', PermRouteApprove, ''client.view'', PermClientApprove, ''domain.view'',
     PermCertificateView, PermCertificateApprove]"

definition PresetAdmin :: "Permission list" where
  "PresetAdmin = AllPermissions"

definition ResolvePreset :: "string \<Rightarrow> Permission list option" where
  "ResolvePreset preset =
     (if preset = ''viewer'' then Some PresetViewer
      else if preset = ''editor'' then Some PresetEditor
      else if preset = ''approver'' then Some PresetApprover
      else if preset = ''admin'' then Some PresetAdmin
      else None)"

definition IsValidPermission :: "string \<Rightarrow> bool" where
  "IsValidPermission perm \<longleftrightarrow> list_ex (\<lambda>p. p = perm) AllPermissions"

record Team =
  teamID :: uuid
  teamName :: string

record TeamMember =
  tmTeamID :: uuid
  tmUserID :: uuid

record PermissionPreset =
  ppID :: uuid
  ppPermissions :: "string list"

record ProjectTeamPreset =
  ptpRoleID :: uuid
  ptpPresetID :: uuid

text \<open>
  A role row, and a role as it is read: with the permission presets of its assignments
  (\<open>Preload("Presets.Preset")\<close>).
\<close>

record ProjectTeamRole =
  ptrID :: uuid
  ptrProjectID :: uuid
  ptrTeamID :: uuid
  ptrPresets :: "PermissionPreset list"

section \<open>Approvals\<close>

datatype ApprovalStatus =
    ApprovalStatusPending
  | ApprovalStatusApproved
  | ApprovalStatusRejected
  | ApprovalStatusCancelled

datatype ApprovalEntityType =
    ApprovalEntityRoute
  | ApprovalEntityClientAttachment
  | ApprovalEntityCertificate
  | ApprovalEntityOther string

datatype ApprovalAction =
    ApprovalActionCreate
  | ApprovalActionUpdate
  | ApprovalActionDelete
  | ApprovalActionAttach
  | ApprovalActionDetach
  | ApprovalActionExport
  | ApprovalActionOther string

fun entity_string :: "ApprovalEntityType \<Rightarrow> string" where
  "entity_string ApprovalEntityRoute = ''route''"
| "entity_string ApprovalEntityClientAttachment = ''client_attachment''"
| "entity_string ApprovalEntityCertificate = ''certificate''"
| "entity_string (ApprovalEntityOther s) = s"

fun action_string :: "ApprovalAction \<Rightarrow> string" where
  "action_string ApprovalActionCreate = ''create''"
| "action_string ApprovalActionUpdate = ''update''"
| "action_string ApprovalActionDelete = ''delete''"
| "action_string ApprovalActionAttach = ''attach''"
| "action_string ApprovalActionDetach = ''detach''"
| "action_string ApprovalActionExport = ''export''"
| "action_string (ApprovalActionOther s) = s"

record ApprovalStageReview =
  revStageID :: uuid
  revReviewerID :: uuid
  revDecision :: string

record ApprovalStage =
  stgID :: uuid
  stgApprovalID :: uuid
  stgOrder :: int
  stgRequiredPermission :: string
  stgRequiredTeamID :: "uuid option"
  stgReviewedBy :: "uuid option"
  stgStatus :: ApprovalStatus
  stgComment :: string
  stgMinApprovers :: int

record PolicyStageTemplate =
  tplOrder :: int
  tplRequiredPermission :: string
  tplTeamScope :: string
  tplMinApprovers :: int

record ApprovalPolicy =
  polID :: uuid
  polProjectID :: uuid
  polEntityType :: string
  polAction :: "string option"
  polStages :: "PolicyStageTemplate list raw"

definition EffectiveMinApprovers :: "int \<Rightarrow> int" where
  "EffectiveMinApprovers n = (if n \<le> 0 then 1 else n)"

section \<open>Routes\<close>

datatype RouteStatus =
    RouteStatusPendingCreate
  | RouteStatusPendingUpdate
  | RouteStatusPendingDelete
  | RouteStatusApproved
  | RouteStatusActive
  | RouteStatusRejected
  | RouteStatusPendingDeploy

datatype TransitionSite =
    SiteRouteCreateFastPath
  | SiteRouteUpdate
  | SiteRouteUpdateFastPath
  | SiteRouteDelete
  | SiteRouteDeleteFastPath
  | SiteApprovalApproved
  | SiteApprovalRejected
  | SiteApprovalCancelled
  | SiteAttachFromRoute
  | SiteAttachFromClient
  | SiteRequestDetach
  | SiteAttachmentApproved
  | SiteClientCascade
  | SiteDeploy
  | SiteOther string

datatype RouteProtocol =
    RouteProtocolHTTP | RouteProtocolGRPC | RouteProtocolTCP | RouteProtocolUDP
  | RouteProtocolEmpty | RouteProtocolOther string

datatype SecurityMode = SecurityModeGeneral | SecurityModeClient | SecurityModeEmpty | SecurityModeOther string

record PathMatch =
  pmType :: string
  pmValue :: string

record HeaderMatch =
  hmName :: string
  hmType :: string
  hmValue :: string

record QueryParamMatch =
  qmName :: string
  qmType :: string
  qmValue :: string

record GRPCMethodMatch =
  gmType :: string
  gmValue :: string

record RouteMatch =
  rmPath :: "PathMatch option"
  rmHeaders :: "HeaderMatch list"
  rmMethod :: string
  rmQueryParams :: "QueryParamMatch list"
  rmGRPCService :: "GRPCMethodMatch option"
  rmGRPCMethod :: "GRPCMethodMatch option"

record CertificateRef =
  crKind :: string
  crName :: string
  crNamespace :: string

record BackendTLSConfig =
  btlsMode :: string
  btlsInsecureSkipVerify :: bool
  btlsSNI :: string
  btlsCACertificateRefs :: "CertificateRef list"
  btlsClientCertificateRef :: "SecretRef option"

record RouteBackend =
  beType :: string
  beService :: string
  beNamespace :: string
  bePort :: int
  beWeight :: int
  beFallback :: bool
  beAddressType :: string
  beAddress :: string
  beTLS :: "BackendTLSConfig option"

record MirrorBackend =
  mbType :: string
  mbService :: string
  mbNamespace :: string
  mbPort :: int

record PathRewrite =
  prType :: string
  prReplacePrefixMatch :: string
  prReplaceFullPath :: string

record RedirectConfig =
  rdScheme :: string
  rdHostname :: string
  rdPort :: "int option"
  rdStatusCode :: int
  rdPath :: "PathRewrite option"

record URLRewrite =
  urHostname :: "string option"
  urPath :: "PathRewrite option"

record HeaderModifier =
  hdSet :: "(string \<times> string) list"
  hdAdd :: "(string \<times> string) list"
  hdRemove :: "string list"

record DirectResponseBody =
  drbType :: string
  drbInline :: string

record DirectResponseConfig =
  drStatusCode :: int
  drContentType :: string
  drBody :: "DirectResponseBody option"

record RouteConfig =
  rcRouteType :: string
  rcMatches :: "RouteMatch list"
  rcBackends :: "RouteBackend list"
  rcMirrors :: "MirrorBackend list"
  rcRedirect :: "RedirectConfig option"
  rcDirectResponse :: "DirectResponseConfig option"
  rcRequestHeaderModifier :: "HeaderModifier option"
  rcResponseHeaderModifier :: "HeaderModifier option"
  rcURLRewrite :: "URLRewrite option"
  rcListenerPort :: int
  rcDefaultTrafficPolicy :: string
  rcDefaultAllowedCIDRs :: "string list"

definition RouteConfig_zero :: RouteConfig where
  "RouteConfig_zero = \<lparr>rcRouteType = [], rcMatches = [], rcBackends = [], rcMirrors = [],
     rcRedirect = None, rcDirectResponse = None, rcRequestHeaderModifier = None,
     rcResponseHeaderModifier = None, rcURLRewrite = None, rcListenerPort = 0,
     rcDefaultTrafficPolicy = [], rcDefaultAllowedCIDRs = []\<rparr>"

definition HasFailover :: "RouteConfig \<Rightarrow> bool" where
  "HasFailover c \<longleftrightarrow> list_ex beFallback (rcBackends c)"

definition DirectResponseConfig_Validate :: "DirectResponseConfig \<Rightarrow> error + unit" where
  "DirectResponseConfig_Validate d =
     (if drStatusCode d < 100 \<or> drStatusCode d > 599
      then Inl (Msg ''statusCode must be between 100 and 599, got %d'')
      else case drBody d of None \<Rightarrow> Inr ()
      | Some b \<Rightarrow>
          if drbType b \<noteq> ''Inline'' \<and> drbType b \<noteq> ''ValueRef''
          then Inl (Msg ''body type must be Inline or ValueRef, got %s'')
          else if drbType b = ''Inline'' \<and> length (drbInline b) > 4096
          then Inl (Msg ''inline body exceeds maximum size of 4096 bytes, got %d bytes'')
          else Inr ())"

fun validate_ca_refs :: "CertificateRef list \<Rightarrow> error + unit" where
  "validate_ca_refs [] = Inr ()"
| "validate_ca_refs (ref # refs) =
     (if crKind ref \<noteq> ''Secret'' \<and> crKind ref \<noteq> ''ConfigMap''
      then Inl (Msg ''caCertificateRefs[%d].kind must be Secret or ConfigMap, got %s'')
      else if crName ref = [] then Inl (Msg ''caCertificateRefs[%d].name is required'')
      else validate_ca_refs refs)"

definition validate_tls_ca :: "BackendTLSConfig \<Rightarrow> error + unit" where
  "validate_tls_ca t =
     (if btlsInsecureSkipVerify t
      then (if btlsCACertificateRefs t \<noteq> []
            then Inl (Msg ''caCertificateRefs must not be set when insecureSkipVerify is true'')
            else Inr ())
      else if btlsCACertificateRefs t = []
      then Inl (Msg ''caCertificateRefs is required when insecureSkipVerify is false'')
      else validate_ca_refs (btlsCACertificateRefs t))"

definition validate_tls_client :: "BackendTLSConfig \<Rightarrow> error + unit" where
  "validate_tls_client t =
     (if btlsMode t = ''simple''
      then (if btlsClientCertificateRef t \<noteq> None
            then Inl (Msg ''clientCertificateRef is not allowed in simple mode'') else Inr ())
      else if btlsMode t = ''mtls''
      then (case btlsClientCertificateRef t of
              None \<Rightarrow> Inl (Msg ''clientCertificateRef is required for mtls mode'')
            | Some r \<Rightarrow> if srName r = []
                then Inl (Msg ''clientCertificateRef.name is required when clientCertificateRef is set'')
                else Inr ())
      else Inr ())"

definition BackendTLSConfig_Validate :: "BackendTLSConfig option \<Rightarrow> error + unit" where
  "BackendTLSConfig_Validate topt = (case topt of None \<Rightarrow> Inr ()
     | Some t \<Rightarrow>
       if btlsMode t = [] then Inl (Msg ''mode is required when tls is configured'')
       else if btlsMode t \<noteq> ''simple'' \<and> btlsMode t \<noteq> ''mtls''
       then Inl (Msg ''mode must be simple or mtls, got %s'')
       else case validate_tls_ca t of Inl e \<Rightarrow> Inl e | Inr _ \<Rightarrow> validate_tls_client t)"

text \<open>The JSON document an approval carries.\<close>

record RouteApprovalSnapshot =
  snRouteConfig :: "RouteConfig option"
  snSecurityPolicy :: "SecurityPolicyConfig option"
  snBackendTrafficPolicy :: "BackendTrafficPolicyConfig option"
  snEnvoyExtensionPolicy :: "EnvoyExtensionPolicyConfig option"
  snWafPolicy :: "WafPolicyConfig option"

record Approval =
  apID :: uuid
  apProjectID :: uuid
  apEntityType :: ApprovalEntityType
  apEntityID :: uuid
  apAction :: ApprovalAction
  apConfigSnapshot :: "RouteApprovalSnapshot raw option"
  apPreviousConfig :: "RouteApprovalSnapshot raw option"
  apSubmittedBy :: uuid
  apStatus :: ApprovalStatus
  apChangeDescription :: string
  apAIReview :: "doc option"
  apStages :: "ApprovalStage list"

record Route =
  rtID :: uuid
  rtDomainID :: "uuid option"
  rtStreamID :: "uuid option"
  rtListenerPort :: "int option"
  rtTeamID :: uuid
  rtName :: string
  rtDescription :: string
  rtProtocol :: RouteProtocol
  rtSecurityMode :: SecurityMode
  rtConfig :: RouteConfig
  rtStatus :: RouteStatus
  rtK8sRouteName :: string
  rtCreatedBy :: uuid
  rtLabels :: "(string \<times> string) list"

definition proto_is_l4 :: "RouteProtocol \<Rightarrow> bool" where
  "proto_is_l4 p \<longleftrightarrow> p = RouteProtocolTCP \<or> p = RouteProtocolUDP"

definition IsL4 :: "Route \<Rightarrow> bool" where
  "IsL4 r \<longleftrightarrow> rtProtocol r = RouteProtocolTCP \<or> rtProtocol r = RouteProtocolUDP"

definition SyncListenerPort :: "Route \<Rightarrow> Route" where
  "SyncListenerPort r =
     (if IsL4 r \<and> rcListenerPort (rtConfig r) \<noteq> 0
      then r\<lparr>rtListenerPort := Some (rcListenerPort (rtConfig r))\<rparr>
      else r\<lparr>rtListenerPort := None\<rparr>)"

definition Transport :: "Route \<Rightarrow> string" where
  "Transport r = (case rtProtocol r of RouteProtocolUDP \<Rightarrow> ''UDP'' | RouteProtocolTCP \<Rightarrow> ''TCP'' | _ \<Rightarrow> [])"

text \<open>
  The policy rows of a route. The four tables have one row per route
  (\<open>UNIQUE(route_id)\<close>, or the repository's upsert).
\<close>

record 'c PolicyRow =
  prwRouteID :: uuid
  prwProjectID :: uuid
  prwConfig :: 'c

text \<open>A deployed version of a route.\<close>

record RouteVersion =
  rvRouteID :: uuid
  rvVersion :: int
  rvConfigSnapshot :: "RouteApprovalSnapshot raw"
  rvRouteDescription :: string
  rvProtocol :: RouteProtocol
  rvSecurityMode :: SecurityMode
  rvChangeDescription :: string
  rvApprovalID :: "uuid option"
  rvDeployedBy :: uuid

section \<open>Clients\<close>

datatype AttachmentStatus =
    AttachmentStatusPendingAttach
  | AttachmentStatusPendingUpdate
  | AttachmentStatusPendingDetach
  | AttachmentStatusApproved
  | AttachmentStatusActive
  | AttachmentStatusRemoved
  | AttachmentStatusRejected

record ClientRouteAttachment =
  attID :: uuid
  attClientID :: uuid
  attRouteID :: uuid
  attEnableIPAllowlist :: bool
  attEnableAPIKey :: bool
  attEnableJWT :: bool
  attEnableBasicAuth :: bool
  attEnableMTLS :: bool
  attEnableHeaderAuth :: bool
  attRateLimitConfig :: "RateLimitConfig option"
  attExtAuth :: "ExtAuthConfig option"
  attStatus :: AttachmentStatus
  attCreatedBy :: uuid

record JWTRequiredClaim =
  rqName :: string
  rqValues :: "string list"
  rqValueType :: string

record Client =
  clID :: uuid
  clTeamID :: uuid
  clName :: string
  clDescription :: string
  clContactName :: string
  clContactEmail :: string
  clCreatedBy :: uuid
  clAPIKeyEnabled :: bool
  clAPIKeyHash :: string
  clAPIKeyEncrypted :: string
  clAPIKeyPrefix :: string
  clAPIKeyHeaderName :: string
  clClientIDHeaderName :: string
  clJWTEnabled :: bool
  clJWTIssuer :: string
  clJWTJWKSURL :: string
  clJWTAudiences :: "string list"
  clJWTRequiredClaims :: "JWTRequiredClaim list"
  clJWTClaimToHeaders :: "(string \<times> string) list"
  clMTLSEnabled :: bool
  clMTLSCAName :: string
  clMTLSCASecret :: string
  clMTLSCASecretKey :: string
  clMTLSCAPem :: string
  clMTLSSANs :: "(string \<times> string) list"
  clMTLSHashes :: "string list"
  clAllowedMethods :: "string list"
  clManagedCertificateID :: "uuid option"
  clIPAddressCount :: int
  clHeaderCount :: int

record ClientIPAddress =
  cipID :: uuid
  cipClientID :: uuid
  cipCIDR :: string

record ClientHeader =
  chdID :: uuid
  chdClientID :: uuid
  chdName :: string
  chdValues :: "string list"

section \<open>Domains and streams\<close>

datatype ListenerProtocol =
    ListenerHTTP | ListenerHTTPS | ListenerTLS | ListenerTCP | ListenerUDP | ListenerOther string

record TemplateListener =
  tlName :: string
  tlProtocol :: ListenerProtocol
  tlPort :: int
  tlTLSMode :: string
  tlPortRangeMin :: int
  tlPortRangeMax :: int

definition HostnameRouted :: "TemplateListener list \<Rightarrow> TemplateListener list" where
  "HostnameRouted l = filter (\<lambda>x. tlProtocol x \<in> {ListenerHTTP, ListenerHTTPS, ListenerTLS}) l"

definition StreamRange :: "TemplateListener list \<Rightarrow> (int \<times> int) option" where
  "StreamRange l = map_option (\<lambda>x. (tlPortRangeMin x, tlPortRangeMax x))
     (List.find (\<lambda>x. tlProtocol x = ListenerTCP \<or> tlProtocol x = ListenerUDP) l)"

record ScalingConfig =
  scType :: string
  scReplicas :: "int option"
  scMinReplicas :: "int option"
  scMaxReplicas :: "int option"

text \<open>
  Telemetry and scheduling blocks of a template. Go maps are association lists. The sampling
  rate, a \<open>float64\<close>, is the rational a decoded JSON number has.
\<close>

record TelemetryServiceRef =
  tsrNamespace :: string
  tsrService :: string
  tsrPort :: int

record TelemetryAccessLogConfig =
  talFormatType :: string
  talFormatText :: string
  talFormatJSON :: "(string \<times> string) list"
  talSinkType :: string
  talSinkFile :: "string option"
  talSinkOTel :: "TelemetryServiceRef option"

record TelemetryTracingTag =
  ttgType :: string
  ttgTag :: string
  ttgValue :: string
  ttgHeader :: string

record TelemetryTracingConfig =
  ttcSamplingRate :: rat
  ttcProvider :: TelemetryServiceRef
  ttcCustomTags :: "TelemetryTracingTag list"

record TelemetryMetricsConfig =
  tmcPrometheus :: "bool option"
  tmcEnableVirtualHostStats :: bool
  tmcEnablePerEndpointStats :: bool
  tmcSinks :: "(string \<times> TelemetryServiceRef) list"

record TolerationConfig =
  tolKey :: string
  tolOperator :: string
  tolValue :: string
  tolEffect :: string
  tolTolerationSeconds :: "int option"

record TopologySpreadConstraintConfig =
  tspMaxSkew :: int
  tspTopologyKey :: string
  tspWhenUnsatisfiable :: string

record PodPlacementConfig =
  ppcNodeSelector :: "(string \<times> string) list"
  ppcTolerations :: "TolerationConfig list"
  ppcTopologySpreadConstraints :: "TopologySpreadConstraintConfig list"
  ppcPriorityClassName :: string

record PDBConfig =
  pdbKind :: string
  pdbAmount :: string

record DeploymentStrategyConfig =
  dscType :: string
  dscRollingUpdate :: "(string \<times> string) option"

datatype DomainTemplateStatus =
    DomainTemplateStatusPending | DomainTemplateStatusActive | DomainTemplateStatusError

record DomainTemplate =
  dtID :: uuid
  dtProjectID :: uuid
  dtName :: string
  dtDescription :: string
  dtControllerName :: string
  dtExposureType :: string
  dtListeners :: "TemplateListener list"
  dtExternalTrafficPolicy :: string
  dtLoadBalancerClass :: string
  dtAnnotations :: "(string \<times> string) list"
  dtPodAnnotations :: "(string \<times> string) list"
  dtContainerResources :: "doc option"
  dtScalingConfig :: "ScalingConfig option"
  dtMergeGateways :: bool
  dtTelemetryAccessLog :: "TelemetryAccessLogConfig option"
  dtTelemetryTracing :: "TelemetryTracingConfig option"
  dtTelemetryMetrics :: "TelemetryMetricsConfig option"
  dtPodPlacement :: "PodPlacementConfig option"
  dtPDBConfig :: "PDBConfig option"
  dtDeploymentStrategy :: "DeploymentStrategyConfig option"
  dtStatus :: DomainTemplateStatus
  dtStatusMessage :: string
  dtK8sGatewayClassName :: string
  dtK8sEnvoyProxyName :: string
  dtCreatedBy :: uuid

datatype DomainStatus = DomainStatusPending | DomainStatusActive | DomainStatusError

record Domain =
  domID :: uuid
  domProjectID :: uuid
  domDomainTemplateID :: "uuid option"
  domManagedCertificateID :: "uuid option"
  domName :: string
  domHostname :: string
  domNamespace :: string
  domTLSSecretName :: string
  domTLSSecretNamespace :: string
  domBoundListeners :: "string list"
  domK8sGatewayName :: string
  domK8sGatewayClass :: string
  domStatus :: DomainStatus
  domStatusMessage :: string
  domCreatedBy :: uuid
  domLabels :: "(string \<times> string) list"

text \<open>\<open>dns_hosted_zone.go\<close>, \<open>domain_dns_record.go\<close> and \<open>dns_provider_credential.go\<close>.\<close>

datatype DNSRecordStatus = DNSRecordStatusPending | DNSRecordStatusReady | DNSRecordStatusError

definition DNSRecordTypeAuto :: string where "DNSRecordTypeAuto = ''auto''"
definition DNSRecordTypeA :: string where "DNSRecordTypeA = ''A''"
definition DNSRecordTypeAAAA :: string where "DNSRecordTypeAAAA = ''AAAA''"
definition DNSRecordTypeCNAME :: string where "DNSRecordTypeCNAME = ''CNAME''"

record DomainDNSRecord =
  ddrID :: uuid
  ddrDomainID :: uuid
  ddrHostedZoneID :: uuid
  ddrRecordType :: string
  ddrTTL :: "int option"
  ddrProxied :: bool
  ddrResolvedTarget :: string
  ddrStatus :: DNSRecordStatus
  ddrStatusMessage :: string
  ddrCreatedBy :: uuid

record DNSHostedZone =
  hzID :: uuid
  hzName :: string
  hzProviderCredentialID :: uuid
  hzProviderZoneID :: string

record DNSProviderCredential =
  dpcID :: uuid
  dpcProviderType :: string
  dpcCredentials :: "(string \<times> string) list raw"

text \<open>A record at a DNS provider (\<open>src/internal/dnsprovider/provider.go\<close>); it is keyed by zone, name and type.\<close>

record DNSRecord =
  recTarget :: string
  recTTL :: "int option"
  recProxied :: bool

definition NamespaceCapabilityDeployGateway :: string where
  "NamespaceCapabilityDeployGateway = ''deploy_gateway''"

definition NamespaceCapabilityBackendService :: string where
  "NamespaceCapabilityBackendService = ''backend_service''"

definition NamespaceCapabilityTLSSecret :: string where
  "NamespaceCapabilityTLSSecret = ''tls_secret''"

definition AllowedNamespaceCapabilities :: "string list" where
  "AllowedNamespaceCapabilities =
     [NamespaceCapabilityDeployGateway, NamespaceCapabilityBackendService, NamespaceCapabilityTLSSecret]"

record ProjectNamespace =
  pnsID :: uuid
  pnsProjectID :: uuid
  pnsNamespace :: string
  pnsCapabilities :: "string list"
  pnsReferenceGrantCreated :: bool

definition HasCapability :: "ProjectNamespace \<Rightarrow> string \<Rightarrow> bool" where
  "HasCapability n c \<longleftrightarrow> list_ex (\<lambda>x. x = c) (pnsCapabilities n)"

definition ReferenceGrantKindsForCapabilities :: "string list \<Rightarrow> string list" where
  "ReferenceGrantKindsForCapabilities caps = List.map_filter (\<lambda>c.
     if c = NamespaceCapabilityBackendService then Some ''Service''
     else if c = NamespaceCapabilityTLSSecret then Some ''Secret'' else None) caps"

record StreamPort =
  spTransport :: string
  spPort :: int

record Stream =
  strID :: uuid
  strProjectID :: uuid
  strName :: string
  strNamespace :: string
  strGatewayTemplateID :: uuid
  strK8sGatewayName :: string
  strK8sGatewayClass :: string
  strPorts :: "StreamPort list"
  strStatus :: string
  strStatusMessage :: string
  strCreatedBy :: "uuid option"

section \<open>Certificates\<close>

datatype ManagedCertUsage = ManagedCertUsageServer | ManagedCertUsageClient | ManagedCertUsageOther string

datatype ManagedCertKeyMode =
    ManagedCertKeyModeManaged | ManagedCertKeyModeCSR | ManagedCertKeyModeEmpty | ManagedCertKeyModeOther string

datatype ManagedCertStatus =
    ManagedCertStatusPending | ManagedCertStatusIssuing | ManagedCertStatusReady | ManagedCertStatusError

datatype IssuerType = IssuerTypeSelfSignedCA | IssuerTypeACME | IssuerTypeOther string

record ManagedCertConfig =
  mccDNSNames :: "string list"
  mccSubject :: string
  mccSecretName :: string
  mccCertificateName :: string
  mccKeyAlgorithm :: string
  mccKeySize :: int
  mccDurationDays :: int
  mccKeyMode :: ManagedCertKeyMode
  mccURISANs :: "string list"
  mccCSRPEM :: string

definition ManagedCertConfig_zero :: ManagedCertConfig where
  "ManagedCertConfig_zero = \<lparr>mccDNSNames = [], mccSubject = [], mccSecretName = [], mccCertificateName = [],
     mccKeyAlgorithm = [], mccKeySize = 0, mccDurationDays = 0, mccKeyMode = ManagedCertKeyModeEmpty,
     mccURISANs = [], mccCSRPEM = []\<rparr>"

record ManagedCertificate =
  mcID :: uuid
  mcProjectID :: uuid
  mcName :: string
  mcIssuerID :: uuid
  mcUsage :: ManagedCertUsage
  mcConfig :: ManagedCertConfig
  mcStatus :: ManagedCertStatus
  mcStatusMessage :: string
  mcCreatedBy :: uuid

record CertificateIssuer =
  ciID :: uuid
  ciName :: string
  ciType :: IssuerType
  ciIssuerName :: string
  ciCASecretName :: string

text \<open>Times are seconds of the clock of the store.\<close>

record CertificateExportGrant =
  cegID :: uuid
  cegManagedCertificateID :: uuid
  cegGrantedTo :: uuid
  cegExpiresAt :: nat
  cegConsumedAt :: "nat option"

section \<open>Lemmas\<close>

lemma EffectiveMinApprovers_pos [simp]: "1 \<le> EffectiveMinApprovers n"
  by (simp add: EffectiveMinApprovers_def)

lemma EffectiveMinApprovers_idem [simp]:
  "EffectiveMinApprovers (EffectiveMinApprovers n) = EffectiveMinApprovers n"
  by (simp add: EffectiveMinApprovers_def)

lemma SyncListenerPort_simps [simp]:
  "rtID (SyncListenerPort r) = rtID r"
  "rtStatus (SyncListenerPort r) = rtStatus r"
  "rtConfig (SyncListenerPort r) = rtConfig r"
  "rtProtocol (SyncListenerPort r) = rtProtocol r"
  "rtStreamID (SyncListenerPort r) = rtStreamID r"
  "rtDomainID (SyncListenerPort r) = rtDomainID r"
  "rtName (SyncListenerPort r) = rtName r"
  "rtTeamID (SyncListenerPort r) = rtTeamID r"
  by (simp_all add: SyncListenerPort_def)

lemma SyncListenerPort_idem [simp]: "SyncListenerPort (SyncListenerPort r) = SyncListenerPort r"
  by (simp add: SyncListenerPort_def IsL4_def)

lemma set_AllPermissions_presets:
  "set PresetViewer \<subseteq> set AllPermissions" "set PresetEditor \<subseteq> set AllPermissions"
  "set PresetApprover \<subseteq> set AllPermissions"
  by (auto simp: PresetViewer_def PresetEditor_def PresetApprover_def AllPermissions_def)

lemma ResolvePreset_valid:
  "ResolvePreset p = Some ps \<Longrightarrow> q \<in> set ps \<Longrightarrow> IsValidPermission q"
  using set_AllPermissions_presets
  by (auto simp: ResolvePreset_def IsValidPermission_def PresetAdmin_def list_ex_iff split: if_splits)

end
