(* ===== verification/Kubernetes.thy ===== *)
theory Kubernetes
  imports Models
begin

text \<open>
  The objects that the control plane writes to a project's cluster, with the builders of
  \<open>src/internal/kubernetes/gateway.go\<close>, \<open>src/internal/domainplan/gateway.go\<close>,
  \<open>src/internal/streamplan/gateway.go\<close> and \<open>src/internal/templateplan\<close>. An unstructured
  object is a record of the fields the builder sets; the constant parts of a manifest
  (\<open>apiVersion\<close>, \<open>kind\<close> and the \<open>managed-by\<close> label) are left out.
\<close>

section \<open>Gateways\<close>

record HostnameListener =
  hlName :: string
  hlProtocol :: string
  hlPort :: int
  hlTLSMode :: string

record L4Listener =
  l4Name :: string
  l4Protocol :: string
  l4Port :: int

record GatewayConfig =
  gcName :: string
  gcNamespace :: string
  gcGatewayClassName :: string
  gcHostname :: string
  gcTLSSecretName :: string
  gcTLSSecretNamespace :: string
  gcAnnotations :: "(string \<times> string) list"
  gcHostnameListeners :: "HostnameListener list"
  gcListeners :: "L4Listener list"

text \<open>\<open>tls\<close>: the mode, the name of the secret and its namespace where that differs from the Gateway's.\<close>

record ListenerObject =
  loName :: string
  loPort :: int
  loProtocol :: string
  loHostname :: "string option"
  loTLS :: "(string \<times> string \<times> string option) option"
  loAllowedKinds :: "string list"

record GatewayObject =
  goName :: string
  goNamespace :: string
  goAnnotations :: "(string \<times> string) list"
  goGatewayClassName :: string
  goListeners :: "ListenerObject list"

definition buildL4Listener :: "L4Listener \<Rightarrow> ListenerObject" where
  "buildL4Listener l = \<lparr>loName = l4Name l, loPort = l4Port l, loProtocol = ToUpper (l4Protocol l),
     loHostname = None, loTLS = None,
     loAllowedKinds = [if ToUpper (l4Protocol l) = ''UDP'' then ''UDPRoute'' else ''TCPRoute'']\<rparr>"

definition buildHTTPListener :: "GatewayConfig \<Rightarrow> HostnameListener \<Rightarrow> ListenerObject" where
  "buildHTTPListener config l = \<lparr>loName = hlName l, loPort = hlPort l, loProtocol = ''HTTP'',
     loHostname = Some (gcHostname config), loTLS = None, loAllowedKinds = []\<rparr>"

definition buildHTTPSListener :: "GatewayConfig \<Rightarrow> HostnameListener \<Rightarrow> ListenerObject" where
  "buildHTTPSListener config l =
     (let tlsMode = (if EqualFold (hlTLSMode l) ''passthrough'' then ''Passthrough'' else ''Terminate'');
          ns = (if gcTLSSecretNamespace config \<noteq> [] \<and> gcTLSSecretNamespace config \<noteq> gcNamespace config
                then Some (gcTLSSecretNamespace config) else None)
      in \<lparr>loName = hlName l, loPort = hlPort l, loProtocol = ''HTTPS'', loHostname = Some (gcHostname config),
          loTLS = (if gcTLSSecretName config \<noteq> [] then Some (tlsMode, gcTLSSecretName config, ns) else None),
          loAllowedKinds = []\<rparr>)"

definition BuildGatewayObject :: "GatewayConfig \<Rightarrow> GatewayObject" where
  "BuildGatewayObject config =
     (let hostname = map (\<lambda>l. if EqualFold (hlProtocol l) ''HTTPS'' then buildHTTPSListener config l
                               else buildHTTPListener config l) (gcHostnameListeners config);
          listeners = (if gcListeners config \<noteq> [] then map buildL4Listener (gcListeners config) else hostname)
      in \<lparr>goName = gcName config, goNamespace = gcNamespace config, goAnnotations = gcAnnotations config,
          goGatewayClassName = gcGatewayClassName config, goListeners = listeners\<rparr>)"

section \<open>Gateway of a stream\<close>

definition ListenerName :: "string \<Rightarrow> int \<Rightarrow> string" where
  "ListenerName protocol port = ''l4-'' @ ToLower protocol @ ''-'' @ show_int port"

definition BuildStreamGatewayConfig :: "Stream \<Rightarrow> GatewayConfig" where
  "BuildStreamGatewayConfig stream =
     \<lparr>gcName = strK8sGatewayName stream, gcNamespace = strNamespace stream,
      gcGatewayClassName = strK8sGatewayClass stream, gcHostname = [], gcTLSSecretName = [],
      gcTLSSecretNamespace = [], gcAnnotations = [], gcHostnameListeners = [],
      gcListeners = map (\<lambda>c. \<lparr>l4Name = ListenerName (spTransport c) (spPort c), l4Protocol = spTransport c,
        l4Port = spPort c\<rparr>) (strPorts stream)\<rparr>"

section \<open>Gateway of a domain\<close>

fun protocol_string :: "ListenerProtocol \<Rightarrow> string" where
  "protocol_string ListenerHTTP = ''HTTP''"
| "protocol_string ListenerHTTPS = ''HTTPS''"
| "protocol_string ListenerTLS = ''TLS''"
| "protocol_string ListenerTCP = ''TCP''"
| "protocol_string ListenerUDP = ''UDP''"
| "protocol_string (ListenerOther s) = s"

definition toHostnameListener :: "TemplateListener \<Rightarrow> HostnameListener" where
  "toHostnameListener l = \<lparr>hlName = tlName l, hlProtocol = protocol_string (tlProtocol l), hlPort = tlPort l,
     hlTLSMode = tlTLSMode l\<rparr>"

definition resolveHostnameListeners :: "string list \<Rightarrow> DomainTemplate option \<Rightarrow> HostnameListener list" where
  "resolveHostnameListeners bound template = (case template of None \<Rightarrow> []
     | Some t \<Rightarrow>
        if bound = [] then []
        else let hostnameRouted = HostnameRouted (dtListeners t);
                 out = map toHostnameListener (filter (\<lambda>l. tlName l \<in> set bound) hostnameRouted)
             in if out = [] then map toHostnameListener hostnameRouted else out)"

text \<open>The canonical text of a key; what the code relies on is that it is injective.\<close>

definition uuid_string :: "uuid \<Rightarrow> string" where
  "uuid_string i = show_nat i"

definition BuildGatewayConfig ::
  "Domain \<Rightarrow> DomainTemplate option \<Rightarrow> (string \<times> string) list \<Rightarrow> GatewayConfig" where
  "BuildGatewayConfig domain template templateAnnotations =
     \<lparr>gcName = domK8sGatewayName domain, gcNamespace = domNamespace domain,
      gcGatewayClassName = domK8sGatewayClass domain, gcHostname = domHostname domain,
      gcTLSSecretName = (case domManagedCertificateID domain of
          Some c \<Rightarrow> ''cert-'' @ uuid_string c | None \<Rightarrow> domTLSSecretName domain),
      gcTLSSecretNamespace = (case domManagedCertificateID domain of
          Some c \<Rightarrow> FastGatewayNamespace | None \<Rightarrow> domTLSSecretNamespace domain),
      gcAnnotations = (if domDomainTemplateID domain \<noteq> None then templateAnnotations else []),
      gcHostnameListeners = resolveHostnameListeners (domBoundListeners domain) template,
      gcListeners = []\<rparr>"

section \<open>Gateway classes and proxies of a template\<close>

definition EnvoyGatewayNamespace :: string where
  "EnvoyGatewayNamespace = ''envoy-gateway-system''"

definition EnvoyGatewayControllerName :: string where
  "EnvoyGatewayControllerName = ''gateway.envoyproxy.io/gatewayclass-controller''"

record GatewayClassConfig =
  gccName :: string
  gccControllerName :: string
  gccParametersRefName :: string

definition BuildGatewayClassConfig :: "DomainTemplate \<Rightarrow> GatewayClassConfig" where
  "BuildGatewayClassConfig dt = \<lparr>gccName = dtK8sGatewayClassName dt, gccControllerName = dtControllerName dt,
     gccParametersRefName = dtK8sEnvoyProxyName dt\<rparr>"

record EnvoyProxyConfig =
  epName :: string
  epNamespace :: string
  epServiceType :: string
  epAnnotations :: "(string \<times> string) list"
  epExternalTrafficPolicy :: string
  epLoadBalancerClass :: string
  epPodAnnotations :: "(string \<times> string) list"
  epContainerResources :: "doc option"
  epScalingConfig :: "ScalingConfig option"
  epMergeGateways :: bool
  epTelemetryAccessLog :: "TelemetryAccessLogConfig option"
  epTelemetryTracing :: "TelemetryTracingConfig option"
  epTelemetryMetrics :: "TelemetryMetricsConfig option"
  epGatewayClassName :: string
  epPodPlacement :: "PodPlacementConfig option"
  epPDBConfig :: "PDBConfig option"
  epDeploymentStrategy :: "DeploymentStrategyConfig option"

definition BuildEnvoyProxyConfig :: "DomainTemplate \<Rightarrow> EnvoyProxyConfig" where
  "BuildEnvoyProxyConfig dt = \<lparr>epName = dtK8sEnvoyProxyName dt, epNamespace = EnvoyGatewayNamespace,
     epServiceType = dtExposureType dt, epAnnotations = dtAnnotations dt,
     epExternalTrafficPolicy = dtExternalTrafficPolicy dt, epLoadBalancerClass = dtLoadBalancerClass dt,
     epPodAnnotations = dtPodAnnotations dt, epContainerResources = dtContainerResources dt,
     epScalingConfig = dtScalingConfig dt, epMergeGateways = dtMergeGateways dt,
     epTelemetryAccessLog = dtTelemetryAccessLog dt, epTelemetryTracing = dtTelemetryTracing dt,
     epTelemetryMetrics = dtTelemetryMetrics dt, epGatewayClassName = dtK8sGatewayClassName dt,
     epPodPlacement = dtPodPlacement dt, epPDBConfig = dtPDBConfig dt,
     epDeploymentStrategy = dtDeploymentStrategy dt\<rparr>"

section \<open>Reference grants\<close>

record ReferenceGrantConfig =
  rgName :: string
  rgFromNamespaces :: "string list"
  rgToNamespace :: string
  rgToKinds :: "string list"

text \<open>The \<open>from\<close> entries: group, kind and namespace; the \<open>to\<close> entries: kinds of the core group.\<close>

record ReferenceGrantObject =
  rgoFrom :: "(string \<times> string \<times> string) list"
  rgoTo :: "string list"

definition grant_kinds :: "(string \<times> string) list" where
  "grant_kinds =
    [(''gateway.networking.k8s.io'', ''HTTPRoute''), (''gateway.networking.k8s.io'', ''GRPCRoute''),
     (''gateway.networking.k8s.io'', ''TCPRoute''), (''gateway.networking.k8s.io'', ''UDPRoute''),
     (''gateway.envoyproxy.io'', ''SecurityPolicy''), (''gateway.envoyproxy.io'', ''EnvoyExtensionPolicy''),
     (''gateway.networking.k8s.io'', ''Gateway'')]"

definition BuildReferenceGrant :: "ReferenceGrantConfig \<Rightarrow> ReferenceGrantObject" where
  "BuildReferenceGrant config =
     \<lparr>rgoFrom = concat (map (\<lambda>ns. map (\<lambda>(g, k). (g, k, ns)) grant_kinds) (rgFromNamespaces config)),
      rgoTo = (if rgToKinds config = [] then [''Service'', ''Secret''] else rgToKinds config)\<rparr>"

section \<open>Routes of streams\<close>

text \<open>A \<open>TCPRoute\<close> or \<open>UDPRoute\<close>: one parent, the listener of a Gateway, and one rule with weighted Services.\<close>

record L4BackendRef =
  brName :: string
  brPort :: int
  brNamespace :: "string option"
  brWeight :: "int option"

record L4RouteObject =
  lroAPIVersion :: string
  lroLabels :: "(string \<times> string) list"
  lroParentName :: string
  lroParentNamespace :: string
  lroSectionName :: string
  lroBackendRefs :: "L4BackendRef list"

section \<open>Routes of domains\<close>

text \<open>An \<open>HTTPRoute\<close> or \<open>GRPCRoute\<close>: one parent, one hostname, and rules with matches, filters and references to backends.\<close>

record PathModifier =
  pathType :: string
  pathReplacePrefixMatch :: "string option"
  pathReplaceFullPath :: "string option"

record BackendObjectReference =
  borName :: string
  borPort :: int
  borNamespace :: "string option"
  borGroup :: "string option"
  borKind :: "string option"
  borWeight :: "int option"

datatype RouteFilter =
    RequestHeaderModifier HeaderModifier
  | ResponseHeaderModifier HeaderModifier
  | URLRewriteFilter "string option" "PathModifier option"
  | RequestRedirect (redirScheme: "string option") (redirHostname: "string option") (redirPort: "int option") (redirStatus: "int option")
      (redirPath: "PathModifier option")
  | ExtensionRef (extGroup: string) (extKind: string) (extName: string)
  | RequestMirror BackendObjectReference

record HTTPRouteMatch =
  omPath :: "(string \<times> string) option"
  omMethod :: "string option"
  omHeaders :: "HeaderMatch list"
  omQueryParams :: "QueryParamMatch list"

record HTTPRouteRuleObject =
  oruMatches :: "HTTPRouteMatch list"
  oruFilters :: "RouteFilter list"
  oruBackendRefs :: "BackendObjectReference list"

record HTTPRouteObject =
  ohrLabels :: "(string \<times> string) list"
  ohrParentName :: string
  ohrParentNamespace :: string
  ohrHostnames :: "string list"
  ohrRules :: "HTTPRouteRuleObject list"

record GRPCMethodMatchObject =
  ogmType :: "string option"
  ogmService :: "string option"
  ogmMethod :: "string option"

record GRPCRouteMatch =
  ogMethod :: "GRPCMethodMatchObject option"
  ogHeaders :: "HeaderMatch list"

record GRPCRouteRuleObject =
  ogrMatches :: "GRPCRouteMatch list"
  ogrFilters :: "RouteFilter list"
  ogrBackendRefs :: "BackendObjectReference list"

record GRPCRouteObject =
  ogoLabels :: "(string \<times> string) list"
  ogoParentName :: string
  ogoParentNamespace :: string
  ogoHostnames :: "string list"
  ogoRules :: "GRPCRouteRuleObject list"

section \<open>The objects of a cluster\<close>

datatype k8s_kind =
    KNamespace | KGateway | KGatewayClass | KEnvoyProxy | KReferenceGrant
  | KClientTrafficPolicy | KBackendTrafficPolicy | KEnvoyExtensionPolicy | KBackend | KTCPRoute | KUDPRoute
  | KSecurityPolicy | KHTTPRoute | KGRPCRoute | KHTTPRouteFilter | KConfigMap | KSecret

datatype k8s_object =
    NamespaceObj
  | GatewayObj GatewayObject
  | GatewayClassObj GatewayClassConfig
  | EnvoyProxyObj EnvoyProxyConfig
  | ReferenceGrantObj ReferenceGrantObject
  | PolicyObj json
  | L4RouteObj L4RouteObject
  | HTTPRouteObj HTTPRouteObject
  | GRPCRouteObj GRPCRouteObject
  | SecretObj (secretLabels: "(string \<times> string) list") (secretData: "(string \<times> string) list")

text \<open>
  An object is addressed by the project (whose kubeconfig names the cluster), its kind, its
  namespace (empty for cluster-scoped kinds) and its name.
\<close>

datatype k8s_key = K8sKey uuid k8s_kind string string

section \<open>Lemmas\<close>

lemma set_HostnameRouted:
  "l \<in> set (HostnameRouted ls) \<longleftrightarrow> l \<in> set ls \<and> tlProtocol l \<in> {ListenerHTTP, ListenerHTTPS, ListenerTLS}"
  by (simp add: HostnameRouted_def)

text \<open>A Gateway of a domain exposes listeners of the template only, each on its own port.\<close>

lemma resolved_from_template:
  assumes "h \<in> set (resolveHostnameListeners bound (Some t))"
  shows "\<exists>l \<in> set (HostnameRouted (dtListeners t)). h = toHostnameListener l"
  using assms by (auto simp: resolveHostnameListeners_def Let_def split: if_splits)

text \<open>A bound domain never gets a Gateway without listeners while its template has a hostname-routed one.\<close>

lemma resolved_nonempty:
  "resolveHostnameListeners bound (Some t) = [] \<longleftrightarrow> bound = [] \<or> HostnameRouted (dtListeners t) = []"
  by (auto simp: resolveHostnameListeners_def Let_def)

lemma BuildGatewayObject_stream:
  "strPorts s \<noteq> [] \<Longrightarrow> goListeners (BuildGatewayObject (BuildStreamGatewayConfig s)) =
     map (\<lambda>c. buildL4Listener \<lparr>l4Name = ListenerName (spTransport c) (spPort c), l4Protocol = spTransport c,
        l4Port = spPort c\<rparr>) (strPorts s)"
  by (simp add: BuildGatewayObject_def BuildStreamGatewayConfig_def)

end
