(* ===== verification/Store.thy ===== *)
theory Store
  imports Kubernetes
begin

text \<open>
  The database and the repositories of \<open>src/internal/repository\<close>. A table is a list of
  rows in the order of creation, so \<open>ORDER BY created_at\<close> is the order of the list and the
  newest row is the last one. \<open>gorm\<close>'s \<open>First\<close> takes the first row that matches and
  \<open>Save\<close> writes the row with the same primary key or appends it. A new row takes its key
  from the counter \<open>next_id\<close>, which stands for \<open>gen_random_uuid()\<close>: what the code relies
  on is that a generated key is new.

  Unique indexes and cascading deletes come from \<open>src/migrations\<close>: an insert that
  violates an index fails with \<open>ErrDuplicatedKey\<close> (SQLSTATE 23505) and changes nothing,
  and a deleted row takes its dependent rows with it. Every call can fail with \<open>ErrDB\<close>
  and no effect, as a statement of the database does.

  The stages of an approval are rows of their own table; \<open>apStages\<close> of a stored approval
  row is empty and \<open>approval_read\<close> joins the stages when a row is read.
\<close>

section \<open>Tables\<close>

text \<open>
  What the certificate service keeps in the control-plane cluster: the cert-manager objects
  it applies, and the secrets it reads. A secret is its data map; a value is what
  base64 decoding makes of it, \<open>None\<close> where the text does not decode.

  \<open>k8s\<close> holds the objects of the projects' clusters, \<open>dns_provider\<close> the records of the DNS providers
  and \<open>gateway_addresses\<close> the \<open>status.addresses\<close> of the Gateways, which the cluster assigns.
\<close>

datatype cp_object =
    LeafCertificate (cpName: string) (cpSecretName: string) (cpDisplayName: string) (cpIssuerName: string)
      (cpDNSNames: "string list") (cpCommonName: string) (cpKeyAlgorithm: string) (cpKeySize: int)
      (cpDurationDays: int) (cpUsage: ManagedCertUsage) (cpURISANs: "string list")
  | CertificateRequest (cpName: string) (cpIssuerName: string) (cpRequest: string) (cpDurationDays: int)

type_synonym secret_data = "(string \<times> string option) list"

record db =
  next_id :: nat
  clock :: nat
  projects :: "Project list"
  project_admins :: "ProjectAdmin list"
  teams :: "Team list"
  team_members :: "TeamMember list"
  project_team_roles :: "ProjectTeamRole list"
  project_team_presets :: "ProjectTeamPreset list"
  permission_presets :: "PermissionPreset list"
  approvals :: "Approval list"
  approval_stages :: "ApprovalStage list"
  stage_reviews :: "ApprovalStageReview list"
  approval_policies :: "ApprovalPolicy list"
  routes :: "Route list"
  security_policies :: "SecurityPolicyConfig PolicyRow list"
  backend_traffic_policies :: "BackendTrafficPolicyConfig PolicyRow list"
  envoy_extension_policies :: "EnvoyExtensionPolicyConfig PolicyRow list"
  waf_policies :: "WafPolicyConfig PolicyRow list"
  project_namespaces :: "ProjectNamespace list"
  route_versions :: "RouteVersion list"
  domain_templates :: "DomainTemplate list"
  attachments :: "ClientRouteAttachment list"
  clients :: "Client list"
  client_ips :: "ClientIPAddress list"
  client_headers :: "ClientHeader list"
  domains :: "Domain list"
  domain_settings :: "DomainSettings list"
  streams :: "Stream list"
  managed_certificates :: "ManagedCertificate list"
  certificate_issuers :: "CertificateIssuer list"
  issuer_project_grants :: "(uuid \<times> uuid) list"
  export_grants :: "CertificateExportGrant list"
  cp_objects :: "cp_object list"
  cp_secrets :: "(string \<times> secret_data) list"
  k8s :: "(k8s_key \<times> k8s_object) list"
  domain_traffic_policies :: "BackendTrafficPolicyConfig PolicyRow list"
  domain_extension_policies :: "EnvoyExtensionPolicyConfig PolicyRow list"
  dns_records :: "DomainDNSRecord list"
  dns_hosted_zones :: "DNSHostedZone list"
  dns_credentials :: "DNSProviderCredential list"
  dns_provider :: "((string \<times> string \<times> string) \<times> DNSRecord) list"
  gateway_addresses :: "(string \<times> string list) list"

definition empty_db :: db where
  "empty_db = \<lparr>next_id = 1, clock = 0, projects = [], project_admins = [], teams = [], team_members = [],
     project_team_roles = [], project_team_presets = [], permission_presets = [],
     approvals = [], approval_stages = [], stage_reviews = [], approval_policies = [],
     routes = [], security_policies = [], backend_traffic_policies = [], envoy_extension_policies = [],
     waf_policies = [], project_namespaces = [], route_versions = [], domain_templates = [], attachments = [], clients = [], client_ips = [], client_headers = [],
     domains = [], domain_settings = [], streams = [], managed_certificates = [], certificate_issuers = [],
     issuer_project_grants = [], export_grants = [], cp_objects = [], cp_secrets = [], k8s = [],
     domain_traffic_policies = [], domain_extension_policies = [],
     dns_records = [], dns_hosted_zones = [], dns_credentials = [], dns_provider = [], gateway_addresses = []\<rparr>"

type_synonym 'a m = "(db, error, 'a) io"

text \<open>The row a query selects, or \<open>gorm.ErrRecordNotFound\<close>.\<close>

definition found :: "'a option \<Rightarrow> error + 'a" where
  "found x = (case x of None \<Rightarrow> Inl ErrRecordNotFound | Some r \<Rightarrow> Inr r)"

definition query :: "(db \<Rightarrow> error + 'a) \<Rightarrow> 'a m" where
  "query f = reads ErrDB f"

definition exec :: "(db \<Rightarrow> db) \<Rightarrow> unit m" where
  "exec f = writes ErrDB f"

text \<open>The ways a caller passes an error on: wrapped, replaced by its own, or from a validator.\<close>

definition wrap_error :: "string \<Rightarrow> 'a m \<Rightarrow> 'a m" where
  "wrap_error f c = bind (attempt c) (\<lambda>r. case r of Inl e \<Rightarrow> throw (Wrap f e) | Inr x \<Rightarrow> ret x)"

definition or_error :: "error \<Rightarrow> 'a m \<Rightarrow> 'a m" where
  "or_error e c = bind (attempt c) (\<lambda>r. case r of Inl _ \<Rightarrow> throw e | Inr x \<Rightarrow> ret x)"

definition lift_check :: "check \<Rightarrow> unit m" where
  "lift_check r = (case r of Inl e \<Rightarrow> throw e | Inr _ \<Rightarrow> ret ())"

text \<open>Dereferencing a pointer.\<close>

definition deref :: "string \<Rightarrow> 'a option \<Rightarrow> 'a m" where
  "deref what p = (case p of None \<Rightarrow> throw (Panic what) | Some x \<Rightarrow> ret x)"

section \<open>Projects\<close>

definition ProjectRepo_GetByID :: "uuid \<Rightarrow> Project m" where
  "ProjectRepo_GetByID i = query (\<lambda>d. found (row_get prjID i (projects d)))"

definition ProjectRepo_Update :: "Project \<Rightarrow> unit m" where
  "ProjectRepo_Update p = exec (\<lambda>d. d\<lparr>projects := row_save prjID p (projects d)\<rparr>)"

definition is_admin :: "db \<Rightarrow> uuid \<Rightarrow> uuid \<Rightarrow> bool" where
  "is_admin d p u \<longleftrightarrow> list_ex (\<lambda>a. padProjectID a = p \<and> padUserID a = u) (project_admins d)"

definition ProjectRepo_AddAdmin :: "uuid \<Rightarrow> uuid \<Rightarrow> unit m" where
  "ProjectRepo_AddAdmin p u = updates ErrDB (\<lambda>d.
     if is_admin d p u then Inl ErrDuplicatedKey
     else Inr (d\<lparr>project_admins := project_admins d @ [\<lparr>padProjectID = p, padUserID = u\<rparr>]\<rparr>))"

definition ProjectRepo_RemoveAdmin :: "uuid \<Rightarrow> uuid \<Rightarrow> unit m" where
  "ProjectRepo_RemoveAdmin p u = exec (\<lambda>d.
     d\<lparr>project_admins := filter (\<lambda>a. \<not> (padProjectID a = p \<and> padUserID a = u)) (project_admins d)\<rparr>)"

definition ProjectRepo_IsAdmin :: "uuid \<Rightarrow> uuid \<Rightarrow> bool m" where
  "ProjectRepo_IsAdmin p u = query (\<lambda>d. Inr (is_admin d p u))"

section \<open>Teams\<close>

definition is_member :: "db \<Rightarrow> uuid \<Rightarrow> uuid \<Rightarrow> bool" where
  "is_member d t u \<longleftrightarrow> list_ex (\<lambda>m. tmTeamID m = t \<and> tmUserID m = u) (team_members d)"

text \<open>\<open>Preload("Presets.Preset")\<close>: the presets assigned to a role.\<close>

definition role_presets :: "db \<Rightarrow> ProjectTeamRole \<Rightarrow> PermissionPreset list" where
  "role_presets d r = List.map_filter
     (\<lambda>x. if ptpRoleID x = ptrID r then row_get ppID (ptpPresetID x) (permission_presets d) else None)
     (project_team_presets d)"

definition role_read :: "db \<Rightarrow> ProjectTeamRole \<Rightarrow> ProjectTeamRole" where
  "role_read d r = r\<lparr>ptrPresets := role_presets d r\<rparr>"

definition user_roles :: "db \<Rightarrow> uuid \<Rightarrow> uuid \<Rightarrow> ProjectTeamRole list" where
  "user_roles d p u = map (role_read d)
     (filter (\<lambda>r. ptrProjectID r = p \<and> is_member d (ptrTeamID r) u) (project_team_roles d))"

definition TeamRepo_GetByID :: "uuid \<Rightarrow> Team m" where
  "TeamRepo_GetByID i = query (\<lambda>d. found (row_get teamID i (teams d)))"

definition TeamRepo_AddMember :: "uuid \<Rightarrow> uuid \<Rightarrow> unit m" where
  "TeamRepo_AddMember t u = updates ErrDB (\<lambda>d.
     if is_member d t u then Inl ErrDuplicatedKey
     else Inr (d\<lparr>team_members := team_members d @ [\<lparr>tmTeamID = t, tmUserID = u\<rparr>]\<rparr>))"

definition TeamRepo_RemoveMember :: "uuid \<Rightarrow> uuid \<Rightarrow> unit m" where
  "TeamRepo_RemoveMember t u = exec (\<lambda>d.
     d\<lparr>team_members := filter (\<lambda>m. \<not> (tmTeamID m = t \<and> tmUserID m = u)) (team_members d)\<rparr>)"

definition TeamRepo_IsMember :: "uuid \<Rightarrow> uuid \<Rightarrow> bool m" where
  "TeamRepo_IsMember t u = query (\<lambda>d. Inr (is_member d t u))"

text \<open>Deleting a role row deletes its preset assignments (\<open>ON DELETE CASCADE\<close>).\<close>

definition delete_roles :: "(ProjectTeamRole \<Rightarrow> bool) \<Rightarrow> db \<Rightarrow> db" where
  "delete_roles p d =
     (let gone = map ptrID (filter p (project_team_roles d)) in
      d\<lparr>project_team_roles := filter (\<lambda>r. \<not> p r) (project_team_roles d),
        project_team_presets := filter (\<lambda>x. ptpRoleID x \<notin> set gone) (project_team_presets d)\<rparr>)"

definition TeamRepo_Delete :: "uuid \<Rightarrow> unit m" where
  "TeamRepo_Delete t =
     bind (exec (\<lambda>d. d\<lparr>team_members := filter (\<lambda>m. tmTeamID m \<noteq> t) (team_members d)\<rparr>)) (\<lambda>_.
     bind (exec (delete_roles (\<lambda>r. ptrTeamID r = t))) (\<lambda>_.
     exec (\<lambda>d. d\<lparr>teams := row_delete teamID t (teams d)\<rparr>)))"

definition TeamRepo_RemoveTeamFromProject :: "uuid \<Rightarrow> uuid \<Rightarrow> unit m" where
  "TeamRepo_RemoveTeamFromProject p t = exec (delete_roles (\<lambda>r. ptrProjectID r = p \<and> ptrTeamID r = t))"

text \<open>Both run in one transaction: the role and its presets, or nothing.\<close>

definition TeamRepo_AssignTeamToProject :: "uuid \<Rightarrow> uuid \<Rightarrow> uuid list \<Rightarrow> unit m" where
  "TeamRepo_AssignTeamToProject p t presetIDs = updates ErrDB (\<lambda>d.
     if list_ex (\<lambda>r. ptrProjectID r = p \<and> ptrTeamID r = t) (project_team_roles d) \<or> \<not> distinct presetIDs
     then Inl ErrDuplicatedKey
     else Inr (d\<lparr>next_id := next_id d + 1,
       project_team_roles := project_team_roles d @
         [\<lparr>ptrID = next_id d, ptrProjectID = p, ptrTeamID = t, ptrPresets = []\<rparr>],
       project_team_presets := project_team_presets d @
         map (\<lambda>i. \<lparr>ptpRoleID = next_id d, ptpPresetID = i\<rparr>) presetIDs\<rparr>))"

definition TeamRepo_UpdateTeamPresets :: "uuid \<Rightarrow> uuid \<Rightarrow> uuid list \<Rightarrow> unit m" where
  "TeamRepo_UpdateTeamPresets p t presetIDs = updates ErrDB (\<lambda>d.
     case List.find (\<lambda>r. ptrProjectID r = p \<and> ptrTeamID r = t) (project_team_roles d) of
       None \<Rightarrow> Inl ErrRecordNotFound
     | Some r \<Rightarrow> if \<not> distinct presetIDs then Inl ErrDuplicatedKey
         else Inr (d\<lparr>project_team_presets :=
           filter (\<lambda>x. ptpRoleID x \<noteq> ptrID r) (project_team_presets d) @
           map (\<lambda>i. \<lparr>ptpRoleID = ptrID r, ptpPresetID = i\<rparr>) presetIDs\<rparr>))"

definition TeamRepo_ListProjectTeams :: "uuid \<Rightarrow> ProjectTeamRole list m" where
  "TeamRepo_ListProjectTeams p = query (\<lambda>d.
     Inr (map (role_read d) (filter (\<lambda>r. ptrProjectID r = p) (project_team_roles d))))"

definition TeamRepo_GetUserTeamsInProject :: "uuid \<Rightarrow> uuid \<Rightarrow> ProjectTeamRole list m" where
  "TeamRepo_GetUserTeamsInProject p u = query (\<lambda>d. Inr (user_roles d p u))"

text \<open>The joins of \<open>HasPermissionInProject\<close>: an assignment, its role, a membership and a preset.\<close>

definition has_permission :: "db \<Rightarrow> uuid \<Rightarrow> uuid \<Rightarrow> Permission \<Rightarrow> bool" where
  "has_permission d p u perm \<longleftrightarrow> list_ex (\<lambda>x.
     list_ex (\<lambda>r. ptrID r = ptpRoleID x \<and> ptrProjectID r = p \<and> is_member d (ptrTeamID r) u)
       (project_team_roles d) \<and>
     (case row_get ppID (ptpPresetID x) (permission_presets d) of
        None \<Rightarrow> False | Some q \<Rightarrow> perm \<in> set (ppPermissions q))) (project_team_presets d)"

definition TeamRepo_HasPermissionInProject :: "uuid \<Rightarrow> uuid \<Rightarrow> Permission \<Rightarrow> bool m" where
  "TeamRepo_HasPermissionInProject p u perm = query (\<lambda>d. Inr (has_permission d p u perm))"

definition TeamRepo_HasPermissionInAnyProject :: "uuid \<Rightarrow> Permission \<Rightarrow> bool m" where
  "TeamRepo_HasPermissionInAnyProject u perm = query (\<lambda>d.
     Inr (list_ex (\<lambda>r. has_permission d (ptrProjectID r) u perm) (project_team_roles d)))"

definition TeamRepo_HasAnyRoleInProject :: "uuid \<Rightarrow> uuid \<Rightarrow> bool m" where
  "TeamRepo_HasAnyRoleInProject p u = query (\<lambda>d. Inr (user_roles d p u \<noteq> []))"

text \<open>
  The union of the permissions. The source builds it in a Go map, whose iteration order is
  unspecified; the model lists every permission once, in the order of its last occurrence.
\<close>

definition TeamRepo_GetUserPermissionsInProject :: "uuid \<Rightarrow> uuid \<Rightarrow> string list m" where
  "TeamRepo_GetUserPermissionsInProject p u =
     bind (TeamRepo_GetUserTeamsInProject p u) (\<lambda>ptrs.
     ret (remdups (concat (map (\<lambda>ptr. concat (map ppPermissions (ptrPresets ptr))) ptrs))))"

section \<open>Approvals\<close>

definition approval_read :: "db \<Rightarrow> Approval \<Rightarrow> Approval" where
  "approval_read d a =
     a\<lparr>apStages := sort_key stgOrder (filter (\<lambda>s. stgApprovalID s = apID a) (approval_stages d))\<rparr>"

definition ApprovalRepo_GetByID :: "uuid \<Rightarrow> Approval m" where
  "ApprovalRepo_GetByID i = query (\<lambda>d. map_sum id (approval_read d) (found (row_get apID i (approvals d))))"

text \<open>Keys for new stages, from \<open>n\<close> on.\<close>

fun number_stages :: "nat \<Rightarrow> uuid \<Rightarrow> ApprovalStage list \<Rightarrow> ApprovalStage list" where
  "number_stages n a [] = []"
| "number_stages n a (s # ss) = s\<lparr>stgID := n, stgApprovalID := a\<rparr> # number_stages (Suc n) a ss"

text \<open>
  \<open>Create\<close> inserts the approval and its stages in one transaction and fills in the
  generated keys; \<open>UNIQUE(approval_id, stage_order)\<close> refuses two stages of one order.
\<close>

definition ApprovalRepo_Create :: "Approval \<Rightarrow> Approval m" where
  "ApprovalRepo_Create a = inserts ErrDB (\<lambda>d.
     let i = next_id d; ss = number_stages (Suc i) i (apStages a); a' = a\<lparr>apID := i, apStages := ss\<rparr> in
     if \<not> distinct (map stgOrder ss) then Inl ErrDuplicatedKey
     else Inr (a', d\<lparr>next_id := Suc i + length ss,
                approvals := approvals d @ [a'\<lparr>apStages := []\<rparr>],
                approval_stages := approval_stages d @ ss\<rparr>))"

text \<open>
  \<open>Save\<close> of an approval writes its row; a stage it carries is inserted when no row has its
  key and is left alone otherwise (\<open>ON CONFLICT DO NOTHING\<close>).
\<close>

definition ApprovalRepo_Update :: "Approval \<Rightarrow> unit m" where
  "ApprovalRepo_Update a = exec (\<lambda>d.
     d\<lparr>approvals := row_save apID (a\<lparr>apStages := []\<rparr>) (approvals d),
       approval_stages := approval_stages d @
         filter (\<lambda>s. row_get stgID (stgID s) (approval_stages d) = None) (apStages a)\<rparr>)"

definition ApprovalRepo_UpdateStage :: "ApprovalStage \<Rightarrow> unit m" where
  "ApprovalRepo_UpdateStage s = exec (\<lambda>d.
     d\<lparr>approval_stages := row_save stgID s (approval_stages d)\<rparr>)"

definition ApprovalRepo_SetAIReview :: "uuid \<Rightarrow> doc \<Rightarrow> unit m" where
  "ApprovalRepo_SetAIReview i r = updates ErrDB (\<lambda>d.
     if list_ex (\<lambda>a. apID a = i \<and> apAIReview a = None) (approvals d)
     then Inr (d\<lparr>approvals := map (\<lambda>a. if apID a = i \<and> apAIReview a = None
                 then a\<lparr>apAIReview := Some r\<rparr> else a) (approvals d)\<rparr>)
     else Inl (Msg ''AI review already exists for this approval''))"

definition matches_entity :: "ApprovalEntityType \<Rightarrow> uuid \<Rightarrow> ApprovalStatus \<Rightarrow> Approval \<Rightarrow> bool" where
  "matches_entity t i s a \<longleftrightarrow> apEntityType a = t \<and> apEntityID a = i \<and> apStatus a = s"

definition ApprovalRepo_GetPendingByEntityID :: "ApprovalEntityType \<Rightarrow> uuid \<Rightarrow> Approval m" where
  "ApprovalRepo_GetPendingByEntityID t i = query (\<lambda>d.
     map_sum id (approval_read d) (found (List.find (matches_entity t i ApprovalStatusPending) (approvals d))))"

definition ApprovalRepo_GetLatestApprovedByEntityID :: "ApprovalEntityType \<Rightarrow> uuid \<Rightarrow> Approval m" where
  "ApprovalRepo_GetLatestApprovedByEntityID t i = query (\<lambda>d.
     map_sum id (approval_read d)
       (found (List.find (matches_entity t i ApprovalStatusApproved) (rev (approvals d)))))"

definition ApprovalRepo_CountPendingByProjectID :: "uuid \<Rightarrow> nat m" where
  "ApprovalRepo_CountPendingByProjectID p = query (\<lambda>d.
     Inr (length (filter (\<lambda>a. apProjectID a = p \<and> apStatus a = ApprovalStatusPending) (approvals d))))"

text \<open>Stages go with their approval and reviews with their stage (\<open>ON DELETE CASCADE\<close>).\<close>

definition delete_approvals :: "(Approval \<Rightarrow> bool) \<Rightarrow> db \<Rightarrow> db" where
  "delete_approvals p d =
     (let gone = map apID (filter p (approvals d));
          stages = map stgID (filter (\<lambda>s. stgApprovalID s \<in> set gone) (approval_stages d)) in
      d\<lparr>approvals := filter (\<lambda>a. \<not> p a) (approvals d),
        approval_stages := filter (\<lambda>s. stgApprovalID s \<notin> set gone) (approval_stages d),
        stage_reviews := filter (\<lambda>r. revStageID r \<notin> set stages) (stage_reviews d)\<rparr>)"

text \<open>A version of a route refers to its approval (\<open>approval_id UUID REFERENCES approvals(id)\<close>, with no action on delete).\<close>

definition version_refers :: "uuid list \<Rightarrow> db \<Rightarrow> bool" where
  "version_refers is d \<longleftrightarrow> list_ex (\<lambda>v. case rvApprovalID v of None \<Rightarrow> False | Some i \<Rightarrow> i \<in> set is) (route_versions d)"

definition ApprovalRepo_DeleteByEntityID :: "ApprovalEntityType \<Rightarrow> uuid \<Rightarrow> unit m" where
  "ApprovalRepo_DeleteByEntityID t i = updates ErrDB (\<lambda>d.
     let p = (\<lambda>a. apEntityType a = t \<and> apEntityID a = i) in
     if version_refers (map apID (filter p (approvals d))) d then Inl ErrDB else Inr (delete_approvals p d))"

text \<open>Reviews: \<open>UNIQUE(stage_id, reviewer_id)\<close>.\<close>

definition ReviewRepo_Create :: "ApprovalStageReview \<Rightarrow> unit m" where
  "ReviewRepo_Create r = updates ErrDB (\<lambda>d.
     if list_ex (\<lambda>x. revStageID x = revStageID r \<and> revReviewerID x = revReviewerID r) (stage_reviews d)
     then Inl ErrDuplicatedKey
     else Inr (d\<lparr>stage_reviews := stage_reviews d @ [r]\<rparr>))"

definition ReviewRepo_ListByStageID :: "uuid \<Rightarrow> ApprovalStageReview list m" where
  "ReviewRepo_ListByStageID i = query (\<lambda>d. Inr (filter (\<lambda>r. revStageID r = i) (stage_reviews d)))"

definition ReviewRepo_CountByStageAndDecision :: "uuid \<Rightarrow> string \<Rightarrow> int m" where
  "ReviewRepo_CountByStageAndDecision i dec = query (\<lambda>d.
     Inr (int (length (filter (\<lambda>r. revStageID r = i \<and> revDecision r = dec) (stage_reviews d)))))"

section \<open>Approval policies\<close>

definition policy_matches :: "uuid \<Rightarrow> string \<Rightarrow> string option \<Rightarrow> ApprovalPolicy \<Rightarrow> bool" where
  "policy_matches p e a pol \<longleftrightarrow> polProjectID pol = p \<and> polEntityType pol = e \<and> polAction pol = a"

definition PolicyRepo_GetByProjectAndEntity :: "uuid \<Rightarrow> string \<Rightarrow> string option \<Rightarrow> ApprovalPolicy m" where
  "PolicyRepo_GetByProjectAndEntity p e a = query (\<lambda>d.
     case List.find (policy_matches p e a) (approval_policies d) of
       None \<Rightarrow> Inl ErrPolicyNotFound | Some pol \<Rightarrow> Inr pol)"

definition PolicyRepo_GetByID :: "uuid \<Rightarrow> ApprovalPolicy m" where
  "PolicyRepo_GetByID i = query (\<lambda>d. found (row_get polID i (approval_policies d)))"

definition PolicyRepo_ListByProjectID :: "uuid \<Rightarrow> ApprovalPolicy list m" where
  "PolicyRepo_ListByProjectID p = query (\<lambda>d. Inr (filter (\<lambda>pol. polProjectID pol = p) (approval_policies d)))"

text \<open>
  The unique index is on \<open>(project_id, entity_type, COALESCE(action, ''))\<close>: no action
  and the empty action collide.
\<close>

definition policy_key :: "ApprovalPolicy \<Rightarrow> uuid \<times> string \<times> string" where
  "policy_key pol = (polProjectID pol, polEntityType pol, case polAction pol of None \<Rightarrow> [] | Some s \<Rightarrow> s)"

definition insert_policy :: "ApprovalPolicy \<Rightarrow> db \<Rightarrow> error + (ApprovalPolicy \<times> db)" where
  "insert_policy pol d =
     (if list_ex (\<lambda>q. policy_key q = policy_key pol) (approval_policies d) then Inl ErrDuplicatedKey
      else Inr (pol\<lparr>polID := next_id d\<rparr>,
                d\<lparr>next_id := Suc (next_id d),
                  approval_policies := approval_policies d @ [pol\<lparr>polID := next_id d\<rparr>]\<rparr>))"

definition PolicyRepo_Create :: "ApprovalPolicy \<Rightarrow> ApprovalPolicy m" where
  "PolicyRepo_Create pol = inserts ErrDB (insert_policy pol)"

definition PolicyRepo_Update :: "ApprovalPolicy \<Rightarrow> unit m" where
  "PolicyRepo_Update pol = exec (\<lambda>d. d\<lparr>approval_policies := row_save polID pol (approval_policies d)\<rparr>)"

definition PolicyRepo_Delete :: "uuid \<Rightarrow> unit m" where
  "PolicyRepo_Delete i = exec (\<lambda>d. d\<lparr>approval_policies := row_delete polID i (approval_policies d)\<rparr>)"

definition PolicyRepo_Upsert :: "ApprovalPolicy \<Rightarrow> unit m" where
  "PolicyRepo_Upsert pol =
     bind (attempt (query (\<lambda>d. found (List.find
        (policy_matches (polProjectID pol) (polEntityType pol) (polAction pol)) (approval_policies d))))) (\<lambda>r.
     case r of
       Inr existing \<Rightarrow> exec (\<lambda>d. d\<lparr>approval_policies :=
         row_save polID (existing\<lparr>polStages := polStages pol\<rparr>) (approval_policies d)\<rparr>)
     | Inl _ \<Rightarrow> bind (PolicyRepo_Create pol) (\<lambda>_. ret ()))"

definition default_policies :: "uuid \<Rightarrow> ApprovalPolicy list" where
  "default_policies p =
    [\<lparr>polID = 0, polProjectID = p, polEntityType = entity_string ApprovalEntityRoute, polAction = None,
      polStages = Doc [\<lparr>tplOrder = 1, tplRequiredPermission = ''route.approve'', tplTeamScope = ''any'', tplMinApprovers = 0\<rparr>]\<rparr>,
     \<lparr>polID = 0, polProjectID = p, polEntityType = entity_string ApprovalEntityClientAttachment, polAction = None,
      polStages = Doc [\<lparr>tplOrder = 1, tplRequiredPermission = ''client.approve'', tplTeamScope = ''other_team'', tplMinApprovers = 0\<rparr>,
                       \<lparr>tplOrder = 2, tplRequiredPermission = ''client.approve'', tplTeamScope = ''any'', tplMinApprovers = 0\<rparr>]\<rparr>]"

definition PolicyRepo_SeedDefaults :: "uuid \<Rightarrow> unit m" where
  "PolicyRepo_SeedDefaults p = for_each (default_policies p) (\<lambda>pol. bind (PolicyRepo_Create pol) (\<lambda>_. ret ()))"

section \<open>Routes\<close>

text \<open>
  Constraints on a route row: one owner (\<open>chk_route_single_owner\<close>), \<open>UNIQUE(domain_id, name)\<close>
  and \<open>idx_route_stream_proto_port\<close>, which ignores rejected routes and routes without a
  listener port.
\<close>

definition route_conflict :: "Route \<Rightarrow> Route \<Rightarrow> bool" where
  "route_conflict r x \<longleftrightarrow> rtID x \<noteq> rtID r \<and>
     (rtDomainID r \<noteq> None \<and> rtDomainID x = rtDomainID r \<and> rtName x = rtName r \<or>
      rtStreamID r \<noteq> None \<and> rtStreamID x = rtStreamID r \<and> rtProtocol x = rtProtocol r \<and>
      rtListenerPort r \<noteq> None \<and> rtListenerPort x = rtListenerPort r \<and>
      rtStatus r \<noteq> RouteStatusRejected \<and> rtStatus x \<noteq> RouteStatusRejected)"

definition route_save :: "Route \<Rightarrow> db \<Rightarrow> error + db" where
  "route_save r d =
     (if (rtDomainID r = None) = (rtStreamID r = None) then Inl ErrDB
      else if list_ex (route_conflict r) (routes d) then Inl ErrDuplicatedKey
      else Inr (d\<lparr>routes := row_save rtID r (routes d)\<rparr>))"

definition RouteRepo_Create :: "Route \<Rightarrow> unit m" where
  "RouteRepo_Create r = updates ErrDB (\<lambda>d.
     if row_get rtID (rtID r) (routes d) \<noteq> None then Inl ErrDuplicatedKey else route_save (SyncListenerPort r) d)"

definition RouteRepo_GetByID :: "uuid \<Rightarrow> Route m" where
  "RouteRepo_GetByID i = query (\<lambda>d. found (row_get rtID i (routes d)))"

definition RouteRepo_Update :: "Route \<Rightarrow> unit m" where
  "RouteRepo_Update r = updates ErrDB (route_save (SyncListenerPort r))"

text \<open>The attachments, the policies and the versions of a route go with it (\<open>ON DELETE CASCADE\<close>).\<close>

definition delete_routes :: "(Route \<Rightarrow> bool) \<Rightarrow> db \<Rightarrow> db" where
  "delete_routes p d =
     (let gone = map rtID (filter p (routes d)) in
      d\<lparr>routes := filter (\<lambda>r. \<not> p r) (routes d),
        attachments := filter (\<lambda>a. attRouteID a \<notin> set gone) (attachments d),
        security_policies := filter (\<lambda>x. prwRouteID x \<notin> set gone) (security_policies d),
        backend_traffic_policies := filter (\<lambda>x. prwRouteID x \<notin> set gone) (backend_traffic_policies d),
        envoy_extension_policies := filter (\<lambda>x. prwRouteID x \<notin> set gone) (envoy_extension_policies d),
        waf_policies := filter (\<lambda>x. prwRouteID x \<notin> set gone) (waf_policies d),
        route_versions := filter (\<lambda>v. rvRouteID v \<notin> set gone) (route_versions d)\<rparr>)"

definition RouteRepo_Delete :: "uuid \<Rightarrow> unit m" where
  "RouteRepo_Delete i = exec (delete_routes (\<lambda>r. rtID r = i))"

text \<open>\<open>Limit(n)\<close>: the first rows of a query.\<close>

fun limit_rows :: "int \<Rightarrow> 'a list \<Rightarrow> 'a list" where
  "limit_rows n [] = []"
| "limit_rows n (x # xs) = (if n \<le> 0 then [] else x # limit_rows (n - 1) xs)"

lemma limit_rows_take: "limit_rows n xs = take (nat n) xs"
  by (induction n xs rule: limit_rows.induct) (auto simp: take_Cons' nat_diff_distrib)

definition RouteRepo_ListByDomainID :: "uuid \<Rightarrow> Route list m" where
  "RouteRepo_ListByDomainID domid = query (\<lambda>d.
     Inr (limit_rows 10000 (rev (filter (\<lambda>r. rtDomainID r = Some domid) (routes d)))))"

text \<open>Versions: \<open>UNIQUE(route_id, version)\<close>, and the route and the approval exist.\<close>

definition RouteVersionRepo_Create :: "RouteVersion \<Rightarrow> unit m" where
  "RouteVersionRepo_Create v = updates ErrDB (\<lambda>d.
     if row_get rtID (rvRouteID v) (routes d) = None then Inl ErrDB
     else if (case rvApprovalID v of None \<Rightarrow> False | Some i \<Rightarrow> row_get apID i (approvals d) = None) then Inl ErrDB
     else if list_ex (\<lambda>x. rvRouteID x = rvRouteID v \<and> rvVersion x = rvVersion v) (route_versions d) then Inl ErrDuplicatedKey
     else Inr (d\<lparr>route_versions := route_versions d @ [v]\<rparr>))"

definition RouteVersionRepo_GetByRouteIDAndVersion :: "uuid \<Rightarrow> int \<Rightarrow> RouteVersion m" where
  "RouteVersionRepo_GetByRouteIDAndVersion r n = query (\<lambda>d. found (List.find (\<lambda>v. rvRouteID v = r \<and> rvVersion v = n) (route_versions d)))"

definition GetMaxVersion :: "uuid \<Rightarrow> int m" where
  "GetMaxVersion r = query (\<lambda>d. Inr (case map rvVersion (filter (\<lambda>v. rvRouteID v = r) (route_versions d)) of
     [] \<Rightarrow> 0 | n # ns \<Rightarrow> fold max ns n))"

definition RouteRepo_ExistsByName :: "uuid \<Rightarrow> string \<Rightarrow> bool m" where
  "RouteRepo_ExistsByName domid n = query (\<lambda>d.
     Inr (list_ex (\<lambda>r. rtDomainID r = Some domid \<and> rtName r = n) (routes d)))"

definition RouteRepo_ExistsByStreamAndName :: "uuid \<Rightarrow> string \<Rightarrow> bool m" where
  "RouteRepo_ExistsByStreamAndName str n = query (\<lambda>d.
     Inr (list_ex (\<lambda>r. rtStreamID r = Some str \<and> rtName r = n) (routes d)))"

definition RouteRepo_ListActiveByStreamID :: "uuid \<Rightarrow> Route list m" where
  "RouteRepo_ListActiveByStreamID str = query (\<lambda>d.
     Inr (filter (\<lambda>r. rtStreamID r = Some str \<and> rtStatus r \<in>
       {RouteStatusActive, RouteStatusPendingUpdate, RouteStatusPendingDelete, RouteStatusPendingDeploy}) (routes d)))"

definition RouteRepo_CountByStreamID :: "uuid \<Rightarrow> nat m" where
  "RouteRepo_CountByStreamID str = query (\<lambda>d. Inr (length (filter (\<lambda>r. rtStreamID r = Some str) (routes d))))"

section \<open>Route policies\<close>

text \<open>
  The four policy repositories have the same operations. A row needs its route
  (\<open>REFERENCES routes(id)\<close>) and is the only one of it. \<open>Upsert\<close> looks the row up first: any
  error of the lookup, also a lost connection, leads to an insert.
\<close>

definition policy_Get :: "(db \<Rightarrow> 'c PolicyRow list) \<Rightarrow> uuid \<Rightarrow> 'c PolicyRow m" where
  "policy_Get rows i = query (\<lambda>d. found (row_get prwRouteID i (rows d)))"

definition policy_Create ::
  "(db \<Rightarrow> 'c PolicyRow list) \<Rightarrow> ('c PolicyRow list \<Rightarrow> db \<Rightarrow> db) \<Rightarrow> 'c PolicyRow \<Rightarrow> unit m" where
  "policy_Create rows put p = updates ErrDB (\<lambda>d.
     if row_get rtID (prwRouteID p) (routes d) = None then Inl ErrDB
     else if row_get prwRouteID (prwRouteID p) (rows d) \<noteq> None then Inl ErrDuplicatedKey
     else Inr (put (row_save prwRouteID p (rows d)) d))"

definition policy_Upsert ::
  "(db \<Rightarrow> 'c PolicyRow list) \<Rightarrow> ('c PolicyRow list \<Rightarrow> db \<Rightarrow> db) \<Rightarrow> 'c PolicyRow \<Rightarrow> unit m" where
  "policy_Upsert rows put p =
     bind (attempt (policy_Get rows (prwRouteID p))) (\<lambda>r. case r of
       Inr _ \<Rightarrow> exec (\<lambda>d. put (row_save prwRouteID p (rows d)) d)
     | Inl _ \<Rightarrow> policy_Create rows put p)"

definition policy_DeleteByRouteID ::
  "(db \<Rightarrow> 'c PolicyRow list) \<Rightarrow> ('c PolicyRow list \<Rightarrow> db \<Rightarrow> db) \<Rightarrow> uuid \<Rightarrow> unit m" where
  "policy_DeleteByRouteID rows put i = exec (\<lambda>d. put (row_delete prwRouteID i (rows d)) d)"

abbreviation put_sp :: "SecurityPolicyConfig PolicyRow list \<Rightarrow> db \<Rightarrow> db" where
  "put_sp x d \<equiv> d\<lparr>security_policies := x\<rparr>"

abbreviation put_btp :: "BackendTrafficPolicyConfig PolicyRow list \<Rightarrow> db \<Rightarrow> db" where
  "put_btp x d \<equiv> d\<lparr>backend_traffic_policies := x\<rparr>"

abbreviation put_eep :: "EnvoyExtensionPolicyConfig PolicyRow list \<Rightarrow> db \<Rightarrow> db" where
  "put_eep x d \<equiv> d\<lparr>envoy_extension_policies := x\<rparr>"

abbreviation put_waf :: "WafPolicyConfig PolicyRow list \<Rightarrow> db \<Rightarrow> db" where
  "put_waf x d \<equiv> d\<lparr>waf_policies := x\<rparr>"

definition ProjectNamespaceRepo_Exists :: "uuid \<Rightarrow> string \<Rightarrow> bool m" where
  "ProjectNamespaceRepo_Exists p ns = query (\<lambda>d.
     Inr (list_ex (\<lambda>n. pnsProjectID n = p \<and> pnsNamespace n = ns) (project_namespaces d)))"

definition ProjectNamespaceRepo_GetByProjectAndNamespace :: "uuid \<Rightarrow> string \<Rightarrow> ProjectNamespace m" where
  "ProjectNamespaceRepo_GetByProjectAndNamespace p ns = query (\<lambda>d.
     found (List.find (\<lambda>n. pnsProjectID n = p \<and> pnsNamespace n = ns) (project_namespaces d)))"

section \<open>Attachments, clients, domains and streams\<close>

definition AttachmentRepo_GetByID :: "uuid \<Rightarrow> ClientRouteAttachment m" where
  "AttachmentRepo_GetByID i = query (\<lambda>d. found (row_get attID i (attachments d)))"

definition AttachmentRepo_GetByClientAndRoute :: "uuid \<Rightarrow> uuid \<Rightarrow> ClientRouteAttachment m" where
  "AttachmentRepo_GetByClientAndRoute c r = query (\<lambda>d.
     found (List.find (\<lambda>a. attClientID a = c \<and> attRouteID a = r) (attachments d)))"

definition AttachmentRepo_Create :: "ClientRouteAttachment \<Rightarrow> ClientRouteAttachment m" where
  "AttachmentRepo_Create a = inserts ErrDB (\<lambda>d.
     if list_ex (\<lambda>x. attClientID x = attClientID a \<and> attRouteID x = attRouteID a) (attachments d)
     then Inl ErrDuplicatedKey
     else Inr (a\<lparr>attID := next_id d\<rparr>, d\<lparr>next_id := Suc (next_id d),
                attachments := attachments d @ [a\<lparr>attID := next_id d\<rparr>]\<rparr>))"

definition AttachmentRepo_Update :: "ClientRouteAttachment \<Rightarrow> unit m" where
  "AttachmentRepo_Update a = exec (\<lambda>d. d\<lparr>attachments := row_save attID a (attachments d)\<rparr>)"

definition AttachmentRepo_ListByClientID :: "uuid \<Rightarrow> ClientRouteAttachment list m" where
  "AttachmentRepo_ListByClientID c = query (\<lambda>d. Inr (rev (filter
     (\<lambda>a. attClientID a = c \<and> attStatus a \<noteq> AttachmentStatusRemoved) (attachments d))))"

text \<open>\<open>ListActiveByClientIDWith...\<close>: one query per credential kind, which \<open>flag\<close> selects.\<close>

definition AttachmentRepo_ListActiveByClientIDWith ::
  "(ClientRouteAttachment \<Rightarrow> bool) \<Rightarrow> uuid \<Rightarrow> ClientRouteAttachment list m" where
  "AttachmentRepo_ListActiveByClientIDWith flag c = query (\<lambda>d. Inr (filter
     (\<lambda>a. attClientID a = c \<and> attStatus a = AttachmentStatusActive \<and> flag a) (attachments d)))"

definition AttachmentRepo_ListActiveByRouteID :: "uuid \<Rightarrow> ClientRouteAttachment list m" where
  "AttachmentRepo_ListActiveByRouteID r = query (\<lambda>d. Inr (filter
     (\<lambda>a. attRouteID a = r \<and> attStatus a = AttachmentStatusActive) (attachments d)))"

definition AttachmentRepo_ListApprovedByRouteID :: "uuid \<Rightarrow> ClientRouteAttachment list m" where
  "AttachmentRepo_ListApprovedByRouteID r = query (\<lambda>d. Inr (filter
     (\<lambda>a. attRouteID a = r \<and> attStatus a = AttachmentStatusApproved) (attachments d)))"

definition AttachmentRepo_ListByRouteID :: "uuid \<Rightarrow> ClientRouteAttachment list m" where
  "AttachmentRepo_ListByRouteID r = query (\<lambda>d. Inr (rev (filter
     (\<lambda>a. attRouteID a = r \<and> attStatus a \<noteq> AttachmentStatusRemoved) (attachments d))))"

definition AttachmentRepo_UpdateStatusByRouteID ::
  "uuid \<Rightarrow> AttachmentStatus \<Rightarrow> AttachmentStatus \<Rightarrow> unit m" where
  "AttachmentRepo_UpdateStatusByRouteID r from to = exec (\<lambda>d. d\<lparr>attachments := map
     (\<lambda>a. if attRouteID a = r \<and> attStatus a = from then a\<lparr>attStatus := to\<rparr> else a) (attachments d)\<rparr>)"

text \<open>The two counts are queries whose error is discarded: a failed count is \<open>0\<close>.\<close>

definition ClientRepo_GetByID :: "uuid \<Rightarrow> Client m" where
  "ClientRepo_GetByID i =
     bind (query (\<lambda>d. found (row_get clID i (clients d)))) (\<lambda>c.
     bind (attempt (query (\<lambda>d. Inr (int (length (filter (\<lambda>x. cipClientID x = i) (client_ips d))))))) (\<lambda>ips.
     bind (attempt (query (\<lambda>d. Inr (int (length (filter (\<lambda>x. chdClientID x = i) (client_headers d))))))) (\<lambda>hdrs.
     ret (c\<lparr>clIPAddressCount := (case ips of Inr n \<Rightarrow> n | Inl _ \<Rightarrow> 0),
            clHeaderCount := (case hdrs of Inr n \<Rightarrow> n | Inl _ \<Rightarrow> 0)\<rparr>))))"

definition ClientIPRepo_ListByClientID :: "uuid \<Rightarrow> ClientIPAddress list m" where
  "ClientIPRepo_ListByClientID i = query (\<lambda>d. Inr (filter (\<lambda>x. cipClientID x = i) (client_ips d)))"

definition ClientHeaderRepo_ListByClientID :: "uuid \<Rightarrow> ClientHeader list m" where
  "ClientHeaderRepo_ListByClientID i = query (\<lambda>d. Inr (filter (\<lambda>x. chdClientID x = i) (client_headers d)))"

definition DomainRepo_GetByID :: "uuid \<Rightarrow> Domain m" where
  "DomainRepo_GetByID i = query (\<lambda>d. found (row_get domID i (domains d)))"

definition DomainSettingsRepo_GetByDomainID :: "uuid \<Rightarrow> DomainSettings m" where
  "DomainSettingsRepo_GetByDomainID i = query (\<lambda>d. found (row_get dstDomainID i (domain_settings d)))"

definition StreamRepo_GetByID :: "uuid \<Rightarrow> Stream m" where
  "StreamRepo_GetByID i = query (\<lambda>d. found (row_get strID i (streams d)))"

section \<open>Lemmas\<close>

lemma found_simps [simp]: "found None = Inl ErrRecordNotFound" "found (Some r) = Inr r"
  by (simp_all add: found_def)

lemma found_Inr [simp]: "found x = Inr r \<longleftrightarrow> x = Some r"
  by (auto simp: found_def split: option.splits)

lemma map_sum_Inr_iff: "map_sum f g x = Inr r \<longleftrightarrow> (\<exists>y. x = Inr y \<and> r = g y)"
  by (cases x) auto

lemma hoare_query [wp]:
  "hoare (\<lambda>d. E ErrDB d \<and> (\<forall>x. f d = Inr x \<longrightarrow> Q x d) \<and> (\<forall>e'. f d = Inl e' \<longrightarrow> E e' d)) (query f) Q E"
  unfolding query_def by (rule hoare_reads)

lemma hoare_exec [wp]: "hoare (\<lambda>d. E ErrDB d \<and> Q () (f d)) (exec f) Q E"
  unfolding exec_def by (rule hoare_writes)

lemma keeps_query [simp, intro]: "keeps I (query f)"
  by (simp add: query_def)

lemma keeps_exec [intro]: "(\<And>d. I d \<Longrightarrow> I (f d)) \<Longrightarrow> keeps I (exec f)"
  unfolding exec_def by (rule keeps_writes)

lemma run_query [simp]: "query f (d, []) = (f d, (d, []))"
  by (simp add: query_def)

lemma run_exec [simp]: "exec f (d, []) = (Inr (), (f d, []))"
  by (simp add: exec_def)

lemma hoare_lift_check [wp]: "hoare (\<lambda>d. \<forall>e. (c = Inl e \<longrightarrow> E e d) \<and> (c = Inr () \<longrightarrow> Q () d)) (lift_check c) Q E"
  by (cases c) (auto simp: lift_check_def intro!: hoare_pre [OF hoare_throw] hoare_pre [OF hoare_ret])

lemma hoare_wrap_error [wp]: "hoare P m Q (\<lambda>e. E (Wrap f e)) \<Longrightarrow> hoare P (wrap_error f m) Q E"
  unfolding hoare_def wrap_error_def by (fastforce simp: bind_def attempt_def split: prod.splits sum.splits)

lemma hoare_or_error [wp]: "hoare P m Q (\<lambda>_. E e) \<Longrightarrow> hoare P (or_error e m) Q E"
  unfolding hoare_def or_error_def by (fastforce simp: bind_def attempt_def split: prod.splits sum.splits)

lemma hoare_deref [wp]: "hoare (\<lambda>d. (p = None \<longrightarrow> E (Panic s) d) \<and> (\<forall>x. p = Some x \<longrightarrow> Q x d)) (deref s p) Q E"
  by (cases p) (auto simp: deref_def intro!: hoare_pre [OF hoare_throw] hoare_pre [OF hoare_ret])

lemma keeps_lift_check [simp, intro]: "keeps I (lift_check c)"
  by (simp add: lift_check_def split: sum.splits)

lemma keeps_wrap_error [intro]: "keeps I m \<Longrightarrow> keeps I (wrap_error f m)"
  unfolding wrap_error_def by (intro keeps_bind keeps_attempt keeps_case_sum keeps_throw keeps_ret)

lemma keeps_or_error [intro]: "keeps I m \<Longrightarrow> keeps I (or_error e m)"
  unfolding or_error_def by (intro keeps_bind keeps_attempt keeps_case_sum keeps_throw keeps_ret)

lemma keeps_deref [simp, intro]: "keeps I (deref s p)"
  by (simp add: deref_def split: option.splits)

lemma run_lift_check [simp]: "lift_check c s = (case c of Inl e \<Rightarrow> (Inl e, s) | Inr _ \<Rightarrow> (Inr (), s))"
  by (simp add: lift_check_def split: sum.splits)

lemma number_stages_simps [simp]:
  "length (number_stages n a ss) = length ss"
  "map stgOrder (number_stages n a ss) = map stgOrder ss"
  "map stgID (number_stages n a ss) = [n..<n + length ss]"
  by (induction ss arbitrary: n) (auto simp: upt_rec)

lemma number_stages_mem:
  "s \<in> set (number_stages n a ss) \<Longrightarrow>
   stgApprovalID s = a \<and> n \<le> stgID s \<and> stgID s < n + length ss \<and>
   (\<exists>t \<in> set ss. stgStatus s = stgStatus t \<and> stgMinApprovers s = stgMinApprovers t)"
  by (induction ss arbitrary: n) force+

lemma apStages_read [simp]:
  "apStages (approval_read d a) = sort_key stgOrder (filter (\<lambda>s. stgApprovalID s = apID a) (approval_stages d))"
  by (simp add: approval_read_def)

lemma approval_read_simps [simp]:
  "apID (approval_read d a) = apID a" "apStatus (approval_read d a) = apStatus a"
  "apEntityType (approval_read d a) = apEntityType a" "apEntityID (approval_read d a) = apEntityID a"
  "apAction (approval_read d a) = apAction a" "apSubmittedBy (approval_read d a) = apSubmittedBy a"
  "apProjectID (approval_read d a) = apProjectID a" "apConfigSnapshot (approval_read d a) = apConfigSnapshot a"
  by (simp_all add: approval_read_def)

text \<open>The team query and the permission query agree: a permission is held through a role of the user.\<close>

lemma has_permission_iff:
  "has_permission d p u perm \<longleftrightarrow>
   (\<exists>r \<in> set (user_roles d p u). \<exists>q \<in> set (ptrPresets r). perm \<in> set (ppPermissions q))"
  by (fastforce simp: has_permission_def user_roles_def role_read_def role_presets_def
      List.map_filter_def list_ex_iff split: option.splits if_splits)

lemma is_admin_after_remove:
  "\<not> is_admin (d\<lparr>project_admins := filter (\<lambda>a. \<not> (padProjectID a = p \<and> padUserID a = u)) (project_admins d)\<rparr>) p u"
  by (auto simp: is_admin_def list_ex_iff)

end
