(* ===== verification/Cluster.thy ===== *)
theory Cluster
  imports Store
begin

text \<open>
  The client of a project's cluster: \<open>src/internal/cluster/gateway.go\<close>, \<open>namespace.go\<close> and the
  reference grants of \<open>route.go\<close>, over the four verbs of the Kubernetes API. A verb fails with
  \<open>ErrK8s\<close> and no effect, or does what the API documents: \<open>Get\<close>, \<open>Update\<close> and \<open>Delete\<close> of an
  object that is not there answer \<open>NotFound\<close>, \<open>Create\<close> of one that is there answers
  \<open>AlreadyExists\<close>. A conflict, which needs a second writer between the \<open>Get\<close> and the \<open>Update\<close> of
  \<open>UpdateGateway\<close>, does not arise in a sequential run, so its closure is run once.

  The locale \<open>object_store\<close> is what the services rely on; it is interpreted on the table \<open>k8s\<close>.
\<close>

section \<open>The API\<close>

definition k8s_lookup :: "k8s_key \<Rightarrow> db \<Rightarrow> k8s_object option" where
  "k8s_lookup k d = map_option snd (row_get fst k (k8s d))"

definition k8s_put :: "k8s_key \<Rightarrow> k8s_object \<Rightarrow> db \<Rightarrow> db" where
  "k8s_put k x d = d\<lparr>k8s := row_save fst (k, x) (k8s d)\<rparr>"

definition k8s_remove :: "k8s_key \<Rightarrow> db \<Rightarrow> db" where
  "k8s_remove k d = d\<lparr>k8s := row_delete fst k (k8s d)\<rparr>"

definition k8s_Get :: "k8s_key \<Rightarrow> k8s_object m" where
  "k8s_Get k = reads ErrK8s (\<lambda>d. case k8s_lookup k d of None \<Rightarrow> Inl ErrK8sNotFound | Some x \<Rightarrow> Inr x)"

definition k8s_Create :: "k8s_key \<Rightarrow> k8s_object \<Rightarrow> unit m" where
  "k8s_Create k x = updates ErrK8s (\<lambda>d. case k8s_lookup k d of
     None \<Rightarrow> Inr (k8s_put k x d) | Some _ \<Rightarrow> Inl ErrK8sAlreadyExists)"

definition k8s_Update :: "k8s_key \<Rightarrow> k8s_object \<Rightarrow> unit m" where
  "k8s_Update k x = updates ErrK8s (\<lambda>d. case k8s_lookup k d of
     None \<Rightarrow> Inl ErrK8sNotFound | Some _ \<Rightarrow> Inr (k8s_put k x d))"

definition k8s_Delete :: "k8s_key \<Rightarrow> unit m" where
  "k8s_Delete k = updates ErrK8s (\<lambda>d. case k8s_lookup k d of
     None \<Rightarrow> Inl ErrK8sNotFound | Some _ \<Rightarrow> Inr (k8s_remove k d))"

section \<open>The client\<close>

definition EnsureNamespace :: "uuid \<Rightarrow> string \<Rightarrow> unit m" where
  "EnsureNamespace p ns =
     bind (attempt (k8s_Get (K8sKey p KNamespace [] ns))) (\<lambda>r. case r of
       Inr _ \<Rightarrow> ret ()
     | Inl _ \<Rightarrow> wrap_error ''failed to create namespace: %w'' (k8s_Create (K8sKey p KNamespace [] ns) NamespaceObj))"

definition gateway_key :: "uuid \<Rightarrow> string \<Rightarrow> string \<Rightarrow> k8s_key" where
  "gateway_key p ns name = K8sKey p KGateway ns name"

definition CreateGateway :: "uuid \<Rightarrow> GatewayConfig \<Rightarrow> unit m" where
  "CreateGateway p config =
     bind (wrap_error ''failed to ensure namespace: %w'' (EnsureNamespace p (gcNamespace config))) (\<lambda>_.
     wrap_error ''failed to create gateway: %w''
       (k8s_Create (gateway_key p (gcNamespace config) (gcName config)) (GatewayObj (BuildGatewayObject config))))"

definition UpdateGateway :: "uuid \<Rightarrow> GatewayConfig \<Rightarrow> unit m" where
  "UpdateGateway p config =
     bind (wrap_error ''failed to ensure namespace: %w'' (EnsureNamespace p (gcNamespace config))) (\<lambda>_.
     let k = gateway_key p (gcNamespace config) (gcName config);
         gateway = GatewayObj (BuildGatewayObject config)
     in bind (attempt (k8s_Get k)) (\<lambda>r. case r of
          Inl e \<Rightarrow> if errors_Is e ErrK8sNotFound
            then wrap_error ''failed to create gateway: %w'' (k8s_Create k gateway)
            else throw (Wrap ''failed to get existing gateway: %w'' e)
        | Inr _ \<Rightarrow> wrap_error ''failed to update gateway: %w'' (k8s_Update k gateway)))"

definition DeleteGateway :: "uuid \<Rightarrow> string \<Rightarrow> string \<Rightarrow> unit m" where
  "DeleteGateway p ns name = wrap_error ''failed to delete gateway: %w'' (k8s_Delete (gateway_key p ns name))"

definition CreateGatewayClass :: "uuid \<Rightarrow> GatewayClassConfig \<Rightarrow> unit m" where
  "CreateGatewayClass p config = wrap_error ''failed to create gatewayclass: %w''
     (k8s_Create (K8sKey p KGatewayClass [] (gccName config)) (GatewayClassObj config))"

definition DeleteGatewayClass :: "uuid \<Rightarrow> string \<Rightarrow> unit m" where
  "DeleteGatewayClass p name = wrap_error ''failed to delete gatewayclass: %w'' (k8s_Delete (K8sKey p KGatewayClass [] name))"

definition CreateEnvoyProxy :: "uuid \<Rightarrow> EnvoyProxyConfig \<Rightarrow> unit m" where
  "CreateEnvoyProxy p config = wrap_error ''failed to create envoyproxy: %w''
     (k8s_Create (K8sKey p KEnvoyProxy (epNamespace config) (epName config)) (EnvoyProxyObj config))"

definition DeleteEnvoyProxy :: "uuid \<Rightarrow> string \<Rightarrow> string \<Rightarrow> unit m" where
  "DeleteEnvoyProxy p ns name = wrap_error ''failed to delete envoyproxy: %w'' (k8s_Delete (K8sKey p KEnvoyProxy ns name))"

definition UpdateEnvoyProxy :: "uuid \<Rightarrow> EnvoyProxyConfig \<Rightarrow> unit m" where
  "UpdateEnvoyProxy p config =
     bind (attempt (DeleteEnvoyProxy p (epNamespace config) (epName config))) (\<lambda>_. CreateEnvoyProxy p config)"

definition CreateReferenceGrant :: "uuid \<Rightarrow> ReferenceGrantConfig \<Rightarrow> unit m" where
  "CreateReferenceGrant p config = wrap_error ''failed to create referencegrant: %w''
     (k8s_Create (K8sKey p KReferenceGrant (rgToNamespace config) (rgName config))
        (ReferenceGrantObj (BuildReferenceGrant config)))"

definition DeleteReferenceGrant :: "uuid \<Rightarrow> string \<Rightarrow> string \<Rightarrow> unit m" where
  "DeleteReferenceGrant p ns name =
     wrap_error ''failed to delete referencegrant: %w'' (k8s_Delete (K8sKey p KReferenceGrant ns name))"

definition RecreateReferenceGrant :: "uuid \<Rightarrow> ReferenceGrantConfig \<Rightarrow> unit m" where
  "RecreateReferenceGrant p config =
     bind (attempt (DeleteReferenceGrant p (rgToNamespace config) (rgName config))) (\<lambda>_. CreateReferenceGrant p config)"

section \<open>The contract of the object store\<close>

locale object_store =
  fixes lookup :: "'k \<Rightarrow> 't \<Rightarrow> 'o option"
    and put :: "'k \<Rightarrow> 'o \<Rightarrow> 't \<Rightarrow> 't"
    and remove :: "'k \<Rightarrow> 't \<Rightarrow> 't"
  assumes lookup_put: "lookup k (put k' x t) = (if k = k' then Some x else lookup k t)"
    and lookup_remove: "lookup k (remove k' t) = (if k = k' then None else lookup k t)"
begin

text \<open>Replacing an object by deleting and creating it is what an update does.\<close>

lemma recreate: "lookup k (put k' x (remove k' t)) = lookup k (put k' x t)"
  by (simp add: lookup_put lookup_remove)

lemma put_other: "k \<noteq> k' \<Longrightarrow> lookup k (put k' x t) = lookup k t"
  by (simp add: lookup_put)

lemma remove_other: "k \<noteq> k' \<Longrightarrow> lookup k (remove k' t) = lookup k t"
  by (simp add: lookup_remove)

text \<open>An object survives every sequence of writes to other keys.\<close>

lemma put_all_other: "k \<notin> fst ` set ws \<Longrightarrow> lookup k (fold (\<lambda>(k', x). put k' x) ws t) = lookup k t"
  by (induction ws arbitrary: t) (auto simp: lookup_put)

end

interpretation cluster: object_store k8s_lookup k8s_put k8s_remove
  by unfold_locales (auto simp: k8s_lookup_def k8s_put_def k8s_remove_def)

lemmas k8s_simps [simp] = cluster.lookup_put cluster.lookup_remove

lemma k8s_frame [simp]:
  "k8s_lookup k (d\<lparr>streams := x\<rparr>) = k8s_lookup k d" "k8s_lookup k (d\<lparr>domains := y\<rparr>) = k8s_lookup k d"
  "k8s_lookup k (d\<lparr>domain_templates := z\<rparr>) = k8s_lookup k d"
  by (simp_all add: k8s_lookup_def)

text \<open>Writes to the cluster leave the database alone.\<close>

definition same_tables :: "db \<Rightarrow> db \<Rightarrow> bool" where
  "same_tables d0 d \<longleftrightarrow> d = d0\<lparr>k8s := k8s d\<rparr>"

lemma same_tables_refl [simp]: "same_tables d d"
  by (simp add: same_tables_def)

lemma same_tablesE: "same_tables d0 d \<Longrightarrow> (\<And>x. d = d0\<lparr>k8s := x\<rparr> \<Longrightarrow> P) \<Longrightarrow> P"
  by (simp add: same_tables_def)

lemma same_tables_put [simp]: "same_tables d0 d \<Longrightarrow> same_tables d0 (k8s_put k x d)"
  "same_tables d0 d \<Longrightarrow> same_tables d0 (k8s_remove k d)"
  by (erule same_tablesE, simp add: same_tables_def k8s_put_def k8s_remove_def)+

section \<open>Rules for the client\<close>

lemma keeps_k8s_verbs:
  assumes "\<And>d k x. I d \<Longrightarrow> I (k8s_put k x d)" "\<And>d k. I d \<Longrightarrow> I (k8s_remove k d)"
  shows "keeps I (k8s_Get k)" "keeps I (k8s_Create k x)" "keeps I (k8s_Update k x)" "keeps I (k8s_Delete k)"
  unfolding k8s_Get_def k8s_Create_def k8s_Update_def k8s_Delete_def
  using assms by (auto split: option.splits intro!: keeps_updates)

lemma keeps_cluster:
  assumes "\<And>d k x. I d \<Longrightarrow> I (k8s_put k x d)" "\<And>d k. I d \<Longrightarrow> I (k8s_remove k d)"
  shows "keeps I (EnsureNamespace p ns)" "keeps I (CreateGateway p g)" "keeps I (UpdateGateway p g)"
    "keeps I (DeleteGateway p ns n)" "keeps I (CreateGatewayClass p c)" "keeps I (DeleteGatewayClass p n)"
    "keeps I (CreateEnvoyProxy p e)" "keeps I (DeleteEnvoyProxy p ns n)" "keeps I (UpdateEnvoyProxy p e)"
    "keeps I (CreateReferenceGrant p r)" "keeps I (DeleteReferenceGrant p ns n)"
    "keeps I (RecreateReferenceGrant p r)"
  unfolding EnsureNamespace_def CreateGateway_def UpdateGateway_def DeleteGateway_def CreateGatewayClass_def
    DeleteGatewayClass_def CreateEnvoyProxy_def DeleteEnvoyProxy_def UpdateEnvoyProxy_def
    CreateReferenceGrant_def DeleteReferenceGrant_def RecreateReferenceGrant_def Let_def
  using keeps_k8s_verbs [of I, OF assms]
  by (auto intro!: keeps_bind keeps_attempt keeps_wrap_error keeps_case_sum keeps_if)

text \<open>
  \<open>UpdateGateway\<close> that returns has left exactly the built object under its key and has touched
  no other Gateway; one that fails has touched no Gateway.
\<close>

definition other_gateways :: "k8s_key \<Rightarrow> db \<Rightarrow> db \<Rightarrow> bool" where
  "other_gateways k d0 d \<longleftrightarrow> same_tables d0 d \<and>
     (\<forall>p ns n. (K8sKey p KGateway ns n) \<noteq> k \<longrightarrow> k8s_lookup (K8sKey p KGateway ns n) d = k8s_lookup (K8sKey p KGateway ns n) d0)"

lemma hoare_EnsureNamespace:
  "hoare (\<lambda>d. d = d0) (EnsureNamespace p ns)
     (\<lambda>_ d. same_tables d0 d \<and> (\<forall>p ns n. k8s_lookup (K8sKey p KGateway ns n) d = k8s_lookup (K8sKey p KGateway ns n) d0))
     (\<lambda>_ d. d = d0)"
  unfolding EnsureNamespace_def k8s_Get_def k8s_Create_def
  by (rule hoare_pre, (rule wp)+) (auto split: option.splits sum.splits)

lemma hoare_UpdateGateway:
  "hoare (\<lambda>d. d = d0) (UpdateGateway p g)
     (\<lambda>_ d. other_gateways (gateway_key p (gcNamespace g) (gcName g)) d0 d \<and>
        k8s_lookup (gateway_key p (gcNamespace g) (gcName g)) d = Some (GatewayObj (BuildGatewayObject g)))
     (\<lambda>_ d. other_gateways (K8sKey 0 KNamespace [] []) d0 d)"
  unfolding UpdateGateway_def Let_def k8s_Get_def k8s_Create_def k8s_Update_def
  by (rule hoare_pre, (rule hoare_post [OF hoare_EnsureNamespace] | rule wp)+)
    (auto simp: other_gateways_def gateway_key_def split: option.splits sum.splits if_splits)

lemma hoare_DeleteGateway:
  "hoare (\<lambda>d. d = d0) (DeleteGateway p ns n)
     (\<lambda>_ d. other_gateways (gateway_key p ns n) d0 d \<and> k8s_lookup (gateway_key p ns n) d = None)
     (\<lambda>e d. d = d0 \<and> (errors_Is e ErrK8sNotFound \<longrightarrow> k8s_lookup (gateway_key p ns n) d0 = None))"
  unfolding DeleteGateway_def k8s_Delete_def
  by (rule hoare_pre, (rule wp)+) (auto simp: other_gateways_def gateway_key_def split: option.splits)

end
