(* ===== verification/Sample.thy ===== *)
theory Sample
  imports Cluster
begin

text \<open>
  A small concrete store on which the theorems of the development are instantiated: one
  project with approvals on, an owner, a submitter and a reviewer, one team whose role
  carries the approver preset, a domain, a route and a client attached to it.
\<close>

definition sample_owner :: User where
  "sample_owner = \<lparr>usrID = 8, usrRole = UserRoleOwner\<rparr>"

definition sample_submitter :: User where
  "sample_submitter = \<lparr>usrID = 7, usrRole = UserRoleUser\<rparr>"

definition sample_reviewer :: User where
  "sample_reviewer = \<lparr>usrID = 9, usrRole = UserRoleUser\<rparr>"

definition sample_project :: Project where
  "sample_project = \<lparr>prjID = 1, prjName = ''shop'', prjApprovalEnabled = True, prjSelfApprovalAllowed = False\<rparr>"

definition sample_config :: RouteConfig where
  "sample_config = RouteConfig_zero\<lparr>rcRouteType := ''backend'',
     rcMatches := [\<lparr>rmPath = Some \<lparr>pmType = ''PathPrefix'', pmValue = ''/orders''\<rparr>, rmHeaders = [], rmMethod = [],
       rmQueryParams = [], rmGRPCService = None, rmGRPCMethod = None\<rparr>],
     rcBackends := [\<lparr>beType = ''kubernetes'', beService = ''orders'', beNamespace = ''shop'', bePort = 80, beWeight = 1,
       beFallback = False, beAddressType = [], beAddress = [], beTLS = None\<rparr>]\<rparr>"

definition sample_route :: "RouteStatus \<Rightarrow> Route" where
  "sample_route s = \<lparr>rtID = 6, rtDomainID = Some 5, rtStreamID = None, rtListenerPort = None, rtTeamID = 2,
     rtName = ''orders'', rtDescription = [], rtProtocol = RouteProtocolHTTP, rtSecurityMode = SecurityModeClient,
     rtConfig = sample_config, rtStatus = s, rtK8sRouteName = ''orders'', rtCreatedBy = 7, rtLabels = []\<rparr>"

definition sample_attachment :: "AttachmentStatus \<Rightarrow> ClientRouteAttachment" where
  "sample_attachment s = \<lparr>attID = 11, attClientID = 10, attRouteID = 6, attEnableIPAllowlist = False,
     attEnableAPIKey = True, attEnableJWT = False, attEnableBasicAuth = False, attEnableMTLS = False,
     attEnableHeaderAuth = False, attRateLimitConfig = None, attExtAuth = None, attStatus = s, attCreatedBy = 7\<rparr>"

definition sample_domain :: Domain where
  "sample_domain = \<lparr>domID = 5, domProjectID = 1, domDomainTemplateID = Some 3, domManagedCertificateID = None,
     domName = ''shop'', domHostname = ''shop.example'', domNamespace = ''shop'', domTLSSecretName = [],
     domTLSSecretNamespace = [], domBoundListeners = [''http''], domK8sGatewayName = ''shop-example'',
     domK8sGatewayClass = ''public-loadbalancer'', domStatus = DomainStatusActive, domStatusMessage = [],
     domCreatedBy = 7, domLabels = []\<rparr>"

definition sample_client :: Client where
  "sample_client = \<lparr>clID = 10, clTeamID = 2, clName = ''mobile'', clDescription = [], clContactName = [], clContactEmail = [], clCreatedBy = 7,
     clAPIKeyEnabled = True, clAPIKeyHash = ''hash'', clAPIKeyEncrypted = ''a2V5'', clAPIKeyPrefix = [], clAPIKeyHeaderName = ''x-api-key'',
     clClientIDHeaderName = ''x-client-id'', clJWTEnabled = False, clJWTIssuer = [], clJWTJWKSURL = [], clJWTAudiences = [],
     clJWTRequiredClaims = [], clJWTClaimToHeaders = [], clMTLSEnabled = False, clMTLSCAName = [], clMTLSCASecret = [], clMTLSCASecretKey = [],
     clMTLSCAPem = [], clMTLSSANs = [], clMTLSHashes = [], clAllowedMethods = [], clManagedCertificateID = None, clIPAddressCount = 0,
     clHeaderCount = 0\<rparr>"

definition sample_store :: db where
  "sample_store = empty_db\<lparr>next_id := 20,
     projects := [sample_project],
     domains := [sample_domain],
     clients := [sample_client]\<rparr>"

definition sample_db :: db where
  "sample_db = sample_store\<lparr>
     teams := [\<lparr>teamID = 2, teamName = ''orders''\<rparr>],
     team_members := [\<lparr>tmTeamID = 2, tmUserID = 7\<rparr>, \<lparr>tmTeamID = 2, tmUserID = 9\<rparr>],
     project_team_roles := [\<lparr>ptrID = 3, ptrProjectID = 1, ptrTeamID = 2, ptrPresets = []\<rparr>],
     project_team_presets := [\<lparr>ptpRoleID = 3, ptpPresetID = 4\<rparr>],
     permission_presets := [\<lparr>ppID = 4, ppPermissions = PresetApprover\<rparr>]\<rparr>"

text \<open>The store without teams and with the route in a given status.\<close>

definition sample_routes :: "RouteStatus \<Rightarrow> db" where
  "sample_routes s = sample_store\<lparr>routes := [sample_route s]\<rparr>"

definition sample_snapshot :: RouteApprovalSnapshot where
  "sample_snapshot = \<lparr>snRouteConfig = Some (sample_config\<lparr>rcListenerPort := 8080\<rparr>), snSecurityPolicy = None,
     snBackendTrafficPolicy = None, snEnvoyExtensionPolicy = None, snWafPolicy = None\<rparr>"

definition sample_stage :: "ApprovalStatus \<Rightarrow> ApprovalStage" where
  "sample_stage s = \<lparr>stgID = 13, stgApprovalID = 12, stgOrder = 1, stgRequiredPermission = PermRouteApprove,
     stgRequiredTeamID = None, stgReviewedBy = None, stgStatus = s, stgComment = [], stgMinApprovers = 1\<rparr>"

definition sample_approval :: "ApprovalAction \<Rightarrow> ApprovalStatus \<Rightarrow> Approval" where
  "sample_approval action s = \<lparr>apID = 12, apProjectID = 1, apEntityType = ApprovalEntityRoute, apEntityID = 6,
     apAction = action, apConfigSnapshot = Some (Doc sample_snapshot), apPreviousConfig = None, apSubmittedBy = 7,
     apStatus = s, apChangeDescription = [], apAIReview = None, apStages = []\<rparr>"

text \<open>A request of the submitter on the route: pending, or approved by the reviewer.\<close>

definition sample_pending :: "RouteStatus \<Rightarrow> ApprovalAction \<Rightarrow> db" where
  "sample_pending rs action = (sample_routes rs)\<lparr>approvals := [sample_approval action ApprovalStatusPending],
     approval_stages := [sample_stage ApprovalStatusPending]\<rparr>"

definition sample_approved :: "RouteStatus \<Rightarrow> ApprovalAction \<Rightarrow> db" where
  "sample_approved rs action = (sample_routes rs)\<lparr>approvals := [sample_approval action ApprovalStatusApproved],
     approval_stages := [sample_stage ApprovalStatusApproved],
     stage_reviews := [\<lparr>revStageID = 13, revReviewerID = 9, revDecision = ''approved''\<rparr>]\<rparr>"

text \<open>The client attached to the active route, with approvals on or off.\<close>

definition sample_attached :: "bool \<Rightarrow> db" where
  "sample_attached enabled = (sample_routes RouteStatusActive)\<lparr>
     projects := [sample_project\<lparr>prjApprovalEnabled := enabled\<rparr>],
     attachments := [sample_attachment AttachmentStatusActive]\<rparr>"

text \<open>A merged template with one HTTP listener and a range for streams.\<close>

definition sample_template :: DomainTemplate where
  "sample_template = \<lparr>dtID = 3, dtProjectID = 1, dtName = ''public'', dtDescription = [],
     dtControllerName = EnvoyGatewayControllerName, dtExposureType = ''LoadBalancer'',
     dtListeners = [\<lparr>tlName = ''http'', tlProtocol = ListenerHTTP, tlPort = 80, tlTLSMode = [], tlPortRangeMin = 0, tlPortRangeMax = 0\<rparr>,
       \<lparr>tlName = ''l4'', tlProtocol = ListenerTCP, tlPort = 0, tlTLSMode = [], tlPortRangeMin = 5, tlPortRangeMax = 90\<rparr>],
     dtExternalTrafficPolicy = [], dtLoadBalancerClass = [], dtAnnotations = [], dtPodAnnotations = [],
     dtContainerResources = None, dtScalingConfig = None, dtMergeGateways = True, dtTelemetryAccessLog = None,
     dtTelemetryTracing = None, dtTelemetryMetrics = None, dtPodPlacement = None, dtPDBConfig = None,
     dtDeploymentStrategy = None, dtStatus = DomainTemplateStatusActive, dtStatusMessage = [],
     dtK8sGatewayClassName = ''public-loadbalancer'', dtK8sEnvoyProxyName = ''public-loadbalancer-config'', dtCreatedBy = 7\<rparr>"

definition sample_gateways :: db where
  "sample_gateways = sample_store\<lparr>domain_templates := [sample_template]\<rparr>"

definition sample_stream :: "uuid \<Rightarrow> string \<Rightarrow> int \<Rightarrow> Stream" where
  "sample_stream i n port = \<lparr>strID = i, strProjectID = 1, strName = n, strNamespace = FastGatewayNamespace,
     strGatewayTemplateID = 3, strK8sGatewayName = ''str-'' @ n, strK8sGatewayClass = ''public-loadbalancer'',
     strPorts = [\<lparr>spTransport = ''TCP'', spPort = port\<rparr>], strStatus = ''pending'', strStatusMessage = [], strCreatedBy = Some 7\<rparr>"

end
