(* ===== verification/RouteState.thy ===== *)
theory RouteState
  imports Sample
begin

text \<open>
  The route status machine of \<open>src/internal/routestate/routestate.go\<close>: the table of legal
  transitions per call site and \<open>Machine.To\<close>, the only code that assigns \<open>Route.Status\<close>.

  Go mutates the route behind a pointer; here \<open>To\<close> returns the route the caller holds
  afterwards. On an error of the repository the caller's route already has the new status
  while the row does not; no caller uses the route after an error, so \<open>To\<close> returns it on
  success only.
\<close>

section \<open>Definitions\<close>

fun legalTransitions :: "TransitionSite \<Rightarrow> (RouteStatus \<times> RouteStatus list) list option" where
  "legalTransitions SiteRouteCreateFastPath = Some
     [(RouteStatusPendingCreate, [RouteStatusApproved])]"
| "legalTransitions SiteRouteUpdate = Some
     [(RouteStatusPendingCreate, [RouteStatusPendingUpdate]),
      (RouteStatusPendingDelete, [RouteStatusPendingUpdate]),
      (RouteStatusApproved, [RouteStatusPendingUpdate]),
      (RouteStatusActive, [RouteStatusPendingUpdate]),
      (RouteStatusRejected, [RouteStatusPendingUpdate]),
      (RouteStatusPendingDeploy, [RouteStatusPendingUpdate])]"
| "legalTransitions SiteRouteUpdateFastPath = Some
     [(RouteStatusPendingUpdate, [RouteStatusPendingDeploy])]"
| "legalTransitions SiteRouteDelete = Some
     [(RouteStatusPendingCreate, [RouteStatusPendingDelete]),
      (RouteStatusPendingUpdate, [RouteStatusPendingDelete]),
      (RouteStatusApproved, [RouteStatusPendingDelete]),
      (RouteStatusActive, [RouteStatusPendingDelete]),
      (RouteStatusRejected, [RouteStatusPendingDelete]),
      (RouteStatusPendingDeploy, [RouteStatusPendingDelete])]"
| "legalTransitions SiteRouteDeleteFastPath = Some
     [(RouteStatusPendingDelete, [RouteStatusPendingDeploy])]"
| "legalTransitions SiteApprovalApproved = Some
     [(RouteStatusPendingCreate, [RouteStatusApproved]),
      (RouteStatusPendingUpdate, [RouteStatusPendingDeploy]),
      (RouteStatusPendingDelete, [RouteStatusPendingDeploy])]"
| "legalTransitions SiteApprovalRejected = Some
     [(RouteStatusPendingCreate, [RouteStatusRejected]),
      (RouteStatusPendingUpdate, [RouteStatusActive]),
      (RouteStatusPendingDelete, [RouteStatusActive])]"
| "legalTransitions SiteApprovalCancelled = Some
     [(RouteStatusPendingUpdate, [RouteStatusActive]),
      (RouteStatusPendingDelete, [RouteStatusActive])]"
| "legalTransitions SiteAttachFromRoute = Some
     [(RouteStatusActive, [RouteStatusPendingDeploy]),
      (RouteStatusApproved, [RouteStatusPendingDeploy]),
      (RouteStatusRejected, [RouteStatusPendingDeploy]),
      (RouteStatusPendingCreate, [RouteStatusPendingDeploy]),
      (RouteStatusPendingUpdate, [RouteStatusPendingDeploy]),
      (RouteStatusPendingDelete, [RouteStatusPendingDeploy])]"
| "legalTransitions SiteAttachFromClient = Some
     [(RouteStatusActive, [RouteStatusPendingDeploy]),
      (RouteStatusApproved, [RouteStatusPendingDeploy]),
      (RouteStatusRejected, [RouteStatusPendingDeploy]),
      (RouteStatusPendingCreate, [RouteStatusPendingDeploy]),
      (RouteStatusPendingUpdate, [RouteStatusPendingDeploy]),
      (RouteStatusPendingDelete, [RouteStatusPendingDeploy])]"
| "legalTransitions SiteRequestDetach = Some
     [(RouteStatusActive, [RouteStatusPendingDeploy]),
      (RouteStatusPendingUpdate, [RouteStatusPendingDeploy]),
      (RouteStatusPendingDelete, [RouteStatusPendingDeploy])]"
| "legalTransitions SiteAttachmentApproved = Some
     [(RouteStatusActive, [RouteStatusPendingDeploy])]"
| "legalTransitions SiteClientCascade = Some
     [(RouteStatusActive, [RouteStatusPendingDeploy])]"
| "legalTransitions SiteDeploy = Some
     [(RouteStatusApproved, [RouteStatusActive]),
      (RouteStatusPendingDeploy, [RouteStatusActive])]"
| "legalTransitions (SiteOther s) = None"

definition legal :: "TransitionSite \<Rightarrow> RouteStatus \<Rightarrow> RouteStatus \<Rightarrow> bool" where
  "legal site from to \<longleftrightarrow>
     (case legalTransitions site of None \<Rightarrow> False
      | Some tab \<Rightarrow> (case map_of tab from of None \<Rightarrow> False | Some allowed \<Rightarrow> to \<in> set allowed))"

definition To :: "TransitionSite \<Rightarrow> Route \<Rightarrow> RouteStatus \<Rightarrow> Route m" where
  "To site route next =
     (if rtStatus route = next then ret route
      else case legalTransitions site of
        None \<Rightarrow> throw (Msg ''route state: unknown transition site %s (route %s, %s)'')
      | Some byStatus \<Rightarrow>
          (case map_of byStatus (rtStatus route) of
            None \<Rightarrow> throw (Msg ''route state: no transitions defined from %q at site %s (route %s, %s)'')
          | Some allowed \<Rightarrow>
              if list_ex (\<lambda>candidate. candidate = next) allowed
              then bind (RouteRepo_Update (route\<lparr>rtStatus := next\<rparr>))
                     (\<lambda>_. ret (SyncListenerPort (route\<lparr>rtStatus := next\<rparr>)))
              else throw (Msg ''route state: illegal transition %q -> %q at site %s (route %s, %s)'')))"

text \<open>The steps of a route's status, over every site.\<close>

inductive status_step :: "TransitionSite \<Rightarrow> RouteStatus \<Rightarrow> RouteStatus \<Rightarrow> bool" where
  stay: "status_step site s s"
| move: "legal site s t \<Longrightarrow> status_step site s t"

inductive_cases status_stepE: "status_step site s t"

text \<open>Statuses reachable from a start by the given sites.\<close>

inductive status_reach :: "TransitionSite set \<Rightarrow> RouteStatus \<Rightarrow> RouteStatus \<Rightarrow> bool" for S s where
  start: "status_reach S s s"
| more: "status_reach S s t \<Longrightarrow> site \<in> S \<Longrightarrow> status_step site t u \<Longrightarrow> status_reach S s u"

section \<open>Lemmas\<close>

lemma legal_active_sites:
  "legal site from RouteStatusActive \<Longrightarrow>
   site = SiteDeploy \<and> from \<in> {RouteStatusApproved, RouteStatusPendingDeploy} \<or>
   site \<in> {SiteApprovalRejected, SiteApprovalCancelled} \<and> from \<in> {RouteStatusPendingUpdate, RouteStatusPendingDelete}"
  by (cases site; cases "from") (simp_all add: legal_def)

lemma legal_pending_deploy_leaves:
  "legal site RouteStatusPendingDeploy to \<Longrightarrow>
   (site, to) \<in> {(SiteRouteUpdate, RouteStatusPendingUpdate), (SiteRouteDelete, RouteStatusPendingDelete),
     (SiteDeploy, RouteStatusActive)}"
  by (cases site; cases to) (simp_all add: legal_def)

lemma legal_to_pending_create: "\<not> legal site from RouteStatusPendingCreate"
  by (cases site; cases "from") (simp_all add: legal_def)

lemma legal_to_rejected: "legal site from RouteStatusRejected \<Longrightarrow>
    site = SiteApprovalRejected \<and> from = RouteStatusPendingCreate"
  by (cases site; cases "from") (simp_all add: legal_def)

lemma legal_to_approved: "legal site from RouteStatusApproved \<Longrightarrow>
    site \<in> {SiteRouteCreateFastPath, SiteApprovalApproved} \<and> from = RouteStatusPendingCreate"
  by (cases site; cases "from") (simp_all add: legal_def)

lemma legal_irrefl: "\<not> legal site s s"
  by (cases site; cases s) (simp_all add: legal_def)

text \<open>\<open>To\<close> as a decision: nothing, one write, or a refusal before any write.\<close>

lemma To_noop: "rtStatus r = next \<Longrightarrow> To site r next s = (Inr r, s)"
  by (simp add: To_def)

lemma To_legal:
  "rtStatus r \<noteq> next \<Longrightarrow> legal site (rtStatus r) next \<Longrightarrow>
   To site r next = bind (RouteRepo_Update (r\<lparr>rtStatus := next\<rparr>))
      (\<lambda>_. ret (SyncListenerPort (r\<lparr>rtStatus := next\<rparr>)))"
  by (auto simp: To_def legal_def list_ex_iff split: option.splits)

lemma To_illegal:
  "rtStatus r \<noteq> next \<Longrightarrow> \<not> legal site (rtStatus r) next \<Longrightarrow> \<exists>f. To site r next s = (Inl (Msg f), s)"
  by (auto simp: To_def legal_def list_ex_iff split: option.splits)

lemma route_save_Inr:
  "route_save r d = Inr d' \<Longrightarrow> d' = d\<lparr>routes := row_save rtID r (routes d)\<rparr>"
  by (simp add: route_save_def split: if_splits)

lemma run_RouteRepo_Update:
  "RouteRepo_Update r (d, fs) = (Inr (), (d', fs')) \<Longrightarrow>
   d' = d\<lparr>routes := row_save rtID (SyncListenerPort r) (routes d)\<rparr>"
  by (auto simp: RouteRepo_Update_def updates_def call_def dest: route_save_Inr
      split: list.splits if_splits sum.splits)

lemma run_RouteRepo_Update_error:
  "RouteRepo_Update r (d, fs) = (Inl e, (d', fs')) \<Longrightarrow> d' = d"
  by (auto simp: RouteRepo_Update_def updates_def call_def split: list.splits if_splits sum.splits)

text \<open>Whatever \<open>To\<close> does, only the row of its route can change, and only on success.\<close>

lemma run_To:
  assumes "To site r next (d, fs) = (res, (d', fs'))"
  shows "(case res of
      Inl _ \<Rightarrow> d' = d
    | Inr r' \<Rightarrow> rtStatus r' = next \<and>
        (rtStatus r = next \<and> r' = r \<and> d' = d \<or>
         legal site (rtStatus r) next \<and> r' = SyncListenerPort (r\<lparr>rtStatus := next\<rparr>) \<and>
         d' = d\<lparr>routes := row_save rtID r' (routes d)\<rparr>))"
proof (cases "rtStatus r = next")
  case True
  then show ?thesis using assms by (auto simp: To_noop)
next
  case moved: False
  show ?thesis
  proof (cases "legal site (rtStatus r) next")
    case False
    then show ?thesis using assms To_illegal [OF moved False, of "(d, fs)"] by auto
  next
    case True
    then show ?thesis
    using assms moved
    by (auto simp: To_legal bind_def dest: run_RouteRepo_Update run_RouteRepo_Update_error
        split: prod.splits sum.splits)
  qed
qed

lemma hoare_To [wp]:
  "hoare (\<lambda>d. (\<forall>e. E e d) \<and> (rtStatus r = next \<longrightarrow> Q r d) \<and>
      (legal site (rtStatus r) next \<longrightarrow> (\<forall>r'. r' = SyncListenerPort (r\<lparr>rtStatus := next\<rparr>) \<longrightarrow>
          Q r' (d\<lparr>routes := row_save rtID r' (routes d)\<rparr>))))
     (To site r next) Q E"
  by (rule hoareI; drule run_To) auto

lemma keeps_RouteRepo_Update:
  "(\<And>d. I d \<Longrightarrow> I (d\<lparr>routes := row_save rtID (SyncListenerPort r) (routes d)\<rparr>)) \<Longrightarrow> keeps I (RouteRepo_Update r)"
  unfolding RouteRepo_Update_def by (rule keeps_updates) (auto dest: route_save_Inr)

lemma keeps_To:
  assumes "\<And>d r. I d \<Longrightarrow> I (d\<lparr>routes := row_save rtID r (routes d)\<rparr>)"
  shows "keeps I (To site r next)"
  unfolding To_def
  by (intro keeps_if keeps_case_option keeps_bind keeps_ret keeps_throw keeps_RouteRepo_Update assms)

lemma legal_imp_step: "status_step site s t \<longleftrightarrow> s = t \<or> legal site s t"
  by (auto intro: status_step.intros elim: status_stepE)

section \<open>Properties\<close>

lemma step_into_active:
  "status_step site s RouteStatusActive \<Longrightarrow> s \<noteq> RouteStatusActive \<Longrightarrow>
   site \<in> {SiteDeploy, SiteApprovalRejected, SiteApprovalCancelled}"
  by (auto simp: legal_imp_step dest: legal_active_sites)

text \<open>Without faults, a transition is decided by the table: the same status is a no-op; a legal change writes
  the route with its listener port synchronised, unless a constraint of the table refuses the row; anything else is
  an error that leaves the store alone.\<close>

theorem To_decides:
  "if rtStatus r = next then To site r next (d, []) = (Inr r, (d, []))
   else if legal site (rtStatus r) next
   then To site r next (d, []) =
     (case route_save (SyncListenerPort (r\<lparr>rtStatus := next\<rparr>)) d of
        Inl e \<Rightarrow> (Inl e, (d, []))
      | Inr d' \<Rightarrow> (Inr (SyncListenerPort (r\<lparr>rtStatus := next\<rparr>)), (d', [])))
   else \<exists>f. To site r next (d, []) = (Inl (Msg f), (d, []))"
  using To_illegal [of r "next" site "(d, [])"]
  by (auto simp: To_noop To_legal RouteRepo_Update_def bind_def split: sum.splits)

text \<open>C4. Under every plan of faults, a transition that fails has written nothing, and one that succeeds was
  legal for its site and has changed the row of its own route and nothing else in the store.\<close>

theorem To_frame:
  assumes "To site r next (d, fs) = (res, (d', fs'))"
  shows "case res of
      Inl _ \<Rightarrow> d' = d
    | Inr r' \<Rightarrow> rtStatus r' = next \<and>
        (rtStatus r = next \<and> d' = d \<or>
         legal site (rtStatus r) next \<and> row_get rtID (rtID r) (routes d') = Some r' \<and>
         (\<forall>i. i \<noteq> rtID r \<longrightarrow> row_get rtID i (routes d') = row_get rtID i (routes d)) \<and>
         d'\<lparr>routes := routes d\<rparr> = d)"
proof (cases res)
  case (Inr r')
  consider "rtStatus r' = next" "rtStatus r = next" "d' = d"
    | "legal site (rtStatus r) next" "r' = SyncListenerPort (r\<lparr>rtStatus := next\<rparr>)"
      "d' = d\<lparr>routes := row_save rtID r' (routes d)\<rparr>"
    using run_To [OF assms] Inr by auto
  then show ?thesis by cases (simp_all add: Inr)
qed (use run_To [OF assms] in simp)

theorem To_frame_witness:
  "fst (To SiteDeploy (sample_route RouteStatusPendingDeploy) RouteStatusActive
     (sample_routes RouteStatusPendingDeploy, [])) \<noteq> Inl ErrDB \<and>
   rtStatus (the (row_get rtID 6 (routes (fst (snd (To SiteDeploy (sample_route RouteStatusPendingDeploy)
     RouteStatusActive (sample_routes RouteStatusPendingDeploy, []))))))) = RouteStatusActive"
proof -
  obtain res d' fs' where run: "To SiteDeploy (sample_route RouteStatusPendingDeploy) RouteStatusActive
      (sample_routes RouteStatusPendingDeploy, []) = (res, (d', fs'))" by (metis prod.exhaust)
  moreover have "isl (fst (To SiteDeploy (sample_route RouteStatusPendingDeploy) RouteStatusActive
      (sample_routes RouteStatusPendingDeploy, []))) = False" by code_simp
  ultimately have "\<not> isl res" by simp
  then show ?thesis using To_frame [OF run] run
    by (cases res) (auto simp: sample_route_def)
qed

text \<open>A route that was not active becomes active only along a path that contains a deploy, or the rejection
  or cancellation of an approval.\<close>

theorem active_needs_deploy_or_rollback:
  assumes "status_reach S s RouteStatusActive" "s \<noteq> RouteStatusActive"
  shows "S \<inter> {SiteDeploy, SiteApprovalRejected, SiteApprovalCancelled} \<noteq> {}"
proof -
  have "t = RouteStatusActive \<longrightarrow> s \<noteq> RouteStatusActive \<longrightarrow> S \<inter> {SiteDeploy, SiteApprovalRejected, SiteApprovalCancelled} \<noteq> {}"
    if "status_reach S s t" for t
    using that by (induction rule: status_reach.induct) (use step_into_active in blast)+
  then show ?thesis using assms by blast
qed

theorem active_needs_deploy_or_rollback_witness:
  "{SiteDeploy, SiteApprovalApproved} \<inter> {SiteDeploy, SiteApprovalRejected, SiteApprovalCancelled} \<noteq> {}"
proof (rule active_needs_deploy_or_rollback)
  have "status_step SiteApprovalApproved RouteStatusPendingCreate RouteStatusApproved"
    "status_step SiteDeploy RouteStatusApproved RouteStatusActive" by (simp_all add: legal_imp_step legal_def)
  then show "status_reach {SiteDeploy, SiteApprovalApproved} RouteStatusPendingCreate RouteStatusActive"
    by (meson insertI1 insertI2 status_reach.intros)
qed simp

text \<open>C5. A route queued for a redeploy stays queued under attachments, cascades and approvals: only an edit, a
  delete request or the deploy itself takes it out of \<open>pending_deploy\<close>.\<close>

theorem redeploy_not_lost:
  assumes "status_reach S RouteStatusPendingDeploy t" "S \<inter> {SiteRouteUpdate, SiteRouteDelete, SiteDeploy} = {}"
  shows "t = RouteStatusPendingDeploy"
  using assms by (induction rule: status_reach.induct)
    (auto simp: legal_imp_step dest: legal_pending_deploy_leaves)

theorem redeploy_not_lost_witness:
  "{t. status_reach {SiteClientCascade, SiteApprovalRejected} RouteStatusPendingDeploy t} = {RouteStatusPendingDeploy}"
  using redeploy_not_lost [of "{SiteClientCascade, SiteApprovalRejected}"] by (auto intro: status_reach.start)

text \<open>An update of a route that was never deployed, once rejected, leaves the route \<open>active\<close>: the table
  sends every rejected update back to \<open>active\<close>, whatever the status before the update was.\<close>

theorem rejected_update_activates_undeployed:
  "status_reach {SiteRouteUpdate, SiteApprovalRejected} RouteStatusPendingCreate RouteStatusActive"
proof -
  have "status_step SiteRouteUpdate RouteStatusPendingCreate RouteStatusPendingUpdate"
    "status_step SiteApprovalRejected RouteStatusPendingUpdate RouteStatusActive" by (simp_all add: legal_imp_step legal_def)
  then show ?thesis by (meson insertI1 insertI2 status_reach.intros)
qed

end
