(* ===== verification/TeamAccess.thy ===== *)
theory TeamAccess
  imports Sample
begin

text \<open>
  Roles of a team (\<open>src/internal/models/team.go\<close>) and the permission checks of
  \<open>src/internal/middleware/permissions.go\<close>. A check is code that reads the store and
  answers a boolean; a lookup that fails is folded into a denial. The middleware that
  turns an answer into an HTTP response is modelled up to the status code.
\<close>

section \<open>Definitions\<close>

text \<open>
  \<open>GetEffectivePermissions\<close>: the union of the presets, sorted. Go compares the strings
  bytewise.
\<close>

fun string_less :: "string \<Rightarrow> string \<Rightarrow> bool" where
  "string_less [] [] = False"
| "string_less [] (_ # _) = True"
| "string_less (_ # _) [] = False"
| "string_less (a # as) (b # bs) =
     ((of_char a :: nat) < of_char b \<or> a = b \<and> string_less as bs)"

fun insert_string :: "string \<Rightarrow> string list \<Rightarrow> string list" where
  "insert_string s [] = [s]"
| "insert_string s (t # ts) = (if string_less t s then t # insert_string s ts else s # t # ts)"

definition sort_strings :: "string list \<Rightarrow> string list" where
  "sort_strings ss = foldr insert_string ss []"

definition GetEffectivePermissions :: "ProjectTeamRole \<Rightarrow> Permission list" where
  "GetEffectivePermissions ptr = sort_strings (remdups (concat (map ppPermissions (ptrPresets ptr))))"

definition HasPermission_role :: "ProjectTeamRole \<Rightarrow> Permission \<Rightarrow> bool" where
  "HasPermission_role ptr perm \<longleftrightarrow> list_ex (\<lambda>p. p = perm) (GetEffectivePermissions ptr)"

text \<open>A lookup whose error is a denial.\<close>

definition deny_on_error :: "bool m \<Rightarrow> bool m" where
  "deny_on_error c = bind (attempt c) (\<lambda>r. ret (case r of Inl _ \<Rightarrow> False | Inr b \<Rightarrow> b))"

definition IsOwner :: "User \<Rightarrow> bool" where
  "IsOwner user \<longleftrightarrow> usrRole user = UserRoleOwner"

definition IsProjectAdmin :: "uuid \<Rightarrow> uuid \<Rightarrow> bool m" where
  "IsProjectAdmin projectID userID = deny_on_error (ProjectRepo_IsAdmin projectID userID)"

definition CanAccessTeamResource :: "uuid \<Rightarrow> User \<Rightarrow> bool m" where
  "CanAccessTeamResource tid user =
     (if IsOwner user then ret True else deny_on_error (TeamRepo_IsMember tid (usrID user)))"

definition HasTeamPermission :: "uuid \<Rightarrow> User \<Rightarrow> Permission \<Rightarrow> bool m" where
  "HasTeamPermission projectID user perm =
     (if IsOwner user then ret True
      else deny_on_error (TeamRepo_HasPermissionInProject projectID (usrID user) perm))"

definition HasPermission :: "uuid \<Rightarrow> User \<Rightarrow> Permission \<Rightarrow> bool m" where
  "HasPermission projectID user perm =
     (if IsOwner user then ret True
      else bind (IsProjectAdmin projectID (usrID user)) (\<lambda>admin.
        if admin then ret True
        else deny_on_error (TeamRepo_HasPermissionInProject projectID (usrID user) perm)))"

definition HasProjectAccess :: "uuid \<Rightarrow> User \<Rightarrow> bool m" where
  "HasProjectAccess projectID user =
     (if IsOwner user then ret True
      else bind (IsProjectAdmin projectID (usrID user)) (\<lambda>admin.
        if admin then ret True
        else deny_on_error (bind (TeamRepo_GetUserTeamsInProject projectID (usrID user))
               (\<lambda>ts. ret (ts \<noteq> [])))))"

definition CanManageDomainTemplates :: "uuid \<Rightarrow> User \<Rightarrow> bool m" where
  "CanManageDomainTemplates projectID user =
     (if IsOwner user then ret True else IsProjectAdmin projectID (usrID user))"

text \<open>The shape shared by \<open>CanManageDomains\<close>, \<open>CanManageTeams\<close>, \<open>CanViewAudit\<close> and the certificate checks.\<close>

definition admin_or_permission :: "Permission \<Rightarrow> uuid \<Rightarrow> User \<Rightarrow> bool m" where
  "admin_or_permission perm projectID user =
     (if IsOwner user then ret True
      else bind (IsProjectAdmin projectID (usrID user)) (\<lambda>admin.
        if admin then ret True else HasPermission projectID user perm))"

definition CanManageDomains :: "uuid \<Rightarrow> User \<Rightarrow> bool m" where
  "CanManageDomains = admin_or_permission PermDomainDelete"

definition CanViewDomains :: "uuid \<Rightarrow> User \<Rightarrow> bool m" where
  "CanViewDomains = HasProjectAccess"

definition CanManageTeams :: "uuid \<Rightarrow> User \<Rightarrow> bool m" where
  "CanManageTeams = admin_or_permission PermProjectTeams"

definition CanCreateRoutes :: "uuid \<Rightarrow> User \<Rightarrow> bool m" where
  "CanCreateRoutes projectID user = HasPermission projectID user PermRouteCreate"

definition CanApproveRoutes :: "uuid \<Rightarrow> User \<Rightarrow> bool m" where
  "CanApproveRoutes projectID user = HasPermission projectID user PermRouteApprove"

definition CanViewRoutes :: "uuid \<Rightarrow> User \<Rightarrow> bool m" where
  "CanViewRoutes = HasProjectAccess"

definition CanViewAudit :: "uuid \<Rightarrow> User \<Rightarrow> bool m" where
  "CanViewAudit = admin_or_permission PermAuditView"

definition CanCreateCertificates :: "uuid \<Rightarrow> User \<Rightarrow> bool m" where
  "CanCreateCertificates = admin_or_permission PermCertificateCreate"

definition CanManageCertificates :: "uuid \<Rightarrow> User \<Rightarrow> bool m" where
  "CanManageCertificates = admin_or_permission PermCertificateDelete"

definition CanEditCertificates :: "uuid \<Rightarrow> User \<Rightarrow> bool m" where
  "CanEditCertificates = admin_or_permission PermCertificateEdit"

definition CanViewCertificates :: "uuid \<Rightarrow> User \<Rightarrow> bool m" where
  "CanViewCertificates = admin_or_permission PermCertificateView"

record ProjectPermissions =
  ppsCanManageDomainTemplates :: bool
  ppsCanManageDomains :: bool
  ppsCanManageTeams :: bool
  ppsCanCreateRoutes :: bool
  ppsCanApproveRoutes :: bool
  ppsCanViewAudit :: bool
  ppsPermissions :: "string list"
  ppsIsOwner :: bool
  ppsIsProjectAdmin :: bool

definition GetProjectPermissions :: "uuid \<Rightarrow> User \<Rightarrow> ProjectPermissions m" where
  "GetProjectPermissions projectID user =
     bind (IsProjectAdmin projectID (usrID user)) (\<lambda>isProjectAdmin.
     bind (if IsOwner user \<or> isProjectAdmin then ret AllPermissions
           else bind (attempt (TeamRepo_GetUserPermissionsInProject projectID (usrID user)))
                  (\<lambda>r. ret (case r of Inl _ \<Rightarrow> [] | Inr ps \<Rightarrow> ps))) (\<lambda>perms.
     let canManageAll = IsOwner user \<or> isProjectAdmin in
     ret \<lparr>ppsCanManageDomainTemplates = canManageAll,
          ppsCanManageDomains = (canManageAll \<or> PermDomainDelete \<in> set perms),
          ppsCanManageTeams = (canManageAll \<or> PermProjectTeams \<in> set perms),
          ppsCanCreateRoutes = (canManageAll \<or> PermRouteCreate \<in> set perms),
          ppsCanApproveRoutes = (canManageAll \<or> PermRouteApprove \<in> set perms),
          ppsCanViewAudit = (canManageAll \<or> PermAuditView \<in> set perms),
          ppsPermissions = perms,
          ppsIsOwner = IsOwner user,
          ppsIsProjectAdmin = isProjectAdmin\<rparr>))"

text \<open>
  A \<open>Require...\<close> middleware: no user in the context is 401, a project id that does not
  parse is 400, a failed check is 403; otherwise the next handler runs.
\<close>

datatype gin_result = Abort int | Next

definition require_check :: "(uuid \<Rightarrow> User \<Rightarrow> bool m) \<Rightarrow> User option \<Rightarrow> uuid option \<Rightarrow> gin_result m" where
  "require_check check user projectID =
     (case user of None \<Rightarrow> ret (Abort 401)
      | Some u \<Rightarrow> (case projectID of None \<Rightarrow> ret (Abort 400)
          | Some p \<Rightarrow> bind (check p u) (\<lambda>ok. ret (if ok then Next else Abort 403))))"

definition RequireProjectAccess :: "User option \<Rightarrow> uuid option \<Rightarrow> gin_result m" where
  "RequireProjectAccess = require_check HasProjectAccess"

definition RequireDomainTemplateReadAccess :: "User option \<Rightarrow> uuid option \<Rightarrow> gin_result m" where
  "RequireDomainTemplateReadAccess = require_check (\<lambda>p u.
     bind (CanManageDomainTemplates p u) (\<lambda>b. if b then ret True else CanManageDomains p u))"

definition RequireDomainTemplateAccess :: "User option \<Rightarrow> uuid option \<Rightarrow> gin_result m" where
  "RequireDomainTemplateAccess = require_check CanManageDomainTemplates"

definition RequireTeamAccess :: "User option \<Rightarrow> uuid option \<Rightarrow> gin_result m" where
  "RequireTeamAccess = require_check CanManageTeams"

definition RequireApprovalAccess :: "User option \<Rightarrow> uuid option \<Rightarrow> gin_result m" where
  "RequireApprovalAccess = require_check HasProjectAccess"

definition RequireAdminAccess :: "User option \<Rightarrow> uuid option \<Rightarrow> gin_result m" where
  "RequireAdminAccess = require_check CanManageDomainTemplates"

definition RequireAuditAccess :: "User option \<Rightarrow> uuid option \<Rightarrow> gin_result m" where
  "RequireAuditAccess = require_check CanViewAudit"

text \<open>What the checks are meant to grant: an owner, a project admin, or a holder through a team.\<close>

definition granted :: "db \<Rightarrow> uuid \<Rightarrow> User \<Rightarrow> Permission \<Rightarrow> bool" where
  "granted d p u perm \<longleftrightarrow> IsOwner u \<or> is_admin d p (usrID u) \<or> has_permission d p (usrID u) perm"

section \<open>Lemmas\<close>

lemma set_insert_string [simp]: "set (insert_string s ts) = insert s (set ts)"
  by (induction ts) auto

lemma set_sort_strings [simp]: "set (sort_strings ss) = set ss"
  by (induction ss) (auto simp: sort_strings_def)

lemma distinct_insert_string: "s \<notin> set ts \<Longrightarrow> distinct ts \<Longrightarrow> distinct (insert_string s ts)"
  by (induction ts) auto

lemma distinct_sort_strings: "distinct ss \<Longrightarrow> distinct (sort_strings ss)"
proof (induction ss)
  case (Cons a ss)
  then show ?case
    using set_sort_strings [of ss] by (simp add: sort_strings_def distinct_insert_string)
qed (simp add: sort_strings_def)

lemma string_less_trans: "string_less a b \<Longrightarrow> string_less b c \<Longrightarrow> string_less a c"
  by (induction a b arbitrary: c rule: string_less.induct) (case_tac c; fastforce)+

lemma string_less_linear: "string_less a b \<or> a = b \<or> string_less b a"
  by (induction a b rule: string_less.induct) (auto simp: nat_neq_iff dest: of_char_eq_iff [THEN iffD1, rotated])

lemma string_less_irrefl [simp]: "\<not> string_less a a"
  by (induction a) auto

lemma insert_string_sorted:
  "sorted_wrt string_less ts \<Longrightarrow> s \<notin> set ts \<Longrightarrow> sorted_wrt string_less (insert_string s ts)"
proof (induction ts)
  case (Cons t ts)
  then show ?case
    using string_less_linear [of s t] by (auto intro: string_less_trans)
qed simp

lemma sort_strings_sorted: "distinct ss \<Longrightarrow> sorted_wrt string_less (sort_strings ss)"
proof (induction ss)
  case (Cons a ss)
  then show ?case
    using set_sort_strings [of ss] by (simp add: sort_strings_def insert_string_sorted)
qed (simp add: sort_strings_def)

lemma run_deny: "c s = (r, s') \<Longrightarrow> deny_on_error c s = (Inr (case r of Inl _ \<Rightarrow> False | Inr b \<Rightarrow> b), s')"
  by (simp add: deny_on_error_def bind_def attempt_def)

text \<open>A denied-on-error query of a boolean: the answer, or \<open>False\<close> under a fault.\<close>

lemma run_deny_query:
  "\<exists>b fs'. deny_on_error (query (\<lambda>d. Inr (f d))) (d, fs) = (Inr b, (d, fs')) \<and> (b \<longrightarrow> f d) \<and> (fs = [] \<longrightarrow> b = f d \<and> fs' = [])"
  by (auto simp: deny_on_error_def bind_def attempt_def query_def reads_def call_def split: list.splits)

lemma run_attempt_query:
  "attempt (query f) (d, fs) = (case fs of [] \<Rightarrow> (Inr (f d), (d, []))
     | b # bs \<Rightarrow> (Inr (if b then Inl ErrDB else f d), (d, bs)))"
  by (auto simp: attempt_def query_def reads_def call_def split: list.splits)

lemma GetEffectivePermissions_set:
  "set (GetEffectivePermissions ptr) = (\<Union>q \<in> set (ptrPresets ptr). set (ppPermissions q))"
  by (auto simp: GetEffectivePermissions_def)

section \<open>Properties\<close>

text \<open>A check that is exact without faults and never grants more under them.\<close>
definition decides :: "bool m \<Rightarrow> (db \<Rightarrow> bool) \<Rightarrow> bool" where
  "decides c P \<longleftrightarrow> (\<forall>d fs. \<exists>b fs'. c (d, fs) = (Inr b, (d, fs')) \<and> (b \<longrightarrow> P d) \<and> (fs = [] \<longrightarrow> b = P d \<and> fs' = []))"

lemma decidesD: "decides c P \<Longrightarrow> \<exists>b fs'. c (d, fs) = (Inr b, (d, fs')) \<and> (b \<longrightarrow> P d) \<and> (fs = [] \<longrightarrow> b = P d \<and> fs' = [])"
  unfolding decides_def by blast

lemma decides_True: "P = (\<lambda>_. True) \<Longrightarrow> decides (ret True) P"
  unfolding decides_def by (intro allI exI [of _ True]) auto

lemma decides_deny: "decides (deny_on_error (query (\<lambda>d. Inr (f d)))) f"
  unfolding decides_def using run_deny_query by blast

lemma decides_or:
  assumes "decides c P" "decides c' P'"
  shows "decides (bind c (\<lambda>b. if b then ret True else c')) (\<lambda>d. P d \<or> P' d)"
  unfolding decides_def
proof (intro allI)
  fix d fs
  obtain b fs1 where c: "c (d, fs) = (Inr b, (d, fs1))" "b \<longrightarrow> P d" "fs = [] \<longrightarrow> b = P d \<and> fs1 = []"
    using decidesD [OF assms(1)] by blast
  obtain b' fs2 where c': "c' (d, fs1) = (Inr b', (d, fs2))" "b' \<longrightarrow> P' d" "fs1 = [] \<longrightarrow> b' = P' d \<and> fs2 = []"
    using decidesD [OF assms(2)] by blast
  show "\<exists>x fs'. bind c (\<lambda>b. if b then ret True else c') (d, fs) = (Inr x, (d, fs')) \<and> (x \<longrightarrow> P d \<or> P' d) \<and>
      (fs = [] \<longrightarrow> x = (P d \<or> P' d) \<and> fs' = [])"
    using c c' by (cases b) (auto simp: bind_def)
qed

lemma decides_IsProjectAdmin: "decides (IsProjectAdmin p u) (\<lambda>d. is_admin d p u)"
  unfolding IsProjectAdmin_def ProjectRepo_IsAdmin_def by (rule decides_deny)

lemma decides_HasPermission: "decides (HasPermission p u perm) (\<lambda>d. granted d p u perm)"
  using decides_or [OF decides_IsProjectAdmin decides_deny, of p "usrID u" "\<lambda>d. has_permission d p (usrID u) perm"]
  unfolding HasPermission_def granted_def TeamRepo_HasPermissionInProject_def
  by (cases "IsOwner u") (simp_all add: decides_True)

lemma decides_cong: "decides c P \<Longrightarrow> (\<And>d. P d = P' d) \<Longrightarrow> decides c P'"
  by (simp add: decides_def)

lemma decides_admin_or: "decides (admin_or_permission perm p u) (\<lambda>d. granted d p u perm)"
proof (cases "IsOwner u")
  case False
  have "decides (admin_or_permission perm p u) (\<lambda>d. is_admin d p (usrID u) \<or> granted d p u perm)"
    using decides_or [OF decides_IsProjectAdmin decides_HasPermission] False by (simp add: admin_or_permission_def)
  then show ?thesis by (rule decides_cong) (auto simp: granted_def)
qed (simp add: admin_or_permission_def granted_def decides_True)

lemma deny_roles: "deny_on_error (bind (query (\<lambda>d. Inr (f d))) (\<lambda>ts. ret (ts \<noteq> []))) = deny_on_error (query (\<lambda>d. Inr (f d \<noteq> [])))"
  by (rule ext) (auto simp: deny_on_error_def bind_def attempt_def query_def reads_def call_def split: list.splits prod.splits)

lemma decides_HasProjectAccess:
  "decides (HasProjectAccess p u) (\<lambda>d. IsOwner u \<or> is_admin d p (usrID u) \<or> user_roles d p (usrID u) \<noteq> [])"
  using decides_or [OF decides_IsProjectAdmin decides_deny, of p "usrID u" "\<lambda>d. user_roles d p (usrID u) \<noteq> []"]
  unfolding HasProjectAccess_def TeamRepo_GetUserTeamsInProject_def deny_roles
  by (cases "IsOwner u") (simp_all add: decides_True)

text \<open>C10. A permission check always answers and never writes. Without faults it answers whether the permission
  is granted; under faults it may deny but never grants what is not granted.\<close>

theorem HasPermission_fail_closed:
  "\<exists>b fs'. HasPermission p u perm (d, fs) = (Inr b, (d, fs')) \<and>
     (if fs = [] then b = granted d p u perm else b \<le> granted d p u perm)"
  using decidesD [OF decides_HasPermission, of p u perm d fs] by auto

text \<open>The contract of a check for one permission.\<close>

locale permission_check =
  fixes check :: "uuid \<Rightarrow> User \<Rightarrow> bool m" and perm :: Permission
  assumes decides: "decides (check p u) (\<lambda>d. granted d p u perm)"
begin

lemma exact: "check p u (d, []) = (Inr (granted d p u perm), (d, []))"
  using decidesD [OF decides, of p u d "[]"] by auto

lemma middleware:
  assumes "require_check check user project (d, fs) = (res, (d', fs'))"
  shows "d' = d \<and> (\<exists>g. res = Inr g \<and> (g = Next \<longrightarrow> (\<exists>u p. user = Some u \<and> project = Some p \<and> granted d p u perm)) \<and>
     (fs = [] \<longrightarrow> g = (case user of None \<Rightarrow> Abort 401 | Some u \<Rightarrow> (case project of None \<Rightarrow> Abort 400
        | Some p \<Rightarrow> if granted d p u perm then Next else Abort 403))))"
proof (cases "user = None \<or> project = None")
  case False
  then obtain u p where up: "user = Some u" "project = Some p" by auto
  then show ?thesis using assms decidesD [OF decides, of p u d fs]
    by (auto simp: require_check_def bind_def)
qed (use assms in \<open>auto simp: require_check_def split: option.splits\<close>)

end

interpretation domains_check: permission_check CanManageDomains PermDomainDelete
  by unfold_locales (simp add: CanManageDomains_def decides_admin_or)

interpretation teams_check: permission_check CanManageTeams PermProjectTeams
  by unfold_locales (simp add: CanManageTeams_def decides_admin_or)

interpretation create_check: permission_check CanCreateRoutes PermRouteCreate
  by unfold_locales (simp add: CanCreateRoutes_def decides_HasPermission)

interpretation approve_check: permission_check CanApproveRoutes PermRouteApprove
  by unfold_locales (simp add: CanApproveRoutes_def decides_HasPermission)

interpretation audit_check: permission_check CanViewAudit PermAuditView
  by unfold_locales (simp add: CanViewAudit_def decides_admin_or)

interpretation cert_create_check: permission_check CanCreateCertificates PermCertificateCreate
  by unfold_locales (simp add: CanCreateCertificates_def decides_admin_or)

interpretation cert_manage_check: permission_check CanManageCertificates PermCertificateDelete
  by unfold_locales (simp add: CanManageCertificates_def decides_admin_or)

interpretation cert_edit_check: permission_check CanEditCertificates PermCertificateEdit
  by unfold_locales (simp add: CanEditCertificates_def decides_admin_or)

interpretation cert_view_check: permission_check CanViewCertificates PermCertificateView
  by unfold_locales (simp add: CanViewCertificates_def decides_admin_or)

lemmas permission_checks = domains_check.decides teams_check.decides create_check.decides approve_check.decides
  audit_check.decides cert_create_check.decides cert_manage_check.decides cert_edit_check.decides cert_view_check.decides

text \<open>The checks with the permission each one is for.\<close>

definition gated :: "(Permission \<times> (uuid \<Rightarrow> User \<Rightarrow> bool m)) list" where
  "gated = [(PermDomainDelete, CanManageDomains), (PermProjectTeams, CanManageTeams), (PermRouteCreate, CanCreateRoutes),
     (PermRouteApprove, CanApproveRoutes), (PermAuditView, CanViewAudit), (PermCertificateCreate, CanCreateCertificates),
     (PermCertificateDelete, CanManageCertificates), (PermCertificateEdit, CanEditCertificates),
     (PermCertificateView, CanViewCertificates)]"

text \<open>Every permission check of the middleware decides its own permission: exactly without faults, and
  with no more than what is granted under any plan of faults.\<close>

theorem checks_grant_their_permission:
  assumes "(perm, check) \<in> set gated"
  shows "\<exists>b fs'. check p u (d, fs) = (Inr b, (d, fs')) \<and>
     (if fs = [] then b = granted d p u perm else b \<le> granted d p u perm)"
proof -
  have "decides (check p u) (\<lambda>d. granted d p u perm)" using assms by (auto simp: gated_def permission_checks)
  from decidesD [OF this, of d fs] show ?thesis by auto
qed

theorem checks_grant_their_permission_witness:
  "\<exists>b fs'. CanApproveRoutes 1 sample_reviewer (sample_db, []) = (Inr b, (sample_db, fs')) \<and> b"
proof -
  have g: "granted sample_db 1 sample_reviewer PermRouteApprove" by code_simp
  have "(PermRouteApprove, CanApproveRoutes) \<in> set gated" by (simp add: gated_def)
  from checks_grant_their_permission [OF this, of 1 sample_reviewer sample_db "[]"] g show ?thesis by auto
qed

text \<open>The team middleware lets a request through only for an authenticated user on a parsed project with the
  permission, and answers 401, 400 or 403 otherwise.\<close>

theorem team_middleware:
  assumes "RequireTeamAccess user project (d, fs) = (res, (d', fs'))"
  shows "d' = d \<and> (\<exists>g. res = Inr g \<and> (g = Next \<longrightarrow> (\<exists>u p. user = Some u \<and> project = Some p \<and> granted d p u PermProjectTeams)) \<and>
     (fs = [] \<longrightarrow> g = (case user of None \<Rightarrow> Abort 401 | Some u \<Rightarrow> (case project of None \<Rightarrow> Abort 400
        | Some p \<Rightarrow> if granted d p u PermProjectTeams then Next else Abort 403))))"
  using assms unfolding RequireTeamAccess_def by (rule teams_check.middleware)

theorem team_middleware_witness:
  "fst (RequireTeamAccess (Some sample_reviewer) (Some 1) (sample_db, [])) = Inr (Abort 403) \<and>
   \<not> granted sample_db 1 sample_reviewer PermProjectTeams"
proof -
  have "\<not> granted sample_db 1 sample_reviewer PermProjectTeams" by code_simp
  then show ?thesis
    using team_middleware [of "Some sample_reviewer" "Some 1" sample_db "[]"]
    by (cases "RequireTeamAccess (Some sample_reviewer) (Some 1) (sample_db, [])") auto
qed

lemma run_permissions:
  "TeamRepo_GetUserPermissionsInProject p u (d, []) = (Inr (remdups (concat (map (\<lambda>ptr. concat (map ppPermissions (ptrPresets ptr))) (user_roles d p u)))), (d, []))"
  by (simp add: TeamRepo_GetUserPermissionsInProject_def TeamRepo_GetUserTeamsInProject_def bind_def)

lemma run_IsProjectAdmin: "IsProjectAdmin p u (d, []) = (Inr (is_admin d p u), (d, []))"
  using decidesD [OF decides_IsProjectAdmin, of p u d "[]"] by auto

lemma AllPermissions_flags: "{PermDomainDelete, PermProjectTeams, PermRouteCreate, PermRouteApprove, PermAuditView} \<subseteq> set AllPermissions"
  by (simp add: AllPermissions_def)

text \<open>C11. The permission summary sent to the user interface agrees with the checks that guard the requests.\<close>

theorem permissions_agree:
  "\<exists>pp. GetProjectPermissions p u (d, []) = (Inr pp, (d, [])) \<and>
     CanManageDomainTemplates p u (d, []) = (Inr (ppsCanManageDomainTemplates pp), (d, [])) \<and>
     CanManageDomains p u (d, []) = (Inr (ppsCanManageDomains pp), (d, [])) \<and>
     CanManageTeams p u (d, []) = (Inr (ppsCanManageTeams pp), (d, [])) \<and>
     CanCreateRoutes p u (d, []) = (Inr (ppsCanCreateRoutes pp), (d, [])) \<and>
     CanApproveRoutes p u (d, []) = (Inr (ppsCanApproveRoutes pp), (d, [])) \<and>
     CanViewAudit p u (d, []) = (Inr (ppsCanViewAudit pp), (d, []))"
proof -
  note exact = domains_check.exact teams_check.exact create_check.exact approve_check.exact audit_check.exact
  have perms: "perm \<in> set (concat (map (\<lambda>ptr. concat (map ppPermissions (ptrPresets ptr))) (user_roles d p (usrID u)))) \<longleftrightarrow>
      has_permission d p (usrID u) perm" for perm
    by (auto simp: has_permission_iff)
  show ?thesis
    by (auto simp: GetProjectPermissions_def bind_def run_IsProjectAdmin run_permissions attempt_def exact
        granted_def perms CanManageDomainTemplates_def simp del: set_concat set_map)
qed

text \<open>The effective permissions of a role are the union of its presets, sorted and without duplicates, and the
  role has a permission exactly when one of its presets lists it.\<close>

theorem effective_permissions:
  "sorted_wrt string_less (GetEffectivePermissions ptr) \<and> distinct (GetEffectivePermissions ptr) \<and>
   set (GetEffectivePermissions ptr) = (\<Union>q \<in> set (ptrPresets ptr). set (ppPermissions q)) \<and>
   (HasPermission_role ptr perm \<longleftrightarrow> (\<exists>q \<in> set (ptrPresets ptr). perm \<in> set (ppPermissions q)))"
  by (auto simp: GetEffectivePermissions_def HasPermission_role_def list_ex_iff sort_strings_sorted distinct_sort_strings)

end
