(* ===== verification/Approval.thy ===== *)
theory Approval
  imports TeamAccess
begin

text \<open>
  The approval engine of \<open>src/internal/approval\<close> (planning, traversal, the registry of
  completers) and the policy service of \<open>src/internal/services/approval_policy_service.go\<close>.

  A completer is a record of the three callbacks and the optional \<open>CanCancel\<close>; the registry
  is a partial function from entity types, filled by \<open>Register\<close>. The engine holds pointers
  into the approval it read (\<open>findStage\<close> returns \<open>&approval.Stages[i]\<close>), so a change of the
  stage is a change of the approval's own stage list: \<open>set_stage\<close>.
\<close>

section \<open>The registry of completers\<close>

record completer =
  OnApproved :: "Approval \<Rightarrow> unit m"
  OnRejected :: "Approval \<Rightarrow> unit m"
  OnCancelled :: "Approval \<Rightarrow> unit m"
  CanCancel :: "(Approval \<Rightarrow> User \<Rightarrow> bool m) option"

type_synonym completers = "ApprovalEntityType \<Rightarrow> completer option"

definition no_completers :: completers where
  "no_completers = (\<lambda>_. None)"

definition Register :: "ApprovalEntityType \<Rightarrow> completer \<Rightarrow> completers \<Rightarrow> completers" where
  "Register t c cs = cs(t := Some c)"

definition completerFor :: "completers \<Rightarrow> ApprovalEntityType \<Rightarrow> completer m" where
  "completerFor cs t = (case cs t of
     None \<Rightarrow> throw (Msg ''no completer registered for entity type %q'') | Some c \<Rightarrow> ret c)"

section \<open>Planning\<close>

definition resolveTeamScope :: "string \<Rightarrow> uuid \<Rightarrow> uuid \<Rightarrow> uuid option m" where
  "resolveTeamScope scope projectID submittedBy =
     (if scope = ''any'' \<or> scope = [] then ret None
      else if scope = ''submitter_team'' then
        bind (attempt (TeamRepo_GetUserTeamsInProject projectID submittedBy)) (\<lambda>r.
        case r of
          Inl e \<Rightarrow> throw (Wrap ''resolve submitter_team: %w'' e)
        | Inr [] \<Rightarrow> throw (Msg ''resolve submitter_team: submitter is not a member of any team in this project'')
        | Inr (ptr # _) \<Rightarrow> ret (Some (ptrTeamID ptr)))
      else if scope = ''other_team'' then
        bind (attempt (TeamRepo_GetUserTeamsInProject projectID submittedBy)) (\<lambda>r.
        case r of
          Inl e \<Rightarrow> throw (Wrap ''resolve other_team: look up submitter teams: %w'' e)
        | Inr submitterPtrs \<Rightarrow>
            bind (attempt (TeamRepo_ListProjectTeams projectID)) (\<lambda>r'.
            case r' of
              Inl e \<Rightarrow> throw (Wrap ''resolve other_team: list project teams: %w'' e)
            | Inr allPtrs \<Rightarrow>
                ret (map_option ptrTeamID
                  (List.find (\<lambda>ptr. ptrTeamID ptr \<notin> set (map ptrTeamID submitterPtrs)) allPtrs))))
      else throw (Msg ''unknown team_scope: %s''))"

definition new_stage :: "int \<Rightarrow> string \<Rightarrow> uuid option \<Rightarrow> int \<Rightarrow> ApprovalStage" where
  "new_stage order perm team minA =
     \<lparr>stgID = 0, stgApprovalID = 0, stgOrder = order, stgRequiredPermission = perm,
      stgRequiredTeamID = team, stgReviewedBy = None, stgStatus = ApprovalStatusPending,
      stgComment = [], stgMinApprovers = minA\<rparr>"

definition noPolicyFallback :: "ApprovalEntityType \<Rightarrow> ApprovalPolicy option \<Rightarrow> ApprovalStage list m" where
  "noPolicyFallback entity policy =
     (if entity = ApprovalEntityClientAttachment then
        (if policy = None then throw (Msg ''no approval policy found for client_attachment'')
         else throw (Msg ''approval policy has no stages defined''))
      else if entity = ApprovalEntityCertificate then ret [new_stage 1 PermCertificateApprove None 1]
      else ret [new_stage 1 PermRouteApprove None 1])"

text \<open>The lookup: the policy of the action, else the default policy, else none; any other error stops.\<close>

definition lookup_policy :: "uuid \<Rightarrow> ApprovalEntityType \<Rightarrow> ApprovalAction \<Rightarrow> ApprovalPolicy option m" where
  "lookup_policy projectID entity action =
     bind (attempt (PolicyRepo_GetByProjectAndEntity projectID (entity_string entity) (Some (action_string action)))) (\<lambda>r.
     case r of
       Inr policy \<Rightarrow> ret (Some policy)
     | Inl e \<Rightarrow>
         if errors_Is e ErrPolicyNotFound then
           bind (attempt (PolicyRepo_GetByProjectAndEntity projectID (entity_string entity) None)) (\<lambda>r'.
           case r' of
             Inr policy \<Rightarrow> ret (Some policy)
           | Inl e' \<Rightarrow> if errors_Is e' ErrPolicyNotFound then ret None
                       else throw (Wrap ''look up approval policy for project %s (%s): %w'' e'))
         else throw (Wrap ''look up approval policy for project %s (%s): %w'' e))"

definition decode_templates :: "ApprovalPolicy option \<Rightarrow> PolicyStageTemplate list m" where
  "decode_templates policy = (case policy of None \<Rightarrow> ret []
     | Some pol \<Rightarrow> (case polStages pol of
         Corrupt \<Rightarrow> throw (Wrap ''approval policy for project %s (%s) is not valid JSON: %w'' ErrJSON)
       | Doc ts \<Rightarrow> ret ts))"

fun plan_templates :: "uuid \<Rightarrow> uuid \<Rightarrow> PolicyStageTemplate list \<Rightarrow> ApprovalStage list m" where
  "plan_templates projectID submittedBy [] = ret []"
| "plan_templates projectID submittedBy (t # ts) =
     bind (attempt (resolveTeamScope (tplTeamScope t) projectID submittedBy)) (\<lambda>r.
     case r of
       Inl e \<Rightarrow> throw (Wrap ''approval stage %d: %w'' e)
     | Inr tid \<Rightarrow>
         bind (plan_templates projectID submittedBy ts) (\<lambda>ss.
         ret (new_stage (tplOrder t) (tplRequiredPermission t) tid
                (EffectiveMinApprovers (tplMinApprovers t)) # ss)))"

definition PlanStages ::
  "uuid \<Rightarrow> uuid \<Rightarrow> ApprovalEntityType \<Rightarrow> ApprovalAction \<Rightarrow> ApprovalStage list m" where
  "PlanStages projectID submittedBy entity action =
     bind (lookup_policy projectID entity action) (\<lambda>policy.
     bind (decode_templates policy) (\<lambda>templates.
     bind (plan_templates projectID submittedBy templates) (\<lambda>stages.
     if stages = [] then noPolicyFallback entity policy else ret stages)))"

section \<open>Traversal\<close>

record Spec =
  spProjectID :: uuid
  spEntityType :: ApprovalEntityType
  spEntityID :: uuid
  spAction :: ApprovalAction
  spSubmittedBy :: uuid
  spConfigSnapshot :: "RouteApprovalSnapshot raw option"
  spPreviousConfig :: "RouteApprovalSnapshot raw option"
  spAIReview :: "doc option"
  spChangeDescription :: string

definition Submit :: "Spec \<Rightarrow> Approval m" where
  "Submit spec =
     bind (PlanStages (spProjectID spec) (spSubmittedBy spec) (spEntityType spec) (spAction spec)) (\<lambda>stages.
     ApprovalRepo_Create
       \<lparr>apID = 0, apProjectID = spProjectID spec, apEntityType = spEntityType spec,
        apEntityID = spEntityID spec, apAction = spAction spec,
        apConfigSnapshot = spConfigSnapshot spec, apPreviousConfig = spPreviousConfig spec,
        apSubmittedBy = spSubmittedBy spec, apStatus = ApprovalStatusPending,
        apChangeDescription = spChangeDescription spec, apAIReview = spAIReview spec,
        apStages = stages\<rparr>)"

definition findStage :: "Approval \<Rightarrow> uuid \<Rightarrow> ApprovalStage option" where
  "findStage a stageID = List.find (\<lambda>s. stgID s = stageID) (apStages a)"

definition allStagesApproved :: "Approval \<Rightarrow> uuid \<Rightarrow> bool" where
  "allStagesApproved a justApproved \<longleftrightarrow>
     list_all (\<lambda>st. stgID st = justApproved \<or> stgStatus st = ApprovalStatusApproved) (apStages a)"

definition set_stage :: "Approval \<Rightarrow> ApprovalStage \<Rightarrow> Approval" where
  "set_stage a st = a\<lparr>apStages := row_save stgID st (apStages a)\<rparr>"

text \<open>The submitter may review only where the project says so; a failed lookup denies.\<close>

definition self_review_allowed :: "Approval \<Rightarrow> User \<Rightarrow> bool m" where
  "self_review_allowed a reviewer =
     (if apSubmittedBy a = usrID reviewer
      then bind (attempt (ProjectRepo_GetByID (apProjectID a)))
             (\<lambda>r. ret (case r of Inl _ \<Rightarrow> False | Inr p \<Rightarrow> prjSelfApprovalAllowed p))
      else ret True)"

definition authorizeStageReview :: "Approval \<Rightarrow> uuid \<Rightarrow> User \<Rightarrow> string \<Rightarrow> ApprovalStage m" where
  "authorizeStageReview a stageID reviewer verb =
     (case findStage a stageID of
        None \<Rightarrow> throw (Msg ''stage not found in this approval'')
      | Some stage \<Rightarrow>
          bind (require (stgStatus stage = ApprovalStatusPending) (Msg ''stage is not pending'')) (\<lambda>_.
          bind (self_review_allowed a reviewer) (\<lambda>allowed.
          bind (require allowed (Msg (''submitter cannot '' @ verb @ '' their own submission''))) (\<lambda>_.
          bind (require (list_all (\<lambda>st. stgOrder st < stgOrder stage \<longrightarrow> stgStatus st = ApprovalStatusApproved)
                   (apStages a)) (Msg ''previous stages must be approved first'')) (\<lambda>_.
          bind (if IsOwner reviewer then ret True
                else deny_on_error (ProjectRepo_IsAdmin (apProjectID a) (usrID reviewer))) (\<lambda>bypass.
          if bypass then ret stage
          else
            bind (TeamRepo_HasPermissionInProject (apProjectID a) (usrID reviewer) (stgRequiredPermission stage)) (\<lambda>hasPerm.
            bind (require hasPerm (Msg ''reviewer does not have the required permission'')) (\<lambda>_.
            case stgRequiredTeamID stage of
              None \<Rightarrow> ret stage
            | Some tid \<Rightarrow>
                bind (TeamRepo_IsMember tid (usrID reviewer)) (\<lambda>isMember.
                bind (require isMember (Msg ''reviewer is not a member of the required team'')) (\<lambda>_.
                ret stage))))))))))"

text \<open>The end of \<open>ApproveStage\<close>: the stage has enough approvals.\<close>

definition finish_stage :: "completer \<Rightarrow> Approval \<Rightarrow> ApprovalStage \<Rightarrow> User \<Rightarrow> unit m" where
  "finish_stage c a stage reviewer =
     (let stage' = stage\<lparr>stgStatus := ApprovalStatusApproved, stgReviewedBy := Some (usrID reviewer)\<rparr>;
          a' = set_stage a stage' in
      bind (ApprovalRepo_UpdateStage stage') (\<lambda>_.
      if allStagesApproved a' (stgID stage) then
        (let a'' = a'\<lparr>apStatus := ApprovalStatusApproved\<rparr> in
         bind (ApprovalRepo_Update a'') (\<lambda>_. OnApproved c a''))
      else ret ()))"

text \<open>The middle of \<open>ApproveStage\<close>: one reviewer, one review, and the count.\<close>

definition record_approval :: "completer \<Rightarrow> Approval \<Rightarrow> ApprovalStage \<Rightarrow> User \<Rightarrow> unit m" where
  "record_approval c a stage reviewer =
     bind (attempt (ReviewRepo_ListByStageID (stgID stage))) (\<lambda>r.
     case r of
       Inl e \<Rightarrow> throw (Wrap ''failed to check existing reviews: %w'' e)
     | Inr existing \<Rightarrow>
       bind (require (\<not> list_ex (\<lambda>x. revReviewerID x = usrID reviewer) existing)
               (Msg ''you have already reviewed this stage'')) (\<lambda>_.
       bind (attempt (ReviewRepo_Create \<lparr>revStageID = stgID stage, revReviewerID = usrID reviewer, revDecision = ''approved''\<rparr>)) (\<lambda>r'.
       case r' of
         Inl e \<Rightarrow> throw (Wrap ''failed to record review: %w'' e)
       | Inr _ \<Rightarrow>
         bind (attempt (ReviewRepo_CountByStageAndDecision (stgID stage) ''approved'')) (\<lambda>r''.
         case r'' of
           Inl e \<Rightarrow> throw (Wrap ''failed to count reviews: %w'' e)
         | Inr count \<Rightarrow>
             if count < EffectiveMinApprovers (stgMinApprovers stage) then ret ()
             else finish_stage c a stage reviewer))))"

definition ApproveStage :: "completers \<Rightarrow> uuid \<Rightarrow> uuid \<Rightarrow> User \<Rightarrow> Approval m" where
  "ApproveStage cs approvalID stageID reviewer =
     bind (ApprovalRepo_GetByID approvalID) (\<lambda>a.
     bind (require (apStatus a = ApprovalStatusPending) (Msg ''approval is not pending'')) (\<lambda>_.
     bind (completerFor cs (apEntityType a)) (\<lambda>c.
     bind (authorizeStageReview a stageID reviewer ''approve'') (\<lambda>stage.
     bind (record_approval c a stage reviewer) (\<lambda>_.
     ApprovalRepo_GetByID approvalID)))))"

text \<open>The end of \<open>RejectStage\<close>. The audit record is best effort: its error is dropped.\<close>

definition reject_approval :: "completer \<Rightarrow> Approval \<Rightarrow> ApprovalStage \<Rightarrow> User \<Rightarrow> string \<Rightarrow> unit m" where
  "reject_approval c a stage reviewer comment =
     (let stage' = stage\<lparr>stgStatus := ApprovalStatusRejected, stgReviewedBy := Some (usrID reviewer), stgComment := comment\<rparr>;
          a' = (set_stage a stage')\<lparr>apStatus := ApprovalStatusRejected\<rparr> in
      bind (attempt (ReviewRepo_Create \<lparr>revStageID = stgID stage, revReviewerID = usrID reviewer, revDecision = ''rejected''\<rparr>)) (\<lambda>_.
      bind (ApprovalRepo_UpdateStage stage') (\<lambda>_.
      bind (ApprovalRepo_Update a') (\<lambda>_.
      OnRejected c a'))))"

definition RejectStage :: "completers \<Rightarrow> uuid \<Rightarrow> uuid \<Rightarrow> User \<Rightarrow> string \<Rightarrow> Approval m" where
  "RejectStage cs approvalID stageID reviewer comment =
     bind (require (comment \<noteq> []) (Msg ''rejection comment is required'')) (\<lambda>_.
     bind (ApprovalRepo_GetByID approvalID) (\<lambda>a.
     bind (require (apStatus a = ApprovalStatusPending) (Msg ''approval is not pending'')) (\<lambda>_.
     bind (completerFor cs (apEntityType a)) (\<lambda>c.
     bind (authorizeStageReview a stageID reviewer ''reject'') (\<lambda>stage.
     bind (reject_approval c a stage reviewer comment) (\<lambda>_.
     ApprovalRepo_GetByID approvalID))))))"

definition cancel_permitted :: "completer \<Rightarrow> Approval \<Rightarrow> User \<Rightarrow> bool m" where
  "cancel_permitted c a user =
     bind (if IsOwner user then ret False
           else deny_on_error (ProjectRepo_IsAdmin (apProjectID a) (usrID user))) (\<lambda>isProjectAdmin.
     if apSubmittedBy a = usrID user \<or> IsOwner user \<or> isProjectAdmin then ret True
     else case CanCancel c of None \<Rightarrow> ret False | Some f \<Rightarrow> f a user)"

definition Cancel :: "completers \<Rightarrow> uuid \<Rightarrow> User \<Rightarrow> Approval m" where
  "Cancel cs approvalID user =
     bind (ApprovalRepo_GetByID approvalID) (\<lambda>a.
     bind (require (apStatus a = ApprovalStatusPending \<or> apStatus a = ApprovalStatusApproved)
             (Msg ''approval cannot be cancelled in its current state'')) (\<lambda>_.
     bind (completerFor cs (apEntityType a)) (\<lambda>c.
     bind (cancel_permitted c a user) (\<lambda>permitted.
     bind (require permitted (Msg ''you do not have permission to cancel this approval'')) (\<lambda>_.
     let a' = a\<lparr>apStatus := ApprovalStatusCancelled\<rparr> in
     bind (ApprovalRepo_Update a') (\<lambda>_.
     bind (OnCancelled c a') (\<lambda>_.
     ApprovalRepo_GetByID approvalID)))))))"

section \<open>The policy service\<close>

record PolicyStageInput =
  psiOrder :: int
  psiRequiredPermission :: string
  psiTeamScope :: string
  psiMinApprovers :: int

record ApprovalPolicyInput =
  apiEntityType :: string
  apiAction :: "string option"
  apiStages :: "PolicyStageInput list"

definition validTeamScopes :: "string list" where
  "validTeamScopes = [''any'', ''other_team'', ''submitter_team'']"

fun validate_stage_inputs :: "PolicyStageInput list \<Rightarrow> error + unit" where
  "validate_stage_inputs [] = Inr ()"
| "validate_stage_inputs (s # ss) =
     (if psiRequiredPermission s \<notin> set AllPermissions then Inl (Msg ''invalid permission: %s'')
      else if psiTeamScope s \<notin> set validTeamScopes then Inl (Msg ''invalid team scope: %s'')
      else validate_stage_inputs ss)"

definition validateInput :: "ApprovalPolicyInput \<Rightarrow> error + unit" where
  "validateInput input =
     (if apiStages input = [] then Inl (Msg ''at least 1 stage is required'')
      else if apiEntityType input \<notin> {entity_string ApprovalEntityRoute, entity_string ApprovalEntityClientAttachment}
      then Inl (Msg ''invalid entity type: %s'')
      else validate_stage_inputs (apiStages input))"

definition buildStageTemplates :: "PolicyStageInput list \<Rightarrow> PolicyStageTemplate list" where
  "buildStageTemplates inputs = map (\<lambda>i.
     \<lparr>tplOrder = psiOrder i, tplRequiredPermission = psiRequiredPermission i,
      tplTeamScope = psiTeamScope i, tplMinApprovers = EffectiveMinApprovers (psiMinApprovers i)\<rparr>) inputs"

definition PolicyService_Get :: "uuid \<Rightarrow> uuid \<Rightarrow> ApprovalPolicy m" where
  "PolicyService_Get projectID policyID =
     bind (PolicyRepo_GetByID policyID) (\<lambda>policy.
     bind (require (polProjectID policy = projectID) (Msg ''policy not found'')) (\<lambda>_. ret policy))"

definition PolicyService_Create :: "uuid \<Rightarrow> ApprovalPolicyInput \<Rightarrow> ApprovalPolicy m" where
  "PolicyService_Create projectID input =
     bind (lift_check (validateInput input)) (\<lambda>_.
     bind (attempt (PolicyRepo_GetByProjectAndEntity projectID (apiEntityType input) (apiAction input))) (\<lambda>r.
     bind (require (\<not> (case r of Inr _ \<Rightarrow> True | Inl _ \<Rightarrow> False))
             (Msg ''policy for this entity type and action already exists'')) (\<lambda>_.
     PolicyRepo_Create \<lparr>polID = 0, polProjectID = projectID, polEntityType = apiEntityType input,
       polAction = apiAction input, polStages = Doc (buildStageTemplates (apiStages input))\<rparr>)))"

definition PolicyService_Update :: "uuid \<Rightarrow> uuid \<Rightarrow> ApprovalPolicyInput \<Rightarrow> ApprovalPolicy m" where
  "PolicyService_Update projectID policyID input =
     bind (lift_check (validateInput input)) (\<lambda>_.
     bind (PolicyService_Get projectID policyID) (\<lambda>policy.
     let policy' = policy\<lparr>polStages := Doc (buildStageTemplates (apiStages input))\<rparr> in
     bind (PolicyRepo_Update policy') (\<lambda>_. ret policy')))"

definition PolicyService_Delete :: "uuid \<Rightarrow> uuid \<Rightarrow> unit m" where
  "PolicyService_Delete projectID policyID =
     bind (PolicyService_Get projectID policyID) (\<lambda>_. PolicyRepo_Delete policyID)"

end
