(* ===== verification/ApprovalInv.thy ===== *)
theory ApprovalInv
  imports Approval
begin

text \<open>
  What the approval engine guarantees. \<open>gate_inv\<close> is the invariant of the approval tables;
  the locale \<open>completer_contract\<close> states what the engine needs of the registered completers;
  \<open>engine_step\<close> is one call of the engine (or any change outside its tables) under an
  arbitrary plan of faults, and \<open>engine_reach\<close> the states such calls lead to.
\<close>

section \<open>Definitions\<close>

definition approving :: "db \<Rightarrow> uuid \<Rightarrow> ApprovalStageReview list" where
  "approving d i = filter (\<lambda>r. revStageID r = i \<and> revDecision r = ''approved'') (stage_reviews d)"

definition stage_ok :: "db \<Rightarrow> ApprovalStage \<Rightarrow> bool" where
  "stage_ok d s \<longleftrightarrow> stgID s < next_id d \<and> stgApprovalID s < next_id d \<and>
     (stgStatus s = ApprovalStatusApproved \<longrightarrow>
        EffectiveMinApprovers (stgMinApprovers s) \<le> int (length (approving d (stgID s))) \<and>
        (\<forall>t \<in> set (approval_stages d). stgApprovalID t = stgApprovalID s \<and> stgOrder t < stgOrder s
            \<longrightarrow> stgStatus t = ApprovalStatusApproved))"

definition approval_ok :: "db \<Rightarrow> Approval \<Rightarrow> bool" where
  "approval_ok d a \<longleftrightarrow> apID a < next_id d \<and> (\<exists>s \<in> set (approval_stages d). stgApprovalID s = apID a) \<and>
     (apStatus a = ApprovalStatusApproved \<longrightarrow>
        (\<forall>s \<in> set (approval_stages d). stgApprovalID s = apID a \<longrightarrow> stgStatus s = ApprovalStatusApproved))"

definition gate_inv :: "db \<Rightarrow> bool" where
  "gate_inv d \<longleftrightarrow>
     distinct (map apID (approvals d)) \<and> distinct (map stgID (approval_stages d)) \<and>
     distinct (map (\<lambda>r. (revStageID r, revReviewerID r)) (stage_reviews d)) \<and>
     (\<forall>s \<in> set (approval_stages d). stage_ok d s) \<and>
     (\<forall>a \<in> set (approvals d). approval_ok d a)"

text \<open>Code outside the engine leaves the three tables alone and hands out new keys only.\<close>

definition same_gate :: "db \<Rightarrow> db \<Rightarrow> bool" where
  "same_gate d0 d \<longleftrightarrow> approvals d = approvals d0 \<and> approval_stages d = approval_stages d0 \<and>
     stage_reviews d = stage_reviews d0 \<and> next_id d0 \<le> next_id d"

section \<open>The tables\<close>

lemma same_gate_refl [simp]: "same_gate d d"
  by (simp add: same_gate_def)

lemma same_gate_trans: "same_gate a b \<Longrightarrow> same_gate b c \<Longrightarrow> same_gate a c"
  by (auto simp: same_gate_def)

lemma gate_inv_empty [simp]: "gate_inv empty_db"
  by (simp add: gate_inv_def empty_db_def)

lemma gate_inv_same:
  assumes "gate_inv d" "same_gate d d'" shows "gate_inv d'"
proof -
  have ap: "approving d' = approving d" using assms by (simp add: approving_def same_gate_def fun_eq_iff)
  have st: "stage_ok d' s" if "stage_ok d s" for s
    using that assms(2) unfolding stage_ok_def ap same_gate_def by fastforce
  have "approval_ok d' a" if "approval_ok d a" for a
    using that assms(2) unfolding approval_ok_def same_gate_def by fastforce
  then show ?thesis using assms st by (simp add: gate_inv_def same_gate_def)
qed

lemma gate_inv_review:
  assumes "gate_inv d"
    and "\<not> list_ex (\<lambda>x. revStageID x = revStageID r \<and> revReviewerID x = revReviewerID r) (stage_reviews d)"
  shows "gate_inv (d\<lparr>stage_reviews := stage_reviews d @ [r]\<rparr>)"
proof -
  let ?d = "d\<lparr>stage_reviews := stage_reviews d @ [r]\<rparr>"
  have "int (length (approving d i)) \<le> int (length (approving ?d i))" for i by (simp add: approving_def)
  then have "stage_ok ?d s" if "stage_ok d s" for s
    using that unfolding stage_ok_def by (auto intro: order_trans)
  moreover have "approval_ok ?d a" if "approval_ok d a" for a
    using that unfolding approval_ok_def by simp
  moreover have "distinct (map (\<lambda>r. (revStageID r, revReviewerID r)) (stage_reviews ?d))"
    using assms by (auto simp: gate_inv_def list_ex_iff)
  ultimately show ?thesis using assms(1) by (simp add: gate_inv_def)
qed

lemma gate_inv_stage:
  assumes inv: "gate_inv d" and s: "s \<in> set (approval_stages d)" "stgStatus s \<noteq> ApprovalStatusApproved"
    and s': "stgID s' = stgID s" "stgApprovalID s' = stgApprovalID s" "stgOrder s' = stgOrder s"
      "stgMinApprovers s' = stgMinApprovers s"
    and ok: "stgStatus s' = ApprovalStatusApproved \<Longrightarrow>
        EffectiveMinApprovers (stgMinApprovers s) \<le> int (length (approving d (stgID s))) \<and>
        (\<forall>t \<in> set (approval_stages d). stgApprovalID t = stgApprovalID s \<and> stgOrder t < stgOrder s
            \<longrightarrow> stgStatus t = ApprovalStatusApproved)"
  shows "gate_inv (d\<lparr>approval_stages := row_save stgID s' (approval_stages d)\<rparr>)"
proof -
  let ?d = "d\<lparr>approval_stages := row_save stgID s' (approval_stages d)\<rparr>"
  have set: "set (approval_stages ?d) = insert s' {x \<in> set (approval_stages d). stgID x \<noteq> stgID s}"
    using inv s' by (simp add: gate_inv_def set_row_save_distinct)
  have ap: "approving ?d = approving d" by (simp add: approving_def fun_eq_iff)
  have stok: "stage_ok d t" if "t \<in> set (approval_stages d)" for t
    using inv that by (simp add: gate_inv_def)
  have below: "\<not> (stgApprovalID s = stgApprovalID t \<and> stgOrder s < stgOrder t)"
    if "t \<in> set (approval_stages d)" "stgStatus t = ApprovalStatusApproved" for t
    using stok [OF that(1)] that(2) s by (auto simp: stage_ok_def)
  have "stage_ok ?d t" if "t \<in> set (approval_stages ?d)" for t
  proof (cases "t = s'")
    case True
    then show ?thesis using stok [OF s(1)] s s' ok unfolding stage_ok_def set ap by auto
  next
    case False
    then have t: "t \<in> set (approval_stages d)" using that set by auto
    then show ?thesis using stok [OF t] below [OF t] s' unfolding stage_ok_def set ap by auto
  qed
  moreover have "approval_ok ?d a" if "a \<in> set (approvals d)" for a
  proof -
    have a: "approval_ok d a" using inv that by (simp add: gate_inv_def)
    then obtain t where t: "t \<in> set (approval_stages d)" "stgApprovalID t = apID a"
      by (auto simp: approval_ok_def)
    have "stgID t = stgID s \<Longrightarrow> t = s"
      using inv t(1) s(1) by (auto simp: gate_inv_def distinct_map inj_on_def)
    then have "\<exists>t \<in> set (approval_stages ?d). stgApprovalID t = apID a"
      using t s' unfolding set by (cases "stgID t = stgID s") auto
    moreover have "apStatus a = ApprovalStatusApproved \<longrightarrow> stgApprovalID s \<noteq> apID a"
      using a s unfolding approval_ok_def by auto
    ultimately show ?thesis using a s' unfolding approval_ok_def set by auto
  qed
  ultimately show ?thesis using inv by (simp add: gate_inv_def)
qed

lemma gate_inv_approval:
  assumes inv: "gate_inv d" and a: "a \<in> set (approvals d)" and a': "apID a' = apID a"
    and ok: "apStatus a' = ApprovalStatusApproved \<Longrightarrow>
      \<forall>s \<in> set (approval_stages d). stgApprovalID s = apID a \<longrightarrow> stgStatus s = ApprovalStatusApproved"
  shows "gate_inv (d\<lparr>approvals := row_save apID a' (approvals d)\<rparr>)"
proof -
  let ?d = "d\<lparr>approvals := row_save apID a' (approvals d)\<rparr>"
  have set: "set (approvals ?d) = insert a' {x \<in> set (approvals d). apID x \<noteq> apID a}"
    using inv a' by (simp add: gate_inv_def set_row_save_distinct)
  have "approval_ok ?d x" if "x \<in> set (approvals ?d)" for x
    using that inv a a' ok unfolding set gate_inv_def approval_ok_def by auto
  moreover have "stage_ok ?d s" if "stage_ok d s" for s
    using that unfolding stage_ok_def approving_def by simp
  ultimately show ?thesis using inv by (simp add: gate_inv_def)
qed

lemma gate_inv_create:
  assumes inv: "gate_inv d" and ss: "ss = number_stages (Suc (next_id d)) (next_id d) xs"
    and a: "apID a' = next_id d" "apStatus a' = ApprovalStatusPending" "xs \<noteq> []"
      "\<forall>s \<in> set xs. stgStatus s = ApprovalStatusPending"
  shows "gate_inv (d\<lparr>next_id := Suc (next_id d + length xs), approvals := approvals d @ [a'],
     approval_stages := approval_stages d @ ss\<rparr>)"
proof -
  let ?d = "d\<lparr>next_id := Suc (next_id d + length xs), approvals := approvals d @ [a'],
     approval_stages := approval_stages d @ ss\<rparr>"
  have new: "stgApprovalID s = next_id d \<and> Suc (next_id d) \<le> stgID s \<and> stgID s < Suc (next_id d + length xs) \<and>
      stgStatus s = ApprovalStatusPending" if "s \<in> set ss" for s
    using number_stages_mem [of s "Suc (next_id d)" "next_id d" xs] that a(4) by (auto simp: ss)
  have old: "stgID s < next_id d \<and> stgApprovalID s < next_id d" if "s \<in> set (approval_stages d)" for s
    using inv that by (auto simp: gate_inv_def stage_ok_def)
  have "distinct (map stgID (approval_stages ?d))"
  proof -
    have "distinct (map stgID ss)" by (simp add: ss)
    moreover have "set (map stgID (approval_stages d)) \<inter> set (map stgID ss) = {}"
      using old new by fastforce
    ultimately show ?thesis using inv by (auto simp: gate_inv_def)
  qed
  moreover have "distinct (map apID (approvals ?d))"
    using inv a(1) by (auto simp: gate_inv_def approval_ok_def)
  moreover have "stage_ok ?d s" if "s \<in> set (approval_stages ?d)" for s
  proof (cases "s \<in> set ss")
    case True then show ?thesis using new by (auto simp: stage_ok_def)
  next
    case False
    then have s: "s \<in> set (approval_stages d)" using that by simp
    then have "stage_ok d s" using inv by (simp add: gate_inv_def)
    then show ?thesis using old [OF s] new unfolding stage_ok_def approving_def by fastforce
  qed
  moreover have "approval_ok ?d x" if "x \<in> set (approvals ?d)" for x
  proof (cases "x \<in> set (approvals d)")
    case True
    then have x: "approval_ok d x" using inv by (simp add: gate_inv_def)
    then have "apID x < next_id d" by (simp add: approval_ok_def)
    with x new show ?thesis unfolding approval_ok_def by fastforce
  next
    case False
    then have "x = a'" using that by simp
    moreover have "ss \<noteq> []" using a(3) number_stages_simps(1) [of "Suc (next_id d)" "next_id d" xs]
      by (metis length_0_conv ss)
    ultimately show ?thesis using a new by (cases ss) (auto simp: approval_ok_def)
  qed
  ultimately show ?thesis using inv by (auto simp: gate_inv_def)
qed

section \<open>The operations\<close>

text \<open>What a successful authorization has established about the reviewer and the stage.\<close>

definition review_allowed :: "db \<Rightarrow> Approval \<Rightarrow> ApprovalStage \<Rightarrow> User \<Rightarrow> bool" where
  "review_allowed d a st u \<longleftrightarrow>
     (apSubmittedBy a = usrID u \<longrightarrow>
        (\<exists>p. row_get prjID (apProjectID a) (projects d) = Some p \<and> prjSelfApprovalAllowed p)) \<and>
     (IsOwner u \<or> is_admin d (apProjectID a) (usrID u) \<or>
        has_permission d (apProjectID a) (usrID u) (stgRequiredPermission st) \<and>
        (\<forall>t. stgRequiredTeamID st = Some t \<longrightarrow> is_member d t (usrID u)))"

lemma hoare_deny_query [wp]:
  "hoare (\<lambda>d. Q (f d) d \<and> Q False d) (deny_on_error (query (\<lambda>d. Inr (f d)))) Q E"
proof (rule hoareI)
  fix d fs x d' fs'
  assume "Q (f d) d \<and> Q False d" "deny_on_error (query (\<lambda>d. Inr (f d))) (d, fs) = (Inr x, (d', fs'))"
  then show "Q x d'"
    using run_deny_query [of f d fs] by (cases x) auto
next
  fix d fs e d' fs'
  assume "deny_on_error (query (\<lambda>d. Inr (f d))) (d, fs) = (Inl e, (d', fs'))"
  then show "E e d'" using run_deny_query [of f d fs] by auto
qed

lemma hoare_self_review [wp]:
  "hoare (\<lambda>d. Q False d \<and> (\<forall>b. b = (apSubmittedBy a \<noteq> usrID u \<or>
      (\<exists>p. row_get prjID (apProjectID a) (projects d) = Some p \<and> prjSelfApprovalAllowed p)) \<longrightarrow> Q b d))
    (self_review_allowed a u) Q E"
  unfolding self_review_allowed_def ProjectRepo_GetByID_def
  by (rule hoare_pre, (rule wp)+) (auto simp: found_def split: option.splits)

lemma hoare_authorize:
  "hoare (\<lambda>d. d = d0) (authorizeStageReview a sid u verb)
     (\<lambda>st d. d = d0 \<and> findStage a sid = Some st \<and> stgStatus st = ApprovalStatusPending \<and>
        (\<forall>t \<in> set (apStages a). stgOrder t < stgOrder st \<longrightarrow> stgStatus t = ApprovalStatusApproved) \<and>
        review_allowed d0 a st u)
     (\<lambda>_ d. d = d0)"
  unfolding authorizeStageReview_def TeamRepo_HasPermissionInProject_def TeamRepo_IsMember_def ProjectRepo_IsAdmin_def
  by (rule hoare_pre, (rule wp)+) (auto simp: list_all_iff review_allowed_def split: option.splits)

text \<open>The approval a call works on is a row of the table, read with its stages.\<close>

definition read_row :: "db \<Rightarrow> Approval \<Rightarrow> bool" where
  "read_row d a \<longleftrightarrow> (\<exists>a0 \<in> set (approvals d). a = approval_read d a0)"

lemma hoare_GetByID:
  "hoare (\<lambda>d. d = d0) (ApprovalRepo_GetByID i) (\<lambda>a d. d = d0 \<and> read_row d0 a \<and> apID a = i) (\<lambda>_ d. d = d0)"
  unfolding ApprovalRepo_GetByID_def
  by (rule hoare_pre, rule wp) (auto simp: map_sum_Inr_iff read_row_def dest: row_get_mem row_get_key)

lemma read_row_stages:
  "read_row d a \<Longrightarrow> set (apStages a) = {s \<in> set (approval_stages d). stgApprovalID s = apID a}"
  by (auto simp: read_row_def)

text \<open>\<open>Save\<close> of an approval whose stages all have rows inserts no stage.\<close>

lemma no_missing_stages:
  "stgID ` set (apStages a) \<subseteq> stgID ` set (approval_stages d) \<Longrightarrow>
   filter (\<lambda>s. row_get stgID (stgID s) (approval_stages d) = None) (apStages a) = []"
  by (auto simp: filter_empty_conv row_get_None)

lemma hoare_Update:
  "hoare (\<lambda>d. gate_inv d \<and> (\<exists>a0 \<in> set (approvals d). apID a = apID a0) \<and>
      stgID ` set (apStages a) \<subseteq> stgID ` set (approval_stages d) \<and>
      (apStatus a = ApprovalStatusApproved \<longrightarrow> (\<forall>s \<in> set (approval_stages d). stgApprovalID s = apID a
          \<longrightarrow> stgStatus s = ApprovalStatusApproved)))
    (ApprovalRepo_Update a) (\<lambda>_. gate_inv) (\<lambda>_. gate_inv)"
  unfolding ApprovalRepo_Update_def
  by (rule hoare_pre, rule wp) (auto simp: no_missing_stages intro!: gate_inv_approval)

lemma keeps_gate:
  assumes "\<And>d0. keeps (same_gate d0) m" shows "keeps gate_inv m"
  unfolding keeps_def
proof (rule hoareI)
  show "gate_inv d'" if "gate_inv d" "m (d, fs) = (Inr x, (d', fs'))" for d fs x d' fs'
    using gate_inv_same [OF that(1)] keeps_run [OF assms same_gate_refl that(2)] by blast
  show "gate_inv d'" if "gate_inv d" "m (d, fs) = (Inl x, (d', fs'))" for d fs x d' fs'
    using gate_inv_same [OF that(1)] keeps_run [OF assms same_gate_refl that(2)] by blast
qed

text \<open>
  Writing a reviewed stage: the row changes, the approval in memory changes with it, and a
  save of that approval finds its row and all its stages.
\<close>

lemma reviewed_stage:
  assumes inv: "gate_inv d" and row: "read_row d a" and st: "st \<in> set (apStages a)" "stgStatus st = ApprovalStatusPending"
    and st': "stgID st' = stgID st" "stgApprovalID st' = stgApprovalID st" "stgOrder st' = stgOrder st"
      "stgMinApprovers st' = stgMinApprovers st"
    and ok: "stgStatus st' = ApprovalStatusApproved \<Longrightarrow>
        EffectiveMinApprovers (stgMinApprovers st) \<le> int (length (approving d (stgID st))) \<and>
        (\<forall>t \<in> set (apStages a). stgOrder t < stgOrder st \<longrightarrow> stgStatus t = ApprovalStatusApproved)"
    and d1: "d1 = d\<lparr>approval_stages := row_save stgID st' (approval_stages d)\<rparr>"
  shows "gate_inv d1" "\<exists>a0 \<in> set (approvals d1). apID a = apID a0"
    "stgID ` set (apStages (set_stage a st')) \<subseteq> stgID ` set (approval_stages d1)"
    "\<lbrakk>stgStatus st' = ApprovalStatusApproved; allStagesApproved (set_stage a st') (stgID st);
      s \<in> set (approval_stages d1); stgApprovalID s = apID a\<rbrakk> \<Longrightarrow> stgStatus s = ApprovalStatusApproved"
proof -
  note stages = read_row_stages [OF row]
  have st_row: "st \<in> set (approval_stages d)" "stgApprovalID st = apID a" using st stages by auto
  show "gate_inv d1"
    unfolding d1 using inv st_row st st' ok stages by (intro gate_inv_stage [of d st]) auto
  show "\<exists>a0 \<in> set (approvals d1). apID a = apID a0" using row by (auto simp: d1 read_row_def)
  show "stgID ` set (apStages (set_stage a st')) \<subseteq> stgID ` set (approval_stages d1)"
    using stages by (auto simp: d1 set_stage_def key_row_save)
  have set: "set (approval_stages d1) = insert st' {x \<in> set (approval_stages d). stgID x \<noteq> stgID st}"
    using inv st' by (simp add: d1 gate_inv_def set_row_save_distinct)
  show "stgStatus s = ApprovalStatusApproved"
    if "stgStatus st' = ApprovalStatusApproved" "allStagesApproved (set_stage a st') (stgID st)"
      "s \<in> set (approval_stages d1)" "stgApprovalID s = apID a"
  proof (cases "s = st'")
    case False
    then have "s \<in> set (apStages a)" "stgID s \<noteq> stgID st" using that set stages by auto
    then have "s \<in> set (apStages (set_stage a st'))" using st' by (simp add: set_stage_def row_save_keeps)
    then show ?thesis using that \<open>stgID s \<noteq> stgID st\<close> by (auto simp: allStagesApproved_def list_all_iff)
  qed (use that in simp)
qed

text \<open>
  The contract of the completers, as \<open>ports.go\<close> has it: they own their entities and not the
  approval tables.
\<close>

locale completer_contract =
  fixes cs :: completers
  assumes OnApproved_frame: "cs t = Some c \<Longrightarrow> keeps (same_gate d0) (OnApproved c a)"
    and OnRejected_frame: "cs t = Some c \<Longrightarrow> keeps (same_gate d0) (OnRejected c a)"
    and OnCancelled_frame: "cs t = Some c \<Longrightarrow> keeps (same_gate d0) (OnCancelled c a)"
    and CanCancel_frame: "cs t = Some c \<Longrightarrow> CanCancel c = Some f \<Longrightarrow> keeps (\<lambda>d. d = d0) (f a u)"
begin

lemma callback_gate:
  assumes "cs t = Some c"
  shows "hoare gate_inv (OnApproved c a) (\<lambda>_. gate_inv) (\<lambda>_. gate_inv)"
    "hoare gate_inv (OnRejected c a) (\<lambda>_. gate_inv) (\<lambda>_. gate_inv)"
    "hoare gate_inv (OnCancelled c a) (\<lambda>_. gate_inv) (\<lambda>_. gate_inv)"
  using assms by (auto intro!: keeps_hoare keeps_gate OnApproved_frame OnRejected_frame OnCancelled_frame)

lemma hoare_finish_stage:
  assumes c: "cs t = Some c"
  shows "hoare (\<lambda>d. gate_inv d \<and> read_row d a \<and> st \<in> set (apStages a) \<and> stgStatus st = ApprovalStatusPending \<and>
      (\<forall>t \<in> set (apStages a). stgOrder t < stgOrder st \<longrightarrow> stgStatus t = ApprovalStatusApproved) \<and>
      EffectiveMinApprovers (stgMinApprovers st) \<le> int (length (approving d (stgID st))))
    (finish_stage c a st u) (\<lambda>_. gate_inv) (\<lambda>_. gate_inv)"
proof -
  let ?st = "st\<lparr>stgStatus := ApprovalStatusApproved, stgReviewedBy := Some (usrID u)\<rparr>"
  let ?d = "\<lambda>d. d\<lparr>approval_stages := row_save stgID ?st (approval_stages d)\<rparr>"
  have post: "gate_inv (?d d) \<and> (\<exists>a0 \<in> set (approvals (?d d)). apID a = apID a0) \<and>
      stgID ` set (apStages (set_stage a ?st)) \<subseteq> stgID ` set (approval_stages (?d d)) \<and>
      (allStagesApproved (set_stage a ?st) (stgID st) \<longrightarrow>
        (\<forall>s \<in> set (approval_stages (?d d)). stgApprovalID s = apID a \<longrightarrow> stgStatus s = ApprovalStatusApproved))"
    if "gate_inv d" "read_row d a" "st \<in> set (apStages a)" "stgStatus st = ApprovalStatusPending"
      "\<forall>t \<in> set (apStages a). stgOrder t < stgOrder st \<longrightarrow> stgStatus t = ApprovalStatusApproved"
      "EffectiveMinApprovers (stgMinApprovers st) \<le> int (length (approving d (stgID st)))" for d
  proof -
    note facts = reviewed_stage [OF that(1-4), where st' = ?st, OF _ _ _ _ _ refl]
    show ?thesis by (intro conjI impI ballI; rule facts; use that(5,6) in simp)
  qed
  show ?thesis
    unfolding finish_stage_def Let_def ApprovalRepo_UpdateStage_def
    by (rule hoare_pre, rule hoare_bind, rule hoare_if, rule hoare_bind,
        rule callback_gate [OF c], rule hoare_Update, rule hoare_ret, rule hoare_exec)
      (use post in \<open>auto simp: set_stage_def\<close>)
qed

lemma hoare_record_approval:
  assumes c: "cs t = Some c"
  shows "hoare (\<lambda>d. gate_inv d \<and> read_row d a \<and> st \<in> set (apStages a) \<and> stgStatus st = ApprovalStatusPending \<and>
      (\<forall>t \<in> set (apStages a). stgOrder t < stgOrder st \<longrightarrow> stgStatus t = ApprovalStatusApproved))
    (record_approval c a st u) (\<lambda>_. gate_inv) (\<lambda>_. gate_inv)"
  unfolding record_approval_def ReviewRepo_ListByStageID_def ReviewRepo_Create_def ReviewRepo_CountByStageAndDecision_def
  by (rule hoare_pre, (rule hoare_finish_stage [OF c] | rule wp)+)
    (auto simp: gate_inv_review read_row_def approval_read_def approving_def split: if_splits)

lemma hoare_completerFor:
  "(\<And>c. cs t = Some c \<Longrightarrow> hoare (R c) (f c) Q E) \<Longrightarrow>
   hoare (\<lambda>d. (\<forall>c. cs t = Some c \<longrightarrow> R c d) \<and> (\<forall>e. E e d)) (bind (completerFor cs t) f) Q E"
  by (cases "cs t") (auto simp: completerFor_def hoare_def bind_def split: prod.splits sum.splits)

lemma findStage_mem: "findStage a sid = Some st \<Longrightarrow> st \<in> set (apStages a)"
  by (auto simp: findStage_def find_Some_iff)

lemma keeps_GetByID [simp, intro]: "keeps I (ApprovalRepo_GetByID i)"
  by (simp add: ApprovalRepo_GetByID_def)

text \<open>
  Both reviews begin alike: the approval is read, pending, has a completer, and the reviewer
  is authorized for a pending stage. What follows runs in the state it started in.
\<close>

lemma keeps_review:
  assumes "\<And>c a st t. cs t = Some c \<Longrightarrow>
    hoare (\<lambda>d. gate_inv d \<and> read_row d a \<and> st \<in> set (apStages a) \<and> stgStatus st = ApprovalStatusPending \<and>
      (\<forall>t \<in> set (apStages a). stgOrder t < stgOrder st \<longrightarrow> stgStatus t = ApprovalStatusApproved))
    (f c a st) (\<lambda>_. gate_inv) (\<lambda>_. gate_inv)"
  shows "keeps gate_inv
    (bind (ApprovalRepo_GetByID i) (\<lambda>a. bind (require (b a) e) (\<lambda>_. bind (completerFor cs (apEntityType a)) (\<lambda>c.
     bind (authorizeStageReview a sid u verb) (\<lambda>st. bind (f c a st) (\<lambda>_. ApprovalRepo_GetByID i))))))"
  unfolding keeps_def
  by (rule hoare_pre, rule hoare_bind, rule hoare_bind, rule hoare_completerFor, rule hoare_bind, rule hoare_bind,
      rule keeps_hoare [OF keeps_GetByID], erule assms, rule hoare_readonly [OF hoare_authorize],
      rule hoare_require, rule hoare_readonly [OF hoare_GetByID])
    (auto dest: findStage_mem)

lemma keeps_ApproveStage: "keeps gate_inv (ApproveStage cs i sid u)"
  unfolding ApproveStage_def by (rule keeps_review) (rule hoare_record_approval)

lemma hoare_reject_approval:
  assumes c: "cs t = Some c"
  shows "hoare (\<lambda>d. gate_inv d \<and> read_row d a \<and> st \<in> set (apStages a) \<and> stgStatus st = ApprovalStatusPending)
    (reject_approval c a st u cm) (\<lambda>_. gate_inv) (\<lambda>_. gate_inv)"
proof -
  let ?st = "st\<lparr>stgStatus := ApprovalStatusRejected, stgReviewedBy := Some (usrID u), stgComment := cm\<rparr>"
  let ?d = "\<lambda>d. d\<lparr>approval_stages := row_save stgID ?st (approval_stages d)\<rparr>"
  have post: "gate_inv (?d d) \<and> (\<exists>a0 \<in> set (approvals (?d d)). apID a = apID a0) \<and>
      stgID ` set (apStages (set_stage a ?st)) \<subseteq> stgID ` set (approval_stages (?d d))"
    if "gate_inv d" "read_row d a" "st \<in> set (apStages a)" "stgStatus st = ApprovalStatusPending" for d
  proof -
    note facts = reviewed_stage [OF that, where st' = ?st, OF _ _ _ _ _ refl]
    show ?thesis by (intro conjI; rule facts; simp)
  qed
  let ?P = "\<lambda>d. gate_inv d \<and> read_row d a \<and> st \<in> set (apStages a) \<and> stgStatus st = ApprovalStatusPending"
  have review: "hoare ?P (attempt (ReviewRepo_Create r)) (\<lambda>_. ?P) E" for r and E :: "error \<Rightarrow> db \<Rightarrow> bool"
    unfolding ReviewRepo_Create_def
    by (rule hoare_pre, rule hoare_attempt, rule hoare_updates)
      (auto simp: gate_inv_review read_row_def approval_read_def split: if_splits)
  show ?thesis
    unfolding reject_approval_def Let_def ApprovalRepo_UpdateStage_def
    by (rule hoare_bind [OF _ review], rule hoare_pre, rule hoare_bind, rule hoare_bind,
        rule callback_gate [OF c], rule hoare_Update, rule hoare_exec)
      (use post in \<open>auto simp: set_stage_def\<close>)
qed

lemma keeps_RejectStage: "keeps gate_inv (RejectStage cs i sid u cm)"
proof -
  have "hoare (\<lambda>d. gate_inv d \<and> read_row d a \<and> st \<in> set (apStages a) \<and> stgStatus st = ApprovalStatusPending \<and>
      (\<forall>t \<in> set (apStages a). stgOrder t < stgOrder st \<longrightarrow> stgStatus t = ApprovalStatusApproved))
    (reject_approval c a st u cm) (\<lambda>_. gate_inv) (\<lambda>_. gate_inv)" if "cs t = Some c" for c a st t
    by (rule hoare_pre [OF hoare_reject_approval [OF that]]) blast
  then show ?thesis
    unfolding RejectStage_def by (intro keeps_bind keeps_require keeps_review)
qed

lemma hoare_cancel_permitted:
  assumes "cs t = Some c"
  shows "hoare (\<lambda>d. Q False d \<and> Q True d \<and> (\<forall>e. E e d)) (cancel_permitted c a u) Q E"
proof (rule hoare_pre [OF hoare_readonly [where R = "\<lambda>_ _. True"]])
  show "hoare (\<lambda>d'. d' = d) (cancel_permitted c a u) (\<lambda>x d'. d' = d \<and> True) (\<lambda>_ d'. d' = d)" for d
    unfolding cancel_permitted_def ProjectRepo_IsAdmin_def simp_thms
    by (rule hoare_pre, (rule keeps_hoare [OF CanCancel_frame [OF assms]], assumption | rule wp)+)
      (auto split: option.splits)
qed (metis (full_types))

lemma keeps_Cancel: "keeps gate_inv (Cancel cs i u)"
  unfolding keeps_def Cancel_def Let_def
  by (rule hoare_pre, rule hoare_bind, rule hoare_bind, rule hoare_completerFor, rule hoare_bind, rule hoare_bind, rule hoare_bind,
      rule hoare_bind, rule keeps_hoare [OF keeps_GetByID], erule callback_gate,
      rule hoare_Update, rule hoare_require, erule hoare_cancel_permitted,
      rule hoare_require, rule hoare_readonly [OF hoare_GetByID])
    (auto simp: read_row_def)

end

section \<open>Planning\<close>

text \<open>The policy that governs an action: its own, else the default of the entity type.\<close>

definition effective_policy :: "db \<Rightarrow> uuid \<Rightarrow> ApprovalEntityType \<Rightarrow> ApprovalAction \<Rightarrow> ApprovalPolicy option" where
  "effective_policy d p e a =
     (case List.find (policy_matches p (entity_string e) (Some (action_string a))) (approval_policies d) of
        Some pol \<Rightarrow> Some pol
      | None \<Rightarrow> List.find (policy_matches p (entity_string e) None) (approval_policies d))"

text \<open>The team a scope stands for.\<close>

definition team_for :: "db \<Rightarrow> uuid \<Rightarrow> uuid \<Rightarrow> string \<Rightarrow> uuid option \<Rightarrow> bool" where
  "team_for d p u scope team \<longleftrightarrow>
     (if scope = ''any'' \<or> scope = [] then team = None
      else if scope = ''submitter_team'' then team \<in> (Some \<circ> ptrTeamID) ` set (user_roles d p u)
      else if scope = ''other_team'' then
        (let others = {ptrTeamID r |r. r \<in> set (project_team_roles d) \<and> ptrProjectID r = p \<and> \<not> is_member d (ptrTeamID r) u} in
         case team of None \<Rightarrow> others = {} | Some t \<Rightarrow> t \<in> others)
      else False)"

definition stage_for :: "db \<Rightarrow> uuid \<Rightarrow> uuid \<Rightarrow> PolicyStageTemplate \<Rightarrow> ApprovalStage \<Rightarrow> bool" where
  "stage_for d p u t s \<longleftrightarrow>
     stgOrder s = tplOrder t \<and> stgRequiredPermission s = tplRequiredPermission t \<and>
     stgMinApprovers s = EffectiveMinApprovers (tplMinApprovers t) \<and>
     team_for d p u (tplTeamScope t) (stgRequiredTeamID s) \<and> stgStatus s = ApprovalStatusPending"

lemma user_roles_teams:
  "ptrTeamID ` set (user_roles d p u) =
   {ptrTeamID r |r. r \<in> set (project_team_roles d) \<and> ptrProjectID r = p \<and> is_member d (ptrTeamID r) u}"
  by (simp add: user_roles_def role_read_def image_image) blast

lemma find_Some_mem: "List.find P xs = Some x \<Longrightarrow> x \<in> set xs \<and> P x"
  by (auto simp: find_Some_iff)

lemma other_team_pick:
  "team_for d p u ''other_team'' (map_option ptrTeamID
     (List.find (\<lambda>ptr. ptrTeamID ptr \<notin> ptrTeamID ` set (user_roles d p u))
        (map (role_read d) (filter (\<lambda>r. ptrProjectID r = p) (project_team_roles d)))))" (is "team_for _ _ _ _ (map_option _ ?f)")
proof (cases ?f)
  case None
  then have "\<forall>r \<in> set (project_team_roles d). ptrProjectID r = p \<longrightarrow> is_member d (ptrTeamID r) u"
    unfolding user_roles_teams by (auto simp: find_None_iff role_read_def)
  then show ?thesis by (auto simp: team_for_def None)
next
  case (Some r)
  then show ?thesis
    using find_Some_mem [OF Some] unfolding user_roles_teams by (auto simp: team_for_def role_read_def)
qed

lemma hoare_resolveTeamScope:
  "hoare (\<lambda>d. d = d0) (resolveTeamScope scope p u) (\<lambda>team d. d = d0 \<and> team_for d0 p u scope team) (\<lambda>_ d. d = d0)"
  unfolding resolveTeamScope_def TeamRepo_GetUserTeamsInProject_def TeamRepo_ListProjectTeams_def
  by (rule hoare_pre, (rule wp)+)
    (auto simp: other_team_pick team_for_def [of _ _ _ "''any''"] team_for_def [of _ _ _ "[]"]
       team_for_def [of _ _ _ "''submitter_team''"] split: list.splits)

lemma hoare_plan_templates:
  "hoare (\<lambda>d. d = d0) (plan_templates p u ts)
     (\<lambda>ss d. d = d0 \<and> list_all2 (stage_for d0 p u) ts ss) (\<lambda>_ d. d = d0)"
proof (induction ts arbitrary: d0)
  case Nil
  then show ?case by (simp add: hoare_def)
next
  case (Cons t ts)
  show ?case
    unfolding plan_templates.simps
    by (rule hoare_pre, (rule hoare_readonly [OF Cons.IH] | rule hoare_readonly [OF hoare_resolveTeamScope] | rule wp)+)
      (auto simp: stage_for_def new_stage_def)
qed

lemma hoare_lookup_policy:
  "hoare (\<lambda>d. d = d0) (lookup_policy p e a) (\<lambda>pol d. d = d0 \<and> pol = effective_policy d0 p e a) (\<lambda>_ d. d = d0)"
  unfolding lookup_policy_def PolicyRepo_GetByProjectAndEntity_def
  by (rule hoare_pre, (rule wp)+) (auto simp: effective_policy_def split: option.splits sum.splits)

text \<open>What planning promises: the stages of the governing policy, or the fallback where one is meant.\<close>

definition planned :: "db \<Rightarrow> uuid \<Rightarrow> uuid \<Rightarrow> ApprovalEntityType \<Rightarrow> ApprovalAction \<Rightarrow> ApprovalStage list \<Rightarrow> bool" where
  "planned d p u e a ss \<longleftrightarrow>
     (case map_option polStages (effective_policy d p e a) of
        Some (Doc (t # ts)) \<Rightarrow> list_all2 (stage_for d p u) (t # ts) ss
      | Some Corrupt \<Rightarrow> False
      | _ \<Rightarrow> e \<noteq> ApprovalEntityClientAttachment \<and>
             ss = [new_stage 1 (if e = ApprovalEntityCertificate then PermCertificateApprove else PermRouteApprove) None 1])"

lemma hoare_decode_templates:
  "hoare (\<lambda>d. (\<forall>ts. map_option polStages policy \<in> {None, Some (Doc ts)} \<and> (policy = None \<longrightarrow> ts = []) \<longrightarrow> Q ts d) \<and> (\<forall>e. E e d))
     (decode_templates policy) Q E"
  by (auto simp: decode_templates_def hoare_def split: option.splits raw.splits)

lemma hoare_noPolicyFallback:
  "hoare (\<lambda>d. (e \<noteq> ApprovalEntityClientAttachment \<longrightarrow>
       Q [new_stage 1 (if e = ApprovalEntityCertificate then PermCertificateApprove else PermRouteApprove) None 1] d) \<and> (\<forall>x. E x d))
     (noPolicyFallback e policy) Q E"
  by (auto simp: noPolicyFallback_def hoare_def)

lemma hoare_PlanStages:
  "hoare (\<lambda>d. d = d0) (PlanStages p u e a) (\<lambda>ss d. d = d0 \<and> planned d0 p u e a ss) (\<lambda>_ d. d = d0)"
  unfolding PlanStages_def
  by (rule hoare_pre, (rule hoare_readonly [OF hoare_lookup_policy] hoare_decode_templates hoare_noPolicyFallback
        hoare_readonly [OF hoare_plan_templates] | rule wp)+)
    (auto simp: planned_def list_all2_Cons1 split: option.splits raw.splits list.splits)

lemma planned_pending:
  "planned d p u e a ss \<Longrightarrow> ss \<noteq> [] \<and> (\<forall>s \<in> set ss. stgStatus s = ApprovalStatusPending \<and> 1 \<le> stgMinApprovers s)"
  by (auto simp: planned_def new_stage_def stage_for_def list_all2_conv_all_nth in_set_conv_nth
      split: option.splits raw.splits list.splits)

lemma keeps_Submit: "keeps gate_inv (Submit spec)"
  unfolding keeps_def Submit_def ApprovalRepo_Create_def Let_def
  by (rule hoare_pre, rule hoare_bind, rule hoare_inserts, rule hoare_readonly [OF hoare_PlanStages])
    (auto dest!: planned_pending simp: gate_inv_create split: if_splits)

text \<open>Submitting touches the two approval tables and the key counter only.\<close>

lemma keeps_Submit_frame:
  assumes "\<And>d n x y. I d \<Longrightarrow> I (d\<lparr>next_id := n, approvals := x, approval_stages := y\<rparr>)"
  shows "keeps I (Submit spec)"
  unfolding keeps_def Submit_def ApprovalRepo_Create_def Let_def
  by (rule hoare_pre, rule hoare_bind, rule hoare_inserts, rule hoare_readonly [OF hoare_PlanStages])
    (auto intro: assms split: if_splits)

section \<open>Every run of the engine\<close>

text \<open>
  One call of the engine with any arguments and any plan of faults; or a change that leaves
  the approval tables alone, or the removal of the approvals of a deleted entity.
\<close>

inductive engine_step :: "completers \<Rightarrow> db \<Rightarrow> db \<Rightarrow> bool" for cs where
  submit: "Submit spec (d, fs) = (r, (d', fs')) \<Longrightarrow> engine_step cs d d'"
| approve: "ApproveStage cs i sid u (d, fs) = (r, (d', fs')) \<Longrightarrow> engine_step cs d d'"
| reject: "RejectStage cs i sid u cm (d, fs) = (r, (d', fs')) \<Longrightarrow> engine_step cs d d'"
| cancel: "Cancel cs i u (d, fs) = (r, (d', fs')) \<Longrightarrow> engine_step cs d d'"
| cleanup: "ApprovalRepo_DeleteByEntityID t i (d, fs) = (r, (d', fs')) \<Longrightarrow> engine_step cs d d'"
| review_note: "ApprovalRepo_SetAIReview i x (d, fs) = (r, (d', fs')) \<Longrightarrow> engine_step cs d d'"
| outside: "same_gate d d' \<Longrightarrow> engine_step cs d d'"

inductive engine_reach :: "completers \<Rightarrow> db \<Rightarrow> bool" for cs where
  start: "engine_reach cs empty_db"
| step: "engine_reach cs d \<Longrightarrow> engine_step cs d d' \<Longrightarrow> engine_reach cs d'"

lemma reach_Submit: "engine_reach cs d \<Longrightarrow> engine_reach cs (fst (snd (Submit spec (d, fs))))"
  by (cases "Submit spec (d, fs)") (auto intro: engine_reach.step engine_step.submit)

lemma reach_ApproveStage: "engine_reach cs d \<Longrightarrow> engine_reach cs (fst (snd (ApproveStage cs i sid u (d, fs))))"
  by (cases "ApproveStage cs i sid u (d, fs)") (auto intro: engine_reach.step engine_step.approve)

lemma gate_inv_delete_approvals:
  assumes inv: "gate_inv d" shows "gate_inv (delete_approvals P d)"
proof -
  let ?d = "delete_approvals P d"
  let ?gone = "apID ` set (filter P (approvals d))"
  have sets: "set (approval_stages ?d) = {s \<in> set (approval_stages d). stgApprovalID s \<notin> ?gone}"
      "set (approvals ?d) = {a \<in> set (approvals d). \<not> P a}" "next_id ?d = next_id d"
    by (auto simp: delete_approvals_def Let_def)
  have idof: "s = t" if "s \<in> set (approval_stages d)" "t \<in> set (approval_stages d)" "stgID s = stgID t" for s t
    using inv that by (auto simp: gate_inv_def distinct_map inj_on_def)
  have ap: "approving ?d (stgID s) = approving d (stgID s)" if "s \<in> set (approval_stages ?d)" for s
  proof -
    have s: "s \<in> set (approval_stages d)" "stgApprovalID s \<notin> ?gone" using that by (auto simp: sets)
    have "stgID t \<noteq> stgID s" if "t \<in> set (approval_stages d)" "stgApprovalID t \<in> ?gone" for t
      using idof [OF that(1) s(1)] that(2) s(2) by auto
    then show ?thesis by (auto simp: approving_def delete_approvals_def Let_def intro!: filter_cong)
  qed
  have "stage_ok ?d s" if "s \<in> set (approval_stages ?d)" for s
    using that inv ap [OF that] unfolding stage_ok_def sets gate_inv_def by auto
  moreover have "approval_ok ?d a" if "a \<in> set (approvals ?d)" for a
  proof -
    have a: "a \<in> set (approvals d)" "\<not> P a" using that by (auto simp: sets)
    then have "b = a" if "b \<in> set (approvals d)" "apID b = apID a" for b
      using inv that by (auto simp: gate_inv_def distinct_map inj_on_def)
    then have "apID a \<notin> ?gone" using a(2) by force
    moreover have "approval_ok d a" using inv a(1) by (simp add: gate_inv_def)
    ultimately show ?thesis unfolding approval_ok_def sets
      by (auto intro: rev_bexI simp del: set_filter) metis+
  qed
  ultimately show ?thesis
    using inv by (auto simp: gate_inv_def delete_approvals_def Let_def distinct_map_filter)
qed

lemma gate_inv_SetAIReview: "keeps gate_inv (ApprovalRepo_SetAIReview i x)"
  unfolding ApprovalRepo_SetAIReview_def
proof (rule keeps_updates)
  fix d d' assume inv: "gate_inv d" and "(if list_ex (\<lambda>a. apID a = i \<and> apAIReview a = None) (approvals d)
     then Inr (d\<lparr>approvals := map (\<lambda>a. if apID a = i \<and> apAIReview a = None
                 then a\<lparr>apAIReview := Some x\<rparr> else a) (approvals d)\<rparr>)
     else Inl (Msg ''AI review already exists for this approval'')) = Inr d'"
  then have d': "d' = d\<lparr>approvals := map (\<lambda>a. if apID a = i \<and> apAIReview a = None
                 then a\<lparr>apAIReview := Some x\<rparr> else a) (approvals d)\<rparr>" by (simp split: if_splits)
  have "map apID (approvals d') = map apID (approvals d)" by (auto simp: d')
  moreover have "approval_stages d' = approval_stages d" "stage_reviews d' = stage_reviews d" by (simp_all add: d')
  moreover have "stage_ok d' = stage_ok d" by (auto simp: d' stage_ok_def approving_def fun_eq_iff)
  moreover have "approval_ok d' a" if "a \<in> set (approvals d')" for a
    using that inv by (auto simp: d' gate_inv_def approval_ok_def)
  ultimately show "gate_inv d'" using inv by (simp add: gate_inv_def)
qed

lemma keeps_cleanup: "keeps gate_inv (ApprovalRepo_DeleteByEntityID t i)"
  unfolding ApprovalRepo_DeleteByEntityID_def Let_def by (rule keeps_updates) (auto intro: gate_inv_delete_approvals split: if_splits)

context completer_contract
begin

lemma step_inv: "engine_step cs d d' \<Longrightarrow> gate_inv d \<Longrightarrow> gate_inv d'"
  by (induction rule: engine_step.induct)
    (auto dest: keeps_run [OF keeps_Submit] keeps_run [OF keeps_ApproveStage] keeps_run [OF keeps_RejectStage]
      keeps_run [OF keeps_Cancel] keeps_run [OF gate_inv_SetAIReview] gate_inv_same
      keeps_run [OF keeps_cleanup])

lemma reach_inv: "engine_reach cs d \<Longrightarrow> gate_inv d"
  by (induction rule: engine_reach.induct) (auto dest: step_inv)

end

section \<open>Properties\<close>

text \<open>When a stage is up for review by a user.\<close>

definition may_review :: "db \<Rightarrow> uuid \<Rightarrow> uuid \<Rightarrow> User \<Rightarrow> bool" where
  "may_review d i sid u \<longleftrightarrow> (\<exists>a st. read_row d a \<and> apID a = i \<and> apStatus a = ApprovalStatusPending \<and>
     findStage a sid = Some st \<and> stgStatus st = ApprovalStatusPending \<and>
     (\<forall>t \<in> set (apStages a). stgOrder t < stgOrder st \<longrightarrow> stgStatus t = ApprovalStatusApproved) \<and>
     review_allowed d a st u)"

lemma hoare_review_refused:
  "hoare (\<lambda>d. d = d0 \<and> \<not> may_review d i sid u)
    (bind (ApprovalRepo_GetByID i) (\<lambda>a. bind (require (apStatus a = ApprovalStatusPending) e) (\<lambda>_.
       bind (completerFor cs (apEntityType a)) (\<lambda>c. bind (authorizeStageReview a sid u verb) (\<lambda>st. f c a st)))))
    (\<lambda>_ _. False) (\<lambda>_ d. d = d0)"
  unfolding completerFor_def
  by (rule hoare_pre, (rule hoare_False [where m = "f c a st" for c a st] hoare_readonly [OF hoare_authorize] hoare_readonly [OF hoare_GetByID] | rule wp)+)
    (auto simp: may_review_def split: option.splits)

text \<open>C2. A review by somebody who may not review the stage, or of a stage that is not up for review, is refused
  under every plan of faults, for an approval and for a rejection, and changes nothing.\<close>

theorem review_gate:
  assumes "\<not> may_review d i sid u"
  shows "(\<exists>e fs'. ApproveStage cs i sid u (d, fs) = (Inl e, (d, fs'))) \<and>
    (\<exists>e fs'. RejectStage cs i sid u comment (d, fs) = (Inl e, (d, fs')))"
proof
  have "hoare (\<lambda>d'. d' = d) (ApproveStage cs i sid u) (\<lambda>_ _. False) (\<lambda>_ d'. d' = d)"
    unfolding ApproveStage_def by (rule hoare_pre, rule hoare_review_refused) (use assms in auto)
  then show "\<exists>e fs'. ApproveStage cs i sid u (d, fs) = (Inl e, (d, fs'))" by (rule hoare_refused)
  have "hoare (\<lambda>d'. d' = d) (RejectStage cs i sid u comment) (\<lambda>_ _. False) (\<lambda>_ d'. d' = d)"
    unfolding RejectStage_def by (rule hoare_pre, rule hoare_bind, rule hoare_review_refused, rule wp) (use assms in auto)
  then show "\<exists>e fs'. RejectStage cs i sid u comment (d, fs) = (Inl e, (d, fs'))" by (rule hoare_refused)
qed

theorem review_gate_witness:
  "\<not> may_review (sample_pending RouteStatusPendingCreate ApprovalActionCreate) 12 13 sample_submitter \<and>
   (\<exists>e fs'. ApproveStage no_completers 12 13 sample_submitter (sample_pending RouteStatusPendingCreate ApprovalActionCreate, [True])
      = (Inl e, (sample_pending RouteStatusPendingCreate ApprovalActionCreate, fs')))"
proof -
  have "\<not> may_review (sample_pending RouteStatusPendingCreate ApprovalActionCreate) 12 13 sample_submitter"
    by (auto simp: may_review_def read_row_def sample_pending_def sample_routes_def sample_store_def sample_approval_def
        review_allowed_def sample_submitter_def sample_project_def row_get_def)
  then show ?thesis using review_gate by blast
qed

lemma hoare_Submit:
  "hoare (\<lambda>d. d = d0) (Submit spec)
    (\<lambda>a d. \<exists>ss. planned d0 (spProjectID spec) (spSubmittedBy spec) (spEntityType spec) (spAction spec) ss \<and>
       apID a = next_id d0 \<and> apStatus a = ApprovalStatusPending \<and> apEntityType a = spEntityType spec \<and>
       apEntityID a = spEntityID spec \<and> apAction a = spAction spec \<and> apSubmittedBy a = spSubmittedBy spec \<and>
       apProjectID a = spProjectID spec \<and> apConfigSnapshot a = spConfigSnapshot spec \<and>
       apStages a = number_stages (Suc (next_id d0)) (next_id d0) ss \<and>
       d = d0\<lparr>next_id := Suc (next_id d0 + length ss), approvals := approvals d0 @ [a\<lparr>apStages := []\<rparr>],
              approval_stages := approval_stages d0 @ apStages a\<rparr>)
    (\<lambda>_ d. d = d0)"
  unfolding Submit_def ApprovalRepo_Create_def Let_def
  by (rule hoare_pre, rule hoare_bind, rule hoare_inserts, rule hoare_readonly [OF hoare_PlanStages])
    (auto split: if_splits)

text \<open>A submission stores one pending approval with the stages that the governing policy plans, under new
  keys, or fails and stores nothing.\<close>

theorem submit_plans_the_policy:
  assumes "Submit spec (d, fs) = (r, (d', fs'))"
  shows "case r of Inl _ \<Rightarrow> d' = d
    | Inr a \<Rightarrow> (\<exists>ss. planned d (spProjectID spec) (spSubmittedBy spec) (spEntityType spec) (spAction spec) ss \<and>
       apID a = next_id d \<and> apStatus a = ApprovalStatusPending \<and> apEntityType a = spEntityType spec \<and>
       apEntityID a = spEntityID spec \<and> apAction a = spAction spec \<and> apSubmittedBy a = spSubmittedBy spec \<and>
       apProjectID a = spProjectID spec \<and> apConfigSnapshot a = spConfigSnapshot spec \<and>
       apStages a = number_stages (Suc (next_id d)) (next_id d) ss \<and>
       d' = d\<lparr>next_id := Suc (next_id d + length ss), approvals := approvals d @ [a\<lparr>apStages := []\<rparr>],
              approval_stages := approval_stages d @ apStages a\<rparr>)"
  by (rule hoare_run [OF hoare_Submit assms])

theorem submit_plans_the_policy_witness:
  "\<exists>a d'. Submit \<lparr> spProjectID = 1, spEntityType = ApprovalEntityRoute, spEntityID = 6, spAction = ApprovalActionCreate,
       spSubmittedBy = 7, spConfigSnapshot = None, spPreviousConfig = None, spAIReview = None, spChangeDescription = [] \<rparr> (sample_db, [])
     = (Inr a, (d', [])) \<and> approvals d' = [a\<lparr>apStages := []\<rparr>] \<and> apStatus a = ApprovalStatusPending"
proof -
  let ?spec = "\<lparr> spProjectID = 1, spEntityType = ApprovalEntityRoute, spEntityID = 6, spAction = ApprovalActionCreate,
       spSubmittedBy = 7, spConfigSnapshot = None, spPreviousConfig = None, spAIReview = None, spChangeDescription = [] \<rparr>"
  obtain r d' fs' where run: "Submit ?spec (sample_db, []) = (r, (d', fs'))" by (metis prod.exhaust)
  have "\<not> isl (fst (Submit ?spec (sample_db, []))) \<and> snd (snd (Submit ?spec (sample_db, []))) = []" by code_simp
  then obtain a where a: "r = Inr a" "fs' = []" using run by (cases r) auto
  then show ?thesis using submit_plans_the_policy [OF run] run by (auto simp: sample_db_def sample_store_def empty_db_def)
qed

text \<open>C3. Planning only reads, and what it plans is what the governing policy asks for, whatever lookups fail:
  at least one stage, all pending, each with at least one approver. A failed lookup never yields a weaker plan.\<close>

theorem planning_honours_the_policy:
  assumes "PlanStages p u e a (d, fs) = (r, (d', fs'))"
  shows "d' = d \<and> (case r of Inl _ \<Rightarrow> True | Inr ss \<Rightarrow> planned d p u e a ss \<and> ss \<noteq> [] \<and>
     (\<forall>s \<in> set ss. stgStatus s = ApprovalStatusPending \<and> 1 \<le> stgMinApprovers s))"
  using hoare_run [OF hoare_PlanStages assms] by (auto dest: planned_pending split: sum.splits)


theorem planning_honours_the_policy_witness:
  "\<exists>ss. fst (PlanStages 1 7 ApprovalEntityRoute ApprovalActionCreate (sample_db, [])) = Inr ss \<and>
     planned sample_db 1 7 ApprovalEntityRoute ApprovalActionCreate ss \<and> ss \<noteq> []"
proof -
  obtain r d' fs' where run: "PlanStages 1 7 ApprovalEntityRoute ApprovalActionCreate (sample_db, []) = (r, (d', fs'))"
    by (metis prod.exhaust)
  have "\<not> isl (fst (PlanStages 1 7 ApprovalEntityRoute ApprovalActionCreate (sample_db, [])))" by code_simp
  then obtain ss where "r = Inr ss" using run by (cases r) auto
  then show ?thesis using planning_honours_the_policy [OF run] run by auto
qed

definition valid_template :: "PolicyStageTemplate \<Rightarrow> bool" where
  "valid_template t \<longleftrightarrow> IsValidPermission (tplRequiredPermission t) \<and> tplTeamScope t \<in> set validTeamScopes \<and>
     1 \<le> tplMinApprovers t"

lemma validate_stage_inputs_ok:
  "validate_stage_inputs ss = Inr () \<longleftrightarrow> (\<forall>s \<in> set ss. psiRequiredPermission s \<in> set AllPermissions \<and> psiTeamScope s \<in> set validTeamScopes)"
  by (induction ss) auto

lemma validateInput_ok:
  "validateInput input = Inr () \<longleftrightarrow> apiStages input \<noteq> [] \<and>
     apiEntityType input \<in> {''route'', ''client_attachment''} \<and>
     (\<forall>s \<in> set (apiStages input). IsValidPermission (psiRequiredPermission s) \<and> psiTeamScope s \<in> set validTeamScopes)"
  by (auto simp: validateInput_def validate_stage_inputs_ok IsValidPermission_def list_ex_iff)

lemma built_templates_valid:
  "validateInput input = Inr () \<Longrightarrow> buildStageTemplates (apiStages input) \<noteq> [] \<and>
     (\<forall>t \<in> set (buildStageTemplates (apiStages input)). valid_template t)"
  by (auto simp: validateInput_ok buildStageTemplates_def valid_template_def)

lemma hoare_PolicyService_Create:
  "hoare (\<lambda>d. d = d0) (PolicyService_Create p input)
     (\<lambda>pol d. validateInput input = Inr () \<and> polStages pol = Doc (buildStageTemplates (apiStages input)) \<and>
        approval_policies d = approval_policies d0 @ [pol] \<and>
        List.find (policy_matches p (apiEntityType input) (apiAction input)) (approval_policies d) = Some pol \<and>
        d\<lparr>next_id := next_id d0, approval_policies := approval_policies d0\<rparr> = d0)
     (\<lambda>_ d. d = d0)"
  unfolding PolicyService_Create_def PolicyRepo_GetByProjectAndEntity_def PolicyRepo_Create_def
  by (rule hoare_pre, (rule wp)+)
    (auto simp: insert_policy_def policy_matches_def policy_key_def find_Some_iff nth_append list_ex_iff all_set_conv_all_nth split: if_splits option.splits
      intro!: exI [of _ "length (approval_policies d0)"])

text \<open>C12. A policy the service stores has at least one stage, known permissions and team scopes and at least one
  approver per stage, and it is the policy a later lookup finds; a refused policy is not stored.\<close>

theorem stored_policies_are_valid:
  assumes "PolicyService_Create p input (d, fs) = (r, (d', fs'))"
  shows "case r of Inl _ \<Rightarrow> d' = d
    | Inr pol \<Rightarrow> (\<exists>ts. polStages pol = Doc ts \<and> ts \<noteq> [] \<and> (\<forall>t \<in> set ts. valid_template t)) \<and>
        PolicyRepo_GetByProjectAndEntity p (apiEntityType input) (apiAction input) (d', []) = (Inr pol, (d', [])) \<and>
        approval_policies d' = approval_policies d @ [pol]"
  using hoare_run [OF hoare_PolicyService_Create assms]
  by (auto simp: PolicyRepo_GetByProjectAndEntity_def dest: built_templates_valid split: sum.splits)


definition sample_policy :: ApprovalPolicyInput where
  "sample_policy = \<lparr>apiEntityType = ''route'', apiAction = None, apiStages =
     [\<lparr>psiOrder = 1, psiRequiredPermission = PermRouteApprove, psiTeamScope = ''other_team'', psiMinApprovers = 0\<rparr>]\<rparr>"

theorem stored_policies_are_valid_witness:
  "\<exists>pol ts. fst (PolicyService_Create 1 sample_policy (sample_db, [])) = Inr pol \<and> polStages pol = Doc ts \<and>
     ts \<noteq> [] \<and> (\<forall>t \<in> set ts. valid_template t)"
proof -
  obtain r d' fs' where run: "PolicyService_Create 1 sample_policy (sample_db, []) = (r, (d', fs'))"
    by (metis prod.exhaust)
  have "\<not> isl (fst (PolicyService_Create 1 sample_policy (sample_db, [])))" by code_simp
  then obtain pol where "r = Inr pol" using run by (cases r) auto
  then show ?thesis using stored_policies_are_valid [OF run] run by auto
qed

text \<open>An approval whose entity type has no completer is neither reviewed nor cancelled: every
  operation fails before it writes.\<close>

theorem unregistered_type_refused:
  assumes "cs (apEntityType a) = None" "row_get apID i (approvals d) = Some a"
  shows "(\<exists>e fs'. ApproveStage cs i sid u (d, fs) = (Inl e, (d, fs'))) \<and>
    (\<exists>e fs'. RejectStage cs i sid u comment (d, fs) = (Inl e, (d, fs'))) \<and>
    (\<exists>e fs'. Cancel cs i u (d, fs) = (Inl e, (d, fs')))"
proof (intro conjI)
  have start: "hoare (\<lambda>d'. d' = d) (bind (ApprovalRepo_GetByID i) (\<lambda>a. bind (require (b a) e) (\<lambda>_.
       bind (completerFor cs (apEntityType a)) (f a)))) (\<lambda>_ _. False) (\<lambda>_ d'. d' = d)"
    for b e and f :: "Approval \<Rightarrow> completer \<Rightarrow> Approval m"
    unfolding completerFor_def ApprovalRepo_GetByID_def
    by (rule hoare_pre, (rule hoare_False [where m = "f a c" for a c] | rule wp)+)
      (use assms in \<open>auto simp: found_def map_sum_Inr_iff split: option.splits\<close>)
  show "\<exists>e fs'. ApproveStage cs i sid u (d, fs) = (Inl e, (d, fs'))"
    unfolding ApproveStage_def by (intro hoare_refused start)
  show "\<exists>e fs'. Cancel cs i u (d, fs) = (Inl e, (d, fs'))"
    unfolding Cancel_def by (intro hoare_refused start)
  show "\<exists>e fs'. RejectStage cs i sid u comment (d, fs) = (Inl e, (d, fs'))"
  proof (cases "comment = []")
    case False
    then have "RejectStage cs i sid u comment = bind (ApprovalRepo_GetByID i) (\<lambda>a. bind (require (apStatus a = ApprovalStatusPending) (Msg ''approval is not pending'')) (\<lambda>_.
     bind (completerFor cs (apEntityType a)) (\<lambda>c.
     bind (authorizeStageReview a sid u ''reject'') (\<lambda>stage.
     bind (reject_approval c a stage u comment) (\<lambda>_.
     ApprovalRepo_GetByID i)))))" by (simp add: RejectStage_def fun_eq_iff bind_def)
    then show ?thesis by (simp only:) (intro hoare_refused start)
  qed (simp add: RejectStage_def bind_def)
qed

theorem unregistered_type_refused_witness:
  "\<exists>e fs'. Cancel no_completers 12 sample_owner (sample_pending RouteStatusPendingUpdate ApprovalActionUpdate, []) =
     (Inl e, (sample_pending RouteStatusPendingUpdate ApprovalActionUpdate, fs'))"
  using unregistered_type_refused [of no_completers "sample_approval ApprovalActionUpdate ApprovalStatusPending" 12
      "sample_pending RouteStatusPendingUpdate ApprovalActionUpdate"]
  by (simp add: no_completers_def sample_pending_def sample_approval_def row_get_def)

text \<open>No policy for certificates can be created or updated, although planning looks one up.\<close>

theorem certificate_policy_refused:
  assumes "apiEntityType input = entity_string ApprovalEntityCertificate"
  shows "\<exists>e. PolicyService_Create p input (d, fs) = (Inl e, (d, fs)) \<and> PolicyService_Update p i input (d, fs) = (Inl e, (d, fs))"
  using assms by (auto simp: PolicyService_Create_def PolicyService_Update_def validateInput_def bind_def)

theorem certificate_policy_refused_witness:
  "\<exists>e. PolicyService_Create 1 (sample_policy\<lparr>apiEntityType := ''certificate''\<rparr>) (sample_db, []) = (Inl e, (sample_db, []))"
  using certificate_policy_refused [of "sample_policy\<lparr>apiEntityType := ''certificate''\<rparr>" 1 sample_db "[]"] by auto

end
