(* ===== verification/RouteApproval.thy ===== *)
theory RouteApproval
  imports RouteState ApprovalInv
begin

text \<open>
  The route half of the approval contract, \<open>src/internal/services/route_approval.go\<close>: what
  becomes of a route when its approval is approved, rejected or cancelled.
\<close>

section \<open>Definitions\<close>

definition applyRouteApprovalSnapshot :: "Route \<Rightarrow> RouteApprovalSnapshot raw option \<Rightarrow> Route m" where
  "applyRouteApprovalSnapshot route raw = (case raw of
     None \<Rightarrow> ret route
   | Some Corrupt \<Rightarrow> throw ErrJSON
   | Some (Doc snapshot) \<Rightarrow> ret (case snRouteConfig snapshot of None \<Rightarrow> route | Some c \<Rightarrow> route\<lparr>rtConfig := c\<rparr>))"

text \<open>The action decides the next status; a route whose status already is the next one is written as it is.\<close>

definition route_settle :: "Route \<Rightarrow> RouteStatus \<Rightarrow> unit m" where
  "route_settle route next =
     (if rtStatus route = next then RouteRepo_Update route
      else bind (To SiteApprovalApproved route next) (\<lambda>_. ret ()))"

definition route_OnApproved :: "Approval \<Rightarrow> unit m" where
  "route_OnApproved a =
     bind (RouteRepo_GetByID (apEntityID a)) (\<lambda>route.
     case apAction a of
       ApprovalActionCreate \<Rightarrow>
         bind (applyRouteApprovalSnapshot route (apConfigSnapshot a)) (\<lambda>route'. route_settle route' RouteStatusApproved)
     | ApprovalActionUpdate \<Rightarrow>
         bind (applyRouteApprovalSnapshot route (apConfigSnapshot a)) (\<lambda>route'. route_settle route' RouteStatusPendingDeploy)
     | ApprovalActionDelete \<Rightarrow> route_settle route RouteStatusPendingDeploy
     | _ \<Rightarrow> throw (Msg ''route approval: unsupported action %q''))"

definition route_OnRejected :: "Approval \<Rightarrow> unit m" where
  "route_OnRejected a =
     bind (RouteRepo_GetByID (apEntityID a)) (\<lambda>route.
     case apAction a of
       ApprovalActionCreate \<Rightarrow> bind (To SiteApprovalRejected route RouteStatusRejected) (\<lambda>_. ret ())
     | ApprovalActionUpdate \<Rightarrow> bind (To SiteApprovalRejected route RouteStatusActive) (\<lambda>_. ret ())
     | ApprovalActionDelete \<Rightarrow> bind (To SiteApprovalRejected route RouteStatusActive) (\<lambda>_. ret ())
     | _ \<Rightarrow> throw (Msg ''route approval: unsupported action %q''))"

definition route_OnCancelled :: "Approval \<Rightarrow> unit m" where
  "route_OnCancelled a =
     (if apAction a = ApprovalActionCreate then RouteRepo_Delete (apEntityID a)
      else if apAction a = ApprovalActionUpdate \<or> apAction a = ApprovalActionDelete then
        bind (RouteRepo_GetByID (apEntityID a)) (\<lambda>route.
        bind (To SiteApprovalCancelled route RouteStatusActive) (\<lambda>_. ret ()))
      else throw (Msg ''route approval: unsupported action %q''))"

definition route_CanCancel :: "Approval \<Rightarrow> User \<Rightarrow> bool m" where
  "route_CanCancel a user =
     (if apEntityType a \<noteq> ApprovalEntityRoute then ret False
      else deny_on_error
        (bind (RouteRepo_GetByID (apEntityID a)) (\<lambda>route. TeamRepo_IsMember (rtTeamID route) (usrID user))))"

definition GetApprovalIDForEntity :: "ApprovalEntityType \<Rightarrow> uuid \<Rightarrow> uuid m" where
  "GetApprovalIDForEntity t i =
     bind (attempt (ApprovalRepo_GetPendingByEntityID t i)) (\<lambda>r.
     case r of Inr a \<Rightarrow> ret (apID a)
     | Inl _ \<Rightarrow>
         bind (attempt (ApprovalRepo_GetLatestApprovedByEntityID t i)) (\<lambda>r'.
         case r' of Inr a \<Rightarrow> ret (apID a) | Inl _ \<Rightarrow> throw (Msg ''no approval found'')))"

definition route_completer :: completer where
  "route_completer = \<lparr>OnApproved = route_OnApproved, OnRejected = route_OnRejected,
     OnCancelled = route_OnCancelled, CanCancel = Some route_CanCancel\<rparr>"

section \<open>Lemmas\<close>

lemma same_gate_routes: "same_gate d0 d \<Longrightarrow> same_gate d0 (d\<lparr>routes := x\<rparr>)"
  by (simp add: same_gate_def)

lemma keeps_gate_To: "keeps (same_gate d0) (To site r next)"
  by (rule keeps_To) (rule same_gate_routes)

lemma keeps_gate_RouteRepo_Update: "keeps (same_gate d0) (RouteRepo_Update r)"
  by (rule keeps_RouteRepo_Update) (rule same_gate_routes)

lemma keeps_RouteRepo_GetByID [simp, intro]: "keeps I (RouteRepo_GetByID i)"
  by (simp add: RouteRepo_GetByID_def)

lemma keeps_apply_snapshot [simp, intro]: "keeps I (applyRouteApprovalSnapshot r raw)"
  by (auto simp: applyRouteApprovalSnapshot_def split: option.splits raw.splits)

lemma keeps_gate_settle: "keeps (same_gate d0) (route_settle r next)"
  unfolding route_settle_def
  by (intro keeps_if keeps_bind keeps_gate_RouteRepo_Update keeps_gate_To keeps_ret)

lemma keeps_route_OnApproved: "keeps (same_gate d0) (route_OnApproved a)"
  unfolding route_OnApproved_def
  by (cases "apAction a") (auto intro!: keeps_bind keeps_gate_settle)

lemma keeps_route_OnRejected: "keeps (same_gate d0) (route_OnRejected a)"
  unfolding route_OnRejected_def
  by (cases "apAction a") (auto intro!: keeps_bind keeps_gate_To)

lemma keeps_route_OnCancelled: "keeps (same_gate d0) (route_OnCancelled a)"
  unfolding route_OnCancelled_def RouteRepo_Delete_def
  by (auto intro!: keeps_if keeps_bind keeps_gate_To keeps_exec simp: same_gate_def delete_routes_def Let_def)

lemma keeps_deny [intro]: "keeps I c \<Longrightarrow> keeps I (deny_on_error c)"
  unfolding deny_on_error_def by (intro keeps_bind keeps_attempt keeps_ret)

lemma keeps_route_CanCancel: "keeps I (route_CanCancel a u)"
  unfolding route_CanCancel_def TeamRepo_IsMember_def by (intro keeps_if keeps_ret keeps_deny keeps_bind keeps_query) simp

lemmas route_completer_frames =
  keeps_route_OnApproved keeps_route_OnRejected keeps_route_OnCancelled keeps_route_CanCancel

section \<open>Properties\<close>

text \<open>The status and the configuration an approved change leads to.\<close>

definition approved_status :: "ApprovalAction \<Rightarrow> RouteStatus" where
  "approved_status action = (if action = ApprovalActionCreate then RouteStatusApproved else RouteStatusPendingDeploy)"

definition snapshot_config :: "Approval \<Rightarrow> Route \<Rightarrow> RouteConfig" where
  "snapshot_config a r = (case apConfigSnapshot a of
     Some (Doc sn) \<Rightarrow> (case snRouteConfig sn of Some c \<Rightarrow> c | None \<Rightarrow> rtConfig r) | _ \<Rightarrow> rtConfig r)"

lemma hoare_route_settle:
  "hoare (\<lambda>d. (rtStatus r = next \<or> legal SiteApprovalApproved (rtStatus r) next \<longrightarrow>
        Q () (d\<lparr>routes := row_save rtID (SyncListenerPort (r\<lparr>rtStatus := next\<rparr>)) (routes d)\<rparr>)) \<and> (\<forall>e. E e d))
      (route_settle r next) Q E"
  unfolding route_settle_def RouteRepo_Update_def by (rule hoare_pre, (rule wp)+) (auto dest!: route_save_Inr)

lemma hoare_snapshot:
  "hoare (\<lambda>d. (\<forall>e. E e d) \<and> (case raw of None \<Rightarrow> Q r d | Some Corrupt \<Rightarrow> True
      | Some (Doc sn) \<Rightarrow> Q (case snRouteConfig sn of None \<Rightarrow> r | Some c \<Rightarrow> r\<lparr>rtConfig := c\<rparr>) d))
     (applyRouteApprovalSnapshot r raw) Q E"
  by (auto simp: applyRouteApprovalSnapshot_def hoare_def split: option.splits raw.splits)



lemma hoare_To_unit:
  "hoare (\<lambda>d. (\<forall>e. E e d) \<and> (rtStatus r = next \<longrightarrow> Q () d) \<and>
      (legal site (rtStatus r) next \<longrightarrow> Q () (d\<lparr>routes := row_save rtID (SyncListenerPort (r\<lparr>rtStatus := next\<rparr>)) (routes d)\<rparr>)))
     (bind (To site r next) (\<lambda>_. ret ())) Q E"
  by (rule hoare_pre, (rule wp)+) auto

text \<open>A rejected request leaves the configuration of the route alone: a rejected create is marked
  rejected and any other route goes to active.\<close>

theorem rejection_keeps_the_config:
  assumes "route_OnRejected a (d, fs) = (res, (d', fs'))"
  shows "case res of Inl _ \<Rightarrow> d' = d
    | Inr _ \<Rightarrow> (\<exists>r r'. row_get rtID (apEntityID a) (routes d) = Some r \<and> row_get rtID (apEntityID a) (routes d') = Some r' \<and>
        rtConfig r' = rtConfig r \<and>
        rtStatus r' = (if apAction a = ApprovalActionCreate then RouteStatusRejected else RouteStatusActive) \<and>
        d'\<lparr>routes := routes d\<rparr> = d)"
proof -
  have "hoare (\<lambda>d'. d' = d) (route_OnRejected a)
    (\<lambda>_ d'. \<exists>r r'. row_get rtID (apEntityID a) (routes d) = Some r \<and> row_get rtID (apEntityID a) (routes d') = Some r' \<and>
        rtConfig r' = rtConfig r \<and>
        rtStatus r' = (if apAction a = ApprovalActionCreate then RouteStatusRejected else RouteStatusActive) \<and>
        d'\<lparr>routes := routes d\<rparr> = d) (\<lambda>_ d'. d' = d)"
    unfolding route_OnRejected_def RouteRepo_GetByID_def
    by (cases "apAction a"; simp; rule hoare_pre, (rule hoare_To_unit | rule wp)+) (auto dest: row_get_key)
  from hoare_run [OF this assms] show ?thesis by (simp split: sum.splits)
qed

theorem rejection_keeps_the_config_witness:
  "\<exists>d' r'. route_OnRejected (sample_approval ApprovalActionUpdate ApprovalStatusRejected) (sample_routes RouteStatusPendingUpdate, []) = (Inr (), (d', [])) \<and>
     row_get rtID 6 (routes d') = Some r' \<and> rtConfig r' = sample_config"
proof -
  let ?a = "sample_approval ApprovalActionUpdate ApprovalStatusRejected"
  let ?m = "route_OnRejected ?a (sample_routes RouteStatusPendingUpdate, [])"
  have ok: "fst ?m = Inr ()" "snd (snd ?m) = []" by code_simp+
  then obtain d' where run: "?m = (Inr (), (d', []))" by (cases ?m) auto
  have e: "apEntityID ?a = 6" "row_get rtID 6 (routes (sample_routes RouteStatusPendingUpdate)) = Some (sample_route RouteStatusPendingUpdate)"
    by (simp_all add: sample_approval_def sample_routes_def sample_route_def row_get_def)
  show ?thesis using rejection_keeps_the_config [OF run] run unfolding e
    by (auto simp: sample_route_def)
qed

end
