(* ===== verification/Attachments.thy ===== *)
theory Attachments
  imports RouteApproval
begin

text \<open>
  Client attachments: \<open>src/internal/services/clients/client_attachment_service.go\<close> (attach from
  either side, detach, and the approval callbacks) and the cascade of a client's changes to
  the routes it is attached to, \<open>client_cascade.go\<close>.
\<close>

section \<open>Definitions\<close>

text \<open>The fields that the two inputs share.\<close>

record AttachFlags =
  afEnableIPAllowlist :: bool
  afEnableAPIKey :: bool
  afEnableJWT :: bool
  afEnableBasicAuth :: bool
  afEnableMTLS :: bool
  afEnableHeaderAuth :: bool
  afRateLimitConfig :: "RateLimitConfig option"
  afExtAuth :: "ExtAuthConfig option"

record AttachFromRouteInput =
  afrClientID :: uuid
  afrFlags :: AttachFlags

record AttachFromClientInput =
  afcRouteID :: uuid
  afcProjectID :: uuid
  afcFlags :: AttachFlags

definition validateMTLSPairing :: "bool \<Rightarrow> Client \<Rightarrow> uuid \<Rightarrow> unit m" where
  "validateMTLSPairing enableMTLS client domid =
     (if \<not> enableMTLS then ret ()
      else
        bind (require (clMTLSEnabled client) (Msg ''client does not have mTLS configured; configure mTLS first'')) (\<lambda>_.
        bind (attempt (DomainSettingsRepo_GetByDomainID domid)) (\<lambda>r.
        require (case r of Inl _ \<Rightarrow> False | Inr s \<Rightarrow> (case dscMTLS (dstConfig s) of None \<Rightarrow> False | Some m \<Rightarrow> dmEnabled m))
          (Msg ''domain mTLS must be enabled before attaching mTLS clients; enable mTLS in domain settings first''))))"

definition flags_check :: "AttachFlags \<Rightarrow> Client \<Rightarrow> check" where
  "flags_check f client = checks
     [fail_if (\<not> afEnableIPAllowlist f \<and> \<not> afEnableAPIKey f \<and> \<not> afEnableJWT f \<and> \<not> afEnableMTLS f)
        ''at least one authentication method must be enabled'',
      fail_if (afEnableAPIKey f \<and> \<not> clAPIKeyEnabled client) ''client does not have an API key configured; generate one first'',
      fail_if (afEnableJWT f \<and> \<not> clJWTEnabled client) ''client does not have JWT configured; configure JWT first'']"

definition credentials_check :: "AttachFlags \<Rightarrow> Client \<Rightarrow> check" where
  "credentials_check f client = checks
     [fail_if (afEnableIPAllowlist f \<and> clIPAddressCount client = 0) ''client has no IP addresses configured; add IP addresses first'',
      fail_if (afEnableHeaderAuth f \<and> clHeaderCount client = 0) ''client has no headers configured; add headers first'',
      check_opt (\<lambda>rl. wrap_check ''rateLimitConfig: %w'' (RateLimitConfig_Validate rl)) (afRateLimitConfig f),
      check_opt (\<lambda>ea. wrap_check ''extAuth: %w'' (ExtAuthConfig_Validate ea)) (afExtAuth f)]"

text \<open>
  The checks on the request, in the order of the code. The call of \<open>validateMTLSPairing\<close>
  evaluates \<open>*route.DomainID\<close> whether mTLS is requested or not.
\<close>

definition validate_attach :: "AttachFlags \<Rightarrow> Client \<Rightarrow> Route \<Rightarrow> unit m" where
  "validate_attach f client route =
     bind (lift_check (flags_check f client)) (\<lambda>_.
     bind (deref ''route.DomainID'' (rtDomainID route)) (\<lambda>domid.
     bind (validateMTLSPairing (afEnableMTLS f) client domid) (\<lambda>_.
     lift_check (credentials_check f client))))"

definition reusable :: "ClientRouteAttachment \<Rightarrow> bool" where
  "reusable a \<longleftrightarrow> attStatus a = AttachmentStatusRemoved \<or> attStatus a = AttachmentStatusRejected"

text \<open>A lookup that fails counts as no attachment; a live attachment refuses the request.\<close>

definition existing_attachment :: "uuid \<Rightarrow> uuid \<Rightarrow> ClientRouteAttachment option m" where
  "existing_attachment client route =
     bind (attempt (AttachmentRepo_GetByClientAndRoute client route)) (\<lambda>r. case r of
       Inl _ \<Rightarrow> ret None
     | Inr a \<Rightarrow>
         bind (require (reusable a) (Msg ''client is already attached or has a pending attachment to this route'')) (\<lambda>_.
         ret (Some a)))"

definition apply_flags :: "AttachFlags \<Rightarrow> uuid \<Rightarrow> ClientRouteAttachment \<Rightarrow> ClientRouteAttachment" where
  "apply_flags f user a =
     a\<lparr>attEnableIPAllowlist := afEnableIPAllowlist f, attEnableAPIKey := afEnableAPIKey f,
       attEnableJWT := afEnableJWT f, attEnableBasicAuth := afEnableBasicAuth f,
       attEnableMTLS := afEnableMTLS f, attEnableHeaderAuth := afEnableHeaderAuth f,
       attRateLimitConfig := afRateLimitConfig f, attExtAuth := afExtAuth f,
       attStatus := AttachmentStatusPendingAttach, attCreatedBy := user\<rparr>"

definition new_attachment :: "uuid \<Rightarrow> uuid \<Rightarrow> ClientRouteAttachment" where
  "new_attachment client route =
     \<lparr>attID = 0, attClientID = client, attRouteID = route, attEnableIPAllowlist = False,
      attEnableAPIKey = False, attEnableJWT = False, attEnableBasicAuth = False, attEnableMTLS = False,
      attEnableHeaderAuth = False, attRateLimitConfig = None, attExtAuth = None,
      attStatus = AttachmentStatusPendingAttach, attCreatedBy = 0\<rparr>"

definition save_attachment ::
  "ClientRouteAttachment option \<Rightarrow> AttachFlags \<Rightarrow> uuid \<Rightarrow> uuid \<Rightarrow> uuid \<Rightarrow> ClientRouteAttachment m" where
  "save_attachment existing f client route user = (case existing of
     Some a \<Rightarrow> bind (AttachmentRepo_Update (apply_flags f user a)) (\<lambda>_. ret (apply_flags f user a))
   | None \<Rightarrow> AttachmentRepo_Create (apply_flags f user (new_attachment client route)))"

definition attachment_spec :: "uuid \<Rightarrow> uuid \<Rightarrow> ApprovalAction \<Rightarrow> uuid \<Rightarrow> Spec" where
  "attachment_spec project att action user =
     \<lparr>spProjectID = project, spEntityType = ApprovalEntityClientAttachment, spEntityID = att, spAction = action,
      spSubmittedBy = user, spConfigSnapshot = None, spPreviousConfig = None, spAIReview = None,
      spChangeDescription = []\<rparr>"

text \<open>The end of both attach operations: the route first, then the attachment, or an approval.\<close>

definition finish_attach ::
  "TransitionSite \<Rightarrow> ClientRouteAttachment \<Rightarrow> Route \<Rightarrow> uuid \<Rightarrow> uuid \<Rightarrow> ClientRouteAttachment m" where
  "finish_attach site att route projectID submittedBy =
     bind (wrap_error ''failed to check project approval settings: %w'' (ProjectRepo_GetByID projectID)) (\<lambda>project.
     if \<not> prjApprovalEnabled project then
       bind (To site route RouteStatusPendingDeploy) (\<lambda>_.
       bind (AttachmentRepo_Update (att\<lparr>attStatus := AttachmentStatusApproved\<rparr>)) (\<lambda>_.
       AttachmentRepo_GetByID (attID att)))
     else
       bind (Submit (attachment_spec projectID (attID att) ApprovalActionAttach submittedBy)) (\<lambda>_.
       AttachmentRepo_GetByID (attID att)))"

definition client_mode :: "Route \<Rightarrow> bool" where
  "client_mode route \<longleftrightarrow> \<not> (rtSecurityMode route = SecurityModeGeneral \<or> rtSecurityMode route = SecurityModeEmpty)"

abbreviation general_mode_error :: error where
  "general_mode_error \<equiv>
     Msg ''client attachments are not available for routes with general security mode; switch to client security mode first''"

definition AttachFromRoute :: "uuid \<Rightarrow> AttachFromRouteInput \<Rightarrow> uuid \<Rightarrow> ClientRouteAttachment m" where
  "AttachFromRoute routeID input submittedBy =
     bind (or_error (Msg ''client not found'') (ClientRepo_GetByID (afrClientID input))) (\<lambda>client.
     bind (or_error (Msg ''route not found'') (RouteRepo_GetByID routeID)) (\<lambda>route.
     bind (require (client_mode route) general_mode_error) (\<lambda>_.
     bind (existing_attachment (clID client) (rtID route)) (\<lambda>existing.
     bind (validate_attach (afrFlags input) client route) (\<lambda>_.
     bind (deref ''route.DomainID'' (rtDomainID route)) (\<lambda>domid.
     bind (or_error (Msg ''domain not found'') (DomainRepo_GetByID domid)) (\<lambda>domain.
     bind (save_attachment existing (afrFlags input) (clID client) (rtID route) submittedBy) (\<lambda>att.
     finish_attach SiteAttachFromRoute att route (domProjectID domain) submittedBy))))))))"

definition AttachFromClient :: "uuid \<Rightarrow> AttachFromClientInput \<Rightarrow> uuid \<Rightarrow> ClientRouteAttachment m" where
  "AttachFromClient clientID input submittedBy =
     bind (or_error (Msg ''client not found'') (ClientRepo_GetByID clientID)) (\<lambda>client.
     bind (or_error (Msg ''route not found'') (RouteRepo_GetByID (afcRouteID input))) (\<lambda>route.
     bind (require (client_mode route) general_mode_error) (\<lambda>_.
     bind (deref ''route.DomainID'' (rtDomainID route)) (\<lambda>domid.
     bind (or_error (Msg ''domain not found'') (DomainRepo_GetByID domid)) (\<lambda>domain.
     bind (require (domProjectID domain = afcProjectID input) (Msg ''route does not belong to the specified project'')) (\<lambda>_.
     bind (existing_attachment (clID client) (rtID route)) (\<lambda>existing.
     bind (validate_attach (afcFlags input) client route) (\<lambda>_.
     bind (save_attachment existing (afcFlags input) (clID client) (rtID route) submittedBy) (\<lambda>att.
     finish_attach SiteAttachFromClient att route (domProjectID domain) submittedBy)))))))))"

definition RequestDetach :: "uuid \<Rightarrow> uuid \<Rightarrow> ClientRouteAttachment m" where
  "RequestDetach attachmentID submittedBy =
     bind (or_error (Msg ''attachment not found'') (AttachmentRepo_GetByID attachmentID)) (\<lambda>att.
     bind (require (attStatus att = AttachmentStatusActive) (Msg ''only active attachments can be detached'')) (\<lambda>_.
     bind (or_error (Msg ''route not found'') (RouteRepo_GetByID (attRouteID att))) (\<lambda>route.
     bind (deref ''route.DomainID'' (rtDomainID route)) (\<lambda>domid.
     bind (or_error (Msg ''domain not found'') (DomainRepo_GetByID domid)) (\<lambda>domain.
     bind (wrap_error ''failed to check project approval settings: %w'' (ProjectRepo_GetByID (domProjectID domain))) (\<lambda>project.
     if \<not> prjApprovalEnabled project then
       bind (To SiteRequestDetach route RouteStatusPendingDeploy) (\<lambda>_.
       bind (AttachmentRepo_Update (att\<lparr>attStatus := AttachmentStatusRemoved\<rparr>)) (\<lambda>_.
       AttachmentRepo_GetByID (attID att)))
     else
       bind (AttachmentRepo_Update (att\<lparr>attStatus := AttachmentStatusPendingDetach\<rparr>)) (\<lambda>_.
       bind (Submit (attachment_spec (domProjectID domain) (attID att) ApprovalActionDetach submittedBy)) (\<lambda>_.
       AttachmentRepo_GetByID (attID att)))))))))"

definition updateRouteStatus :: "uuid \<Rightarrow> RouteStatus \<Rightarrow> unit m" where
  "updateRouteStatus routeID status =
     bind (RouteRepo_GetByID routeID) (\<lambda>route.
     bind (To SiteAttachmentApproved route status) (\<lambda>_. ret ()))"

definition att_OnApproved :: "Approval \<Rightarrow> unit m" where
  "att_OnApproved a =
     bind (AttachmentRepo_GetByID (apEntityID a)) (\<lambda>att.
     bind (AttachmentRepo_Update (att\<lparr>attStatus :=
        (if apAction a = ApprovalActionDetach then AttachmentStatusRemoved else AttachmentStatusApproved)\<rparr>)) (\<lambda>_.
     bind (RouteRepo_GetByID (attRouteID att)) (\<lambda>route.
     if rtStatus route = RouteStatusActive then updateRouteStatus (rtID route) RouteStatusPendingDeploy
     else ret ())))"

definition att_OnRejected :: "Approval \<Rightarrow> unit m" where
  "att_OnRejected a =
     bind (AttachmentRepo_GetByID (apEntityID a)) (\<lambda>att.
     AttachmentRepo_Update (att\<lparr>attStatus := AttachmentStatusRejected\<rparr>))"

definition att_OnCancelled :: "Approval \<Rightarrow> unit m" where
  "att_OnCancelled a = att_OnRejected a"

definition attachment_completer :: completer where
  "attachment_completer = \<lparr>OnApproved = att_OnApproved, OnRejected = att_OnRejected,
     OnCancelled = att_OnCancelled, CanCancel = None\<rparr>"

text \<open>
  The loop of the cascade: a failure is collected and the loop goes on. \<open>cascade_routes\<close>
  returns the failures.
\<close>

fun cascade_routes :: "ClientRouteAttachment list \<Rightarrow> error list m" where
  "cascade_routes [] = ret []"
| "cascade_routes (a # as) =
     (if attStatus a \<noteq> AttachmentStatusActive then cascade_routes as
      else
        bind (attempt (RouteRepo_GetByID (attRouteID a))) (\<lambda>r. case r of
          Inl e \<Rightarrow> bind (cascade_routes as) (\<lambda>es. ret (Wrap ''route %s: %w'' e # es))
        | Inr route \<Rightarrow>
            if rtStatus route \<noteq> RouteStatusActive then cascade_routes as
            else
              bind (attempt (To SiteClientCascade route RouteStatusPendingDeploy)) (\<lambda>r'. case r' of
                Inl e \<Rightarrow> bind (cascade_routes as) (\<lambda>es. ret (Wrap ''route %s: %w'' e # es))
              | Inr _ \<Rightarrow> cascade_routes as)))"

definition cascadeToAttachedRoutes :: "uuid \<Rightarrow> (uuid \<Rightarrow> ClientRouteAttachment list m) \<Rightarrow> unit m" where
  "cascadeToAttachedRoutes clientID list =
     bind (wrap_error ''cascade %q for client %s: list attachments: %w'' (list clientID)) (\<lambda>as.
     bind (cascade_routes as) (\<lambda>failures.
     if failures \<noteq> [] then throw (Wrap ''cascade %q for client %s: %w'' (Join failures)) else ret ()))"

definition attachmentsWithIPAllowlist :: "uuid \<Rightarrow> ClientRouteAttachment list m" where
  "attachmentsWithIPAllowlist = AttachmentRepo_ListActiveByClientIDWith attEnableIPAllowlist"

definition attachmentsWithHeaderAuth :: "uuid \<Rightarrow> ClientRouteAttachment list m" where
  "attachmentsWithHeaderAuth = AttachmentRepo_ListActiveByClientIDWith attEnableHeaderAuth"

definition attachmentsWithAPIKey :: "uuid \<Rightarrow> ClientRouteAttachment list m" where
  "attachmentsWithAPIKey = AttachmentRepo_ListActiveByClientIDWith attEnableAPIKey"

definition attachmentsWithJWT :: "uuid \<Rightarrow> ClientRouteAttachment list m" where
  "attachmentsWithJWT = AttachmentRepo_ListActiveByClientIDWith attEnableJWT"

definition allAttachments :: "uuid \<Rightarrow> ClientRouteAttachment list m" where
  "allAttachments = AttachmentRepo_ListByClientID"

section \<open>Frames\<close>

lemma keeps_gate_AttachmentRepo_Update: "keeps (same_gate d0) (AttachmentRepo_Update a)"
  unfolding AttachmentRepo_Update_def by (rule keeps_exec) (simp add: same_gate_def)

lemma keeps_AttachmentRepo_GetByID [simp, intro]: "keeps I (AttachmentRepo_GetByID i)"
  by (simp add: AttachmentRepo_GetByID_def)

lemma keeps_gate_updateRouteStatus: "keeps (same_gate d0) (updateRouteStatus i s)"
  unfolding updateRouteStatus_def by (intro keeps_bind keeps_RouteRepo_GetByID keeps_gate_To keeps_ret)

lemma keeps_att_OnApproved: "keeps (same_gate d0) (att_OnApproved a)"
  unfolding att_OnApproved_def
  by (intro keeps_bind keeps_AttachmentRepo_GetByID keeps_gate_AttachmentRepo_Update keeps_RouteRepo_GetByID
      keeps_if keeps_gate_updateRouteStatus keeps_ret)

lemma keeps_att_OnRejected: "keeps (same_gate d0) (att_OnRejected a)"
  unfolding att_OnRejected_def
  by (intro keeps_bind keeps_AttachmentRepo_GetByID keeps_gate_AttachmentRepo_Update)

lemma keeps_att_OnCancelled: "keeps (same_gate d0) (att_OnCancelled a)"
  by (simp add: att_OnCancelled_def keeps_att_OnRejected)

lemmas attachment_completer_frames = keeps_att_OnApproved keeps_att_OnRejected keeps_att_OnCancelled

section \<open>The cascade\<close>

text \<open>A route that needs no redeploy for a change of its clients: it is not active.\<close>

definition not_active :: "db \<Rightarrow> uuid \<Rightarrow> bool" where
  "not_active d i \<longleftrightarrow> (\<exists>r. row_get rtID i (routes d) = Some r \<and> rtStatus r \<noteq> RouteStatusActive)"

text \<open>Some active routes have moved to \<open>pending_deploy\<close>; nothing else has changed.\<close>

definition cascaded :: "db \<Rightarrow> db \<Rightarrow> bool" where
  "cascaded d0 d \<longleftrightarrow>
     (\<forall>i. row_get rtID i (routes d) = row_get rtID i (routes d0) \<or>
        (\<exists>r. row_get rtID i (routes d0) = Some r \<and> rtStatus r = RouteStatusActive \<and>
             row_get rtID i (routes d) = Some (SyncListenerPort (r\<lparr>rtStatus := RouteStatusPendingDeploy\<rparr>)))) \<and>
     d\<lparr>routes := []\<rparr> = d0\<lparr>routes := []\<rparr>"

lemma cascaded_refl [simp]: "cascaded d d"
  by (simp add: cascaded_def)

lemma cascaded_not_active: "cascaded d0 d \<Longrightarrow> not_active d0 i \<Longrightarrow> not_active d i"
  unfolding cascaded_def not_active_def by (metis option.inject)

lemma cascaded_trans:
  assumes "cascaded a b" "cascaded b c" shows "cascaded a c"
proof -
  have "row_get rtID i (routes c) = row_get rtID i (routes a) \<or>
      (\<exists>r. row_get rtID i (routes a) = Some r \<and> rtStatus r = RouteStatusActive \<and>
        row_get rtID i (routes c) = Some (SyncListenerPort (r\<lparr>rtStatus := RouteStatusPendingDeploy\<rparr>)))" for i
    using assms unfolding cascaded_def by (cases "row_get rtID i (routes a)") (auto dest!: spec [of _ i])
  then show ?thesis using assms unfolding cascaded_def by simp
qed

lemma cascaded_To:
  assumes "row_get rtID i (routes d) = Some r"
    and "To SiteClientCascade r RouteStatusPendingDeploy (d, fs) = (res, (d', fs'))" "rtStatus r = RouteStatusActive"
  shows "cascaded d d'" "res = Inr x \<Longrightarrow> not_active d' i"
  using run_To [OF assms(2)] assms(1,3) row_get_key [OF assms(1)]
  by (auto simp: cascaded_def not_active_def split: sum.splits)

lemma run_RouteRepo_GetByID:
  "RouteRepo_GetByID i (d, fs) = (res, (d', fs')) \<Longrightarrow> d' = d \<and> (\<forall>r. res = Inr r \<longrightarrow> row_get rtID i (routes d) = Some r)"
  by (auto simp: RouteRepo_GetByID_def query_def reads_def call_def split: list.splits if_splits)

lemma cascade_loop:
  "cascade_routes as (d, fs) = (res, (d', fs')) \<Longrightarrow>
   cascaded d d' \<and> (\<exists>es. res = Inr es \<and>
     (es = [] \<longrightarrow> (\<forall>a \<in> set as. attStatus a = AttachmentStatusActive \<longrightarrow> not_active d' (attRouteID a))))"
proof (induction as arbitrary: d fs res d' fs')
  case (Cons a as)
  show ?case
  proof (cases "attStatus a = AttachmentStatusActive")
    case False
    then show ?thesis using Cons by auto
  next
    case True
    obtain r1 d1 fs1 where get: "RouteRepo_GetByID (attRouteID a) (d, fs) = (r1, (d1, fs1))" by (metis prod.exhaust)
    then have d1: "d1 = d" using run_RouteRepo_GetByID by blast
    consider (lost) e where "r1 = Inl e"
      | (idle) r where "r1 = Inr r" "rtStatus r \<noteq> RouteStatusActive"
      | (live) r where "r1 = Inr r" "rtStatus r = RouteStatusActive" by (cases r1) auto
    then show ?thesis
    proof cases
      case lost
      then show ?thesis using Cons.prems True get d1
        by (auto simp: bind_def attempt_def dest!: Cons.IH split: prod.splits sum.splits)
    next
      case idle
      then have "not_active d (attRouteID a)"
        using run_RouteRepo_GetByID [OF get] by (auto simp: not_active_def)
      with idle show ?thesis using Cons.prems True get d1
        by (auto simp: bind_def attempt_def dest!: Cons.IH dest: cascaded_not_active)
    next
      case live
      obtain r2 d2 fs2 where to: "To SiteClientCascade r RouteStatusPendingDeploy (d, fs1) = (r2, (d2, fs2))"
        by (metis prod.exhaust)
      have row: "row_get rtID (attRouteID a) (routes d) = Some r" using run_RouteRepo_GetByID [OF get] live by simp
      note step = cascaded_To [OF row to live(2)]
      show ?thesis using Cons.prems True get d1 to live step
        by (auto simp: bind_def attempt_def dest!: Cons.IH dest: cascaded_not_active intro: cascaded_trans
            split: prod.splits sum.splits)
    qed
  qed
qed simp

section \<open>The order of the writes\<close>

text \<open>
  What the comments in the service ask for: an attachment is marked approved or removed only
  when its route is queued for a redeploy.
\<close>

definition settled :: "ClientRouteAttachment \<Rightarrow> bool" where
  "settled a \<longleftrightarrow> attStatus a = AttachmentStatusApproved \<or> attStatus a = AttachmentStatusRemoved"

definition queued :: "db \<Rightarrow> uuid \<Rightarrow> bool" where
  "queued d i \<longleftrightarrow> (\<exists>r. row_get rtID i (routes d) = Some r \<and> rtStatus r = RouteStatusPendingDeploy)"

definition settled_queued :: "db \<Rightarrow> db \<Rightarrow> bool" where
  "settled_queued d0 d \<longleftrightarrow> (\<forall>a \<in> set (attachments d). settled a \<longrightarrow> a \<in> set (attachments d0) \<or> queued d (attRouteID a))"

lemma settled_queued_refl [simp]: "settled_queued d d"
  by (simp add: settled_queued_def)

lemma settled_queued_frame:
  "settled_queued d0 d \<Longrightarrow> attachments d' = attachments d \<Longrightarrow> routes d' = routes d \<Longrightarrow> settled_queued d0 d'"
  by (simp add: settled_queued_def queued_def)

lemma settled_queued_save:
  "settled_queued d0 d \<Longrightarrow> (settled a \<Longrightarrow> queued d (attRouteID a)) \<Longrightarrow>
   settled_queued d0 (d\<lparr>attachments := row_save attID a (attachments d)\<rparr>)"
  using set_row_save [of attID a "attachments d"] by (auto simp: settled_queued_def queued_def)

lemma keeps_settled_Submit: "keeps (settled_queued d0) (Submit spec)"
  by (rule keeps_Submit_frame) (erule settled_queued_frame, simp_all)

lemma queued_after_To:
  "rtID r' = i \<Longrightarrow> rtStatus r' = RouteStatusPendingDeploy \<Longrightarrow> queued (d\<lparr>routes := row_save rtID r' (routes d)\<rparr>) i"
  by (simp add: queued_def)

text \<open>The route of a request: the row as it was read, so a no-op of \<open>To\<close> means it is queued already.\<close>

lemma settled_queued_To:
  assumes "settled_queued d0 d"
  shows "settled_queued d0 (d\<lparr>routes := row_save rtID (SyncListenerPort (r\<lparr>rtStatus := RouteStatusPendingDeploy\<rparr>)) (routes d)\<rparr>)"
  using assms by (auto simp: settled_queued_def queued_def)

lemma hoare_AttachmentRepo_Update [wp]:
  "hoare (\<lambda>d. E ErrDB d \<and> Q () (d\<lparr>attachments := row_save attID a (attachments d)\<rparr>)) (AttachmentRepo_Update a) Q E"
  unfolding AttachmentRepo_Update_def by (rule wp)

lemma settled_queued_To_save:
  assumes "settled_queued d0 d" "attRouteID a = rtID r"
  shows "settled_queued d0 (d\<lparr>routes := row_save rtID (SyncListenerPort (r\<lparr>rtStatus := RouteStatusPendingDeploy\<rparr>)) (routes d),
     attachments := row_save attID a (attachments d)\<rparr>)"
  using settled_queued_save [OF settled_queued_To [OF assms(1)], where a = a and r1 = r] assms(2)
  by (simp add: queued_after_To)

text \<open>The fast path that attach and detach share.\<close>

lemma hoare_fast_path:
  "hoare (\<lambda>d. settled_queued d0 d \<and> row_get rtID (rtID r) (routes d) = Some r \<and> attRouteID a = rtID r)
     (bind (To site r RouteStatusPendingDeploy) (\<lambda>_. bind (AttachmentRepo_Update a) (\<lambda>_. AttachmentRepo_GetByID i)))
     (\<lambda>_. settled_queued d0) (\<lambda>_. settled_queued d0)"
  unfolding AttachmentRepo_GetByID_def
  by (rule hoare_pre, (rule wp)+)
    (auto simp: settled_queued_To settled_queued_To_save queued_def intro!: settled_queued_save)

lemma hoare_slow_path:
  "hoare (settled_queued d0) (bind (Submit s) (\<lambda>_. AttachmentRepo_GetByID i)) (\<lambda>_. settled_queued d0) (\<lambda>_. settled_queued d0)"
  by (rule keeps_hoare) (intro keeps_bind keeps_settled_Submit keeps_AttachmentRepo_GetByID)

lemma hoare_finish_attach:
  "hoare (\<lambda>d. settled_queued d0 d \<and> row_get rtID (rtID r) (routes d) = Some r \<and> attRouteID a = rtID r)
     (finish_attach site a r p u) (\<lambda>_. settled_queued d0) (\<lambda>_. settled_queued d0)"
  unfolding finish_attach_def ProjectRepo_GetByID_def
  by (rule hoare_pre, (rule hoare_slow_path hoare_fast_path | rule wp)+) auto

lemma hoare_get_route:
  "hoare (\<lambda>d. (\<forall>r. row_get rtID i (routes d) = Some r \<longrightarrow> rtID r = i \<longrightarrow> Q r d) \<and> (\<forall>e. E e d)) (RouteRepo_GetByID i) Q E"
  unfolding RouteRepo_GetByID_def by (rule hoare_pre, rule wp) (auto dest: row_get_key)

lemma hoare_save_attachment:
  "hoare (\<lambda>d. d = d0 \<and> row_get rtID i (routes d) = Some r \<and> (\<forall>a. existing = Some a \<longrightarrow> attRouteID a = i))
     (save_attachment existing f c i u)
     (\<lambda>a d. settled_queued d0 d \<and> row_get rtID i (routes d) = Some r \<and> attRouteID a = i) (\<lambda>_. settled_queued d0)"
  unfolding save_attachment_def AttachmentRepo_Create_def
  by (rule hoare_pre, (rule wp)+)
    (auto simp: apply_flags_def new_attachment_def settled_queued_def settled_def split: option.splits if_splits
      dest!: subsetD [OF set_row_save])

lemma hoare_existing_attachment:
  "hoare (\<lambda>d. d = d0) (existing_attachment c i) (\<lambda>x d. d = d0 \<and> (\<forall>a. x = Some a \<longrightarrow> attRouteID a = i)) (\<lambda>_ d. d = d0)"
  unfolding existing_attachment_def AttachmentRepo_GetByClientAndRoute_def
  by (rule hoare_pre, (rule wp)+) (auto simp: find_Some_iff)

lemma hoare_validate_attach: "hoare (\<lambda>d. d = d0) (validate_attach f c r) (\<lambda>_ d. d = d0 \<and> True) (\<lambda>_ d. d = d0)"
  unfolding validate_attach_def validateMTLSPairing_def DomainSettingsRepo_GetByDomainID_def
  by (rule hoare_pre, (rule wp)+) auto

lemma hoare_get_client: "hoare (\<lambda>d. d = d0) (ClientRepo_GetByID i) (\<lambda>_ d. d = d0 \<and> True) (\<lambda>_ d. d = d0)"
  unfolding ClientRepo_GetByID_def by (rule hoare_pre, (rule wp)+) auto

lemmas attach_rules = hoare_finish_attach hoare_get_route hoare_save_attachment
  hoare_readonly [OF hoare_existing_attachment] hoare_readonly [OF hoare_validate_attach] hoare_readonly [OF hoare_get_client]

lemma hoare_AttachFromRoute:
  "hoare (\<lambda>d. d = d0) (AttachFromRoute i input u) (\<lambda>_. settled_queued d0) (\<lambda>_. settled_queued d0)"
  unfolding AttachFromRoute_def DomainRepo_GetByID_def
  by (rule hoare_pre, (rule attach_rules | rule wp)+) auto

lemma hoare_AttachFromClient:
  "hoare (\<lambda>d. d = d0) (AttachFromClient i input u) (\<lambda>_. settled_queued d0) (\<lambda>_. settled_queued d0)"
  unfolding AttachFromClient_def DomainRepo_GetByID_def
  by (rule hoare_pre, (rule attach_rules | rule wp)+) auto

lemma hoare_RequestDetach:
  "hoare (\<lambda>d. d = d0) (RequestDetach i u) (\<lambda>_. settled_queued d0) (\<lambda>_. settled_queued d0)"
  unfolding RequestDetach_def DomainRepo_GetByID_def ProjectRepo_GetByID_def AttachmentRepo_GetByID_def [of i]
  by (rule hoare_pre, (rule hoare_slow_path hoare_fast_path hoare_get_route | rule wp)+)
    (auto simp: settled_def intro!: settled_queued_save)

section \<open>Properties\<close>

definition sample_detached :: "(error + ClientRouteAttachment) \<times> db \<times> bool list" where
  "sample_detached = RequestDetach 11 7 (sample_attached False, [])"

text \<open>C15. Whatever call to the store fails, an attach or detach request never leaves an attachment newly
  approved or removed unless its route is queued for a redeploy.\<close>

theorem attachments_settle_after_their_route:
  assumes "run \<in> {AttachFromRoute i fromRoute u (d, fs), AttachFromClient i fromClient u (d, fs), RequestDetach i u (d, fs)}"
    and "run = (res, (d', fs'))" "a \<in> set (attachments d')" "a \<notin> set (attachments d)" "settled a"
  shows "queued d' (attRouteID a)"
proof -
  have "settled_queued d d'"
    using assms(1,2) hoare_run [OF hoare_AttachFromRoute, of i fromRoute u d fs res d' fs']
      hoare_run [OF hoare_AttachFromClient, of i fromClient u d fs res d' fs']
      hoare_run [OF hoare_RequestDetach, of i u d fs res d' fs']
    by (auto split: sum.splits)
  then show ?thesis using assms(3-5) by (auto simp: settled_queued_def)
qed

theorem attachments_settle_after_their_route_witness:
  "settled (sample_attachment AttachmentStatusRemoved) \<and> queued (fst (snd sample_detached)) 6"
proof -
  have "sample_attachment AttachmentStatusRemoved \<in> set (attachments (fst (snd sample_detached)))"
    "sample_attachment AttachmentStatusRemoved \<notin> set (attachments (sample_attached False))" by code_simp+
  moreover have s: "settled (sample_attachment AttachmentStatusRemoved)" "attRouteID (sample_attachment AttachmentStatusRemoved) = 6"
    by code_simp+
  ultimately show ?thesis
    using attachments_settle_after_their_route [of sample_detached 11 undefined 7 "sample_attached False" "[]" undefined
        "fst sample_detached" "fst (snd sample_detached)" "snd (snd sample_detached)" "sample_attachment AttachmentStatusRemoved"]
    by (simp add: sample_detached_def)
qed

definition sample_cascade :: "(error + unit) \<times> db \<times> bool list" where
  "sample_cascade = cascadeToAttachedRoutes 10 attachmentsWithAPIKey (sample_attached True, [])"

text \<open>A change of a client queues the routes it is attached to: the cascade moves active routes to
  \<open>pending_deploy\<close> and changes nothing else, and when it reports success no route of a listed
  active attachment is still active.\<close>

theorem cascade_reaches_every_route:
  assumes "cascadeToAttachedRoutes client list (d, fs) = (res, (d', fs'))"
    and "list client (d, fs) = (Inr as, (d, fs1))"
  shows "cascaded d d' \<and> (res = Inr () \<longrightarrow>
     (\<forall>a \<in> set as. attStatus a = AttachmentStatusActive \<longrightarrow> not_active d' (attRouteID a)))"
proof -
  obtain r d2 fs2 where loop: "cascade_routes as (d, fs1) = (r, (d2, fs2))" by (metis prod.exhaust)
  note loop' = cascade_loop [OF loop]
  then obtain es where es: "r = Inr es" by blast
  have "(res, d') = (if es = [] then Inr () else Inl (Wrap ''cascade %q for client %s: %w'' (Join es)), d2)"
    using assms loop es by (auto simp: cascadeToAttachedRoutes_def wrap_error_def bind_def attempt_def split: if_splits)
  then show ?thesis using loop' es by (auto split: if_splits)
qed

theorem cascade_reaches_every_route_witness:
  "fst sample_cascade = Inr () \<and> not_active (fst (snd sample_cascade)) 6"
proof -
  have list: "attachmentsWithAPIKey 10 (sample_attached True, []) = (Inr [sample_attachment AttachmentStatusActive], (sample_attached True, []))"
    by (simp add: attachmentsWithAPIKey_def AttachmentRepo_ListActiveByClientIDWith_def sample_attached_def sample_attachment_def)
  have ok: "fst sample_cascade = Inr ()" by code_simp
  have run: "cascadeToAttachedRoutes 10 attachmentsWithAPIKey (sample_attached True, []) =
      (fst sample_cascade, (fst (snd sample_cascade), snd (snd sample_cascade)))" by (simp add: sample_cascade_def)
  show ?thesis using cascade_reaches_every_route [OF run list] ok by (auto simp: sample_attachment_def)
qed

text \<open>Rejecting a request to detach marks the attachment rejected, although it is still deployed on
  the route.\<close>

theorem rejected_detach_is_marked_rejected:
  assumes "row_get attID (apEntityID a) (attachments d) = Some att" "apAction a = ApprovalActionDetach"
  shows "att_OnRejected a (d, []) =
    (Inr (), (d\<lparr>attachments := row_save attID (att\<lparr>attStatus := AttachmentStatusRejected\<rparr>) (attachments d)\<rparr>, []))"
  using assms by (simp add: att_OnRejected_def AttachmentRepo_GetByID_def AttachmentRepo_Update_def bind_def)

theorem rejected_detach_is_marked_rejected_witness:
  "fst (snd (att_OnRejected ((sample_approval ApprovalActionDetach ApprovalStatusRejected)\<lparr>apEntityID := 11\<rparr>)
     ((sample_attached True)\<lparr>attachments := [sample_attachment AttachmentStatusPendingDetach]\<rparr>, []))) =
   (sample_attached True)\<lparr>attachments := [sample_attachment AttachmentStatusRejected]\<rparr>"
  using rejected_detach_is_marked_rejected [of "(sample_approval ApprovalActionDetach ApprovalStatusRejected)\<lparr>apEntityID := 11\<rparr>"
      "(sample_attached True)\<lparr>attachments := [sample_attachment AttachmentStatusPendingDetach]\<rparr>" "sample_attachment AttachmentStatusPendingDetach"]
  by (simp add: sample_approval_def sample_attachment_def row_get_def)

text \<open>The approval of a detach writes the attachment before the route: when the read of the route
  fails, the attachment is removed and the route is not queued.\<close>

theorem approved_detach_not_atomic:
  assumes "row_get attID (apEntityID a) (attachments d) = Some att" "apAction a = ApprovalActionDetach"
  shows "\<exists>d'. att_OnApproved a (d, [False, False, True]) = (Inl ErrDB, (d', [])) \<and>
    routes d' = routes d \<and> row_get attID (apEntityID a) (attachments d') = Some (att\<lparr>attStatus := AttachmentStatusRemoved\<rparr>)"
  using assms row_get_key [OF assms(1)]
  by (simp add: att_OnApproved_def AttachmentRepo_GetByID_def AttachmentRepo_Update_def RouteRepo_GetByID_def bind_def
      query_def exec_def reads_def writes_def call_def)

theorem approved_detach_not_atomic_witness:
  "\<exists>d'. att_OnApproved ((sample_approval ApprovalActionDetach ApprovalStatusApproved)\<lparr>apEntityID := 11\<rparr>)
     ((sample_attached True)\<lparr>attachments := [sample_attachment AttachmentStatusPendingDetach]\<rparr>, [False, False, True]) = (Inl ErrDB, (d', [])) \<and>
     routes d' = [sample_route RouteStatusActive]"
  using approved_detach_not_atomic [of "(sample_approval ApprovalActionDetach ApprovalStatusApproved)\<lparr>apEntityID := 11\<rparr>"
      "(sample_attached True)\<lparr>attachments := [sample_attachment AttachmentStatusPendingDetach]\<rparr>" "sample_attachment AttachmentStatusPendingDetach"]
  by (auto simp: sample_approval_def sample_attachment_def sample_attached_def sample_routes_def row_get_def)

end
