(* ===== verification/Certificates.thy ===== *)
theory Certificates
  imports ApprovalInv
begin

text \<open>
  Managed certificates: \<open>src/internal/services/managed_certificate_service.go\<close> (create, export,
  delete and the approval callbacks), \<open>managed_certificate_validate.go\<close> and the single-use
  export grants of \<open>src/internal/repository/certificate_export_grant_repository.go\<close>.

  The control-plane cluster is part of the store (\<open>cp_objects\<close>, \<open>cp_secrets\<close>); a call to it
  can fail with \<open>ErrK8s\<close> and no effect. \<open>time.Now\<close> is \<open>clock\<close>, in seconds. PEM and
  PKCS#10 decoding of a CSR (\<open>validateCSRPEM\<close>) belongs to packages outside the sources
  and is the parameter \<open>csr_ok\<close>.
\<close>

section \<open>Repositories\<close>

definition CertRepo_GetByID :: "uuid \<Rightarrow> ManagedCertificate m" where
  "CertRepo_GetByID i = query (\<lambda>d. found (row_get mcID i (managed_certificates d)))"

definition CertRepo_Create :: "ManagedCertificate \<Rightarrow> ManagedCertificate m" where
  "CertRepo_Create c = inserts ErrDB (\<lambda>d. Inr (c\<lparr>mcID := next_id d\<rparr>, d\<lparr>next_id := Suc (next_id d),
     managed_certificates := managed_certificates d @ [c\<lparr>mcID := next_id d\<rparr>]\<rparr>))"

definition CertRepo_Update :: "ManagedCertificate \<Rightarrow> unit m" where
  "CertRepo_Update c = exec (\<lambda>d. d\<lparr>managed_certificates := row_save mcID c (managed_certificates d)\<rparr>)"

text \<open>
  A certificate that a domain or a client refers to cannot be deleted
  (\<open>ON DELETE RESTRICT\<close>); its export grants go with it.
\<close>

definition CertRepo_Delete :: "uuid \<Rightarrow> unit m" where
  "CertRepo_Delete i = updates ErrDB (\<lambda>d.
     if list_ex (\<lambda>x. domManagedCertificateID x = Some i) (domains d) \<or>
        list_ex (\<lambda>x. clManagedCertificateID x = Some i) (clients d) then Inl ErrDB
     else Inr (d\<lparr>managed_certificates := row_delete mcID i (managed_certificates d),
                 export_grants := filter (\<lambda>g. cegManagedCertificateID g \<noteq> i) (export_grants d)\<rparr>))"

definition IssuerRepo_GetByID :: "uuid \<Rightarrow> CertificateIssuer m" where
  "IssuerRepo_GetByID i = query (\<lambda>d. found (row_get ciID i (certificate_issuers d)))"

definition IssuerGrantRepo_Exists :: "uuid \<Rightarrow> uuid \<Rightarrow> bool m" where
  "IssuerGrantRepo_Exists issuer project = query (\<lambda>d. Inr ((issuer, project) \<in> set (issuer_project_grants d)))"

text \<open>A grant needs its certificate (\<open>REFERENCES managed_certificates(id)\<close>).\<close>

definition ExportGrantRepo_Create :: "uuid \<Rightarrow> uuid \<Rightarrow> nat \<Rightarrow> unit m" where
  "ExportGrantRepo_Create cert user minutes = updates ErrDB (\<lambda>d.
     if row_get mcID cert (managed_certificates d) = None then Inl ErrDB
     else Inr (d\<lparr>next_id := Suc (next_id d),
       export_grants := export_grants d @ [\<lparr>cegID = next_id d, cegManagedCertificateID = cert,
         cegGrantedTo = user, cegExpiresAt = clock d + 60 * minutes, cegConsumedAt = None\<rparr>]\<rparr>))"

definition usable :: "db \<Rightarrow> uuid \<Rightarrow> uuid \<Rightarrow> CertificateExportGrant \<Rightarrow> bool" where
  "usable d cert user g \<longleftrightarrow> cegManagedCertificateID g = cert \<and> cegGrantedTo g = user \<and>
     cegConsumedAt g = None \<and> clock d < cegExpiresAt g"

text \<open>Find and mark in one transaction with a row lock: one atomic step of the store.\<close>

definition ConsumeForCert :: "uuid \<Rightarrow> uuid \<Rightarrow> CertificateExportGrant m" where
  "ConsumeForCert cert user = inserts ErrDB (\<lambda>d.
     case List.find (usable d cert user) (rev (export_grants d)) of
       None \<Rightarrow> Inl ErrExportGrantUnavailable
     | Some g \<Rightarrow> (let g' = g\<lparr>cegConsumedAt := Some (clock d)\<rparr> in
         Inr (g', d\<lparr>export_grants := row_save cegID g' (export_grants d)\<rparr>)))"

definition HasUsableGrant :: "uuid \<Rightarrow> uuid \<Rightarrow> bool m" where
  "HasUsableGrant cert user = query (\<lambda>d. Inr (list_ex (usable d cert user) (export_grants d)))"

definition ListUsableGrantCertIDs :: "uuid \<Rightarrow> uuid list \<Rightarrow> uuid list m" where
  "ListUsableGrantCertIDs user certs =
     (if certs = [] then ret []
      else query (\<lambda>d. Inr (remdups (map cegManagedCertificateID (filter
        (\<lambda>g. cegManagedCertificateID g \<in> set certs \<and> usable d (cegManagedCertificateID g) user g) (export_grants d))))))"

section \<open>The cluster\<close>

definition same_object :: "cp_object \<Rightarrow> cp_object \<Rightarrow> bool" where
  "same_object a b \<longleftrightarrow> cpName a = cpName b \<and> is_LeafCertificate a = is_LeafCertificate b"

definition ApplyNamespaced :: "cp_object \<Rightarrow> unit m" where
  "ApplyNamespaced obj = writes ErrK8s (\<lambda>d.
     d\<lparr>cp_objects := filter (\<lambda>x. \<not> same_object x obj) (cp_objects d) @ [obj]\<rparr>)"

definition cp_Delete_certificate :: "string \<Rightarrow> unit m" where
  "cp_Delete_certificate name = writes ErrK8s (\<lambda>d.
     d\<lparr>cp_objects := filter (\<lambda>x. \<not> (is_LeafCertificate x \<and> cpName x = name)) (cp_objects d)\<rparr>)"

definition cp_Get_secret :: "string \<Rightarrow> secret_data m" where
  "cp_Get_secret name = reads ErrK8s (\<lambda>d. map_sum id snd (case row_get fst name (cp_secrets d) of
     None \<Rightarrow> Inl ErrK8s | Some s \<Rightarrow> Inr s))"

definition decode_key :: "secret_data \<Rightarrow> string \<Rightarrow> string m" where
  "decode_key data k = (case map_of data k of
     None \<Rightarrow> throw (Msg ''secret %q missing key'')
   | Some None \<Rightarrow> throw (Msg ''decoding value from secret %q: %w'')
   | Some (Some v) \<Rightarrow> ret v)"

definition readTLSSecret :: "string \<Rightarrow> (string \<times> string) m" where
  "readTLSSecret name =
     bind (cp_Get_secret name) (\<lambda>data.
     bind (require (data \<noteq> []) (Msg ''secret %q has no data'')) (\<lambda>_.
     bind (require (map_of data ''tls.crt'' \<noteq> None) (Msg ''secret %q missing tls.crt'')) (\<lambda>_.
     bind (require (map_of data ''tls.key'' \<noteq> None) (Msg ''secret %q missing tls.key'')) (\<lambda>_.
     bind (decode_key data ''tls.crt'') (\<lambda>crt.
     bind (decode_key data ''tls.key'') (\<lambda>key. ret (crt, key)))))))"

definition readCASecret :: "string \<Rightarrow> string m" where
  "readCASecret name =
     bind (cp_Get_secret name) (\<lambda>data.
     bind (require (data \<noteq> []) (Msg ''secret %q has no data'')) (\<lambda>_.
     if map_of data ''ca.crt'' \<noteq> None then decode_key data ''ca.crt'' else decode_key data ''tls.crt''))"

section \<open>Validation\<close>

definition ValidateCertificateKind ::
  "ManagedCertUsage \<Rightarrow> ManagedCertKeyMode \<Rightarrow> IssuerType \<Rightarrow> error + unit" where
  "ValidateCertificateKind usage keyMode issuerType =
     (if usage = ManagedCertUsageClient \<and> issuerType \<noteq> IssuerTypeSelfSignedCA then Inl ErrClientRequiresPrivateCA
      else if keyMode = ManagedCertKeyModeCSR \<and> usage \<noteq> ManagedCertUsageClient then Inl ErrCSRRequiresClient
      else if usage = ManagedCertUsageServer \<and> keyMode \<noteq> ManagedCertKeyModeManaged then Inl ErrServerRequiresManagedKey
      else Inr ())"

record CreateCertificateInput =
  cciName :: string
  cciIssuerID :: uuid
  cciUsage :: ManagedCertUsage
  cciDNSNames :: "string list"
  cciSubject :: string
  cciKeyAlgorithm :: string
  cciKeySize :: int
  cciDurationDays :: int
  cciKeyMode :: ManagedCertKeyMode
  cciURISANs :: "string list"
  cciCSR :: string

definition validateCreateCertificateInput :: "CreateCertificateInput \<Rightarrow> error + unit" where
  "validateCreateCertificateInput input =
     (if cciIssuerID input = 0 then Inl (Msg ''issuerId is required'')
      else case cciUsage input of
        ManagedCertUsageServer \<Rightarrow>
          if cciDNSNames input = [] then Inl (Msg ''at least one DNS name is required for a server certificate'') else Inr ()
      | ManagedCertUsageClient \<Rightarrow>
          if cciSubject input = [] then Inl (Msg ''subject is required for a client certificate'') else Inr ()
      | ManagedCertUsageOther _ \<Rightarrow> Inl (Msg ''unsupported certificate usage: %q''))"

section \<open>The service\<close>

text \<open>The object of a create approval, by key mode.\<close>

definition certificate_object :: "ManagedCertificate \<Rightarrow> CertificateIssuer \<Rightarrow> cp_object" where
  "certificate_object cert issuer =
     (if mccKeyMode (mcConfig cert) = ManagedCertKeyModeCSR
      then CertificateRequest (mccCertificateName (mcConfig cert)) (ciIssuerName issuer)
             (mccCSRPEM (mcConfig cert)) (mccDurationDays (mcConfig cert))
      else LeafCertificate (mccCertificateName (mcConfig cert)) (mccSecretName (mcConfig cert)) (mcName cert)
             (ciIssuerName issuer) (mccDNSNames (mcConfig cert)) (mccSubject (mcConfig cert))
             (mccKeyAlgorithm (mcConfig cert)) (mccKeySize (mcConfig cert)) (mccDurationDays (mcConfig cert))
             (mcUsage cert) (mccURISANs (mcConfig cert)))"

text \<open>\<open>err.Error()\<close>, up to the verbs of a format string; the cluster's own text is not modelled.\<close>

fun error_text :: "error \<Rightarrow> string" where
  "error_text (Msg s) = s"
| "error_text (Wrap f e) = f"
| "error_text _ = ''cluster error''"

definition cert_OnApproved :: "Approval \<Rightarrow> unit m" where
  "cert_OnApproved a =
     (if apAction a = ApprovalActionExport then ExportGrantRepo_Create (apEntityID a) (apSubmittedBy a) 15
      else
        bind (CertRepo_GetByID (apEntityID a)) (\<lambda>cert.
        bind (IssuerRepo_GetByID (mcIssuerID cert)) (\<lambda>issuer.
        bind (attempt (ApplyNamespaced (certificate_object cert issuer))) (\<lambda>r.
        case r of
          Inl e \<Rightarrow>
            bind (attempt (CertRepo_Update (cert\<lparr>mcStatus := ManagedCertStatusError, mcStatusMessage := error_text e\<rparr>)))
              (\<lambda>_. throw e)
        | Inr _ \<Rightarrow> CertRepo_Update (cert\<lparr>mcStatus := ManagedCertStatusIssuing, mcStatusMessage := []\<rparr>)))))"

definition cert_OnRejected :: "Approval \<Rightarrow> unit m" where
  "cert_OnRejected a =
     (if apAction a = ApprovalActionCreate then
        bind (CertRepo_GetByID (apEntityID a)) (\<lambda>cert.
        CertRepo_Update (cert\<lparr>mcStatus := ManagedCertStatusError, mcStatusMessage := ''certificate creation was rejected''\<rparr>))
      else if apAction a = ApprovalActionExport then ret ()
      else throw (Msg ''certificate approval: unsupported action %q''))"

definition cert_OnCancelled :: "Approval \<Rightarrow> unit m" where
  "cert_OnCancelled a =
     (if apAction a = ApprovalActionCreate then CertRepo_Delete (apEntityID a)
      else if apAction a = ApprovalActionExport then ret ()
      else throw (Msg ''certificate approval: unsupported action %q''))"

definition cert_completer :: completer where
  "cert_completer = \<lparr>OnApproved = cert_OnApproved, OnRejected = cert_OnRejected,
     OnCancelled = cert_OnCancelled, CanCancel = None\<rparr>"

text \<open>
  The snapshot of a create is the request as JSON; read as a route snapshot it has none of
  that type's fields.
\<close>

definition request_snapshot :: RouteApprovalSnapshot where
  "request_snapshot = \<lparr>snRouteConfig = None, snSecurityPolicy = None, snBackendTrafficPolicy = None,
     snEnvoyExtensionPolicy = None, snWafPolicy = None\<rparr>"

definition cert_spec :: "uuid \<Rightarrow> uuid \<Rightarrow> ApprovalAction \<Rightarrow> uuid \<Rightarrow> Spec" where
  "cert_spec project cert action user =
     \<lparr>spProjectID = project, spEntityType = ApprovalEntityCertificate, spEntityID = cert, spAction = action,
      spSubmittedBy = user,
      spConfigSnapshot = (if action = ApprovalActionCreate then Some (Doc request_snapshot) else None), spPreviousConfig = None, spAIReview = None,
      spChangeDescription = []\<rparr>"

text \<open>The approval that the fast path passes to \<open>OnApproved\<close>; it is never stored.\<close>

definition fast_approval :: "uuid \<Rightarrow> uuid \<Rightarrow> ApprovalAction \<Rightarrow> uuid \<Rightarrow> Approval" where
  "fast_approval project cert action user =
     \<lparr>apID = 0, apProjectID = project, apEntityType = ApprovalEntityCertificate, apEntityID = cert,
      apAction = action, apConfigSnapshot = None, apPreviousConfig = None, apSubmittedBy = user,
      apStatus = ApprovalStatusPending, apChangeDescription = [], apAIReview = None, apStages = []\<rparr>"

definition default_key_mode :: "ManagedCertKeyMode \<Rightarrow> ManagedCertKeyMode" where
  "default_key_mode k = (if k = ManagedCertKeyModeEmpty then ManagedCertKeyModeManaged else k)"

definition cert_config :: "CreateCertificateInput \<Rightarrow> uuid \<Rightarrow> ManagedCertConfig" where
  "cert_config input i =
     \<lparr>mccDNSNames = cciDNSNames input, mccSubject = cciSubject input,
      mccSecretName = ''cert-'' @ show_nat i, mccCertificateName = ''cert-'' @ show_nat i,
      mccKeyAlgorithm = (if cciKeyAlgorithm input = [] then ''RSA'' else cciKeyAlgorithm input),
      mccKeySize = (if cciKeySize input = 0 then 2048 else cciKeySize input),
      mccDurationDays = (if cciDurationDays input = 0 then 90 else cciDurationDays input),
      mccKeyMode = default_key_mode (cciKeyMode input), mccURISANs = cciURISANs input,
      mccCSRPEM = (if default_key_mode (cciKeyMode input) = ManagedCertKeyModeCSR then cciCSR input else [])\<rparr>"

definition cert_Create ::
  "(string \<Rightarrow> bool) \<Rightarrow> uuid \<Rightarrow> CreateCertificateInput \<Rightarrow> uuid \<Rightarrow> (ManagedCertificate \<times> Approval option) m" where
  "cert_Create csr_ok projectID input createdBy =
     bind (lift_check (validateCreateCertificateInput input)) (\<lambda>_.
     bind (wrap_error ''check issuer grant: %w'' (IssuerGrantRepo_Exists (cciIssuerID input) projectID)) (\<lambda>granted.
     bind (require granted (Msg ''issuer is not granted to this project'')) (\<lambda>_.
     bind (wrap_error ''load issuer: %w'' (IssuerRepo_GetByID (cciIssuerID input))) (\<lambda>issuer.
     bind (require (ciIssuerName issuer \<noteq> []) (Msg ''issuer has no resolved issuer'')) (\<lambda>_.
     let keyMode = default_key_mode (cciKeyMode input) in
     bind (lift_check (ValidateCertificateKind (cciUsage input) keyMode (ciType issuer))) (\<lambda>_.
     bind (require (keyMode = ManagedCertKeyModeCSR \<longrightarrow> cciCSR input \<noteq> []) ErrCSRRequired) (\<lambda>_.
     bind (require (keyMode = ManagedCertKeyModeCSR \<longrightarrow> csr_ok (cciCSR input)) (Msg ''invalid CSR: %w'')) (\<lambda>_.
     bind (wrap_error ''create certificate: %w'' (CertRepo_Create
       \<lparr>mcID = 0, mcProjectID = projectID, mcName = cciName input, mcIssuerID = cciIssuerID input,
        mcUsage = cciUsage input, mcConfig = ManagedCertConfig_zero, mcStatus = ManagedCertStatusPending,
        mcStatusMessage = [], mcCreatedBy = createdBy\<rparr>)) (\<lambda>cert0.
     let cert = cert0\<lparr>mcConfig := cert_config input (mcID cert0)\<rparr> in
     bind (wrap_error ''persist certificate config: %w'' (CertRepo_Update cert)) (\<lambda>_.
     bind (wrap_error ''load project: %w'' (ProjectRepo_GetByID projectID)) (\<lambda>project.
     if \<not> prjApprovalEnabled project then
       bind (cert_OnApproved (fast_approval projectID (mcID cert) ApprovalActionCreate createdBy)) (\<lambda>_.
       bind (CertRepo_GetByID (mcID cert)) (\<lambda>cert'. ret (cert', None)))
     else
       bind (Submit (cert_spec projectID (mcID cert) ApprovalActionCreate createdBy)) (\<lambda>a.
       ret (cert, Some a)))))))))))))"

definition RequestExport :: "uuid \<Rightarrow> uuid \<Rightarrow> Approval option m" where
  "RequestExport certID requestedBy =
     bind (CertRepo_GetByID certID) (\<lambda>cert.
     bind (require (mccKeyMode (mcConfig cert) \<noteq> ManagedCertKeyModeCSR) ErrExportNotApplicable) (\<lambda>_.
     bind (require (mcStatus cert = ManagedCertStatusReady) ErrCertificateNotReadyForExport) (\<lambda>_.
     bind (wrap_error ''load project: %w'' (ProjectRepo_GetByID (mcProjectID cert))) (\<lambda>project.
     if \<not> prjApprovalEnabled project then
       bind (cert_OnApproved (fast_approval (mcProjectID cert) (mcID cert) ApprovalActionExport requestedBy)) (\<lambda>_. ret None)
     else
       bind (Submit (cert_spec (mcProjectID cert) (mcID cert) ApprovalActionExport requestedBy)) (\<lambda>a. ret (Some a))))))"

definition ExportBundle :: "uuid \<Rightarrow> uuid \<Rightarrow> (string \<times> string \<times> string) m" where
  "ExportBundle certID userID =
     bind (ConsumeForCert certID userID) (\<lambda>_.
     bind (CertRepo_GetByID certID) (\<lambda>cert.
     bind (IssuerRepo_GetByID (mcIssuerID cert)) (\<lambda>issuer.
     bind (wrap_error ''read leaf secret: %w'' (readTLSSecret (mccSecretName (mcConfig cert)))) (\<lambda>(leaf, key).
     bind (wrap_error ''read issuer CA secret: %w'' (readCASecret (ciCASecretName issuer))) (\<lambda>ca.
     ret (leaf, key, ca))))))"

text \<open>The deletions in the tenant's cluster after the row are best effort; only the leaf is in the model's cluster.\<close>

definition cert_Delete :: "uuid \<Rightarrow> unit m" where
  "cert_Delete i =
     bind (CertRepo_GetByID i) (\<lambda>cert.
     bind (wrap_error ''check domain references: %w''
        (query (\<lambda>d. Inr (filter (\<lambda>x. domManagedCertificateID x = Some i) (domains d))))) (\<lambda>doms.
     bind (require (doms = []) ErrCertificateInUse) (\<lambda>_.
     bind (attempt (query (\<lambda>d. found (List.find (\<lambda>x. clManagedCertificateID x = Some i) (clients d))))) (\<lambda>r.
     case r of
       Inr _ \<Rightarrow> throw ErrCertificateInUse
     | Inl e \<Rightarrow>
         if \<not> errors_Is e ErrRecordNotFound then throw e
         else
           bind (CertRepo_Delete i) (\<lambda>_.
           bind (attempt (cp_Delete_certificate (mccCertificateName (mcConfig cert)))) (\<lambda>_. ret ()))))))"

section \<open>Frames\<close>

lemma keeps_gate_Cert:
  "keeps (same_gate d0) (CertRepo_GetByID i)" "keeps (same_gate d0) (CertRepo_Update c)"
  "keeps (same_gate d0) (CertRepo_Delete i)" "keeps (same_gate d0) (IssuerRepo_GetByID i)"
  "keeps (same_gate d0) (ApplyNamespaced obj)" "keeps (same_gate d0) (ExportGrantRepo_Create j u n)"
  by (auto simp: CertRepo_GetByID_def CertRepo_Update_def CertRepo_Delete_def IssuerRepo_GetByID_def
      ApplyNamespaced_def ExportGrantRepo_Create_def same_gate_def split: if_splits intro!: keeps_exec keeps_updates keeps_writes)

lemma keeps_cert_OnApproved: "keeps (same_gate d0) (cert_OnApproved a)"
  unfolding cert_OnApproved_def
  by (intro keeps_if keeps_bind keeps_attempt keeps_case_sum keeps_gate_Cert keeps_throw)

lemma keeps_cert_OnRejected: "keeps (same_gate d0) (cert_OnRejected a)"
  unfolding cert_OnRejected_def by (intro keeps_if keeps_bind keeps_gate_Cert keeps_throw keeps_ret)

lemma keeps_cert_OnCancelled: "keeps (same_gate d0) (cert_OnCancelled a)"
  unfolding cert_OnCancelled_def by (intro keeps_if keeps_gate_Cert keeps_throw keeps_ret)

lemmas cert_completer_frames = keeps_cert_OnApproved keeps_cert_OnRejected keeps_cert_OnCancelled

section \<open>Export grants\<close>

definition grants :: "db \<Rightarrow> uuid \<Rightarrow> uuid \<Rightarrow> nat" where
  "grants d cert user = length (filter (usable d cert user) (export_grants d))"

definition grants_inv :: "db \<Rightarrow> bool" where
  "grants_inv d \<longleftrightarrow> distinct (map cegID (export_grants d)) \<and> (\<forall>g \<in> set (export_grants d). cegID g < next_id d)"

lemma usable_clock: "clock d' = clock d \<Longrightarrow> usable d' = usable d"
  by (simp add: usable_def fun_eq_iff)

lemma filter_row_save_consumed:
  assumes "distinct (map key rs)" "r \<in> set rs" "P r" "key r' = key r" "\<not> P r'"
  shows "length (filter P rs) = Suc (length (filter P (row_save key r' rs)))"
  using assms
proof (induction rs)
  case (Cons x xs)
  show ?case
  proof (cases "key x = key r")
    case True
    then have "x = r" using Cons.prems by (auto simp: image_iff)
    then show ?thesis using Cons.prems by simp
  next
    case False
    then show ?thesis using Cons by auto
  qed
qed simp

text \<open>One grant of this user for this certificate is used up, and no other grant changes.\<close>

lemma hoare_ConsumeForCert:
  "hoare (\<lambda>d. d = d0) (ConsumeForCert c u)
     (\<lambda>g d. 0 < grants d0 c u \<and> d = d0\<lparr>export_grants := row_save cegID g (export_grants d0)\<rparr> \<and>
        cegConsumedAt g = Some (clock d0) \<and>
        (\<exists>g0 \<in> set (export_grants d0). usable d0 c u g0 \<and> g = g0\<lparr>cegConsumedAt := Some (clock d0)\<rparr>))
     (\<lambda>e d. d = d0 \<and> (e = ErrDB \<or> e = ErrExportGrantUnavailable \<and> grants d0 c u = 0))"
  unfolding ConsumeForCert_def
  by (rule hoare_pre, rule wp)
    (auto simp: Let_def grants_def find_Some_iff find_None_iff filter_empty_conv rev_nth split: option.splits
      intro!: bexI [OF _ nth_mem])

lemma consumed_grants:
  assumes "grants_inv d" "g0 \<in> set (export_grants d)" "usable d c u g0" "g = g0\<lparr>cegConsumedAt := Some t\<rparr>"
    and "d' = d\<lparr>export_grants := row_save cegID g (export_grants d)\<rparr>"
  shows "grants d c u = Suc (grants d' c u)"
proof -
  have "\<not> usable d c u g" using assms(4) by (simp add: usable_def)
  moreover have "usable d' = usable d" by (rule usable_clock) (simp add: assms(5))
  moreover have "export_grants d' = row_save cegID g (export_grants d)" by (simp add: assms(5))
  moreover have "cegID g = cegID g0" by (simp add: assms(4))
  ultimately show ?thesis
    using filter_row_save_consumed [of cegID "export_grants d" g0 "usable d c u" g] assms(1-3)
    by (simp add: grants_def grants_inv_def)
qed

lemma hoare_Consume_count:
  assumes "grants_inv d0"
  shows "hoare (\<lambda>d. d = d0) (ConsumeForCert c u) (\<lambda>_ d. Suc (grants d c u) = grants d0 c u) (\<lambda>_ d. d = d0)"
  by (rule hoare_post [OF hoare_ConsumeForCert])
    (elim conjE bexE, rule sym, rule consumed_grants [OF assms], assumption+, simp)

text \<open>Reading the secrets and the rows changes nothing.\<close>

lemma keeps_export_reads:
  "keeps I (CertRepo_GetByID i)" "keeps I (IssuerRepo_GetByID i)" "keeps I (readTLSSecret n)" "keeps I (readCASecret n)"
  unfolding CertRepo_GetByID_def IssuerRepo_GetByID_def readTLSSecret_def readCASecret_def cp_Get_secret_def decode_key_def
  by (auto intro!: keeps_bind keeps_reads keeps_if keeps_case_option keeps_require split: option.splits)

lemma hoare_ExportBundle:
  "hoare (\<lambda>d. d = d0 \<and> grants_inv d) (ExportBundle c u)
     (\<lambda>_ d. Suc (grants d c u) = grants d0 c u)
     (\<lambda>e d. d = d0 \<or> Suc (grants d c u) = grants d0 c u)"
proof -
  have rest: "hoare I (bind (CertRepo_GetByID c) (\<lambda>cert.
     bind (IssuerRepo_GetByID (mcIssuerID cert)) (\<lambda>issuer.
     bind (wrap_error ''read leaf secret: %w'' (readTLSSecret (mccSecretName (mcConfig cert)))) (\<lambda>(leaf, key).
     bind (wrap_error ''read issuer CA secret: %w'' (readCASecret (ciCASecretName issuer))) (\<lambda>ca.
     ret (leaf, key, ca)))))) (\<lambda>_. I) (\<lambda>_. I)" for I :: "db \<Rightarrow> bool"
    by (rule keeps_hoare) (auto intro!: keeps_bind keeps_wrap_error keeps_export_reads split: prod.splits)
  show ?thesis
    unfolding ExportBundle_def
  proof (rule hoare_bind)
    show "hoare (\<lambda>d. d = d0 \<and> grants_inv d) (ConsumeForCert c u)
       (\<lambda>_ d. Suc (grants d c u) = grants d0 c u) (\<lambda>e d. d = d0 \<or> Suc (grants d c u) = grants d0 c u)"
      by (cases "grants_inv d0", rule hoare_pre [OF hoare_post [OF hoare_Consume_count]], simp_all)
        (simp add: hoare_def)
  qed (rule hoare_post [OF rest], auto)
qed

section \<open>The approval gate\<close>

text \<open>With approvals on, a request neither issues a certificate nor mints a grant.\<close>

definition nothing_issued :: "db \<Rightarrow> db \<Rightarrow> bool" where
  "nothing_issued d0 d \<longleftrightarrow> projects d = projects d0 \<and> cp_objects d = cp_objects d0 \<and> export_grants d = export_grants d0"

definition approvals_on :: "db \<Rightarrow> uuid \<Rightarrow> bool" where
  "approvals_on d p \<longleftrightarrow> (case row_get prjID p (projects d) of None \<Rightarrow> False | Some q \<Rightarrow> prjApprovalEnabled q)"

lemma keeps_nothing_issued_Submit: "keeps (nothing_issued d0) (Submit spec)"
  by (rule keeps_Submit_frame) (simp add: nothing_issued_def)

lemmas gate_rules = hoare_bind [OF _ keeps_hoare [OF keeps_nothing_issued_Submit]]
  hoare_False [where m = "bind (cert_OnApproved a) f" for a f]

lemma hoare_RequestExport_gate:
  "hoare (\<lambda>d. d = d0 \<and> (\<forall>c. row_get mcID i (managed_certificates d) = Some c \<longrightarrow> approvals_on d0 (mcProjectID c)))
     (RequestExport i u) (\<lambda>_. nothing_issued d0) (\<lambda>_. nothing_issued d0)"
  unfolding RequestExport_def CertRepo_GetByID_def ProjectRepo_GetByID_def
  by (rule hoare_pre, (rule gate_rules | rule wp)+)
    (auto simp: nothing_issued_def approvals_on_def split: option.splits)

lemma hoare_cert_Create_gate:
  "hoare (\<lambda>d. d = d0 \<and> approvals_on d0 p) (cert_Create csr_ok p input u) (\<lambda>_. nothing_issued d0) (\<lambda>_. nothing_issued d0)"
  unfolding cert_Create_def IssuerGrantRepo_Exists_def IssuerRepo_GetByID_def CertRepo_Create_def CertRepo_Update_def
    ProjectRepo_GetByID_def Let_def
  by (rule hoare_pre, (rule gate_rules | rule wp)+)
    (auto simp: nothing_issued_def approvals_on_def split: option.splits)

section \<open>Properties\<close>

lemma keeps_grants_inv_OnApproved: "keeps grants_inv (cert_OnApproved a)"
  unfolding cert_OnApproved_def ExportGrantRepo_Create_def CertRepo_GetByID_def IssuerRepo_GetByID_def ApplyNamespaced_def
    CertRepo_Update_def
  by (intro keeps_if keeps_bind keeps_attempt keeps_case_sum keeps_query keeps_throw keeps_updates keeps_writes keeps_exec)
    (fastforce simp: grants_inv_def less_Suc_eq split: if_splits)+

lemma keeps_grants_inv_Consume: "keeps grants_inv (ConsumeForCert c u)"
proof -
  have "grants_inv (d\<lparr>export_grants := row_save cegID (g\<lparr>cegConsumedAt := t\<rparr>) (export_grants d)\<rparr>)"
    if "grants_inv d" "g \<in> set (export_grants d)" for d g t
    using that set_row_save [of cegID "g\<lparr>cegConsumedAt := t\<rparr>" "export_grants d"] by (auto simp: grants_inv_def)
  then show ?thesis unfolding ConsumeForCert_def
    by (intro keeps_inserts) (auto simp: Let_def dest: find_Some_mem split: option.splits)
qed

lemma keeps_grants_inv_Export: "keeps grants_inv (ExportBundle c u)"
  unfolding ExportBundle_def
  by (intro keeps_bind keeps_grants_inv_Consume keeps_export_reads keeps_wrap_error keeps_ret) (auto split: prod.splits intro!: keeps_bind keeps_wrap_error keeps_export_reads)

text \<open>A ready certificate with one usable grant and the secrets that an export reads.\<close>

definition sample_cert :: ManagedCertificate where
  "sample_cert = \<lparr>mcID = 14, mcProjectID = 1, mcName = ''edge'', mcIssuerID = 15, mcUsage = ManagedCertUsageServer,
     mcConfig = ManagedCertConfig_zero\<lparr>mccSecretName := ''cert-14'', mccKeyMode := ManagedCertKeyModeManaged\<rparr>,
     mcStatus = ManagedCertStatusReady, mcStatusMessage = [], mcCreatedBy = 7\<rparr>"

definition sample_certs :: db where
  "sample_certs = sample_store\<lparr>clock := 5, managed_certificates := [sample_cert],
     certificate_issuers := [\<lparr>ciID = 15, ciName = ''ca'', ciType = IssuerTypeSelfSignedCA, ciIssuerName = ''ca'', ciCASecretName = ''ca''\<rparr>],
     issuer_project_grants := [(15, 1)],
     export_grants := [\<lparr>cegID = 16, cegManagedCertificateID = 14, cegGrantedTo = 7, cegExpiresAt = 9, cegConsumedAt = None\<rparr>],
     cp_secrets := [(''cert-14'', [(''tls.crt'', Some ''c''), (''tls.key'', Some ''k'')]), (''ca'', [(''ca.crt'', Some ''a'')])]\<rparr>"

definition sample_export :: "(error + string \<times> string \<times> string) \<times> db \<times> bool list" where
  "sample_export = ExportBundle 14 7 (sample_certs, [])"

text \<open>C16. An export that returns the key has used up exactly one usable grant of the user for the
  certificate; a failed export has used up one or none.\<close>

theorem export_consumes_one_grant:
  assumes "ExportBundle c u (d, fs) = (res, (d', fs'))" "grants_inv d"
  shows "case res of Inr _ \<Rightarrow> Suc (grants d' c u) = grants d c u
    | Inl _ \<Rightarrow> d' = d \<or> Suc (grants d' c u) = grants d c u"
proof -
  have "hoare (\<lambda>d'. d' = d) (ExportBundle c u) (\<lambda>_ d'. Suc (grants d' c u) = grants d c u)
     (\<lambda>_ d'. d' = d \<or> Suc (grants d' c u) = grants d c u)"
    by (rule hoare_pre [OF hoare_ExportBundle]) (use assms(2) in simp)
  from hoare_run [OF this assms(1)] show ?thesis by (simp split: sum.splits)
qed

theorem export_consumes_one_grant_witness:
  "fst sample_export = Inr (''c'', ''k'', ''a'') \<and> grants sample_certs 14 7 = 1 \<and> grants (fst (snd sample_export)) 14 7 = 0"
proof -
  have ok: "fst sample_export = Inr (''c'', ''k'', ''a'')" "grants sample_certs 14 7 = 1" by code_simp+
  have inv: "grants_inv sample_certs" by (simp add: grants_inv_def sample_certs_def sample_store_def)
  have run: "ExportBundle 14 7 (sample_certs, []) = (fst sample_export, (fst (snd sample_export), snd (snd sample_export)))"
    by (simp add: sample_export_def)
  show ?thesis using export_consumes_one_grant [OF run inv] ok by simp
qed

definition sample_request_export :: "(error + Approval option) \<times> db \<times> bool list" where
  "sample_request_export = RequestExport 14 7 (sample_certs, [])"

text \<open>C17. With approvals on, a request for an export mints no grant and applies nothing to the cluster,
  whatever fails.\<close>

theorem export_waits_for_approval:
  assumes "RequestExport i u (d, fs) = (res, (d', fs'))"
    and "row_get mcID i (managed_certificates d) = Some c" "approvals_on d (mcProjectID c)"
  shows "nothing_issued d d'"
proof -
  have "hoare (\<lambda>d'. d' = d) (RequestExport i u) (\<lambda>_. nothing_issued d) (\<lambda>_. nothing_issued d)"
    by (rule hoare_pre [OF hoare_RequestExport_gate]) (use assms(2,3) in simp)
  from hoare_run [OF this assms(1)] show ?thesis by (simp split: sum.splits)
qed

theorem export_waits_for_approval_witness:
  "\<not> isl (fst sample_request_export) \<and> nothing_issued sample_certs (fst (snd sample_request_export))"
proof -
  have ok: "\<not> isl (fst sample_request_export)" by code_simp
  have run: "RequestExport 14 7 (sample_certs, []) = (fst sample_request_export, (fst (snd sample_request_export), snd (snd sample_request_export)))"
    by (simp add: sample_request_export_def)
  have "row_get mcID 14 (managed_certificates sample_certs) = Some sample_cert" "approvals_on sample_certs (mcProjectID sample_cert)"
    by code_simp+
  from export_waits_for_approval [OF run this] ok show ?thesis by simp
qed

definition sample_cert_input :: CreateCertificateInput where
  "sample_cert_input = \<lparr>cciName = ''api'', cciIssuerID = 15, cciUsage = ManagedCertUsageServer, cciDNSNames = [''a.example''],
     cciSubject = [], cciKeyAlgorithm = [], cciKeySize = 0, cciDurationDays = 0, cciKeyMode = ManagedCertKeyModeEmpty,
     cciURISANs = [], cciCSR = []\<rparr>"

definition sample_cert_created :: "(error + ManagedCertificate \<times> Approval option) \<times> db \<times> bool list" where
  "sample_cert_created = cert_Create (\<lambda>_. True) 1 sample_cert_input 7 (sample_certs, [])"

text \<open>With approvals on, a request for a certificate applies nothing to the cluster and mints no
  grant, whatever fails.\<close>

theorem create_waits_for_approval:
  assumes "cert_Create csr_ok p input u (d, fs) = (res, (d', fs'))" "approvals_on d p"
  shows "nothing_issued d d'"
proof -
  have "hoare (\<lambda>d'. d' = d) (cert_Create csr_ok p input u) (\<lambda>_. nothing_issued d) (\<lambda>_. nothing_issued d)"
    by (rule hoare_pre [OF hoare_cert_Create_gate]) (use assms(2) in simp)
  from hoare_run [OF this assms(1)] show ?thesis by (simp split: sum.splits)
qed

theorem create_waits_for_approval_witness:
  "\<not> isl (fst sample_cert_created) \<and> nothing_issued sample_certs (fst (snd sample_cert_created))"
proof -
  have ok: "\<not> isl (fst sample_cert_created)" by code_simp
  have run: "cert_Create (\<lambda>_. True) 1 sample_cert_input 7 (sample_certs, []) =
      (fst sample_cert_created, (fst (snd sample_cert_created), snd (snd sample_cert_created)))"
    by (simp add: sample_cert_created_def)
  have "approvals_on sample_certs 1" by code_simp
  from create_waits_for_approval [OF run this] ok show ?thesis by simp
qed

text \<open>The combinations of usage, key mode and issuer that are accepted: server certificates with a
  managed key, client certificates of a private CA.\<close>

theorem certificate_kinds:
  "ValidateCertificateKind usage keyMode issuerType = Inr () \<longleftrightarrow>
     (case usage of
        ManagedCertUsageServer \<Rightarrow> keyMode = ManagedCertKeyModeManaged
      | ManagedCertUsageClient \<Rightarrow> issuerType = IssuerTypeSelfSignedCA
      | ManagedCertUsageOther _ \<Rightarrow> keyMode \<noteq> ManagedCertKeyModeCSR)"
  by (cases usage) (auto simp: ValidateCertificateKind_def)

end
