(* ===== verification/Engine.thy ===== *)
theory Engine
  imports RouteApproval Attachments Certificates
begin

text \<open>
  The wiring of \<open>src/cmd/server/main.go\<close>: the three completers registered with the approval
  engine. The interpretation discharges the contract of \<open>ApprovalInv\<close> for them, so every
  fact proved there holds of the engine as the server runs it.
\<close>

definition main_completers :: completers where
  "main_completers =
     Register ApprovalEntityCertificate cert_completer
       (Register ApprovalEntityClientAttachment attachment_completer
         (Register ApprovalEntityRoute route_completer no_completers))"

lemma main_completers_cases:
  assumes "main_completers t = Some c"
  obtains "t = ApprovalEntityRoute" "c = route_completer"
  | "t = ApprovalEntityClientAttachment" "c = attachment_completer"
  | "t = ApprovalEntityCertificate" "c = cert_completer"
  using assms by (auto simp: main_completers_def Register_def no_completers_def split: if_splits)

interpretation main: completer_contract main_completers
proof
  fix t c d0 a
  assume c: "main_completers t = Some c"
  show "keeps (same_gate d0) (OnApproved c a)"
    using c by (rule main_completers_cases)
      (simp_all add: route_completer_def attachment_completer_def cert_completer_def route_completer_frames
        attachment_completer_frames cert_completer_frames)
  show "keeps (same_gate d0) (OnRejected c a)"
    using c by (rule main_completers_cases)
      (simp_all add: route_completer_def attachment_completer_def cert_completer_def route_completer_frames
        attachment_completer_frames cert_completer_frames)
  show "keeps (same_gate d0) (OnCancelled c a)"
    using c by (rule main_completers_cases)
      (simp_all add: route_completer_def attachment_completer_def cert_completer_def route_completer_frames
        attachment_completer_frames cert_completer_frames)
next
  fix t c f d0 a u
  assume c: "main_completers t = Some c" and f: "CanCancel c = Some f"
  show "keeps (\<lambda>d. d = d0) (f a u)"
    using c f by (cases rule: main_completers_cases)
      (auto simp: route_completer_def attachment_completer_def cert_completer_def keeps_route_CanCancel)
qed

end
