(* ===== verification/Ports.thy ===== *)
theory Ports
  imports Cluster "HOL-Library.List_Lexorder" "HOL-Library.Char_ord" "HOL-Library.Product_Lexorder"
begin

text \<open>
  Listener ports of streams: \<open>src/internal/services/stream_port_collision.go\<close>,
  \<open>src/internal/models/stream_port.go\<close>, and the port queries of
  \<open>src/internal/repository/stream_repository.go\<close> and \<open>domain_repository.go\<close>.

  A listener is a pair of a transport and a port. A stream claims listeners; a route of the
  stream uses one of them. On a merged template all streams and domains share one proxy, so
  their listeners must not meet.
\<close>

section \<open>Claims\<close>

definition StreamPorts_Has :: "StreamPort list \<Rightarrow> string \<Rightarrow> int \<Rightarrow> bool" where
  "StreamPorts_Has p transport port \<longleftrightarrow> list_ex (\<lambda>c. spTransport c = transport \<and> spPort c = port) p"

definition claim_key :: "StreamPort \<Rightarrow> string \<times> int" where
  "claim_key c = (spTransport c, spPort c)"

definition StreamPorts_Normalize :: "StreamPort list \<Rightarrow> StreamPort list" where
  "StreamPorts_Normalize p = sort_key claim_key (map (\<lambda>c. c\<lparr>spTransport := ToUpper (spTransport c)\<rparr>) p)"

record ReservedPorts =
  rpEnvoyInternal :: "int list"
  rpDomainDefaults :: "int list"

definition DefaultReservedPorts :: ReservedPorts where
  "DefaultReservedPorts = \<lparr>rpEnvoyInternal = [19000, 19001], rpDomainDefaults = []\<rparr>"

definition ValidateListenerPort :: "int \<Rightarrow> ReservedPorts \<Rightarrow> check" where
  "ValidateListenerPort port reserved = checks
     [fail_with (port < 1 \<or> port > 65535) (Wrap ''%w: got %d'' ErrInvalidListenerPort),
      fail_with (port \<in> set (rpEnvoyInternal reserved)) (Wrap ''%w: %d is used internally by Envoy'' ErrReservedPort),
      fail_with (port \<in> set (rpDomainDefaults reserved))
        (Wrap ''%w: %d is the HTTP/HTTPS port of a domain-enabled merged gateway template'' ErrReservedPort)]"

definition templateDomainDefaults :: "DomainTemplate \<Rightarrow> int list" where
  "templateDomainDefaults tmpl = (if \<not> dtMergeGateways tmpl then [] else map tlPort (HostnameRouted (dtListeners tmpl)))"

definition templatePortRange :: "DomainTemplate \<Rightarrow> (int \<times> int) option" where
  "templatePortRange tmpl = StreamRange (dtListeners tmpl)"

definition checkPortInRange :: "int \<Rightarrow> DomainTemplate \<Rightarrow> check" where
  "checkPortInRange port tmpl = (case templatePortRange tmpl of
     None \<Rightarrow> Inl (Wrap ''%w: template %q has no TCP/UDP range'' ErrPortOutOfRange)
   | Some (lo, hi) \<Rightarrow> fail_with (port < lo \<or> port > hi) (Wrap ''%w: %d not in %d-%d'' ErrPortOutOfRange))"

section \<open>Ports in use\<close>

type_synonym PortUse = "string \<times> int"

definition hasPortUse :: "PortUse list \<Rightarrow> string \<Rightarrow> int \<Rightarrow> bool" where
  "hasPortUse used transport port \<longleftrightarrow> list_ex (\<lambda>u. u = (transport, port)) used"

text \<open>
  The JSON of a configuration has no \<open>listenerPort\<close> where the field is 0 (\<open>omitempty\<close>), so
  \<open>IS NOT NULL\<close> is \<open>\<noteq> 0\<close>. A snapshot that does not decode names no port.
\<close>

definition snapshot_port :: "RouteApprovalSnapshot raw option \<Rightarrow> int option" where
  "snapshot_port s = (case s of Some (Doc sn) \<Rightarrow> (case snRouteConfig sn of
       Some c \<Rightarrow> if rcListenerPort c \<noteq> 0 then Some (rcListenerPort c) else None | None \<Rightarrow> None) | _ \<Rightarrow> None)"

record L4PortOwner =
  poTransport :: string
  poPort :: int
  poStreamID :: uuid
  poStreamName :: string
  poRouteID :: uuid
  poRouteName :: string
  poStatus :: RouteStatus
  poPending :: bool

definition port_owner :: "Stream \<Rightarrow> Route \<Rightarrow> bool \<Rightarrow> int \<Rightarrow> L4PortOwner" where
  "port_owner s r pending port = \<lparr>poTransport = Transport r, poPort = port, poStreamID = strID s,
     poStreamName = strName s, poRouteID = rtID r, poRouteName = rtName r, poStatus = rtStatus r,
     poPending = pending\<rparr>"

definition owner_use :: "L4PortOwner \<Rightarrow> PortUse" where
  "owner_use po = (poTransport po, poPort po)"

definition l4_routes :: "db \<Rightarrow> uuid \<Rightarrow> Route list" where
  "l4_routes d str = filter (\<lambda>r. rtStreamID r = Some str \<and> IsL4 r) (routes d)"

text \<open>The three sources: route rows, pending approvals and the latest deployed versions.\<close>

definition row_owners :: "db \<Rightarrow> Stream \<Rightarrow> L4PortOwner list" where
  "row_owners d s = map (\<lambda>r. port_owner s r False (rcListenerPort (rtConfig r)))
     (filter (\<lambda>r. rtStatus r \<noteq> RouteStatusRejected \<and> rcListenerPort (rtConfig r) \<noteq> 0) (l4_routes d (strID s)))"

definition pending_owners :: "db \<Rightarrow> Stream \<Rightarrow> L4PortOwner list" where
  "pending_owners d s = concat (map (\<lambda>r. List.map_filter (\<lambda>a.
       if apEntityType a = ApprovalEntityRoute \<and> apEntityID a = rtID r \<and> apStatus a = ApprovalStatusPending \<and>
          apAction a \<in> {ApprovalActionCreate, ApprovalActionUpdate}
       then map_option (port_owner s r True) (snapshot_port (apConfigSnapshot a)) else None) (approvals d))
     (l4_routes d (strID s)))"

definition latest_version :: "db \<Rightarrow> uuid \<Rightarrow> RouteVersion option" where
  "latest_version d r = (case sort_key rvVersion (filter (\<lambda>v. rvRouteID v = r) (route_versions d)) of
     [] \<Rightarrow> None | vs \<Rightarrow> Some (last vs))"

definition deployed_owners :: "db \<Rightarrow> Stream \<Rightarrow> L4PortOwner list" where
  "deployed_owners d s = List.map_filter (\<lambda>r.
     if rtStatus r = RouteStatusRejected then None
     else (case latest_version d (rtID r) of None \<Rightarrow> None
       | Some v \<Rightarrow> map_option (port_owner s r False) (snapshot_port (Some (rvConfigSnapshot v)))))
     (l4_routes d (strID s))"

definition owner_order :: "L4PortOwner \<Rightarrow> int \<times> string \<times> uuid" where
  "owner_order po = (poPort po, poTransport po, poRouteID po)"

definition stream_row :: "db \<Rightarrow> uuid \<Rightarrow> Stream list" where
  "stream_row d str = filter (\<lambda>s. strID s = str) (streams d)"

definition owners_query :: "(db \<Rightarrow> Stream \<Rightarrow> L4PortOwner list) \<Rightarrow> uuid \<Rightarrow> L4PortOwner list m" where
  "owners_query f str = query (\<lambda>d. Inr (sort_key owner_order (concat (map (f d) (stream_row d str)))))"

definition L4PortOwnersByStream :: "uuid \<Rightarrow> L4PortOwner list m" where
  "L4PortOwnersByStream str = owners_query row_owners str"

definition PendingL4PortOwnersByStream :: "uuid \<Rightarrow> L4PortOwner list m" where
  "PendingL4PortOwnersByStream str = owners_query (\<lambda>d s. remdups (pending_owners d s)) str"

definition DeployedL4PortOwnersByStream :: "uuid \<Rightarrow> L4PortOwner list m" where
  "DeployedL4PortOwnersByStream str = owners_query deployed_owners str"

text \<open>
  \<open>UNION\<close> removes duplicates; the order of its rows is unspecified and nothing depends on it.
  The route-row source does not join the stream, so it needs no stream row.
\<close>

definition used_ports :: "db \<Rightarrow> uuid \<Rightarrow> uuid option \<Rightarrow> PortUse list" where
  "used_ports d str exclude =
     (let keep = filter (\<lambda>po. exclude \<noteq> Some (poRouteID po));
          anon = \<lparr>strID = str, strProjectID = 0, strName = [], strNamespace = [], strGatewayTemplateID = 0,
            strK8sGatewayName = [], strK8sGatewayClass = [], strPorts = [], strStatus = [], strStatusMessage = [],
            strCreatedBy = None\<rparr>;
          joined = concat (map (\<lambda>s. pending_owners d s @ deployed_owners d s) (stream_row d str))
      in remdups (map owner_use (keep (row_owners d anon @ joined))))"

definition UsedPortsByStream :: "uuid \<Rightarrow> uuid option \<Rightarrow> PortUse list m" where
  "UsedPortsByStream str exclude = query (\<lambda>d. Inr (used_ports d str exclude))"

definition claimed_ports :: "db \<Rightarrow> uuid \<Rightarrow> uuid option \<Rightarrow> PortUse list" where
  "claimed_ports d tmpl exclude = concat (map (\<lambda>s. map (\<lambda>c. (ToUpper (spTransport c), spPort c)) (strPorts s))
     (filter (\<lambda>s. strGatewayTemplateID s = tmpl \<and> exclude \<noteq> Some (strID s)) (streams d)))"

definition ClaimedPortsByTemplate :: "uuid \<Rightarrow> uuid option \<Rightarrow> PortUse list m" where
  "ClaimedPortsByTemplate tmpl exclude = query (\<lambda>d. Inr (claimed_ports d tmpl exclude))"

text \<open>
  \<open>portByName\<close> keeps the last port of a name. A bound name that the template does not have
  names no port.
\<close>

definition port_by_name :: "TemplateListener list \<Rightarrow> string \<Rightarrow> int option" where
  "port_by_name ls n = map_of (rev (map (\<lambda>l. (tlName l, tlPort l)) (HostnameRouted ls))) n"

definition domain_ports :: "TemplateListener list \<Rightarrow> Domain list \<Rightarrow> PortUse list" where
  "domain_ports ls ds = concat (map (\<lambda>dm. List.map_filter
     (\<lambda>n. map_option (\<lambda>p. (''TCP'', p)) (port_by_name ls n)) (domBoundListeners dm)) ds)"

definition DomainRepo_UsedPortsByTemplate :: "uuid \<Rightarrow> PortUse list m" where
  "DomainRepo_UsedPortsByTemplate tmpl =
     bind (attempt (query (\<lambda>d. found (row_get dtID tmpl (domain_templates d))))) (\<lambda>r. case r of
       Inl e \<Rightarrow> if errors_Is e ErrRecordNotFound then ret [] else throw e
     | Inr t \<Rightarrow> query (\<lambda>d. Inr (domain_ports (dtListeners t)
         (filter (\<lambda>dm. domDomainTemplateID dm = Some tmpl) (domains d)))))"

section \<open>Checks\<close>

text \<open>The stream service: which of its optional dependencies are set.\<close>

record StreamService =
  ssPortStore :: bool
  ssDomainPorts :: bool
  ssCapabilities :: "(uuid \<Rightarrow> string \<Rightarrow> bool) option"

definition unwired :: error where
  "unwired = Msg ''stream port sources are not configured''"

definition checkDomainPortsAgainstStreams :: "bool \<Rightarrow> DomainTemplate \<Rightarrow> int list \<Rightarrow> unit m" where
  "checkDomainPortsAgainstStreams wired tmpl ports =
     (if \<not> dtMergeGateways tmpl then ret ()
      else if \<not> wired then throw unwired
      else bind (wrap_error ''failed to load template stream ports: %w'' (ClaimedPortsByTemplate (dtID tmpl) None)) (\<lambda>used.
        lift_check (check_each (\<lambda>port. fail_with (hasPortUse used ''TCP'' port)
          (Wrap ''%w: TCP/%d is claimed by a stream on merged gateway template %q'' ErrPortCollision)) ports)))"

definition checkMergedTemplateSet :: "DomainTemplate \<Rightarrow> unit m" where
  "checkMergedTemplateSet tmpl =
     bind (wrap_error ''failed to load template stream ports: %w'' (ClaimedPortsByTemplate (dtID tmpl) None)) (\<lambda>streamUsed.
     bind (wrap_error ''failed to load template domain ports: %w'' (DomainRepo_UsedPortsByTemplate (dtID tmpl))) (\<lambda>domainUsed.
     lift_check (checks
       [check_each (\<lambda>u. fail_with (hasPortUse streamUsed (fst u) (snd u))
          (Wrap ''%w: %s/%d is claimed by both a stream and a domain on merged gateway template %q'' ErrPortCollision)) domainUsed,
        check_each (\<lambda>port. fail_with (hasPortUse streamUsed ''TCP'' port)
          (Wrap ''%w: TCP/%d is claimed by a stream and is the HTTP/HTTPS port of merged gateway template %q'' ErrPortCollision))
          (templateDomainDefaults tmpl)])))"

definition getStream :: "uuid \<Rightarrow> Stream m" where
  "getStream i = bind (attempt (StreamRepo_GetByID i)) (\<lambda>r. case r of
     Inr s \<Rightarrow> ret s | Inl e \<Rightarrow> throw (if errors_Is e ErrRecordNotFound then ErrStreamNotFound else e))"

definition CheckRoutePort :: "StreamService \<Rightarrow> uuid \<Rightarrow> string \<Rightarrow> int \<Rightarrow> uuid option \<Rightarrow> unit m" where
  "CheckRoutePort svc str transport0 port exclude =
     (if \<not> ssPortStore svc then throw unwired
      else let transport = ToUpper transport0 in
      if transport \<noteq> ''TCP'' \<and> transport \<noteq> ''UDP'' then throw (Msg ''invalid transport %q: must be TCP or UDP'')
      else bind (getStream str) (\<lambda>stream.
        if \<not> StreamPorts_Has (strPorts stream) transport port
        then throw (Wrap ''%w: %s/%d is not one of the stream's %s claims (%s)'' ErrPortNotClaimed)
        else bind (wrap_error ''failed to load stream ports: %w'' (UsedPortsByStream str exclude)) (\<lambda>used.
          require (\<not> hasPortUse used transport port)
            (Wrap ''%w: %s/%d is used by another route on stream %q'' ErrPortCollision))))"

text \<open>The loop over the normalised claims, with the previous one.\<close>

fun claim_shapes :: "StreamPort option \<Rightarrow> StreamPort list \<Rightarrow> check" where
  "claim_shapes prev [] = Inr ()"
| "claim_shapes prev (c # cs) =
     (if spTransport c \<noteq> ''TCP'' \<and> spTransport c \<noteq> ''UDP''
      then Inl (Wrap ''%w: transport %q must be TCP or UDP'' ErrInvalidStreamPort)
      else if prev = Some c then Inl (Wrap ''%w: %s/%d is listed more than once'' ErrInvalidStreamPort)
      else claim_shapes (Some c) cs)"

definition merged_claim_check :: "DomainTemplate \<Rightarrow> PortUse list \<Rightarrow> PortUse list \<Rightarrow> StreamPort \<Rightarrow> check" where
  "merged_claim_check tmpl claimed domainUsed c = checks
     [fail_with (hasPortUse claimed (spTransport c) (spPort c))
        (Wrap ''%w: %s/%d is claimed by another stream on merged gateway template %q'' ErrPortCollision),
      fail_with (hasPortUse domainUsed (spTransport c) (spPort c))
        (Wrap ''%w: %s/%d is used by a domain HTTP/HTTPS listener on merged gateway template %q'' ErrPortCollision),
      check_when (spTransport c = ''TCP'')
        (ValidateListenerPort (spPort c) \<lparr>rpEnvoyInternal = [], rpDomainDefaults = templateDomainDefaults tmpl\<rparr>)]"

definition validateStreamPorts ::
  "StreamService \<Rightarrow> DomainTemplate \<Rightarrow> uuid option \<Rightarrow> StreamPort list \<Rightarrow> StreamPort list m" where
  "validateStreamPorts svc tmpl selfID ports =
     (if ports = [] then throw ErrNoStreamPorts
      else let norm = StreamPorts_Normalize ports in
      bind (lift_check (claim_shapes None norm)) (\<lambda>_.
      bind (lift_check (check_each (\<lambda>c. checks
        [ValidateListenerPort (spPort c) DefaultReservedPorts, checkPortInRange (spPort c) tmpl]) norm)) (\<lambda>_.
      if \<not> dtMergeGateways tmpl then ret norm
      else if \<not> ssPortStore svc \<or> \<not> ssDomainPorts svc then throw unwired
      else bind (wrap_error ''failed to load template stream ports: %w'' (ClaimedPortsByTemplate (dtID tmpl) selfID)) (\<lambda>claimed.
        bind (wrap_error ''failed to load template domain ports: %w'' (DomainRepo_UsedPortsByTemplate (dtID tmpl))) (\<lambda>domainUsed.
        bind (lift_check (check_each (merged_claim_check tmpl claimed domainUsed) norm)) (\<lambda>_. ret norm))))))"

text \<open>The three lookups only name the route; a failed one counts as empty.\<close>

definition owned :: "PortUse \<Rightarrow> error + L4PortOwner list \<Rightarrow> bool" where
  "owned u r = (case r of Inl _ \<Rightarrow> False | Inr os \<Rightarrow> list_ex (\<lambda>po. owner_use po = u) os)"

definition portInUseError :: "Stream \<Rightarrow> PortUse \<Rightarrow> unit m" where
  "portInUseError stream u =
     bind (attempt (L4PortOwnersByStream (strID stream))) (\<lambda>rows.
     if owned u rows then throw (Wrap ''%w: %s/%d is used by route %q'' ErrStreamPortInUse)
     else bind (attempt (PendingL4PortOwnersByStream (strID stream))) (\<lambda>pending.
     if owned u pending then throw (Wrap ''%w: %s/%d is used by route %q (pending change)'' ErrStreamPortInUse)
     else bind (attempt (DeployedL4PortOwnersByStream (strID stream))) (\<lambda>deployed.
     if owned u deployed
     then throw (Wrap ''%w: %s/%d is used by route %q (deployed version, until its pending change is deployed)'' ErrStreamPortInUse)
     else throw (Wrap ''%w: %s/%d is used by a route of stream %q'' ErrStreamPortInUse))))"

definition checkUsedClaimsKept :: "StreamService \<Rightarrow> Stream \<Rightarrow> StreamPort list \<Rightarrow> unit m" where
  "checkUsedClaimsKept svc stream next =
     (if \<not> ssPortStore svc then throw unwired
      else bind (wrap_error ''failed to load stream ports: %w'' (UsedPortsByStream (strID stream) None)) (\<lambda>used.
        case List.find (\<lambda>u. \<not> StreamPorts_Has (StreamPorts_Normalize next) (fst u) (snd u)) used of
          None \<Rightarrow> ret ()
        | Some u \<Rightarrow> portInUseError stream u))"

section \<open>Lemmas\<close>

lemma claim_key_inj: "claim_key a = claim_key b \<Longrightarrow> a = b"
  by (cases a; cases b) (simp add: claim_key_def)

lemma inj_claim_key: "inj_on claim_key A"
  by (rule inj_onI) (rule claim_key_inj)

lemma Has_iff: "StreamPorts_Has p t n \<longleftrightarrow> (t, n) \<in> claim_key ` set p"
  by (auto simp: StreamPorts_Has_def claim_key_def list_ex_iff)

lemma hasPortUse_iff [simp]: "hasPortUse used t n \<longleftrightarrow> (t, n) \<in> set used"
  by (auto simp: hasPortUse_def list_ex_iff)

lemma Normalize_sorted: "sorted (map claim_key (StreamPorts_Normalize p))"
  by (simp add: StreamPorts_Normalize_def)

lemma length_Normalize [simp]: "length (StreamPorts_Normalize p) = length p"
  by (simp add: StreamPorts_Normalize_def)

lemma Normalize_nil [simp]: "StreamPorts_Normalize p = [] \<longleftrightarrow> p = []"
  by (simp flip: length_0_conv)

lemma Normalize_upper: "c \<in> set (StreamPorts_Normalize p) \<Longrightarrow> ToUpper (spTransport c) = spTransport c"
  by (auto simp: StreamPorts_Normalize_def)

lemma Normalize_keys:
  "claim_key ` set (StreamPorts_Normalize p) = (\<lambda>c. (ToUpper (spTransport c), spPort c)) ` set p"
  by (auto simp: StreamPorts_Normalize_def claim_key_def image_iff)

text \<open>Upper-case claims in order are their own normal form.\<close>

lemma Normalize_id:
  assumes "sorted (map claim_key p)" "\<And>c. c \<in> set p \<Longrightarrow> ToUpper (spTransport c) = spTransport c"
  shows "StreamPorts_Normalize p = p"
proof -
  have "map (\<lambda>c. c\<lparr>spTransport := ToUpper (spTransport c)\<rparr>) p = p"
    using assms(2) by (intro map_idI) simp
  then show ?thesis using assms(1) by (simp add: StreamPorts_Normalize_def sort_key_id_if_sorted)
qed

lemma Normalize_idem: "StreamPorts_Normalize (StreamPorts_Normalize p) = StreamPorts_Normalize p"
  by (rule Normalize_id) (auto simp: Normalize_sorted Normalize_upper)

lemma claim_shapes_distinct:
  "claim_shapes (Some p) cs = Inr () \<Longrightarrow> sorted (map claim_key (p # cs)) \<Longrightarrow> distinct (p # cs)"
proof (induction cs arbitrary: p)
  case (Cons c cs)
  then have d: "distinct (c # cs)" and ne: "p \<noteq> c" by (auto split: if_splits)
  have "claim_key p < claim_key c"
    using Cons.prems(2) ne claim_key_inj [of p c] by (auto simp: order.strict_iff_order)
  then have "\<forall>x \<in> set (c # cs). claim_key p < claim_key x"
    using Cons.prems(2) by (auto intro: order.strict_trans2)
  then show ?case using d by auto
qed simp

lemma claim_shapes_ok:
  assumes "claim_shapes None cs = Inr ()" "sorted (map claim_key cs)"
  shows "distinct cs"
proof (cases cs)
  case (Cons c cs')
  then have "claim_shapes (Some c) cs' = Inr ()" using assms(1) by (simp split: if_splits)
  then show ?thesis using claim_shapes_distinct [of c cs'] assms(2) Cons by simp
qed simp

lemma claim_shapes_transport:
  "claim_shapes prev cs = Inr () \<Longrightarrow> c \<in> set cs \<Longrightarrow> spTransport c \<in> {''TCP'', ''UDP''}"
  by (induction prev cs rule: claim_shapes.induct) (auto split: if_splits)

text \<open>What the validator promises of a claim set, whatever the template.\<close>

definition claim_ok :: "StreamPort \<Rightarrow> bool" where
  "claim_ok c \<longleftrightarrow> spTransport c \<in> {''TCP'', ''UDP''} \<and> 1 \<le> spPort c \<and> spPort c \<le> 65535 \<and>
     spPort c \<notin> set (rpEnvoyInternal DefaultReservedPorts)"

definition claims_wf :: "StreamPort list \<Rightarrow> bool" where
  "claims_wf ps \<longleftrightarrow> ps \<noteq> [] \<and> distinct ps \<and> sorted (map claim_key ps) \<and> list_all claim_ok ps"

lemma claim_ok_upper: "claim_ok c \<Longrightarrow> ToUpper (spTransport c) = spTransport c"
  by (auto simp: claim_ok_def) code_simp+

lemma claims_wf_Normalize: "claims_wf ps \<Longrightarrow> StreamPorts_Normalize ps = ps"
  by (rule Normalize_id) (auto simp: claims_wf_def list_all_iff claim_ok_upper)

lemma ValidateListenerPort_ok:
  "ValidateListenerPort p r = Inr () \<longleftrightarrow> 1 \<le> p \<and> p \<le> 65535 \<and> p \<notin> set (rpEnvoyInternal r) \<and> p \<notin> set (rpDomainDefaults r)"
  by (auto simp: ValidateListenerPort_def not_less)

lemma checkPortInRange_ok:
  "checkPortInRange p t = Inr () \<longleftrightarrow> (\<exists>lo hi. templatePortRange t = Some (lo, hi) \<and> lo \<le> p \<and> p \<le> hi)"
  by (auto simp: checkPortInRange_def not_less split: option.splits)

lemma hoare_UsedPortsByTemplate:
  "hoare (\<lambda>d. d = d0) (DomainRepo_UsedPortsByTemplate t)
     (\<lambda>u d. d = d0 \<and> u = (case row_get dtID t (domain_templates d0) of None \<Rightarrow> []
        | Some tm \<Rightarrow> domain_ports (dtListeners tm) (filter (\<lambda>dm. domDomainTemplateID dm = Some t) (domains d0))))
     (\<lambda>_ d. d = d0)"
  unfolding DomainRepo_UsedPortsByTemplate_def
  by (rule hoare_pre, (rule wp)+) (auto split: option.splits sum.splits)

text \<open>
  The claims that \<open>validateStreamPorts\<close> accepts for a stream \<open>self\<close> of a merged template meet
  neither another stream's claims nor a hostname-routed port of the template.
\<close>

definition fresh_claims :: "db \<Rightarrow> DomainTemplate \<Rightarrow> uuid option \<Rightarrow> StreamPort list \<Rightarrow> bool" where
  "fresh_claims d tmpl self ps \<longleftrightarrow>
     claim_key ` set ps \<inter> set (claimed_ports d (dtID tmpl) self) = {} \<and>
     (\<forall>l \<in> set (HostnameRouted (dtListeners tmpl)). (''TCP'', tlPort l) \<notin> claim_key ` set ps)"

lemma hoare_validateStreamPorts:
  "hoare (\<lambda>d. d = d0) (validateStreamPorts svc tmpl self ports)
     (\<lambda>ps d. d = d0 \<and> ps = StreamPorts_Normalize ports \<and> claims_wf ps \<and>
        (\<exists>lo hi. templatePortRange tmpl = Some (lo, hi) \<and> (\<forall>c \<in> set ps. lo \<le> spPort c \<and> spPort c \<le> hi)) \<and>
        (dtMergeGateways tmpl \<longrightarrow> fresh_claims d0 tmpl self ps))
     (\<lambda>_ d. d = d0)"
proof -
  let ?n = "StreamPorts_Normalize ports"
  have wf: "claims_wf ?n \<and>
      (\<exists>lo hi. templatePortRange tmpl = Some (lo, hi) \<and> (\<forall>c \<in> set ?n. lo \<le> spPort c \<and> spPort c \<le> hi))"
    if ne: "ports \<noteq> []" and sh: "claim_shapes None ?n = Inr ()"
      and ok: "\<forall>c \<in> set ?n. ValidateListenerPort (spPort c) DefaultReservedPorts = Inr () \<and> checkPortInRange (spPort c) tmpl = Inr ()"
  proof -
    have "?n \<noteq> []" using ne by simp
    then obtain c where "c \<in> set ?n" using last_in_set by blast
    then obtain lo hi where r: "templatePortRange tmpl = Some (lo, hi)"
      using ok by (auto simp: checkPortInRange_ok)
    moreover have "\<forall>c \<in> set ?n. lo \<le> spPort c \<and> spPort c \<le> hi" using ok r by (auto simp: checkPortInRange_ok)
    moreover have "claims_wf ?n"
      using ne sh ok claim_shapes_ok [OF sh Normalize_sorted] claim_shapes_transport [OF sh]
      by (auto simp: claims_wf_def list_all_iff claim_ok_def ValidateListenerPort_ok Normalize_sorted)
    ultimately show ?thesis by auto
  qed
  have fresh: "fresh_claims d0 tmpl self ?n"
    if "\<forall>c \<in> set ?n. merged_claim_check tmpl (claimed_ports d0 (dtID tmpl) self) du c = Inr ()" "dtMergeGateways tmpl" for du
  proof -
    have c: "claim_key c \<notin> set (claimed_ports d0 (dtID tmpl) self) \<and>
        (''TCP'' = spTransport c \<longrightarrow> (\<forall>l \<in> set (HostnameRouted (dtListeners tmpl)). tlPort l \<noteq> spPort c))" if "c \<in> set ?n" for c
      using bspec [OF \<open>\<forall>c \<in> set ?n. _ c\<close> that] \<open>dtMergeGateways tmpl\<close>
      by (auto simp: merged_claim_check_def ValidateListenerPort_ok claim_key_def templateDomainDefaults_def image_iff)
    show ?thesis unfolding fresh_claims_def by (auto simp: claim_key_def dest!: c)
  qed
  show ?thesis
    unfolding validateStreamPorts_def Let_def ClaimedPortsByTemplate_def
    by (rule hoare_pre, (rule hoare_readonly [OF hoare_UsedPortsByTemplate] | rule wp)+)
      (use wf fresh in simp)
qed

end
