(* ===== verification/Streams.thy ===== *)
theory Streams
  imports Ports Sample
begin

text \<open>
  Streams, the TCP/UDP gateways: \<open>src/internal/services/stream_service.go\<close> and the rows of
  \<open>src/internal/repository/stream_repository.go\<close>.

  \<open>ApplyGateway\<close> mutates the stream it is given and returns an error its callers only log, so
  here it returns both the error, if any, and the stream. Status messages are the format strings
  of the source.
\<close>

section \<open>Rows\<close>

text \<open>\<open>idx_stream_project_name\<close> is unique and \<open>gateway_template_id\<close> references a template.\<close>

definition stream_conflict :: "Stream \<Rightarrow> Stream \<Rightarrow> bool" where
  "stream_conflict s x \<longleftrightarrow> strID x \<noteq> strID s \<and> strProjectID x = strProjectID s \<and> strName x = strName s"

definition stream_save :: "Stream \<Rightarrow> db \<Rightarrow> error + db" where
  "stream_save s d =
     (if row_get dtID (strGatewayTemplateID s) (domain_templates d) = None then Inl ErrDB
      else if list_ex (stream_conflict s) (streams d) then Inl ErrDuplicatedKey
      else Inr (d\<lparr>streams := row_save strID s (streams d)\<rparr>))"

definition StreamRepo_Create :: "Stream \<Rightarrow> Stream m" where
  "StreamRepo_Create s = inserts ErrDB (\<lambda>d.
     let s' = s\<lparr>strID := next_id d, strStatus := (if strStatus s = [] then ''pending'' else strStatus s)\<rparr>
     in map_sum id (\<lambda>d'. (s', d'\<lparr>next_id := Suc (next_id d)\<rparr>)) (stream_save s' d))"

definition StreamRepo_Update :: "Stream \<Rightarrow> unit m" where
  "StreamRepo_Update s = updates ErrDB (stream_save s)"

definition StreamRepo_UpdateStatus :: "uuid \<Rightarrow> string \<Rightarrow> string \<Rightarrow> unit m" where
  "StreamRepo_UpdateStatus i status message = exec (\<lambda>d. d\<lparr>streams := map (\<lambda>s. if strID s = i
     then s\<lparr>strStatus := status, strStatusMessage := message\<rparr> else s) (streams d)\<rparr>)"

definition StreamRepo_Delete :: "uuid \<Rightarrow> unit m" where
  "StreamRepo_Delete i = exec (\<lambda>d. delete_routes (\<lambda>r. rtStreamID r = Some i) (d\<lparr>streams := row_delete strID i (streams d)\<rparr>))"

definition StreamRepo_ExistsByName :: "uuid \<Rightarrow> string \<Rightarrow> bool m" where
  "StreamRepo_ExistsByName p n = query (\<lambda>d. Inr (list_ex (\<lambda>s. strProjectID s = p \<and> strName s = n) (streams d)))"

definition StreamRepo_ListByProjectID :: "uuid \<Rightarrow> Stream list m" where
  "StreamRepo_ListByProjectID p = query (\<lambda>d. Inr (sort_key strName (filter (\<lambda>s. strProjectID s = p) (streams d))))"

definition StreamRepo_ListAll :: "Stream list m" where
  "StreamRepo_ListAll = query (\<lambda>d. Inr (sort_key (\<lambda>s. (strName s, strID s)) (streams d)))"

definition StreamRepo_CountByGatewayTemplateID :: "uuid \<Rightarrow> nat m" where
  "StreamRepo_CountByGatewayTemplateID t = query (\<lambda>d. Inr (length (filter (\<lambda>s. strGatewayTemplateID s = t) (streams d))))"

definition DomainTemplateRepo_GetByID :: "uuid \<Rightarrow> DomainTemplate m" where
  "DomainTemplateRepo_GetByID i = query (\<lambda>d. found (row_get dtID i (domain_templates d)))"

section \<open>Names\<close>

definition streamGatewayPrefix :: string where
  "streamGatewayPrefix = ''str-''"

definition maxK8sNameLen :: nat where
  "maxK8sNameLen = 63"

definition maxStreamNameLen :: nat where
  "maxStreamNameLen = 63 - length streamGatewayPrefix"

definition is_alnum :: "char \<Rightarrow> bool" where
  "is_alnum c \<longleftrightarrow> is_lower c \<or> is_digit c"

text \<open>\<open>^[a-z0-9]+(-[a-z0-9]+)*$\<close>: runs of letters and digits, separated by single dashes.\<close>

definition streamNameRE :: "string \<Rightarrow> bool" where
  "streamNameRE s \<longleftrightarrow> list_all (\<lambda>seg. seg \<noteq> [] \<and> list_all is_alnum seg) (split_on CHR ''-'' s)"

definition ValidateStreamName :: "string \<Rightarrow> check" where
  "ValidateStreamName name = checks
     [fail_with (name = []) (Wrap ''%w: name is required'' ErrInvalidStreamName),
      fail_with (length name > maxStreamNameLen) (Wrap ''%w: must be at most %d characters'' ErrInvalidStreamName),
      fail_with (\<not> streamNameRE name)
        (Wrap ''%w: must be lowercase alphanumerics and single dashes, starting and ending with an alphanumeric'' ErrInvalidStreamName)]"

text \<open>\<open>strings.Contains(rest, "--")\<close> and one \<open>strings.ReplaceAll(rest, "--", "-")\<close>.\<close>

fun has_double_dash :: "string \<Rightarrow> bool" where
  "has_double_dash (a # b # s) = (a = CHR ''-'' \<and> b = CHR ''-'' \<or> has_double_dash (b # s))"
| "has_double_dash _ = False"

fun replace_double_dash :: "string \<Rightarrow> string" where
  "replace_double_dash (a # b # s) =
     (if a = CHR ''-'' \<and> b = CHR ''-'' then CHR ''-'' # replace_double_dash s else a # replace_double_dash (b # s))"
| "replace_double_dash s = s"

lemma replace_double_dash_length: "length (replace_double_dash s) \<le> length s"
  by (induction s rule: replace_double_dash.induct) auto

lemma replace_double_dash_shorter: "has_double_dash s \<Longrightarrow> length (replace_double_dash s) < length s"
  by (induction s rule: replace_double_dash.induct) (auto simp: le_imp_less_Suc replace_double_dash_length)

function collapse_dashes :: "string \<Rightarrow> string" where
  "collapse_dashes s = (if has_double_dash s then collapse_dashes (replace_double_dash s) else s)"
  by auto
termination by (relation "measure length") (auto simp: replace_double_dash_shorter)

declare collapse_dashes.simps [simp del]

definition is_dash :: "char \<Rightarrow> bool" where
  "is_dash c \<longleftrightarrow> c = CHR ''-''"

definition StreamGatewayName :: "string \<Rightarrow> string" where
  "StreamGatewayName name =
     (let rest = collapse_dashes (map (\<lambda>r. if is_alnum r then r else CHR ''-'') (ToLower name));
          rest = TrimRightF is_dash (TrimLeftF is_dash rest);
          limit = maxK8sNameLen - length streamGatewayPrefix;
          rest = (if length rest > limit then TrimRightF is_dash (take limit rest) else rest)
      in streamGatewayPrefix @ rest)"

section \<open>The service\<close>

definition StreamStatusActive :: string where "StreamStatusActive = ''active''"
definition StreamStatusError :: string where "StreamStatusError = ''error''"
definition CapStreams :: string where "CapStreams = ''streams''"

definition ApplyGateway :: "Stream \<Rightarrow> (error option \<times> Stream) m" where
  "ApplyGateway stream =
     bind (if strPorts stream = []
           then bind (attempt (DeleteGateway (strProjectID stream) (strNamespace stream) (strK8sGatewayName stream))) (\<lambda>r.
             ret (case r of Inl e \<Rightarrow> if errors_Is e ErrK8sNotFound then Inr () else Inl e | Inr u \<Rightarrow> Inr u))
           else attempt (UpdateGateway (strProjectID stream) (BuildStreamGatewayConfig stream))) (\<lambda>apply.
     case apply of
       Inl applyErr \<Rightarrow>
         let stream' = stream\<lparr>strStatus := StreamStatusError, strStatusMessage := ''Failed to apply Gateway: %v''\<rparr>;
             err = Wrap ''failed to apply stream gateway: %w'' applyErr
         in bind (attempt (StreamRepo_UpdateStatus (strID stream') (strStatus stream') (strStatusMessage stream'))) (\<lambda>u.
            case u of
              Inl uerr \<Rightarrow> ret (Some (Join [err, Wrap ''failed to record error status: %w'' uerr]), stream')
            | Inr _ \<Rightarrow> ret (Some err, stream'))
     | Inr _ \<Rightarrow>
         let stream' = stream\<lparr>strStatus := StreamStatusActive, strStatusMessage :=
               (if strPorts stream = [] then ''No ports claimed; no Gateway deployed'' else ''Gateway applied successfully'')\<rparr>
         in bind (attempt (StreamRepo_UpdateStatus (strID stream') (strStatus stream') (strStatusMessage stream'))) (\<lambda>u.
            case u of
              Inl uerr \<Rightarrow> ret (Some (Wrap ''failed to update stream status: %w'' uerr), stream')
            | Inr _ \<Rightarrow> ret (None, stream')))"

record CreateStreamInput =
  csiName :: string
  csiNamespace :: string
  csiGatewayTemplateID :: uuid
  csiPorts :: "StreamPort list"

record UpdateStreamInput =
  usiName :: "string option"
  usiPorts :: "StreamPort list option"

definition mapStreamWriteError :: "error \<Rightarrow> error" where
  "mapStreamWriteError e = (if errors_Is e ErrDuplicatedKey then ErrStreamNameTaken else e)"

definition map_write_error :: "'a m \<Rightarrow> 'a m" where
  "map_write_error c = bind (attempt c) (\<lambda>r. case r of Inl e \<Rightarrow> throw (mapStreamWriteError e) | Inr x \<Rightarrow> ret x)"

definition stream_template :: "uuid \<Rightarrow> CreateStreamInput \<Rightarrow> DomainTemplate m" where
  "stream_template projectID inp =
     bind (attempt (DomainTemplateRepo_GetByID (csiGatewayTemplateID inp))) (\<lambda>r. case r of
       Inl e \<Rightarrow> throw (if errors_Is e ErrRecordNotFound then ErrStreamTemplateNotFound
                        else Wrap ''failed to load gateway template: %w'' e)
     | Inr tmpl \<Rightarrow>
         if dtProjectID tmpl \<noteq> projectID then throw ErrStreamTemplateWrongProject
         else if templatePortRange tmpl = None then throw ErrTemplateNotStreamEnabled
         else ret tmpl)"

definition stream_namespace :: "uuid \<Rightarrow> string \<Rightarrow> unit m" where
  "stream_namespace projectID ns =
     (if ns = FastGatewayNamespace then ret ()
      else bind (attempt (ProjectNamespaceRepo_GetByProjectAndNamespace projectID ns)) (\<lambda>r. case r of
        Inl e \<Rightarrow> throw (if errors_Is e ErrRecordNotFound then Wrap (''%w: '%s'' @ [CHR 0x27]) ErrStreamNamespaceNotRegistered
                         else Wrap ''failed to validate namespace: %w'' e)
      | Inr n \<Rightarrow> require (HasCapability n NamespaceCapabilityDeployGateway)
          (Wrap ''%w: '%s' (missing capability '%s')'' ErrStreamNamespaceNotDeployable)))"

definition StreamService_Create :: "StreamService \<Rightarrow> uuid \<Rightarrow> CreateStreamInput \<Rightarrow> User option \<Rightarrow> Stream m" where
  "StreamService_Create svc projectID inp user =
     bind (require (case ssCapabilities svc of None \<Rightarrow> True | Some has \<Rightarrow> has projectID CapStreams) ErrStreamsUnsupported) (\<lambda>_.
     bind (stream_template projectID inp) (\<lambda>tmpl.
     bind (stream_namespace projectID (csiNamespace inp)) (\<lambda>_.
     bind (wrap_error ''failed to check stream name: %w'' (StreamRepo_ExistsByName projectID (csiName inp))) (\<lambda>exists.
     bind (require (\<not> exists) ErrStreamNameTaken) (\<lambda>_.
     bind (validateStreamPorts svc tmpl None (csiPorts inp)) (\<lambda>ports.
     bind (map_write_error (StreamRepo_Create
       \<lparr>strID = 0, strProjectID = projectID, strName = csiName inp, strNamespace = csiNamespace inp,
        strGatewayTemplateID = csiGatewayTemplateID inp, strK8sGatewayName = StreamGatewayName (csiName inp),
        strK8sGatewayClass = dtK8sGatewayClassName tmpl, strPorts = ports, strStatus = [], strStatusMessage = [],
        strCreatedBy = map_option usrID user\<rparr>)) (\<lambda>stream.
     bind (ApplyGateway stream) (\<lambda>(_, stream'). ret stream'))))))))"

definition StreamService_Update :: "StreamService \<Rightarrow> uuid \<Rightarrow> UpdateStreamInput \<Rightarrow> Stream m" where
  "StreamService_Update svc i inp =
     bind (getStream i) (\<lambda>stream.
     bind (case usiName inp of
         Some n \<Rightarrow> if n \<noteq> strName stream
           then bind (wrap_error ''failed to check stream name: %w'' (StreamRepo_ExistsByName (strProjectID stream) n)) (\<lambda>exists.
             if exists then throw ErrStreamNameTaken else ret (stream\<lparr>strName := n\<rparr>))
           else ret stream
       | None \<Rightarrow> ret stream) (\<lambda>stream.
     bind (case usiPorts inp of
         Some ps \<Rightarrow>
           bind (wrap_error ''failed to load gateway template: %w'' (DomainTemplateRepo_GetByID (strGatewayTemplateID stream))) (\<lambda>tmpl.
           bind (validateStreamPorts svc tmpl (Some (strID stream)) ps) (\<lambda>ports.
           bind (checkUsedClaimsKept svc stream ports) (\<lambda>_. ret (stream\<lparr>strPorts := ports\<rparr>))))
       | None \<Rightarrow> ret stream) (\<lambda>stream.
     bind (map_write_error (StreamRepo_Update stream)) (\<lambda>_.
     if usiPorts inp \<noteq> None then bind (ApplyGateway stream) (\<lambda>(_, stream'). ret stream') else ret stream))))"

definition StreamService_Get :: "uuid \<Rightarrow> Stream m" where
  "StreamService_Get i = getStream i"

definition StreamService_List :: "uuid \<Rightarrow> Stream list m" where
  "StreamService_List p = StreamRepo_ListByProjectID p"

definition StreamService_Delete :: "uuid \<Rightarrow> unit m" where
  "StreamService_Delete i =
     bind (getStream i) (\<lambda>stream.
     bind (wrap_error ''failed to count stream routes: %w'' (RouteRepo_CountByStreamID i)) (\<lambda>n.
     bind (require (n = 0) ErrStreamHasRoutes) (\<lambda>_.
     bind (attempt (DeleteGateway (strProjectID stream) (strNamespace stream) (strK8sGatewayName stream))) (\<lambda>_.
     StreamRepo_Delete i))))"

text \<open>\<open>ctx i\<close> is what the \<open>i\<close>-th \<open>ctx.Err()\<close> returns.\<close>

fun reconcile_from :: "(nat \<Rightarrow> error option) \<Rightarrow> nat \<Rightarrow> Stream list \<Rightarrow> unit m" where
  "reconcile_from ctx i [] = (case ctx i of Some e \<Rightarrow> throw e | None \<Rightarrow> ret ())"
| "reconcile_from ctx i (snapshot # rest) = (case ctx i of Some e \<Rightarrow> throw e
   | None \<Rightarrow>
     bind (attempt (StreamRepo_GetByID (strID snapshot))) (\<lambda>r.
     bind (case r of Inl _ \<Rightarrow> ret () | Inr stream \<Rightarrow> bind (ApplyGateway stream) (\<lambda>_. ret ())) (\<lambda>_.
     reconcile_from ctx (Suc i) rest)))"

definition ReconcileGateways :: "(nat \<Rightarrow> error option) \<Rightarrow> unit m" where
  "ReconcileGateways ctx =
     bind (wrap_error ''failed to list streams: %w'' StreamRepo_ListAll) (\<lambda>listed. reconcile_from ctx 0 listed)"

section \<open>Lemmas on names\<close>

text \<open>The reference for the loop of \<open>StreamGatewayName\<close>: one pass that drops a dash before a dash.\<close>

fun squeeze :: "string \<Rightarrow> string" where
  "squeeze (a # b # s) = (if a = CHR ''-'' \<and> b = CHR ''-'' then squeeze (b # s) else a # squeeze (b # s))"
| "squeeze s = s"

lemma squeeze_dash: "squeeze (CHR ''-'' # replace_double_dash s) = squeeze (CHR ''-'' # s)"
proof (induction s rule: replace_double_dash.induct)
  case (1 a b s)
  then show ?case by (cases s rule: replace_double_dash.cases) auto
qed auto

lemma squeeze_cons: "squeeze s = squeeze t \<Longrightarrow> (s = [] \<longleftrightarrow> t = []) \<Longrightarrow> hd s = hd t \<Longrightarrow> squeeze (a # s) = squeeze (a # t)"
  by (cases s; cases t) auto

lemma replace_hd [simp]: "hd (replace_double_dash s) = hd s" "replace_double_dash s = [] \<longleftrightarrow> s = []"
  by (induction s rule: replace_double_dash.induct) auto

lemma squeeze_replace: "squeeze (replace_double_dash s) = squeeze s"
proof (induction s rule: replace_double_dash.induct)
  case (1 a b s)
  show ?case
  proof (cases "a = CHR ''-'' \<and> b = CHR ''-''")
    case True
    then show ?thesis using squeeze_dash [of s] by simp
  next
    case False
    have "squeeze (a # replace_double_dash (b # s)) = squeeze (a # b # s)"
      using 1(2) [OF False] by (rule squeeze_cons) simp_all
    then show ?thesis using False by auto
  qed
qed auto

lemma squeeze_id: "\<not> has_double_dash s \<Longrightarrow> squeeze s = s"
  by (induction s rule: squeeze.induct) auto

lemma collapse_squeeze: "collapse_dashes s = squeeze s"
proof (induction s rule: collapse_dashes.induct)
  case (1 s)
  then show ?case by (subst collapse_dashes.simps) (auto simp: squeeze_replace squeeze_id)
qed

lemma collapse_no_double: "\<not> has_double_dash (collapse_dashes s)"
proof (induction s rule: collapse_dashes.induct)
  case (1 s)
  then show ?case by (subst collapse_dashes.simps) simp
qed

lemma split_on_chars: "x \<in> set s \<Longrightarrow> x \<noteq> c \<Longrightarrow> \<exists>seg \<in> set (split_on c s). x \<in> set seg"
  by (induction c s rule: split_on.induct) (auto split: list.splits)

lemma split_on_nonempty [simp]: "split_on c s \<noteq> []"
  by (induction c s rule: split_on.induct) (auto split: list.splits)

lemma streamNameRE_alnum: "streamNameRE s \<Longrightarrow> x \<in> set s \<Longrightarrow> x \<noteq> CHR ''-'' \<Longrightarrow> is_alnum x"
  using split_on_chars [of x s "CHR ''-''"] by (auto simp: streamNameRE_def list_all_iff)

lemma hd_split_on: "hd (split_on c s) = takeWhile (\<lambda>x. x \<noteq> c) s"
  by (induction c s rule: split_on.induct) (auto split: list.splits)

lemma split_on_tl_nonempty:
  "list_all (\<lambda>seg. seg \<noteq> []) (tl (split_on CHR ''-'' s)) \<Longrightarrow> \<not> has_double_dash s \<and> (s = [] \<or> last s \<noteq> CHR ''-'')"
proof (induction s)
  case (Cons a s)
  obtain y ys where y: "split_on CHR ''-'' s = y # ys" by (cases "split_on CHR ''-'' s") auto
  have yt: "y = takeWhile (\<lambda>x. x \<noteq> CHR ''-'') s" using hd_split_on [of "CHR ''-''" s] y by simp
  show ?case
    using Cons y yt by (cases s) (auto split: if_splits)
qed simp

lemma streamNameRE_dashes:
  assumes "streamNameRE s"
  shows "\<not> has_double_dash s" "s \<noteq> []" "hd s \<noteq> CHR ''-''" "last s \<noteq> CHR ''-''"
proof -
  have ne: "list_all (\<lambda>seg. seg \<noteq> []) (split_on CHR ''-'' s)" using assms by (simp add: streamNameRE_def list_all_iff)
  then have tl: "list_all (\<lambda>seg. seg \<noteq> []) (tl (split_on CHR ''-'' s))" and hd: "takeWhile (\<lambda>x. x \<noteq> CHR ''-'') s \<noteq> []"
    using hd_split_on [of "CHR ''-''" s] by (cases "split_on CHR ''-'' s"; simp)+
  from hd show "s \<noteq> []" "hd s \<noteq> CHR ''-''" by (cases s; auto split: if_splits)+
  with split_on_tl_nonempty [OF tl] show "\<not> has_double_dash s" "last s \<noteq> CHR ''-''" by auto
qed

lemma alnum_lower [simp]: "is_alnum x \<Longrightarrow> to_lower x = x"
  by (auto simp: is_alnum_def to_lower_def is_lower_def is_digit_def is_upper_def)

lemma alnum_not_dash: "\<not> is_alnum CHR ''-''"
  by code_simp

lemma dash_lower [simp]: "to_lower CHR ''-'' = CHR ''-''"
  by code_simp

text \<open>A valid name is its own Gateway name, behind the prefix.\<close>

lemma valid_name_gateway:
  assumes "ValidateStreamName n = Inr ()"
  shows "StreamGatewayName n = streamGatewayPrefix @ n"
proof -
  have re: "streamNameRE n" and len: "length n \<le> maxStreamNameLen" using assms by (auto simp: ValidateStreamName_def)
  have "map (\<lambda>r. if is_alnum r then r else CHR ''-'') (ToLower n) = n"
    unfolding ToLower_def map_map
  proof (rule map_idI)
    fix x assume "x \<in> set n"
    then show "((\<lambda>r. if is_alnum r then r else CHR ''-'') \<circ> to_lower) x = x"
      using streamNameRE_alnum [OF re, of x] by (cases "x = CHR ''-''") (simp_all add: alnum_not_dash)
  qed
  moreover have "collapse_dashes n = n" using streamNameRE_dashes(1) [OF re] by (simp add: collapse_squeeze squeeze_id)
  moreover have "TrimLeftF is_dash n = n"
    using streamNameRE_dashes [OF re] by (cases n) (auto simp: TrimLeftF_def is_dash_def)
  moreover have "TrimRightF is_dash n = n"
    using streamNameRE_dashes [OF re] by (cases n rule: rev_cases) (auto simp: TrimRightF_def is_dash_def)
  ultimately show ?thesis
    using len by (simp add: StreamGatewayName_def Let_def maxK8sNameLen_def maxStreamNameLen_def)
qed

lemma length_TrimRightF: "length (TrimRightF p s) \<le> length s"
  unfolding TrimRightF_def using length_dropWhile_le [of p "rev s"] by simp

lemma gateway_name_length: "length (StreamGatewayName n) \<le> maxK8sNameLen"
proof -
  have "length (TrimRightF is_dash (take 59 s)) \<le> 59" for s
    using length_TrimRightF [of is_dash "take 59 s"] by simp
  then show ?thesis
    by (auto simp: StreamGatewayName_def Let_def maxK8sNameLen_def streamGatewayPrefix_def not_less)
qed

section \<open>Lemmas on the Gateway of a stream\<close>

definition stream_key :: "Stream \<Rightarrow> k8s_key" where
  "stream_key s = gateway_key (strProjectID s) (strNamespace s) (strK8sGatewayName s)"

text \<open>The abstract view: the listeners that the cluster exposes under a key.\<close>

definition exposed :: "k8s_object option \<Rightarrow> (string \<times> int) list" where
  "exposed x = (case x of Some (GatewayObj g) \<Rightarrow> map (\<lambda>l. (loProtocol l, loPort l)) (goListeners g) | _ \<Rightarrow> [])"

definition stream_gateway :: "Stream \<Rightarrow> k8s_object option" where
  "stream_gateway s = (if strPorts s = [] then None else Some (GatewayObj (BuildGatewayObject (BuildStreamGatewayConfig s))))"

lemma exposed_gateway: "(\<And>c. c \<in> set (strPorts s) \<Longrightarrow> claim_ok c) \<Longrightarrow> exposed (stream_gateway s) = map claim_key (strPorts s)"
  by (auto simp: exposed_def stream_gateway_def BuildGatewayObject_stream buildL4Listener_def claim_key_def claim_ok_upper)

definition with_status :: "uuid \<Rightarrow> string \<Rightarrow> string \<Rightarrow> Stream list \<Rightarrow> Stream list" where
  "with_status i status message ss =
     map (\<lambda>s. if strID s = i then s\<lparr>strStatus := status, strStatusMessage := message\<rparr> else s) ss"

lemma BuildStream_simps [simp]:
  "gcNamespace (BuildStreamGatewayConfig s) = strNamespace s" "gcName (BuildStreamGatewayConfig s) = strK8sGatewayName s"
  by (simp_all add: BuildStreamGatewayConfig_def)

text \<open>
  \<open>ApplyGateway\<close> changes the Gateway of the stream and the status columns of its row, and nothing
  else. Without an error the Gateway is the one built from the claims; an error of the cluster
  leaves every Gateway alone.
\<close>

definition applied :: "db \<Rightarrow> Stream \<Rightarrow> error option \<times> Stream \<Rightarrow> db \<Rightarrow> bool" where
  "applied d0 s r d \<longleftrightarrow>
     other_gateways (stream_key s) (d0\<lparr>streams := streams d\<rparr>) d \<and>
     snd r = s\<lparr>strStatus := strStatus (snd r), strStatusMessage := strStatusMessage (snd r)\<rparr> \<and>
     (streams d = with_status (strID s) (strStatus (snd r)) (strStatusMessage (snd r)) (streams d0) \<or>
      streams d = streams d0 \<and> fst r \<noteq> None) \<and>
     (fst r = None \<longrightarrow> strStatus (snd r) = StreamStatusActive) \<and>
     k8s_lookup (stream_key s) d =
       (if strStatus (snd r) = StreamStatusActive then stream_gateway s else k8s_lookup (stream_key s) d0)"

lemma other_gateways_trans:
  "other_gateways k d0 d1 \<Longrightarrow> other_gateways k d1 d2 \<Longrightarrow> other_gateways k d0 d2"
  by (auto simp: other_gateways_def elim!: same_tablesE) (simp add: same_tables_def)

lemma hoare_attempt_gateway:
  "hoare (\<lambda>d. d = d0)
     (if strPorts s = []
      then bind (attempt (DeleteGateway (strProjectID s) (strNamespace s) (strK8sGatewayName s))) (\<lambda>r.
        ret (case r of Inl e \<Rightarrow> if errors_Is e ErrK8sNotFound then Inr () else Inl e | Inr u \<Rightarrow> Inr u))
      else attempt (UpdateGateway (strProjectID s) (BuildStreamGatewayConfig s)))
     (\<lambda>r d. other_gateways (stream_key s) d0 d \<and>
        k8s_lookup (stream_key s) d = (case r of Inr _ \<Rightarrow> stream_gateway s | Inl _ \<Rightarrow> k8s_lookup (stream_key s) d0))
     (\<lambda>_ _. False)"
proof (cases "strPorts s = []")
  case True
  then show ?thesis
    by simp (rule hoare_pre, (rule hoare_post [OF hoare_DeleteGateway [where ?d0.0 = d0]] | rule wp)+,
      auto simp: stream_key_def stream_gateway_def other_gateways_def)
next
  case False
  have "hoare (\<lambda>d. d = d0) (attempt (UpdateGateway (strProjectID s) (BuildStreamGatewayConfig s)))
     (\<lambda>r d. other_gateways (stream_key s) d0 d \<and>
        k8s_lookup (stream_key s) d = (case r of Inr _ \<Rightarrow> stream_gateway s | Inl _ \<Rightarrow> k8s_lookup (stream_key s) d0))
     (\<lambda>_ _. False)"
    by (rule hoare_attempt, rule hoare_post [OF hoare_UpdateGateway [where ?d0.0 = d0]])
      (use False in \<open>auto simp: stream_gateway_def other_gateways_def stream_key_def gateway_key_def\<close>)
  then show ?thesis using False by simp
qed

lemma hoare_record_status:
  "hoare (\<lambda>d. d = d1) (bind (attempt (StreamRepo_UpdateStatus i st msg)) (\<lambda>u. case u of Inl e \<Rightarrow> ret (f e, x) | Inr _ \<Rightarrow> ret (g, x)))
     (\<lambda>r d. snd r = x \<and> (d = d1\<lparr>streams := with_status i st msg (streams d1)\<rparr> \<and> fst r = g \<or> d = d1 \<and> fst r \<in> range f)) (\<lambda>_ _. False)"
  unfolding StreamRepo_UpdateStatus_def with_status_def by (rule hoare_pre, (rule wp)+) auto

lemma hoare_ApplyGateway: "hoare (\<lambda>d. d = d0) (ApplyGateway s) (applied d0 s) (\<lambda>_ _. False)"
  unfolding ApplyGateway_def Let_def
proof (rule hoare_bind [OF hoare_state hoare_attempt_gateway], goal_cases)
  case (1 r d1)
  then have og: "other_gateways (stream_key s) (d0\<lparr>streams := x\<rparr>) (d1\<lparr>streams := x\<rparr>)" "streams d1 = streams d0" for x
    by (auto simp: other_gateways_def elim!: same_tablesE) (simp add: same_tables_def)
  have d1s: "d1\<lparr>streams := streams d0\<rparr> = d1" using og(2) by simp
  show ?case
    using 1 og(1) [of "streams d0"] og
    by (cases r; simp only: sum.case; intro hoare_post [OF hoare_record_status])
      (auto simp: applied_def d1s StreamStatusActive_def StreamStatusError_def)
qed

section \<open>The invariant of the listeners\<close>

text \<open>
  Every stored stream has a template and normalised claims (a stream older than the claims has
  none); on a merged template its claims meet neither a hostname-routed port of the template nor
  the claims of another stream.
\<close>

definition apart :: "db \<Rightarrow> Stream \<Rightarrow> bool" where
  "apart d s \<longleftrightarrow> (\<exists>t. row_get dtID (strGatewayTemplateID s) (domain_templates d) = Some t \<and>
     (dtMergeGateways t \<longrightarrow> fresh_claims d t (Some (strID s)) (strPorts s)))"

definition listener_inv :: "db \<Rightarrow> bool" where
  "listener_inv d \<longleftrightarrow> distinct (map strID (streams d)) \<and>
     (\<forall>s \<in> set (streams d). strID s < next_id d \<and> (strPorts s = [] \<or> claims_wf (strPorts s)) \<and> apart d s)"

lemma claims_ok: "strPorts s = [] \<or> claims_wf (strPorts s) \<Longrightarrow> c \<in> set (strPorts s) \<Longrightarrow> claim_ok c"
  by (auto simp: claims_wf_def list_all_iff)

lemma claimed_ports_iff:
  assumes "\<forall>s \<in> set (streams d). strPorts s = [] \<or> claims_wf (strPorts s)"
  shows "k \<in> set (claimed_ports d t ex) \<longleftrightarrow>
    (\<exists>s \<in> set (streams d). strGatewayTemplateID s = t \<and> ex \<noteq> Some (strID s) \<and> k \<in> claim_key ` set (strPorts s))"
proof -
  have "(\<lambda>c. (ToUpper (spTransport c), spPort c)) ` set (strPorts s) = claim_key ` set (strPorts s)" if "s \<in> set (streams d)" for s
    using claims_ok [OF bspec [OF assms that]] by (auto simp: claim_key_def claim_ok_upper intro!: image_cong)
  then show ?thesis unfolding claimed_ports_def by auto
qed

lemma claimed_frame:
  "streams d' = streams d \<Longrightarrow> claimed_ports d' t ex = claimed_ports d t ex"
  by (simp add: claimed_ports_def)

lemma listener_inv_frame:
  assumes "listener_inv d" "streams d' = streams d" "domain_templates d' = domain_templates d" "next_id d \<le> next_id d'"
  shows "listener_inv d'"
  using assms by (auto simp: listener_inv_def apart_def fresh_claims_def claimed_frame [of d' d])

text \<open>Status columns do not matter.\<close>

lemma with_status_simps [simp]:
  "map strID (with_status i st m ss) = map strID ss"
  "s \<in> set (with_status i st m ss) \<Longrightarrow> \<exists>x \<in> set ss. strID s = strID x \<and> strPorts s = strPorts x \<and> strGatewayTemplateID s = strGatewayTemplateID x"
  by (auto simp: with_status_def)

lemma claimed_with_status:
  "claimed_ports (d\<lparr>streams := with_status i st m (streams d)\<rparr>) t ex = claimed_ports d t ex"
proof -
  have "map (\<lambda>s. map (\<lambda>c. (ToUpper (spTransport c), spPort c)) (strPorts s))
       (filter (\<lambda>s. strGatewayTemplateID s = t \<and> ex \<noteq> Some (strID s)) (with_status i st m ss)) =
     map (\<lambda>s. map (\<lambda>c. (ToUpper (spTransport c), spPort c)) (strPorts s))
       (filter (\<lambda>s. strGatewayTemplateID s = t \<and> ex \<noteq> Some (strID s)) ss)" for ss
    by (induction ss) (auto simp: with_status_def)
  then show ?thesis by (simp add: claimed_ports_def)
qed

lemma listener_inv_status:
  assumes "listener_inv d" shows "listener_inv (d\<lparr>streams := with_status i st m (streams d)\<rparr>)"
  using assms unfolding listener_inv_def apart_def fresh_claims_def claimed_with_status
  by (auto dest!: with_status_simps(2))

text \<open>Saving a stream with fresh claims keeps the invariant.\<close>

lemma listener_inv_save:
  assumes inv: "listener_inv d" and t: "row_get dtID (strGatewayTemplateID s) (domain_templates d) = Some t"
    and wf: "strPorts s = [] \<or> claims_wf (strPorts s)"
    and fresh: "dtMergeGateways t \<longrightarrow> fresh_claims d t (Some (strID s)) (strPorts s)"
  shows "listener_inv (d\<lparr>streams := row_save strID s (streams d), next_id := max (next_id d) (Suc (strID s))\<rparr>)"
    (is "listener_inv ?d")
proof -
  have D: "distinct (map strID (streams d))" using inv by (simp add: listener_inv_def)
  have S: "set (streams ?d) = insert s {x \<in> set (streams d). strID x \<noteq> strID s}"
    using set_row_save_distinct [OF D] by simp
  have W: "\<forall>x \<in> set (streams d). strPorts x = [] \<or> claims_wf (strPorts x)"
    using inv by (simp add: listener_inv_def)
  have W': "\<forall>x \<in> set (streams ?d). strPorts x = [] \<or> claims_wf (strPorts x)"
    using W wf unfolding S by auto
  note old = claimed_ports_iff [of d, OF W] and new = claimed_ports_iff [of ?d, OF W']
  have "apart ?d x" if x: "x \<in> set (streams ?d)" for x
  proof (cases "x = s")
    case True
    have "set (claimed_ports ?d (strGatewayTemplateID s) (Some (strID s))) \<subseteq> set (claimed_ports d (strGatewayTemplateID s) (Some (strID s)))"
      unfolding subset_iff old new S by auto
    moreover have "dtID t = strGatewayTemplateID s" using row_get_key [OF t] .
    ultimately show ?thesis using t fresh True by (auto simp: apart_def fresh_claims_def)
  next
    case False
    with x have xd: "x \<in> set (streams d)" "strID x \<noteq> strID s" unfolding S by auto
    then obtain tx where tx: "row_get dtID (strGatewayTemplateID x) (domain_templates d) = Some tx"
      and fx: "dtMergeGateways tx \<longrightarrow> fresh_claims d tx (Some (strID x)) (strPorts x)"
      using inv by (auto simp: listener_inv_def apart_def)
    have "fresh_claims ?d tx (Some (strID x)) (strPorts x)" if m: "dtMergeGateways tx"
    proof -
      have idx: "dtID tx = strGatewayTemplateID x" using row_get_key [OF tx] .
      have "k \<notin> set (claimed_ports ?d (dtID tx) (Some (strID x)))" if k: "k \<in> claim_key ` set (strPorts x)" for k
      proof
        assume "k \<in> set (claimed_ports ?d (dtID tx) (Some (strID x)))"
        then obtain y where y: "y \<in> set (streams ?d)" "strGatewayTemplateID y = dtID tx" "strID y \<noteq> strID x" "k \<in> claim_key ` set (strPorts y)"
          unfolding new by auto
        show False
        proof (cases "y = s")
          case True
          then have "tx = t" using y(2) t tx idx by simp
          then have "k \<notin> set (claimed_ports d (dtID t) (Some (strID s)))"
            using fresh m y(4) True by (auto simp: fresh_claims_def)
          then show False using xd k y True idx \<open>tx = t\<close> unfolding old by auto
        next
          case False
          then have "k \<in> set (claimed_ports d (dtID tx) (Some (strID x)))" using y unfolding S old by auto
          then show False using fx m k by (auto simp: fresh_claims_def)
        qed
      qed
      then show ?thesis using fx m by (auto simp: fresh_claims_def)
    qed
    then show ?thesis using tx by (auto simp: apart_def)
  qed
  moreover have "strID x < next_id ?d" if "x \<in> set (streams ?d)" for x
    using that inv unfolding S by (auto simp: listener_inv_def)
  ultimately show ?thesis using W' D by (simp add: listener_inv_def)
qed

end
