(* ===== verification/Templates.thy ===== *)
theory Templates
  imports Streams
begin

text \<open>
  Gateway templates: \<open>src/internal/services/domain_template_service.go\<close>, its validators
  (\<open>domain_template_validation.go\<close>, \<open>telemetry_validator.go\<close>, \<open>pod_scheduling_validator.go\<close>), the
  migration of \<open>src/internal/models/template_migrate.go\<close> and the rows of
  \<open>src/internal/repository/domain_template_repository.go\<close>.

  The loop of the listener validator keeps its two maps as the lists of their keys. A regular
  expression of the source is the predicate of the strings it matches.
\<close>

section \<open>Rows\<close>

text \<open>\<open>idx_domaintemplate_project_name\<close> is unique; domains and streams reference their template.\<close>

definition template_save :: "DomainTemplate \<Rightarrow> db \<Rightarrow> error + db" where
  "template_save t d =
     (if list_ex (\<lambda>x. dtID x \<noteq> dtID t \<and> dtProjectID x = dtProjectID t \<and> dtName x = dtName t) (domain_templates d)
      then Inl ErrDuplicatedKey else Inr (d\<lparr>domain_templates := row_save dtID t (domain_templates d)\<rparr>))"

definition DomainTemplateRepo_Create :: "DomainTemplate \<Rightarrow> DomainTemplate m" where
  "DomainTemplateRepo_Create t = inserts ErrDB (\<lambda>d.
     let t' = t\<lparr>dtID := next_id d\<rparr>
     in map_sum id (\<lambda>d'. (t', d'\<lparr>next_id := Suc (next_id d)\<rparr>)) (template_save t' d))"

definition DomainTemplateRepo_Update :: "DomainTemplate \<Rightarrow> unit m" where
  "DomainTemplateRepo_Update t = updates ErrDB (template_save t)"

definition DomainTemplateRepo_Delete :: "uuid \<Rightarrow> unit m" where
  "DomainTemplateRepo_Delete i = updates ErrDB (\<lambda>d.
     if list_ex (\<lambda>x. domDomainTemplateID x = Some i) (domains d) \<or> list_ex (\<lambda>s. strGatewayTemplateID s = i) (streams d)
     then Inl ErrDB else Inr (d\<lparr>domain_templates := row_delete dtID i (domain_templates d)\<rparr>))"

definition DomainTemplateRepo_ExistsByName :: "uuid \<Rightarrow> string \<Rightarrow> bool m" where
  "DomainTemplateRepo_ExistsByName p n = query (\<lambda>d. Inr (list_ex (\<lambda>t. dtProjectID t = p \<and> dtName t = n) (domain_templates d)))"

definition DomainTemplateRepo_GetByName :: "uuid \<Rightarrow> string \<Rightarrow> DomainTemplate m" where
  "DomainTemplateRepo_GetByName p n =
     query (\<lambda>d. found (List.find (\<lambda>t. dtProjectID t = p \<and> dtName t = n) (domain_templates d)))"

definition capabilityListenerClause :: "string \<Rightarrow> (TemplateListener list \<Rightarrow> bool) option" where
  "capabilityListenerClause capability =
     (if capability = ''domain'' then Some (list_ex (\<lambda>l. tlProtocol l \<in> {ListenerHTTP, ListenerHTTPS, ListenerTLS}))
      else if capability = ''stream'' then Some (list_ex (\<lambda>l. tlProtocol l \<in> {ListenerTCP, ListenerUDP}))
      else None)"

text \<open>A page and the number of all rows; an \<open>OFFSET\<close> or a \<open>LIMIT\<close> below zero is no restriction.\<close>

definition DomainTemplateRepo_ListByProjectID :: "uuid \<Rightarrow> int \<Rightarrow> int \<Rightarrow> string \<Rightarrow> (DomainTemplate list \<times> nat) m" where
  "DomainTemplateRepo_ListByProjectID p page limit capability =
     (let keep = (\<lambda>d. filter (\<lambda>t. dtProjectID t = p \<and>
            (case capabilityListenerClause capability of None \<Rightarrow> True | Some f \<Rightarrow> f (dtListeners t))) (domain_templates d))
      in bind (query (\<lambda>d. Inr (length (keep d)))) (\<lambda>total.
         bind (query (\<lambda>d. Inr ((if 0 \<le> limit then take (nat limit) else id) (drop (nat ((page - 1) * limit)) (sort_key dtName (keep d))))))
           (\<lambda>ts. ret (ts, total))))"

definition DomainRepo_ListByTemplateID :: "uuid \<Rightarrow> Domain list m" where
  "DomainRepo_ListByTemplateID t = query (\<lambda>d. Inr (filter (\<lambda>x. domDomainTemplateID x = Some t) (domains d)))"

section \<open>Listeners\<close>

fun listener_checks :: "string list \<Rightarrow> int list \<Rightarrow> bool \<Rightarrow> TemplateListener list \<Rightarrow> check" where
  "listener_checks names fixed haveRange [] = Inr ()"
| "listener_checks names fixed haveRange (l # ls) =
     (if tlName l = [] then Inl (Wrap ''%w: listener name is required (protocol %q)'' ErrInvalidListener)
      else if tlName l \<in> set names then Inl (Wrap ''%w: duplicate listener name %q'' ErrInvalidListener)
      else (case tlProtocol l of
          ListenerTLS \<Rightarrow> Inl ErrTLSPassthroughNotSupported
        | ListenerOther _ \<Rightarrow> Inl (Wrap ''%w: unknown protocol %q'' ErrInvalidListener)
        | p \<Rightarrow> if p = ListenerHTTP \<or> p = ListenerHTTPS
            then (case ValidateListenerPort (tlPort l) DefaultReservedPorts of
                Inl e \<Rightarrow> Inl e
              | Inr _ \<Rightarrow> if tlPort l \<in> set fixed then Inl (Wrap ''%w: port %d used twice'' ErrListenerPortConflict)
                  else listener_checks (tlName l # names) (tlPort l # fixed) haveRange ls)
            else if haveRange then Inl (Wrap ''%w: multiple TCP/UDP ranges'' ErrInvalidListener)
            else if tlPortRangeMin l < 1 \<or> 65535 < tlPortRangeMax l \<or> tlPortRangeMax l < tlPortRangeMin l
            then Inl (Wrap ''%w: bad range %d-%d'' ErrInvalidListener)
            else listener_checks (tlName l # names) fixed True ls))"

definition ValidateTemplateListeners :: "TemplateListener list \<Rightarrow> check" where
  "ValidateTemplateListeners ls = (if ls = [] then Inl ErrNoListener else listener_checks [] [] False ls)"

section \<open>Scaling, telemetry and scheduling\<close>

text \<open>\<open>x == nil || *x < 1\<close>\<close>

definition below_one :: "int option \<Rightarrow> bool" where
  "below_one x = (case x of None \<Rightarrow> True | Some n \<Rightarrow> n < 1)"

definition validateScalingConfig :: "ScalingConfig option \<Rightarrow> check" where
  "validateScalingConfig = check_opt (\<lambda>sc. checks
     [fail_if (scType sc \<noteq> ''fixed'' \<and> scType sc \<noteq> ''hpa'') (''scaling type must be '' @ [CHR 0x27] @ ''fixed'' @ [CHR 0x27] @ '' or '' @ [CHR 0x27] @ ''hpa'' @ [CHR 0x27]),
      check_when (scType sc = ''fixed'') (fail_if (below_one (scReplicas sc)) ''fixed scaling requires replicas >= 1''),
      check_when (scType sc = ''hpa'') (checks
        [fail_if (below_one (scMinReplicas sc)) ''HPA scaling requires minReplicas >= 1'',
         fail_if (below_one (scMaxReplicas sc)) ''HPA scaling requires maxReplicas >= 1'',
         fail_if (case (scMinReplicas sc, scMaxReplicas sc) of (Some lo, Some hi) \<Rightarrow> hi < lo | _ \<Rightarrow> False)
           ''HPA maxReplicas must be >= minReplicas''])])"

definition validateServiceRef :: "TelemetryServiceRef \<Rightarrow> check" where
  "validateServiceRef r = checks
     [fail_if (tsrNamespace r = []) ''namespace must be non-empty'',
      fail_if (tsrService r = []) ''service must be non-empty'',
      fail_if (tsrPort r < 1 \<or> 65535 < tsrPort r) ''port must be in [1, 65535], got %d'']"

definition ValidateAccessLog :: "TelemetryAccessLogConfig option \<Rightarrow> check" where
  "ValidateAccessLog = check_opt (\<lambda>cfg. checks
     [if talFormatType cfg = ''text'' then fail_if (talFormatText cfg = []) ''access log: text format body must be non-empty''
      else if talFormatType cfg = ''json'' then checks
        [fail_if (talFormatJSON cfg = []) ''access log: json format body must contain at least one key'',
         check_each (\<lambda>(k, v). checks
           [fail_if (k = []) ''access log: json format body has an empty key'',
            fail_if (v = []) ''access log: json format value for key %q must be non-empty'']) (talFormatJSON cfg)]
      else fail_if (talFormatType cfg \<noteq> ''disabled'') ''access log: unknown format type %q'',
      if talSinkType cfg = ''file'' then (case talSinkFile cfg of
          None \<Rightarrow> fail_if True ''access log: file sink missing body''
        | Some path \<Rightarrow> fail_if (path \<noteq> ''/dev/stdout'' \<and> path \<noteq> ''/dev/stderr'') ''access log: file path must be /dev/stdout or /dev/stderr'')
      else if talSinkType cfg = ''otel'' then (case talSinkOTel cfg of
          None \<Rightarrow> fail_if True ''access log: otel sink missing body''
        | Some r \<Rightarrow> wrap_check ''access log: %w'' (validateServiceRef r))
      else fail_if True ''access log: unknown sink type %q''])"

definition ValidateTracing :: "TelemetryTracingConfig option \<Rightarrow> check" where
  "ValidateTracing = check_opt (\<lambda>cfg. checks
     [fail_if (ttcSamplingRate cfg < 0 \<or> 100 < ttcSamplingRate cfg) ''tracing: samplingRate must be in [0, 100], got %v'',
      wrap_check ''tracing provider: %w'' (validateServiceRef (ttcProvider cfg)),
      check_each (\<lambda>tag. checks
        [fail_if (ttgTag tag = []) ''tracing: customTags[%d] tag name must be non-empty'',
         fail_if (63 < length (ttgTag tag)) ''tracing: customTags[%d] tag name exceeds 63 chars'',
         if ttgType tag = ''literal'' then fail_if (ttgValue tag = []) ''tracing: customTags[%d] literal tag must have value''
         else if ttgType tag = ''requestHeader'' then fail_if (ttgHeader tag = []) ''tracing: customTags[%d] requestHeader tag must have header name''
         else fail_if True ''tracing: customTags[%d] unknown type %q'']) (ttcCustomTags cfg)])"

definition ValidateMetrics :: "TelemetryMetricsConfig option \<Rightarrow> check" where
  "ValidateMetrics = check_opt (\<lambda>cfg. check_each (\<lambda>(ty, r). checks
     [fail_if (ty \<noteq> ''openTelemetry'') ''metrics sinks[%d]: unknown type %q'',
      wrap_check ''metrics sinks[%d]: %w'' (validateServiceRef r)]) (tmcSinks cfg))"

definition NormalizeEmptyTelemetryMetrics :: "TelemetryMetricsConfig option \<Rightarrow> TelemetryMetricsConfig option" where
  "NormalizeEmptyTelemetryMetrics cfg = (case cfg of None \<Rightarrow> None | Some c \<Rightarrow>
     if tmcPrometheus c = None \<and> \<not> tmcEnableVirtualHostStats c \<and> \<not> tmcEnablePerEndpointStats c \<and> tmcSinks c = []
     then None else Some c)"

definition ValidateDomainTemplateTelemetry :: "DomainTemplate \<Rightarrow> check" where
  "ValidateDomainTemplateTelemetry dt = checks
     [ValidateAccessLog (dtTelemetryAccessLog dt), ValidateTracing (dtTelemetryTracing dt), ValidateMetrics (dtTelemetryMetrics dt)]"

definition is_alpha_num :: "char \<Rightarrow> bool" where
  "is_alpha_num c \<longleftrightarrow> is_lower c \<or> is_upper c \<or> is_digit c"

text \<open>\<open>[A-Za-z0-9]([A-Za-z0-9._-]*[A-Za-z0-9])?\<close>\<close>

definition label_segment :: "string \<Rightarrow> bool" where
  "label_segment s \<longleftrightarrow> s \<noteq> [] \<and> is_alpha_num (hd s) \<and> is_alpha_num (last s) \<and>
     list_all (\<lambda>c. is_alpha_num c \<or> c \<in> {CHR ''.'', CHR ''_'', CHR ''-''}) s"

definition labelKeyRegex :: "string \<Rightarrow> bool" where
  "labelKeyRegex k = (case split_on CHR ''/'' k of [s] \<Rightarrow> label_segment s | [p, s] \<Rightarrow> label_segment p \<and> label_segment s | _ \<Rightarrow> False)"

definition labelValueRegex :: "string \<Rightarrow> bool" where
  "labelValueRegex v \<longleftrightarrow> v = [] \<or> label_segment v"

definition is_one_nine :: "char \<Rightarrow> bool" where
  "is_one_nine c \<longleftrightarrow> is_digit c \<and> c \<noteq> CHR ''0''"

text \<open>\<open>^[1-9][0-9]*$\<close>, \<open>^(0|[1-9][0-9]*)$\<close>, \<open>^([1-9][0-9]?|100)%$\<close> and \<open>^([0-9]|[1-9][0-9]?|100)%$\<close>\<close>

definition positiveIntRegex :: "string \<Rightarrow> bool" where
  "positiveIntRegex s = (case s of [] \<Rightarrow> False | c # cs \<Rightarrow> is_one_nine c \<and> list_all is_digit cs)"

definition nonNegativeIntRegex :: "string \<Rightarrow> bool" where
  "nonNegativeIntRegex s \<longleftrightarrow> s = ''0'' \<or> positiveIntRegex s"

definition pdbPercentRegex :: "string \<Rightarrow> bool" where
  "pdbPercentRegex s \<longleftrightarrow> s = ''100%'' \<or> (case s of
     [c, p] \<Rightarrow> is_one_nine c \<and> p = CHR ''%'' | [c, e, p] \<Rightarrow> is_one_nine c \<and> is_digit e \<and> p = CHR ''%'' | _ \<Rightarrow> False)"

definition rollingPercentRegex :: "string \<Rightarrow> bool" where
  "rollingPercentRegex s \<longleftrightarrow> pdbPercentRegex s \<or> (case s of [c, p] \<Rightarrow> is_digit c \<and> p = CHR ''%'' | _ \<Rightarrow> False)"

definition toleration_check :: "TolerationConfig \<Rightarrow> check" where
  "toleration_check t = checks
     [if tolOperator t = ''Equal'' then checks
        [fail_if (tolValue t = []) ''tolerations[%d]: value required when operator=Equal'',
         fail_if (tolKey t = []) ''tolerations[%d]: key required when operator=Equal'']
      else if tolOperator t = ''Exists'' then fail_if (tolValue t \<noteq> []) ''tolerations[%d]: value not allowed with operator=Exists''
      else fail_if True ''tolerations[%d]: unknown operator %q (want Equal or Exists)'',
      fail_if (tolEffect t \<notin> {''NoSchedule'', ''PreferNoSchedule'', ''NoExecute'', []}) ''tolerations[%d]: unknown effect %q'',
      check_opt (\<lambda>secs. checks
        [fail_if (tolEffect t \<noteq> ''NoExecute'') ''tolerations[%d]: tolerationSeconds only meaningful with effect=NoExecute'',
         fail_if (secs < 0) ''tolerations[%d]: tolerationSeconds must be >= 0'']) (tolTolerationSeconds t)]"

definition topology_check :: "TopologySpreadConstraintConfig \<Rightarrow> check" where
  "topology_check c = checks
     [fail_if (tspMaxSkew c < 1) ''topologySpreadConstraints[%d]: maxSkew must be >= 1'',
      fail_if (tspTopologyKey c = []) ''topologySpreadConstraints[%d]: topologyKey must be non-empty'',
      fail_if (tspWhenUnsatisfiable c \<notin> {''DoNotSchedule'', ''ScheduleAnyway''})
        ''topologySpreadConstraints[%d]: whenUnsatisfiable must be DoNotSchedule or ScheduleAnyway'']"

definition ValidatePodPlacement :: "PodPlacementConfig option \<Rightarrow> check" where
  "ValidatePodPlacement = check_opt (\<lambda>cfg. checks
     [check_each (\<lambda>(k, v). checks
        [fail_if (\<not> labelKeyRegex k) ''nodeSelector key %q is not a valid K8s label key'',
         fail_if (\<not> labelValueRegex v) ''nodeSelector value %q is not a valid K8s label value'']) (ppcNodeSelector cfg),
      check_each toleration_check (ppcTolerations cfg),
      check_each topology_check (ppcTopologySpreadConstraints cfg),
      fail_if (253 < length (ppcPriorityClassName cfg)) ''priorityClassName exceeds 253 chars''])"

definition ValidatePDB :: "PDBConfig option \<Rightarrow> check" where
  "ValidatePDB = check_opt (\<lambda>cfg. checks
     [fail_if (pdbKind cfg \<noteq> ''minAvailable'' \<and> pdbKind cfg \<noteq> ''maxUnavailable'') ''kind must be minAvailable or maxUnavailable, got %q'',
      fail_if (\<not> positiveIntRegex (pdbAmount cfg) \<and> \<not> pdbPercentRegex (pdbAmount cfg))
        ''value must be a positive integer or a percentage 1%%-100%%, got %q''])"

definition validateRollingValue :: "string \<Rightarrow> check" where
  "validateRollingValue v = check_when (v \<noteq> []) (fail_if (\<not> nonNegativeIntRegex v \<and> \<not> rollingPercentRegex v)
     ''%s must be a non-negative integer or a percentage 0%%-100%%, got %q'')"

definition isZeroIntOrPercent :: "string \<Rightarrow> bool" where
  "isZeroIntOrPercent s \<longleftrightarrow> s = ''0'' \<or> s = ''0%''"

definition ValidateStrategy :: "DeploymentStrategyConfig option \<Rightarrow> check" where
  "ValidateStrategy = check_opt (\<lambda>cfg. checks
     [fail_if (dscType cfg \<noteq> ''RollingUpdate'' \<and> dscType cfg \<noteq> ''Recreate'') ''type must be RollingUpdate or Recreate, got %q'',
      fail_if (dscType cfg = ''Recreate'' \<and> dscRollingUpdate cfg \<noteq> None) ''rollingUpdate must not be set when type=Recreate'',
      check_when (dscType cfg = ''RollingUpdate'') (check_opt (\<lambda>(maxSurge, maxUnavailable). checks
        [validateRollingValue maxSurge, validateRollingValue maxUnavailable,
         fail_if (isZeroIntOrPercent maxSurge \<and> isZeroIntOrPercent maxUnavailable) ''both maxSurge and maxUnavailable cannot be 0''])
        (dscRollingUpdate cfg))])"

definition NormalizeEmptyPodPlacement :: "PodPlacementConfig option \<Rightarrow> PodPlacementConfig option" where
  "NormalizeEmptyPodPlacement cfg = (case cfg of None \<Rightarrow> None | Some c \<Rightarrow>
     if ppcNodeSelector c = [] \<and> ppcTolerations c = [] \<and> ppcTopologySpreadConstraints c = [] \<and> ppcPriorityClassName c = []
     then None else Some c)"

definition ValidateDomainTemplatePodScheduling :: "DomainTemplate \<Rightarrow> check" where
  "ValidateDomainTemplatePodScheduling dt = checks
     [ValidatePodPlacement (dtPodPlacement dt), ValidatePDB (dtPDBConfig dt), ValidateStrategy (dtDeploymentStrategy dt)]"

text \<open>The normalisation and validation both Create and Update run before they write.\<close>

definition normalized :: "DomainTemplate \<Rightarrow> DomainTemplate" where
  "normalized dt = dt\<lparr>dtTelemetryMetrics := NormalizeEmptyTelemetryMetrics (dtTelemetryMetrics dt),
     dtPodPlacement := NormalizeEmptyPodPlacement (dtPodPlacement dt)\<rparr>"

definition settings_check :: "DomainTemplate \<Rightarrow> check" where
  "settings_check dt = checks [ValidateDomainTemplateTelemetry dt, ValidateDomainTemplatePodScheduling dt]"

section \<open>The migration of the old columns\<close>

definition MigrateTemplateListeners :: "string \<Rightarrow> int \<Rightarrow> int \<Rightarrow> string \<Rightarrow> bool \<Rightarrow> bool \<Rightarrow> TemplateListener list" where
  "MigrateTemplateListeners tlsMode httpPort httpsPort tlsPolicy enableDomain enableStream =
     (let tlsm = (if tlsPolicy = ''passthrough'' then ''Passthrough'' else ''Terminate'');
          http = \<lparr>tlName = ''http'', tlProtocol = ListenerHTTP, tlPort = httpPort, tlTLSMode = [], tlPortRangeMin = 0, tlPortRangeMax = 0\<rparr>;
          https = \<lparr>tlName = ''https'', tlProtocol = ListenerHTTPS, tlPort = httpsPort, tlTLSMode = tlsm, tlPortRangeMin = 0, tlPortRangeMax = 0\<rparr>
      in (if enableDomain then
            (if tlsMode = ''no_tls'' then [http] else if tlsMode = ''both'' then [http, https] else [https]) else []) @
         (if enableStream then [\<lparr>tlName = ''tcpudp'', tlProtocol = ListenerTCP, tlPort = 0, tlTLSMode = [],
            tlPortRangeMin = 1, tlPortRangeMax = 65535\<rparr>] else []))"

definition MigrateDomainBoundListeners :: "string \<Rightarrow> string list" where
  "MigrateDomainBoundListeners tlsMode =
     (if tlsMode = ''no_tls'' then [''http''] else if tlsMode = ''both'' then [''http'', ''https''] else [''https''])"

section \<open>The service\<close>

record CreateDomainTemplateInput =
  cdiName :: string
  cdiDescription :: string
  cdiControllerName :: string
  cdiExposureType :: string
  cdiListeners :: "TemplateListener list"
  cdiExternalTrafficPolicy :: string
  cdiLoadBalancerClass :: string
  cdiAnnotations :: "(string \<times> string) list"
  cdiPodAnnotations :: "(string \<times> string) list"
  cdiContainerResources :: "doc option"
  cdiScalingConfig :: "ScalingConfig option"
  cdiMergeGateways :: bool
  cdiTelemetryAccessLog :: "TelemetryAccessLogConfig option"
  cdiTelemetryTracing :: "TelemetryTracingConfig option"
  cdiTelemetryMetrics :: "TelemetryMetricsConfig option"
  cdiPodPlacement :: "PodPlacementConfig option"
  cdiPDBConfig :: "PDBConfig option"
  cdiDeploymentStrategy :: "DeploymentStrategyConfig option"

text \<open>A nil map and a missing pointer are \<open>None\<close>.\<close>

record UpdateDomainTemplateInput =
  udiDescription :: string
  udiExternalTrafficPolicy :: string
  udiLoadBalancerClass :: string
  udiAnnotations :: "(string \<times> string) list option"
  udiPodAnnotations :: "(string \<times> string) list option"
  udiContainerResources :: "doc option"
  udiScalingConfig :: "ScalingConfig option"
  udiListeners :: "TemplateListener list option"
  udiTelemetryAccessLog :: "TelemetryAccessLogConfig option"
  udiTelemetryTracing :: "TelemetryTracingConfig option"
  udiTelemetryMetrics :: "TelemetryMetricsConfig option"
  udiPodPlacement :: "PodPlacementConfig option"
  udiPDBConfig :: "PDBConfig option"
  udiDeploymentStrategy :: "DeploymentStrategyConfig option"
  udiClearTelemetryAccessLog :: bool
  udiClearTelemetryTracing :: bool
  udiClearTelemetryMetrics :: bool
  udiClearPodPlacement :: bool
  udiClearPDBConfig :: bool
  udiClearDeploymentStrategy :: bool

definition isValidK8sName :: "string \<Rightarrow> bool" where
  "isValidK8sName name \<longleftrightarrow> name \<noteq> [] \<and> length name \<le> 63 \<and> is_lower (hd name) \<and> is_alnum (last name) \<and>
     list_all (\<lambda>c. is_alnum c \<or> is_dash c) name"

definition ExposureTypeLoadBalancer :: string where "ExposureTypeLoadBalancer = ''LoadBalancer''"
definition ExposureTypeClusterIP :: string where "ExposureTypeClusterIP = ''ClusterIP''"
definition ExternalTrafficPolicyCluster :: string where "ExternalTrafficPolicyCluster = ''Cluster''"
definition ExternalTrafficPolicyLocal :: string where "ExternalTrafficPolicyLocal = ''Local''"

definition traffic_policy_check :: "string \<Rightarrow> check" where
  "traffic_policy_check p = fail_if (p \<noteq> ExternalTrafficPolicyCluster \<and> p \<noteq> ExternalTrafficPolicyLocal)
     ''external traffic policy must be Cluster or Local''"

definition controller_name :: "CreateDomainTemplateInput \<Rightarrow> string" where
  "controller_name inp = (if cdiControllerName inp = [] then EnvoyGatewayControllerName else cdiControllerName inp)"

text \<open>The checks before the name is looked up.\<close>

definition create_shape_check :: "CreateDomainTemplateInput \<Rightarrow> check" where
  "create_shape_check inp = checks
     [fail_if (cdiExposureType inp \<noteq> ExposureTypeLoadBalancer \<and> cdiExposureType inp \<noteq> ExposureTypeClusterIP)
        ''exposure type must be LoadBalancer or ClusterIP'',
      ValidateTemplateListeners (cdiListeners inp),
      fail_if (controller_name inp \<noteq> EnvoyGatewayControllerName) ''only Envoy Gateway controller is currently supported'',
      fail_if (\<not> isValidK8sName (cdiName inp))
        ''name must be lowercase, contain only letters, numbers, and dashes, and start with a letter'']"

definition new_template :: "uuid \<Rightarrow> CreateDomainTemplateInput \<Rightarrow> uuid \<Rightarrow> DomainTemplate" where
  "new_template projectID inp createdBy = normalized
     \<lparr>dtID = 0, dtProjectID = projectID, dtName = cdiName inp, dtDescription = cdiDescription inp,
      dtControllerName = controller_name inp, dtExposureType = cdiExposureType inp, dtListeners = cdiListeners inp,
      dtExternalTrafficPolicy = (if cdiExposureType inp = ExposureTypeLoadBalancer then cdiExternalTrafficPolicy inp else []),
      dtLoadBalancerClass = cdiLoadBalancerClass inp, dtAnnotations = cdiAnnotations inp,
      dtPodAnnotations = cdiPodAnnotations inp, dtContainerResources = cdiContainerResources inp,
      dtScalingConfig = cdiScalingConfig inp, dtMergeGateways = cdiMergeGateways inp,
      dtTelemetryAccessLog = cdiTelemetryAccessLog inp, dtTelemetryTracing = cdiTelemetryTracing inp,
      dtTelemetryMetrics = cdiTelemetryMetrics inp, dtPodPlacement = cdiPodPlacement inp,
      dtPDBConfig = cdiPDBConfig inp, dtDeploymentStrategy = cdiDeploymentStrategy inp,
      dtStatus = DomainTemplateStatusPending, dtStatusMessage = [],
      dtK8sGatewayClassName = cdiName inp @ ''-'' @ ToLower (cdiExposureType inp),
      dtK8sEnvoyProxyName = cdiName inp @ ''-'' @ ToLower (cdiExposureType inp) @ ''-config'', dtCreatedBy = createdBy\<rparr>"

text \<open>A status is saved with its error discarded.\<close>

definition settle_template :: "DomainTemplateStatus \<Rightarrow> string \<Rightarrow> DomainTemplate \<Rightarrow> DomainTemplate m" where
  "settle_template status message dt =
     (let dt' = dt\<lparr>dtStatus := status, dtStatusMessage := message\<rparr>
      in bind (attempt (DomainTemplateRepo_Update dt')) (\<lambda>_. ret dt'))"

definition deploy_template :: "DomainTemplate \<Rightarrow> DomainTemplate m" where
  "deploy_template dt =
     bind (attempt (CreateEnvoyProxy (dtProjectID dt) (BuildEnvoyProxyConfig dt))) (\<lambda>r. case r of
       Inl e \<Rightarrow> settle_template DomainTemplateStatusError ''Failed to create EnvoyProxy: %v'' dt
     | Inr _ \<Rightarrow>
       bind (attempt (CreateGatewayClass (dtProjectID dt) (BuildGatewayClassConfig dt))) (\<lambda>r. case r of
         Inl e \<Rightarrow>
           bind (attempt (DeleteEnvoyProxy (dtProjectID dt) EnvoyGatewayNamespace (dtK8sEnvoyProxyName dt))) (\<lambda>_.
           settle_template DomainTemplateStatusError ''Failed to create GatewayClass: %v'' dt)
       | Inr _ \<Rightarrow> settle_template DomainTemplateStatusActive ''GatewayClass and EnvoyProxy created successfully'' dt))"

definition TemplateService_Create :: "uuid \<Rightarrow> CreateDomainTemplateInput \<Rightarrow> uuid \<Rightarrow> DomainTemplate m" where
  "TemplateService_Create projectID inp createdBy =
     bind (lift_check (create_shape_check inp)) (\<lambda>_.
     bind (DomainTemplateRepo_ExistsByName projectID (cdiName inp)) (\<lambda>exists.
     bind (require (\<not> exists) (Msg ''domain template name already exists in this project'')) (\<lambda>_.
     let dt = new_template projectID inp createdBy
     in bind (lift_check (checks
          [validateScalingConfig (cdiScalingConfig inp),
           check_when (cdiExposureType inp = ExposureTypeLoadBalancer \<and> cdiExternalTrafficPolicy inp \<noteq> [])
             (traffic_policy_check (cdiExternalTrafficPolicy inp)),
           settings_check dt])) (\<lambda>_.
     bind (DomainTemplateRepo_Create dt) deploy_template))))"

definition TemplateService_GetByID :: "uuid \<Rightarrow> DomainTemplate m" where
  "TemplateService_GetByID i = DomainTemplateRepo_GetByID i"

definition ListDomainsByTemplateID :: "uuid \<Rightarrow> Domain list m" where
  "ListDomainsByTemplateID t = DomainRepo_ListByTemplateID t"

text \<open>A field an optional input replaces, and one with a clear-flag as well.\<close>

definition override :: "'a \<Rightarrow> 'a option \<Rightarrow> 'a" where
  "override old new = (case new of None \<Rightarrow> old | Some x \<Rightarrow> x)"

definition override_string :: "string \<Rightarrow> string \<Rightarrow> string" where
  "override_string old new = (if new = [] then old else new)"

definition override_opt :: "bool \<Rightarrow> 'a option \<Rightarrow> 'a option \<Rightarrow> 'a option" where
  "override_opt clear old new = (if clear then None else if new = None then old else new)"

definition updated_template :: "UpdateDomainTemplateInput \<Rightarrow> DomainTemplate \<Rightarrow> DomainTemplate" where
  "updated_template inp dt = normalized (dt
     \<lparr>dtDescription := override_string (dtDescription dt) (udiDescription inp),
      dtExternalTrafficPolicy := override_string (dtExternalTrafficPolicy dt) (udiExternalTrafficPolicy inp),
      dtLoadBalancerClass := override_string (dtLoadBalancerClass dt) (udiLoadBalancerClass inp),
      dtAnnotations := override (dtAnnotations dt) (udiAnnotations inp),
      dtPodAnnotations := override (dtPodAnnotations dt) (udiPodAnnotations inp),
      dtContainerResources := override_opt False (dtContainerResources dt) (udiContainerResources inp),
      dtScalingConfig := override_opt False (dtScalingConfig dt) (udiScalingConfig inp),
      dtListeners := override (dtListeners dt) (udiListeners inp),
      dtTelemetryAccessLog := override_opt (udiClearTelemetryAccessLog inp) (dtTelemetryAccessLog dt) (udiTelemetryAccessLog inp),
      dtTelemetryTracing := override_opt (udiClearTelemetryTracing inp) (dtTelemetryTracing dt) (udiTelemetryTracing inp),
      dtTelemetryMetrics := override_opt (udiClearTelemetryMetrics inp) (dtTelemetryMetrics dt) (udiTelemetryMetrics inp),
      dtPodPlacement := override_opt (udiClearPodPlacement inp) (dtPodPlacement dt) (udiPodPlacement inp),
      dtPDBConfig := override_opt (udiClearPDBConfig inp) (dtPDBConfig dt) (udiPDBConfig inp),
      dtDeploymentStrategy := override_opt (udiClearDeploymentStrategy inp) (dtDeploymentStrategy dt) (udiDeploymentStrategy inp)\<rparr>)"

definition needsK8sUpdate :: "UpdateDomainTemplateInput \<Rightarrow> bool" where
  "needsK8sUpdate inp \<longleftrightarrow> udiAnnotations inp \<noteq> None \<or> udiPodAnnotations inp \<noteq> None \<or>
     udiContainerResources inp \<noteq> None \<or> udiScalingConfig inp \<noteq> None \<or>
     udiExternalTrafficPolicy inp \<noteq> [] \<or> udiLoadBalancerClass inp \<noteq> [] \<or>
     udiTelemetryAccessLog inp \<noteq> None \<or> udiTelemetryTracing inp \<noteq> None \<or> udiTelemetryMetrics inp \<noteq> None \<or>
     udiPodPlacement inp \<noteq> None \<or> udiPDBConfig inp \<noteq> None \<or> udiDeploymentStrategy inp \<noteq> None \<or>
     udiClearTelemetryAccessLog inp \<or> udiClearTelemetryTracing inp \<or> udiClearTelemetryMetrics inp \<or>
     udiClearPodPlacement inp \<or> udiClearPDBConfig inp \<or> udiClearDeploymentStrategy inp"

definition new_listeners_check :: "bool \<Rightarrow> DomainTemplate \<Rightarrow> TemplateListener list \<Rightarrow> unit m" where
  "new_listeners_check wired dt ls =
     bind (lift_check (ValidateTemplateListeners ls)) (\<lambda>_.
     if \<not> dtMergeGateways dt then ret ()
     else bind (require wired unwired) (\<lambda>_. checkMergedTemplateSet (dt\<lparr>dtListeners := ls\<rparr>)))"

definition TemplateService_Update :: "bool \<Rightarrow> uuid \<Rightarrow> UpdateDomainTemplateInput \<Rightarrow> DomainTemplate m" where
  "TemplateService_Update wired i inp =
     bind (DomainTemplateRepo_GetByID i) (\<lambda>dt.
     bind (lift_check (checks
       [check_when (udiExternalTrafficPolicy inp \<noteq> []) (traffic_policy_check (udiExternalTrafficPolicy inp)),
        validateScalingConfig (udiScalingConfig inp)])) (\<lambda>_.
     bind (case udiListeners inp of None \<Rightarrow> ret () | Some ls \<Rightarrow> new_listeners_check wired dt ls) (\<lambda>_.
     let dt' = updated_template inp dt
     in bind (lift_check (settings_check dt')) (\<lambda>_.
        bind (if needsK8sUpdate inp
              then bind (attempt (UpdateEnvoyProxy (dtProjectID dt') (BuildEnvoyProxyConfig dt'))) (\<lambda>_. ret ())
              else ret ()) (\<lambda>_.
        bind (DomainTemplateRepo_Update dt') (\<lambda>_. ret dt'))))))"

definition TemplateService_Delete :: "bool \<Rightarrow> uuid \<Rightarrow> unit m" where
  "TemplateService_Delete wired i =
     bind (DomainTemplateRepo_GetByID i) (\<lambda>dt.
     bind (wrap_error ''check domains for template %s: %w'' (DomainRepo_ListByTemplateID i)) (\<lambda>ds.
     bind (require (ds = []) (Wrap ''%w: %d domain(s)'' ErrDomainTemplateInUse)) (\<lambda>_.
     bind (require wired (Panic ''streamPorts'')) (\<lambda>_.
     bind (wrap_error ''check streams for template %s: %w'' (StreamRepo_CountByGatewayTemplateID i)) (\<lambda>n.
     bind (require (n = 0) (Wrap ''%w: %d stream(s)'' ErrDomainTemplateInUse)) (\<lambda>_.
     bind (attempt (DeleteGatewayClass (dtProjectID dt) (dtK8sGatewayClassName dt))) (\<lambda>_.
     bind (if dtK8sEnvoyProxyName dt \<noteq> []
           then bind (attempt (DeleteEnvoyProxy (dtProjectID dt) EnvoyGatewayNamespace (dtK8sEnvoyProxyName dt))) (\<lambda>_. ret ())
           else ret ()) (\<lambda>_.
     DomainTemplateRepo_Delete i))))))))"

end
