(* ===== verification/RouteValidation.thy ===== *)
theory RouteValidation
  imports Templates
begin

text \<open>
  The checks on a route before it is written: \<open>src/internal/services/route_validation.go\<close> and
  \<open>route_write_validation.go\<close>. The shape of HTTP, gRPC and L4 routes, the equality of matchers and the conflicts it
  gives, backends, mirrors and failover, the security modes and the policies of a route.
\<close>

section \<open>Constants\<close>

definition RouteTypeBackend :: string where "RouteTypeBackend = ''backend''"
definition RouteTypeRedirect :: string where "RouteTypeRedirect = ''redirect''"
definition RouteTypeDirectResponse :: string where "RouteTypeDirectResponse = ''directResponse''"
definition BackendTypeKubernetes :: string where "BackendTypeKubernetes = ''kubernetes''"
definition BackendTypeExternal :: string where "BackendTypeExternal = ''external''"
definition DirectResponseBodyTypeInline :: string where "DirectResponseBodyTypeInline = ''Inline''"

section \<open>Shape\<close>

definition grpc_match_check :: "RouteMatch \<Rightarrow> check" where
  "grpc_match_check m = checks
     [fail_if (rmPath m \<noteq> None) ''match[%d]: path matching is not supported for gRPC routes, use grpcService/grpcMethod'',
      fail_if (rmMethod m \<noteq> []) ''match[%d]: HTTP method matching is not supported for gRPC routes'',
      fail_if (rmQueryParams m \<noteq> []) ''match[%d]: query parameter matching is not supported for gRPC routes'',
      fail_if (case (rmGRPCService m, rmGRPCMethod m) of
          (Some s, Some g) \<Rightarrow> gmType s \<noteq> [] \<and> gmType g \<noteq> [] \<and> gmType s \<noteq> gmType g | _ \<Rightarrow> False)
        ''match[%d]: grpcService type (%s) and grpcMethod type (%s) must be the same, as Gateway API GRPCMethodMatch uses a single type for both'']"

definition validateGRPCRouteConfig :: "RouteConfig \<Rightarrow> check" where
  "validateGRPCRouteConfig config = checks
     [fail_if (rcRouteType config = RouteTypeRedirect) ''redirect is not supported for gRPC routes'',
      fail_if (rcRouteType config = RouteTypeDirectResponse) ''direct response is not supported for gRPC routes'',
      fail_if (rcURLRewrite config \<noteq> None) ''URL rewrite is not supported for gRPC routes'',
      fail_if (rcRedirect config \<noteq> None) ''redirect config is not supported for gRPC routes'',
      fail_if (rcDirectResponse config \<noteq> None) ''direct response config is not supported for gRPC routes'',
      check_each grpc_match_check (rcMatches config)]"

definition validateGRPCBackendTrafficPolicy :: "BackendTrafficPolicyConfig option \<Rightarrow> check" where
  "validateGRPCBackendTrafficPolicy = check_opt (\<lambda>btp. fail_if (btpRequestBuffer btp \<noteq> None)
     ''requestBuffer is not supported for gRPC routes: Envoy Gateway cannot buffer gRPC traffic, so the limit would be silently ignored on unary calls and can hang streaming calls'')"

definition validateHTTPRouteConfig :: "RouteConfig \<Rightarrow> check" where
  "validateHTTPRouteConfig config = check_each (\<lambda>m. checks
     [fail_if (rmGRPCService m \<noteq> None) ''match[%d]: grpcService is only supported for gRPC routes'',
      fail_if (rmGRPCMethod m \<noteq> None) ''match[%d]: grpcMethod is only supported for gRPC routes'']) (rcMatches config)"

definition l4RejectsField :: "bool \<Rightarrow> check" where
  "l4RejectsField b = fail_with b (Wrap ''%w: %s'' ErrL4RejectsL7Field)"

definition other_mode :: "SecurityMode \<Rightarrow> bool" where
  "other_mode mode \<longleftrightarrow> mode \<noteq> SecurityModeEmpty \<and> mode \<noteq> SecurityModeGeneral"

definition ValidateL4RouteConfig :: "SecurityMode \<Rightarrow> RouteConfig \<Rightarrow> check" where
  "ValidateL4RouteConfig mode c = checks
     [l4RejectsField (rcMatches c \<noteq> []),
      l4RejectsField (rcRouteType c \<noteq> [] \<and> rcRouteType c \<noteq> RouteTypeBackend),
      l4RejectsField (rcRedirect c \<noteq> None),
      l4RejectsField (rcDirectResponse c \<noteq> None),
      l4RejectsField (rcURLRewrite c \<noteq> None),
      l4RejectsField (rcRequestHeaderModifier c \<noteq> None),
      l4RejectsField (rcResponseHeaderModifier c \<noteq> None),
      l4RejectsField (rcMirrors c \<noteq> []),
      l4RejectsField (rcDefaultTrafficPolicy c \<noteq> [] \<or> rcDefaultAllowedCIDRs c \<noteq> []),
      l4RejectsField (other_mode mode),
      fail_with (rcListenerPort c = 0) ErrL4MissingListenerPort,
      fail_with (rcBackends c = []) ErrL4MissingBackend,
      check_each (\<lambda>b. fail_with (beType b = BackendTypeExternal) (Wrap ''%w: backend[%d]'' ErrL4ExternalBackend)) (rcBackends c)]"

definition validateRouteConfig :: "RouteConfig \<Rightarrow> RouteProtocol \<Rightarrow> check" where
  "validateRouteConfig config protocol =
     (if proto_is_l4 protocol then ValidateL4RouteConfig SecurityModeEmpty config
      else checks
        [fail_if ((rcRouteType config = [] \<or> rcRouteType config = RouteTypeBackend) \<and> rcBackends config = []) ''at least one backend is required'',
         check_when (rcRouteType config \<noteq> RouteTypeDirectResponse \<and> protocol \<noteq> RouteProtocolGRPC) (checks
           [check_each (\<lambda>m. fail_if (case rmPath m of None \<Rightarrow> True | Some p \<Rightarrow> pmValue p = []) ''path matching is required for match rule %d'')
              (rcMatches config),
            fail_if (rcMatches config = []) ''path matching is required'']),
         fail_if (rcRouteType config = RouteTypeRedirect \<and> rcRedirect config = None)
           ''redirect configuration is required for redirect routes''])"

definition BackendTLSWarnings :: "RouteConfig \<Rightarrow> string list" where
  "BackendTLSWarnings config =
     (if list_ex (\<lambda>b. case beTLS b of None \<Rightarrow> False | Some t \<Rightarrow> btlsInsecureSkipVerify t) (rcBackends config)
      then [''insecureSkipVerify skips backend certificate verification. Use only for development/testing or when you trust the network.'']
      else [])"

definition DirectResponsePercentWarnings :: "RouteConfig option \<Rightarrow> string list" where
  "DirectResponsePercentWarnings config =
     (case Option.bind (Option.bind config rcDirectResponse) drBody of
        None \<Rightarrow> []
      | Some b \<Rightarrow> if drbType b = DirectResponseBodyTypeInline \<and> CHR ''%'' \<in> set (drbInline b)
          then [''DirectResponse inline body contains '%'. On Envoy Gateway v1.8+, '%...%' is interpolated as an Envoy command operator. Escape literal '%' as '%%' to keep current behavior, or use a ValueRef body for complex content.'']
          else [])"

section \<open>Matchers\<close>

definition pathMatchEqual :: "PathMatch option \<Rightarrow> PathMatch option \<Rightarrow> bool" where
  "pathMatchEqual a b = (case (a, b) of
     (None, None) \<Rightarrow> True | (Some x, Some y) \<Rightarrow> EqualFold (pmType x) (pmType y) \<and> EqualFold (pmValue x) (pmValue y) | _ \<Rightarrow> False)"

definition grpcMatchEqual :: "GRPCMethodMatch option \<Rightarrow> GRPCMethodMatch option \<Rightarrow> bool" where
  "grpcMatchEqual a b = (case (a, b) of
     (None, None) \<Rightarrow> True | (Some x, Some y) \<Rightarrow> EqualFold (gmType x) (gmType y) \<and> EqualFold (gmValue x) (gmValue y) | _ \<Rightarrow> False)"

definition header_key :: "HeaderMatch \<Rightarrow> string \<times> string \<times> string" where
  "header_key h = (ToLower (hmName h), ToLower (hmType h), ToLower (hmValue h))"

definition query_key :: "QueryParamMatch \<Rightarrow> string \<times> string \<times> string" where
  "query_key q = (ToLower (qmName q), ToLower (qmType q), ToLower (qmValue q))"

text \<open>The two loops over a set of keys: the lengths agree and every key of the second list is one of the first.\<close>

definition headerMatchesEqual :: "HeaderMatch list \<Rightarrow> HeaderMatch list \<Rightarrow> bool" where
  "headerMatchesEqual a b \<longleftrightarrow> length a = length b \<and> list_all (\<lambda>h. header_key h \<in> header_key ` set a) b"

definition queryParamMatchesEqual :: "QueryParamMatch list \<Rightarrow> QueryParamMatch list \<Rightarrow> bool" where
  "queryParamMatchesEqual a b \<longleftrightarrow> length a = length b \<and> list_all (\<lambda>q. query_key q \<in> query_key ` set a) b"

definition routeMatchersEqual :: "RouteMatch \<Rightarrow> RouteMatch \<Rightarrow> bool" where
  "routeMatchersEqual a b \<longleftrightarrow> pathMatchEqual (rmPath a) (rmPath b) \<and> EqualFold (rmMethod a) (rmMethod b) \<and>
     headerMatchesEqual (rmHeaders a) (rmHeaders b) \<and> queryParamMatchesEqual (rmQueryParams a) (rmQueryParams b) \<and>
     grpcMatchEqual (rmGRPCService a) (rmGRPCService b) \<and> grpcMatchEqual (rmGRPCMethod a) (rmGRPCMethod b)"

definition conflicts_with :: "RouteMatch \<Rightarrow> uuid option \<Rightarrow> Route \<Rightarrow> bool" where
  "conflicts_with m exclude r \<longleftrightarrow> exclude \<noteq> Some (rtID r) \<and>
     (case rcMatches (rtConfig r) of [] \<Rightarrow> False | first # _ \<Rightarrow> routeMatchersEqual m first)"

definition validateMatcherConflict :: "uuid \<Rightarrow> RouteConfig \<Rightarrow> uuid option \<Rightarrow> unit m" where
  "validateMatcherConflict domainID config exclude = (case rcMatches config of
     [] \<Rightarrow> ret ()
   | newMatch # _ \<Rightarrow>
       bind (wrap_error ''failed to check matcher conflicts: %w'' (RouteRepo_ListByDomainID domainID)) (\<lambda>existing.
       require (\<not> list_ex (conflicts_with newMatch exclude) existing) (Msg ''route matcher conflicts with existing route %s'')))"

definition CheckMatcherConflicts :: "uuid \<Rightarrow> RouteMatch \<Rightarrow> uuid option \<Rightarrow> (uuid \<times> string) list m" where
  "CheckMatcherConflicts domainID m exclude =
     bind (wrap_error ''failed to check matcher conflicts: %w'' (RouteRepo_ListByDomainID domainID)) (\<lambda>existing.
     ret (map (\<lambda>r. (rtID r, rtName r)) (filter (conflicts_with m exclude) existing)))"

section \<open>Security modes\<close>

definition oidc_check :: "OIDCInput \<Rightarrow> check" where
  "oidc_check i = checks
     [fail_if (oiIssuer i = []) ''OIDC issuer is required'',
      fail_if (oiClientID i = []) ''OIDC clientId is required'',
      fail_if (oiClientSecretName i = []) ''OIDC clientSecretName is required'',
      fail_if (oiRedirectURL i = []) ''OIDC redirectURL is required'',
      fail_if (\<not> HasPrefix (oiRedirectURL i) ''https://'') ''OIDC redirectURL must use HTTPS'',
      fail_if (oiLogoutPath i = []) ''OIDC logoutPath is required'']"

definition authorization_check :: "AuthorizationInput \<Rightarrow> check" where
  "authorization_check i = checks
     [fail_if (aiAllowedCIDRs i = [] \<and> aiHeaders i = [] \<and> aiMethods i = [])
        ''authorization requires at least one of: allowedCIDRs, headers, or methods'',
      check_each (\<lambda>c. fail_if (ParseCIDR (NormalizeCIDR c) = None) ''invalid CIDR or IP address: %s'') (aiAllowedCIDRs i),
      check_each (\<lambda>h. checks
        [fail_if (TrimSpace (ahmName h) = []) ''authorization header name must not be empty'',
         fail_if (ahmValues h = []) ''authorization header must have at least one value'']) (aiHeaders i),
      check_each (\<lambda>m. fail_if (ToUpper m \<notin> {''GET'', ''POST'', ''PUT'', ''DELETE'', ''PATCH'', ''HEAD'', ''OPTIONS''})
        ''invalid HTTP method: %s'') (aiMethods i)]"

definition general_policy_check :: "SecurityPolicyInput \<Rightarrow> check" where
  "general_policy_check i = checks
     [check_opt oidc_check (siOIDC i),
      check_opt (\<lambda>j. checks [fail_if (jiIssuer j = []) ''JWT issuer is required'', fail_if (jiJWKSURL j = []) ''JWT jwksUrl is required'']) (siJWT i),
      check_opt (\<lambda>k. checks [fail_if (kiSecretName k = []) ''API key secretName is required'',
        fail_if (kiHeaderName k = []) ''API key headerName is required'']) (siAPIKeyAuth i),
      check_opt authorization_check (siAuthorization i),
      check_opt (\<lambda>e. wrap_check ''extAuth: %w'' (ExtAuthConfig_Validate e)) (siExtAuth i)]"

definition validateSecurityModeGeneral :: "SecurityPolicyInput option \<Rightarrow> check" where
  "validateSecurityModeGeneral = check_opt general_policy_check"

definition validateSecurityModeClient :: "SecurityPolicyInput option \<Rightarrow> check" where
  "validateSecurityModeClient = check_opt (\<lambda>i. checks
     [fail_if (siAuthorization i \<noteq> None) ''IP allowlisting via authorization is not available in client security mode; use client attachments instead'',
      fail_if (siAPIKeyAuth i \<noteq> None) ''API key auth is not available in client security mode; use client attachments instead'',
      fail_if (siJWT i \<noteq> None) ''JWT auth is not available in client security mode; use client attachments instead'',
      fail_if (siOIDC i \<noteq> None) ''OIDC is not available in client security mode; use general security mode'',
      check_opt (\<lambda>e. wrap_check ''extAuth: %w'' (ExtAuthConfig_Validate e)) (siExtAuth i)])"

definition validateWriteSecurityMode :: "SecurityMode \<Rightarrow> SecurityPolicyInput option \<Rightarrow> bool \<Rightarrow> check" where
  "validateWriteSecurityMode mode policy rejectUnknown = (case mode of
     SecurityModeEmpty \<Rightarrow> validateSecurityModeGeneral policy
   | SecurityModeGeneral \<Rightarrow> validateSecurityModeGeneral policy
   | SecurityModeClient \<Rightarrow> validateSecurityModeClient policy
   | SecurityModeOther _ \<Rightarrow> fail_if rejectUnknown ''invalid security mode: %s (must be 'general' or 'client')'')"

section \<open>Backends\<close>

definition managed_namespace :: "uuid \<Rightarrow> string \<Rightarrow> unit m" where
  "managed_namespace projectID ns =
     (if ns = [] \<or> ns = FastGatewayNamespace then ret ()
      else bind (wrap_error ''failed to validate namespace '%s': %w'' (ProjectNamespaceRepo_Exists projectID ns)) (\<lambda>exists.
        require exists (Msg ''namespace '%s' is not managed by this project. Add it in Project Settings > Namespaces before using it'')))"

definition validateBackendNamespaces :: "uuid \<Rightarrow> RouteConfig \<Rightarrow> unit m" where
  "validateBackendNamespaces projectID config =
     bind (for_each (rcBackends config) (\<lambda>b. managed_namespace projectID (beNamespace b))) (\<lambda>_.
     for_each (rcMirrors config) (\<lambda>b. managed_namespace projectID (mbNamespace b)))"

definition service_key :: "string \<Rightarrow> string \<Rightarrow> int \<Rightarrow> string" where
  "service_key ns service port = ns @ ''/'' @ service @ '':'' @ show_int port"

definition validateMirrorTargets :: "RouteConfig \<Rightarrow> check" where
  "validateMirrorTargets config =
     (if rcMirrors config = [] then Inr ()
      else let primary = map (\<lambda>b. service_key (beNamespace b) (beService b) (bePort b))
              (filter (\<lambda>b. beType b = BackendTypeKubernetes) (rcBackends config))
        in checks
          [fail_if (rcBackends config = [] \<and> rcRedirect config = None \<and> rcDirectResponse config = None)
             ''routes with mirrors must have at least one primary backend'',
           check_each (\<lambda>m. fail_if (service_key (mbNamespace m) (mbService m) (mbPort m) \<in> set primary)
             ''mirror target '%s/%s:%d' cannot be the same as a primary backend'') (rcMirrors config)])"

text \<open>The key of a backend; empty for an unknown type.\<close>

definition backend_key :: "RouteBackend \<Rightarrow> string" where
  "backend_key b =
     (if beType b = BackendTypeKubernetes then ''k8s:'' @ service_key (beNamespace b) (beService b) (bePort b)
      else if beType b = BackendTypeExternal then ''ext:'' @ beAddress b @ '':'' @ show_int (bePort b) else [])"

definition validateFailoverConfig :: "RouteConfig \<Rightarrow> check" where
  "validateFailoverConfig config =
     (if \<not> HasFailover config then Inr ()
      else let primary = filter (\<lambda>b. \<not> beFallback b) (rcBackends config); fallback = filter beFallback (rcBackends config)
        in checks
          [fail_if (primary = []) ''failover requires at least one primary backend'',
           fail_if (fallback = []) ''failover requires at least one fallback backend'',
           check_each (\<lambda>b. fail_if (backend_key b \<noteq> [] \<and> backend_key b \<in> set (filter (\<lambda>k. k \<noteq> []) (map backend_key primary)))
             ''fallback backend '%s' cannot be the same as a primary backend'') fallback])"

definition backend_fields_check :: "RouteBackend \<Rightarrow> check" where
  "backend_fields_check b =
     (if beType b = BackendTypeKubernetes then checks
        [fail_if (beNamespace b = []) ''backend %d: namespace is required for Kubernetes backends'',
         fail_if (beService b = []) ''backend %d: service is required for Kubernetes backends'',
         fail_if (bePort b \<le> 0) ''backend %d: port must be greater than 0 for Kubernetes backends'',
         check_when (beTLS b \<noteq> None) (wrap_check ''backend %d: %w'' (BackendTLSConfig_Validate (beTLS b)))]
      else if beType b = BackendTypeExternal then checks
        [fail_if (beAddress b = []) ''backend %d: address is required for external backends'',
         fail_if (bePort b \<le> 0) ''backend %d: port must be greater than 0 for external backends'',
         check_when (beTLS b \<noteq> None) (wrap_check ''backend %d: %w'' (BackendTLSConfig_Validate (beTLS b)))]
      else Inr ())"

definition validateBackendRequiredFields :: "RouteConfig \<Rightarrow> check" where
  "validateBackendRequiredFields config = checks
     [check_each backend_fields_check (rcBackends config),
      check_each (\<lambda>m. checks
        [fail_if (mbNamespace m = []) ''mirror %d: namespace is required'',
         fail_if (mbService m = []) ''mirror %d: service is required'',
         fail_if (mbPort m \<le> 0) ''mirror %d: port must be greater than 0'']) (rcMirrors config)]"

section \<open>Policies\<close>

definition validateDirectResponseInput :: "RouteConfig \<Rightarrow> BackendTrafficPolicyConfig option \<Rightarrow> check" where
  "validateDirectResponseInput config btp = check_when (rcRouteType config = RouteTypeDirectResponse) (checks
     [(case rcDirectResponse config of
         None \<Rightarrow> Inl (Msg ''directResponse configuration is required for directResponse route type'')
       | Some dr \<Rightarrow> wrap_check ''invalid direct response configuration: %w'' (DirectResponseConfig_Validate dr)),
      fail_if (rcBackends config \<noteq> []) ''directResponse routes cannot have backends'',
      fail_if (rcURLRewrite config \<noteq> None) ''directResponse routes cannot have URL rewrite'',
      fail_if (rcRequestHeaderModifier config \<noteq> None) ''directResponse routes cannot have request header modifier'',
      check_opt (\<lambda>b. fail_if (BTP_HasContent b) ''directResponse routes cannot have backend traffic policy'') btp])"

definition traffic_policy_checks :: "BackendTrafficPolicyConfig \<Rightarrow> check" where
  "traffic_policy_checks btp = checks
     [wrap_check ''invalid retry configuration: %w'' (check_opt RetryConfig_Validate (btpRetry btp)),
      wrap_check ''invalid load balancer configuration: %w'' (check_opt LoadBalancerConfig_Validate (btpLoadBalancer btp)),
      wrap_check ''invalid circuit breaker configuration: %w'' (check_opt CircuitBreakerConfig_Validate (btpCircuitBreaker btp)),
      wrap_check ''invalid health check configuration: %w'' (check_opt HealthCheckConfig_Validate (btpHealthCheck btp)),
      wrap_check ''invalid fault injection configuration: %w'' (check_opt FaultInjectionConfig_Validate (btpFaultInjection btp)),
      wrap_check ''invalid rate limit configuration: %w'' (check_opt RateLimitConfig_Validate (btpRateLimit btp)),
      wrap_check ''invalid timeout configuration: %w'' (check_opt BTPTimeoutConfig_Validate (btpTimeout btp))]"

definition validateRouteTrafficPolicies :: "RouteConfig \<Rightarrow> BackendTrafficPolicyConfig option \<Rightarrow> uuid \<Rightarrow> unit m" where
  "validateRouteTrafficPolicies config btp projectID =
     bind (lift_check (validateBackendRequiredFields config)) (\<lambda>_.
     bind (validateBackendNamespaces projectID config) (\<lambda>_.
     lift_check (checks [validateMirrorTargets config, validateFailoverConfig config, check_opt traffic_policy_checks btp])))"

definition validateL4BackendTrafficPolicy :: "BackendTrafficPolicyConfig option \<Rightarrow> RouteProtocol \<Rightarrow> check" where
  "validateL4BackendTrafficPolicy btp protocol = check_opt (\<lambda>b. checks
     [l4RejectsField (btpRateLimit b \<noteq> None),
      l4RejectsField (btpRetry b \<noteq> None),
      l4RejectsField (btpCompression b \<noteq> []),
      l4RejectsField (btpFaultInjection b \<noteq> None),
      l4RejectsField (btpRequestBuffer b \<noteq> None),
      l4RejectsField (btpResponseOverride b \<noteq> []),
      if protocol = RouteProtocolUDP then checks
        [l4RejectsField (btpCircuitBreaker b \<noteq> None), l4RejectsField (btpHealthCheck b \<noteq> None), l4RejectsField (btpTimeout b \<noteq> None)]
      else checks
        [check_opt (\<lambda>cb. checks [l4RejectsField (cbMaxPendingRequests cb \<noteq> None), l4RejectsField (cbMaxParallelRequests cb \<noteq> None),
           l4RejectsField (cbMaxParallelRetries cb \<noteq> None)]) (btpCircuitBreaker b),
         check_opt (\<lambda>hc. check_opt (\<lambda>a. l4RejectsField (ahcType a \<noteq> ''TCP'')) (hcActive hc)) (btpHealthCheck b),
         check_opt (\<lambda>t. l4RejectsField (btoHTTP t \<noteq> None)) (btpTimeout b)]]) btp"

definition validateL4PolicyInputs ::
  "RouteProtocol \<Rightarrow> SecurityMode \<Rightarrow> SecurityPolicyInput option \<Rightarrow> EnvoyExtensionPolicyConfig option \<Rightarrow> WafPolicyConfig option \<Rightarrow>
   BackendTrafficPolicyConfig option \<Rightarrow> check" where
  "validateL4PolicyInputs protocol mode sp ext waf btp = checks
     [l4RejectsField (other_mode mode), l4RejectsField (sp \<noteq> None), check_opt (\<lambda>e. l4RejectsField (EEP_HasContent e)) ext,
      l4RejectsField (waf \<noteq> None), validateL4BackendTrafficPolicy btp protocol]"

section \<open>Owner, listener and the whole check\<close>

definition validateRouteOwner :: "uuid option \<Rightarrow> uuid option \<Rightarrow> check" where
  "validateRouteOwner domainID streamID = fail_with ((domainID \<noteq> None) = (streamID \<noteq> None)) ErrRouteOwnerAmbiguous"

definition transport_of :: "RouteProtocol \<Rightarrow> string" where
  "transport_of p = (case p of RouteProtocolUDP \<Rightarrow> ''UDP'' | RouteProtocolTCP \<Rightarrow> ''TCP'' | _ \<Rightarrow> [])"

text \<open>The port checker is the stream service, or nothing before it is wired.\<close>

definition validateL4Listener :: "StreamService option \<Rightarrow> RouteConfig \<Rightarrow> RouteProtocol \<Rightarrow> uuid option \<Rightarrow> uuid option \<Rightarrow> unit m" where
  "validateL4Listener l4Ports config protocol streamID exclude = (case streamID of
     None \<Rightarrow> throw (Msg ''an L4 route must belong to a stream'')
   | Some s \<Rightarrow>
     bind (lift_check (ValidateListenerPort (rcListenerPort config) DefaultReservedPorts)) (\<lambda>_.
     case l4Ports of
       None \<Rightarrow> throw (Msg ''L4 port checker is not configured'')
     | Some svc \<Rightarrow> CheckRoutePort svc s (transport_of protocol) (rcListenerPort config) exclude))"

definition validateRouteShapeAndConflicts ::
  "StreamService option \<Rightarrow> RouteConfig \<Rightarrow> BackendTrafficPolicyConfig option \<Rightarrow> RouteProtocol \<Rightarrow> uuid \<Rightarrow> uuid option \<Rightarrow> uuid option \<Rightarrow> unit m" where
  "validateRouteShapeAndConflicts l4Ports config btp protocol domainID streamID exclude =
     (if proto_is_l4 protocol
      then bind (lift_check (checks [validateRouteConfig config protocol, validateL4BackendTrafficPolicy btp protocol])) (\<lambda>_.
        validateL4Listener l4Ports config protocol streamID exclude)
      else bind (lift_check (checks
          [if protocol = RouteProtocolGRPC then checks [validateGRPCRouteConfig config, validateGRPCBackendTrafficPolicy btp]
           else validateHTTPRouteConfig config,
           validateRouteConfig config protocol])) (\<lambda>_.
        validateMatcherConflict domainID config exclude))"

end
