(* ===== verification/StreamInv.thy ===== *)
theory StreamInv
  imports Streams
begin

text \<open>
  What the operations of \<open>Streams\<close> promise: names of Gateways, the refinement of the claims by
  the cluster, the invariant of the listeners, used ports that stay claimed, and a reconcile that
  reaches every stream.
\<close>

section \<open>Triples of the operations\<close>

lemma hoare_getStream:
  "hoare (\<lambda>d. d = d0) (getStream i) (\<lambda>s d. d = d0 \<and> row_get strID i (streams d0) = Some s) (\<lambda>_ d. d = d0)"
  unfolding getStream_def StreamRepo_GetByID_def by (rule hoare_pre, (rule wp)+) auto

lemma hoare_stream_template:
  "hoare (\<lambda>d. d = d0) (stream_template p inp)
     (\<lambda>t d. d = d0 \<and> row_get dtID (csiGatewayTemplateID inp) (domain_templates d0) = Some t \<and> dtProjectID t = p)
     (\<lambda>_ d. d = d0)"
  unfolding stream_template_def DomainTemplateRepo_GetByID_def by (rule hoare_pre, (rule wp)+) auto

text \<open>The namespaces a project may deploy a Gateway into.\<close>

definition deployable :: "db \<Rightarrow> uuid \<Rightarrow> string \<Rightarrow> bool" where
  "deployable d p ns \<longleftrightarrow> ns = FastGatewayNamespace \<or>
     (\<exists>n. List.find (\<lambda>n. pnsProjectID n = p \<and> pnsNamespace n = ns) (project_namespaces d) = Some n \<and>
        HasCapability n NamespaceCapabilityDeployGateway)"

lemma hoare_stream_namespace:
  "hoare (\<lambda>d. d = d0) (stream_namespace p ns) (\<lambda>_ d. d = d0 \<and> deployable d0 p ns) (\<lambda>_ d. d = d0)"
  unfolding stream_namespace_def ProjectNamespaceRepo_GetByProjectAndNamespace_def
  by (rule hoare_pre, (rule wp)+) (auto simp: deployable_def)

lemma hoare_map_write_error: "hoare P m Q (\<lambda>e. E (mapStreamWriteError e)) \<Longrightarrow> hoare P (map_write_error m) Q E"
  unfolding hoare_def map_write_error_def by (fastforce simp: bind_def attempt_def split: prod.splits sum.splits)

lemma hoare_StreamRepo_Create:
  "hoare (\<lambda>d. d = d0) (StreamRepo_Create s)
     (\<lambda>s' d. s' = s\<lparr>strID := next_id d0, strStatus := (if strStatus s = [] then ''pending'' else strStatus s)\<rparr> \<and>
        d = d0\<lparr>streams := row_save strID s' (streams d0), next_id := Suc (next_id d0)\<rparr> \<and>
        \<not> list_ex (stream_conflict s') (streams d0))
     (\<lambda>_ d. d = d0)"
  unfolding StreamRepo_Create_def Let_def
  by (rule hoare_pre, (rule wp)+) (auto simp: stream_save_def split: if_splits)

lemma hoare_insert_and_apply:
  "hoare (\<lambda>d. d = d0) (bind (map_write_error (StreamRepo_Create s)) (\<lambda>stream. bind (ApplyGateway stream) (\<lambda>(_, stream'). ret stream')))
     (\<lambda>s' d. \<exists>x e. x = s\<lparr>strID := next_id d0, strStatus := (if strStatus s = [] then ''pending'' else strStatus s)\<rparr> \<and>
        applied (d0\<lparr>streams := row_save strID x (streams d0), next_id := Suc (next_id d0)\<rparr>) x (e, s') d)
     (\<lambda>_ d. d = d0)"
  by (rule hoare_pre, (rule hoare_map_write_error hoare_spec [OF hoare_StreamRepo_Create] hoare_spec [OF hoare_ApplyGateway] | rule wp)+)
    fastforce

text \<open>
  A stream that was created: its row before and after the Gateway was applied. An error leaves
  the store and the cluster as they were.
\<close>

definition created :: "db \<Rightarrow> uuid \<Rightarrow> CreateStreamInput \<Rightarrow> DomainTemplate \<Rightarrow> Stream \<Rightarrow> bool" where
  "created d0 p inp t s \<longleftrightarrow>
     row_get dtID (csiGatewayTemplateID inp) (domain_templates d0) = Some t \<and> dtProjectID t = p \<and>
     deployable d0 p (csiNamespace inp) \<and>
     \<not> list_ex (\<lambda>x. strProjectID x = p \<and> strName x = csiName inp) (streams d0) \<and>
     strID s = next_id d0 \<and> strProjectID s = p \<and> strName s = csiName inp \<and> strNamespace s = csiNamespace inp \<and>
     strGatewayTemplateID s = csiGatewayTemplateID inp \<and> strK8sGatewayName s = StreamGatewayName (csiName inp) \<and>
     strPorts s = StreamPorts_Normalize (csiPorts inp) \<and> claims_wf (strPorts s) \<and>
     (\<exists>lo hi. templatePortRange t = Some (lo, hi) \<and> (\<forall>c \<in> set (strPorts s). lo \<le> spPort c \<and> spPort c \<le> hi)) \<and>
     (dtMergeGateways t \<longrightarrow> fresh_claims d0 t None (strPorts s))"

lemma hoare_StreamService_Create:
  "hoare (\<lambda>d. d = d0) (StreamService_Create svc p inp u)
     (\<lambda>s' d. \<exists>s e t. applied (d0\<lparr>streams := row_save strID s (streams d0), next_id := Suc (next_id d0)\<rparr>) s (e, s') d \<and>
        created d0 p inp t s)
     (\<lambda>_ d. d = d0)"
  unfolding StreamService_Create_def StreamRepo_ExistsByName_def
  by (rule hoare_pre, (rule hoare_spec [OF hoare_insert_and_apply] hoare_readonly [OF hoare_stream_template]
      hoare_readonly [OF hoare_stream_namespace] hoare_readonly [OF hoare_validateStreamPorts] | rule wp)+)
    (clarsimp, intro exI conjI, assumption, fastforce simp: created_def)

lemma hoare_portInUseError: "hoare (\<lambda>d. d = d0) (portInUseError s u) (\<lambda>_ _. False) (\<lambda>_ d. d = d0)"
  unfolding portInUseError_def L4PortOwnersByStream_def PendingL4PortOwnersByStream_def DeployedL4PortOwnersByStream_def
    owners_query_def
  by (rule hoare_pre, (rule wp)+) auto

lemma hoare_checkUsedClaimsKept:
  "hoare (\<lambda>d. d = d0) (checkUsedClaimsKept svc s ps)
     (\<lambda>_ d. d = d0 \<and> set (used_ports d0 (strID s) None) \<subseteq> claim_key ` set (StreamPorts_Normalize ps)) (\<lambda>_ d. d = d0)"
  unfolding checkUsedClaimsKept_def UsedPortsByStream_def
  by (rule hoare_pre, (rule hoare_spec [OF hoare_portInUseError] | rule wp)+)
    (auto simp: find_None_iff Has_iff split: option.splits)

text \<open>The row that an update writes, and what is known of its claims.\<close>

definition updated_row :: "UpdateStreamInput \<Rightarrow> Stream \<Rightarrow> Stream" where
  "updated_row inp s = s\<lparr>strName := (case usiName inp of Some n \<Rightarrow> n | None \<Rightarrow> strName s),
     strPorts := (case usiPorts inp of Some ps \<Rightarrow> StreamPorts_Normalize ps | None \<Rightarrow> strPorts s)\<rparr>"

definition reclaimed :: "db \<Rightarrow> Stream \<Rightarrow> bool" where
  "reclaimed d0 s \<longleftrightarrow> (\<exists>t. row_get dtID (strGatewayTemplateID s) (domain_templates d0) = Some t \<and>
     (dtMergeGateways t \<longrightarrow> fresh_claims d0 t (Some (strID s)) (strPorts s))) \<and> claims_wf (strPorts s) \<and>
     set (used_ports d0 (strID s) None) \<subseteq> claim_key ` set (strPorts s)"

lemma hoare_new_name:
  "hoare (\<lambda>d. d = d0) (case usiName inp of
         Some n \<Rightarrow> if n \<noteq> strName stream
           then bind (wrap_error ''failed to check stream name: %w'' (StreamRepo_ExistsByName (strProjectID stream) n)) (\<lambda>exists.
             if exists then throw ErrStreamNameTaken else ret (stream\<lparr>strName := n\<rparr>))
           else ret stream
       | None \<Rightarrow> ret stream)
     (\<lambda>s d. d = d0 \<and> s = stream\<lparr>strName := (case usiName inp of Some n \<Rightarrow> n | None \<Rightarrow> strName stream)\<rparr>) (\<lambda>_ d. d = d0)"
  unfolding StreamRepo_ExistsByName_def by (rule hoare_pre, (rule wp)+) (auto split: option.splits)

lemma hoare_new_ports:
  "hoare (\<lambda>d. d = d0) (case usiPorts inp of
         Some ps \<Rightarrow>
           bind (wrap_error ''failed to load gateway template: %w'' (DomainTemplateRepo_GetByID (strGatewayTemplateID stream))) (\<lambda>tmpl.
           bind (validateStreamPorts svc tmpl (Some (strID stream)) ps) (\<lambda>ports.
           bind (checkUsedClaimsKept svc stream ports) (\<lambda>_. ret (stream\<lparr>strPorts := ports\<rparr>))))
       | None \<Rightarrow> ret stream)
     (\<lambda>s d. d = d0 \<and> s = stream\<lparr>strPorts := (case usiPorts inp of Some ps \<Rightarrow> StreamPorts_Normalize ps | None \<Rightarrow> strPorts stream)\<rparr> \<and>
        (usiPorts inp = None \<or> reclaimed d0 s)) (\<lambda>_ d. d = d0)"
  unfolding DomainTemplateRepo_GetByID_def
  by (rule hoare_pre, (rule hoare_readonly [OF hoare_validateStreamPorts] hoare_readonly [OF hoare_checkUsedClaimsKept] | rule wp)+)
    (auto simp: reclaimed_def claims_wf_Normalize dest: row_get_key split: option.splits)

lemma hoare_StreamService_Update:
  "hoare (\<lambda>d. d = d0) (StreamService_Update svc i inp)
     (\<lambda>s' d. \<exists>s0 s. row_get strID i (streams d0) = Some s0 \<and> s = updated_row inp s0 \<and>
        row_get dtID (strGatewayTemplateID s) (domain_templates d0) \<noteq> None \<and> (usiPorts inp = None \<or> reclaimed d0 s) \<and>
        (if usiPorts inp = None then s' = s \<and> d = d0\<lparr>streams := row_save strID s (streams d0)\<rparr>
         else \<exists>e. applied (d0\<lparr>streams := row_save strID s (streams d0)\<rparr>) s (e, s') d))
     (\<lambda>_ d. d = d0)"
  unfolding StreamService_Update_def StreamRepo_Update_def
  by (rule hoare_pre, (rule hoare_readonly [OF hoare_getStream] hoare_readonly [OF hoare_new_name] hoare_readonly [OF hoare_new_ports]
      hoare_map_write_error hoare_spec [OF hoare_ApplyGateway] | rule wp)+)
    (auto simp: updated_row_def stream_save_def split: if_splits)

section \<open>Every operation keeps the invariant\<close>

lemma applied_inv: "listener_inv d0 \<Longrightarrow> applied d0 s r d \<Longrightarrow> listener_inv d"
proof -
  assume inv: "listener_inv d0" and ap: "applied d0 s r d"
  then have "listener_inv (d0\<lparr>streams := streams d\<rparr>)" by (auto simp: applied_def listener_inv_status)
  then show "listener_inv d"
    using ap by (elim listener_inv_frame) (auto simp: applied_def other_gateways_def elim!: same_tablesE)
qed

lemma keeps_inv_ApplyGateway: "keeps listener_inv (ApplyGateway s)"
  unfolding keeps_def by (rule hoare_state, rule hoare_post [OF hoare_ApplyGateway]) (auto intro: applied_inv)

lemma fresh_mono:
  "fresh_claims d t ex ps \<Longrightarrow> set (claimed_ports d' (dtID t) ex') \<subseteq> set (claimed_ports d (dtID t) ex) \<Longrightarrow> fresh_claims d' t ex' ps"
  by (simp add: fresh_claims_def) blast

lemma fresh_other: "fresh_claims d t None ps \<Longrightarrow> fresh_claims d t ex ps"
  by (erule fresh_mono) (auto simp: claimed_ports_def)

lemma created_inv:
  assumes "listener_inv d0" "created d0 p inp t s"
  shows "listener_inv (d0\<lparr>streams := row_save strID s (streams d0), next_id := Suc (next_id d0)\<rparr>)"
  using listener_inv_save [of d0 s t] assms by (auto simp: created_def fresh_other max_def)

lemma keeps_inv_Create: "keeps listener_inv (StreamService_Create svc p inp u)"
  unfolding keeps_def by (rule hoare_state, rule hoare_post [OF hoare_StreamService_Create]) (auto intro: applied_inv created_inv)

lemma updated_row_simps [simp]:
  "strID (updated_row inp s) = strID s" "strGatewayTemplateID (updated_row inp s) = strGatewayTemplateID s"
  "usiPorts inp = None \<Longrightarrow> strPorts (updated_row inp s) = strPorts s"
  by (simp_all add: updated_row_def)

lemma updated_inv:
  assumes inv: "listener_inv d0" and s0: "row_get strID i (streams d0) = Some s0"
    and r: "usiPorts inp = None \<or> reclaimed d0 (updated_row inp s0)"
  shows "listener_inv (d0\<lparr>streams := row_save strID (updated_row inp s0) (streams d0)\<rparr>)"
proof -
  have s: "strID s0 < next_id d0" "strPorts s0 = [] \<or> claims_wf (strPorts s0)" "apart d0 s0"
    using inv row_get_mem [OF s0] by (auto simp: listener_inv_def)
  then obtain t where t: "row_get dtID (strGatewayTemplateID s0) (domain_templates d0) = Some t"
    "dtMergeGateways t \<longrightarrow> fresh_claims d0 t (Some (strID s0)) (strPorts s0)" by (auto simp: apart_def)
  have "listener_inv (d0\<lparr>streams := row_save strID (updated_row inp s0) (streams d0),
      next_id := max (next_id d0) (Suc (strID (updated_row inp s0)))\<rparr>)"
    using r s t by (intro listener_inv_save [OF inv, where t = t]) (auto simp: reclaimed_def)
  then show ?thesis by (rule listener_inv_frame) (use s(1) in auto)
qed

lemma keeps_inv_Update: "keeps listener_inv (StreamService_Update svc i inp)"
  unfolding keeps_def
  by (rule hoare_state, rule hoare_post [OF hoare_StreamService_Update]) (auto split: if_splits intro: applied_inv updated_inv)

lemma listener_inv_delete:
  assumes "listener_inv d" shows "listener_inv (d\<lparr>streams := row_delete strID i (streams d)\<rparr>)" (is "listener_inv ?d")
proof -
  have "set (claimed_ports ?d t ex) \<subseteq> set (claimed_ports d t ex)" for t ex
    by (auto simp: claimed_ports_def row_delete_def)
  then have "fresh_claims d t ex ps \<Longrightarrow> fresh_claims ?d t ex ps" for t ex ps by (elim fresh_mono)
  then show ?thesis using assms by (fastforce simp: listener_inv_def apart_def row_delete_def distinct_map_filter)
qed

lemma listener_inv_k8s [simp]: "listener_inv d \<Longrightarrow> listener_inv (k8s_put k x d)" "listener_inv d \<Longrightarrow> listener_inv (k8s_remove k d)"
  by (erule listener_inv_frame; simp add: k8s_put_def k8s_remove_def)+

lemma keeps_inv_Delete: "keeps listener_inv (StreamService_Delete i)"
proof -
  have "keeps listener_inv (StreamRepo_Delete i)"
    unfolding StreamRepo_Delete_def
    by (intro keeps_exec, drule listener_inv_delete [where i = i], erule listener_inv_frame) (simp_all add: delete_routes_def Let_def)
  then show ?thesis
    unfolding StreamService_Delete_def getStream_def StreamRepo_GetByID_def RouteRepo_CountByStreamID_def
    by (intro keeps_bind keeps_attempt keeps_wrap_error keeps_require keeps_cluster keeps_query keeps_case_sum keeps_throw keeps_ret) simp_all
qed

lemma keeps_inv_Reconcile: "keeps listener_inv (ReconcileGateways ctx)"
proof -
  have "keeps listener_inv (reconcile_from ctx n ss)" for n ss
    by (induction ctx n ss rule: reconcile_from.induct)
      (auto simp: StreamRepo_GetByID_def split: option.splits
        intro!: keeps_bind keeps_attempt keeps_case_sum keeps_inv_ApplyGateway)
  then show ?thesis
    unfolding ReconcileGateways_def StreamRepo_ListAll_def by (intro keeps_bind keeps_wrap_error keeps_query)
qed

lemmas stream_ops_keep_inv = keeps_inv_Create keeps_inv_Update keeps_inv_Delete keeps_inv_Reconcile

section \<open>Reconciling without faults\<close>

lemma run_UpdateGateway: "\<exists>d'. UpdateGateway p g (d, []) = (Inr (), (d', []))"
  unfolding UpdateGateway_def EnsureNamespace_def Let_def k8s_Get_def k8s_Create_def k8s_Update_def wrap_error_def
  by (cases "k8s_lookup (K8sKey p KNamespace [] (gcNamespace g)) d";
      cases "k8s_lookup (gateway_key p (gcNamespace g) (gcName g)) d")
    (auto simp: bind_def attempt_def gateway_key_def)

lemma run_DeleteGateway:
  "\<exists>r d'. DeleteGateway p ns n (d, []) = (r, (d', [])) \<and> (r = Inr () \<or> (\<exists>e. r = Inl e \<and> errors_Is e ErrK8sNotFound))"
  unfolding DeleteGateway_def k8s_Delete_def wrap_error_def
  by (cases "k8s_lookup (gateway_key p ns n) d") (auto simp: bind_def attempt_def)

lemma run_ApplyGateway: "\<exists>s' d'. ApplyGateway s (d, []) = (Inr (None, s'), (d', []))"
proof (cases "strPorts s = []")
  case True
  obtain r d1 where "DeleteGateway (strProjectID s) (strNamespace s) (strK8sGatewayName s) (d, []) = (r, (d1, []))"
    "r = Inr () \<or> (\<exists>e. r = Inl e \<and> errors_Is e ErrK8sNotFound)" using run_DeleteGateway by blast
  then show ?thesis using True
    by (auto simp: ApplyGateway_def Let_def bind_def attempt_def StreamRepo_UpdateStatus_def)
next
  case False
  obtain d1 where "UpdateGateway (strProjectID s) (BuildStreamGatewayConfig s) (d, []) = (Inr (), (d1, []))"
    using run_UpdateGateway by blast
  then show ?thesis using False
    by (auto simp: ApplyGateway_def Let_def bind_def attempt_def StreamRepo_UpdateStatus_def)
qed

text \<open>A row without its status columns.\<close>

definition core :: "Stream \<Rightarrow> Stream" where
  "core s = s\<lparr>strStatus := [], strStatusMessage := []\<rparr>"

lemma core_simps [simp]:
  "stream_key (core s) = stream_key s" "strID (core s) = strID s" "strPorts (core s) = strPorts s"
  by (simp_all add: core_def stream_key_def)

lemma core_gateway: "core s = core s' \<Longrightarrow> stream_gateway s = stream_gateway s' \<and> stream_key s = stream_key s' \<and> strID s = strID s'"
  by (cases s; cases s') (simp add: core_def stream_gateway_def stream_key_def BuildStreamGatewayConfig_def)

lemma core_with_status [simp]: "map core (with_status i st m ss) = map core ss"
  by (auto simp: with_status_def core_def)

lemma row_get_core:
  assumes "map core xs = map core ys" "distinct (map strID ys)" "s \<in> set ys"
  shows "\<exists>x. row_get strID (strID s) xs = Some x \<and> core x = core s"
  using assms
proof (induction xs arbitrary: ys)
  case (Cons x xs)
  then obtain y ys' where ys: "ys = y # ys'" and "core x = core y" "map core xs = map core ys'" by (cases ys) auto
  with Cons show ?case using core_gateway [of x y] by (auto simp: row_get_def)
qed auto

lemma reconcile_run:
  assumes "map core (streams d) = map core ss" "distinct (map strID ss)" "inj_on stream_key (set ss)" "set xs \<subseteq> set ss"
  shows "\<exists>d'. reconcile_from (\<lambda>_. None) n xs (d, []) = (Inr (), (d', [])) \<and> map core (streams d') = map core ss \<and>
    (\<forall>s \<in> set xs. k8s_lookup (stream_key s) d' = stream_gateway s) \<and>
    (\<forall>p ns m. K8sKey p KGateway ns m \<notin> stream_key ` set xs \<longrightarrow>
       k8s_lookup (K8sKey p KGateway ns m) d' = k8s_lookup (K8sKey p KGateway ns m) d)"
  using assms
proof (induction xs arbitrary: d n)
  case (Cons s xs)
  obtain x where x: "row_get strID (strID s) (streams d) = Some x" "core x = core s"
    using row_get_core [of "streams d" ss s] Cons.prems by auto
  note gx = core_gateway [OF x(2)]
  obtain x' d1 where ap: "ApplyGateway x (d, []) = (Inr (None, x'), (d1, []))" using run_ApplyGateway by blast
  then have a: "applied d x (None, x') d1" using hoare_run [OF hoare_ApplyGateway ap] by simp
  then have c1: "map core (streams d1) = map core ss" using Cons.prems(1) by (auto simp: applied_def)
  obtain d' where d': "reconcile_from (\<lambda>_. None) (Suc n) xs (d1, []) = (Inr (), (d', []))" "map core (streams d') = map core ss"
      "\<forall>s \<in> set xs. k8s_lookup (stream_key s) d' = stream_gateway s"
      "\<forall>p ns m. K8sKey p KGateway ns m \<notin> stream_key ` set xs \<longrightarrow>
         k8s_lookup (K8sKey p KGateway ns m) d' = k8s_lookup (K8sKey p KGateway ns m) d1"
    using Cons.IH [OF c1 Cons.prems(2,3), of "Suc n"] Cons.prems(4) by auto
  have "k8s_lookup (stream_key s) d' = stream_gateway s"
  proof (cases "stream_key s \<in> stream_key ` set xs")
    case True
    then have "s \<in> set xs" using Cons.prems(3,4) by (auto dest: inj_onD)
    then show ?thesis using d'(3) by simp
  next
    case False
    then have "k8s_lookup (stream_key s) d' = k8s_lookup (stream_key s) d1" using d'(4) by (simp add: stream_key_def gateway_key_def)
    then show ?thesis using a gx by (simp add: applied_def)
  qed
  moreover have "reconcile_from (\<lambda>_. None) n (s # xs) (d, []) = (Inr (), (d', []))"
    using x(1) ap d'(1) by (simp add: bind_def attempt_def StreamRepo_GetByID_def)
  moreover have "k8s_lookup (K8sKey p KGateway ns m) d' = k8s_lookup (K8sKey p KGateway ns m) d"
    if "K8sKey p KGateway ns m \<notin> stream_key ` set (s # xs)" for p ns m
    using that d'(4) a gx by (auto simp: applied_def other_gateways_def)
  ultimately show ?case using d' by auto
qed simp

lemma exposed_claims: "strPorts s = [] \<or> claims_wf (strPorts s) \<Longrightarrow> exposed (stream_gateway s) = map claim_key (strPorts s)"
  by (rule exposed_gateway) (rule claims_ok)

lemma applied_ports: "applied d0 s r d \<Longrightarrow> strPorts (snd r) = strPorts s"
  unfolding applied_def by (metis (no_types, lifting) Stream.select_convs(8) Stream.surjective Stream.update_convs(9,10))

lemma applied_parts:
  assumes "applied d0 s r d"
  shows "fst r = None \<Longrightarrow> strStatus (snd r) = StreamStatusActive"
    "k8s_lookup (stream_key s) d = (if strStatus (snd r) = StreamStatusActive then stream_gateway s else k8s_lookup (stream_key s) d0)"
    "K8sKey p KGateway ns n \<noteq> stream_key s \<Longrightarrow> k8s_lookup (K8sKey p KGateway ns n) d = k8s_lookup (K8sKey p KGateway ns n) d0"
  using assms unfolding applied_def other_gateways_def by simp_all

lemma row_get_with_status:
  "row_get strID i (with_status j st m ss) =
   map_option (\<lambda>s. if strID s = j then s\<lparr>strStatus := st, strStatusMessage := m\<rparr> else s) (row_get strID i ss)"
  by (induction ss) (auto simp: row_get_def with_status_def)

lemma applied_row:
  assumes "applied d0 s r d" "row_get strID i (streams d0) = Some s"
  shows "map_option strPorts (row_get strID i (streams d)) = Some (strPorts s)"
proof -
  have "streams d = with_status (strID s) (strStatus (snd r)) (strStatusMessage (snd r)) (streams d0) \<or> streams d = streams d0"
    using assms(1) by (auto simp: applied_def)
  then show ?thesis using assms(2) by (auto simp: row_get_with_status)
qed

section \<open>Properties\<close>

text \<open>C29. The Gateway names of valid stream names fit the 63 characters of a DNS label, and two valid names have
  the same Gateway name only when they are equal.\<close>

theorem stream_gateway_names:
  assumes "ValidateStreamName a = Inr ()" "ValidateStreamName b = Inr ()"
  shows "length (StreamGatewayName a) \<le> 63 \<and> (StreamGatewayName a = StreamGatewayName b \<longleftrightarrow> a = b)"
  using assms gateway_name_length [of a] by (simp add: valid_name_gateway maxK8sNameLen_def)

theorem stream_gateway_names_witness:
  "length (StreamGatewayName ''db-1'') \<le> 63 \<and> StreamGatewayName ''db-1'' \<noteq> StreamGatewayName ''db-2''"
proof -
  have "ValidateStreamName ''db-1'' = Inr ()" "ValidateStreamName ''db-2'' = Inr ()" by code_simp+
  then show ?thesis using stream_gateway_names [of "''db-1''" "''db-2''"] by simp
qed

text \<open>C30. The loop that collapses dashes ends on every string: its result is the one of a single pass and has no
  two dashes in a row.\<close>

theorem dash_loop_ends: "collapse_dashes s = squeeze s \<and> \<not> has_double_dash (collapse_dashes s)"
  using collapse_squeeze collapse_no_double by simp

text \<open>C27. Applying a stream refines its claims: where it reports no error, the Gateway of the stream in the cluster
  exposes exactly the claimed listeners, in their order, and none where there are no claims; where it reports one, the
  Gateway is as before or already exposes the claims. No other Gateway changes.\<close>

theorem apply_refines_the_claims:
  assumes "ApplyGateway s (d, fs) = (r, (d', fs'))" "strPorts s = [] \<or> claims_wf (strPorts s)"
  shows "\<exists>e s'. r = Inr (e, s') \<and>
    (if e = None then exposed (k8s_lookup (stream_key s) d') = map claim_key (strPorts s) \<and> strStatus s' = ''active''
     else exposed (k8s_lookup (stream_key s) d') \<in> {exposed (k8s_lookup (stream_key s) d), map claim_key (strPorts s)}) \<and>
    (if K8sKey p KGateway ns n = stream_key s then True
     else k8s_lookup (K8sKey p KGateway ns n) d' = k8s_lookup (K8sKey p KGateway ns n) d)"
proof -
  obtain e s' where r: "r = Inr (e, s')" and ap: "applied d s (e, s') d'"
    using hoare_run [OF hoare_ApplyGateway assms(1)] by (cases r) auto
  show ?thesis
    using exposed_claims [OF assms(2)] applied_parts [OF ap] r by (auto simp: StreamStatusActive_def)
qed

definition sample_apply :: "(error + error option \<times> Stream) \<times> (db \<times> bool list)" where
  "sample_apply = ApplyGateway (sample_stream 21 ''db'' 5) (sample_gateways, [])"

theorem apply_refines_the_claims_witness:
  "exposed (k8s_lookup (K8sKey 1 KGateway FastGatewayNamespace ''str-db'') (fst (snd sample_apply))) = [(''TCP'', 5)]"
proof -
  have "claims_wf (strPorts (sample_stream 21 ''db'' 5))" by code_simp
  moreover have "\<exists>s'. fst sample_apply = Inr (None, s')"
    using run_ApplyGateway [of "sample_stream 21 ''db'' 5" sample_gateways] unfolding sample_apply_def by auto
  ultimately show ?thesis
    using apply_refines_the_claims [of "sample_stream 21 ''db'' 5" sample_gateways "[]" "fst sample_apply" "fst (snd sample_apply)"
        "snd (snd sample_apply)"]
    by (auto simp: sample_apply_def stream_key_def gateway_key_def sample_stream_def claim_key_def)
qed

text \<open>C26. An update of the claims that returns keeps every port in use claimed: the ports of the routes of the stream, of
  their pending approvals and of their latest deployed versions.\<close>

theorem used_ports_stay_claimed:
  assumes "StreamService_Update svc i inp (d, fs) = (Inr s, (d', fs'))" "usiPorts inp = Some ps"
  shows "set (used_ports d i None) \<subseteq> claim_key ` set (strPorts s) \<and> claims_wf (strPorts s) \<and>
    map_option strPorts (row_get strID i (streams d')) = Some (strPorts s)"
proof -
  obtain s0 s1 e where s: "row_get strID i (streams d) = Some s0" "s1 = updated_row inp s0" "reclaimed d s1"
      "applied (d\<lparr>streams := row_save strID s1 (streams d)\<rparr>) s1 (e, s) d'"
    using hoare_run [OF hoare_StreamService_Update assms(1)] assms(2) by auto
  have i: "strID s1 = i" using s(1,2) row_get_key [OF s(1)] by simp
  have "map_option strPorts (row_get strID i (streams d')) = Some (strPorts s1)"
    using applied_row [OF s(4)] i by simp
  moreover have "strPorts s = strPorts s1" using applied_ports [OF s(4)] by simp
  ultimately show ?thesis using s(3) i by (auto simp: reclaimed_def)
qed

definition sample_svc :: StreamService where
  "sample_svc = \<lparr>ssPortStore = True, ssDomainPorts = True, ssCapabilities = None\<rparr>"

definition sample_l4_route :: Route where
  "sample_l4_route = (sample_route RouteStatusActive)\<lparr>rtID := 22, rtDomainID := None, rtStreamID := Some 21, rtListenerPort := Some 5,
     rtProtocol := RouteProtocolTCP, rtConfig := RouteConfig_zero\<lparr>rcListenerPort := 5\<rparr>\<rparr>"

definition sample_streams :: db where
  "sample_streams = sample_gateways\<lparr>next_id := 24, streams := [sample_stream 21 ''db'' 5, sample_stream 23 ''mq'' 7],
     routes := [sample_l4_route]\<rparr>"

definition sample_reclaim :: "(error + Stream) \<times> (db \<times> bool list)" where
  "sample_reclaim = StreamService_Update sample_svc 21
     \<lparr>usiName = None, usiPorts = Some [\<lparr>spTransport = ''udp'', spPort = 6\<rparr>, \<lparr>spTransport = ''tcp'', spPort = 5\<rparr>]\<rparr> (sample_streams, [])"

theorem used_ports_stay_claimed_witness:
  "\<exists>s d'. sample_reclaim = (Inr s, (d', [])) \<and> (''TCP'', 5) \<in> claim_key ` set (strPorts s)"
proof -
  have "case sample_reclaim of (Inr _, (_, fs)) \<Rightarrow> fs = [] | (Inl _, _) \<Rightarrow> False" by code_simp
  then obtain s d' where run: "sample_reclaim = (Inr s, (d', []))" by (auto split: prod.splits sum.splits)
  have "(''TCP'', 5) \<in> set (used_ports sample_streams 21 None)" by code_simp
  moreover have "set (used_ports sample_streams 21 None) \<subseteq> claim_key ` set (strPorts s)"
    by (rule conjunct1 [OF used_ports_stay_claimed [OF run [unfolded sample_reclaim_def]]]) simp
  ultimately show ?thesis using run by blast
qed

text \<open>C28. A reconcile that no fault and no cancellation disturbs returns and leaves the Gateway of every stream exposing its
  claims, where no two streams share a Gateway.\<close>

theorem reconcile_converges:
  assumes "distinct (map strID (streams d))" "distinct (map stream_key (streams d))"
    "\<forall>s \<in> set (streams d). strPorts s = [] \<or> claims_wf (strPorts s)"
  shows "\<exists>d'. ReconcileGateways (\<lambda>_. None) (d, []) = (Inr (), (d', [])) \<and>
    (\<forall>s \<in> set (streams d). exposed (k8s_lookup (stream_key s) d') = map claim_key (strPorts s))"
proof -
  let ?ss = "sort_key (\<lambda>s. (strName s, strID s)) (streams d)"
  have "inj_on stream_key (set (streams d))" using assms(2) by (simp add: distinct_map)
  then obtain d' where "reconcile_from (\<lambda>_. None) 0 ?ss (d, []) = (Inr (), (d', []))"
      "\<forall>s \<in> set (streams d). k8s_lookup (stream_key s) d' = stream_gateway s"
    using reconcile_run [of d "streams d" ?ss 0] assms(1) by auto
  then show ?thesis
    using exposed_claims assms(3)
    by (auto simp: ReconcileGateways_def StreamRepo_ListAll_def wrap_error_def bind_def attempt_def)
qed

theorem reconcile_converges_witness:
  "\<exists>d'. ReconcileGateways (\<lambda>_. None) (sample_streams, []) = (Inr (), (d', [])) \<and>
    exposed (k8s_lookup (stream_key (sample_stream 21 ''db'' 5)) d') = [(''TCP'', 5)] \<and>
    exposed (k8s_lookup (stream_key (sample_stream 23 ''mq'' 7)) d') = [(''TCP'', 7)]"
proof -
  have ss: "streams sample_streams = [sample_stream 21 ''db'' 5, sample_stream 23 ''mq'' 7]" by (simp add: sample_streams_def)
  have "distinct (map strID (streams sample_streams))" "distinct (map stream_key (streams sample_streams))"
    "claims_wf (strPorts (sample_stream 21 ''db'' 5))" "claims_wf (strPorts (sample_stream 23 ''mq'' 7))" by code_simp+
  then show ?thesis using reconcile_converges [of sample_streams] unfolding ss by (auto simp: sample_stream_def claim_key_def)
qed

definition sample_rename :: "(error + Stream) \<times> (db \<times> bool list)" where
  "sample_rename =
     (let new = (\<lambda>port. StreamService_Create sample_svc 1 \<lparr>csiName = ''db'', csiNamespace = FastGatewayNamespace,
            csiGatewayTemplateID = 3, csiPorts = [\<lparr>spTransport = ''TCP'', spPort = port\<rparr>]\<rparr> None)
      in bind (new 5) (\<lambda>_. bind (StreamService_Update sample_svc 20 \<lparr>usiName = Some ''old'', usiPorts = None\<rparr>) (\<lambda>_. new 6))
        (sample_gateways, []))"

text \<open>A stream keeps the name of its Gateway when it is renamed, and a new stream may take the old name: both rows then
  have one Gateway, and the second stream's listeners have replaced the first one's.\<close>

theorem renamed_stream_shares_its_gateway:
  "\<exists>s s' d'. sample_rename = (Inr s', (d', [])) \<and> map strName (streams d') = [''old'', ''db''] \<and> streams d' = [s, s'] \<and>
    stream_key s = stream_key s' \<and> map claim_key (strPorts s) = [(''TCP'', 5)] \<and>
    exposed (k8s_lookup (stream_key s) d') = [(''TCP'', 6)]"
proof -
  have "case sample_rename of (Inr s', (d', fs)) \<Rightarrow> fs = [] \<and> (case streams d' of [s, t] \<Rightarrow> t = s' \<and>
        strName s = ''old'' \<and> strName t = ''db'' \<and> stream_key s = stream_key s' \<and> map claim_key (strPorts s) = [(''TCP'', 5)] \<and>
        exposed (k8s_lookup (stream_key s) d') = [(''TCP'', 6)] | _ \<Rightarrow> False) | (Inl _, _) \<Rightarrow> False" by code_simp
  moreover obtain r d' fs where run: "sample_rename = (r, (d', fs))" by (metis prod.exhaust)
  ultimately show ?thesis unfolding run prod.case by (auto split: sum.splits list.splits)
qed

end
