(* ===== verification/TemplateInv.thy ===== *)
theory TemplateInv
  imports Templates StreamInv
begin

text \<open>
  What the validators and the operations of gateway templates promise: the listener validator
  accepts exactly the well-formed lists, the operations keep \<open>listener_inv\<close>, a template in use is
  never deleted, and a failed creation leaves no half of the pair of cluster objects.
\<close>

section \<open>Listeners\<close>

definition listener_ok :: "TemplateListener \<Rightarrow> bool" where
  "listener_ok l \<longleftrightarrow> tlName l \<noteq> [] \<and>
     (if tlProtocol l \<in> {ListenerHTTP, ListenerHTTPS}
      then 1 \<le> tlPort l \<and> tlPort l \<le> 65535 \<and> tlPort l \<notin> set (rpEnvoyInternal DefaultReservedPorts)
      else tlProtocol l \<in> {ListenerTCP, ListenerUDP} \<and>
        1 \<le> tlPortRangeMin l \<and> tlPortRangeMin l \<le> tlPortRangeMax l \<and> tlPortRangeMax l \<le> 65535)"

definition is_range :: "TemplateListener \<Rightarrow> bool" where
  "is_range l \<longleftrightarrow> tlProtocol l \<in> {ListenerTCP, ListenerUDP}"

definition listeners_wf :: "TemplateListener list \<Rightarrow> bool" where
  "listeners_wf ls \<longleftrightarrow> ls \<noteq> [] \<and> list_all listener_ok ls \<and> distinct (map tlName ls) \<and>
     distinct (map tlPort (HostnameRouted ls)) \<and> length (filter is_range ls) \<le> 1"

lemma HostnameRouted_Cons:
  "HostnameRouted (l # ls) = (if tlProtocol l \<in> {ListenerHTTP, ListenerHTTPS, ListenerTLS} then l # HostnameRouted ls else HostnameRouted ls)"
  by (simp add: HostnameRouted_def)

lemma check_then_ok: "(case c of Inl e \<Rightarrow> Inl e | Inr _ \<Rightarrow> x) = Inr () \<longleftrightarrow> c = Inr () \<and> x = Inr ()"
  by (cases c) auto

lemma listener_checks_ok:
  "listener_checks names fixed hr ls = Inr () \<longleftrightarrow>
     list_all listener_ok ls \<and> distinct (map tlName ls) \<and> set names \<inter> tlName ` set ls = {} \<and>
     distinct (map tlPort (HostnameRouted ls)) \<and> set fixed \<inter> tlPort ` set (HostnameRouted ls) = {} \<and>
     length (filter is_range ls) \<le> (if hr then 0 else 1)"
proof (induction ls arbitrary: names fixed hr)
  case Nil
  then show ?case by (simp add: HostnameRouted_def)
next
  case (Cons l ls)
  have HTTP: "p = ListenerHTTP \<or> p = ListenerHTTPS \<Longrightarrow> tlProtocol l = p \<Longrightarrow> listener_checks names fixed hr (l # ls) = Inr () \<longleftrightarrow>
      listener_ok l \<and> tlName l \<notin> set names \<and> tlPort l \<notin> set fixed \<and> listener_checks (tlName l # names) (tlPort l # fixed) hr ls = Inr ()" for p
    by (auto simp: check_then_ok ValidateListenerPort_ok listener_ok_def DefaultReservedPorts_def)
  have L4: "p = ListenerTCP \<or> p = ListenerUDP \<Longrightarrow> tlProtocol l = p \<Longrightarrow> listener_checks names fixed hr (l # ls) = Inr () \<longleftrightarrow>
      listener_ok l \<and> tlName l \<notin> set names \<and> \<not> hr \<and> listener_checks (tlName l # names) fixed True ls = Inr ()" for p
    by (auto simp: listener_ok_def)
  show ?case
  proof (cases "tlProtocol l")
    case ListenerTLS then show ?thesis by (simp add: listener_ok_def)
  next
    case (ListenerOther x) then show ?thesis by (simp add: listener_ok_def)
  qed (use HTTP L4 Cons.IH in \<open>auto simp: HostnameRouted_Cons is_range_def simp del: listener_checks.simps\<close>)
qed

lemma ValidateTemplateListeners_ok: "ValidateTemplateListeners ls = Inr () \<longleftrightarrow> listeners_wf ls"
  by (simp add: ValidateTemplateListeners_def listener_checks_ok listeners_wf_def)

section \<open>The invariant of templates and streams\<close>

text \<open>No stream of a merged template claims a port of its hostname-routed listeners.\<close>

definition avoids :: "db \<Rightarrow> DomainTemplate \<Rightarrow> bool" where
  "avoids d t \<longleftrightarrow> (dtMergeGateways t \<longrightarrow>
     (\<forall>l \<in> set (HostnameRouted (dtListeners t)). (''TCP'', tlPort l) \<notin> set (claimed_ports d (dtID t) None)))"

definition templates_inv :: "db \<Rightarrow> bool" where
  "templates_inv d \<longleftrightarrow> (\<forall>t \<in> set (domain_templates d). dtID t < next_id d \<and> listeners_wf (dtListeners t))"

definition gateways_inv :: "db \<Rightarrow> bool" where
  "gateways_inv d \<longleftrightarrow> listener_inv d \<and> templates_inv d"

lemma stored_avoids:
  assumes inv: "listener_inv d" and t: "row_get dtID i (domain_templates d) = Some t"
  shows "avoids d t"
proof -
  have W: "\<forall>s \<in> set (streams d). strPorts s = [] \<or> claims_wf (strPorts s)" using inv by (simp add: listener_inv_def)
  have "(''TCP'', tlPort l) \<notin> claim_key ` set (strPorts s)"
    if "dtMergeGateways t" "l \<in> set (HostnameRouted (dtListeners t))" "s \<in> set (streams d)" "strGatewayTemplateID s = i" for l s
  proof -
    have "apart d s" using inv that(3) by (simp add: listener_inv_def)
    then show ?thesis using that t by (auto simp: apart_def fresh_claims_def)
  qed
  then show ?thesis using row_get_key [OF t] unfolding avoids_def claimed_ports_iff [OF W] by auto
qed

lemma listener_inv_template:
  assumes inv: "listener_inv d" and a: "avoids d t"
    and m: "\<And>t0. row_get dtID (dtID t) (domain_templates d) = Some t0 \<Longrightarrow> dtMergeGateways t = dtMergeGateways t0"
  shows "listener_inv (d\<lparr>domain_templates := row_save dtID t (domain_templates d)\<rparr>)" (is "listener_inv ?d")
proof -
  have W: "\<forall>s \<in> set (streams d). strPorts s = [] \<or> claims_wf (strPorts s)" using inv by (simp add: listener_inv_def)
  have "apart ?d s" if s: "s \<in> set (streams d)" for s
  proof -
    obtain t0 where t0: "row_get dtID (strGatewayTemplateID s) (domain_templates d) = Some t0"
        "dtMergeGateways t0 \<longrightarrow> fresh_claims d t0 (Some (strID s)) (strPorts s)"
      using inv s by (auto simp: listener_inv_def apart_def)
    show ?thesis
    proof (cases "strGatewayTemplateID s = dtID t")
      case True
      have "fresh_claims ?d t (Some (strID s)) (strPorts s)" if mt: "dtMergeGateways t"
      proof -
        have "fresh_claims d t0 (Some (strID s)) (strPorts s)" "dtID t0 = dtID t" using t0 m True mt row_get_key [OF t0(1)] by auto
        moreover have "(''TCP'', tlPort l) \<notin> claim_key ` set (strPorts s)" if "l \<in> set (HostnameRouted (dtListeners t))" for l
          using a mt that s True unfolding avoids_def claimed_ports_iff [OF W] by auto
        ultimately show ?thesis by (auto simp: fresh_claims_def claimed_ports_def)
      qed
      then show ?thesis using True by (simp add: apart_def)
    qed (use t0 in \<open>auto simp: apart_def fresh_claims_def claimed_ports_def\<close>)
  qed
  then show ?thesis using inv by (simp add: listener_inv_def)
qed

lemma gateways_inv_template:
  assumes "gateways_inv d" "avoids d t" "dtID t < next_id d" "listeners_wf (dtListeners t)"
    "\<And>t0. row_get dtID (dtID t) (domain_templates d) = Some t0 \<Longrightarrow> dtMergeGateways t = dtMergeGateways t0"
  shows "gateways_inv (d\<lparr>domain_templates := row_save dtID t (domain_templates d)\<rparr>)"
  using assms listener_inv_template [of d t] by (auto simp: gateways_inv_def templates_inv_def dest!: set_row_save [THEN subsetD])

lemma gateways_inv_k8s: "gateways_inv d \<Longrightarrow> same_tables d d' \<Longrightarrow> gateways_inv d'"
  by (erule same_tablesE) (auto simp: gateways_inv_def templates_inv_def listener_inv_def apart_def fresh_claims_def claimed_ports_def)

lemma hoare_checkMergedTemplateSet:
  "hoare (\<lambda>d. d = d0) (checkMergedTemplateSet t) (\<lambda>_ d. d = d0 \<and> avoids d0 t) (\<lambda>_ d. d = d0)"
  unfolding checkMergedTemplateSet_def ClaimedPortsByTemplate_def
  by (rule hoare_pre, (rule hoare_readonly [OF hoare_UsedPortsByTemplate] | rule wp)+)
    (auto simp: avoids_def templateDomainDefaults_def)

lemma hoare_new_listeners_check:
  "hoare (\<lambda>d. d = d0) (new_listeners_check wired t ls)
     (\<lambda>_ d. d = d0 \<and> listeners_wf ls \<and> avoids d0 (t\<lparr>dtListeners := ls\<rparr>)) (\<lambda>_ d. d = d0)"
  unfolding new_listeners_check_def
  by (rule hoare_pre, (rule hoare_readonly [OF hoare_checkMergedTemplateSet] | rule wp)+)
    (auto simp: ValidateTemplateListeners_ok avoids_def)

section \<open>Creating a template\<close>

definition proxy_key :: "DomainTemplate \<Rightarrow> k8s_key" where
  "proxy_key t = K8sKey (dtProjectID t) KEnvoyProxy EnvoyGatewayNamespace (dtK8sEnvoyProxyName t)"

definition class_key :: "DomainTemplate \<Rightarrow> k8s_key" where
  "class_key t = K8sKey (dtProjectID t) KGatewayClass [] (dtK8sGatewayClassName t)"

text \<open>
  The outcome of the deployment: an active template has both of its objects in the cluster; one
  in error has added no GatewayClass.
\<close>

definition deployed :: "db \<Rightarrow> DomainTemplate \<Rightarrow> DomainTemplate \<Rightarrow> db \<Rightarrow> bool" where
  "deployed d0 t t' d \<longleftrightarrow> (\<exists>st msg. t' = t\<lparr>dtStatus := st, dtStatusMessage := msg\<rparr>) \<and>
     (same_tables d0 d \<or> same_tables (d0\<lparr>domain_templates := row_save dtID t' (domain_templates d0)\<rparr>) d) \<and>
     (case dtStatus t' of
        DomainTemplateStatusActive \<Rightarrow> k8s_lookup (proxy_key t) d = Some (EnvoyProxyObj (BuildEnvoyProxyConfig t)) \<and>
          k8s_lookup (class_key t) d = Some (GatewayClassObj (BuildGatewayClassConfig t))
      | _ \<Rightarrow> k8s_lookup (class_key t) d = k8s_lookup (class_key t) d0)"

lemma built_names [simp]:
  "epName (BuildEnvoyProxyConfig t) = dtK8sEnvoyProxyName t" "epNamespace (BuildEnvoyProxyConfig t) = EnvoyGatewayNamespace"
  "gccName (BuildGatewayClassConfig t) = dtK8sGatewayClassName t"
  by (simp_all add: BuildEnvoyProxyConfig_def BuildGatewayClassConfig_def)

lemma hoare_settle_template:
  "hoare (\<lambda>d. d = d0) (settle_template st msg t)
     (\<lambda>t' d. t' = t\<lparr>dtStatus := st, dtStatusMessage := msg\<rparr> \<and>
        (d = d0 \<or> d = d0\<lparr>domain_templates := row_save dtID t' (domain_templates d0)\<rparr>)) (\<lambda>_ _. False)"
  unfolding settle_template_def Let_def DomainTemplateRepo_Update_def
  by (rule hoare_pre, (rule wp)+) (auto simp: template_save_def split: if_splits)

lemma same_tables_save:
  "same_tables d0 d \<Longrightarrow> same_tables (d0\<lparr>domain_templates := row_save dtID t (domain_templates d0)\<rparr>)
     (d\<lparr>domain_templates := row_save dtID t (domain_templates d)\<rparr>)"
  by (erule same_tablesE) (simp add: same_tables_def)

lemma deployedI:
  assumes "d = dm \<or> d = dm\<lparr>domain_templates := row_save dtID (t\<lparr>dtStatus := st, dtStatusMessage := msg\<rparr>) (domain_templates dm)\<rparr>"
    "same_tables d0 dm"
    "case st of
        DomainTemplateStatusActive \<Rightarrow> k8s_lookup (proxy_key t) dm = Some (EnvoyProxyObj (BuildEnvoyProxyConfig t)) \<and>
          k8s_lookup (class_key t) dm = Some (GatewayClassObj (BuildGatewayClassConfig t))
      | _ \<Rightarrow> k8s_lookup (class_key t) dm = k8s_lookup (class_key t) d0"
  shows "deployed d0 t (t\<lparr>dtStatus := st, dtStatusMessage := msg\<rparr>) d"
proof -
  have "same_tables d0 d \<or> same_tables (d0\<lparr>domain_templates := row_save dtID (t\<lparr>dtStatus := st, dtStatusMessage := msg\<rparr>) (domain_templates d0)\<rparr>) d"
    using assms(1,2) same_tables_save [OF assms(2)] by auto
  then show ?thesis using assms(1,3) unfolding deployed_def by (cases st) auto
qed

lemma hoare_settle_deployed:
  "hoare (\<lambda>dm. same_tables d0 dm \<and> (case st of
        DomainTemplateStatusActive \<Rightarrow> k8s_lookup (proxy_key t) dm = Some (EnvoyProxyObj (BuildEnvoyProxyConfig t)) \<and>
          k8s_lookup (class_key t) dm = Some (GatewayClassObj (BuildGatewayClassConfig t))
      | _ \<Rightarrow> k8s_lookup (class_key t) dm = k8s_lookup (class_key t) d0))
     (settle_template st msg t) (\<lambda>t' d. deployed d0 t t' d) (\<lambda>_ _. False)"
  by (rule hoare_state, rule hoare_post [OF hoare_settle_template]) (auto intro: deployedI)

lemma hoare_deploy_template:
  "hoare (\<lambda>d. d = d0) (deploy_template t) (\<lambda>t' d. deployed d0 t t' d) (\<lambda>_ _. False)"
  unfolding deploy_template_def CreateEnvoyProxy_def CreateGatewayClass_def DeleteEnvoyProxy_def k8s_Create_def k8s_Delete_def
  by (rule hoare_pre, (rule hoare_settle_deployed | rule wp)+)
    (auto simp: proxy_key_def class_key_def split: option.splits sum.splits)

lemma new_template_listeners [simp]:
  "dtListeners (new_template p inp u) = cdiListeners inp" "dtMergeGateways (new_template p inp u) = cdiMergeGateways inp"
  by (simp_all add: new_template_def normalized_def)

definition template_created :: "db \<Rightarrow> uuid \<Rightarrow> CreateDomainTemplateInput \<Rightarrow> uuid \<Rightarrow> DomainTemplate \<Rightarrow> db \<Rightarrow> bool" where
  "template_created d0 p inp u t' d \<longleftrightarrow> create_shape_check inp = Inr () \<and>
     (let t = (new_template p inp u)\<lparr>dtID := next_id d0\<rparr>
      in settings_check t = Inr () \<and>
         deployed (d0\<lparr>domain_templates := row_save dtID t (domain_templates d0), next_id := Suc (next_id d0)\<rparr>) t t' d)"

lemma settings_check_id [simp]: "settings_check (t\<lparr>dtID := i\<rparr>) = settings_check t"
  by (simp add: settings_check_def ValidateDomainTemplateTelemetry_def ValidateDomainTemplatePodScheduling_def)

lemma hoare_TemplateService_Create:
  "hoare (\<lambda>d. d = d0) (TemplateService_Create p inp u) (\<lambda>t' d. template_created d0 p inp u t' d) (\<lambda>_ d. d = d0)"
  unfolding TemplateService_Create_def Let_def DomainTemplateRepo_ExistsByName_def DomainTemplateRepo_Create_def
  by (rule hoare_pre, (rule hoare_spec [OF hoare_deploy_template] | rule wp)+)
    (auto simp: template_created_def template_save_def Let_def split: if_splits)

lemma fresh_template_avoids:
  assumes "gateways_inv d" "dtID t = next_id d" shows "avoids d t"
proof -
  have "strGatewayTemplateID s \<noteq> dtID t" if s: "s \<in> set (streams d)" for s
  proof
    assume "strGatewayTemplateID s = dtID t"
    then obtain t0 where "row_get dtID (dtID t) (domain_templates d) = Some t0"
      using assms(1) s by (auto simp: gateways_inv_def templates_inv_def listener_inv_def apart_def)
    then have "t0 \<in> set (domain_templates d)" "dtID t0 = next_id d" using assms(2) row_get_mem row_get_key by fastforce+
    then show False using assms(1) by (auto simp: gateways_inv_def templates_inv_def)
  qed
  then have "claimed_ports d (dtID t) None = []" by (auto simp: claimed_ports_def)
  then show ?thesis by (simp add: avoids_def)
qed

lemma gateways_inv_next: "gateways_inv d \<Longrightarrow> next_id d \<le> n \<Longrightarrow> gateways_inv (d\<lparr>next_id := n\<rparr>)"
  using listener_inv_frame [of d "d\<lparr>next_id := n\<rparr>"] by (force simp: gateways_inv_def templates_inv_def)

lemma avoids_frame: "streams d' = streams d \<Longrightarrow> avoids d' t \<longleftrightarrow> avoids d t"
  by (simp add: avoids_def claimed_ports_def)

lemma avoids_template:
  "dtID t' = dtID t \<Longrightarrow> dtMergeGateways t' = dtMergeGateways t \<Longrightarrow> dtListeners t' = dtListeners t \<Longrightarrow> avoids d t' \<longleftrightarrow> avoids d t"
  by (simp add: avoids_def)

text \<open>A row the deployment saves again differs in its status only.\<close>

lemma deployed_inv:
  assumes inv: "gateways_inv d0" and t: "row_get dtID (dtID t) (domain_templates d0) = Some t" and dep: "deployed d0 t t' d"
  shows "gateways_inv d"
proof -
  have a: "avoids d0 t" using stored_avoids [OF _ t] inv by (simp add: gateways_inv_def templates_inv_def)
  have m: "t \<in> set (domain_templates d0)" using row_get_mem [OF t] .
  obtain st msg where t': "t' = t\<lparr>dtStatus := st, dtStatusMessage := msg\<rparr>" using dep by (auto simp: deployed_def)
  have "gateways_inv (d0\<lparr>domain_templates := row_save dtID t' (domain_templates d0)\<rparr>)"
  proof (rule gateways_inv_template [OF inv])
    show "avoids d0 t'" using a avoids_template [of t' t d0] by (simp add: t')
    show "dtID t' < next_id d0" "listeners_wf (dtListeners t')" using inv m by (auto simp: gateways_inv_def templates_inv_def t')
  qed (use t t' in simp)
  then show ?thesis using dep inv gateways_inv_k8s by (auto simp: deployed_def)
qed

lemma template_created_inv:
  assumes inv: "gateways_inv d0" and c: "template_created d0 p inp u t' d"
  shows "gateways_inv d"
proof -
  define t where "t = (new_template p inp u)\<lparr>dtID := next_id d0\<rparr>"
  let ?d1 = "d0\<lparr>next_id := Suc (next_id d0)\<rparr>"
  have ok: "listeners_wf (dtListeners t)" using c by (simp add: template_created_def create_shape_check_def ValidateTemplateListeners_ok t_def)
  have "gateways_inv (?d1\<lparr>domain_templates := row_save dtID t (domain_templates ?d1)\<rparr>)"
  proof (rule gateways_inv_template)
    show "gateways_inv ?d1" using gateways_inv_next [OF inv] by simp
    show "avoids ?d1 t" using fresh_template_avoids [OF inv, of t] avoids_frame [of ?d1 d0 t] by (simp add: t_def)
    fix t0
    assume "row_get dtID (dtID t) (domain_templates ?d1) = Some t0"
    then have "t0 \<in> set (domain_templates d0)" "dtID t0 = next_id d0" using row_get_mem row_get_key by (fastforce simp: t_def)+
    then show "dtMergeGateways t = dtMergeGateways t0" using inv by (auto simp: gateways_inv_def templates_inv_def)
  qed (use ok in \<open>simp_all add: t_def\<close>)
  moreover have "?d1\<lparr>domain_templates := row_save dtID t (domain_templates ?d1)\<rparr> =
      d0\<lparr>domain_templates := row_save dtID t (domain_templates d0), next_id := Suc (next_id d0)\<rparr>" (is "_ = ?d2")
    by (cases d0) simp
  ultimately have "gateways_inv ?d2" by (rule back_subst)
  then show ?thesis using deployed_inv [of ?d2 t t' d] c by (simp add: template_created_def Let_def t_def)
qed

lemma keeps_inv_template_Create: "keeps gateways_inv (TemplateService_Create p inp u)"
  unfolding keeps_def by (rule hoare_state, rule hoare_post [OF hoare_TemplateService_Create]) (auto intro: template_created_inv)

section \<open>Updating and deleting a template\<close>

lemma updated_template_simps [simp]:
  "dtID (updated_template inp t) = dtID t" "dtMergeGateways (updated_template inp t) = dtMergeGateways t"
  "dtListeners (updated_template inp t) = override (dtListeners t) (udiListeners inp)"
  by (simp_all add: updated_template_def normalized_def)

definition template_updated :: "db \<Rightarrow> uuid \<Rightarrow> UpdateDomainTemplateInput \<Rightarrow> DomainTemplate \<Rightarrow> db \<Rightarrow> bool" where
  "template_updated d0 i inp t' d \<longleftrightarrow> (\<exists>t. row_get dtID i (domain_templates d0) = Some t \<and> t' = updated_template inp t \<and>
     settings_check t' = Inr () \<and>
     (\<forall>ls. udiListeners inp = Some ls \<longrightarrow> listeners_wf ls \<and> avoids d0 (t\<lparr>dtListeners := ls\<rparr>)) \<and>
     same_tables (d0\<lparr>domain_templates := row_save dtID t' (domain_templates d0)\<rparr>) d)"

lemma hoare_UpdateEnvoyProxy: "hoare (\<lambda>d. d = d0) (UpdateEnvoyProxy p c) (\<lambda>_ d. same_tables d0 d) (\<lambda>_ d. same_tables d0 d)"
  by (rule hoare_pre [OF keeps_hoare [OF keeps_cluster(9)]]) auto

lemma same_tables_trans: "same_tables d0 d1 \<Longrightarrow> same_tables d1 d2 \<Longrightarrow> same_tables d0 d2"
  by (erule same_tablesE, erule same_tablesE) (simp add: same_tables_def)

lemma template_save_Inr:
  "template_save t d = Inr d' \<Longrightarrow> d' = d\<lparr>domain_templates := row_save dtID t (domain_templates d)\<rparr>"
  by (simp add: template_save_def split: if_splits)

lemma hoare_save_template:
  "hoare (\<lambda>d. d = d0) (DomainTemplateRepo_Update t)
     (\<lambda>_ d. d = d0\<lparr>domain_templates := row_save dtID t (domain_templates d0)\<rparr>) (\<lambda>_ d. d = d0)"
  unfolding DomainTemplateRepo_Update_def by (rule hoare_pre, (rule wp)+) (auto dest: template_save_Inr)

lemma hoare_TemplateService_Update:
  "hoare (\<lambda>d. d = d0) (TemplateService_Update wired i inp) (\<lambda>t' d. template_updated d0 i inp t' d) (\<lambda>_ d. same_tables d0 d)"
  unfolding TemplateService_Update_def Let_def DomainTemplateRepo_GetByID_def
  by (rule hoare_pre, (rule hoare_spec [OF hoare_save_template] hoare_spec [OF hoare_UpdateEnvoyProxy]
        hoare_readonly [OF hoare_new_listeners_check] | rule wp)+)
    (auto simp: template_updated_def found_def intro: same_tables_save split: option.splits)

lemma template_updated_inv:
  assumes inv: "gateways_inv d0" and u: "template_updated d0 i inp t' d"
  shows "gateways_inv d"
proof -
  obtain t where t: "row_get dtID i (domain_templates d0) = Some t" "t' = updated_template inp t"
      "\<forall>ls. udiListeners inp = Some ls \<longrightarrow> listeners_wf ls \<and> avoids d0 (t\<lparr>dtListeners := ls\<rparr>)"
      "same_tables (d0\<lparr>domain_templates := row_save dtID t' (domain_templates d0)\<rparr>) d"
    using u by (auto simp: template_updated_def)
  have tm: "t \<in> set (domain_templates d0)" "dtID t = i" using row_get_mem [OF t(1)] row_get_key [OF t(1)] by auto
  have "avoids d0 t" using stored_avoids [OF _ t(1)] inv by (simp add: gateways_inv_def templates_inv_def)
  then have "avoids d0 t'" using t(2,3) avoids_template [of t' "t\<lparr>dtListeners := dtListeners t'\<rparr>" d0] avoids_template [of t' t d0]
    by (cases "udiListeners inp") (auto simp: override_def)
  moreover have "dtID t' < next_id d0" "listeners_wf (dtListeners t')"
    using inv tm t(2,3) by (auto simp: gateways_inv_def templates_inv_def override_def split: option.splits)
  ultimately have "gateways_inv (d0\<lparr>domain_templates := row_save dtID t' (domain_templates d0)\<rparr>)"
    using inv t(1,2) tm by (intro gateways_inv_template) auto
  then show ?thesis using gateways_inv_k8s t(4) by blast
qed

lemma keeps_inv_template_Update: "keeps gateways_inv (TemplateService_Update wired i inp)"
  unfolding keeps_def by (rule hoare_state, rule hoare_post [OF hoare_TemplateService_Update]) (auto intro: template_updated_inv gateways_inv_k8s)

text \<open>A template that a domain or a stream uses is refused before anything is touched.\<close>

lemma hoare_TemplateService_Delete:
  "hoare (\<lambda>d. d = d0) (TemplateService_Delete wired i)
     (\<lambda>_ d. (\<forall>s \<in> set (streams d0). strGatewayTemplateID s \<noteq> i) \<and> (\<forall>x \<in> set (domains d0). domDomainTemplateID x \<noteq> Some i) \<and>
        same_tables (d0\<lparr>domain_templates := row_delete dtID i (domain_templates d0)\<rparr>) d)
     (\<lambda>_ d. same_tables d0 d \<and>
        ((\<exists>s \<in> set (streams d0). strGatewayTemplateID s = i) \<or> (\<exists>x \<in> set (domains d0). domDomainTemplateID x = Some i) \<longrightarrow> d = d0))"
  (is "hoare _ _ ?Q ?E")
proof -
  have c: "hoare (\<lambda>d. d = dd) (DeleteGatewayClass p n) (\<lambda>_ d. same_tables dd d) (\<lambda>_ d. same_tables dd d)"
    "hoare (\<lambda>d. d = dd) (DeleteEnvoyProxy p ns n) (\<lambda>_ d. same_tables dd d) (\<lambda>_ d. same_tables dd d)" for dd p ns n
    by (rule hoare_pre [OF keeps_hoare [OF keeps_cluster(6)]], auto)
      (rule hoare_pre [OF keeps_hoare [OF keeps_cluster(8)]], auto)
  have del: "hoare (\<lambda>d. d = dd) (DomainTemplateRepo_Delete i)
      (\<lambda>_ d. d = dd\<lparr>domain_templates := row_delete dtID i (domain_templates dd)\<rparr>) (\<lambda>_ d. d = dd)" for dd
    unfolding DomainTemplateRepo_Delete_def by (rule hoare_pre, (rule wp)+) (auto split: if_splits)
  have st: "same_tables d0 d \<Longrightarrow> same_tables (d0\<lparr>domain_templates := row_delete dtID i (domain_templates d0)\<rparr>)
      (d\<lparr>domain_templates := row_delete dtID i (domain_templates d)\<rparr>)" for d
    by (erule same_tablesE) (simp add: same_tables_def)
  show ?thesis
    unfolding TemplateService_Delete_def DomainTemplateRepo_GetByID_def DomainRepo_ListByTemplateID_def StreamRepo_CountByGatewayTemplateID_def
    by (rule hoare_pre, (rule hoare_spec [OF c(1)] hoare_spec [OF c(2)] hoare_spec [OF del] | rule wp)+)
      (auto simp: filter_empty_conv intro!: st intro: same_tables_trans)
qed

lemma gateways_inv_delete:
  assumes inv: "gateways_inv d" and u: "\<forall>s \<in> set (streams d). strGatewayTemplateID s \<noteq> i"
  shows "gateways_inv (d\<lparr>domain_templates := row_delete dtID i (domain_templates d)\<rparr>)"
proof -
  have "apart (d\<lparr>domain_templates := row_delete dtID i (domain_templates d)\<rparr>) s" if "s \<in> set (streams d)" for s
    using that inv u by (auto simp: gateways_inv_def listener_inv_def apart_def fresh_claims_def claimed_ports_def)
  then show ?thesis using inv by (auto simp: gateways_inv_def templates_inv_def listener_inv_def row_delete_def)
qed

lemma keeps_inv_template_Delete: "keeps gateways_inv (TemplateService_Delete wired i)"
  unfolding keeps_def
  by (rule hoare_state, rule hoare_post [OF hoare_TemplateService_Delete]) (blast intro: gateways_inv_delete gateways_inv_k8s)+

lemmas template_ops_keep_inv = keeps_inv_template_Create keeps_inv_template_Update keeps_inv_template_Delete

text \<open>Streams never touch a template.\<close>

lemma templates_inv_frame:
  "templates_inv d \<Longrightarrow> domain_templates d' = domain_templates d \<Longrightarrow> next_id d \<le> next_id d' \<Longrightarrow> templates_inv d'"
  unfolding templates_inv_def by force

lemma applied_tables: "applied d0 s r d \<Longrightarrow> domain_templates d = domain_templates d0 \<and> next_id d = next_id d0"
  by (auto simp: applied_def other_gateways_def elim!: same_tablesE)

lemma keeps_templates_Apply: "keeps templates_inv (ApplyGateway s)"
  unfolding keeps_def
  by (rule hoare_state, rule hoare_post [OF hoare_ApplyGateway])
    (auto dest!: applied_tables intro: templates_inv_frame)

lemma keeps_templates_streams:
  "keeps templates_inv (StreamService_Create svc p inp u)" "keeps templates_inv (StreamService_Update svc i uinp)"
  "keeps templates_inv (StreamService_Delete i)" "keeps templates_inv (ReconcileGateways ctx)"
proof -
  show "keeps templates_inv (StreamService_Create svc p inp u)" "keeps templates_inv (StreamService_Update svc i uinp)"
    unfolding keeps_def
    by (rule hoare_state, rule hoare_post [OF hoare_StreamService_Create], auto dest!: applied_tables intro: templates_inv_frame)
      (rule hoare_state, rule hoare_post [OF hoare_StreamService_Update], auto dest!: applied_tables split: if_splits intro: templates_inv_frame)
  have k: "templates_inv d \<Longrightarrow> templates_inv (k8s_put k x d)" "templates_inv d \<Longrightarrow> templates_inv (k8s_remove k d)" for d k x
    by (erule templates_inv_frame; simp add: k8s_put_def k8s_remove_def)+
  have "keeps templates_inv (StreamRepo_Delete i)"
    unfolding StreamRepo_Delete_def by (intro keeps_exec, erule templates_inv_frame) (simp_all add: delete_routes_def Let_def)
  then show "keeps templates_inv (StreamService_Delete i)"
    unfolding StreamService_Delete_def getStream_def StreamRepo_GetByID_def RouteRepo_CountByStreamID_def
    by (intro keeps_bind keeps_attempt keeps_wrap_error keeps_require keeps_cluster keeps_query keeps_case_sum keeps_throw keeps_ret)
      (simp_all add: k)
  have "keeps templates_inv (reconcile_from ctx n ss)" for n ss
    by (induction ctx n ss rule: reconcile_from.induct)
      (auto simp: StreamRepo_GetByID_def split: option.splits
        intro!: keeps_bind keeps_attempt keeps_case_sum keeps_templates_Apply)
  then show "keeps templates_inv (ReconcileGateways ctx)"
    unfolding ReconcileGateways_def StreamRepo_ListAll_def by (intro keeps_bind keeps_wrap_error keeps_query)
qed

lemma stream_ops_keep_gateways:
  "keeps gateways_inv (StreamService_Create svc p inp u)" "keeps gateways_inv (StreamService_Update svc i uinp)"
  "keeps gateways_inv (StreamService_Delete i)" "keeps gateways_inv (ReconcileGateways ctx)"
  using keeps_conj [OF stream_ops_keep_inv(1) keeps_templates_streams(1)] keeps_conj [OF stream_ops_keep_inv(2) keeps_templates_streams(2)]
    keeps_conj [OF stream_ops_keep_inv(3) keeps_templates_streams(3)] keeps_conj [OF stream_ops_keep_inv(4) keeps_templates_streams(4)]
  unfolding gateways_inv_def by blast+

section \<open>Properties\<close>

text \<open>C21. The validator of template listeners accepts exactly the well-formed lists: at least one listener, distinct
  names, distinct fixed ports between 1 and 65535 and not reserved, and at most one TCP/UDP range, within the ports.\<close>

theorem template_listeners_exact: "ValidateTemplateListeners ls = Inr () \<longleftrightarrow> listeners_wf ls"
  by (rule ValidateTemplateListeners_ok)

text \<open>C22. A template that a domain or a stream uses is never deleted, whatever faults occur: the request is refused, and
  the database and the cluster are left as they were.\<close>

theorem used_template_not_deleted:
  assumes "(\<exists>s \<in> set (streams d). strGatewayTemplateID s = i) \<or> (\<exists>x \<in> set (domains d). domDomainTemplateID x = Some i)"
  shows "\<exists>e fs'. TemplateService_Delete wired i (d, fs) = (Inl e, (d, fs'))"
  by (rule hoare_refused, rule hoare_post [OF hoare_TemplateService_Delete]) (use assms in auto)

theorem used_template_not_deleted_witness:
  "\<exists>e fs'. TemplateService_Delete True 3 (sample_streams, [False, True]) = (Inl e, (sample_streams, fs'))"
  by (rule used_template_not_deleted) (simp add: sample_streams_def sample_stream_def)

text \<open>A template whose creation returns is stored with well-formed listeners and valid settings; when it is active both
  the EnvoyProxy and the GatewayClass built from it are in the cluster, and when it is in error its GatewayClass has not
  been created.\<close>

theorem template_creation:
  assumes "TemplateService_Create p inp u (d, fs) = (Inr t, (d', fs'))"
  shows "listeners_wf (dtListeners t) \<and> isValidK8sName (dtName t) \<and> map_option dtListeners (row_get dtID (dtID t) (domain_templates d')) = Some (dtListeners t) \<and>
    (if dtStatus t = DomainTemplateStatusActive
     then k8s_lookup (proxy_key t) d' \<noteq> None \<and> k8s_lookup (class_key t) d' = Some (GatewayClassObj (BuildGatewayClassConfig t))
     else k8s_lookup (class_key t) d' = k8s_lookup (class_key t) d)"
proof -
  let ?t = "(new_template p inp u)\<lparr>dtID := next_id d\<rparr>"
  have c: "template_created d p inp u t d'" using hoare_run [OF hoare_TemplateService_Create assms] by simp
  then obtain st msg where t: "t = ?t\<lparr>dtStatus := st, dtStatusMessage := msg\<rparr>" by (auto simp: template_created_def Let_def deployed_def)
  have "listeners_wf (cdiListeners inp)" "isValidK8sName (cdiName inp)"
    using c by (auto simp: template_created_def create_shape_check_def ValidateTemplateListeners_ok)
  moreover have "map_option dtListeners (row_get dtID (dtID t) (domain_templates d')) = Some (dtListeners t)"
    using c by (auto simp: template_created_def Let_def deployed_def t elim!: same_tablesE)
  moreover have "if st = DomainTemplateStatusActive
     then k8s_lookup (proxy_key ?t) d' \<noteq> None \<and> k8s_lookup (class_key ?t) d' = Some (GatewayClassObj (BuildGatewayClassConfig ?t))
     else k8s_lookup (class_key ?t) d' = k8s_lookup (class_key ?t) d"
    using c by (cases st) (auto simp: template_created_def Let_def deployed_def t k8s_lookup_def)
  moreover have "dtName t = cdiName inp" "dtListeners t = cdiListeners inp" by (simp_all add: t new_template_def normalized_def)
  moreover have "proxy_key t = proxy_key ?t" "class_key t = class_key ?t" "BuildGatewayClassConfig t = BuildGatewayClassConfig ?t" "dtStatus t = st"
    by (simp_all add: t proxy_key_def class_key_def BuildGatewayClassConfig_def)
  ultimately show ?thesis by simp
qed

definition sample_template_input :: CreateDomainTemplateInput where
  "sample_template_input = \<lparr>cdiName = ''edge'', cdiDescription = [], cdiControllerName = [], cdiExposureType = ''ClusterIP'',
     cdiListeners = dtListeners sample_template, cdiExternalTrafficPolicy = [], cdiLoadBalancerClass = [], cdiAnnotations = [],
     cdiPodAnnotations = [], cdiContainerResources = None, cdiScalingConfig = None, cdiMergeGateways = True,
     cdiTelemetryAccessLog = None, cdiTelemetryTracing = None, cdiTelemetryMetrics = None, cdiPodPlacement = None,
     cdiPDBConfig = None, cdiDeploymentStrategy = None\<rparr>"

definition sample_template_run :: "(error + DomainTemplate) \<times> (db \<times> bool list)" where
  "sample_template_run = TemplateService_Create 1 sample_template_input 7 (sample_gateways, [])"

theorem template_creation_witness:
  "\<exists>t d'. sample_template_run = (Inr t, (d', [])) \<and> dtStatus t = DomainTemplateStatusActive \<and> k8s_lookup (proxy_key t) d' \<noteq> None"
proof -
  have "case sample_template_run of (Inr t, (_, fs)) \<Rightarrow> fs = [] \<and> dtStatus t = DomainTemplateStatusActive | (Inl _, _) \<Rightarrow> False" by code_simp
  then obtain t d' where run: "sample_template_run = (Inr t, (d', []))" "dtStatus t = DomainTemplateStatusActive"
    by (auto split: prod.splits sum.splits)
  then show ?thesis using template_creation [OF run(1) [unfolded sample_template_run_def]] by auto
qed

text \<open>C23. The migrated listeners of a template whose ports are usable pass the validator, and the migrated bindings of a
  domain of the same mode name exactly the hostname-routed listeners of its template.\<close>

theorem migration_is_valid:
  assumes "enableDomain \<or> enableStream"
    "\<forall>p \<in> {httpPort, httpsPort}. ValidateListenerPort p DefaultReservedPorts = Inr ()" "httpPort \<noteq> httpsPort"
  shows "ValidateTemplateListeners (MigrateTemplateListeners m httpPort httpsPort pol enableDomain enableStream) = Inr () \<and>
    (if enableDomain then map tlName (HostnameRouted (MigrateTemplateListeners m httpPort httpsPort pol enableDomain enableStream)) =
       MigrateDomainBoundListeners m
     else HostnameRouted (MigrateTemplateListeners m httpPort httpsPort pol enableDomain enableStream) = [])"
  unfolding ValidateTemplateListeners_ok
  using assms by (auto simp: ValidateListenerPort_ok MigrateTemplateListeners_def MigrateDomainBoundListeners_def Let_def
      listeners_wf_def listener_ok_def is_range_def HostnameRouted_def)

theorem migration_is_valid_witness:
  "ValidateTemplateListeners (MigrateTemplateListeners ''both'' 80 443 ''terminate'' True True) = Inr ()"
  using migration_is_valid [of True True 80 443 "''both''" "''terminate''"] by (simp add: ValidateListenerPort_ok DefaultReservedPorts_def)

end
