(* ===== verification/DNS.thy ===== *)
theory DNS
  imports Ports Sample
begin

text \<open>
  Managed DNS records: \<open>src/internal/services/dns_record_service.go\<close>, \<open>gateway_address.go\<close> and the
  rows of \<open>src/internal/repository/domain_dns_record_repository.go\<close>.

  The client of a provider (\<open>src/internal/dnsprovider/provider.go\<close>) is the table \<open>dns_provider\<close>; a
  call fails with \<open>ErrDNS\<close> and no effect or does what the interface documents, and names are compared
  as DNS compares them, without case and trailing dot. Building a client from credentials is a
  matter of the SDKs and an argument of the service. A credential that does not decrypt is \<open>Garbage\<close>.

  The retry that \<open>Enable\<close> starts in the background is the operation \<open>deferredRetry\<close> of its own, bounded
  by the number of its polls in three minutes.
\<close>

section \<open>Addresses and types\<close>

record GatewayAddress =
  gaValue :: string
  gaKind :: string

definition address_of :: "string \<Rightarrow> GatewayAddress" where
  "address_of v = \<lparr>gaValue = v, gaKind = (if ParseIP v \<noteq> None then ''ip'' else ''hostname'')\<rparr>"

definition resolveGatewayAddress :: "string list \<Rightarrow> GatewayAddress option" where
  "resolveGatewayAddress addrs = map_option address_of (List.find (\<lambda>v. v \<noteq> []) addrs)"

definition is_ipv4 :: "string \<Rightarrow> bool" where
  "is_ipv4 v = (case ParseIP v of None \<Rightarrow> False | Some a \<Rightarrow> is_To4 a)"

definition is_ipv6 :: "string \<Rightarrow> bool" where
  "is_ipv6 v = (case ParseIP v of None \<Rightarrow> False | Some a \<Rightarrow> \<not> is_To4 a)"

definition recordTypeForAddress :: "GatewayAddress \<Rightarrow> string \<Rightarrow> error + string" where
  "recordTypeForAddress addr forced =
     (let auto = (if gaKind addr = ''ip'' then (if is_ipv6 (gaValue addr) then DNSRecordTypeAAAA else DNSRecordTypeA)
                  else DNSRecordTypeCNAME)
      in if forced = [] \<or> forced = DNSRecordTypeAuto then Inr auto
         else if forced = DNSRecordTypeA then
           (if gaKind addr \<noteq> ''ip'' then Inl (Msg ''record type A requires an IP target, but the gateway address %q is a hostname'')
            else if \<not> is_ipv4 (gaValue addr) then Inl (Msg ''record type A requires an IPv4 target, but the gateway address %q is IPv6'')
            else Inr forced)
         else if forced = DNSRecordTypeAAAA then
           (if gaKind addr \<noteq> ''ip'' then Inl (Msg ''record type AAAA requires an IP target, but the gateway address %q is a hostname'')
            else if \<not> is_ipv6 (gaValue addr) then Inl (Msg ''record type AAAA requires an IPv6 target, but the gateway address %q is IPv4'')
            else Inr forced)
         else if forced = DNSRecordTypeCNAME then
           (if gaKind addr \<noteq> ''hostname'' then Inl (Msg ''record type CNAME requires a hostname target, but the gateway address %q is an IP'')
            else Inr forced)
         else Inl (Msg ''unsupported record type %q (allowed: auto, A, AAAA, CNAME)''))"

definition isValidRecordType :: "string \<Rightarrow> bool" where
  "isValidRecordType rt \<longleftrightarrow> rt \<in> {DNSRecordTypeAuto, DNSRecordTypeA, DNSRecordTypeAAAA, DNSRecordTypeCNAME}"

definition trim_dot :: "string \<Rightarrow> string" where
  "trim_dot s = (if s \<noteq> [] \<and> last s = CHR ''.'' then butlast s else s)"

definition normalizeHostname :: "string \<Rightarrow> string" where
  "normalizeHostname s = ToLower (trim_dot (TrimSpace s))"

text \<open>\<open>nh == nz || strings.HasSuffix(nh, "." + nz)\<close>\<close>

definition in_zone :: "string \<Rightarrow> string \<Rightarrow> bool" where
  "in_zone nh nz \<longleftrightarrow> nh = nz \<or> (let sfx = CHR ''.'' # nz in drop (length nh - length sfx) nh = sfx \<and> length sfx \<le> length nh)"

section \<open>Rows\<close>

text \<open>\<open>domain_id\<close> is unique and both references must exist.\<close>

definition dns_save :: "DomainDNSRecord \<Rightarrow> db \<Rightarrow> error + db" where
  "dns_save r d =
     (if row_get domID (ddrDomainID r) (domains d) = None \<or> row_get hzID (ddrHostedZoneID r) (dns_hosted_zones d) = None then Inl ErrDB
      else if list_ex (\<lambda>x. ddrID x \<noteq> ddrID r \<and> ddrDomainID x = ddrDomainID r) (dns_records d) then Inl ErrDuplicatedKey
      else Inr (d\<lparr>dns_records := row_save ddrID r (dns_records d)\<rparr>))"

definition DNSRepo_Create :: "DomainDNSRecord \<Rightarrow> DomainDNSRecord m" where
  "DNSRepo_Create r = inserts ErrDB (\<lambda>d.
     let r' = r\<lparr>ddrID := next_id d\<rparr> in map_sum id (\<lambda>d'. (r', d'\<lparr>next_id := Suc (next_id d)\<rparr>)) (dns_save r' d))"

definition DNSRepo_Update :: "DomainDNSRecord \<Rightarrow> unit m" where
  "DNSRepo_Update r = updates ErrDB (dns_save r)"

definition DNSRepo_GetByDomainID :: "uuid \<Rightarrow> DomainDNSRecord m" where
  "DNSRepo_GetByDomainID i = query (\<lambda>d. found (List.find (\<lambda>r. ddrDomainID r = i) (dns_records d)))"

definition DNSRepo_DeleteByDomainID :: "uuid \<Rightarrow> unit m" where
  "DNSRepo_DeleteByDomainID i = exec (\<lambda>d. d\<lparr>dns_records := filter (\<lambda>r. ddrDomainID r \<noteq> i) (dns_records d)\<rparr>)"

text \<open>\<open>LOWER(TRIM(TRAILING '.' FROM x))\<close>\<close>

definition sql_hostname :: "string \<Rightarrow> string" where
  "sql_hostname s = ToLower (rev (dropWhile (\<lambda>c. c = CHR ''.'') (rev s)))"

definition HostnameClaimExists :: "string \<Rightarrow> uuid \<Rightarrow> uuid option \<Rightarrow> bool m" where
  "HostnameClaimExists hostname zone ex = query (\<lambda>d. Inr (list_ex (\<lambda>r. ddrHostedZoneID r = zone \<and> Some (ddrDomainID r) \<noteq> ex \<and>
     (case row_get domID (ddrDomainID r) (domains d) of None \<Rightarrow> False
      | Some dm \<Rightarrow> sql_hostname (domHostname dm) = sql_hostname hostname)) (dns_records d)))"

definition DNSRepo_CountByZone :: "uuid \<Rightarrow> nat m" where
  "DNSRepo_CountByZone z = query (\<lambda>d. Inr (length (filter (\<lambda>r. ddrHostedZoneID r = z) (dns_records d))))"

definition ZoneRepo_GetByID :: "uuid \<Rightarrow> DNSHostedZone m" where
  "ZoneRepo_GetByID i = query (\<lambda>d. found (row_get hzID i (dns_hosted_zones d)))"

text \<open>The joined list; a record of a missing zone has an empty zone name.\<close>

definition DNSRepo_ListByProjectID :: "uuid \<Rightarrow> (DomainDNSRecord \<times> string \<times> string) list m" where
  "DNSRepo_ListByProjectID p = query (\<lambda>d. Inr (sort_key (\<lambda>(_, h, _). h) (concat (map (\<lambda>r.
     case row_get domID (ddrDomainID r) (domains d) of
       None \<Rightarrow> []
     | Some dm \<Rightarrow> if domProjectID dm = p
         then [(r, domHostname dm, case row_get hzID (ddrHostedZoneID r) (dns_hosted_zones d) of None \<Rightarrow> [] | Some z \<Rightarrow> hzName z)]
         else []) (dns_records d)))))"

section \<open>The provider\<close>

definition dns_key :: "string \<Rightarrow> string \<Rightarrow> string \<Rightarrow> string \<times> string \<times> string" where
  "dns_key zone name ty = (zone, normalizeHostname name, ty)"

definition provider_lookup :: "string \<times> string \<times> string \<Rightarrow> db \<Rightarrow> DNSRecord option" where
  "provider_lookup k d = map_option snd (row_get fst k (dns_provider d))"

definition provider_put :: "string \<times> string \<times> string \<Rightarrow> DNSRecord \<Rightarrow> db \<Rightarrow> db" where
  "provider_put k r d = d\<lparr>dns_provider := row_save fst (k, r) (dns_provider d)\<rparr>"

definition provider_remove :: "string \<times> string \<times> string \<Rightarrow> db \<Rightarrow> db" where
  "provider_remove k d = d\<lparr>dns_provider := row_delete fst k (dns_provider d)\<rparr>"

interpretation provider: object_store provider_lookup provider_put provider_remove
  by unfold_locales (auto simp: provider_lookup_def provider_put_def provider_remove_def)

definition GetRecord :: "string \<Rightarrow> string \<Rightarrow> string \<Rightarrow> DNSRecord option m" where
  "GetRecord zone name ty = reads ErrDNS (\<lambda>d. Inr (provider_lookup (dns_key zone name ty) d))"

definition RecordExistsForName :: "string \<Rightarrow> string \<Rightarrow> bool m" where
  "RecordExistsForName zone name = reads ErrDNS (\<lambda>d. Inr (list_ex (\<lambda>ty. provider_lookup (dns_key zone name ty) d \<noteq> None)
     [DNSRecordTypeA, DNSRecordTypeAAAA, DNSRecordTypeCNAME]))"

definition UpsertRecord :: "string \<Rightarrow> string \<Rightarrow> string \<Rightarrow> DNSRecord \<Rightarrow> unit m" where
  "UpsertRecord zone name ty r = writes ErrDNS (provider_put (dns_key zone name ty) r)"

definition DeleteRecord :: "string \<Rightarrow> string \<Rightarrow> string \<Rightarrow> unit m" where
  "DeleteRecord zone name ty = writes ErrDNS (provider_remove (dns_key zone name ty))"

section \<open>The service\<close>

record DNSRecordService =
  drsNewClient :: "string \<Rightarrow> (string \<times> string) list \<Rightarrow> check"

record DNSRecordInput =
  driHostedZoneID :: "uuid option"
  driRecordType :: string
  driTTL :: "int option"
  driProxied :: bool

definition DecryptedCredentials :: "uuid \<Rightarrow> (string \<times> (string \<times> string) list) m" where
  "DecryptedCredentials i = query (\<lambda>d. case row_get dpcID i (dns_credentials d) of
     None \<Rightarrow> Inl ErrRecordNotFound
   | Some c \<Rightarrow> (case dpcCredentials c of Doc cr \<Rightarrow> Inr (dpcProviderType c, cr) | Garbage \<Rightarrow> Inl (Msg ''decrypt'')))"

definition dnsProviders :: "string list" where
  "dnsProviders = [''cloudflare'', ''google'', ''route53'']"

text \<open>Credentials, provider and client of a zone; the result is the provider's type.\<close>

definition zone_client :: "DNSRecordService \<Rightarrow> DNSHostedZone \<Rightarrow> string m" where
  "zone_client svc zone =
     bind (DecryptedCredentials (hzProviderCredentialID zone)) (\<lambda>(providerType, creds).
     bind (require (providerType \<in> set dnsProviders) (Msg ''unsupported DNS provider %q'')) (\<lambda>_.
     bind (lift_check (drsNewClient svc providerType creds)) (\<lambda>_. ret providerType)))"

definition CheckCollision :: "DNSRecordService \<Rightarrow> string \<Rightarrow> uuid \<Rightarrow> uuid option \<Rightarrow> unit m" where
  "CheckCollision svc hostname zoneID excludeDomainID =
     bind (ZoneRepo_GetByID zoneID) (\<lambda>zone.
     let nh = normalizeHostname hostname; nz = normalizeHostname (hzName zone)
     in bind (require (in_zone nh nz) ErrHostedZoneMismatch) (\<lambda>_.
        bind (HostnameClaimExists hostname zoneID excludeDomainID) (\<lambda>claimed.
        bind (require (\<not> claimed) ErrHostnameClaimed) (\<lambda>_.
        bind (or_error (Wrap ''%w: %v'' ErrDNSProviderUnavailable) (zone_client svc zone)) (\<lambda>_.
        bind (or_error (Wrap ''%w: %v'' ErrDNSProviderUnavailable) (RecordExistsForName (hzProviderZoneID zone) nh)) (\<lambda>exists.
        require (\<not> exists) ErrForeignRecordExists))))))"

definition assertDomainInProject :: "uuid \<Rightarrow> uuid \<Rightarrow> unit m" where
  "assertDomainInProject domainID projectID =
     bind (DomainRepo_GetByID domainID) (\<lambda>dm. require (domProjectID dm = projectID) ErrDomainNotFound)"

text \<open>A status is recorded with the error of the write discarded; \<open>reconcile\<close> returns the record it mutates.\<close>

definition record_dns_status :: "DNSRecordStatus \<Rightarrow> string \<Rightarrow> DomainDNSRecord \<Rightarrow> DomainDNSRecord m" where
  "record_dns_status status message rec =
     (let rec' = rec\<lparr>ddrStatus := status, ddrStatusMessage := message\<rparr>
      in bind (attempt (DNSRepo_Update rec')) (\<lambda>_. ret rec'))"

abbreviation dns_err :: "string \<Rightarrow> DomainDNSRecord \<Rightarrow> DomainDNSRecord m" where
  "dns_err \<equiv> record_dns_status DNSRecordStatusError"

abbreviation dns_pending :: "string \<Rightarrow> DomainDNSRecord \<Rightarrow> DomainDNSRecord m" where
  "dns_pending \<equiv> record_dns_status DNSRecordStatusPending"

definition gateway_status :: "string \<Rightarrow> string list m" where
  "gateway_status name = reads ErrK8s (\<lambda>d. case row_get fst name (gateway_addresses d) of None \<Rightarrow> Inl ErrK8sNotFound | Some (_, as) \<Rightarrow> Inr as)"

text \<open>The write at the provider, once the address and the type are known; the clobber check guards the first write only.\<close>

definition write_record :: "DNSRecordService \<Rightarrow> DNSHostedZone \<Rightarrow> Domain \<Rightarrow> GatewayAddress \<Rightarrow> string \<Rightarrow> DomainDNSRecord \<Rightarrow> DomainDNSRecord m" where
  "write_record svc zone domain addr rt rec =
     bind (attempt (zone_client svc zone)) (\<lambda>r. case r of
       Inl e \<Rightarrow> dns_err ''%v'' rec
     | Inr providerType \<Rightarrow>
       bind (if ddrResolvedTarget rec = []
             then bind (attempt (GetRecord (hzProviderZoneID zone) (domHostname domain) rt)) (\<lambda>g. ret (case g of
               Inl e \<Rightarrow> Some ''%v'' | Inr (Some _) \<Rightarrow> Some ''a record already exists for %s not managed by FastGateway'' | Inr None \<Rightarrow> None))
             else ret None) (\<lambda>refused. case refused of
         Some msg \<Rightarrow> dns_err msg rec
       | None \<Rightarrow>
         let proxied = (ddrProxied rec \<and> providerType = ''cloudflare'')
         in bind (attempt (UpsertRecord (hzProviderZoneID zone) (domHostname domain) rt
              \<lparr>recTarget = gaValue addr, recTTL = (if proxied then None else ddrTTL rec), recProxied = proxied\<rparr>)) (\<lambda>u. case u of
              Inl e \<Rightarrow> dns_err ''%v'' rec
            | Inr _ \<Rightarrow> record_dns_status DNSRecordStatusReady ''record written'' (rec\<lparr>ddrResolvedTarget := gaValue addr\<rparr>))))"

definition reconcile :: "DNSRecordService \<Rightarrow> DomainDNSRecord \<Rightarrow> DomainDNSRecord m" where
  "reconcile svc rec =
     bind (attempt (DomainRepo_GetByID (ddrDomainID rec))) (\<lambda>r. case r of
       Inl _ \<Rightarrow> dns_err ''domain not found'' rec
     | Inr domain \<Rightarrow>
       bind (attempt (ZoneRepo_GetByID (ddrHostedZoneID rec))) (\<lambda>r. case r of
         Inl _ \<Rightarrow> dns_err ''hosted zone not found'' rec
       | Inr zone \<Rightarrow>
         if \<not> in_zone (normalizeHostname (domHostname domain)) (normalizeHostname (hzName zone))
         then dns_err ''the domain hostname is not contained in its hosted zone'' rec
         else bind (attempt (gateway_status (domK8sGatewayName domain))) (\<lambda>g. case g of
             Inl _ \<Rightarrow> dns_pending ''waiting for the gateway'' rec
           | Inr addrs \<Rightarrow> (case resolveGatewayAddress addrs of
               None \<Rightarrow> dns_pending ''waiting for the gateway load-balancer address'' rec
             | Some addr \<Rightarrow> (case recordTypeForAddress addr (ddrRecordType rec) of
                 Inl e \<Rightarrow> dns_err ''%v'' rec
               | Inr rt \<Rightarrow>
                   if rt = DNSRecordTypeCNAME \<and> normalizeHostname (domHostname domain) = normalizeHostname (hzName zone)
                   then dns_err ''CNAME at a zone apex isn't supported; use an IP gateway or a subdomain'' rec
                   else write_record svc zone domain addr rt rec)))))"

text \<open>\<open>for i := 0; i < 5 && rec.Status == pending; i++\<close>\<close>

fun poll_pending :: "nat \<Rightarrow> DNSRecordService \<Rightarrow> DomainDNSRecord \<Rightarrow> DomainDNSRecord m" where
  "poll_pending 0 svc rec = ret rec"
| "poll_pending (Suc n) svc rec =
     (if ddrStatus rec = DNSRecordStatusPending then bind (reconcile svc rec) (poll_pending n svc) else ret rec)"

fun deferredRetry :: "nat \<Rightarrow> DNSRecordService \<Rightarrow> uuid \<Rightarrow> unit m" where
  "deferredRetry 0 svc domainID = ret ()"
| "deferredRetry (Suc n) svc domainID =
     bind (attempt (DNSRepo_GetByDomainID domainID)) (\<lambda>r. case r of
       Inl _ \<Rightarrow> ret ()
     | Inr rec \<Rightarrow> if ddrStatus rec \<noteq> DNSRecordStatusPending then ret ()
         else bind (reconcile svc rec) (\<lambda>rec'.
           if ddrStatus rec' = DNSRecordStatusPending then deferredRetry n svc domainID else ret ()))"

definition Enable :: "DNSRecordService \<Rightarrow> uuid \<Rightarrow> uuid \<Rightarrow> uuid \<Rightarrow> DNSRecordInput \<Rightarrow> DomainDNSRecord m" where
  "Enable svc domainID projectID createdBy inp =
     bind (assertDomainInProject domainID projectID) (\<lambda>_.
     case driHostedZoneID inp of
       None \<Rightarrow> throw ErrNoHostedZone
     | Some zoneID \<Rightarrow>
       bind (attempt (DNSRepo_GetByDomainID domainID)) (\<lambda>r. case r of
         Inr _ \<Rightarrow> throw ErrDNSRecordExists
       | Inl e \<Rightarrow> if \<not> errors_Is e ErrRecordNotFound then throw e
         else let rt = (if driRecordType inp = [] then DNSRecordTypeAuto else driRecordType inp)
           in bind (require (isValidRecordType rt) ErrInvalidRecordType) (\<lambda>_.
              bind (DomainRepo_GetByID domainID) (\<lambda>domain.
              bind (CheckCollision svc (domHostname domain) zoneID (Some domainID)) (\<lambda>_.
              bind (DNSRepo_Create \<lparr>ddrID = 0, ddrDomainID = domainID, ddrHostedZoneID = zoneID, ddrRecordType = rt,
                  ddrTTL = driTTL inp, ddrProxied = driProxied inp, ddrResolvedTarget = [], ddrStatus = DNSRecordStatusPending,
                  ddrStatusMessage = [], ddrCreatedBy = createdBy\<rparr>) (\<lambda>rec.
              bind (reconcile svc rec) (poll_pending 5 svc)))))))"

definition gatewayAddressDrifted :: "DomainDNSRecord \<Rightarrow> bool m" where
  "gatewayAddressDrifted rec =
     bind (attempt (DomainRepo_GetByID (ddrDomainID rec))) (\<lambda>r. case r of
       Inl _ \<Rightarrow> ret False
     | Inr domain \<Rightarrow> bind (attempt (gateway_status (domK8sGatewayName domain))) (\<lambda>g. ret (case g of
         Inl _ \<Rightarrow> False
       | Inr addrs \<Rightarrow> (case resolveGatewayAddress addrs of None \<Rightarrow> False | Some addr \<Rightarrow> gaValue addr \<noteq> ddrResolvedTarget rec))))"

definition dns_Get :: "DNSRecordService \<Rightarrow> uuid \<Rightarrow> uuid \<Rightarrow> DomainDNSRecord m" where
  "dns_Get svc domainID projectID =
     bind (assertDomainInProject domainID projectID) (\<lambda>_.
     bind (DNSRepo_GetByDomainID domainID) (\<lambda>rec.
     if ddrStatus rec = DNSRecordStatusPending then reconcile svc rec
     else bind (gatewayAddressDrifted rec) (\<lambda>drifted. if drifted then reconcile svc rec else ret rec)))"

definition dns_List :: "uuid \<Rightarrow> (DomainDNSRecord \<times> string \<times> string) list m" where
  "dns_List p = DNSRepo_ListByProjectID p"

definition dns_Update :: "DNSRecordService \<Rightarrow> uuid \<Rightarrow> uuid \<Rightarrow> DNSRecordInput \<Rightarrow> DomainDNSRecord m" where
  "dns_Update svc domainID projectID inp =
     bind (assertDomainInProject domainID projectID) (\<lambda>_.
     bind (DNSRepo_GetByDomainID domainID) (\<lambda>rec.
     bind (require (driRecordType inp = [] \<or> isValidRecordType (driRecordType inp)) ErrInvalidRecordType) (\<lambda>_.
     let rec' = rec\<lparr>ddrRecordType := (if driRecordType inp = [] then ddrRecordType rec else driRecordType inp),
           ddrTTL := driTTL inp, ddrProxied := driProxied inp\<rparr>
     in bind (DNSRepo_Update rec') (\<lambda>_. reconcile svc rec'))))"

definition dns_Delete :: "DNSRecordService \<Rightarrow> uuid \<Rightarrow> uuid \<Rightarrow> unit m" where
  "dns_Delete svc domainID projectID =
     bind (assertDomainInProject domainID projectID) (\<lambda>_.
     bind (attempt (DNSRepo_GetByDomainID domainID)) (\<lambda>r. case r of
       Inl e \<Rightarrow> if errors_Is e ErrRecordNotFound then ret () else throw e
     | Inr rec \<Rightarrow>
       if ddrResolvedTarget rec = [] then DNSRepo_DeleteByDomainID domainID
       else bind (DomainRepo_GetByID (ddrDomainID rec)) (\<lambda>domain.
         bind (ZoneRepo_GetByID (ddrHostedZoneID rec)) (\<lambda>zone.
         bind (zone_client svc zone) (\<lambda>_.
         case recordTypeForAddress (address_of (ddrResolvedTarget rec)) (ddrRecordType rec) of
           Inl e \<Rightarrow> throw e
         | Inr rt \<Rightarrow> bind (DeleteRecord (hzProviderZoneID zone) (domHostname domain) rt) (\<lambda>_. DNSRepo_DeleteByDomainID domainID))))))"

section \<open>The frame\<close>

text \<open>The service writes its own table, the provider and new keys.\<close>

definition dns_frame :: "db \<Rightarrow> db \<Rightarrow> bool" where
  "dns_frame d0 d \<longleftrightarrow> (\<exists>n r p. d = d0\<lparr>next_id := n, dns_records := r, dns_provider := p\<rparr> \<and> next_id d0 \<le> n)"

lemma dns_frame_refl [simp]: "dns_frame d d"
  unfolding dns_frame_def by (rule exI [of _ "next_id d"], rule exI [of _ "dns_records d"], rule exI [of _ "dns_provider d"]) simp

lemma dns_frame_step:
  "dns_frame d0 d \<Longrightarrow> dns_frame d0 (d\<lparr>dns_records := r\<rparr>)" "dns_frame d0 d \<Longrightarrow> dns_frame d0 (provider_put k x d)"
  "dns_frame d0 d \<Longrightarrow> dns_frame d0 (provider_remove k d)"
  "dns_frame d0 d \<Longrightarrow> dns_frame d0 (d\<lparr>dns_records := r, next_id := Suc (next_id d)\<rparr>)"
  unfolding dns_frame_def provider_put_def provider_remove_def by (cases d0; force)+

lemma dns_save_Inr: "dns_save r d = Inr d' \<Longrightarrow> d' = d\<lparr>dns_records := row_save ddrID r (dns_records d)\<rparr>"
  by (simp add: dns_save_def split: if_splits)

lemma keeps_frame_DNSRepo:
  "keeps (dns_frame d0) (DNSRepo_Create r)" "keeps (dns_frame d0) (DNSRepo_Update r)" "keeps (dns_frame d0) (DNSRepo_DeleteByDomainID i)"
  unfolding DNSRepo_Create_def DNSRepo_Update_def DNSRepo_DeleteByDomainID_def
  by (auto simp: Let_def map_sum_Inr_iff intro!: keeps_inserts keeps_updates keeps_exec dns_frame_step dest!: dns_save_Inr)

lemma keeps_zone_client: "keeps I (zone_client svc z)"
  unfolding zone_client_def DecryptedCredentials_def by (auto simp: case_prod_beta intro!: keeps_bind)

lemma keeps_frame_reconcile: "keeps (dns_frame d0) (reconcile svc rec)"
  unfolding reconcile_def write_record_def record_dns_status_def Let_def DomainRepo_GetByID_def ZoneRepo_GetByID_def
    gateway_status_def GetRecord_def UpsertRecord_def
  by (intro keeps_bind keeps_attempt keeps_case_sum keeps_case_option keeps_if keeps_ret keeps_frame_DNSRepo keeps_query keeps_reads
      keeps_writes keeps_zone_client dns_frame_step)

lemma keeps_frame_poll: "keeps (dns_frame d0) (poll_pending n svc rec)"
  by (induction n arbitrary: rec) (auto intro!: keeps_bind keeps_frame_reconcile)

lemma keeps_frame_CheckCollision: "keeps I (CheckCollision svc h z ex)"
  unfolding CheckCollision_def Let_def ZoneRepo_GetByID_def HostnameClaimExists_def RecordExistsForName_def
  by (intro keeps_bind keeps_query keeps_require keeps_or_error keeps_zone_client keeps_reads)

lemma keeps_frame_Enable: "keeps (dns_frame d0) (Enable svc i p u inp)"
  unfolding Enable_def assertDomainInProject_def Let_def DomainRepo_GetByID_def DNSRepo_GetByDomainID_def
  by (intro keeps_bind keeps_query keeps_require keeps_case_option keeps_throw keeps_attempt keeps_case_sum keeps_if
      keeps_frame_CheckCollision keeps_frame_DNSRepo keeps_frame_reconcile keeps_frame_poll)

lemma keeps_frame_Delete: "keeps (dns_frame d0) (dns_Delete svc i p)"
  unfolding dns_Delete_def assertDomainInProject_def DomainRepo_GetByID_def DNSRepo_GetByDomainID_def ZoneRepo_GetByID_def DeleteRecord_def
  by (intro keeps_bind keeps_query keeps_require keeps_ret keeps_throw keeps_attempt keeps_case_sum keeps_if
      keeps_frame_DNSRepo keeps_zone_client keeps_writes dns_frame_step)

section \<open>What a reconcile writes\<close>

definition written_type :: "string \<Rightarrow> string" where
  "written_type v = (if is_ipv6 v then DNSRecordTypeAAAA else if is_ipv4 v then DNSRecordTypeA else DNSRecordTypeCNAME)"

lemmas record_types = DNSRecordTypeAuto_def DNSRecordTypeA_def DNSRecordTypeAAAA_def DNSRecordTypeCNAME_def

lemma forced_type: "recordTypeForAddress (address_of v) forced = Inr rt \<Longrightarrow> rt = written_type v"
  by (auto simp: recordTypeForAddress_def Let_def address_of_def written_type_def is_ipv4_def is_ipv6_def record_types split: if_splits option.splits)

lemma resolve_address: "resolveGatewayAddress addrs = Some addr \<Longrightarrow> \<exists>v. addr = address_of v \<and> v \<noteq> []"
  by (auto simp: resolveGatewayAddress_def find_Some_iff)

lemma gaValue_address [simp]: "gaValue (address_of v) = v"
  by (simp add: address_of_def)

definition reconciled :: "db \<Rightarrow> DomainDNSRecord \<Rightarrow> DomainDNSRecord \<Rightarrow> db \<Rightarrow> bool" where
  "reconciled d0 rec rec' d \<longleftrightarrow>
     (if ddrStatus rec' = DNSRecordStatusReady
      then ddrResolvedTarget rec' \<noteq> [] \<and> (\<exists>dm z r. row_get domID (ddrDomainID rec) (domains d0) = Some dm \<and>
        row_get hzID (ddrHostedZoneID rec) (dns_hosted_zones d0) = Some z \<and>
        in_zone (normalizeHostname (domHostname dm)) (normalizeHostname (hzName z)) \<and>
        (let rt = written_type (ddrResolvedTarget rec'); k = dns_key (hzProviderZoneID z) (domHostname dm) rt
         in (rt = DNSRecordTypeCNAME \<longrightarrow> normalizeHostname (domHostname dm) \<noteq> normalizeHostname (hzName z)) \<and>
            (ddrResolvedTarget rec = [] \<longrightarrow> provider_lookup k d0 = None) \<and>
            recTarget r = ddrResolvedTarget rec' \<and> dns_provider d = dns_provider (provider_put k r d0)))
      else dns_provider d = dns_provider d0 \<and> ddrResolvedTarget rec' = ddrResolvedTarget rec)"

lemma hoare_dns_record_status:
  "hoare (\<lambda>d. d = d0) (record_dns_status st msg rec)
     (\<lambda>rec' d. rec' = rec\<lparr>ddrStatus := st, ddrStatusMessage := msg\<rparr> \<and> dns_provider d = dns_provider d0) (\<lambda>_ _. False)"
  unfolding record_dns_status_def Let_def DNSRepo_Update_def
  by (rule hoare_pre, (rule wp)+) (auto dest!: dns_save_Inr)

lemma hoare_zone_client: "hoare (\<lambda>d. d = d0) (zone_client svc z) (\<lambda>_ d. d = d0 \<and> True) (\<lambda>_ d. d = d0)"
  using keeps_hoare [OF keeps_zone_client [of "\<lambda>d. d = d0" svc z]] by simp

definition record_written :: "db \<Rightarrow> string \<times> string \<times> string \<Rightarrow> string \<Rightarrow> DomainDNSRecord \<Rightarrow> DomainDNSRecord \<Rightarrow> db \<Rightarrow> bool" where
  "record_written d0 k v rec rec' d \<longleftrightarrow>
     (if ddrStatus rec' = DNSRecordStatusReady
      then ddrResolvedTarget rec' = v \<and> (ddrResolvedTarget rec = [] \<longrightarrow> provider_lookup k d0 = None) \<and>
        (\<exists>r. recTarget r = v \<and> dns_provider d = dns_provider (provider_put k r d0))
      else dns_provider d = dns_provider d0 \<and> ddrResolvedTarget rec' = ddrResolvedTarget rec)"

lemma written_record:
  "\<exists>r. recTarget r = v \<and> dns_provider (provider_put k \<lparr>recTarget = v, recTTL = t, recProxied = p\<rparr> d) = dns_provider (provider_put k r d)"
  by (rule exI [of _ "\<lparr>recTarget = v, recTTL = t, recProxied = p\<rparr>"]) simp

lemma hoare_write_record:
  "hoare (\<lambda>d. d = d0) (write_record svc z dm addr rt rec)
     (\<lambda>rec' d. record_written d0 (dns_key (hzProviderZoneID z) (domHostname dm) rt) (gaValue addr) rec rec' d) (\<lambda>_ _. False)"
  unfolding write_record_def Let_def GetRecord_def UpsertRecord_def
  by (rule hoare_pre, (rule hoare_spec [OF hoare_dns_record_status] hoare_readonly [OF hoare_zone_client] | rule wp)+)
    (auto simp: record_written_def intro!: written_record split: option.splits sum.splits)

lemma reconciledI:
  assumes "row_get domID (ddrDomainID rec) (domains d0) = Some dm" "row_get hzID (ddrHostedZoneID rec) (dns_hosted_zones d0) = Some z"
    "in_zone (normalizeHostname (domHostname dm)) (normalizeHostname (hzName z))"
    "resolveGatewayAddress addrs = Some addr" "recordTypeForAddress addr (ddrRecordType rec) = Inr rt"
    "rt = DNSRecordTypeCNAME \<longrightarrow> normalizeHostname (domHostname dm) \<noteq> normalizeHostname (hzName z)"
    "record_written d0 (dns_key (hzProviderZoneID z) (domHostname dm) rt) (gaValue addr) rec rec' d"
  shows "reconciled d0 rec rec' d"
proof -
  obtain v where v: "addr = address_of v" "v \<noteq> []" using resolve_address [OF assms(4)] by auto
  then have "rt = written_type v" using forced_type assms(5) by simp
  then show ?thesis using assms v by (auto simp: reconciled_def record_written_def Let_def)
qed

lemma reconciled_unchanged:
  "st \<noteq> DNSRecordStatusReady \<Longrightarrow> dns_provider d = dns_provider d0 \<Longrightarrow> reconciled d0 rec (rec\<lparr>ddrStatus := st, ddrStatusMessage := msg\<rparr>) d"
  by (simp add: reconciled_def)

lemma hoare_reconcile: "hoare (\<lambda>d. d = d0) (reconcile svc rec) (\<lambda>rec' d. reconciled d0 rec rec' d) (\<lambda>_ _. False)"
  unfolding reconcile_def DomainRepo_GetByID_def ZoneRepo_GetByID_def gateway_status_def
  by (rule hoare_pre, (rule hoare_spec [OF hoare_dns_record_status] hoare_spec [OF hoare_write_record] | rule wp)+)
    (auto simp: found_Inr split: sum.splits option.splits intro!: reconciled_unchanged intro: reconciledI)

section \<open>Records of others\<close>

definition foreign_kept :: "db \<Rightarrow> db \<Rightarrow> bool" where
  "foreign_kept d0 d \<longleftrightarrow> (\<forall>k r. provider_lookup k d0 = Some r \<longrightarrow> provider_lookup k d = Some r)"

lemma foreign_kept_refl [simp]: "foreign_kept d d"
  by (simp add: foreign_kept_def)

lemma provider_frame: "dns_provider d' = dns_provider d \<Longrightarrow> provider_lookup k d' = provider_lookup k d"
  by (simp add: provider_lookup_def)

lemma reconciled_first:
  assumes "reconciled d0 rec rec' d" "ddrResolvedTarget rec = []"
  shows "foreign_kept d0 d \<and> (ddrStatus rec' \<noteq> DNSRecordStatusReady \<longrightarrow> ddrResolvedTarget rec' = [])"
proof (cases "ddrStatus rec' = DNSRecordStatusReady")
  case True
  then obtain k r where "provider_lookup k d0 = None" "dns_provider d = dns_provider (provider_put k r d0)"
    using assms by (auto simp: reconciled_def dns_key_def Let_def)
  then show ?thesis using True provider_frame [of d "provider_put k r d0"] by (auto simp: foreign_kept_def provider.lookup_put)
next
  case False
  then have "dns_provider d = dns_provider d0" "ddrResolvedTarget rec' = []" using assms by (auto simp: reconciled_def)
  then show ?thesis using provider_frame [of d d0] by (simp add: foreign_kept_def)
qed

text \<open>While a record has not been written it stays unwritten, and the provider's records stay.\<close>

lemma hoare_reconcile_first:
  "ddrResolvedTarget rec = [] \<Longrightarrow> hoare (foreign_kept d0) (reconcile svc rec)
     (\<lambda>rec' d. foreign_kept d0 d \<and> (ddrStatus rec' \<noteq> DNSRecordStatusReady \<longrightarrow> ddrResolvedTarget rec' = [])) (\<lambda>_ _. False)"
  by (rule hoare_state, rule hoare_post [OF hoare_reconcile]) (auto dest!: reconciled_first simp: foreign_kept_def)

lemma hoare_poll_first:
  "hoare (\<lambda>d. foreign_kept d0 d \<and> (ddrStatus rec \<noteq> DNSRecordStatusReady \<longrightarrow> ddrResolvedTarget rec = [])) (poll_pending n svc rec)
     (\<lambda>_ d. foreign_kept d0 d) (\<lambda>_ _. False)"
proof (induction n arbitrary: rec)
  case 0
  show ?case unfolding poll_pending.simps by (rule hoare_pre [OF hoare_ret]) auto
next
  case (Suc n)
  show ?case
  proof (cases "ddrStatus rec = DNSRecordStatusPending")
    case True
    show ?thesis
    proof (cases "ddrResolvedTarget rec = []")
      case empty: True
      show ?thesis unfolding poll_pending.simps if_P [OF True]
        by (rule hoare_bind [OF Suc], rule hoare_pre [OF hoare_reconcile_first [OF empty]]) simp
    qed (rule hoare_pre [OF hoare_False], use True in simp)
  next
    case False
    show ?thesis unfolding poll_pending.simps if_not_P [OF False] by (rule hoare_pre [OF hoare_ret]) auto
  qed
qed

lemma hoare_CheckCollision: "hoare (\<lambda>d. d = d0) (CheckCollision svc h z ex) (\<lambda>_ d. d = d0 \<and> True) (\<lambda>_ d. d = d0)"
  using keeps_hoare [OF keeps_frame_CheckCollision [of "\<lambda>d. d = d0" svc h z ex]] by simp

lemma hoare_Enable: "hoare (\<lambda>d. d = d0) (Enable svc i p u inp) (\<lambda>_ d. foreign_kept d0 d) (\<lambda>_ d. foreign_kept d0 d)"
proof -
  have r: "hoare (foreign_kept d0) (bind (reconcile svc rec) (poll_pending 5 svc)) (\<lambda>_ d. foreign_kept d0 d) (\<lambda>_ d. foreign_kept d0 d)"
    if "ddrResolvedTarget rec = []" for rec
    by (rule hoare_bind [OF hoare_post [OF hoare_poll_first] hoare_post [OF hoare_reconcile_first [OF that]]]) auto
  have c: "hoare (\<lambda>d. d = d1) (DNSRepo_Create rec) (\<lambda>rec' d. ddrResolvedTarget rec' = ddrResolvedTarget rec \<and> foreign_kept d1 d) (\<lambda>_ d. d = d1)" for rec d1
    unfolding DNSRepo_Create_def
    by (rule hoare_pre, (rule wp)+) (auto simp: Let_def map_sum_Inr_iff foreign_kept_def provider_lookup_def dest!: dns_save_Inr)
  have rc: "hoare (\<lambda>d. d = d0) (bind (DNSRepo_Create rec) (\<lambda>rec. bind (reconcile svc rec) (poll_pending 5 svc)))
      (\<lambda>_ d. foreign_kept d0 d) (\<lambda>_ d. foreign_kept d0 d)" if "ddrResolvedTarget rec = []" for rec
  proof (rule hoare_bind)
    show "hoare (\<lambda>d. d = d0) (DNSRepo_Create rec) (\<lambda>rec' d. ddrResolvedTarget rec' = [] \<and> foreign_kept d0 d) (\<lambda>_ d. foreign_kept d0 d)"
      using that by (intro hoare_post [OF c]) auto
    show "hoare (\<lambda>d. ddrResolvedTarget rec' = [] \<and> foreign_kept d0 d) (bind (reconcile svc rec') (poll_pending 5 svc))
        (\<lambda>_ d. foreign_kept d0 d) (\<lambda>_ d. foreign_kept d0 d)" for rec'
      by (cases "ddrResolvedTarget rec' = []") (auto intro: hoare_pre [OF r] hoare_pre [OF hoare_False])
  qed
  show ?thesis
    unfolding Enable_def assertDomainInProject_def Let_def DomainRepo_GetByID_def DNSRepo_GetByDomainID_def
    by (rule hoare_pre, (rule rc [OF DomainDNSRecord.select_convs(7)] hoare_readonly [OF hoare_CheckCollision] | rule wp)+)
      (auto split: option.splits sum.splits)
qed

section \<open>Deleting\<close>

definition record_key :: "db \<Rightarrow> DomainDNSRecord \<Rightarrow> (string \<times> string \<times> string) option" where
  "record_key d rec = (case (row_get domID (ddrDomainID rec) (domains d), row_get hzID (ddrHostedZoneID rec) (dns_hosted_zones d)) of
     (Some dm, Some z) \<Rightarrow> Some (dns_key (hzProviderZoneID z) (domHostname dm) (written_type (ddrResolvedTarget rec))) | _ \<Rightarrow> None)"

lemma hoare_dns_Delete:
  "hoare (\<lambda>d. d = d0) (dns_Delete svc i p)
     (\<lambda>_ d. dns_records d = filter (\<lambda>r. ddrDomainID r \<noteq> i) (dns_records d0) \<and>
        (case List.find (\<lambda>r. ddrDomainID r = i) (dns_records d0) of
           None \<Rightarrow> dns_provider d = dns_provider d0
         | Some rec \<Rightarrow> if ddrResolvedTarget rec = [] then dns_provider d = dns_provider d0
             else record_key d0 rec \<noteq> None \<and> dns_provider d = dns_provider (provider_remove (the (record_key d0 rec)) d0)) \<and>
        (\<exists>dm. row_get domID i (domains d0) = Some dm \<and> domProjectID dm = p))
     (\<lambda>_ d. dns_records d = dns_records d0)"
  unfolding dns_Delete_def assertDomainInProject_def DomainRepo_GetByID_def DNSRepo_GetByDomainID_def ZoneRepo_GetByID_def
    DeleteRecord_def DNSRepo_DeleteByDomainID_def
  by (rule hoare_pre, (rule hoare_readonly [OF hoare_zone_client] | rule wp)+)
    (auto simp: found_def record_key_def dns_key_def provider_remove_def find_None_iff intro!: filter_True [symmetric]
      dest!: forced_type split: option.splits sum.splits)

section \<open>The interface domains rely on\<close>

text \<open>\<open>DNSRecordManager\<close> of \<open>domain_service.go\<close>: a manager may write DNS rows and provider records and nothing else.\<close>

locale dns_manager =
  fixes enable :: "uuid \<Rightarrow> uuid \<Rightarrow> uuid \<Rightarrow> DNSRecordInput \<Rightarrow> DomainDNSRecord m"
    and remove :: "uuid \<Rightarrow> uuid \<Rightarrow> unit m"
    and collision :: "string \<Rightarrow> uuid \<Rightarrow> uuid option \<Rightarrow> unit m"
  assumes enable_frame: "keeps (dns_frame d0) (enable i p u inp)"
    and remove_frame: "keeps (dns_frame d0) (remove i p)"
    and collision_reads: "keeps (\<lambda>d. d = d0) (collision h z ex)"
begin

lemma enable_spec: "hoare (\<lambda>d. d = d0) (enable i p u inp) (\<lambda>_ d. dns_frame d0 d) (\<lambda>_ d. dns_frame d0 d)"
  by (rule hoare_pre [OF keeps_hoare [OF enable_frame]]) auto

lemma remove_spec: "hoare (\<lambda>d. d = d0) (remove i p) (\<lambda>_ d. dns_frame d0 d) (\<lambda>_ d. dns_frame d0 d)"
  by (rule hoare_pre [OF keeps_hoare [OF remove_frame]]) auto

text \<open>An invariant that does not look at the DNS tables survives every call.\<close>

lemma manager_keeps:
  assumes "\<And>d d'. I d \<Longrightarrow> dns_frame d d' \<Longrightarrow> I d'"
  shows "keeps I (enable i p u inp)" "keeps I (remove i p)" "keeps I (collision h z ex)"
proof -
  show "keeps I (enable i p u inp)" "keeps I (remove i p)"
    unfolding keeps_def by (rule hoare_state, rule hoare_post [OF enable_spec], auto intro: assms)
      (rule hoare_state, rule hoare_post [OF remove_spec], auto intro: assms)
  show "keeps I (collision h z ex)"
    unfolding keeps_def by (rule hoare_state, rule hoare_post [OF keeps_hoare [OF collision_reads]]) auto
qed

end

interpretation dns: dns_manager "Enable svc" "dns_Delete svc" "CheckCollision svc" for svc
  by unfold_locales (rule keeps_frame_Enable keeps_frame_Delete keeps_frame_CheckCollision)+

section \<open>Properties\<close>

definition sample_dns :: "string list \<Rightarrow> db" where
  "sample_dns addrs = sample_store\<lparr>domains := [sample_domain\<lparr>domHostname := ''a.io'', domK8sGatewayName := ''a-io''\<rparr>],
     dns_hosted_zones := [\<lparr>hzID = 14, hzName = ''io'', hzProviderCredentialID = 15, hzProviderZoneID = ''Z''\<rparr>],
     dns_credentials := [\<lparr>dpcID = 15, dpcProviderType = ''route53'', dpcCredentials = Doc []\<rparr>],
     gateway_addresses := [(''a-io'', addrs)],
     dns_provider := [((''Z'', ''b.io'', ''A''), \<lparr>recTarget = ''1.1.1.1'', recTTL = None, recProxied = False\<rparr>)]\<rparr>"

definition sample_dns_svc :: DNSRecordService where
  "sample_dns_svc = \<lparr>drsNewClient = (\<lambda>_ _. Inr ())\<rparr>"

definition sample_enable :: "string list \<Rightarrow> (error + DomainDNSRecord) \<times> (db \<times> bool list)" where
  "sample_enable addrs = Enable sample_dns_svc (domID sample_domain) 1 7
     \<lparr>driHostedZoneID = Some 14, driRecordType = [], driTTL = None, driProxied = False\<rparr> (sample_dns addrs, [])"



text \<open>A reconcile that returns a ready record has written, for a hostname within its zone, exactly one record, whose type
  the gateway address determines and which points at that address, never a CNAME at the apex; any other outcome leaves the
  provider as it was.\<close>

theorem reconcile_writes_the_address:
  assumes "reconcile svc rec (d, fs) = (res, (d', fs'))"
  shows "case res of Inl _ \<Rightarrow> False | Inr rec' \<Rightarrow>
    if ddrStatus rec' = DNSRecordStatusReady
    then \<exists>dm z r k. row_get domID (ddrDomainID rec) (domains d) = Some dm \<and> row_get hzID (ddrHostedZoneID rec) (dns_hosted_zones d) = Some z \<and>
      in_zone (normalizeHostname (domHostname dm)) (normalizeHostname (hzName z)) \<and>
      k = dns_key (hzProviderZoneID z) (domHostname dm) (written_type (ddrResolvedTarget rec')) \<and>
      \<not> (written_type (ddrResolvedTarget rec') = DNSRecordTypeCNAME \<and> normalizeHostname (domHostname dm) = normalizeHostname (hzName z)) \<and>
      recTarget r = ddrResolvedTarget rec' \<and> dns_provider d' = dns_provider (provider_put k r d)
    else dns_provider d' = dns_provider d"
  using hoare_run [OF hoare_reconcile assms] by (auto simp: reconciled_def Let_def split: sum.splits; blast)

definition sample_dns_record :: DomainDNSRecord where
  "sample_dns_record = \<lparr>ddrID = 16, ddrDomainID = domID sample_domain, ddrHostedZoneID = 14, ddrRecordType = ''auto'', ddrTTL = None,
     ddrProxied = False, ddrResolvedTarget = [], ddrStatus = DNSRecordStatusPending, ddrStatusMessage = [], ddrCreatedBy = 7\<rparr>"

definition sample_reconcile :: "(error + DomainDNSRecord) \<times> (db \<times> bool list)" where
  "sample_reconcile = reconcile sample_dns_svc sample_dns_record (sample_dns [[], ''1.2.3.4''], [])"

theorem reconcile_writes_the_address_witness:
  "\<exists>rec d'. sample_reconcile = (Inr rec, (d', [])) \<and> ddrResolvedTarget rec = ''1.2.3.4'' \<and>
     (\<exists>r k. recTarget r = ''1.2.3.4'' \<and> dns_provider d' = dns_provider (provider_put k r (sample_dns [[], ''1.2.3.4''])))"
proof -
  have "case sample_reconcile of (Inr rec, (_, fs)) \<Rightarrow> fs = [] \<and> ddrStatus rec = DNSRecordStatusReady \<and> ddrResolvedTarget rec = ''1.2.3.4''
      | (Inl _, _) \<Rightarrow> False" by code_simp
  then obtain rec d' where run: "sample_reconcile = (Inr rec, (d', []))" "ddrStatus rec = DNSRecordStatusReady" "ddrResolvedTarget rec = ''1.2.3.4''"
    by (auto split: prod.splits sum.splits)
  moreover obtain r k where "recTarget r = ''1.2.3.4''" "dns_provider d' = dns_provider (provider_put k r (sample_dns [[], ''1.2.3.4'']))"
    using reconcile_writes_the_address [OF run(1) [unfolded sample_reconcile_def]] run(2,3) by (simp del: split_paired_Ex) blast
  ultimately show ?thesis by blast
qed


definition sample_dns_owned :: db where
  "sample_dns_owned = (sample_dns [''2001::1''])\<lparr>dns_records := [sample_dns_record\<lparr>ddrResolvedTarget := ''1.2.3.4'', ddrStatus := DNSRecordStatusReady\<rparr>],
     dns_provider := [((''Z'', ''a.io'', ''A''), \<lparr>recTarget = ''1.2.3.4'', recTTL = None, recProxied = False\<rparr>),
       ((''Z'', ''a.io'', ''AAAA''), \<lparr>recTarget = ''2001::9'', recTTL = None, recProxied = False\<rparr>)]\<rparr>"

definition sample_dns_delete :: "(error + unit) \<times> (db \<times> bool list)" where
  "sample_dns_delete = dns_Delete sample_dns_svc (domID sample_domain) 1 (sample_dns_owned, [])"


definition sample_drift :: "(error + unit) \<times> (db \<times> bool list)" where
  "sample_drift = bind (dns_Get sample_dns_svc (domID sample_domain) 1) (\<lambda>_. dns_Delete sample_dns_svc (domID sample_domain) 1) (sample_dns_owned, [])"

text \<open>When the address of a gateway changes from IPv4 to IPv6, the next read writes an AAAA record without the check for
  foreign records, replacing one that FastGateway does not manage, and a delete then removes that one and leaves the A record
  behind at the provider, without a row that knows of it.\<close>

theorem address_drift_orphans_and_clobbers:
  "\<exists>d'. sample_drift = (Inr (), (d', [])) \<and> dns_records d' = [] \<and> provider_lookup (''Z'', ''a.io'', ''A'') d' \<noteq> None \<and>
     provider_lookup (''Z'', ''a.io'', ''AAAA'') sample_dns_owned \<noteq> None \<and> provider_lookup (''Z'', ''a.io'', ''AAAA'') d' = None"
proof -
  have "case sample_drift of (Inr _, (d', fs)) \<Rightarrow> fs = [] \<and> dns_records d' = [] \<and> provider_lookup (''Z'', ''a.io'', ''A'') d' \<noteq> None \<and>
      provider_lookup (''Z'', ''a.io'', ''AAAA'') sample_dns_owned \<noteq> None \<and> provider_lookup (''Z'', ''a.io'', ''AAAA'') d' = None | (Inl _, _) \<Rightarrow> False"
    by code_simp
  then show ?thesis by (auto split: prod.splits sum.splits)
qed

end
