(* ===== verification/Domains.thy ===== *)
theory Domains
  imports TemplateInv DNS Certificates
begin

text \<open>
  Domains, the hostname-routed gateways: \<open>src/internal/services/domain_service.go\<close>, the reference grants of
  \<open>domain_deploy.go\<close>, the Gateway configuration of \<open>domain_yaml.go\<close>, \<open>src/internal/models/labels.go\<close> and the rows of
  \<open>src/internal/repository/domain_repository.go\<close>.

  A key in a request is text; \<open>parse_uuid\<close> reads it. The DNS manager is the optional dependency of the service, and
  the flag of the service says whether the stream ports are wired. Where the code returns a domain together with an
  error, its callers use the error only.
\<close>

section \<open>Rows\<close>

text \<open>\<open>idx_domain_project_hostname\<close> is unique; the template and the certificate of a domain must exist.\<close>

definition domain_save :: "Domain \<Rightarrow> db \<Rightarrow> error + db" where
  "domain_save x d =
     (if (case domDomainTemplateID x of None \<Rightarrow> False | Some t \<Rightarrow> row_get dtID t (domain_templates d) = None) \<or>
         (case domManagedCertificateID x of None \<Rightarrow> False | Some c \<Rightarrow> row_get mcID c (managed_certificates d) = None) then Inl ErrDB
      else if list_ex (\<lambda>y. domID y \<noteq> domID x \<and> domProjectID y = domProjectID x \<and> domHostname y = domHostname x) (domains d)
      then Inl ErrDuplicatedKey else Inr (d\<lparr>domains := row_save domID x (domains d)\<rparr>))"

definition DomainRepo_Create :: "Domain \<Rightarrow> Domain m" where
  "DomainRepo_Create x = inserts ErrDB (\<lambda>d.
     let x' = x\<lparr>domID := next_id d\<rparr> in map_sum id (\<lambda>d'. (x', d'\<lparr>next_id := Suc (next_id d)\<rparr>)) (domain_save x' d))"

definition DomainRepo_Update :: "Domain \<Rightarrow> unit m" where
  "DomainRepo_Update x = updates ErrDB (domain_save x)"

text \<open>A deleted domain takes its routes, policies, settings and DNS row with it.\<close>

definition DomainRepo_Delete :: "uuid \<Rightarrow> unit m" where
  "DomainRepo_Delete i = exec (\<lambda>d. delete_routes (\<lambda>r. rtDomainID r = Some i) (d\<lparr>domains := row_delete domID i (domains d),
     domain_traffic_policies := filter (\<lambda>x. prwRouteID x \<noteq> i) (domain_traffic_policies d),
     domain_extension_policies := filter (\<lambda>x. prwRouteID x \<noteq> i) (domain_extension_policies d),
     domain_settings := filter (\<lambda>x. dstDomainID x \<noteq> i) (domain_settings d),
     dns_records := filter (\<lambda>x. ddrDomainID x \<noteq> i) (dns_records d)\<rparr>))"

definition DomainRepo_ExistsByHostname :: "uuid \<Rightarrow> string \<Rightarrow> bool m" where
  "DomainRepo_ExistsByHostname p h = query (\<lambda>d. Inr (list_ex (\<lambda>x. domProjectID x = p \<and> domHostname x = h) (domains d)))"

text \<open>The listing without filters: a count and a page ordered by hostname.\<close>

definition DomainRepo_ListByProjectID :: "uuid \<Rightarrow> int \<Rightarrow> int \<Rightarrow> (Domain list \<times> nat) m" where
  "DomainRepo_ListByProjectID p page limit =
     bind (query (\<lambda>d. Inr (length (filter (\<lambda>x. domProjectID x = p) (domains d))))) (\<lambda>total.
     bind (query (\<lambda>d. Inr ((if 0 \<le> limit then take (nat limit) else id) (drop (nat ((page - 1) * limit))
       (sort_key domHostname (filter (\<lambda>x. domProjectID x = p) (domains d))))))) (\<lambda>ds. ret (ds, total)))"

definition ProjectNamespaceRepo_ListByProjectID :: "uuid \<Rightarrow> ProjectNamespace list m" where
  "ProjectNamespaceRepo_ListByProjectID p =
     query (\<lambda>d. Inr (sort_key pnsNamespace (filter (\<lambda>n. pnsProjectID n = p) (project_namespaces d))))"

definition ProjectNamespaceRepo_ListByCapability :: "uuid \<Rightarrow> string \<Rightarrow> ProjectNamespace list m" where
  "ProjectNamespaceRepo_ListByCapability p c =
     query (\<lambda>d. Inr (sort_key pnsNamespace (filter (\<lambda>n. pnsProjectID n = p \<and> c \<in> set (pnsCapabilities n)) (project_namespaces d))))"

section \<open>Labels and names\<close>

definition MaxLabels :: nat where "MaxLabels = 10"

text \<open>\<open>^[a-zA-Z0-9]([a-zA-Z0-9._-]{0,61}[a-zA-Z0-9])?$\<close>\<close>

definition label_text :: "string \<Rightarrow> bool" where
  "label_text s \<longleftrightarrow> label_segment s \<and> length s \<le> 63"

definition ValidateLabels :: "(string \<times> string) list \<Rightarrow> check" where
  "ValidateLabels labels = checks
     [fail_if (MaxLabels < length labels) ''too many labels: maximum %d allowed, got %d'',
      check_each (\<lambda>(key, val). checks
        [fail_if (key = []) ''label key cannot be empty'',
         fail_if (\<not> label_text key) ''invalid label key %q'',
         fail_if (val \<noteq> [] \<and> \<not> label_text val) ''invalid label value %q for key %q'']) labels]"

definition parse_uuid :: "string \<Rightarrow> uuid option" where
  "parse_uuid s = (if s \<noteq> [] \<and> list_all is_digit s then Some (nat (digits_val 0 s)) else None)"

definition generateK8sName :: "string \<Rightarrow> string" where
  "generateK8sName hostname =
     (let name = ToLower (map (\<lambda>c. if c = CHR ''.'' then CHR ''-'' else c) hostname);
          name = (if name \<noteq> [] \<and> \<not> is_lower (hd name) then ''gw-'' @ name else name)
      in take 63 name)"

definition short_id :: "uuid \<Rightarrow> string" where
  "short_id p = take 8 (uuid_string p)"

definition generateReferenceGrantName :: "uuid \<Rightarrow> string \<Rightarrow> string" where
  "generateReferenceGrantName p ns = ''fastgateway-'' @ short_id p @ ''-'' @ ns"

section \<open>Bound listeners\<close>

definition ValidateBoundListeners :: "DomainTemplate \<Rightarrow> string list \<Rightarrow> check" where
  "ValidateBoundListeners tmpl names =
     (if names = [] then Inl ErrNoBoundListener
      else check_each (\<lambda>n. fail_with (n \<notin> tlName ` set (HostnameRouted (dtListeners tmpl))) (Wrap ''%w: %q'' ErrUnknownBoundListener)) names)"

definition boundListeners :: "DomainTemplate \<Rightarrow> string list \<Rightarrow> TemplateListener list" where
  "boundListeners tmpl names = filter (\<lambda>l. tlName l \<in> set names) (HostnameRouted (dtListeners tmpl))"

definition boundListenerPorts :: "DomainTemplate \<Rightarrow> string list \<Rightarrow> int list" where
  "boundListenerPorts tmpl names = map tlPort (boundListeners tmpl names)"

definition domainNeedsTLSSecret :: "DomainTemplate \<Rightarrow> string list \<Rightarrow> bool" where
  "domainNeedsTLSSecret tmpl names = list_ex (\<lambda>l. tlProtocol l = ListenerHTTPS \<and> tlTLSMode l \<noteq> ''Passthrough'') (boundListeners tmpl names)"

section \<open>The service\<close>

record DNSRecordManager =
  drmEnable :: "uuid \<Rightarrow> uuid \<Rightarrow> uuid \<Rightarrow> DNSRecordInput \<Rightarrow> DomainDNSRecord m"
  drmDelete :: "uuid \<Rightarrow> uuid \<Rightarrow> unit m"
  drmCheckCollision :: "string \<Rightarrow> uuid \<Rightarrow> uuid option \<Rightarrow> unit m"

record DomainService =
  dsvDNS :: "DNSRecordManager option"
  dsvStreamPorts :: bool

record DomainDNSInput =
  ddiEnabled :: bool
  ddiHostedZoneID :: string
  ddiRecordType :: string
  ddiTTL :: "int option"
  ddiProxied :: bool

record CreateDomainInput =
  cdmName :: string
  cdmHostname :: string
  cdmDomainTemplateID :: string
  cdmTLSSecretName :: string
  cdmTLSSecretNamespace :: string
  cdmNamespace :: string
  cdmLabels :: "(string \<times> string) list"
  cdmBoundListeners :: "string list"
  cdmDNS :: "DomainDNSInput option"

record UpdateDomainInput =
  udmName :: string
  udmTLSSecretName :: string
  udmTLSSecretNamespace :: string
  udmLabels :: "(string \<times> string) list option"

text \<open>The manager and the request, where both are there.\<close>

definition dns_request :: "DomainService \<Rightarrow> CreateDomainInput \<Rightarrow> (DNSRecordManager \<times> DomainDNSInput) option" where
  "dns_request svc inp = (case (dsvDNS svc, cdmDNS inp) of (Some mgr, Some req) \<Rightarrow> if ddiEnabled req then Some (mgr, req) else None | _ \<Rightarrow> None)"

definition dns_preflight :: "DomainService \<Rightarrow> CreateDomainInput \<Rightarrow> unit m" where
  "dns_preflight svc inp = (case dns_request svc inp of
     None \<Rightarrow> ret ()
   | Some (mgr, req) \<Rightarrow>
       if ddiHostedZoneID req = [] then throw ErrNoHostedZone
       else (case parse_uuid (ddiHostedZoneID req) of
           None \<Rightarrow> throw (Msg ''invalid hostedZoneId'')
         | Some z \<Rightarrow> drmCheckCollision mgr (cdmHostname inp) z None))"

definition dns_enable :: "DomainService \<Rightarrow> CreateDomainInput \<Rightarrow> uuid \<Rightarrow> Domain \<Rightarrow> unit m" where
  "dns_enable svc inp createdBy domain = (case dns_request svc inp of
     None \<Rightarrow> ret ()
   | Some (mgr, req) \<Rightarrow>
       bind (attempt (drmEnable mgr (domID domain) (domProjectID domain) createdBy
         \<lparr>driHostedZoneID = (if ddiHostedZoneID req = [] then None else parse_uuid (ddiHostedZoneID req)),
          driRecordType = ddiRecordType req, driTTL = ddiTTL req, driProxied = ddiProxied req\<rparr>)) (\<lambda>_. ret ()))"

definition create_template :: "uuid \<Rightarrow> CreateDomainInput \<Rightarrow> DomainTemplate m" where
  "create_template projectID inp =
     (case parse_uuid (cdmDomainTemplateID inp) of
        None \<Rightarrow> throw (Msg ''invalid domain template ID'')
      | Some t \<Rightarrow>
        bind (or_error (Msg ''domain template not found'') (DomainTemplateRepo_GetByID t)) (\<lambda>dt.
        bind (require (dtProjectID dt = projectID) (Msg ''domain template does not belong to this project'')) (\<lambda>_.
        bind (require (dtStatus dt = DomainTemplateStatusActive) (Msg ''domain template '%s' is not active (status: %s)'')) (\<lambda>_. ret dt))))"

definition tls_namespace_check :: "uuid \<Rightarrow> string \<Rightarrow> unit m" where
  "tls_namespace_check projectID ns =
     (if ns = [] \<or> ns = FastGatewayNamespace then ret ()
      else bind (wrap_error ''failed to validate TLS secret namespace: %w'' (ProjectNamespaceRepo_Exists projectID ns)) (\<lambda>managed.
        require managed (Msg ''namespace '%s' is not managed by this project. Add it in Project Settings > Namespaces'')))"

definition deploy_namespace_check :: "uuid \<Rightarrow> string \<Rightarrow> unit m" where
  "deploy_namespace_check projectID ns =
     (if ns = FastGatewayNamespace then ret ()
      else bind (or_error (Msg ''namespace '%s' is not registered for this project'') (ProjectNamespaceRepo_GetByProjectAndNamespace projectID ns)) (\<lambda>n.
        require (HasCapability n NamespaceCapabilityDeployGateway) (Msg ''namespace '%s' is not enabled for deployment (missing capability '%s')'')))"

definition inferManagedCert :: "uuid \<Rightarrow> string \<Rightarrow> uuid option m" where
  "inferManagedCert projectID tlsSecretName =
     (if \<not> HasPrefix tlsSecretName ''cert-'' then ret None
      else (case parse_uuid (TrimPrefix tlsSecretName ''cert-'') of
          None \<Rightarrow> ret None
        | Some certID \<Rightarrow> bind (attempt (CertRepo_GetByID certID)) (\<lambda>r. ret (case r of
            Inl _ \<Rightarrow> None
          | Inr cert \<Rightarrow> if mcProjectID cert \<noteq> projectID \<or> mcUsage cert \<noteq> ManagedCertUsageServer \<or> mcStatus cert \<noteq> ManagedCertStatusReady
              then None else Some certID))))"

definition getProjectDomainNamespaces :: "uuid \<Rightarrow> string list m" where
  "getProjectDomainNamespaces projectID =
     bind (wrap_error ''failed to list domains for namespace collection: %w'' (DomainRepo_ListByProjectID projectID 1 10000)) (\<lambda>(ds, _).
     ret (FastGatewayNamespace # removeAll FastGatewayNamespace (rev (remdups (rev (map domNamespace ds))))))"

definition sync_namespace :: "uuid \<Rightarrow> string list \<Rightarrow> ProjectNamespace \<Rightarrow> unit m" where
  "sync_namespace projectID from bns =
     (let toKinds = ReferenceGrantKindsForCapabilities (pnsCapabilities bns); rgName = generateReferenceGrantName projectID (pnsNamespace bns)
      in bind (attempt (if toKinds = [] then DeleteReferenceGrant projectID (pnsNamespace bns) rgName
           else RecreateReferenceGrant projectID \<lparr>rgName = rgName, rgFromNamespaces = from, rgToNamespace = pnsNamespace bns, rgToKinds = toKinds\<rparr>))
         (\<lambda>_. ret ()))"

definition sync_secrets :: "uuid \<Rightarrow> string list \<Rightarrow> unit m" where
  "sync_secrets projectID from =
     (let others = filter (\<lambda>ns. ns \<noteq> FastGatewayNamespace) from; rgName = ''fastgateway-'' @ short_id projectID @ ''-secrets''
      in bind (attempt (if others \<noteq> []
           then RecreateReferenceGrant projectID \<lparr>rgName = rgName, rgFromNamespaces = others, rgToNamespace = FastGatewayNamespace, rgToKinds = [''Secret'']\<rparr>
           else DeleteReferenceGrant projectID FastGatewayNamespace rgName)) (\<lambda>_. ret ()))"

definition syncReferenceGrants :: "uuid \<Rightarrow> unit m" where
  "syncReferenceGrants projectID =
     bind (attempt (getProjectDomainNamespaces projectID)) (\<lambda>r. case r of
       Inl _ \<Rightarrow> ret ()
     | Inr from \<Rightarrow> bind (attempt (ProjectNamespaceRepo_ListByProjectID projectID)) (\<lambda>r. case r of
         Inl _ \<Rightarrow> ret ()
       | Inr backends \<Rightarrow> bind (for_each backends (sync_namespace projectID from)) (\<lambda>_. sync_secrets projectID from)))"

text \<open>A status is saved with its error discarded.\<close>

definition settle_domain :: "DomainStatus \<Rightarrow> string \<Rightarrow> Domain \<Rightarrow> Domain m" where
  "settle_domain status message x =
     (let x' = x\<lparr>domStatus := status, domStatusMessage := message\<rparr> in bind (attempt (DomainRepo_Update x')) (\<lambda>_. ret x'))"

definition new_domain :: "uuid \<Rightarrow> CreateDomainInput \<Rightarrow> uuid \<Rightarrow> DomainTemplate \<Rightarrow> string \<Rightarrow> uuid option \<Rightarrow> Domain" where
  "new_domain projectID inp createdBy dt ns cert =
     \<lparr>domID = 0, domProjectID = projectID, domDomainTemplateID = Some (dtID dt), domManagedCertificateID = cert,
      domName = cdmName inp, domHostname = cdmHostname inp, domNamespace = ns, domTLSSecretName = cdmTLSSecretName inp,
      domTLSSecretNamespace = cdmTLSSecretNamespace inp, domBoundListeners = cdmBoundListeners inp,
      domK8sGatewayName = generateK8sName (cdmHostname inp), domK8sGatewayClass = dtK8sGatewayClassName dt,
      domStatus = DomainStatusPending, domStatusMessage = [], domCreatedBy = createdBy, domLabels = cdmLabels inp\<rparr>"

definition deploy_domain :: "DomainService \<Rightarrow> CreateDomainInput \<Rightarrow> uuid \<Rightarrow> DomainTemplate \<Rightarrow> Domain \<Rightarrow> Domain m" where
  "deploy_domain svc inp createdBy dt domain =
     bind (attempt (CreateGateway (domProjectID domain) (BuildGatewayConfig domain (Some dt) (dtAnnotations dt)))) (\<lambda>r. case r of
       Inl e \<Rightarrow> settle_domain DomainStatusError ''Failed to create Gateway: %v'' domain
     | Inr _ \<Rightarrow>
       bind (settle_domain DomainStatusActive ''Gateway created successfully'' domain) (\<lambda>domain.
       bind (if domNamespace domain \<noteq> FastGatewayNamespace then syncReferenceGrants (domProjectID domain) else ret ()) (\<lambda>_.
       bind (dns_enable svc inp createdBy domain) (\<lambda>_. ret domain))))"

definition DomainService_Create :: "DomainService \<Rightarrow> uuid \<Rightarrow> CreateDomainInput \<Rightarrow> uuid \<Rightarrow> Domain m" where
  "DomainService_Create svc projectID inp createdBy =
     bind (dns_preflight svc inp) (\<lambda>_.
     bind (DomainRepo_ExistsByHostname projectID (cdmHostname inp)) (\<lambda>exists.
     bind (require (\<not> exists) (Msg ''hostname already exists in this project'')) (\<lambda>_.
     bind (create_template projectID inp) (\<lambda>dt.
     bind (lift_check (ValidateBoundListeners dt (cdmBoundListeners inp))) (\<lambda>_.
     bind (checkDomainPortsAgainstStreams (dsvStreamPorts svc) dt (boundListenerPorts dt (cdmBoundListeners inp))) (\<lambda>_.
     bind (require (\<not> (domainNeedsTLSSecret dt (cdmBoundListeners inp) \<and> cdmTLSSecretName inp = []))
       (Msg ''TLS secret name is required when a bound listener terminates TLS'')) (\<lambda>_.
     bind (tls_namespace_check projectID (cdmTLSSecretNamespace inp)) (\<lambda>_.
     bind (lift_check (ValidateLabels (cdmLabels inp))) (\<lambda>_.
     let ns = (if cdmNamespace inp = [] then FastGatewayNamespace else cdmNamespace inp)
     in bind (deploy_namespace_check projectID ns) (\<lambda>_.
        bind (inferManagedCert projectID (cdmTLSSecretName inp)) (\<lambda>cert.
        bind (DomainRepo_Create (new_domain projectID inp createdBy dt ns cert)) (deploy_domain svc inp createdBy dt))))))))))))"

definition DomainService_GetByID :: "uuid \<Rightarrow> Domain m" where
  "DomainService_GetByID i = DomainRepo_GetByID i"

definition gatewayConfigForApply :: "Domain \<Rightarrow> GatewayConfig m" where
  "gatewayConfigForApply domain = (case domDomainTemplateID domain of
     None \<Rightarrow> ret (BuildGatewayConfig domain None [])
   | Some t \<Rightarrow> bind (wrap_error ''resolve domain template %s: %w'' (TemplateService_GetByID t)) (\<lambda>dt.
       ret (BuildGatewayConfig domain (Some dt) (dtAnnotations dt))))"

definition applyGateway :: "Domain \<Rightarrow> Domain m" where
  "applyGateway domain =
     bind (attempt (bind (gatewayConfigForApply domain) (UpdateGateway (domProjectID domain)))) (\<lambda>r. case r of
       Inl e \<Rightarrow> bind (settle_domain DomainStatusError ''Failed to update Gateway: %v'' domain) (\<lambda>_. throw (Wrap ''%w: %v'' ErrGatewayApply))
     | Inr _ \<Rightarrow>
       bind (settle_domain DomainStatusActive ''Gateway updated successfully'' domain) (\<lambda>domain.
       bind (syncReferenceGrants (domProjectID domain)) (\<lambda>_. ret domain)))"

definition DomainService_Update :: "uuid \<Rightarrow> UpdateDomainInput \<Rightarrow> Domain m" where
  "DomainService_Update i inp =
     bind (DomainRepo_GetByID i) (\<lambda>domain.
     let domain = domain\<lparr>domName := override_string (domName domain) (udmName inp)\<rparr>
     in bind (if udmTLSSecretName inp = [] then ret domain
          else bind (inferManagedCert (domProjectID domain) (udmTLSSecretName inp)) (\<lambda>cert.
            ret (domain\<lparr>domTLSSecretName := udmTLSSecretName inp, domManagedCertificateID := cert\<rparr>))) (\<lambda>domain.
        bind (tls_namespace_check (domProjectID domain) (udmTLSSecretNamespace inp)) (\<lambda>_.
        let domain = domain\<lparr>domTLSSecretNamespace := override_string (domTLSSecretNamespace domain) (udmTLSSecretNamespace inp)\<rparr>
        in bind (lift_check (check_opt ValidateLabels (udmLabels inp))) (\<lambda>_.
           let domain = domain\<lparr>domLabels := override (domLabels domain) (udmLabels inp)\<rparr>
           in bind (DomainRepo_Update domain) (\<lambda>_. applyGateway domain)))))"

definition domain_in_project :: "uuid \<Rightarrow> uuid \<Rightarrow> Domain m" where
  "domain_in_project domainID projectID =
     bind (or_error (Wrap ''get domain: %w'' ErrDomainNotFound) (DomainRepo_GetByID domainID)) (\<lambda>domain.
     bind (require (domProjectID domain = projectID) ErrDomainNotFound) (\<lambda>_. ret domain))"

definition AttachCertificate :: "uuid \<Rightarrow> uuid \<Rightarrow> uuid \<Rightarrow> Domain m" where
  "AttachCertificate domainID certID projectID =
     bind (domain_in_project domainID projectID) (\<lambda>domain.
     bind (or_error (Wrap ''get certificate: %w'' ErrCertificateNotFound) (CertRepo_GetByID certID)) (\<lambda>cert.
     bind (require (mcProjectID cert = projectID) ErrCertificateNotFound) (\<lambda>_.
     bind (require (mcUsage cert = ManagedCertUsageServer) ErrCertificateWrongUsage) (\<lambda>_.
     bind (require (mcStatus cert = ManagedCertStatusReady) ErrCertificateNotReady) (\<lambda>_.
     let domain = domain\<lparr>domManagedCertificateID := Some certID\<rparr>
     in bind (DomainRepo_Update domain) (\<lambda>_. applyGateway domain))))))"

definition DetachCertificate :: "uuid \<Rightarrow> uuid \<Rightarrow> Domain m" where
  "DetachCertificate domainID projectID =
     bind (domain_in_project domainID projectID) (\<lambda>domain.
     let domain = domain\<lparr>domManagedCertificateID := None\<rparr>
     in bind (DomainRepo_Update domain) (\<lambda>_. applyGateway domain))"

text \<open>The teardown of an object of the cluster; the callers discard its error.\<close>

definition drop_object :: "k8s_key \<Rightarrow> unit m" where
  "drop_object k = bind (attempt (k8s_Delete k)) (\<lambda>_. ret ())"

definition drop_rows :: "(db \<Rightarrow> db) \<Rightarrow> unit m" where
  "drop_rows f = bind (attempt (exec f)) (\<lambda>_. ret ())"

definition DomainService_Delete :: "DomainService \<Rightarrow> uuid \<Rightarrow> unit m" where
  "DomainService_Delete svc i =
     bind (DomainRepo_GetByID i) (\<lambda>domain.
     let p = domProjectID domain; ns = domNamespace domain; gw = domK8sGatewayName domain
     in bind (drop_object (K8sKey p KBackendTrafficPolicy ns (gw @ ''-btp''))) (\<lambda>_.
        bind (drop_rows (\<lambda>d. d\<lparr>domain_traffic_policies := filter (\<lambda>x. prwRouteID x \<noteq> i) (domain_traffic_policies d)\<rparr>)) (\<lambda>_.
        bind (drop_object (K8sKey p KBackend ns (gw @ ''-eep-extproc''))) (\<lambda>_.
        bind (drop_object (K8sKey p KEnvoyExtensionPolicy ns (gw @ ''-eep''))) (\<lambda>_.
        bind (drop_rows (\<lambda>d. d\<lparr>domain_extension_policies := filter (\<lambda>x. prwRouteID x \<noteq> i) (domain_extension_policies d)\<rparr>)) (\<lambda>_.
        bind (drop_object (K8sKey p KClientTrafficPolicy ns (gw @ ''-ctp''))) (\<lambda>_.
        bind (drop_rows (\<lambda>d. d\<lparr>domain_settings := filter (\<lambda>x. dstDomainID x \<noteq> i) (domain_settings d)\<rparr>)) (\<lambda>_.
        bind (case dsvDNS svc of None \<Rightarrow> ret () | Some mgr \<Rightarrow> bind (attempt (drmDelete mgr i p)) (\<lambda>_. ret ())) (\<lambda>_.
        bind (attempt (DeleteGateway p ns gw)) (\<lambda>_.
        bind (DomainRepo_Delete i) (\<lambda>_.
        if ns \<noteq> FastGatewayNamespace then syncReferenceGrants p else ret ())))))))))))"

definition ListAvailableNamespaces :: "uuid \<Rightarrow> string list m" where
  "ListAvailableNamespaces projectID =
     bind (ProjectNamespaceRepo_ListByCapability projectID NamespaceCapabilityDeployGateway) (\<lambda>rows.
     ret (FastGatewayNamespace # removeAll FastGatewayNamespace (rev (remdups (rev (map pnsNamespace rows))))))"

end
