(* ===== verification/DomainInv.thy ===== *)
theory DomainInv
  imports Domains
begin

text \<open>
  What domains promise, and the invariant that spans templates, streams and domains: on a merged template the listeners
  of no two Gateways of different kinds meet, in every state the services can reach.
\<close>

section \<open>Domains leave streams and templates alone\<close>

definition gw_same :: "db \<Rightarrow> db \<Rightarrow> bool" where
  "gw_same d0 d \<longleftrightarrow> streams d = streams d0 \<and> domain_templates d = domain_templates d0 \<and> next_id d0 \<le> next_id d"

lemma gw_same_refl [simp]: "gw_same d d"
  by (simp add: gw_same_def)

lemma gw_same_inv: "gateways_inv d0 \<Longrightarrow> gw_same d0 d \<Longrightarrow> gateways_inv d"
  unfolding gw_same_def gateways_inv_def by (auto elim: listener_inv_frame templates_inv_frame)

lemma gw_same_dns: "gw_same d0 d \<Longrightarrow> dns_frame d d' \<Longrightarrow> gw_same d0 d'"
  by (auto simp: gw_same_def dns_frame_def)

lemma gw_same_k8s [simp]: "gw_same d0 (k8s_put k x d) = gw_same d0 d" "gw_same d0 (k8s_remove k d) = gw_same d0 d"
  by (simp_all add: gw_same_def k8s_put_def k8s_remove_def)

lemma gw_same_rows [simp]:
  "gw_same d0 (d\<lparr>domain_traffic_policies := x\<rparr>) = gw_same d0 d" "gw_same d0 (d\<lparr>domain_extension_policies := y\<rparr>) = gw_same d0 d"
  "gw_same d0 (d\<lparr>domain_settings := z\<rparr>) = gw_same d0 d"
  by (simp_all add: gw_same_def)

lemma domain_save_Inr: "domain_save x d = Inr d' \<Longrightarrow> d' = d\<lparr>domains := row_save domID x (domains d)\<rparr>"
  by (simp add: domain_save_def split: if_splits)

lemma keeps_same_rows:
  "keeps (gw_same d0) (DomainRepo_Create x)" "keeps (gw_same d0) (DomainRepo_Update x)" "keeps (gw_same d0) (DomainRepo_Delete i)"
  unfolding DomainRepo_Create_def DomainRepo_Update_def DomainRepo_Delete_def
  by (auto simp: Let_def map_sum_Inr_iff gw_same_def delete_routes_def intro!: keeps_inserts keeps_updates keeps_exec dest!: domain_save_Inr)

lemma keeps_same_settle: "keeps (gw_same d0) (settle_domain st msg x)"
  unfolding settle_domain_def Let_def by (intro keeps_bind keeps_attempt keeps_same_rows keeps_ret)

lemma keeps_reads_only:
  "keeps I (inferManagedCert p s)" "keeps I (tls_namespace_check p ns)" "keeps I (deploy_namespace_check p ns)"
  "keeps I (create_template p inp)" "keeps I (getProjectDomainNamespaces p)" "keeps I (checkDomainPortsAgainstStreams w t ps)"
  "keeps I (gatewayConfigForApply x)" "keeps I (domain_in_project i p)"
  unfolding inferManagedCert_def tls_namespace_check_def deploy_namespace_check_def create_template_def getProjectDomainNamespaces_def
    checkDomainPortsAgainstStreams_def gatewayConfigForApply_def domain_in_project_def
    CertRepo_GetByID_def ProjectNamespaceRepo_Exists_def ProjectNamespaceRepo_GetByProjectAndNamespace_def DomainTemplateRepo_GetByID_def
    DomainRepo_ListByProjectID_def ClaimedPortsByTemplate_def TemplateService_GetByID_def DomainRepo_GetByID_def
  by (auto simp: case_prod_beta intro!: keeps_bind keeps_attempt keeps_wrap_error keeps_or_error keeps_case_option keeps_if)

lemma keeps_same_sync: "keeps (gw_same d0) (syncReferenceGrants p)"
proof -
  have "keeps (gw_same d0) (sync_namespace p from n)" "keeps (gw_same d0) (sync_secrets p from)" for "from" n
    unfolding sync_namespace_def sync_secrets_def Let_def
    by (auto intro!: keeps_bind keeps_attempt keeps_if keeps_cluster)
  then show ?thesis
    unfolding syncReferenceGrants_def ProjectNamespaceRepo_ListByProjectID_def
    by (auto intro!: keeps_bind keeps_attempt keeps_case_sum keeps_for_each keeps_reads_only)
qed

text \<open>The manager a server runs with: the DNS service, or none outside a cluster.\<close>

definition dns_service :: "DNSRecordService \<Rightarrow> DNSRecordManager" where
  "dns_service svc = \<lparr>drmEnable = Enable svc, drmDelete = dns_Delete svc, drmCheckCollision = CheckCollision svc\<rparr>"

definition server_domains :: "DNSRecordService option \<Rightarrow> bool \<Rightarrow> DomainService" where
  "server_domains dns wired = \<lparr>dsvDNS = map_option dns_service dns, dsvStreamPorts = wired\<rparr>"

lemma keeps_same_dns:
  "keeps (gw_same d0) (Enable svc i p u inp)" "keeps (gw_same d0) (dns_Delete svc i p)" "keeps (gw_same d0) (CheckCollision svc h z ex)"
  by (rule dns.manager_keeps, erule (1) gw_same_dns)+

lemma keeps_same_request:
  "keeps (gw_same d0) (dns_preflight (server_domains dns w) inp)" "keeps (gw_same d0) (dns_enable (server_domains dns w) inp u x)"
  unfolding dns_preflight_def dns_enable_def dns_request_def server_domains_def dns_service_def
  by (cases dns; cases "cdmDNS inp"; auto intro!: keeps_bind keeps_attempt keeps_case_option keeps_same_dns)+

lemma keeps_same_deploy: "keeps (gw_same d0) (deploy_domain (server_domains dns w) inp u dt x)"
  unfolding deploy_domain_def
  by (intro keeps_bind keeps_attempt keeps_case_sum keeps_if keeps_ret keeps_same_settle keeps_same_sync keeps_same_request keeps_cluster) simp_all

lemma keeps_same_apply: "keeps (gw_same d0) (applyGateway x)"
  unfolding applyGateway_def
  by (intro keeps_bind keeps_attempt keeps_case_sum keeps_ret keeps_throw keeps_same_settle keeps_same_sync keeps_cluster keeps_reads_only) simp_all

lemma keeps_same_domain_ops:
  "keeps (gw_same d0) (DomainService_Create (server_domains dns w) p inp u)" "keeps (gw_same d0) (DomainService_Update i uinp)"
  "keeps (gw_same d0) (AttachCertificate i c p)" "keeps (gw_same d0) (DetachCertificate i p)"
  "keeps (gw_same d0) (DomainService_Delete (server_domains dns w) i)"
proof -
  show "keeps (gw_same d0) (DomainService_Create (server_domains dns w) p inp u)"
    unfolding DomainService_Create_def Let_def DomainRepo_ExistsByHostname_def
    by (intro keeps_bind keeps_same_request keeps_query keeps_require keeps_lift_check keeps_reads_only keeps_same_rows keeps_same_deploy)
  show "keeps (gw_same d0) (DomainService_Update i uinp)" "keeps (gw_same d0) (AttachCertificate i c p)" "keeps (gw_same d0) (DetachCertificate i p)"
    unfolding DomainService_Update_def AttachCertificate_def DetachCertificate_def Let_def DomainRepo_GetByID_def CertRepo_GetByID_def
    by (intro keeps_bind keeps_if keeps_ret keeps_query keeps_require keeps_or_error keeps_lift_check keeps_reads_only keeps_same_rows keeps_same_apply)+
  have drop: "keeps (gw_same d0) (drop_object k)" "(\<And>d. gw_same d0 d \<Longrightarrow> gw_same d0 (f d)) \<Longrightarrow> keeps (gw_same d0) (drop_rows f)" for k f
    unfolding drop_object_def drop_rows_def by (auto intro!: keeps_bind keeps_attempt keeps_k8s_verbs keeps_exec)
  have "keeps (gw_same d0) (case dsvDNS (server_domains dns w) of None \<Rightarrow> ret () | Some mgr \<Rightarrow> bind (attempt (drmDelete mgr i p)) (\<lambda>_. ret ()))" for p
    by (cases dns) (auto simp: server_domains_def dns_service_def intro!: keeps_same_dns)
  then show "keeps (gw_same d0) (DomainService_Delete (server_domains dns w) i)"
    unfolding DomainService_Delete_def Let_def DomainRepo_GetByID_def
    by (intro keeps_bind keeps_query drop keeps_attempt keeps_if keeps_ret keeps_same_rows keeps_same_sync keeps_cluster) simp_all
qed

lemma keeps_gateways: "(\<And>d0. keeps (gw_same d0) m) \<Longrightarrow> keeps gateways_inv m"
  unfolding keeps_def by (rule hoare_state, rule hoare_pre, rule hoare_post, assumption) (auto intro: gw_same_inv)

lemmas domain_ops_keep_inv = keeps_same_domain_ops [THEN keeps_gateways]

section \<open>Every sequence of operations\<close>

text \<open>
  A step is any call of the three services, with any arguments and faults, whether it succeeds or fails, or a change
  outside the tables of streams and templates.
\<close>

inductive gateway_step :: "db \<Rightarrow> db \<Rightarrow> bool" where
  create_stream: "StreamService_Create svc p sinp u (d, fs) = (rs, (d', fs')) \<Longrightarrow> gateway_step d d'"
| update_stream: "StreamService_Update svc i suinp (d, fs) = (rs, (d', fs')) \<Longrightarrow> gateway_step d d'"
| delete_stream: "StreamService_Delete i (d, fs) = (ru, (d', fs')) \<Longrightarrow> gateway_step d d'"
| reconcile_streams: "ReconcileGateways ctx (d, fs) = (ru, (d', fs')) \<Longrightarrow> gateway_step d d'"
| create_template: "TemplateService_Create p tinp by (d, fs) = (rt, (d', fs')) \<Longrightarrow> gateway_step d d'"
| update_template: "TemplateService_Update wired i tuinp (d, fs) = (rt, (d', fs')) \<Longrightarrow> gateway_step d d'"
| delete_template: "TemplateService_Delete wired i (d, fs) = (ru, (d', fs')) \<Longrightarrow> gateway_step d d'"
| create_domain: "DomainService_Create (server_domains dns wired) p dinp by (d, fs) = (rd, (d', fs')) \<Longrightarrow> gateway_step d d'"
| update_domain: "DomainService_Update i duinp (d, fs) = (rd, (d', fs')) \<Longrightarrow> gateway_step d d'"
| attach_certificate: "AttachCertificate i c p (d, fs) = (rd, (d', fs')) \<Longrightarrow> gateway_step d d'"
| detach_certificate: "DetachCertificate i p (d, fs) = (rd, (d', fs')) \<Longrightarrow> gateway_step d d'"
| delete_domain: "DomainService_Delete (server_domains dns wired) i (d, fs) = (ru, (d', fs')) \<Longrightarrow> gateway_step d d'"
| elsewhere: "gw_same d d' \<Longrightarrow> gateway_step d d'"

inductive gateway_reach :: "db \<Rightarrow> bool" where
  start: "gateway_reach empty_db"
| step: "gateway_reach d \<Longrightarrow> gateway_step d d' \<Longrightarrow> gateway_reach d'"

lemma gateways_inv_empty: "gateways_inv empty_db"
  by (simp add: gateways_inv_def listener_inv_def templates_inv_def empty_db_def)

lemma gateways_inv_step: "gateway_step d d' \<Longrightarrow> gateways_inv d \<Longrightarrow> gateways_inv d'"
  by (induction rule: gateway_step.induct)
    (blast intro: gw_same_inv keeps_run [OF stream_ops_keep_gateways(1)] keeps_run [OF stream_ops_keep_gateways(2)]
      keeps_run [OF stream_ops_keep_gateways(3)] keeps_run [OF stream_ops_keep_gateways(4)]
      keeps_run [OF template_ops_keep_inv(1)] keeps_run [OF template_ops_keep_inv(2)] keeps_run [OF template_ops_keep_inv(3)]
      keeps_run [OF domain_ops_keep_inv(1)] keeps_run [OF domain_ops_keep_inv(2)] keeps_run [OF domain_ops_keep_inv(3)]
      keeps_run [OF domain_ops_keep_inv(4)] keeps_run [OF domain_ops_keep_inv(5)])+

lemma gateways_inv_reach: "gateway_reach d \<Longrightarrow> gateways_inv d"
  by (induction rule: gateway_reach.induct) (auto intro: gateways_inv_empty gateways_inv_step)

text \<open>The sockets a Gateway listens on.\<close>

definition sockets :: "GatewayConfig \<Rightarrow> (string \<times> int) set" where
  "sockets g = (\<lambda>l. (if loProtocol l = ''UDP'' then ''UDP'' else ''TCP'', loPort l)) ` set (goListeners (BuildGatewayObject g))"

lemma sockets_hostname: "gcListeners g = [] \<Longrightarrow> sockets g = (\<lambda>h. (''TCP'', hlPort h)) ` set (gcHostnameListeners g)"
proof -
  let ?b = "\<lambda>h. if EqualFold (hlProtocol h) ''HTTPS'' then buildHTTPSListener g h else buildHTTPListener g h"
  assume "gcListeners g = []"
  then have "goListeners (BuildGatewayObject g) = map ?b (gcHostnameListeners g)" by (simp add: BuildGatewayObject_def)
  moreover have "(if loProtocol (?b h) = ''UDP'' then ''UDP'' else ''TCP'', loPort (?b h)) = (''TCP'', hlPort h)" for h
    by (simp add: buildHTTPListener_def buildHTTPSListener_def Let_def)
  ultimately show ?thesis unfolding sockets_def by (simp only: set_map image_image)
qed

lemma sockets_domain:
  "sockets (BuildGatewayConfig x (Some t) ann) \<subseteq> (\<lambda>l. (''TCP'', tlPort l)) ` set (HostnameRouted (dtListeners t))"
proof -
  have "gcListeners (BuildGatewayConfig x (Some t) ann) = []"
    "gcHostnameListeners (BuildGatewayConfig x (Some t) ann) = resolveHostnameListeners (domBoundListeners x) (Some t)"
    by (simp_all add: BuildGatewayConfig_def)
  then show ?thesis by (auto simp: sockets_hostname toHostnameListener_def dest!: resolved_from_template)
qed

lemma sockets_stream:
  assumes "strPorts s = [] \<or> claims_wf (strPorts s)"
  shows "sockets (BuildStreamGatewayConfig s) = claim_key ` set (strPorts s)"
proof (cases "strPorts s = []")
  case True
  then show ?thesis by (simp add: sockets_def BuildGatewayObject_def BuildStreamGatewayConfig_def)
next
  case False
  have "(if ToUpper (spTransport c) = ''UDP'' then ''UDP'' else ''TCP'') = spTransport c" if "c \<in> set (strPorts s)" for c
    using claims_ok [OF assms that] claim_ok_upper [of c] by (auto simp: claim_ok_def)
  then show ?thesis
    unfolding sockets_def BuildGatewayObject_stream [OF False] by (auto simp: buildL4Listener_def claim_key_def image_image intro!: image_cong)
qed

section \<open>What an apply leaves in the cluster\<close>

definition domain_key :: "Domain \<Rightarrow> k8s_key" where
  "domain_key x = gateway_key (domProjectID x) (domNamespace x) (domK8sGatewayName x)"

lemma built_gateway [simp]:
  "gcNamespace (BuildGatewayConfig x t ann) = domNamespace x" "gcName (BuildGatewayConfig x t ann) = domK8sGatewayName x"
  by (simp_all add: BuildGatewayConfig_def)

text \<open>The Gateway a domain's row and its template call for.\<close>

definition wanted_gateway :: "db \<Rightarrow> Domain \<Rightarrow> GatewayObject option" where
  "wanted_gateway d x = (case domDomainTemplateID x of
     None \<Rightarrow> Some (BuildGatewayObject (BuildGatewayConfig x None []))
   | Some t \<Rightarrow> map_option (\<lambda>dt. BuildGatewayObject (BuildGatewayConfig x (Some dt) (dtAnnotations dt))) (row_get dtID t (domain_templates d)))"

definition gateways_same :: "db \<Rightarrow> db \<Rightarrow> bool" where
  "gateways_same d0 d \<longleftrightarrow> (\<forall>p ns n. k8s_lookup (K8sKey p KGateway ns n) d = k8s_lookup (K8sKey p KGateway ns n) d0)"

lemma keeps_gateways_sync: "keeps (gateways_same d0) (syncReferenceGrants p)"
proof -
  have "keeps (gateways_same d0) (DeleteReferenceGrant p ns n)" "keeps (gateways_same d0) (CreateReferenceGrant p c)" for ns n c
    unfolding DeleteReferenceGrant_def CreateReferenceGrant_def k8s_Delete_def k8s_Create_def
    by (auto intro!: keeps_wrap_error keeps_updates simp: gateways_same_def split: option.splits)
  then have "keeps (gateways_same d0) (sync_namespace p from n)" "keeps (gateways_same d0) (sync_secrets p from)" for "from" n
    unfolding sync_namespace_def sync_secrets_def Let_def RecreateReferenceGrant_def
    by (auto intro!: keeps_bind keeps_attempt keeps_if)
  then show ?thesis
    unfolding syncReferenceGrants_def ProjectNamespaceRepo_ListByProjectID_def
    by (auto intro!: keeps_bind keeps_attempt keeps_case_sum keeps_for_each keeps_reads_only)
qed

text \<open>Code that discards every error always returns.\<close>

definition returns :: "'a m \<Rightarrow> bool" where
  "returns m \<longleftrightarrow> (\<forall>s. \<exists>x s'. m s = (Inr x, s'))"

lemma returns_no_error: "returns m \<Longrightarrow> m s \<noteq> (Inl e, s')"
  unfolding returns_def by (metis old.sum.distinct(1) prod.inject)

lemma hoare_returns:
  assumes "returns m" "hoare P m Q E" shows "hoare P m Q F"
  by (rule hoareI) (auto dest: hoare_Inr [OF assms(2)] simp: returns_no_error [OF assms(1)])

lemma returns_intros [intro]:
  "returns (ret x)" "returns (attempt m)" "returns n \<Longrightarrow> (\<And>x. returns (f x)) \<Longrightarrow> returns (bind n f)"
  unfolding returns_def ret_def attempt_def bind_def by (auto split: prod.splits sum.splits) (metis sum.distinct(1) prod.inject)

lemma returns_for_each: "(\<And>x. returns (f x)) \<Longrightarrow> returns (for_each xs f)"
  by (induction xs) auto

lemma returns_case_sum:
  "(\<And>y. returns (f y)) \<Longrightarrow> (\<And>y. returns (g y)) \<Longrightarrow> returns (case x of Inl y \<Rightarrow> f y | Inr y \<Rightarrow> g y)"
  by (cases x) auto

lemma returns_sync: "returns (syncReferenceGrants p)"
  unfolding syncReferenceGrants_def sync_namespace_def sync_secrets_def Let_def
  by (intro returns_intros returns_case_sum returns_for_each)

lemma keeps_gateways_settle: "keeps (gateways_same d0) (settle_domain st msg x)"
  unfolding settle_domain_def Let_def DomainRepo_Update_def
  by (auto intro!: keeps_bind keeps_attempt keeps_updates dest!: domain_save_Inr simp: gateways_same_def)

lemma hoare_gatewayConfigForApply:
  "hoare (\<lambda>d. d = d0) (gatewayConfigForApply x) (\<lambda>g d. d = d0 \<and> wanted_gateway d0 x = Some (BuildGatewayObject g) \<and>
     gcNamespace g = domNamespace x \<and> gcName g = domK8sGatewayName x) (\<lambda>_ d. d = d0)"
  unfolding gatewayConfigForApply_def TemplateService_GetByID_def DomainTemplateRepo_GetByID_def
  by (rule hoare_pre, (rule wp)+) (auto simp: wanted_gateway_def split: option.splits)

lemma gateways_same_trans: "gateways_same d0 d1 \<Longrightarrow> gateways_same d1 d2 \<Longrightarrow> gateways_same d0 d2"
  by (simp add: gateways_same_def)

lemma gateways_same_refl [simp]: "gateways_same d d"
  by (simp add: gateways_same_def)

lemma gateways_same_lookup: "gateways_same d0 d \<Longrightarrow> k8s_lookup (gateway_key p ns n) d = k8s_lookup (gateway_key p ns n) d0"
  by (simp add: gateways_same_def gateway_key_def)

lemma keeps_same_spec: "(\<And>d0. keeps (gateways_same d0) m) \<Longrightarrow> hoare (\<lambda>d. d = d0) m (\<lambda>_ d. gateways_same d0 d) (\<lambda>_ d. gateways_same d0 d)"
  by (rule hoare_pre [OF keeps_hoare]) auto

lemma hoare_settle_row:
  "hoare (\<lambda>d. d = d0) (settle_domain st msg x) (\<lambda>y d. y = x\<lparr>domStatus := st, domStatusMessage := msg\<rparr> \<and> gateways_same d0 d) (\<lambda>_ _. False)"
  unfolding settle_domain_def Let_def DomainRepo_Update_def
  by (rule hoare_pre, (rule wp)+) (auto dest!: domain_save_Inr simp: gateways_same_def)

text \<open>An apply that returns has put the wanted Gateway; one that fails has touched none.\<close>

lemma hoare_applyGateway:
  "hoare (\<lambda>d. d = d0) (applyGateway x)
     (\<lambda>y d. y = x\<lparr>domStatus := DomainStatusActive, domStatusMessage := ''Gateway updated successfully''\<rparr> \<and>
        k8s_lookup (domain_key x) d = map_option GatewayObj (wanted_gateway d0 x) \<and> wanted_gateway d0 x \<noteq> None)
     (\<lambda>_ d. gateways_same d0 d)"
proof -
  have u: "hoare (\<lambda>d. d = dd) (UpdateGateway p g)
      (\<lambda>_ d. k8s_lookup (gateway_key p (gcNamespace g) (gcName g)) d = Some (GatewayObj (BuildGatewayObject g)))
      (\<lambda>_ d. gateways_same dd d)" for dd p g
    by (rule hoare_post [OF hoare_UpdateGateway]) (auto simp: other_gateways_def gateways_same_def)
  have s: "hoare (\<lambda>d. d = dd) (syncReferenceGrants p) (\<lambda>_ d. gateways_same dd d) (\<lambda>_ _. False)" for dd p
    by (rule hoare_returns [OF returns_sync keeps_same_spec [OF keeps_gateways_sync]])
  show ?thesis
    unfolding applyGateway_def
    by (rule hoare_pre, (rule hoare_readonly [OF hoare_gatewayConfigForApply] hoare_spec [OF u] hoare_spec [OF s] hoare_spec [OF hoare_settle_row] | rule wp)+)
      (auto simp: domain_key_def gateways_same_lookup intro: gateways_same_trans)
qed

section \<open>Properties\<close>


definition reached :: "(error + 'a) \<times> (db \<times> bool list) \<Rightarrow> db" where
  "reached r = fst (snd r)"

definition gw_one :: db where
  "gw_one = reached (TemplateService_Create 1 sample_template_input 7 (empty_db, []))"

definition gw_two :: db where
  "gw_two = reached (StreamService_Create sample_svc 1 \<lparr>csiName = ''db'', csiNamespace = FastGatewayNamespace,
     csiGatewayTemplateID = 1, csiPorts = [\<lparr>spTransport = ''tcp'', spPort = 8\<rparr>]\<rparr> None (gw_one, []))"

lemma reach_gw_two: "gateway_reach gw_two"
proof -
  have "\<exists>r s. m = (r, (reached m, s))" for m :: "(error + 'a) \<times> (db \<times> bool list)"
    by (cases m) (auto simp: reached_def)
  then have one: "gateway_step empty_db gw_one" and two: "gateway_step gw_one gw_two"
    unfolding gw_one_def gw_two_def by (metis gateway_step.create_template, metis gateway_step.create_stream)
  show ?thesis by (rule gateway_reach.step [OF gateway_reach.step [OF gateway_reach.start one] two])
qed


text \<open>C19. Applying a domain's Gateway fails closed: when it returns, the cluster holds exactly the Gateway that the domain's row and
  its template call for, and when it fails, for instance because the template cannot be resolved, no Gateway has changed.\<close>

theorem apply_fails_closed:
  assumes "applyGateway x (d, fs) = (r, (d', fs'))"
  shows "case r of
      Inl _ \<Rightarrow> gateways_same d d'
    | Inr y \<Rightarrow> domStatus y = DomainStatusActive \<and> wanted_gateway d x \<noteq> None \<and>
        k8s_lookup (domain_key x) d' = map_option GatewayObj (wanted_gateway d x)"
  using hoare_run [OF hoare_applyGateway assms] by (auto split: sum.splits)

definition sample_unresolved :: "(error + Domain) \<times> (db \<times> bool list)" where
  "sample_unresolved = applyGateway sample_domain (sample_streams\<lparr>domain_templates := []\<rparr>, [])"

theorem apply_fails_closed_witness:
  "\<exists>e d' fs'. sample_unresolved = (Inl e, (d', fs')) \<and> gateways_same (sample_streams\<lparr>domain_templates := []\<rparr>) d'"
proof -
  have "case sample_unresolved of (Inl _, _) \<Rightarrow> True | (Inr _, _) \<Rightarrow> False" by code_simp
  then obtain e d' fs' where run: "sample_unresolved = (Inl e, (d', fs'))" by (auto split: prod.splits sum.splits)
  then show ?thesis using apply_fails_closed [OF run [unfolded sample_unresolved_def]] by auto
qed

lemma https_secret:
  assumes "wanted_gateway d (x\<lparr>domManagedCertificateID := Some c\<rparr>) = Some g" "l \<in> set (goListeners g)" "loProtocol l = ''HTTPS''"
  shows "\<exists>mode ns. loTLS l = Some (mode, ''cert-'' @ uuid_string c, ns)"
proof -
  have "\<exists>t ann. g = BuildGatewayObject (BuildGatewayConfig (x\<lparr>domManagedCertificateID := Some c\<rparr>) t ann)"
    using assms(1) by (auto simp: wanted_gateway_def split: option.splits)
  then show ?thesis using assms(2,3)
    by (auto simp: BuildGatewayObject_def BuildGatewayConfig_def Let_def buildHTTPListener_def buildHTTPSListener_def split: if_splits)
qed

lemma hoare_AttachCertificate:
  "hoare (\<lambda>d. d = d0) (AttachCertificate i c p)
     (\<lambda>y d. \<exists>x cert. row_get domID i (domains d0) = Some x \<and> domProjectID x = p \<and>
        row_get mcID c (managed_certificates d0) = Some cert \<and> mcProjectID cert = p \<and> mcUsage cert = ManagedCertUsageServer \<and>
        mcStatus cert = ManagedCertStatusReady \<and> domProjectID y = p \<and> domManagedCertificateID y = Some c \<and>
        (let x' = x\<lparr>domManagedCertificateID := Some c\<rparr>
         in wanted_gateway d0 x' \<noteq> None \<and> k8s_lookup (domain_key x) d = map_option GatewayObj (wanted_gateway d0 x')))
     (\<lambda>_ d. gateways_same d0 d)"
proof -
  have frame: "wanted_gateway (d\<lparr>domains := r\<rparr>) x = wanted_gateway d x" "gateways_same (d\<lparr>domains := r\<rparr>) d' = gateways_same d d'" for d r x d'
    by (auto simp: wanted_gateway_def gateways_same_def split: option.splits)
  have key: "domain_key (x\<lparr>domManagedCertificateID := z\<rparr>) = domain_key x" for x z by (simp add: domain_key_def)
  show ?thesis
    unfolding AttachCertificate_def domain_in_project_def DomainRepo_GetByID_def CertRepo_GetByID_def DomainRepo_Update_def Let_def
    by (rule hoare_pre, (rule hoare_spec [OF hoare_applyGateway] | rule wp)+)
      (auto simp: frame key dest!: domain_save_Inr)
qed

text \<open>C20. A certificate that is attached to a domain belongs to the project of the caller and the domain, is a server certificate and
  ready, and every HTTPS listener of the domain's Gateway then serves its secret.\<close>

theorem attached_certificate_serves:
  assumes "AttachCertificate i c p (d, fs) = (Inr y, (d', fs'))"
  shows "domProjectID y = p \<and> domManagedCertificateID y = Some c \<and>
    (\<exists>cert. row_get mcID c (managed_certificates d) = Some cert \<and> mcProjectID cert = p \<and> mcUsage cert = ManagedCertUsageServer \<and>
       mcStatus cert = ManagedCertStatusReady) \<and>
    (\<exists>x g. row_get domID i (domains d) = Some x \<and> k8s_lookup (domain_key x) d' = Some (GatewayObj g) \<and>
       (\<forall>l \<in> set (goListeners g). loProtocol l = ''HTTPS'' \<longrightarrow> (\<exists>mode ns. loTLS l = Some (mode, ''cert-'' @ uuid_string c, ns))))"
proof -
  obtain x cert g where a: "row_get domID i (domains d) = Some x" "row_get mcID c (managed_certificates d) = Some cert"
    "mcProjectID cert = p" "mcUsage cert = ManagedCertUsageServer" "mcStatus cert = ManagedCertStatusReady"
    "domProjectID y = p" "domManagedCertificateID y = Some c" "wanted_gateway d (x\<lparr>domManagedCertificateID := Some c\<rparr>) = Some g"
    "k8s_lookup (domain_key x) d' = Some (GatewayObj g)"
    using hoare_run [OF hoare_AttachCertificate assms] by (auto simp: Let_def)
  then show ?thesis using https_secret [OF a(8)] by blast
qed

definition sample_tls :: db where
  "sample_tls = sample_store\<lparr>managed_certificates := [sample_cert], domains := [sample_domain\<lparr>domBoundListeners := [''https'']\<rparr>],
     domain_templates := [sample_template\<lparr>dtListeners := [\<lparr>tlName = ''https'', tlProtocol = ListenerHTTPS, tlPort = 9,
       tlTLSMode = ''Terminate'', tlPortRangeMin = 0, tlPortRangeMax = 0\<rparr>]\<rparr>]\<rparr>"

definition sample_attach :: "(error + Domain) \<times> (db \<times> bool list)" where
  "sample_attach = AttachCertificate 5 14 1 (sample_tls, [])"

theorem attached_certificate_serves_witness:
  "\<exists>y d' g l. sample_attach = (Inr y, (d', [])) \<and> domManagedCertificateID y = Some 14 \<and> goListeners g = [l] \<and> loProtocol l = ''HTTPS'' \<and>
     k8s_lookup (domain_key (sample_domain\<lparr>domBoundListeners := [''https'']\<rparr>)) d' = Some (GatewayObj g) \<and>
     (\<exists>mode ns. loTLS l = Some (mode, ''cert-'' @ uuid_string 14, ns))"
proof -
  let ?x = "sample_domain\<lparr>domBoundListeners := [''https'']\<rparr>"
  have "case sample_attach of (Inr y, (d', fs)) \<Rightarrow> fs = [] \<and> (case k8s_lookup (domain_key ?x) d' of
      Some (GatewayObj g) \<Rightarrow> map loProtocol (goListeners g) = [''HTTPS''] | _ \<Rightarrow> False) | (Inl _, _) \<Rightarrow> False" by code_simp
  then obtain y d' g l where run: "sample_attach = (Inr y, (d', []))" and g: "k8s_lookup (domain_key ?x) d' = Some (GatewayObj g)"
    "goListeners g = [l]" "loProtocol l = ''HTTPS''"
    by (auto split: prod.splits sum.splits option.splits k8s_object.splits)
  have "row_get domID 5 (domains sample_tls) = Some ?x" by (simp add: sample_tls_def sample_domain_def row_get_def)
  then have "domManagedCertificateID y = Some 14" "\<exists>mode ns. loTLS l = Some (mode, ''cert-'' @ uuid_string 14, ns)"
    using attached_certificate_serves [OF run [unfolded sample_attach_def]] g by auto
  then show ?thesis using run g by blast
qed

section \<open>Where the code falls short\<close>

text \<open>Two domains whose names differ only in a dot and a dash have one Gateway, and a domain can have the Gateway of a stream.\<close>

theorem gateway_names_collide:
  "generateK8sName ''a.b'' = generateK8sName ''a-b'' \<and> generateK8sName ''str.db'' = StreamGatewayName ''db''"
  by code_simp

definition sample_applied :: "(error + unit) \<times> (db \<times> bool list)" where
  "sample_applied = ReconcileGateways (\<lambda>_. None) (sample_streams, [])"

definition sample_impostor :: "(error + Domain) \<times> (db \<times> bool list)" where
  "sample_impostor = DomainService_Create (server_domains None True) 1
     \<lparr>cdmName = ''db'', cdmHostname = ''str.db'', cdmDomainTemplateID = ''3'', cdmTLSSecretName = [], cdmTLSSecretNamespace = [],
      cdmNamespace = [], cdmLabels = [], cdmBoundListeners = [''http''], cdmDNS = None\<rparr> 7 (reached sample_applied, [])"

definition sample_removed :: "(error + unit) \<times> (db \<times> bool list)" where
  "sample_removed = (case sample_impostor of
     (Inr x, s) \<Rightarrow> DomainService_Delete (server_domains None True) (domID x) s | (Inl e, s) \<Rightarrow> (Inl e, s))"

definition gateway_of_stream :: "uuid \<Rightarrow> db \<Rightarrow> k8s_object option" where
  "gateway_of_stream i d = (case row_get strID i (streams d) of
     None \<Rightarrow> None | Some s \<Rightarrow> k8s_lookup (gateway_key (strProjectID s) (strNamespace s) (strK8sGatewayName s)) d)"

text \<open>A domain named \<open>str.db\<close> is accepted beside the stream \<open>db\<close>, and deleting that domain deletes the Gateway of the stream.\<close>

theorem domain_delete_drops_a_stream:
  "gateway_of_stream 21 (reached sample_impostor) \<noteq> None \<and> gateway_of_stream 21 (reached sample_removed) = None \<and>
   (case (sample_impostor, sample_removed) of ((Inr x, _), (Inr _, _)) \<Rightarrow> domHostname x = ''str.db'' | _ \<Rightarrow> False)"
  by code_simp

end
