(* ===== verification/RouteWrite.thy ===== *)
theory RouteWrite
  imports RouteValidation RouteApproval DomainInv
begin

text \<open>
  Writing routes: \<open>src/internal/services/route_write_service.go\<close> and \<open>route_write_approval.go\<close>, with the names of
  \<open>src/internal/kubernetes/naming.go\<close>. A route is created,
  updated or deleted by submitting an approval, or at once where the project has approvals disabled.

  \<open>uuid.Nil\<close> as the domain of a create stands for a route of a stream. The machine that moves the status is \<^const>\<open>To\<close>,
  the engine is \<^const>\<open>Submit\<close>; \<open>l4Ports\<close> is the optional stream service that checks listener ports.
\<close>

section \<open>Names\<close>

definition MaxK8sNameLength :: nat where "MaxK8sNameLength = 63"

text \<open>\<open>strings.Trim(s, "-")\<close>\<close>

definition trim_dashes :: "string \<Rightarrow> string" where
  "trim_dashes s = rev (dropWhile (\<lambda>c. c = CHR ''-'') (rev (dropWhile (\<lambda>c. c = CHR ''-'') s)))"

definition sanitize :: "string \<Rightarrow> string" where
  "sanitize name = trim_dashes (filter (\<lambda>c. is_lower c \<or> is_digit c \<or> c = CHR ''-'')
     (map (\<lambda>c. if c = CHR '' '' \<or> c = CHR ''_'' then CHR ''-'' else c) (ToLower name)))"

definition RouteK8sName :: "string \<Rightarrow> string \<Rightarrow> string" where
  "RouteK8sName routeName routeID =
     (let name = sanitize routeName; short = take 8 routeID; full = name @ ''-'' @ short
      in if length full \<le> MaxK8sNameLength then full
         else if MaxK8sNameLength - length short - 1 < 1 then short
         else take (MaxK8sNameLength - length short - 1) name @ ''-'' @ short)"

section \<open>Inputs\<close>

record CreateRouteInput =
  criName :: string
  criDescription :: string
  criProtocol :: RouteProtocol
  criSecurityMode :: SecurityMode
  criTeamID :: uuid
  criConfig :: RouteConfig
  criSecurityPolicy :: "SecurityPolicyInput option"
  criBackendTrafficPolicy :: "BackendTrafficPolicyConfig option"
  criExtensionPolicy :: "EnvoyExtensionPolicyConfig option"
  criWafPolicy :: "WafPolicyConfig option"
  criChangeDescription :: string
  criAIReview :: "doc option"
  criLabels :: "(string \<times> string) list option"
  criStreamID :: "uuid option"

record UpdateRouteInput =
  uriDescription :: string
  uriConfig :: RouteConfig
  uriSecurityPolicy :: "SecurityPolicyInput option"
  uriBackendTrafficPolicy :: "BackendTrafficPolicyConfig option"
  uriExtensionPolicy :: "EnvoyExtensionPolicyConfig option"
  uriWafPolicy :: "WafPolicyConfig option"
  uriChangeDescription :: string
  uriAIReview :: "doc option"
  uriLabels :: "(string \<times> string) list option"

record createPlan =
  cpDomain :: "uuid option"
  cpIsStream :: bool
  cpProjectID :: uuid
  cpProtocol :: RouteProtocol
  cpSecurityMode :: SecurityMode

section \<open>Owners\<close>

definition resolveStream :: "uuid \<Rightarrow> uuid option \<Rightarrow> Stream m" where
  "resolveStream streamID wantProject =
     bind (or_error ErrStreamNotFound (StreamRepo_GetByID streamID)) (\<lambda>stream.
     bind (require (wantProject = None \<or> wantProject = Some (strProjectID stream)) ErrStreamNotFound) (\<lambda>_. ret stream))"

definition routeProjectID :: "Route \<Rightarrow> uuid m" where
  "routeProjectID route =
     bind (lift_check (validateRouteOwner (rtDomainID route) (rtStreamID route))) (\<lambda>_.
     if IsL4 route
     then (case rtStreamID route of
         None \<Rightarrow> throw (Msg ''an L4 route must belong to a stream'')
       | Some s \<Rightarrow> bind (resolveStream s None) (\<lambda>stream. ret (strProjectID stream)))
     else (case rtDomainID route of
         None \<Rightarrow> throw (Msg ''a non-L4 route must belong to a domain'')
       | Some i \<Rightarrow> bind (or_error (Msg ''domain not found'') (DomainRepo_GetByID i)) (\<lambda>domain. ret (domProjectID domain))))"

definition mapL4PersistError :: "error \<Rightarrow> error" where
  "mapL4PersistError e =
     (if errors_Is e ErrDuplicatedKey then Wrap ''%w: another route on this stream already uses that protocol and port'' ErrPortCollision else e)"

definition create_owner :: "uuid \<Rightarrow> CreateRouteInput \<Rightarrow> uuid option \<Rightarrow> uuid m" where
  "create_owner domainID inp wantProject = (case criStreamID inp of
     Some s \<Rightarrow>
       bind (require (proto_is_l4 (criProtocol inp)) ErrRouteProtocolNotL4) (\<lambda>_.
       bind (resolveStream s wantProject) (\<lambda>stream.
       bind (RouteRepo_ExistsByStreamAndName (strID stream) (criName inp)) (\<lambda>exists.
       bind (require (\<not> exists) (Msg ''route name already exists in this stream'')) (\<lambda>_. ret (strProjectID stream)))))
   | None \<Rightarrow>
       bind (RouteRepo_ExistsByName domainID (criName inp)) (\<lambda>exists.
       bind (require (\<not> exists) (Msg ''route name already exists in this domain'')) (\<lambda>_.
       bind (or_error (Msg ''domain not found'') (DomainRepo_GetByID domainID)) (\<lambda>domain. ret (domProjectID domain)))))"

definition validateCreate :: "StreamService option \<Rightarrow> uuid \<Rightarrow> CreateRouteInput \<Rightarrow> uuid option \<Rightarrow> createPlan m" where
  "validateCreate l4Ports domainID inp wantProject =
     (let domainPtr = (if domainID = 0 then None else Some domainID);
          protocol = (if criProtocol inp = RouteProtocolEmpty then RouteProtocolHTTP else criProtocol inp);
          mode = (if criSecurityMode inp = SecurityModeEmpty then SecurityModeGeneral else criSecurityMode inp)
      in bind (lift_check (checks
           [validateRouteOwner domainPtr (criStreamID inp),
            fail_if (CHR '' '' \<in> set (criName inp)) ''route name cannot contain spaces'',
            fail_if (\<not> isValidK8sName (criName inp)) ''route name must be lowercase alphanumeric with dashes only (e.g., 'user-api')''])) (\<lambda>_.
         bind (create_owner domainID inp wantProject) (\<lambda>projectID.
         bind (validateRouteTrafficPolicies (criConfig inp) (criBackendTrafficPolicy inp) projectID) (\<lambda>_.
         bind (lift_check (validateDirectResponseInput (criConfig inp) (criBackendTrafficPolicy inp))) (\<lambda>_.
         bind (or_error (Msg ''team not found'') (TeamRepo_GetByID (criTeamID inp))) (\<lambda>_.
         bind (lift_check (checks
           [validateWriteSecurityMode mode (criSecurityPolicy inp) True,
            check_when (proto_is_l4 protocol)
              (validateL4PolicyInputs protocol mode (criSecurityPolicy inp) (criExtensionPolicy inp) (criWafPolicy inp) (criBackendTrafficPolicy inp))])) (\<lambda>_.
         bind (validateRouteShapeAndConflicts l4Ports (criConfig inp) (criBackendTrafficPolicy inp) protocol domainID (criStreamID inp) None) (\<lambda>_.
         ret \<lparr>cpDomain = domainPtr, cpIsStream = (criStreamID inp \<noteq> None), cpProjectID = projectID, cpProtocol = protocol, cpSecurityMode = mode\<rparr>))))))))"

section \<open>Policies and snapshots\<close>

definition security_config :: "bool \<Rightarrow> SecurityPolicyInput \<Rightarrow> SecurityPolicyConfig" where
  "security_config general i =
     \<lparr>spcCORS = siCORS i,
      spcAuthorization = (if general then BuildAuthorizationConfigFromInput (siAuthorization i) else None),
      spcAPIKeyAuth = (if general then BuildAPIKeyAuthConfigFromInput (siAPIKeyAuth i) else None),
      spcBasicAuth = None,
      spcJWT = (if general then BuildJWTConfigFromInput (siJWT i) else None),
      spcOIDC = (if general then BuildOIDCConfigFromInput (siOIDC i) else None),
      spcExtAuth = siExtAuth i\<rparr>"

definition with_content :: "('a \<Rightarrow> bool) \<Rightarrow> 'a option \<Rightarrow> 'a option" where
  "with_content p x = (case x of None \<Rightarrow> None | Some y \<Rightarrow> if p y then Some y else None)"

text \<open>A WAF policy that does not validate is left out of the snapshot.\<close>

definition proposed_snapshot ::
  "bool \<Rightarrow> RouteConfig \<Rightarrow> SecurityPolicyInput option \<Rightarrow> BackendTrafficPolicyConfig option \<Rightarrow> EnvoyExtensionPolicyConfig option \<Rightarrow>
   WafPolicyConfig option \<Rightarrow> RouteApprovalSnapshot" where
  "proposed_snapshot general config sp btp eep waf =
     \<lparr>snRouteConfig = Some config, snSecurityPolicy = map_option (security_config general) sp,
      snBackendTrafficPolicy = with_content BTP_HasContent btp, snEnvoyExtensionPolicy = with_content EEP_HasContent eep,
      snWafPolicy = with_content (\<lambda>w. WafPolicyConfig_Validate w = Inr ()) waf\<rparr>"

definition current_policy :: "(db \<Rightarrow> 'c PolicyRow list) \<Rightarrow> uuid \<Rightarrow> 'c option m" where
  "current_policy rows i = bind (attempt (policy_Get rows i)) (\<lambda>r. ret (case r of Inl _ \<Rightarrow> None | Inr p \<Rightarrow> Some (prwConfig p)))"

definition policy_row :: "uuid \<Rightarrow> uuid \<Rightarrow> 'c \<Rightarrow> 'c PolicyRow" where
  "policy_row i p c = \<lparr>prwRouteID = i, prwProjectID = p, prwConfig = c\<rparr>"

definition persistCreatePolicies :: "Route \<Rightarrow> uuid \<Rightarrow> SecurityMode \<Rightarrow> CreateRouteInput \<Rightarrow> unit m" where
  "persistCreatePolicies route projectID mode inp =
     bind (case criSecurityPolicy inp of None \<Rightarrow> ret ()
       | Some sp \<Rightarrow> wrap_error ''failed to create security policy: %w''
           (policy_Create security_policies put_sp (policy_row (rtID route) projectID (security_config (mode = SecurityModeGeneral) sp)))) (\<lambda>_.
     bind (case with_content BTP_HasContent (criBackendTrafficPolicy inp) of None \<Rightarrow> ret ()
       | Some btp \<Rightarrow> wrap_error ''failed to create backend traffic policy: %w''
           (policy_Create backend_traffic_policies put_btp (policy_row (rtID route) projectID btp))) (\<lambda>_.
     bind (case with_content EEP_HasContent (criExtensionPolicy inp) of None \<Rightarrow> ret ()
       | Some eep \<Rightarrow> wrap_error ''failed to create envoy extension policy: %w''
           (policy_Create envoy_extension_policies put_eep (policy_row (rtID route) projectID eep))) (\<lambda>_.
     case criWafPolicy inp of None \<Rightarrow> ret ()
     | Some waf \<Rightarrow>
         bind (lift_check (wrap_check ''invalid WAF policy config: %w'' (WafPolicyConfig_Validate waf))) (\<lambda>_.
         wrap_error ''failed to create WAF policy: %w'' (policy_Create waf_policies put_waf (policy_row (rtID route) projectID waf))))))"

definition persistUpdatePolicies :: "Route \<Rightarrow> uuid \<Rightarrow> UpdateRouteInput \<Rightarrow> unit m" where
  "persistUpdatePolicies route projectID inp =
     bind (case uriSecurityPolicy inp of
         None \<Rightarrow> bind (attempt (policy_DeleteByRouteID security_policies put_sp (rtID route))) (\<lambda>_. ret ())
       | Some sp \<Rightarrow> wrap_error ''failed to update security policy: %w'' (policy_Upsert security_policies put_sp
           (policy_row (rtID route) projectID (security_config (\<not> other_mode (rtSecurityMode route)) sp)))) (\<lambda>_.
     bind (case with_content BTP_HasContent (uriBackendTrafficPolicy inp) of
         None \<Rightarrow> bind (attempt (policy_DeleteByRouteID backend_traffic_policies put_btp (rtID route))) (\<lambda>_. ret ())
       | Some btp \<Rightarrow> wrap_error ''failed to update backend traffic policy: %w''
           (policy_Upsert backend_traffic_policies put_btp (policy_row (rtID route) projectID btp))) (\<lambda>_.
     bind (case with_content EEP_HasContent (uriExtensionPolicy inp) of
         None \<Rightarrow> bind (attempt (policy_DeleteByRouteID envoy_extension_policies put_eep (rtID route))) (\<lambda>_. ret ())
       | Some eep \<Rightarrow> wrap_error ''failed to update envoy extension policy: %w''
           (policy_Upsert envoy_extension_policies put_eep (policy_row (rtID route) projectID eep))) (\<lambda>_.
     case uriWafPolicy inp of None \<Rightarrow> ret ()
     | Some waf \<Rightarrow>
         bind (lift_check (wrap_check ''invalid WAF policy config: %w'' (WafPolicyConfig_Validate waf))) (\<lambda>_.
         wrap_error ''failed to update WAF policy: %w'' (policy_Upsert waf_policies put_waf (policy_row (rtID route) projectID waf))))))"

section \<open>Submission\<close>

text \<open>Without approvals the status moves at once, and there is no approval to return.\<close>

definition submit_or_skip :: "uuid \<Rightarrow> Route m \<Rightarrow> Spec \<Rightarrow> (Route option \<times> Approval option) m" where
  "submit_or_skip projectID skip spec =
     bind (wrap_error ''failed to check project approval settings: %w'' (ProjectRepo_GetByID projectID)) (\<lambda>project.
     if \<not> prjApprovalEnabled project then bind skip (\<lambda>route. ret (Some route, None))
     else bind (Submit spec) (\<lambda>a. ret (None, Some a)))"

definition route_spec ::
  "Route \<Rightarrow> uuid \<Rightarrow> ApprovalAction \<Rightarrow> RouteApprovalSnapshot \<Rightarrow> RouteApprovalSnapshot option \<Rightarrow> uuid \<Rightarrow> doc option \<Rightarrow> string \<Rightarrow> Spec" where
  "route_spec route projectID action snapshot previous by review change =
     \<lparr>spProjectID = projectID, spEntityType = ApprovalEntityRoute, spEntityID = rtID route, spAction = action, spSubmittedBy = by,
      spConfigSnapshot = Some (Doc snapshot), spPreviousConfig = map_option Doc previous, spAIReview = review, spChangeDescription = change\<rparr>"

definition submitCreateApproval :: "Route \<Rightarrow> uuid \<Rightarrow> CreateRouteInput \<Rightarrow> uuid \<Rightarrow> RouteApprovalSnapshot \<Rightarrow> (Route option \<times> Approval option) m" where
  "submitCreateApproval route projectID inp createdBy snapshot =
     submit_or_skip projectID (To SiteRouteCreateFastPath route RouteStatusApproved)
       (route_spec route projectID ApprovalActionCreate snapshot None createdBy (criAIReview inp) (criChangeDescription inp))"

definition submitUpdateApproval ::
  "Route \<Rightarrow> uuid \<Rightarrow> UpdateRouteInput \<Rightarrow> uuid \<Rightarrow> RouteApprovalSnapshot \<Rightarrow> RouteApprovalSnapshot \<Rightarrow> (Route option \<times> Approval option) m" where
  "submitUpdateApproval route projectID inp submittedBy proposed previous =
     submit_or_skip projectID (To SiteRouteUpdateFastPath route RouteStatusPendingDeploy)
       (route_spec route projectID ApprovalActionUpdate proposed (Some previous) submittedBy (uriAIReview inp) (uriChangeDescription inp))"

definition submitDeleteApproval :: "Route \<Rightarrow> uuid \<Rightarrow> uuid \<Rightarrow> RouteApprovalSnapshot \<Rightarrow> (Route option \<times> Approval option) m" where
  "submitDeleteApproval route projectID submittedBy current =
     submit_or_skip projectID (To SiteRouteDeleteFastPath route RouteStatusPendingDeploy)
       (route_spec route projectID ApprovalActionDelete current None submittedBy None [])"

section \<open>The service\<close>

definition newID :: "uuid m" where
  "newID s = (case s of (d, fs) \<Rightarrow> (Inr (next_id d), (d\<lparr>next_id := Suc (next_id d)\<rparr>, fs)))"

definition new_route :: "createPlan \<Rightarrow> CreateRouteInput \<Rightarrow> uuid \<Rightarrow> uuid \<Rightarrow> Route" where
  "new_route plan inp routeID createdBy = SyncListenerPort
     \<lparr>rtID = routeID, rtDomainID = cpDomain plan, rtStreamID = criStreamID inp, rtListenerPort = None, rtTeamID = criTeamID inp,
      rtName = criName inp, rtDescription = criDescription inp, rtProtocol = cpProtocol plan, rtSecurityMode = cpSecurityMode plan,
      rtConfig = criConfig inp, rtStatus = RouteStatusPendingCreate, rtK8sRouteName = RouteK8sName (criName inp) (uuid_string routeID),
      rtCreatedBy = createdBy, rtLabels = (case criLabels inp of None \<Rightarrow> [] | Some l \<Rightarrow> l)\<rparr>"

definition route_create :: "StreamService option \<Rightarrow> uuid \<Rightarrow> CreateRouteInput \<Rightarrow> uuid \<Rightarrow> uuid option \<Rightarrow> (Route \<times> Approval option) m" where
  "route_create l4Ports domainID inp createdBy wantProject =
     bind (validateCreate l4Ports domainID inp wantProject) (\<lambda>plan.
     bind newID (\<lambda>routeID.
     bind (lift_check (check_opt ValidateLabels (criLabels inp))) (\<lambda>_.
     let route = new_route plan inp routeID createdBy;
         snapshot = proposed_snapshot (cpSecurityMode plan = SecurityModeGeneral) (criConfig inp) (criSecurityPolicy inp)
           (criBackendTrafficPolicy inp) (criExtensionPolicy inp) (criWafPolicy inp)
     in bind (attempt (RouteRepo_Create route)) (\<lambda>r. case r of
          Inl e \<Rightarrow> throw (if cpIsStream plan then mapL4PersistError e else e)
        | Inr _ \<Rightarrow>
          bind (submitCreateApproval route (cpProjectID plan) inp createdBy snapshot) (\<lambda>out. case out of
            (Some route', _) \<Rightarrow> ret (route', None)
          | (None, approval) \<Rightarrow>
            bind (persistCreatePolicies route (cpProjectID plan) (cpSecurityMode plan) inp) (\<lambda>_. ret (route, approval)))))))"

definition RouteService_Create :: "StreamService option \<Rightarrow> uuid \<Rightarrow> CreateRouteInput \<Rightarrow> uuid \<Rightarrow> (Route \<times> Approval option) m" where
  "RouteService_Create l4Ports domainID inp createdBy = route_create l4Ports domainID inp createdBy None"

definition CreateForStream :: "StreamService option \<Rightarrow> uuid \<Rightarrow> uuid \<Rightarrow> CreateRouteInput \<Rightarrow> uuid \<Rightarrow> (Route \<times> Approval option) m" where
  "CreateForStream l4Ports projectID streamID inp createdBy =
     route_create l4Ports 0 (inp\<lparr>criStreamID := Some streamID\<rparr>) createdBy (Some projectID)"

definition validateUpdate :: "StreamService option \<Rightarrow> uuid \<Rightarrow> Route \<Rightarrow> UpdateRouteInput \<Rightarrow> uuid m" where
  "validateUpdate l4Ports i route inp =
     bind (routeProjectID route) (\<lambda>projectID.
     bind (validateRouteTrafficPolicies (uriConfig inp) (uriBackendTrafficPolicy inp) projectID) (\<lambda>_.
     bind (lift_check (checks
       [validateWriteSecurityMode (rtSecurityMode route) (uriSecurityPolicy inp) False,
        check_when (IsL4 route)
          (validateL4PolicyInputs (rtProtocol route) (rtSecurityMode route) (uriSecurityPolicy inp) (uriExtensionPolicy inp) (uriWafPolicy inp)
             (uriBackendTrafficPolicy inp))])) (\<lambda>_.
     bind (validateRouteShapeAndConflicts l4Ports (uriConfig inp) (uriBackendTrafficPolicy inp) (rtProtocol route)
       (case rtDomainID route of None \<Rightarrow> 0 | Some x \<Rightarrow> x) (rtStreamID route) (Some i)) (\<lambda>_.
     bind (lift_check (validateDirectResponseInput (uriConfig inp) (uriBackendTrafficPolicy inp))) (\<lambda>_. ret projectID)))))"

definition no_pending_approval :: "uuid \<Rightarrow> unit m" where
  "no_pending_approval i = bind (attempt (ApprovalRepo_GetPendingByEntityID ApprovalEntityRoute i)) (\<lambda>r. case r of
     Inr _ \<Rightarrow> throw (Msg ''there is already a pending approval for this route'') | Inl _ \<Rightarrow> ret ())"

text \<open>A route that already waits for an update is written as it is: the machine would not write it.\<close>

definition mark_pending_update :: "Route \<Rightarrow> Route m" where
  "mark_pending_update route =
     (if rtStatus route = RouteStatusPendingUpdate then bind (RouteRepo_Update route) (\<lambda>_. ret (SyncListenerPort route))
      else To SiteRouteUpdate route RouteStatusPendingUpdate)"

definition RouteService_Update :: "StreamService option \<Rightarrow> uuid \<Rightarrow> UpdateRouteInput \<Rightarrow> uuid \<Rightarrow> (Route \<times> Approval option) m" where
  "RouteService_Update l4Ports i inp submittedBy =
     bind (RouteRepo_GetByID i) (\<lambda>route.
     bind (validateUpdate l4Ports i route inp) (\<lambda>projectID.
     bind (no_pending_approval i) (\<lambda>_.
     bind (current_policy security_policies (rtID route)) (\<lambda>prevSP.
     bind (current_policy backend_traffic_policies (rtID route)) (\<lambda>prevBTP.
     bind (current_policy envoy_extension_policies (rtID route)) (\<lambda>prevEEP.
     bind (lift_check (check_opt ValidateLabels (uriLabels inp))) (\<lambda>_.
     bind (mark_pending_update (route\<lparr>rtDescription := override_string (rtDescription route) (uriDescription inp),
       rtLabels := override (rtLabels route) (uriLabels inp)\<rparr>)) (\<lambda>route'.
     bind (current_policy waf_policies (rtID route)) (\<lambda>prevWaf.
     bind (submitUpdateApproval route' projectID inp submittedBy
       (proposed_snapshot (\<not> other_mode (rtSecurityMode route)) (uriConfig inp) (uriSecurityPolicy inp) (uriBackendTrafficPolicy inp)
          (uriExtensionPolicy inp) (uriWafPolicy inp))
       \<lparr>snRouteConfig = Some (rtConfig route), snSecurityPolicy = prevSP, snBackendTrafficPolicy = prevBTP,
        snEnvoyExtensionPolicy = prevEEP, snWafPolicy = prevWaf\<rparr>) (\<lambda>out. case out of
         (Some route'', _) \<Rightarrow> ret (route'', None)
       | (None, approval) \<Rightarrow> bind (persistUpdatePolicies route' projectID inp) (\<lambda>_. ret (route', approval))))))))))))"

definition RouteService_Delete :: "uuid \<Rightarrow> uuid \<Rightarrow> (Route \<times> Approval option) m" where
  "RouteService_Delete i submittedBy =
     bind (RouteRepo_GetByID i) (\<lambda>route.
     bind (no_pending_approval i) (\<lambda>_.
     bind (routeProjectID route) (\<lambda>projectID.
     bind (To SiteRouteDelete route RouteStatusPendingDelete) (\<lambda>route'.
     bind (current_policy security_policies (rtID route)) (\<lambda>sp.
     bind (current_policy backend_traffic_policies (rtID route)) (\<lambda>btp.
     bind (current_policy envoy_extension_policies (rtID route)) (\<lambda>eep.
     bind (current_policy waf_policies (rtID route)) (\<lambda>waf.
     bind (submitDeleteApproval route' projectID submittedBy
       \<lparr>snRouteConfig = Some (rtConfig route'), snSecurityPolicy = sp, snBackendTrafficPolicy = btp, snEnvoyExtensionPolicy = eep, snWafPolicy = waf\<rparr>)
       (\<lambda>out. case out of (Some route'', _) \<Rightarrow> ret (route'', None) | (None, approval) \<Rightarrow> ret (route', approval))))))))))"

end
