(* ===== verification/RouteInv.thy ===== *)
theory RouteInv
  imports RouteWrite
begin

text \<open>
  What writing a route promises: names, matchers and ports that do not clash, an approval that carries what was asked
  for, and, at the end, the places where the code does not keep its promise.
\<close>

section \<open>Matchers\<close>

text \<open>What two matchers have to agree on: everything up to case, headers and query parameters up to order.\<close>

definition match_form :: "RouteMatch \<Rightarrow> _" where
  "match_form m = (map_option (\<lambda>p. (ToLower (pmType p), ToLower (pmValue p))) (rmPath m), ToLower (rmMethod m),
     header_key ` set (rmHeaders m), query_key ` set (rmQueryParams m),
     map_option (\<lambda>g. (ToLower (gmType g), ToLower (gmValue g))) (rmGRPCService m),
     map_option (\<lambda>g. (ToLower (gmType g), ToLower (gmValue g))) (rmGRPCMethod m))"

definition no_repeats :: "RouteMatch \<Rightarrow> bool" where
  "no_repeats m \<longleftrightarrow> distinct (map header_key (rmHeaders m)) \<and> distinct (map query_key (rmQueryParams m))"

lemma keys_equal:
  assumes "distinct (map f a)" "distinct (map f b)"
  shows "length a = length b \<and> list_all (\<lambda>h. f h \<in> f ` set a) b \<longleftrightarrow> f ` set a = f ` set b"
proof
  have card: "card (f ` set a) = length a" "card (f ` set b) = length b"
    using distinct_card [OF assms(1)] distinct_card [OF assms(2)] by simp_all
  assume "length a = length b \<and> list_all (\<lambda>h. f h \<in> f ` set a) b"
  then have "f ` set b \<subseteq> f ` set a" "card (f ` set a) \<le> card (f ` set b)" using card by (auto simp: list_all_iff)
  then show "f ` set a = f ` set b" using card_seteq [of "f ` set a" "f ` set b"] by simp
next
  assume eq: "f ` set a = f ` set b"
  then have "length a = length b" using distinct_card [OF assms(1)] distinct_card [OF assms(2)] by simp
  then show "length a = length b \<and> list_all (\<lambda>h. f h \<in> f ` set a) b" using eq by (auto simp: list_all_iff)
qed

text \<open>On matchers that repeat no header and no query parameter the test for equality is equality up to letter case and order,
  hence an equivalence.\<close>

theorem matchers_equal_iff:
  assumes "no_repeats a" "no_repeats b"
  shows "routeMatchersEqual a b \<longleftrightarrow> match_form a = match_form b"
proof -
  have "pathMatchEqual p q \<longleftrightarrow> map_option (\<lambda>p. (ToLower (pmType p), ToLower (pmValue p))) p =
      map_option (\<lambda>p. (ToLower (pmType p), ToLower (pmValue p))) q" for p q
    by (auto simp: pathMatchEqual_def EqualFold_def split: option.splits)
  moreover have "grpcMatchEqual p q \<longleftrightarrow> map_option (\<lambda>g. (ToLower (gmType g), ToLower (gmValue g))) p =
      map_option (\<lambda>g. (ToLower (gmType g), ToLower (gmValue g))) q" for p q
    by (auto simp: grpcMatchEqual_def EqualFold_def split: option.splits)
  ultimately show ?thesis
    using assms keys_equal [of header_key "rmHeaders a" "rmHeaders b"] keys_equal [of query_key "rmQueryParams a" "rmQueryParams b"]
    unfolding routeMatchersEqual_def match_form_def headerMatchesEqual_def queryParamMatchesEqual_def no_repeats_def EqualFold_def by auto
qed

definition sample_match :: "string \<Rightarrow> HeaderMatch list \<Rightarrow> RouteMatch" where
  "sample_match path hs = \<lparr>rmPath = Some \<lparr>pmType = ''Exact'', pmValue = path\<rparr>, rmHeaders = hs, rmMethod = ''GET'', rmQueryParams = [],
     rmGRPCService = None, rmGRPCMethod = None\<rparr>"

definition sample_header :: "string \<Rightarrow> HeaderMatch" where
  "sample_header v = \<lparr>hmName = ''X-Env'', hmType = ''Exact'', hmValue = v\<rparr>"

theorem matchers_equal_iff_witness:
  "routeMatchersEqual (sample_match ''/a'' [sample_header ''x'', sample_header ''y'']) (sample_match ''/A'' [sample_header ''Y'', sample_header ''x''])
   \<longleftrightarrow> match_form (sample_match ''/a'' [sample_header ''x'', sample_header ''y'']) = match_form (sample_match ''/A'' [sample_header ''Y'', sample_header ''x''])"
proof -
  have "no_repeats (sample_match ''/a'' [sample_header ''x'', sample_header ''y''])"
    "no_repeats (sample_match ''/A'' [sample_header ''Y'', sample_header ''x''])" by code_simp+
  then show ?thesis by (rule matchers_equal_iff)
qed

text \<open>With a repeated header the test depends on the order of its arguments.\<close>

lemma matchers_equal_asymmetric:
  "routeMatchersEqual (sample_match ''/a'' [sample_header ''x'', sample_header ''y'']) (sample_match ''/a'' [sample_header ''x'', sample_header ''x'']) \<and>
   \<not> routeMatchersEqual (sample_match ''/a'' [sample_header ''x'', sample_header ''x'']) (sample_match ''/a'' [sample_header ''x'', sample_header ''y''])"
  by code_simp

section \<open>Names\<close>

lemma is_alnum_lower: "is_alnum c \<longleftrightarrow> is_lower c \<or> is_digit c"
  by (auto simp: is_alnum_def)

lemma lower_fix: "is_alnum c \<or> is_dash c \<Longrightarrow> to_lower c = c \<and> c \<noteq> CHR '' '' \<and> c \<noteq> CHR ''_''"
  by (auto simp: is_alnum_def is_dash_def to_lower_def is_upper_def is_lower_def is_digit_def)

lemma trim_dashes_id: "s \<noteq> [] \<Longrightarrow> hd s \<noteq> CHR ''-'' \<Longrightarrow> last s \<noteq> CHR ''-'' \<Longrightarrow> trim_dashes s = s"
proof -
  assume s: "s \<noteq> []" "hd s \<noteq> CHR ''-''" "last s \<noteq> CHR ''-''"
  have "dropWhile (\<lambda>c. c = CHR ''-'') s = s" using s by (cases s) auto
  moreover have "dropWhile (\<lambda>c. c = CHR ''-'') (rev s) = rev s" using s by (cases s rule: rev_cases) auto
  ultimately show ?thesis by (simp add: trim_dashes_def)
qed

lemma alnum_neq_dash: "is_alnum c \<Longrightarrow> c \<noteq> CHR ''-''"
  by (auto simp: is_alnum_def is_lower_def is_digit_def)

lemma sanitize_valid: assumes "isValidK8sName n" shows "sanitize n = n"
proof -
  have "map (\<lambda>c. if c = CHR '' '' \<or> c = CHR ''_'' then CHR ''-'' else c) (ToLower n) = n"
    using assms by (auto simp: isValidK8sName_def ToLower_def list_all_iff lower_fix intro!: map_idI)
  moreover have "filter (\<lambda>c. is_lower c \<or> is_digit c \<or> c = CHR ''-'') n = n"
    using assms by (auto simp: isValidK8sName_def list_all_iff is_alnum_def is_dash_def filter_id_conv)
  ultimately show ?thesis using assms unfolding sanitize_def
    by (simp add: trim_dashes_id isValidK8sName_def alnum_neq_dash is_alnum_lower)
qed

lemma digits_show_nat: "show_nat n \<noteq> [] \<and> list_all is_digit (show_nat n)"
  by (induction n rule: show_nat.induct) (subst (1 2) show_nat.simps, auto)

text \<open>A valid name, cut, a dash and digits is a valid name within the limit.\<close>

lemma valid_suffixed:
  assumes "isValidK8sName n" "t \<noteq> []" "list_all is_digit t" "0 < k" "length (take k n @ ''-'' @ t) \<le> 63"
  shows "isValidK8sName (take k n @ ''-'' @ t)"
proof -
  have "take k n \<noteq> []" "hd (take k n) = hd n" using assms(1,4) by (auto simp: isValidK8sName_def)
  moreover have "is_alnum (last t)" using assms(2,3) last_in_set [of t] by (auto simp: list_all_iff is_alnum_def)
  moreover have "is_alnum c \<or> is_dash c" if "c \<in> set (take k n @ ''-'' @ t)" for c
    using that assms(1,3) by (auto simp: isValidK8sName_def list_all_iff is_alnum_def is_dash_def dest!: in_set_takeD)
  ultimately show ?thesis using assms(1,2,5) unfolding isValidK8sName_def list_all_iff by (simp add: hd_append)
qed

text \<open>The Kubernetes name of a route whose name passed the validator is the name itself, cut where needed, with the key of the
  route: the sanitizer has nothing to do, and the result is again a valid name of at most 63 characters.\<close>

theorem route_names_valid:
  assumes "isValidK8sName n"
  shows "sanitize n = n \<and> isValidK8sName (RouteK8sName n (uuid_string i)) \<and> length (RouteK8sName n (uuid_string i)) \<le> 63 \<and>
    (\<exists>k. RouteK8sName n (uuid_string i) = take k n @ ''-'' @ take 8 (uuid_string i))"
proof -
  let ?t = "take 8 (uuid_string i)"
  have t: "?t \<noteq> []" "list_all is_digit ?t" "length ?t \<le> 8"
    using digits_show_nat [of i] by (auto simp: uuid_string_def list_all_iff dest: in_set_takeD)
  have n: "length n \<le> 63" "n \<noteq> []" using assms by (auto simp: isValidK8sName_def)
  obtain k where k: "RouteK8sName n (uuid_string i) = take k n @ ''-'' @ ?t" "0 < k" "length (take k n @ ''-'' @ ?t) \<le> 63"
  proof (cases "length (n @ ''-'' @ ?t) \<le> 63")
    case True
    then show thesis using that [of "length n"] n by (simp add: RouteK8sName_def Let_def MaxK8sNameLength_def sanitize_valid [OF assms])
  next
    case False
    then show thesis using that [of "63 - length ?t - 1"] t by (simp add: RouteK8sName_def Let_def MaxK8sNameLength_def sanitize_valid [OF assms])
  qed
  then show ?thesis using valid_suffixed [OF assms t(1,2) k(2,3)] sanitize_valid [OF assms] by auto
qed

theorem route_names_valid_witness:
  "sanitize ''user-api'' = ''user-api'' \<and> isValidK8sName (RouteK8sName ''user-api'' (uuid_string 7))"
proof -
  have "isValidK8sName ''user-api''" by code_simp
  then show ?thesis using route_names_valid by blast
qed

section \<open>The checks of a write\<close>

lemma hoare_newID [wp]: "hoare (\<lambda>d. Q (next_id d) (d\<lparr>next_id := Suc (next_id d)\<rparr>)) newID Q E"
  by (rule hoareI) (auto simp: newID_def)

text \<open>Code that changes nothing, whatever it returns.\<close>

lemma hoare_unchanged: "(\<And>d0. keeps (\<lambda>d. d = d0) m) \<Longrightarrow> hoare (\<lambda>d. (\<forall>x. Q x d) \<and> (\<forall>e. E e d)) m Q E"
proof -
  assume "\<And>d0. keeps (\<lambda>d. d = d0) m"
  then have "hoare (\<lambda>d. (\<forall>x. True \<longrightarrow> Q x d) \<and> (\<forall>e. E e d)) m Q E"
    by (intro hoare_readonly) (simp add: keeps_def)
  then show ?thesis by simp
qed

lemma keeps_managed_namespace: "keeps I (managed_namespace p ns)"
  unfolding managed_namespace_def ProjectNamespaceRepo_Exists_def by (auto intro!: keeps_bind keeps_wrap_error keeps_if)

lemma keeps_validateRouteTrafficPolicies: "keeps I (validateRouteTrafficPolicies c btp p)"
  unfolding validateRouteTrafficPolicies_def validateBackendNamespaces_def
  by (intro keeps_bind keeps_for_each keeps_managed_namespace keeps_lift_check)

text \<open>The port of an L4 route: claimed by its stream, in range, not reserved and used by no other route.\<close>

definition free_claim :: "db \<Rightarrow> uuid option \<Rightarrow> RouteProtocol \<Rightarrow> int \<Rightarrow> uuid option \<Rightarrow> bool" where
  "free_claim d streamID protocol port exclude \<longleftrightarrow> (\<exists>s st. streamID = Some s \<and> row_get strID s (streams d) = Some st \<and>
     StreamPorts_Has (strPorts st) (transport_of protocol) port \<and> 1 \<le> port \<and> port \<le> 65535 \<and>
     port \<notin> set (rpEnvoyInternal DefaultReservedPorts) \<and> (transport_of protocol, port) \<notin> set (used_ports d s exclude))"

lemma transport_upper: "ToUpper (transport_of p) = transport_of p"
  by (cases p) (simp_all add: transport_of_def ToUpper_def to_upper_def is_lower_def)

lemma hoare_CheckRoutePort:
  "hoare (\<lambda>d. d = d0) (CheckRoutePort svc s (transport_of p) port ex)
     (\<lambda>_ d. d = d0 \<and> (\<exists>st. row_get strID s (streams d0) = Some st \<and> StreamPorts_Has (strPorts st) (transport_of p) port \<and>
        (transport_of p, port) \<notin> set (used_ports d0 s ex))) (\<lambda>_ d. d = d0)"
  unfolding CheckRoutePort_def Let_def UsedPortsByStream_def transport_upper
  by (rule hoare_pre, (rule hoare_readonly [OF hoare_getStream] | rule wp)+) auto

lemma hoare_validateL4Listener:
  "hoare (\<lambda>d. d = d0) (validateL4Listener l4 c p s ex) (\<lambda>_ d. d = d0 \<and> free_claim d0 s p (rcListenerPort c) ex) (\<lambda>_ d. d = d0)"
  unfolding validateL4Listener_def
  by (rule hoare_pre, (rule hoare_readonly [OF hoare_CheckRoutePort] | rule wp)+)
    (auto simp: free_claim_def ValidateListenerPort_ok split: option.splits)

text \<open>The first matcher of a domain's route: equal to that of no other route the domain lists.\<close>

definition new_matcher :: "db \<Rightarrow> uuid \<Rightarrow> RouteConfig \<Rightarrow> uuid option \<Rightarrow> bool" where
  "new_matcher d domainID c exclude \<longleftrightarrow> (\<forall>m ms r. rcMatches c = m # ms \<longrightarrow>
     r \<in> set (limit_rows 10000 (rev (filter (\<lambda>r. rtDomainID r = Some domainID) (routes d)))) \<longrightarrow> \<not> conflicts_with m exclude r)"

lemma hoare_validateMatcherConflict:
  "hoare (\<lambda>d. d = d0) (validateMatcherConflict i c ex) (\<lambda>_ d. d = d0 \<and> new_matcher d0 i c ex) (\<lambda>_ d. d = d0)"
  unfolding validateMatcherConflict_def RouteRepo_ListByDomainID_def
  by (rule hoare_pre, (rule wp)+) (auto simp: new_matcher_def list_ex_iff split: list.splits)

text \<open>What the checks of shape and conflicts accept.\<close>

definition admissible :: "db \<Rightarrow> RouteConfig \<Rightarrow> RouteProtocol \<Rightarrow> uuid \<Rightarrow> uuid option \<Rightarrow> uuid option \<Rightarrow> bool" where
  "admissible d c p domainID streamID exclude \<longleftrightarrow> validateRouteConfig c p = Inr () \<and>
     (if proto_is_l4 p then free_claim d streamID p (rcListenerPort c) exclude else new_matcher d domainID c exclude)"

lemma hoare_validateRouteShapeAndConflicts:
  "hoare (\<lambda>d. d = d0) (validateRouteShapeAndConflicts l4 c btp p i s ex) (\<lambda>_ d. d = d0 \<and> admissible d0 c p i s ex) (\<lambda>_ d. d = d0)"
  unfolding validateRouteShapeAndConflicts_def
  by (rule hoare_pre, (rule hoare_readonly [OF hoare_validateL4Listener] hoare_readonly [OF hoare_validateMatcherConflict] | rule wp)+)
    (auto simp: admissible_def)

text \<open>The project that owns a route.\<close>

definition owner_project :: "db \<Rightarrow> uuid option \<Rightarrow> uuid option \<Rightarrow> uuid option" where
  "owner_project d domainID streamID = (case streamID of
     Some s \<Rightarrow> map_option strProjectID (row_get strID s (streams d))
   | None \<Rightarrow> Option.bind domainID (\<lambda>i. map_option domProjectID (row_get domID i (domains d))))"

lemma hoare_resolveStream:
  "hoare (\<lambda>d. d = d0) (resolveStream s want)
     (\<lambda>st d. d = d0 \<and> row_get strID s (streams d0) = Some st \<and> (want = None \<or> want = Some (strProjectID st))) (\<lambda>_ d. d = d0)"
  unfolding resolveStream_def StreamRepo_GetByID_def by (rule hoare_pre, (rule wp)+) auto

definition creatable :: "db \<Rightarrow> uuid \<Rightarrow> CreateRouteInput \<Rightarrow> uuid option \<Rightarrow> createPlan \<Rightarrow> bool" where
  "creatable d domainID inp want plan \<longleftrightarrow>
     cpDomain plan = (if domainID = 0 then None else Some domainID) \<and> (cpDomain plan = None) \<noteq> (criStreamID inp = None) \<and>
     cpIsStream plan = (criStreamID inp \<noteq> None) \<and> isValidK8sName (criName inp) \<and>
     owner_project d (cpDomain plan) (criStreamID inp) = Some (cpProjectID plan) \<and>
     (criStreamID inp \<noteq> None \<longrightarrow> want \<noteq> None \<longrightarrow> want = Some (cpProjectID plan)) \<and>
     (criStreamID inp \<noteq> None \<longrightarrow> proto_is_l4 (cpProtocol plan)) \<and>
     cpProtocol plan = (if criProtocol inp = RouteProtocolEmpty then RouteProtocolHTTP else criProtocol inp) \<and>
     cpSecurityMode plan = (if criSecurityMode inp = SecurityModeEmpty then SecurityModeGeneral else criSecurityMode inp) \<and>
     admissible d (criConfig inp) (cpProtocol plan) domainID (criStreamID inp) None"

lemma hoare_create_owner:
  "hoare (\<lambda>d. d = d0) (create_owner domainID inp want)
     (\<lambda>p d. d = d0 \<and> owner_project d0 (Some domainID) (criStreamID inp) = Some p \<and>
        (criStreamID inp \<noteq> None \<longrightarrow> proto_is_l4 (criProtocol inp) \<and> (want \<noteq> None \<longrightarrow> want = Some p))) (\<lambda>_ d. d = d0)"
  unfolding create_owner_def RouteRepo_ExistsByStreamAndName_def RouteRepo_ExistsByName_def DomainRepo_GetByID_def
  by (rule hoare_pre, (rule hoare_readonly [OF hoare_resolveStream] | rule wp)+) (auto simp: owner_project_def split: option.splits)

lemma hoare_validateCreate:
  "hoare (\<lambda>d. d = d0) (validateCreate l4 domainID inp want) (\<lambda>plan d. d = d0 \<and> creatable d0 domainID inp want plan) (\<lambda>_ d. d = d0)"
  unfolding validateCreate_def Let_def TeamRepo_GetByID_def
  by (rule hoare_pre, (rule hoare_readonly [OF hoare_create_owner] hoare_readonly [OF hoare_validateRouteShapeAndConflicts]
      hoare_unchanged [OF keeps_validateRouteTrafficPolicies] | rule wp)+)
    (auto simp: creatable_def validateRouteOwner_def owner_project_def proto_is_l4_def split: if_splits)

section \<open>Create\<close>

text \<open>The policies of a route as its tables hold them.\<close>

definition stored_policies :: "db \<Rightarrow> uuid \<Rightarrow> _" where
  "stored_policies d i =
     (map_option prwConfig (row_get prwRouteID i (security_policies d)), map_option prwConfig (row_get prwRouteID i (backend_traffic_policies d)),
      map_option prwConfig (row_get prwRouteID i (envoy_extension_policies d)), map_option prwConfig (row_get prwRouteID i (waf_policies d)))"

definition snapshot_policies :: "RouteApprovalSnapshot \<Rightarrow> _" where
  "snapshot_policies s = (snSecurityPolicy s, snBackendTrafficPolicy s, snEnvoyExtensionPolicy s, snWafPolicy s)"

text \<open>Two databases that agree on everything but the policies.\<close>

definition same_but_policies :: "db \<Rightarrow> db \<Rightarrow> bool" where
  "same_but_policies d d' \<longleftrightarrow> d'\<lparr>security_policies := [], backend_traffic_policies := [], envoy_extension_policies := [], waf_policies := []\<rparr> =
     d\<lparr>security_policies := [], backend_traffic_policies := [], envoy_extension_policies := [], waf_policies := []\<rparr>"

lemma same_but_policiesD:
  assumes "same_but_policies d d'"
  shows "routes d' = routes d \<and> approvals d' = approvals d \<and> approval_stages d' = approval_stages d \<and> projects d' = projects d"
proof -
  have "f (d'\<lparr>security_policies := [], backend_traffic_policies := [], envoy_extension_policies := [], waf_policies := []\<rparr>) =
      f (d\<lparr>security_policies := [], backend_traffic_policies := [], envoy_extension_policies := [], waf_policies := []\<rparr>)" for f
    using assms unfolding same_but_policies_def by (rule arg_cong)
  from this [of routes] this [of approvals] this [of approval_stages] this [of projects] show ?thesis by simp
qed

text \<open>A route without policies, as every new route is.\<close>

definition no_policies :: "uuid \<Rightarrow> db \<Rightarrow> bool" where
  "no_policies i d \<longleftrightarrow> stored_policies d i = (None, None, None, None)"

lemma hoare_store_policy:
  "hoare (\<lambda>d. d = d0) (case x of None \<Rightarrow> ret () | Some c \<Rightarrow> wrap_error msg (policy_Create rows put (policy_row i p (f c))))
     (\<lambda>_ d. d = (case x of None \<Rightarrow> d0 | Some c \<Rightarrow> put (row_save prwRouteID (policy_row i p (f c)) (rows d0)) d0)) (\<lambda>_ d. d = d0)"
  unfolding policy_Create_def by (rule hoare_pre, (rule wp)+) (auto split: option.splits if_splits)

lemmas hoare_store_policy_as_is = hoare_store_policy [where f = "\<lambda>c. c"]

lemma hoare_store_waf:
  "hoare (\<lambda>d. d = d0) (case x of None \<Rightarrow> ret () | Some c \<Rightarrow> bind (lift_check (wrap_check m (WafPolicyConfig_Validate c))) (\<lambda>_.
       wrap_error msg (policy_Create waf_policies put_waf (policy_row i p c))))
     (\<lambda>_ d. with_content (\<lambda>w. WafPolicyConfig_Validate w = Inr ()) x = x \<and>
        d = (case x of None \<Rightarrow> d0 | Some c \<Rightarrow> put_waf (row_save prwRouteID (policy_row i p c) (waf_policies d0)) d0)) (\<lambda>_ d. d = d0)"
  unfolding policy_Create_def by (rule hoare_pre, (rule wp)+) (auto simp: with_content_def split: option.splits if_splits)

lemma same_but_policies_refl [simp]: "same_but_policies d d"
  by (simp add: same_but_policies_def)

lemma same_but_policies_put [simp]:
  "same_but_policies d (put_sp x d') = same_but_policies d d'" "same_but_policies d (put_btp x2 d') = same_but_policies d d'"
  "same_but_policies d (put_eep x3 d') = same_but_policies d d'" "same_but_policies d (put_waf x4 d') = same_but_policies d d'"
  by (simp_all add: same_but_policies_def)

lemma hoare_persistCreatePolicies:
  "hoare (\<lambda>d. d = d0) (persistCreatePolicies route p mode inp)
     (\<lambda>_ d. same_but_policies d0 d \<and> (no_policies (rtID route) d0 \<longrightarrow> stored_policies d (rtID route) =
        snapshot_policies (proposed_snapshot (mode = SecurityModeGeneral) (criConfig inp) (criSecurityPolicy inp) (criBackendTrafficPolicy inp)
          (criExtensionPolicy inp) (criWafPolicy inp))))
     (\<lambda>_ d. same_but_policies d0 d)"
  unfolding persistCreatePolicies_def
  by (rule hoare_pre, rule hoare_bind, rule hoare_bind, rule hoare_bind, rule hoare_spec [OF hoare_store_waf],
      (rule hoare_spec [OF hoare_store_policy_as_is] hoare_spec [OF hoare_store_policy])+)
    (simp add: snapshot_policies_def proposed_snapshot_def no_policies_def stored_policies_def policy_row_def rows.get_save split: option.split)

definition create_snapshot :: "createPlan \<Rightarrow> CreateRouteInput \<Rightarrow> RouteApprovalSnapshot" where
  "create_snapshot plan inp = proposed_snapshot (cpSecurityMode plan = SecurityModeGeneral) (criConfig inp) (criSecurityPolicy inp)
     (criBackendTrafficPolicy inp) (criExtensionPolicy inp) (criWafPolicy inp)"

text \<open>What a create leaves: a route that waits, with an approval that carries the whole request and the policies stored as asked; or,
  where the project needs no approval, a route that is approved.\<close>

definition created :: "db \<Rightarrow> uuid \<Rightarrow> CreateRouteInput \<Rightarrow> uuid \<Rightarrow> createPlan \<Rightarrow> Route \<times> Approval option \<Rightarrow> db \<Rightarrow> bool" where
  "created d0 domainID inp by plan out d \<longleftrightarrow> (case out of
     (r, Some a) \<Rightarrow> r = new_route plan inp (next_id d0) by \<and> row_get rtID (rtID r) (routes d) = Some r \<and> row_get rtID (rtID r) (routes d0) = None \<and>
       apStatus a = ApprovalStatusPending \<and> apEntityType a = ApprovalEntityRoute \<and> apEntityID a = rtID r \<and> apAction a = ApprovalActionCreate \<and>
       apProjectID a = cpProjectID plan \<and> apConfigSnapshot a = Some (Doc (create_snapshot plan inp)) \<and>
       approvals d = approvals d0 @ [a\<lparr>apStages := []\<rparr>] \<and> stored_policies d (rtID r) = snapshot_policies (create_snapshot plan inp)
   | (r, None) \<Rightarrow> (\<exists>p. row_get prjID (cpProjectID plan) (projects d0) = Some p \<and> \<not> prjApprovalEnabled p) \<and> approvals d = approvals d0 \<and>
       r = (new_route plan inp (next_id d0) by)\<lparr>rtStatus := RouteStatusApproved\<rparr> \<and> row_get rtID (rtID r) (routes d) = Some r \<and>
       stored_policies d (rtID r) = stored_policies d0 (rtID r))"

lemma new_route_simps [simp]:
  "rtID (new_route plan inp i by) = i" "rtStatus (new_route plan inp i by) = RouteStatusPendingCreate"
  "SyncListenerPort (new_route plan inp i by) = new_route plan inp i by"
  "SyncListenerPort ((new_route plan inp i by)\<lparr>rtStatus := s\<rparr>) = (new_route plan inp i by)\<lparr>rtStatus := s\<rparr>"
  by (auto simp: new_route_def SyncListenerPort_def IsL4_def split: if_splits)

lemma hoare_RouteRepo_Create:
  "hoare (\<lambda>d. d = d0) (RouteRepo_Create r)
     (\<lambda>_ d. row_get rtID (rtID r) (routes d0) = None \<and> d = d0\<lparr>routes := row_save rtID (SyncListenerPort r) (routes d0)\<rparr>) (\<lambda>_ d. d = d0)"
  unfolding RouteRepo_Create_def by (rule hoare_pre, rule wp) (auto dest: route_save_Inr split: if_splits)

lemma hoare_route_create:
  assumes "no_policies (next_id d0) d0"
  shows "hoare (\<lambda>d. d = d0) (route_create l4 domainID inp by want)
     (\<lambda>out d. \<exists>plan. creatable d0 domainID inp want plan \<and> created d0 domainID inp by plan out d) (\<lambda>_ _. True)"
  using assms unfolding route_create_def submitCreateApproval_def submit_or_skip_def Let_def ProjectRepo_GetByID_def
  by - (rule hoare_pre, (rule hoare_readonly [OF hoare_validateCreate] hoare_spec [OF hoare_RouteRepo_Create] hoare_spec [OF hoare_Submit]
      hoare_spec [OF hoare_persistCreatePolicies] | rule wp)+,
    auto simp: created_def create_snapshot_def route_spec_def rows.get_save no_policies_def stored_policies_def dest!: same_but_policiesD
      split: option.splits)


definition sample_input :: CreateRouteInput where
  "sample_input = \<lparr>criName = ''cart'', criDescription = [], criProtocol = RouteProtocolHTTP, criSecurityMode = SecurityModeGeneral, criTeamID = 2,
     criConfig = sample_config\<lparr>rcMatches := [sample_match ''/cart'' []], rcBackends := [\<lparr>beType = ''kubernetes'', beService = ''cart'',
       beNamespace = FastGatewayNamespace, bePort = 80, beWeight = 1, beFallback = False, beAddressType = [], beAddress = [], beTLS = None\<rparr>]\<rparr>,
     criSecurityPolicy = Some \<lparr>siCORS = None, siAuthorization = None, siAPIKeyAuth = None, siJWT = Some \<lparr>jiIssuer = ''idp'', jiJWKSURL = ''https://idp'',
       jiAudiences = [], jiClaimToHeaders = []\<rparr>, siOIDC = None, siExtAuth = None\<rparr>,
     criBackendTrafficPolicy = None, criExtensionPolicy = None, criWafPolicy = None, criChangeDescription = [], criAIReview = None,
     criLabels = None, criStreamID = None\<rparr>"

definition sample_creation :: "bool \<Rightarrow> (error + Route \<times> Approval option) \<times> (db \<times> bool list)" where
  "sample_creation enabled = route_create None 5 sample_input 7 None (sample_db\<lparr>projects := [sample_project\<lparr>prjApprovalEnabled := enabled\<rparr>]\<rparr>, [])"

lemma submitted_run: "(case m of (Inr (_, Some _), (_, fs)) \<Rightarrow> fs = [] | _ \<Rightarrow> False) \<Longrightarrow> \<exists>r a d. m = (Inr (r, Some a), (d, []))"
  by (cases m rule: prod_cases3) (auto split: sum.splits option.splits)


section \<open>Update\<close>

lemma keeps_current_policy: "keeps I (current_policy rows i)"
  unfolding current_policy_def policy_Get_def by (intro keeps_bind keeps_attempt keeps_ret keeps_query)

lemma keeps_no_pending_approval: "keeps I (no_pending_approval i)"
  unfolding no_pending_approval_def ApprovalRepo_GetPendingByEntityID_def by (intro keeps_bind keeps_attempt keeps_case_sum keeps_ret keeps_throw keeps_query)

lemma hoare_routeProjectID:
  "hoare (\<lambda>d. d = d0) (routeProjectID r) (\<lambda>p d. d = d0 \<and> owner_project d0 (rtDomainID r) (rtStreamID r) = Some p) (\<lambda>_ d. d = d0)"
  unfolding routeProjectID_def DomainRepo_GetByID_def
  by (rule hoare_pre, (rule hoare_readonly [OF hoare_resolveStream] | rule wp)+)
    (auto simp: owner_project_def validateRouteOwner_def split: option.splits if_splits)

lemma hoare_validateUpdate:
  "hoare (\<lambda>d. d = d0) (validateUpdate l4 i r inp)
     (\<lambda>p d. d = d0 \<and> owner_project d0 (rtDomainID r) (rtStreamID r) = Some p \<and>
        admissible d0 (uriConfig inp) (rtProtocol r) (case rtDomainID r of None \<Rightarrow> 0 | Some x \<Rightarrow> x) (rtStreamID r) (Some i)) (\<lambda>_ d. d = d0)"
  unfolding validateUpdate_def
  by (rule hoare_pre, (rule hoare_readonly [OF hoare_routeProjectID] hoare_readonly [OF hoare_validateRouteShapeAndConflicts]
      hoare_unchanged [OF keeps_validateRouteTrafficPolicies] | rule wp)+) auto

lemma route_status_self: "rtStatus r = s \<Longrightarrow> r\<lparr>rtStatus := s\<rparr> = r"
  by (cases r) simp

lemma hoare_mark_pending_update:
  "hoare (\<lambda>d. d = d0) (mark_pending_update r)
     (\<lambda>r' d. r' = SyncListenerPort (r\<lparr>rtStatus := RouteStatusPendingUpdate\<rparr>) \<and> d = d0\<lparr>routes := row_save rtID r' (routes d0)\<rparr>) (\<lambda>_ d. d = d0)"
  unfolding mark_pending_update_def RouteRepo_Update_def
  by (rule hoare_pre, (rule wp)+) (auto dest: route_save_Inr simp: route_status_self)

text \<open>Replacing a policy: an error of the deletion is ignored, so the old policy may stay.\<close>

lemma hoare_replace_policy:
  "hoare (\<lambda>d. d = d0) (case x of None \<Rightarrow> bind (attempt (policy_DeleteByRouteID rows put i)) (\<lambda>_. ret ())
       | Some c \<Rightarrow> wrap_error msg (policy_Upsert rows put (policy_row i p (f c))))
     (\<lambda>_ d. case x of None \<Rightarrow> d = d0 \<or> d = put (row_delete prwRouteID i (rows d0)) d0
        | Some c \<Rightarrow> d = put (row_save prwRouteID (policy_row i p (f c)) (rows d0)) d0) (\<lambda>_ d. d = d0)"
  unfolding policy_DeleteByRouteID_def policy_Upsert_def policy_Get_def policy_Create_def
  by (rule hoare_pre, (rule wp)+) (auto simp: policy_row_def split: option.splits if_splits)

lemmas hoare_replace_policy_as_is = hoare_replace_policy [where f = "\<lambda>c. c"]

lemma hoare_replace_waf:
  "hoare (\<lambda>d. d = d0) (case x of None \<Rightarrow> ret () | Some c \<Rightarrow> bind (lift_check (wrap_check m (WafPolicyConfig_Validate c))) (\<lambda>_.
       wrap_error msg (policy_Upsert waf_policies put_waf (policy_row i p c))))
     (\<lambda>_ d. with_content (\<lambda>w. WafPolicyConfig_Validate w = Inr ()) x = x \<and>
        d = (case x of None \<Rightarrow> d0 | Some c \<Rightarrow> put_waf (row_save prwRouteID (policy_row i p c) (waf_policies d0)) d0)) (\<lambda>_ d. d = d0)"
  unfolding policy_Upsert_def policy_Get_def policy_Create_def
  by (rule hoare_pre, (rule wp)+) (auto simp: with_content_def split: option.splits if_splits)

lemma hoare_persistUpdatePolicies:
  "hoare (\<lambda>d. d = d0) (persistUpdatePolicies r p inp)
     (\<lambda>_ d. same_but_policies d0 d \<and> (\<forall>c. uriSecurityPolicy inp = Some c \<longrightarrow>
        fst (stored_policies d (rtID r)) = Some (security_config (\<not> other_mode (rtSecurityMode r)) c)))
     (\<lambda>_ d. same_but_policies d0 d)"
  unfolding persistUpdatePolicies_def
  by (rule hoare_pre, rule hoare_bind, rule hoare_bind, rule hoare_bind, rule hoare_spec [OF hoare_replace_waf],
      (rule hoare_spec [OF hoare_replace_policy_as_is] hoare_spec [OF hoare_replace_policy])+)
    (auto simp: stored_policies_def policy_row_def rows.get_save split: option.splits)

definition update_snapshot :: "Route \<Rightarrow> UpdateRouteInput \<Rightarrow> RouteApprovalSnapshot" where
  "update_snapshot r inp = proposed_snapshot (\<not> other_mode (rtSecurityMode r)) (uriConfig inp) (uriSecurityPolicy inp) (uriBackendTrafficPolicy inp)
     (uriExtensionPolicy inp) (uriWafPolicy inp)"

text \<open>What an update leaves: the route waits with its old configuration, and one pending approval carries the new one; or, where the project
  needs no approval, the route is queued for deployment and nothing is submitted.\<close>

definition updated :: "db \<Rightarrow> uuid \<Rightarrow> UpdateRouteInput \<Rightarrow> Route \<Rightarrow> Route \<times> Approval option \<Rightarrow> db \<Rightarrow> bool" where
  "updated d0 i inp r out d \<longleftrightarrow> row_get rtID i (routes d0) = Some r \<and>
     admissible d0 (uriConfig inp) (rtProtocol r) (case rtDomainID r of None \<Rightarrow> 0 | Some x \<Rightarrow> x) (rtStreamID r) (Some i) \<and>
     rtConfig (fst out) = rtConfig r \<and> row_get rtID i (routes d) = Some (fst out) \<and> (case snd out of
       Some a \<Rightarrow> rtStatus (fst out) = RouteStatusPendingUpdate \<and> apStatus a = ApprovalStatusPending \<and> apEntityType a = ApprovalEntityRoute \<and>
         apEntityID a = i \<and> apAction a = ApprovalActionUpdate \<and> apConfigSnapshot a = Some (Doc (update_snapshot r inp)) \<and>
         approvals d = approvals d0 @ [a\<lparr>apStages := []\<rparr>]
     | None \<Rightarrow> rtStatus (fst out) = RouteStatusPendingDeploy \<and> approvals d = approvals d0 \<and> stored_policies d i = stored_policies d0 i \<and>
         (\<exists>q p. owner_project d0 (rtDomainID r) (rtStreamID r) = Some q \<and> row_get prjID q (projects d0) = Some p \<and> \<not> prjApprovalEnabled p))"

lemma hoare_RouteService_Update:
  "hoare (\<lambda>d. d = d0) (RouteService_Update l4 i inp by) (\<lambda>out d. \<exists>r. updated d0 i inp r out d) (\<lambda>_ _. True)"
  unfolding RouteService_Update_def submitUpdateApproval_def submit_or_skip_def ProjectRepo_GetByID_def RouteRepo_GetByID_def
  apply (rule hoare_pre, (rule hoare_readonly [OF hoare_validateUpdate] hoare_spec [OF hoare_mark_pending_update] hoare_spec [OF hoare_Submit]
      hoare_spec [OF hoare_persistUpdatePolicies] hoare_unchanged [OF keeps_current_policy] hoare_unchanged [OF keeps_no_pending_approval] | rule wp)+)
  apply (auto simp: updated_def update_snapshot_def route_spec_def stored_policies_def rows.get_save dest!: same_but_policiesD
      dest: row_get_key split: option.splits)
  done

section \<open>Projects without approvals\<close>

text \<open>A new route of such a project loses the policies it was created with.\<close>

lemma unapproved_create_drops_policies:
  "case sample_creation False of (Inr (r, None), (d', _)) \<Rightarrow> rtStatus r = RouteStatusApproved \<and> no_policies (rtID r) d' | _ \<Rightarrow> False"
  by code_simp

definition sample_update :: UpdateRouteInput where
  "sample_update = \<lparr>uriDescription = [], uriConfig = criConfig sample_input, uriSecurityPolicy = None, uriBackendTrafficPolicy = None,
     uriExtensionPolicy = None, uriWafPolicy = None, uriChangeDescription = [], uriAIReview = None, uriLabels = None\<rparr>"

text \<open>An update is queued for deployment with the old configuration.\<close>

lemma unapproved_update_is_lost:
  "case RouteService_Update None 6 sample_update 7 (sample_attached False, []) of
     (Inr (r, None), (d', _)) \<Rightarrow> rtStatus r = RouteStatusPendingDeploy \<and> rtConfig r = sample_config \<and> routes d' = [r] \<and>
       uriConfig sample_update \<noteq> sample_config | _ \<Rightarrow> False"
  by code_simp

section \<open>Rejected policies\<close>

text \<open>The policies of an update are stored when it is submitted, and its rejection leaves them.\<close>

definition sample_proposal :: UpdateRouteInput where
  "sample_proposal = sample_update\<lparr>uriSecurityPolicy := Some \<lparr>siCORS = Some \<lparr>corsAllowOrigins = [''*''], corsAllowMethods = [], corsAllowHeaders = [], corsExposeHeaders = [], corsMaxAge = None,
     corsAllowCredentials = None\<rparr>, siAuthorization = None, siAPIKeyAuth = None, siJWT = None,
     siOIDC = None, siExtAuth = None\<rparr>\<rparr>"

lemma rejected_policy_stays:
  "fst (stored_policies (sample_attached True) 6) = None \<and>
   (case RouteService_Update None 6 sample_proposal 7 (sample_attached True, []) of
      (Inr (_, Some a), (d', _)) \<Rightarrow> (case route_OnRejected a (d', []) of
        (Inr _, (d'', _)) \<Rightarrow> map rtStatus (routes d'') = [RouteStatusActive] \<and> fst (stored_policies d'' 6) \<noteq> None | _ \<Rightarrow> False)
    | _ \<Rightarrow> False)"
  by code_simp

end
