(* ===== verification/RouteVersions.thy ===== *)
theory RouteVersions
  imports RouteInv
begin

text \<open>
  The history of a route: \<open>src/internal/services/route_version_service.go\<close>. A deployment records the deployed
  configuration with its policies as the next version; a rollback turns a recorded version back into the input of an update
  and submits it. The repository of versions is in \<^verbatim>\<open>Store\<close>.
\<close>

section \<open>Recording\<close>

text \<open>A policy that is absent is no error, any other failure is.\<close>

definition version_policy :: "string \<Rightarrow> (db \<Rightarrow> 'c PolicyRow list) \<Rightarrow> uuid \<Rightarrow> 'c option m" where
  "version_policy msg rows i = bind (attempt (policy_Get rows i)) (\<lambda>r. case r of
     Inr p \<Rightarrow> ret (Some (prwConfig p))
   | Inl e \<Rightarrow> if e = ErrRecordNotFound then ret None else throw (Wrap msg e))"

definition CreateVersion :: "Route \<Rightarrow> Approval option \<Rightarrow> uuid \<Rightarrow> unit m" where
  "CreateVersion route approval deployedBy =
     bind (version_policy ''failed to read security policy: %w'' security_policies (rtID route)) (\<lambda>sp.
     bind (version_policy ''failed to read backend traffic policy: %w'' backend_traffic_policies (rtID route)) (\<lambda>btp.
     bind (version_policy ''failed to read envoy extension policy: %w'' envoy_extension_policies (rtID route)) (\<lambda>eep.
     bind (version_policy ''failed to read WAF policy: %w'' waf_policies (rtID route)) (\<lambda>waf.
     bind (wrap_error ''failed to get max version: %w'' (GetMaxVersion (rtID route))) (\<lambda>maxVersion.
     wrap_error ''failed to create route version: %w'' (RouteVersionRepo_Create
       \<lparr>rvRouteID = rtID route, rvVersion = maxVersion + 1,
        rvConfigSnapshot = Doc \<lparr>snRouteConfig = Some (rtConfig route), snSecurityPolicy = sp, snBackendTrafficPolicy = btp,
          snEnvoyExtensionPolicy = eep, snWafPolicy = waf\<rparr>,
        rvRouteDescription = rtDescription route, rvProtocol = rtProtocol route, rvSecurityMode = rtSecurityMode route,
        rvChangeDescription = (case approval of None \<Rightarrow> [] | Some a \<Rightarrow> apChangeDescription a),
        rvApprovalID = map_option apID approval, rvDeployedBy = deployedBy\<rparr>))))))"

section \<open>Rolling back\<close>

definition mapSecurityPolicyConfigToInput :: "SecurityPolicyConfig \<Rightarrow> SecurityPolicyInput" where
  "mapSecurityPolicyConfigToInput cfg =
     \<lparr>siCORS = spcCORS cfg,
      siAuthorization = (case spcAuthorization cfg of None \<Rightarrow> None
        | Some a \<Rightarrow> (case acRules a of [] \<Rightarrow> None
            | rule # _ \<Rightarrow>
                let i = \<lparr>aiAllowedCIDRs = arClientCIDRs rule, aiHeaders = arHeaders rule,
                      aiMethods = (case arMethods rule of None \<Rightarrow> [] | Some ms \<Rightarrow> ms)\<rparr>
                in if aiAllowedCIDRs i \<noteq> [] \<or> aiHeaders i \<noteq> [] \<or> aiMethods i \<noteq> [] then Some i else None)),
      siAPIKeyAuth = map_option (\<lambda>k.
        \<lparr>kiSecretName = (case akCredentialRefs k of [] \<Rightarrow> [] | r # _ \<Rightarrow> srName r),
         kiHeaderName = (case akExtractFrom k of (h # _) # _ \<Rightarrow> h | _ \<Rightarrow> [])\<rparr>) (spcAPIKeyAuth cfg),
      siJWT = (case spcJWT cfg of
          Some (p # _) \<Rightarrow> Some \<lparr>jiIssuer = jpIssuer p, jiJWKSURL = (case jpRemoteJWKS p of None \<Rightarrow> [] | Some u \<Rightarrow> u),
            jiAudiences = jpAudiences p, jiClaimToHeaders = jpClaimToHeaders p\<rparr>
        | _ \<Rightarrow> None),
      siOIDC = map_option (\<lambda>c.
        \<lparr>oiIssuer = (case ocIssuer c of None \<Rightarrow> [] | Some u \<Rightarrow> u), oiClientID = ocClientID c,
         oiClientSecretName = (case ocClientSecret c of None \<Rightarrow> [] | Some r \<Rightarrow> srName r), oiRedirectURL = ocRedirectURL c,
         oiLogoutPath = ocLogoutPath c, oiScopes = ocScopes c, oiCookieDomain = ocCookieDomain c\<rparr>) (spcOIDC cfg),
      siExtAuth = spcExtAuth cfg\<rparr>"

text \<open>The external processors are not carried over.\<close>

definition mapEnvoyExtensionPolicyConfigToInput :: "EnvoyExtensionPolicyConfig \<Rightarrow> EnvoyExtensionPolicyConfig" where
  "mapEnvoyExtensionPolicyConfigToInput cfg = \<lparr>eepLua = eepLua cfg, eepWasm = eepWasm cfg, eepExtProc = None\<rparr>"

definition mapWafPolicyConfigToInput :: "WafPolicyConfig \<Rightarrow> WafPolicyConfig" where
  "mapWafPolicyConfigToInput cfg =
     \<lparr>wafMode = wafMode cfg, wafRulesets = wafRulesets cfg, wafAnomalyThreshold = wafAnomalyThreshold cfg,
      wafParanoiaLevel = wafParanoiaLevel cfg, wafDisabledRuleIDs = wafDisabledRuleIDs cfg, wafCustomDirectives = wafCustomDirectives cfg\<rparr>"

definition MapBackendTrafficPolicyConfigToInput :: "BackendTrafficPolicyConfig \<Rightarrow> BackendTrafficPolicyConfig" where
  "MapBackendTrafficPolicyConfigToInput cfg =
     \<lparr>btpCompression = btpCompression cfg, btpRetry = btpRetry cfg, btpLoadBalancer = btpLoadBalancer cfg,
      btpCircuitBreaker = btpCircuitBreaker cfg, btpHealthCheck = btpHealthCheck cfg, btpFaultInjection = btpFaultInjection cfg,
      btpRateLimit = btpRateLimit cfg, btpRequestBuffer = btpRequestBuffer cfg, btpResponseOverride = btpResponseOverride cfg,
      btpTimeout = btpTimeout cfg\<rparr>"

definition rollback_input :: "RouteVersion \<Rightarrow> RouteApprovalSnapshot \<Rightarrow> UpdateRouteInput" where
  "rollback_input rv sn =
     \<lparr>uriDescription = rvRouteDescription rv,
      uriConfig = (case snRouteConfig sn of None \<Rightarrow> RouteConfig_zero | Some c \<Rightarrow> c),
      uriSecurityPolicy = map_option mapSecurityPolicyConfigToInput (snSecurityPolicy sn),
      uriBackendTrafficPolicy = map_option MapBackendTrafficPolicyConfigToInput (snBackendTrafficPolicy sn),
      uriExtensionPolicy = map_option mapEnvoyExtensionPolicyConfigToInput (snEnvoyExtensionPolicy sn),
      uriWafPolicy = map_option mapWafPolicyConfigToInput (snWafPolicy sn),
      uriChangeDescription = ''Rollback to version '' @ show_int (rvVersion rv), uriAIReview = None, uriLabels = None\<rparr>"

definition Rollback :: "StreamService option \<Rightarrow> uuid \<Rightarrow> int \<Rightarrow> uuid \<Rightarrow> (Route \<times> Approval option) m" where
  "Rollback l4Ports routeID targetVersion submittedBy =
     bind (wrap_error ''failed to get version %d: %w'' (RouteVersionRepo_GetByRouteIDAndVersion routeID targetVersion)) (\<lambda>rv.
     case rvConfigSnapshot rv of
       Corrupt \<Rightarrow> throw (Msg ''failed to unmarshal config snapshot: %w'')
     | Doc sn \<Rightarrow> RouteService_Update l4Ports routeID (rollback_input rv sn) submittedBy)"

section \<open>Round trips\<close>

lemma NormalizeCIDR_idem [simp]: "NormalizeCIDR (NormalizeCIDR c) = NormalizeCIDR c"
  by (auto simp: NormalizeCIDR_def split: option.splits)

text \<open>A security policy that was built from an input is built again from the input it is mapped back to.\<close>

lemma security_roundtrip: "security_config g (mapSecurityPolicyConfigToInput (security_config g i)) = security_config g i"
  by (cases g)
    (auto simp: mapSecurityPolicyConfigToInput_def security_config_def BuildAuthorizationConfigFromInput_def BuildAPIKeyAuthConfigFromInput_def
      BuildJWTConfigFromInput_def BuildOIDCConfigFromInput_def Let_def option.map_comp comp_def split: option.splits)

lemma copies_are_identities [simp]:
  "MapBackendTrafficPolicyConfigToInput = id" "mapWafPolicyConfigToInput = id"
  "eepExtProc e = None \<Longrightarrow> mapEnvoyExtensionPolicyConfigToInput e = e"
  by (simp_all add: fun_eq_iff MapBackendTrafficPolicyConfigToInput_def mapWafPolicyConfigToInput_def mapEnvoyExtensionPolicyConfigToInput_def)

text \<open>A snapshot as a write of the route proposes it, which is what a deployment records.\<close>

definition proposable :: "bool \<Rightarrow> RouteApprovalSnapshot \<Rightarrow> bool" where
  "proposable g sn \<longleftrightarrow> (\<exists>c sp btp eep waf. sn = proposed_snapshot g c sp btp eep waf)"

definition no_processor :: "RouteApprovalSnapshot \<Rightarrow> bool" where
  "no_processor sn \<longleftrightarrow> (case snEnvoyExtensionPolicy sn of None \<Rightarrow> True | Some e \<Rightarrow> eepExtProc e = None)"

lemma with_content_idem [simp]: "with_content p (with_content p x) = with_content p x"
  by (auto simp: with_content_def split: option.splits)

lemma snapshot_roundtrip:
  assumes "proposable (\<not> other_mode (rtSecurityMode r)) sn" "no_processor sn"
  shows "update_snapshot r (rollback_input rv sn) = sn"
proof -
  from assms(1) obtain c sp btp eep waf where sn: "sn = proposed_snapshot (\<not> other_mode (rtSecurityMode r)) c sp btp eep waf"
    unfolding proposable_def by blast
  have "map_option mapEnvoyExtensionPolicyConfigToInput (with_content EEP_HasContent eep) = with_content EEP_HasContent eep"
    using assms(2) by (auto simp: sn no_processor_def proposed_snapshot_def split: option.splits)
  then show ?thesis
    by (simp add: update_snapshot_def rollback_input_def sn proposed_snapshot_def option.map_comp comp_def security_roundtrip option.map_id)
qed

text \<open>C39. A rollback submits an update whose approval proposes exactly the recorded version: its configuration and its security, traffic,
  extension and WAF policies, provided that the version has no external processor. The route keeps its configuration until then.\<close>

theorem rollback_proposes_the_version:
  assumes "Rollback l4 i n by (d, fs) = (Inr (r', Some a), (d', fs'))"
    "List.find (\<lambda>v. rvRouteID v = i \<and> rvVersion v = n) (route_versions d) = Some rv" "rvConfigSnapshot rv = Doc sn"
    "row_get rtID i (routes d) = Some r" "proposable (\<not> other_mode (rtSecurityMode r)) sn" "no_processor sn"
  shows "apStatus a = ApprovalStatusPending \<and> apEntityID a = i \<and> apAction a = ApprovalActionUpdate \<and> apConfigSnapshot a = Some (Doc sn) \<and>
    approvals d' = approvals d @ [a\<lparr>apStages := []\<rparr>] \<and> rtConfig r' = rtConfig r \<and> row_get rtID i (routes d') = Some r'"
proof -
  have "hoare (\<lambda>x. x = d) (Rollback l4 i n by) (\<lambda>out x. \<exists>r. updated d i (rollback_input rv sn) r out x) (\<lambda>_ _. True)"
    unfolding Rollback_def RouteVersionRepo_GetByRouteIDAndVersion_def
  proof (rule hoare_bind)
    show "hoare (\<lambda>x. x = d) (wrap_error ''failed to get version %d: %w'' (query (\<lambda>d. found (find (\<lambda>v. rvRouteID v = i \<and> rvVersion v = n) (route_versions d)))))
        (\<lambda>x y. x = rv \<and> y = d) (\<lambda>_ _. True)"
      by (rule hoare_pre, (rule wp)+) (use assms(2) in auto)
    show "hoare (\<lambda>y. x = rv \<and> y = d)
        (case rvConfigSnapshot x of Corrupt \<Rightarrow> throw (Msg ''failed to unmarshal config snapshot: %w'')
          | Doc sn \<Rightarrow> RouteService_Update l4 i (rollback_input x sn) by)
        (\<lambda>out x. \<exists>r. updated d i (rollback_input rv sn) r out x) (\<lambda>_ _. True)" for x
      by (rule hoare_state) (use assms(3) in \<open>auto intro: hoare_RouteService_Update\<close>)
  qed
  from hoare_run [OF this assms(1)] obtain r0 where "updated d i (rollback_input rv sn) r0 (r', Some a) d'" by auto
  then show ?thesis using assms(4) snapshot_roundtrip [OF assms(5,6), of rv] by (auto simp: updated_def)
qed

definition sample_version :: RouteVersion where
  "sample_version = \<lparr>rvRouteID = 6, rvVersion = 1, rvConfigSnapshot = Doc (create_snapshot \<lparr>cpDomain = Some 5, cpIsStream = False, cpProjectID = 1,
       cpProtocol = RouteProtocolHTTP, cpSecurityMode = SecurityModeGeneral\<rparr> sample_input), rvRouteDescription = [],
     rvProtocol = RouteProtocolHTTP, rvSecurityMode = SecurityModeGeneral, rvChangeDescription = [], rvApprovalID = None, rvDeployedBy = 7\<rparr>"

definition sample_history :: db where
  "sample_history = sample_store\<lparr>routes := [(sample_route RouteStatusActive)\<lparr>rtSecurityMode := SecurityModeGeneral\<rparr>], route_versions := [sample_version]\<rparr>"

definition sample_rollback :: "(error + Route \<times> Approval option) \<times> (db \<times> bool list)" where
  "sample_rollback = Rollback None 6 1 7 (sample_history, [])"

theorem rollback_proposes_the_version_witness:
  "\<exists>r' a d'. sample_rollback = (Inr (r', Some a), (d', [])) \<and> apConfigSnapshot a = Some (rvConfigSnapshot sample_version)"
proof -
  have "case sample_rollback of (Inr (_, Some _), (_, fs)) \<Rightarrow> fs = [] | _ \<Rightarrow> False" by code_simp
  then obtain r' a d' where run: "sample_rollback = (Inr (r', Some a), (d', []))"
    using submitted_run by blast
  obtain sn where sn: "rvConfigSnapshot sample_version = Doc sn" "sn = create_snapshot \<lparr>cpDomain = Some 5, cpIsStream = False, cpProjectID = 1,
       cpProtocol = RouteProtocolHTTP, cpSecurityMode = SecurityModeGeneral\<rparr> sample_input" by (simp add: sample_version_def)
  let ?r = "(sample_route RouteStatusActive)\<lparr>rtSecurityMode := SecurityModeGeneral\<rparr>"
  have r: "row_get rtID 6 (routes sample_history) = Some ?r" "\<not> other_mode (rtSecurityMode ?r)" by code_simp+
  have v: "List.find (\<lambda>v. rvRouteID v = 6 \<and> rvVersion v = 1) (route_versions sample_history) = Some sample_version"
    by (simp add: sample_history_def sample_version_def)
  have p: "proposable (\<not> other_mode (rtSecurityMode ?r)) sn"
    using r(2) unfolding proposable_def sn(2) create_snapshot_def by simp blast
  have n: "no_processor sn" unfolding sn(2) by code_simp
  show ?thesis using run sn(1) rollback_proposes_the_version [OF run [unfolded sample_rollback_def] v sn(1) r(1) p n] by auto
qed

text \<open>With an external processor it does not hold: a version whose extension policy has nothing else is rolled back to no policy at all.\<close>

lemma rollback_drops_processors:
  assumes "snEnvoyExtensionPolicy sn = Some \<lparr>eepLua = None, eepWasm = None, eepExtProc = Some x\<rparr>"
  shows "snEnvoyExtensionPolicy (update_snapshot r (rollback_input rv sn)) = None"
  using assms by (simp add: update_snapshot_def rollback_input_def proposed_snapshot_def mapEnvoyExtensionPolicyConfigToInput_def with_content_def
      EEP_HasContent_def)

end
