(* ===== verification/TrafficPolicy.thy ===== *)
theory TrafficPolicy
  imports RouteValidation
begin

text \<open>
  The \<open>BackendTrafficPolicy\<close> of a route: the plan of \<open>src/internal/routeplan/backendtrafficpolicy.go\<close> and
  \<open>backendtrafficpolicy_map.go\<close>, and the manifest of \<open>src/internal/kubernetes/backendtrafficpolicy.go\<close> with the types of
  \<open>backendtrafficpolicy_types.go\<close>.

  A block of the plan whose fields the code copies one by one from the stored policy is a value of the stored block's type; the
  blocks that change shape on the way (the active health check) have a type of their own. The manifest is a JSON value.
\<close>

section \<open>JSON objects\<close>

text \<open>The ways in which the code adds a key: always, for a pointer that is set, for a string or a list that is not empty, and for an
  object that has a key.\<close>

definition opt_field :: "string \<Rightarrow> ('a \<Rightarrow> json) \<Rightarrow> 'a option \<Rightarrow> (string \<times> json) list" where
  "opt_field k f x = (case x of None \<Rightarrow> [] | Some y \<Rightarrow> [(k, f y)])"

definition str_field :: "string \<Rightarrow> string \<Rightarrow> (string \<times> json) list" where
  "str_field k s = (if s = [] then [] else [(k, JStr s)])"

definition list_field :: "string \<Rightarrow> ('a \<Rightarrow> json) \<Rightarrow> 'a list \<Rightarrow> (string \<times> json) list" where
  "list_field k f xs = (if xs = [] then [] else [(k, JList (map f xs))])"

definition obj_field :: "string \<Rightarrow> (string \<times> json) list \<Rightarrow> (string \<times> json) list" where
  "obj_field k fs = (if fs = [] then [] else [(k, JObj fs)])"

definition block :: "('a \<Rightarrow> (string \<times> json) list) \<Rightarrow> 'a option \<Rightarrow> (string \<times> json) list" where
  "block f x = (case x of None \<Rightarrow> [] | Some y \<Rightarrow> f y)"

section \<open>The plan\<close>

record ActiveHealthCheckPolicyConfig =
  akcTimeout :: "string option"
  akcInterval :: "string option"
  akcUnhealthyThreshold :: "int option"
  akcHealthyThreshold :: "int option"
  akcType :: string
  akcHTTP :: "HTTPActiveHealthCheckConfig option"
  akcTCP :: "(string option \<times> string option) option"
  akcGRPC :: "string option option"

record HealthCheckPolicyConfig =
  hkActive :: "ActiveHealthCheckPolicyConfig option"
  hkPassive :: "PassiveHealthCheckConfig option"
  hkPanicThreshold :: "int option"

record BackendTrafficPolicyTargetRef =
  trGroup :: string
  trKind :: string
  trName :: string

record BackendTrafficPolicyK8s =
  bkName :: string
  bkNamespace :: string
  bkGatewayID :: string
  bkRouteID :: string
  bkDomainID :: string
  bkTargetRef :: BackendTrafficPolicyTargetRef
  bkCompression :: "string list"
  bkRetry :: "RetryConfig option"
  bkLoadBalancer :: "LoadBalancerConfig option"
  bkCircuitBreaker :: "CircuitBreakerConfig option"
  bkHealthCheck :: "HealthCheckPolicyConfig option"
  bkFaultInjection :: "FaultInjectionConfig option"
  bkRateLimit :: "RateLimitRule list option"
  bkRequestBuffer :: "string option"
  bkResponseOverride :: "ResponseOverrideRule list"
  bkTimeout :: "BTPTimeoutConfig option"

text \<open>The checker of the type is always there, filled in or empty.\<close>

definition active_health_plan :: "ActiveHealthCheckConfig \<Rightarrow> ActiveHealthCheckPolicyConfig" where
  "active_health_plan a =
     \<lparr>akcTimeout = ahcTimeout a, akcInterval = ahcInterval a, akcUnhealthyThreshold = ahcUnhealthyThreshold a,
      akcHealthyThreshold = ahcHealthyThreshold a, akcType = ahcType a,
      akcHTTP = (if ahcType a = ''HTTP''
        then Some (case ahcHTTP a of None \<Rightarrow> \<lparr>hahPath = [], hahMethod = None, hahExpectedStatuses = []\<rparr> | Some h \<Rightarrow> h) else None),
      akcTCP = (if ahcType a = ''TCP''
        then Some (case ahcTCP a of None \<Rightarrow> (None, None)
          | Some t \<Rightarrow> (Option.bind (tahSend t) hpText, Option.bind (tahReceive t) hpText)) else None),
      akcGRPC = (if ahcType a = ''GRPC'' then Some (Option.bind (ahcGRPC a) gahService) else None)\<rparr>"

definition MapHealthCheckConfigToPolicy :: "HealthCheckConfig \<Rightarrow> HealthCheckPolicyConfig" where
  "MapHealthCheckConfigToPolicy hc =
     \<lparr>hkActive = map_option active_health_plan (hcActive hc), hkPassive = hcPassive hc, hkPanicThreshold = hcPanicThreshold hc\<rparr>"

text \<open>The copies: these blocks keep their shape.\<close>

definition copy_selector :: "RateLimitSelector \<Rightarrow> RateLimitSelector" where
  "copy_selector s =
     \<lparr>rlsHeaders = map (\<lambda>h. \<lparr>rlhName = rlhName h, rlhValue = rlhValue h, rlhType = rlhType h, rlhInvert = rlhInvert h\<rparr>) (rlsHeaders s),
      rlsSourceCIDR = map_option (\<lambda>c. \<lparr>rlcValue = rlcValue c, rlcType = rlcType c\<rparr>) (rlsSourceCIDR s),
      rlsPath = map_option (\<lambda>p. \<lparr>rlpValue = rlpValue p, rlpType = rlpType p\<rparr>) (rlsPath s), rlsMethods = rlsMethods s\<rparr>"

definition MapRateLimitConfigToPolicy :: "RateLimitConfig \<Rightarrow> RateLimitRule list option" where
  "MapRateLimitConfigToPolicy rl = map_option (map (\<lambda>r.
     \<lparr>rlrRequests = rlrRequests r, rlrUnit = rlrUnit r, rlrClientSelectors = map copy_selector (rlrClientSelectors r)\<rparr>)) (rlGlobal rl)"

definition MapCircuitBreakerConfigToPolicy :: "CircuitBreakerConfig \<Rightarrow> CircuitBreakerConfig" where
  "MapCircuitBreakerConfigToPolicy cb =
     \<lparr>cbMaxConnections = cbMaxConnections cb, cbMaxPendingRequests = cbMaxPendingRequests cb, cbMaxParallelRequests = cbMaxParallelRequests cb,
      cbMaxParallelRetries = cbMaxParallelRetries cb, cbMaxRequestsPerConnection = cbMaxRequestsPerConnection cb\<rparr>"

definition MapFaultInjectionConfigToPolicy :: "FaultInjectionConfig \<Rightarrow> FaultInjectionConfig" where
  "MapFaultInjectionConfigToPolicy fi =
     \<lparr>fiDelay = map_option (\<lambda>d. \<lparr>fidFixedDelay = fidFixedDelay d, fidPercentage = fidPercentage d\<rparr>) (fiDelay fi),
      fiAbort = map_option (\<lambda>a. \<lparr>fiaHTTPStatus = fiaHTTPStatus a, fiaGRPCStatus = fiaGRPCStatus a, fiaPercentage = fiaPercentage a\<rparr>) (fiAbort fi)\<rparr>"

definition MapLoadBalancerConfigToPolicy :: "LoadBalancerConfig \<Rightarrow> LoadBalancerConfig" where
  "MapLoadBalancerConfigToPolicy lb =
     \<lparr>lbType = lbType lb,
      lbConsistentHash = map_option (\<lambda>h. \<lparr>chType = chType h, chHeader = chHeader h,
        chCookie = map_option (\<lambda>c. \<lparr>chcName = chcName c, chcTTL = chcTTL c, chcAttributes = chcAttributes c\<rparr>) (chCookie h)\<rparr>) (lbConsistentHash lb)\<rparr>"

definition MapRetryConfigToPolicy :: "RetryConfig \<Rightarrow> RetryConfig" where
  "MapRetryConfigToPolicy r =
     \<lparr>rtyNumRetries = rtyNumRetries r,
      rtyRetryOn = map_option (\<lambda>c. \<lparr>roHTTPStatusCodes = roHTTPStatusCodes c, roTriggers = roTriggers c\<rparr>) (rtyRetryOn r),
      rtyPerRetryPolicy = map_option (\<lambda>p.
        \<lparr>prpBackOff = map_option (\<lambda>b. \<lparr>boBaseInterval = boBaseInterval b, boMaxInterval = boMaxInterval b\<rparr>) (prpBackOff p),
         prpTimeout = prpTimeout p\<rparr>) (rtyPerRetryPolicy r)\<rparr>"

definition MapResponseOverrideToPolicy :: "ResponseOverrideRule list \<Rightarrow> ResponseOverrideRule list" where
  "MapResponseOverrideToPolicy = map (\<lambda>r.
     \<lparr>rorStatusCodes = map (\<lambda>sc. \<lparr>scmType = scmType sc, scmValue = scmValue sc, scmRange = scmRange sc\<rparr>) (rorStatusCodes r),
      rorContentType = rorContentType r, rorBodyType = rorBodyType r, rorBodyInline = rorBodyInline r,
      rorBodyValueRef = map_option (\<lambda>v. \<lparr>vrGroup = vrGroup v, vrKind = vrKind v, vrName = vrName v, vrNamespace = vrNamespace v\<rparr>) (rorBodyValueRef r)\<rparr>)"

definition MapTimeoutConfigToPolicy :: "BTPTimeoutConfig \<Rightarrow> BTPTimeoutConfig" where
  "MapTimeoutConfigToPolicy t =
     \<lparr>btoTCP = btoTCP t,
      btoHTTP = map_option (\<lambda>h. \<lparr>bhtRequestTimeout = bhtRequestTimeout h, bhtConnectionIdleTimeout = bhtConnectionIdleTimeout h,
        bhtMaxConnectionDuration = bhtMaxConnectionDuration h, bhtMaxStreamDuration = bhtMaxStreamDuration h\<rparr>) (btoHTTP t)\<rparr>"

lemma map_option_copy: "(\<And>x. f x = x) \<Longrightarrow> map_option f y = y"
  by (cases y) simp_all

lemmas copy_intros = map_option_copy map_idI RateLimitHeaderMatch.equality RateLimitSourceCIDR.equality RateLimitPathMatch.equality
  RateLimitSelector.equality RateLimitRule.equality CircuitBreakerConfig.equality FaultInjectionDelayConfig.equality
  FaultInjectionAbortConfig.equality FaultInjectionConfig.equality ConsistentHashCookie.equality ConsistentHashConfig.equality
  LoadBalancerConfig.equality RetryOn.equality BackOffPolicy.equality PerRetryPolicy.equality RetryConfig.equality StatusCodeMatch.equality
  ValueRef.equality ResponseOverrideRule.equality BTPHTTPTimeoutConfig.equality BTPTimeoutConfig.equality

lemma maps_are_copies [simp]:
  "MapRateLimitConfigToPolicy rl = rlGlobal rl" "MapCircuitBreakerConfigToPolicy cb = cb" "MapFaultInjectionConfigToPolicy fi = fi"
  "MapLoadBalancerConfigToPolicy lb = lb" "MapRetryConfigToPolicy r = r" "MapResponseOverrideToPolicy rs = rs" "MapTimeoutConfigToPolicy t = t"
  unfolding MapRateLimitConfigToPolicy_def copy_selector_def MapCircuitBreakerConfigToPolicy_def MapFaultInjectionConfigToPolicy_def
    MapLoadBalancerConfigToPolicy_def MapRetryConfigToPolicy_def MapResponseOverrideToPolicy_def MapTimeoutConfigToPolicy_def
  by (intro copy_intros; simp; intro copy_intros; simp; intro copy_intros; simp)+

lemma map_option_copies [simp]:
  "map_option MapCircuitBreakerConfigToPolicy y1 = y1" "map_option MapFaultInjectionConfigToPolicy y2 = y2"
  "map_option MapLoadBalancerConfigToPolicy y3 = y3" "map_option MapRetryConfigToPolicy y4 = y4" "map_option MapTimeoutConfigToPolicy y5 = y5"
  by (simp_all add: map_option_copy)

definition l4LoadBalancer :: "LoadBalancerConfig \<Rightarrow> LoadBalancerConfig" where
  "l4LoadBalancer lb =
     (if lbType lb = ''ConsistentHash'' then lb\<lparr>lbConsistentHash := Some \<lparr>chType = ''SourceIP'', chHeader = None, chCookie = None\<rparr>\<rparr> else lb)"

definition no_policy :: BackendTrafficPolicyConfig where
  "no_policy = \<lparr>btpCompression = [], btpRetry = None, btpLoadBalancer = None, btpCircuitBreaker = None, btpHealthCheck = None,
     btpFaultInjection = None, btpRateLimit = None, btpRequestBuffer = None, btpResponseOverride = [], btpTimeout = None\<rparr>"

definition gated_breaker :: "CircuitBreakerConfig \<Rightarrow> CircuitBreakerConfig option" where
  "gated_breaker cb =
     (if cbMaxConnections cb \<noteq> None \<or> cbMaxRequestsPerConnection cb \<noteq> None
      then Some \<lparr>cbMaxConnections = cbMaxConnections cb, cbMaxPendingRequests = None, cbMaxParallelRequests = None,
        cbMaxParallelRetries = None, cbMaxRequestsPerConnection = cbMaxRequestsPerConnection cb\<rparr> else None)"

definition gated_health :: "HealthCheckConfig \<Rightarrow> HealthCheckConfig option" where
  "gated_health hc =
     (let kept = \<lparr>hcActive = (case hcActive hc of Some a \<Rightarrow> if ahcType a = ''TCP'' then Some a else None | None \<Rightarrow> None),
            hcPassive = hcPassive hc, hcPanicThreshold = hcPanicThreshold hc\<rparr>
      in if hcActive kept \<noteq> None \<or> hcPassive kept \<noteq> None \<or> hcPanicThreshold kept \<noteq> None then Some kept else None)"

definition gated_timeout :: "BTPTimeoutConfig \<Rightarrow> BTPTimeoutConfig option" where
  "gated_timeout t = (if btoTCP t = None then None else Some \<lparr>btoTCP = btoTCP t, btoHTTP = None\<rparr>)"

definition gateBackendTrafficPolicyForProtocol :: "RouteProtocol \<Rightarrow> BackendTrafficPolicyConfig \<Rightarrow> BackendTrafficPolicyConfig" where
  "gateBackendTrafficPolicyForProtocol protocol i =
     (if protocol \<noteq> RouteProtocolTCP \<and> protocol \<noteq> RouteProtocolUDP then i
      else let gated = no_policy\<lparr>btpLoadBalancer := map_option l4LoadBalancer (btpLoadBalancer i)\<rparr>
        in if protocol = RouteProtocolUDP then gated
           else gated\<lparr>btpCircuitBreaker := Option.bind (btpCircuitBreaker i) gated_breaker,
             btpHealthCheck := Option.bind (btpHealthCheck i) gated_health,
             btpTimeout := Option.bind (btpTimeout i) gated_timeout\<rparr>)"

definition GetRouteKind :: "RouteProtocol \<Rightarrow> string" where
  "GetRouteKind protocol = (case protocol of
     RouteProtocolGRPC \<Rightarrow> ''GRPCRoute'' | RouteProtocolTCP \<Rightarrow> ''TCPRoute'' | RouteProtocolUDP \<Rightarrow> ''UDPRoute'' | _ \<Rightarrow> ''HTTPRoute'')"

definition BackendTrafficPolicyName :: "string \<Rightarrow> string" where
  "BackendTrafficPolicyName routeName = routeName @ ''-btp''"

text \<open>The ten copies, after the gate.\<close>

definition traffic_plan :: "string \<Rightarrow> RouteProtocol \<Rightarrow> string \<Rightarrow> string \<Rightarrow> string \<Rightarrow> BackendTrafficPolicyConfig \<Rightarrow> BackendTrafficPolicyK8s" where
  "traffic_plan routeK8sName protocol routeID namespace gatewayID i =
     \<lparr>bkName = BackendTrafficPolicyName routeK8sName, bkNamespace = namespace, bkGatewayID = gatewayID, bkRouteID = routeID, bkDomainID = [],
      bkTargetRef = \<lparr>trGroup = ''gateway.networking.k8s.io'', trKind = GetRouteKind protocol, trName = routeK8sName\<rparr>,
      bkCompression = btpCompression i, bkRetry = map_option MapRetryConfigToPolicy (btpRetry i),
      bkLoadBalancer = map_option MapLoadBalancerConfigToPolicy (btpLoadBalancer i),
      bkCircuitBreaker = map_option MapCircuitBreakerConfigToPolicy (btpCircuitBreaker i),
      bkHealthCheck = map_option MapHealthCheckConfigToPolicy (btpHealthCheck i),
      bkFaultInjection = map_option MapFaultInjectionConfigToPolicy (btpFaultInjection i),
      bkRateLimit = Option.bind (btpRateLimit i) MapRateLimitConfigToPolicy, bkRequestBuffer = btpRequestBuffer i,
      bkResponseOverride = MapResponseOverrideToPolicy (btpResponseOverride i), bkTimeout = map_option MapTimeoutConfigToPolicy (btpTimeout i)\<rparr>"

definition buildBackendTrafficPolicyConfigFromInput ::
  "string \<Rightarrow> RouteProtocol \<Rightarrow> string \<Rightarrow> string \<Rightarrow> string \<Rightarrow> BackendTrafficPolicyConfig \<Rightarrow> BackendTrafficPolicyK8s" where
  "buildBackendTrafficPolicyConfigFromInput routeK8sName protocol routeID namespace gatewayID i =
     traffic_plan routeK8sName protocol routeID namespace gatewayID (gateBackendTrafficPolicyForProtocol protocol i)"

definition BuildBackendTrafficPolicyConfigForNamespace ::
  "Route \<Rightarrow> string \<Rightarrow> string \<Rightarrow> BackendTrafficPolicyConfig \<Rightarrow> BackendTrafficPolicyK8s option" where
  "BuildBackendTrafficPolicyConfigForNamespace route namespace gatewayID policy =
     (if BackendTrafficPolicyConfig_IsEmpty policy then None
      else Some (buildBackendTrafficPolicyConfigFromInput (rtK8sRouteName route) (rtProtocol route) (uuid_string (rtID route)) namespace gatewayID policy))"

section \<open>The manifest\<close>

definition compressor_json :: "string \<Rightarrow> json" where
  "compressor_json t = JObj ([(''type'', JStr t)] @
     (if t = ''Gzip'' then [(''gzip'', JObj [])] else if t = ''Brotli'' then [(''brotli'', JObj [])]
      else if t = ''Zstd'' then [(''zstd'', JObj [])] else []))"

definition retry_fields :: "RetryConfig \<Rightarrow> (string \<times> json) list" where
  "retry_fields r = obj_field ''retry'' (opt_field ''numRetries'' JInt (rtyNumRetries r) @
     block (\<lambda>c. obj_field ''retryOn'' (list_field ''httpStatusCodes'' JInt (roHTTPStatusCodes c) @ list_field ''triggers'' JStr (roTriggers c)))
       (rtyRetryOn r) @
     block (\<lambda>p. obj_field ''perRetry'' (opt_field ''timeout'' JStr (prpTimeout p) @
       block (\<lambda>b. obj_field ''backOff'' (opt_field ''baseInterval'' JStr (boBaseInterval b) @ opt_field ''maxInterval'' JStr (boMaxInterval b)))
         (prpBackOff p))) (rtyPerRetryPolicy r))"

definition cookie_json :: "ConsistentHashCookie \<Rightarrow> json" where
  "cookie_json c = JObj ([(''name'', JStr (chcName c))] @ opt_field ''ttl'' JStr (chcTTL c) @
     obj_field ''attributes'' (map (\<lambda>(k, v). (k, JStr v)) (chcAttributes c)))"

definition hash_json :: "ConsistentHashConfig \<Rightarrow> json" where
  "hash_json h = JObj ([(''type'', JStr (chType h))] @ opt_field ''header'' (\<lambda>n. JObj [(''name'', JStr n)]) (chHeader h) @
     opt_field ''cookie'' cookie_json (chCookie h))"

definition balancer_fields :: "LoadBalancerConfig \<Rightarrow> (string \<times> json) list" where
  "balancer_fields lb = [(''loadBalancer'', JObj ([(''type'', JStr (lbType lb))] @ opt_field ''consistentHash'' hash_json (lbConsistentHash lb)))]"

definition breaker_fields :: "CircuitBreakerConfig \<Rightarrow> (string \<times> json) list" where
  "breaker_fields cb = obj_field ''circuitBreaker'' (opt_field ''maxConnections'' JInt (cbMaxConnections cb) @
     opt_field ''maxPendingRequests'' JInt (cbMaxPendingRequests cb) @ opt_field ''maxParallelRequests'' JInt (cbMaxParallelRequests cb) @
     opt_field ''maxParallelRetries'' JInt (cbMaxParallelRetries cb) @
     opt_field ''maxRequestsPerConnection'' JInt (cbMaxRequestsPerConnection cb))"

definition text_payload :: "string \<Rightarrow> json" where
  "text_payload t = JObj [(''type'', JStr ''Text''), (''text'', JStr t)]"

definition http_check_fields :: "HTTPActiveHealthCheckConfig \<Rightarrow> (string \<times> json) list" where
  "http_check_fields h = [(''path'', JStr (hahPath h))] @ opt_field ''method'' JStr (hahMethod h) @
     list_field ''expectedStatuses'' JInt (hahExpectedStatuses h)"

definition active_json :: "ActiveHealthCheckPolicyConfig \<Rightarrow> json" where
  "active_json a = JObj ([(''type'', JStr (akcType a))] @ opt_field ''timeout'' JStr (akcTimeout a) @ opt_field ''interval'' JStr (akcInterval a) @
     opt_field ''unhealthyThreshold'' JInt (akcUnhealthyThreshold a) @ opt_field ''healthyThreshold'' JInt (akcHealthyThreshold a) @
     (if akcType a = ''HTTP'' then [(''http'', JObj (block http_check_fields (akcHTTP a)))]
      else if akcType a = ''TCP''
      then [(''tcp'', JObj (block (\<lambda>(s, r). opt_field ''send'' text_payload s @ opt_field ''receive'' text_payload r) (akcTCP a)))]
      else if akcType a = ''GRPC'' then [(''grpc'', JObj (block (opt_field ''service'' JStr) (akcGRPC a)))]
      else []))"

definition passive_fields :: "PassiveHealthCheckConfig \<Rightarrow> (string \<times> json) list" where
  "passive_fields p = obj_field ''passive'' (opt_field ''consecutiveGatewayErrors'' JInt (phcConsecutiveGatewayErrors p) @
     opt_field ''consecutive5XxErrors'' JInt (phcConsecutive5xxErrors p) @
     opt_field ''consecutiveLocalOriginFailures'' JInt (phcConsecutiveLocalOriginFailures p) @ opt_field ''interval'' JStr (phcInterval p) @
     opt_field ''baseEjectionTime'' JStr (phcBaseEjectionTime p) @ opt_field ''maxEjectionPercent'' JInt (phcMaxEjectionPercent p) @
     opt_field ''splitExternalLocalOriginErrors'' JBool (phcSplitExternalLocalOriginErrors p))"

definition health_fields :: "HealthCheckPolicyConfig \<Rightarrow> (string \<times> json) list" where
  "health_fields hc = obj_field ''healthCheck'' (opt_field ''active'' active_json (hkActive hc) @ block passive_fields (hkPassive hc) @
     opt_field ''panicThreshold'' JInt (hkPanicThreshold hc))"

definition delay_json :: "FaultInjectionDelayConfig \<Rightarrow> json" where
  "delay_json d = JObj ([(''fixedDelay'', JStr (fidFixedDelay d))] @ opt_field ''percentage'' JNum (fidPercentage d))"

definition abort_json :: "FaultInjectionAbortConfig \<Rightarrow> json" where
  "abort_json a = JObj (opt_field ''httpStatus'' JInt (fiaHTTPStatus a) @ opt_field ''grpcStatus'' JInt (fiaGRPCStatus a) @
     opt_field ''percentage'' JNum (fiaPercentage a))"

definition fault_fields :: "FaultInjectionConfig \<Rightarrow> (string \<times> json) list" where
  "fault_fields fi = obj_field ''faultInjection'' (opt_field ''delay'' delay_json (fiDelay fi) @ opt_field ''abort'' abort_json (fiAbort fi))"

definition limit_header_json :: "RateLimitHeaderMatch \<Rightarrow> json" where
  "limit_header_json h = JObj ([(''name'', JStr (rlhName h))] @ str_field ''value'' (rlhValue h) @ str_field ''type'' (rlhType h) @
     (if rlhInvert h then [(''invert'', JBool True)] else []))"

definition limit_selector_json :: "RateLimitSelector \<Rightarrow> json" where
  "limit_selector_json s = JObj (list_field ''headers'' limit_header_json (rlsHeaders s) @
     opt_field ''sourceCIDR'' (\<lambda>c. JObj ([(''value'', JStr (rlcValue c))] @ str_field ''type'' (rlcType c))) (rlsSourceCIDR s) @
     opt_field ''path'' (\<lambda>p. JObj [(''value'', JStr (rlpValue p)), (''type'', JStr (rlpType p))]) (rlsPath s) @
     list_field ''methods'' JStr (rlsMethods s))"

definition limit_rule_json :: "RateLimitRule \<Rightarrow> json" where
  "limit_rule_json r = JObj ([(''limit'', JObj [(''requests'', JInt (rlrRequests r)), (''unit'', JStr (rlrUnit r))])] @
     list_field ''clientSelectors'' limit_selector_json (rlrClientSelectors r))"

definition limit_fields :: "RateLimitRule list \<Rightarrow> (string \<times> json) list" where
  "limit_fields rules = [(''rateLimit'', JObj [(''global'', JObj [(''rules'', JList (map limit_rule_json rules))])])]"

definition status_json :: "StatusCodeMatch \<Rightarrow> json" where
  "status_json sc = JObj ([(''type'', JStr (scmType sc))] @ opt_field ''value'' JInt (scmValue sc) @
     opt_field ''range'' (\<lambda>(lo, hi). JObj [(''start'', JInt lo), (''end'', JInt hi)]) (scmRange sc))"

definition value_ref_json :: "ValueRef \<Rightarrow> json" where
  "value_ref_json v = JObj ([(''kind'', JStr (vrKind v)), (''name'', JStr (vrName v))] @ str_field ''group'' (vrGroup v) @
     str_field ''namespace'' (vrNamespace v))"

definition override_json :: "ResponseOverrideRule \<Rightarrow> json" where
  "override_json r = JObj
     [(''match'', JObj [(''statusCodes'', JList (map status_json (rorStatusCodes r)))]),
      (''response'', JObj [(''contentType'', JStr (rorContentType r)),
         (''body'', JObj ([(''type'', JStr (rorBodyType r))] @ str_field ''inline'' (rorBodyInline r) @
            opt_field ''valueRef'' value_ref_json (rorBodyValueRef r)))])]"

definition timeout_fields :: "BTPTimeoutConfig \<Rightarrow> (string \<times> json) list" where
  "timeout_fields t = obj_field ''timeout'' (block (\<lambda>c. obj_field ''tcp'' (str_field ''connectTimeout'' c)) (btoTCP t) @
     block (\<lambda>h. obj_field ''http'' (str_field ''requestTimeout'' (bhtRequestTimeout h) @
       str_field ''connectionIdleTimeout'' (bhtConnectionIdleTimeout h) @ str_field ''maxConnectionDuration'' (bhtMaxConnectionDuration h) @
       str_field ''maxStreamDuration'' (bhtMaxStreamDuration h))) (btoHTTP t))"

definition target_json :: "BackendTrafficPolicyTargetRef \<Rightarrow> json" where
  "target_json t = JObj [(''group'', JStr (trGroup t)), (''kind'', JStr (trKind t)), (''name'', JStr (trName t))]"

definition traffic_features :: "BackendTrafficPolicyK8s \<Rightarrow> (string \<times> json) list" where
  "traffic_features c = list_field ''compressor'' compressor_json (bkCompression c) @ block retry_fields (bkRetry c) @
     block balancer_fields (bkLoadBalancer c) @ block breaker_fields (bkCircuitBreaker c) @ block health_fields (bkHealthCheck c) @
     block fault_fields (bkFaultInjection c) @ block limit_fields (bkRateLimit c) @
     opt_field ''requestBuffer'' (\<lambda>l. JObj [(''limit'', JStr l)]) (bkRequestBuffer c) @
     list_field ''responseOverride'' override_json (bkResponseOverride c) @ block timeout_fields (bkTimeout c)"

text \<open>A policy without a feature has no manifest.\<close>

definition BuildBackendTrafficPolicy :: "BackendTrafficPolicyK8s \<Rightarrow> json option" where
  "BuildBackendTrafficPolicy c =
     (if traffic_features c = [] then None
      else Some (JObj
        [(''apiVersion'', JStr ''gateway.envoyproxy.io/v1alpha1''), (''kind'', JStr ''BackendTrafficPolicy''),
         (''metadata'', JObj [(''name'', JStr (bkName c)), (''namespace'', JStr (bkNamespace c)),
            (''labels'', JObj ([(''app.kubernetes.io/managed-by'', JStr ''fastgateway''), (''fastgateway.dev/gateway-id'', JStr (bkGatewayID c))] @
               str_field ''fastgateway.dev/route-id'' (bkRouteID c) @ str_field ''fastgateway.dev/domain-id'' (bkDomainID c)))]),
         (''spec'', JObj ([(''targetRef'', target_json (bkTargetRef c))] @ traffic_features c))]))"

section \<open>What reaches the cluster\<close>

lemma block_simps [simp]: "block f None = []" "block f (Some x) = f x" "opt_field k g None = []" "opt_field k g (Some y) = [(k, g y)]"
  by (simp_all add: block_def opt_field_def)

text \<open>The features of a gated plan.\<close>

lemma udp_features:
  "traffic_features (buildBackendTrafficPolicyConfigFromInput n RouteProtocolUDP r ns g b) =
     block balancer_fields (map_option l4LoadBalancer (btpLoadBalancer b))"
  by (simp add: traffic_features_def buildBackendTrafficPolicyConfigFromInput_def traffic_plan_def gateBackendTrafficPolicyForProtocol_def
      no_policy_def list_field_def)

lemma tcp_features:
  "traffic_features (buildBackendTrafficPolicyConfigFromInput n RouteProtocolTCP r ns g b) =
     block balancer_fields (map_option l4LoadBalancer (btpLoadBalancer b)) @ block breaker_fields (Option.bind (btpCircuitBreaker b) gated_breaker) @
     block health_fields (map_option MapHealthCheckConfigToPolicy (Option.bind (btpHealthCheck b) gated_health)) @
     block timeout_fields (Option.bind (btpTimeout b) gated_timeout)"
  by (simp add: traffic_features_def buildBackendTrafficPolicyConfigFromInput_def traffic_plan_def gateBackendTrafficPolicyForProtocol_def
      no_policy_def list_field_def)

lemma keys_of_blocks:
  "fst ` set (balancer_fields lb) = {''loadBalancer''}" "fst ` set (breaker_fields cb) \<subseteq> {''circuitBreaker''}"
  "fst ` set (health_fields hc) \<subseteq> {''healthCheck''}" "fst ` set (timeout_fields t) \<subseteq> {''timeout''}"
  by (simp_all add: balancer_fields_def breaker_fields_def health_fields_def timeout_fields_def obj_field_def)

lemma keys_of_block: "(\<And>x. fst ` set (f x) \<subseteq> K) \<Longrightarrow> fst ` set (block f y) \<subseteq> K"
  by (cases y) simp_all

lemma l4_keys:
  "fst ` set (block balancer_fields a) \<subseteq> {''loadBalancer''}" "fst ` set (block breaker_fields b) \<subseteq> {''circuitBreaker''}"
  "fst ` set (block health_fields c) \<subseteq> {''healthCheck''}" "fst ` set (block timeout_fields d) \<subseteq> {''timeout''}"
  using keys_of_blocks by (intro keys_of_block; simp)+

lemma l4_features_keys:
  "fst ` set (block balancer_fields a @ block breaker_fields b @ block health_fields c @ block timeout_fields d) \<subseteq>
     {''loadBalancer'', ''circuitBreaker'', ''healthCheck'', ''timeout''}"
  unfolding set_append image_Un
  by (intro Un_least order_trans [OF l4_keys(1)] order_trans [OF l4_keys(2)] order_trans [OF l4_keys(3)] order_trans [OF l4_keys(4)]) simp_all

text \<open>The gate removes nothing of a policy that the validator of L4 routes accepts.\<close>

lemma validated_breaker:
  assumes "cbMaxPendingRequests cb = None" "cbMaxParallelRequests cb = None" "cbMaxParallelRetries cb = None"
  shows "block breaker_fields (gated_breaker cb) = breaker_fields cb"
  using assms by (auto simp: gated_breaker_def breaker_fields_def obj_field_def)

lemma validated_health:
  assumes "\<And>a. hcActive hc = Some a \<Longrightarrow> ahcType a = ''TCP''"
  shows "block health_fields (map_option MapHealthCheckConfigToPolicy (gated_health hc)) = health_fields (MapHealthCheckConfigToPolicy hc)"
proof -
  have "(case hcActive hc of Some a \<Rightarrow> if ahcType a = ''TCP'' then Some a else None | None \<Rightarrow> None) = hcActive hc"
    using assms by (simp split: option.splits)
  then show ?thesis by (cases hc) (auto simp: gated_health_def health_fields_def MapHealthCheckConfigToPolicy_def obj_field_def Let_def)
qed

lemma validated_timeout: "btoHTTP t = None \<Longrightarrow> block timeout_fields (gated_timeout t) = timeout_fields t"
  by (cases t) (auto simp: gated_timeout_def timeout_fields_def obj_field_def)


definition sample_traffic :: BackendTrafficPolicyConfig where
  "sample_traffic = no_policy\<lparr>btpLoadBalancer := Some \<lparr>lbType = ''ConsistentHash'', lbConsistentHash = Some \<lparr>chType = ''Header'',
     chHeader = Some ''X-User'', chCookie = None\<rparr>\<rparr>, btpTimeout := Some \<lparr>btoTCP = Some ''5s'', btoHTTP = None\<rparr>\<rparr>"


end
