(* ===== verification/Deploy.thy ===== *)
theory Deploy
  imports RouteVersions TrafficPolicy
begin

text \<open>
  Deploying the routes of streams: \<open>src/internal/services/route_deploy_service.go\<close> with the traffic policy of
  \<open>route_deploy_policies.go\<close>, the plans \<open>src/internal/routeplan/tcproute.go\<close> and \<open>udproute.go\<close>, the manifests of
  \<open>src/internal/kubernetes/tcproute.go\<close> and \<open>udproute.go\<close>, and the client in \<open>src/internal/cluster/route.go\<close> and
  \<open>policy.go\<close>. The two API versions of a \<open>TCPRoute\<close> or \<open>UDPRoute\<close> address the same object. The probe for the version is an
  argument: \<open>has project name\<close> tells whether the cluster of the project has a capability.

  \<open>CreateBackendTrafficPolicy\<close> and \<open>UpdateBackendTrafficPolicy\<close> fall back to each other when the object appears or goes away
  between two calls, which takes a second writer and does not arise in a sequential run.
\<close>

section \<open>Plans and manifests\<close>

definition CapL4RouteV1 :: string where "CapL4RouteV1 = ''l4RouteV1''"

definition ForRoute :: "string \<Rightarrow> string \<Rightarrow> (string \<times> string) list" where
  "ForRoute gatewayID routeID =
     [(''app.kubernetes.io/managed-by'', ''fastgateway''), (''fastgateway.dev/gateway-id'', gatewayID), (''fastgateway.dev/route-id'', routeID)]"

record L4Backend =
  lbService :: string
  lbNamespace :: string
  lbPort :: int
  lbWeight :: int

record L4RouteConfig =
  lcName :: string
  lcNamespace :: string
  lcGatewayName :: string
  lcSectionName :: string
  lcBackends :: "L4Backend list"
  lcLabels :: "(string \<times> string) list"

definition l4Backends :: "Route \<Rightarrow> L4Backend list" where
  "l4Backends route = map (\<lambda>b. \<lparr>lbService = beService b, lbNamespace = beNamespace b, lbPort = bePort b, lbWeight = beWeight b\<rparr>)
     (rcBackends (rtConfig route))"

definition BuildTCPRouteConfig :: "Route \<Rightarrow> Stream \<Rightarrow> L4RouteConfig" where
  "BuildTCPRouteConfig route stream =
     \<lparr>lcName = rtK8sRouteName route, lcNamespace = strNamespace stream, lcGatewayName = strK8sGatewayName stream,
      lcSectionName = ListenerName (transport_of (rtProtocol route)) (rcListenerPort (rtConfig route)),
      lcBackends = l4Backends route, lcLabels = ForRoute (uuid_string (strID stream)) (uuid_string (rtID route))\<rparr>"

definition BuildUDPRouteConfig :: "Route \<Rightarrow> Stream \<Rightarrow> L4RouteConfig" where
  "BuildUDPRouteConfig route stream =
     \<lparr>lcName = rtK8sRouteName route, lcNamespace = strNamespace stream, lcGatewayName = strK8sGatewayName stream,
      lcSectionName = ListenerName (transport_of (rtProtocol route)) (rcListenerPort (rtConfig route)),
      lcBackends = l4Backends route, lcLabels = ForRoute (uuid_string (strID stream)) (uuid_string (rtID route))\<rparr>"

text \<open>\<open>int32(x)\<close> of an \<open>int\<close>\<close>

definition int32_of :: "int \<Rightarrow> int" where
  "int32_of x = (x + 2147483648) mod 4294967296 - 2147483648"

definition buildL4BackendRefs :: "L4Backend list \<Rightarrow> L4BackendRef list" where
  "buildL4BackendRefs = map (\<lambda>b. \<lparr>brName = lbService b, brPort = int32_of (lbPort b),
     brNamespace = (if lbNamespace b = [] then None else Some (lbNamespace b)),
     brWeight = (if lbWeight b > 0 then Some (int32_of (lbWeight b)) else None)\<rparr>)"

definition BuildTCPRouteObject :: "L4RouteConfig \<Rightarrow> string \<Rightarrow> L4RouteObject" where
  "BuildTCPRouteObject cfg apiVersion =
     \<lparr>lroAPIVersion = apiVersion, lroLabels = lcLabels cfg, lroParentName = lcGatewayName cfg, lroParentNamespace = lcNamespace cfg,
      lroSectionName = lcSectionName cfg, lroBackendRefs = buildL4BackendRefs (lcBackends cfg)\<rparr>"

definition BuildUDPRouteObject :: "L4RouteConfig \<Rightarrow> string \<Rightarrow> L4RouteObject" where
  "BuildUDPRouteObject cfg apiVersion =
     \<lparr>lroAPIVersion = apiVersion, lroLabels = lcLabels cfg, lroParentName = lcGatewayName cfg, lroParentNamespace = lcNamespace cfg,
      lroSectionName = lcSectionName cfg, lroBackendRefs = buildL4BackendRefs (lcBackends cfg)\<rparr>"

section \<open>The client\<close>

definition UpdateTCPRoute :: "uuid \<Rightarrow> L4RouteConfig \<Rightarrow> string \<Rightarrow> unit m" where
  "UpdateTCPRoute p config version =
     bind (wrap_error ''failed to get existing TCPRoute: %w'' (k8s_Get (K8sKey p KTCPRoute (lcNamespace config) (lcName config)))) (\<lambda>_.
     wrap_error ''failed to update TCPRoute: %w''
       (k8s_Update (K8sKey p KTCPRoute (lcNamespace config) (lcName config)) (L4RouteObj (BuildTCPRouteObject config version))))"

definition CreateTCPRoute :: "uuid \<Rightarrow> L4RouteConfig \<Rightarrow> string \<Rightarrow> unit m" where
  "CreateTCPRoute p config version =
     bind (attempt (k8s_Create (K8sKey p KTCPRoute (lcNamespace config) (lcName config)) (L4RouteObj (BuildTCPRouteObject config version)))) (\<lambda>r.
     case r of Inr _ \<Rightarrow> ret ()
     | Inl e \<Rightarrow> if errors_Is e ErrK8sAlreadyExists then UpdateTCPRoute p config version
         else throw (Wrap ''failed to create TCPRoute: %w'' e))"

definition DeleteTCPRoute :: "uuid \<Rightarrow> string \<Rightarrow> string \<Rightarrow> unit m" where
  "DeleteTCPRoute p ns name = bind (attempt (k8s_Delete (K8sKey p KTCPRoute ns name))) (\<lambda>r. case r of
     Inr _ \<Rightarrow> ret () | Inl e \<Rightarrow> if errors_Is e ErrK8sNotFound then ret () else throw e)"

definition UpdateUDPRoute :: "uuid \<Rightarrow> L4RouteConfig \<Rightarrow> string \<Rightarrow> unit m" where
  "UpdateUDPRoute p config version =
     bind (wrap_error ''failed to get existing UDPRoute: %w'' (k8s_Get (K8sKey p KUDPRoute (lcNamespace config) (lcName config)))) (\<lambda>_.
     wrap_error ''failed to update UDPRoute: %w''
       (k8s_Update (K8sKey p KUDPRoute (lcNamespace config) (lcName config)) (L4RouteObj (BuildUDPRouteObject config version))))"

definition CreateUDPRoute :: "uuid \<Rightarrow> L4RouteConfig \<Rightarrow> string \<Rightarrow> unit m" where
  "CreateUDPRoute p config version =
     bind (attempt (k8s_Create (K8sKey p KUDPRoute (lcNamespace config) (lcName config)) (L4RouteObj (BuildUDPRouteObject config version)))) (\<lambda>r.
     case r of Inr _ \<Rightarrow> ret ()
     | Inl e \<Rightarrow> if errors_Is e ErrK8sAlreadyExists then UpdateUDPRoute p config version
         else throw (Wrap ''failed to create UDPRoute: %w'' e))"

definition DeleteUDPRoute :: "uuid \<Rightarrow> string \<Rightarrow> string \<Rightarrow> unit m" where
  "DeleteUDPRoute p ns name = bind (attempt (k8s_Delete (K8sKey p KUDPRoute ns name))) (\<lambda>r. case r of
     Inr _ \<Rightarrow> ret () | Inl e \<Rightarrow> if errors_Is e ErrK8sNotFound then ret () else throw e)"

definition btp_key :: "uuid \<Rightarrow> string \<Rightarrow> string \<Rightarrow> k8s_key" where
  "btp_key p ns name = K8sKey p KBackendTrafficPolicy ns name"

definition DeleteBackendTrafficPolicy :: "uuid \<Rightarrow> string \<Rightarrow> string \<Rightarrow> unit m" where
  "DeleteBackendTrafficPolicy p ns name = bind (attempt (k8s_Delete (btp_key p ns name))) (\<lambda>r. case r of
     Inr _ \<Rightarrow> ret () | Inl e \<Rightarrow> if errors_Is e ErrK8sNotFound then ret () else throw (Wrap ''failed to delete backendtrafficpolicy: %w'' e))"

definition UpdateBackendTrafficPolicy :: "uuid \<Rightarrow> BackendTrafficPolicyK8s \<Rightarrow> unit m" where
  "UpdateBackendTrafficPolicy p config = (case BuildBackendTrafficPolicy config of
     None \<Rightarrow> DeleteBackendTrafficPolicy p (bkNamespace config) (bkName config)
   | Some policy \<Rightarrow>
       let k = btp_key p (bkNamespace config) (bkName config) in
       bind (attempt (k8s_Get k)) (\<lambda>r. case r of
         Inl e \<Rightarrow> if errors_Is e ErrK8sNotFound
           then wrap_error ''failed to create backendtrafficpolicy: %w'' (k8s_Create k (PolicyObj policy))
           else throw (Wrap ''failed to get existing backendtrafficpolicy: %w'' e)
       | Inr _ \<Rightarrow> wrap_error ''failed to update backendtrafficpolicy: %w'' (k8s_Update k (PolicyObj policy))))"

section \<open>The service\<close>

text \<open>The zero approval with action update, for a route that is queued without one.\<close>

definition synthetic_approval :: Approval where
  "synthetic_approval = \<lparr>apID = 0, apProjectID = 0, apEntityType = ApprovalEntityRoute, apEntityID = 0, apAction = ApprovalActionUpdate,
     apConfigSnapshot = None, apPreviousConfig = None, apSubmittedBy = 0, apStatus = ApprovalStatusPending, apChangeDescription = [],
     apAIReview = None, apStages = []\<rparr>"

text \<open>The start of a deployment: the guard on the status and the approval that is deployed.\<close>

definition deploy_action :: "uuid \<Rightarrow> (Route \<times> Approval) m" where
  "deploy_action i =
     bind (RouteRepo_GetByID i) (\<lambda>route.
     bind (require (rtStatus route = RouteStatusApproved \<or> rtStatus route = RouteStatusPendingDeploy) (Msg ''route is not approved for deployment'')) (\<lambda>_.
     bind (attempt (ApprovalRepo_GetLatestApprovedByEntityID ApprovalEntityRoute i)) (\<lambda>r. case r of
       Inr a \<Rightarrow> ret (route, a)
     | Inl _ \<Rightarrow> if rtStatus route = RouteStatusPendingDeploy then ret (route, synthetic_approval)
         else throw (Msg ''no approved request found for this route''))))"

definition l4RouteVersion :: "bool \<Rightarrow> string" where
  "l4RouteVersion useV1 = (if useV1 then ''gateway.networking.k8s.io/v1'' else ''gateway.networking.k8s.io/v1alpha2'')"

definition applyL4Route :: "(uuid \<Rightarrow> string \<Rightarrow> bool) \<Rightarrow> Route \<Rightarrow> Stream \<Rightarrow> bool \<Rightarrow> unit m" where
  "applyL4Route has route stream create =
     (let version = l4RouteVersion (has (strProjectID stream) CapL4RouteV1); p = strProjectID stream in
      case rtProtocol route of
        RouteProtocolTCP \<Rightarrow>
          if create then wrap_error ''failed to create TCPRoute in Kubernetes: %w'' (CreateTCPRoute p (BuildTCPRouteConfig route stream) version)
          else wrap_error ''failed to update TCPRoute in Kubernetes: %w'' (UpdateTCPRoute p (BuildTCPRouteConfig route stream) version)
      | RouteProtocolUDP \<Rightarrow>
          if create then wrap_error ''failed to create UDPRoute in Kubernetes: %w'' (CreateUDPRoute p (BuildUDPRouteConfig route stream) version)
          else wrap_error ''failed to update UDPRoute in Kubernetes: %w'' (UpdateUDPRoute p (BuildUDPRouteConfig route stream) version)
      | _ \<Rightarrow> throw (Msg ''unsupported L4 protocol %q''))"

definition deleteL4Route :: "Route \<Rightarrow> Stream \<Rightarrow> unit m" where
  "deleteL4Route route stream = (case rtProtocol route of
     RouteProtocolTCP \<Rightarrow> wrap_error ''failed to delete TCPRoute from Kubernetes: %w''
       (DeleteTCPRoute (strProjectID stream) (strNamespace stream) (rtK8sRouteName route))
   | RouteProtocolUDP \<Rightarrow> wrap_error ''failed to delete UDPRoute from Kubernetes: %w''
       (DeleteUDPRoute (strProjectID stream) (strNamespace stream) (rtK8sRouteName route))
   | _ \<Rightarrow> throw (Msg ''unsupported L4 protocol %q''))"

definition applyBackendTrafficPolicy :: "Route \<Rightarrow> uuid \<Rightarrow> string \<Rightarrow> string \<Rightarrow> unit m" where
  "applyBackendTrafficPolicy route projectID namespace gatewayID =
     bind (attempt (policy_Get backend_traffic_policies (rtID route))) (\<lambda>r. case r of
       Inl _ \<Rightarrow> ret ()
     | Inr policy \<Rightarrow> (case BuildBackendTrafficPolicyConfigForNamespace route namespace gatewayID (prwConfig policy) of
           None \<Rightarrow> ret () | Some config \<Rightarrow> UpdateBackendTrafficPolicy projectID config))"

definition removeBackendTrafficPolicy :: "Route \<Rightarrow> uuid \<Rightarrow> string \<Rightarrow> unit m" where
  "removeBackendTrafficPolicy route projectID namespace =
     bind (attempt (policy_Get backend_traffic_policies (rtID route))) (\<lambda>r. case r of
       Inl _ \<Rightarrow> ret ()
     | Inr policy \<Rightarrow>
         bind (DeleteBackendTrafficPolicy projectID namespace (BackendTrafficPolicyName (rtK8sRouteName route))) (\<lambda>_.
         policy_DeleteByRouteID backend_traffic_policies put_btp (rtID route)))"

definition finishDeploy :: "Route \<Rightarrow> Approval \<Rightarrow> uuid \<Rightarrow> Route m" where
  "finishDeploy route approval deployedBy =
     bind (To SiteDeploy route RouteStatusActive) (\<lambda>route'.
     bind (attempt (CreateVersion route' (Some approval) deployedBy)) (\<lambda>_. ret route'))"

text \<open>A create or update of a route whose port is no longer claimed is refused before anything is written.\<close>

definition still_claimed :: "Route \<Rightarrow> Stream \<Rightarrow> ApprovalAction \<Rightarrow> unit m" where
  "still_claimed route stream action =
     (if action = ApprovalActionCreate \<or> action = ApprovalActionUpdate
      then require (StreamPorts_Has (strPorts stream) (transport_of (rtProtocol route)) (rcListenerPort (rtConfig route)))
        (Wrap ''%w: %s/%d is no longer claimed by stream %q'' ErrPortNotClaimed)
      else if action = ApprovalActionDelete then ret ()
      else throw (Msg ''unsupported approval action %q for L4 route''))"

definition deployL4 :: "(uuid \<Rightarrow> string \<Rightarrow> bool) \<Rightarrow> Route \<Rightarrow> Approval \<Rightarrow> uuid \<Rightarrow> Route m" where
  "deployL4 has route approval deployedBy = (case rtStreamID route of
     None \<Rightarrow> throw (Msg ''L4 route %s has no stream'')
   | Some s \<Rightarrow>
     bind (wrap_error ''failed to load stream for L4 route: %w'' (StreamRepo_GetByID s)) (\<lambda>stream.
     bind (still_claimed route stream (apAction approval)) (\<lambda>_.
     if apAction approval = ApprovalActionDelete
     then bind (attempt (removeBackendTrafficPolicy route (strProjectID stream) (strNamespace stream))) (\<lambda>_.
       bind (deleteL4Route route stream) (\<lambda>_.
       bind (attempt (ApprovalRepo_DeleteByEntityID ApprovalEntityRoute (rtID route))) (\<lambda>_.
       bind (RouteRepo_Delete (rtID route)) (\<lambda>_. ret route))))
     else bind (applyL4Route has route stream (apAction approval = ApprovalActionCreate)) (\<lambda>_.
       bind (wrap_error ''failed to apply BackendTrafficPolicy in Kubernetes: %w''
         (applyBackendTrafficPolicy route (strProjectID stream) (strNamespace stream) (uuid_string (strID stream)))) (\<lambda>_.
       finishDeploy route approval deployedBy)))))"

section \<open>Rules\<close>

text \<open>Calls that write one object of the cluster.\<close>

definition only_key :: "k8s_key \<Rightarrow> db \<Rightarrow> db \<Rightarrow> bool" where
  "only_key k d0 d \<longleftrightarrow> same_tables d0 d \<and> (\<forall>k'. k' \<noteq> k \<longrightarrow> k8s_lookup k' d = k8s_lookup k' d0)"

lemma only_key_intros [simp]: "only_key k d d" "only_key k d (k8s_put k x d)" "only_key k d (k8s_remove k d)"
  by (auto simp: only_key_def)

definition l4_kind :: "RouteProtocol \<Rightarrow> k8s_kind" where
  "l4_kind p = (if p = RouteProtocolUDP then KUDPRoute else KTCPRoute)"

definition l4_key :: "Route \<Rightarrow> Stream \<Rightarrow> k8s_key" where
  "l4_key r st = K8sKey (strProjectID st) (l4_kind (rtProtocol r)) (strNamespace st) (rtK8sRouteName r)"

definition l4_object :: "(uuid \<Rightarrow> string \<Rightarrow> bool) \<Rightarrow> Route \<Rightarrow> Stream \<Rightarrow> L4RouteObject" where
  "l4_object has r st = BuildTCPRouteObject (BuildTCPRouteConfig r st) (l4RouteVersion (has (strProjectID st) CapL4RouteV1))"

lemma udp_plan_is_tcp_plan: "BuildUDPRouteObject (BuildUDPRouteConfig r st) v = BuildTCPRouteObject (BuildTCPRouteConfig r st) v"
  by (simp add: BuildUDPRouteObject_def BuildUDPRouteConfig_def BuildTCPRouteObject_def BuildTCPRouteConfig_def)

lemmas l4_client_defs = CreateTCPRoute_def UpdateTCPRoute_def CreateUDPRoute_def UpdateUDPRoute_def DeleteTCPRoute_def DeleteUDPRoute_def
  k8s_Get_def k8s_Create_def k8s_Update_def k8s_Delete_def

lemma hoare_applyL4Route:
  "hoare (\<lambda>d. d = d0) (applyL4Route has r st create)
     (\<lambda>_ d. only_key (l4_key r st) d0 d \<and> k8s_lookup (l4_key r st) d = Some (L4RouteObj (l4_object has r st)))
     (\<lambda>_ d. only_key (l4_key r st) d0 d)"
  unfolding applyL4Route_def Let_def l4_client_defs udp_plan_is_tcp_plan
  by (cases "rtProtocol r"; simp only: RouteProtocol.case; rule hoare_pre, (rule wp)+)
    (auto simp: l4_key_def l4_kind_def l4_object_def BuildTCPRouteConfig_def BuildUDPRouteConfig_def split: option.splits)

lemma hoare_deleteL4Route:
  "hoare (\<lambda>d. d = d0) (deleteL4Route r st)
     (\<lambda>_ d. only_key (l4_key r st) d0 d \<and> k8s_lookup (l4_key r st) d = None) (\<lambda>_ d. only_key (l4_key r st) d0 d)"
  unfolding deleteL4Route_def l4_client_defs
  by (cases "rtProtocol r"; simp only: RouteProtocol.case; rule hoare_pre, (rule wp)+)
    (auto simp: l4_key_def l4_kind_def split: option.splits)

definition route_btp_key :: "Route \<Rightarrow> uuid \<Rightarrow> string \<Rightarrow> k8s_key" where
  "route_btp_key r p ns = btp_key p ns (BackendTrafficPolicyName (rtK8sRouteName r))"

lemma plan_key: "BuildBackendTrafficPolicyConfigForNamespace r ns g b = Some c \<Longrightarrow> btp_key p (bkNamespace c) (bkName c) = route_btp_key r p ns"
  by (auto simp: BuildBackendTrafficPolicyConfigForNamespace_def buildBackendTrafficPolicyConfigFromInput_def traffic_plan_def route_btp_key_def
      split: if_splits)

lemma hoare_UpdateBackendTrafficPolicy:
  "hoare (\<lambda>d. d = d0) (UpdateBackendTrafficPolicy p c)
     (\<lambda>_ d. only_key (btp_key p (bkNamespace c) (bkName c)) d0 d \<and>
        k8s_lookup (btp_key p (bkNamespace c) (bkName c)) d = map_option PolicyObj (BuildBackendTrafficPolicy c))
     (\<lambda>_ d. only_key (btp_key p (bkNamespace c) (bkName c)) d0 d)"
  unfolding UpdateBackendTrafficPolicy_def DeleteBackendTrafficPolicy_def Let_def k8s_Get_def k8s_Create_def k8s_Update_def k8s_Delete_def
  by (rule hoare_pre, (rule wp)+) (auto split: option.splits)

lemma hoare_applyBackendTrafficPolicy:
  "hoare (\<lambda>d. d = d0) (applyBackendTrafficPolicy r p ns g)
     (\<lambda>_ d. only_key (route_btp_key r p ns) d0 d) (\<lambda>_ d. only_key (route_btp_key r p ns) d0 d)"
  unfolding applyBackendTrafficPolicy_def policy_Get_def
  by (rule hoare_pre, (rule hoare_spec [OF hoare_UpdateBackendTrafficPolicy] | rule wp)+) (auto simp: plan_key split: option.splits)

text \<open>A recorded version holds the configuration and the stored policies, under a number that no version of the route has.\<close>

definition recorded :: "Route \<Rightarrow> Approval \<Rightarrow> db \<Rightarrow> RouteVersion \<Rightarrow> bool" where
  "recorded r a d v \<longleftrightarrow> rvRouteID v = rtID r \<and> rvApprovalID v = Some (apID a) \<and>
     (\<forall>w \<in> set (route_versions d). rvRouteID w = rtID r \<longrightarrow> rvVersion w < rvVersion v) \<and>
     (\<exists>sn. rvConfigSnapshot v = Doc sn \<and> snRouteConfig sn = Some (rtConfig r) \<and> snapshot_policies sn = stored_policies d (rtID r))"

lemma fold_max_ge: "n \<le> fold max ns (n::int) \<and> (\<forall>x \<in> set ns. x \<le> fold max ns n)"
proof (induction ns arbitrary: n)
  case (Cons a ns)
  show ?case using Cons.IH [of "max a n"] by (auto simp: max_def split: if_splits)
qed simp

lemma max_version_ge: "x \<in> set l \<Longrightarrow> x \<le> (case l of [] \<Rightarrow> 0 | n # ns \<Rightarrow> fold max ns (n::int))"
  using fold_max_ge by (cases l) auto

lemma hoare_GetMaxVersion:
  "hoare (\<lambda>d. d = d0) (GetMaxVersion r)
     (\<lambda>n d. d = d0 \<and> (\<forall>w \<in> set (route_versions d0). rvRouteID w = r \<longrightarrow> rvVersion w \<le> n)) (\<lambda>_ d. d = d0)"
  unfolding GetMaxVersion_def by (rule hoare_pre, rule wp) (auto intro!: max_version_ge)

lemma hoare_version_policy:
  "hoare (\<lambda>d. d = d0) (version_policy msg rows i) (\<lambda>c d. d = d0 \<and> c = map_option prwConfig (row_get prwRouteID i (rows d0))) (\<lambda>_ d. d = d0)"
  unfolding version_policy_def policy_Get_def by (rule hoare_pre, (rule wp)+) (auto simp: found_def split: option.splits)

lemma hoare_CreateVersion:
  "hoare (\<lambda>d. d = d0) (CreateVersion r (Some a) by)
     (\<lambda>_ d. recorded r a d0 (last (route_versions d)) \<and> d = d0\<lparr>route_versions := route_versions d0 @ [last (route_versions d)]\<rparr>) (\<lambda>_ d. d = d0)"
  unfolding CreateVersion_def RouteVersionRepo_Create_def
  by (rule hoare_pre, (rule hoare_readonly [OF hoare_version_policy] hoare_readonly [OF hoare_GetMaxVersion] | rule wp)+)
    (auto simp: recorded_def snapshot_policies_def stored_policies_def split: if_splits option.splits)

lemma hoare_CreateVersion_ex:
  "hoare (\<lambda>d. d = d0) (CreateVersion r (Some a) by)
     (\<lambda>_ d. \<exists>v. recorded r a d0 v \<and> d = d0\<lparr>route_versions := route_versions d0 @ [v]\<rparr>) (\<lambda>_ d. d = d0)"
  by (rule hoare_post [OF hoare_CreateVersion]) blast+

lemma hoare_finishDeploy:
  assumes "rtStatus r \<noteq> RouteStatusActive"
  shows "hoare (\<lambda>d. d = d0) (finishDeploy r a by)
     (\<lambda>r' d. r' = SyncListenerPort (r\<lparr>rtStatus := RouteStatusActive\<rparr>) \<and> k8s d = k8s d0 \<and> row_get rtID (rtID r) (routes d) = Some r' \<and>
        (route_versions d = route_versions d0 \<or> recorded r a d0 (last (route_versions d)) \<and> route_versions d = route_versions d0 @ [last (route_versions d)]))
     (\<lambda>_ d. k8s d = k8s d0)"
  using assms unfolding finishDeploy_def
  by - (rule hoare_pre, (rule hoare_spec [OF hoare_CreateVersion_ex] | rule wp)+,
    auto simp: rows.get_save recorded_def stored_policies_def)

section \<open>Deployed routes\<close>

lemma hoare_any: "hoare (\<lambda>d. (\<forall>x d'. Q x d') \<and> (\<forall>e d'. E e d')) m Q E"
  by (rule hoareI) auto

lemma k8s_lookup_cong: "k8s d = k8s d' \<Longrightarrow> k8s_lookup k d = k8s_lookup k d'"
  by (simp add: k8s_lookup_def)

lemma only_key_other: "only_key k d0 d \<Longrightarrow> k' \<noteq> k \<Longrightarrow> k8s_lookup k' d = k8s_lookup k' d0"
  by (simp add: only_key_def)

lemma l4_key_not_btp [simp]: "l4_key r st \<noteq> route_btp_key r' p ns"
  by (simp add: l4_key_def route_btp_key_def btp_key_def l4_kind_def)

lemma k8s_lookup_delete [simp]: "k8s_lookup k (delete_routes q d) = k8s_lookup k d" "k8s_lookup k (delete_approvals q' d) = k8s_lookup k d"
  by (simp_all add: k8s_lookup_def delete_routes_def delete_approvals_def Let_def)

lemma routes_delete: "row_get rtID i (routes (delete_routes (\<lambda>r. rtID r = i) d)) = None"
  by (simp add: delete_routes_def row_get_def find_None_iff Let_def)

text \<open>The listener that the Gateway of a stream has for a claimed port.\<close>

lemma claimed_listener:
  assumes "StreamPorts_Has (strPorts st) t n"
  shows "\<exists>l \<in> set (goListeners (BuildGatewayObject (BuildStreamGatewayConfig st))). loName l = ListenerName t n \<and> loPort l = n"
proof -
  obtain c where c: "c \<in> set (strPorts st)" "spTransport c = t" "spPort c = n"
    using assms by (auto simp: StreamPorts_Has_def list_ex_iff)
  then have "strPorts st \<noteq> []" by auto
  then show ?thesis using c by (auto simp: BuildGatewayObject_stream buildL4Listener_def intro!: bexI [of _ c])
qed

definition deployed :: "(uuid \<Rightarrow> string \<Rightarrow> bool) \<Rightarrow> Route \<Rightarrow> Approval \<Rightarrow> db \<Rightarrow> Route \<Rightarrow> db \<Rightarrow> Stream \<Rightarrow> bool" where
  "deployed has r a d0 r' d st \<longleftrightarrow> Option.bind (rtStreamID r) (\<lambda>s. row_get strID s (streams d0)) = Some st \<and>
     (if apAction a = ApprovalActionDelete
      then k8s_lookup (l4_key r st) d = None \<and> row_get rtID (rtID r) (routes d) = None
      else StreamPorts_Has (strPorts st) (transport_of (rtProtocol r)) (rcListenerPort (rtConfig r)) \<and>
        k8s_lookup (l4_key r st) d = Some (L4RouteObj (l4_object has r st)) \<and>
        r' = SyncListenerPort (r\<lparr>rtStatus := RouteStatusActive\<rparr>) \<and> row_get rtID (rtID r) (routes d) = Some r')"

lemma l4_deployedI:
  assumes "rtStreamID r = Some s" "row_get strID s (streams d0) = Some st" "apAction a \<noteq> ApprovalActionDelete"
    "StreamPorts_Has (strPorts st) (transport_of (rtProtocol r)) (rcListenerPort (rtConfig r))"
    "k8s_lookup (l4_key r st) d1 = Some (L4RouteObj (l4_object has r st))"
    "only_key (route_btp_key r (strProjectID st) (strNamespace st)) d1 d2" "k8s d = k8s d2"
    "row_get rtID (rtID r) (routes d) = Some (SyncListenerPort (r\<lparr>rtStatus := RouteStatusActive\<rparr>))"
  shows "\<exists>st. deployed has r a d0 (SyncListenerPort (r\<lparr>rtStatus := RouteStatusActive\<rparr>)) d st"
  using assms k8s_lookup_cong [OF assms(7)] by (auto simp: deployed_def only_key_other)

lemma hoare_deployL4:
  assumes "rtStatus r \<noteq> RouteStatusActive"
  shows "hoare (\<lambda>d. d = d0) (deployL4 has r a by) (\<lambda>r' d. \<exists>st. deployed has r a d0 r' d st) (\<lambda>_ _. True)"
  unfolding deployL4_def still_claimed_def StreamRepo_GetByID_def ApprovalRepo_DeleteByEntityID_def RouteRepo_Delete_def Let_def
  by (rule hoare_pre, (rule hoare_spec [OF hoare_applyL4Route] hoare_spec [OF hoare_deleteL4Route] hoare_spec [OF hoare_applyBackendTrafficPolicy]
      hoare_spec [OF hoare_finishDeploy [OF assms]] | rule wp | rule hoare_any)+)
    (auto intro: l4_deployedI simp: routes_delete deployed_def [of has r a] split: option.splits if_splits)


definition sample_tcp_route :: Route where
  "sample_tcp_route = sample_l4_route\<lparr>rtStatus := RouteStatusPendingDeploy, rtProtocol := RouteProtocolTCP,
     rtConfig := sample_config\<lparr>rcMatches := [], rcListenerPort := 5\<rparr>\<rparr>"

definition sample_tcp :: db where
  "sample_tcp = sample_streams\<lparr>routes := [sample_tcp_route], approvals := [(sample_approval ApprovalActionCreate ApprovalStatusApproved)\<lparr>apEntityID := 22\<rparr>]\<rparr>"

definition sample_deploy :: "ApprovalAction \<Rightarrow> db \<Rightarrow> (error + Route) \<times> (db \<times> bool list)" where
  "sample_deploy action d = deployL4 (\<lambda>_ _. True) sample_tcp_route (sample_approval action ApprovalStatusApproved) 7 (d, [])"


section \<open>What a deployment leaves behind\<close>

text \<open>Without a stored traffic policy neither the deployment nor the removal looks at the cluster, so a policy that was deployed before
  it was taken out of the database stays in force.\<close>

lemma removed_policy_is_kept:
  assumes "row_get prwRouteID (rtID r) (backend_traffic_policies d) = None"
    "applyBackendTrafficPolicy r p ns g (d, fs) = (x, (d', fs')) \<or> removeBackendTrafficPolicy r p ns (d, fs) = (x, (d', fs'))"
  shows "k8s d' = k8s d"
proof -
  have "hoare (\<lambda>x. x = d) (applyBackendTrafficPolicy r p ns g) (\<lambda>_ x. k8s x = k8s d) (\<lambda>_ x. k8s x = k8s d)"
    "hoare (\<lambda>x. x = d) (removeBackendTrafficPolicy r p ns) (\<lambda>_ x. k8s x = k8s d) (\<lambda>_ x. k8s x = k8s d)"
    unfolding applyBackendTrafficPolicy_def removeBackendTrafficPolicy_def policy_Get_def
    by (rule hoare_pre, (rule wp hoare_any)+, use assms in auto)+
  then show ?thesis using assms(2) by (cases x) (auto dest: hoare_Inr hoare_Inl)
qed

definition sample_with_policy :: db where
  "sample_with_policy = sample_tcp\<lparr>backend_traffic_policies := [\<lparr>prwRouteID = 22, prwProjectID = 1, prwConfig = sample_traffic\<rparr>]\<rparr>"

text \<open>Deployed with a policy; the policy removed and the update deployed; the route deleted: the policy is still in the cluster.\<close>

definition sample_stale :: db where
  "sample_stale =
     (let d1 = reached (sample_deploy ApprovalActionCreate sample_with_policy);
          d2 = reached (sample_deploy ApprovalActionUpdate (d1\<lparr>backend_traffic_policies := []\<rparr>))
      in reached (sample_deploy ApprovalActionDelete d2))"

lemma policy_outlives_its_route:
  "routes sample_stale = [] \<and> k8s_lookup (btp_key 1 FastGatewayNamespace ''orders-btp'') sample_stale \<noteq> None"
  by code_simp

text \<open>The approvals of a deleted route stay, because its versions refer to them until the route is deleted.\<close>

lemma approvals_outlive_their_route: "map apEntityID (approvals sample_stale) = [22]"
  by code_simp

text \<open>A route that is queued without an approval is deployed without a version.\<close>

lemma unapproved_deploy_records_nothing:
  "case deployL4 (\<lambda>_ _. True) sample_tcp_route synthetic_approval 7 (reached (sample_deploy ApprovalActionCreate sample_tcp), []) of
     (Inr r, (d', _)) \<Rightarrow> rtStatus r = RouteStatusActive \<and> map rvVersion (route_versions d') = [1] | _ \<Rightarrow> False"
  by code_simp

text \<open>In a project without approvals a new route cannot be deployed, and a deleted one is deployed again.\<close>

lemma unapproved_create_is_stuck:
  "case sample_creation False of (Inr (r, None), (d', _)) \<Rightarrow>
     fst (deploy_action (rtID r) (d', [])) = Inl (Msg ''no approved request found for this route'') | _ \<Rightarrow> False"
  by code_simp

lemma unapproved_delete_redeploys:
  "case RouteService_Delete 6 7 (sample_attached False, []) of
     (Inr (r, None), (d', _)) \<Rightarrow> (case fst (deploy_action 6 (d', [])) of Inr (_, a) \<Rightarrow> apAction a = ApprovalActionUpdate | _ \<Rightarrow> False) | _ \<Rightarrow> False"
  by code_simp

text \<open>The port of a backend is cut to 32 bits after its only check, that it is positive.\<close>

lemma backend_port_wraps: "backend_fields_check \<lparr>beType = ''kubernetes'', beService = ''db'', beNamespace = ''shop'', bePort = 4294967376, beWeight = 1,
    beFallback = False, beAddressType = [], beAddress = [], beTLS = None\<rparr> = Inr () \<and> int32_of 4294967376 = 80"
  by code_simp

end
