(* ===== verification/SecurityPlan.thy ===== *)
theory SecurityPlan
  imports Deploy
begin

text \<open>
  The \<open>SecurityPolicy\<close> of a route: the assembly of \<open>src/internal/routeplan/securitypolicy.go\<close> and
  \<open>securitypolicy_features.go\<close> from the stored policy, from an input or from an attached client, and the manifest of
  \<open>src/internal/kubernetes/securitypolicy.go\<close>. The structs that the assembly copies field by field into a struct of the same fields
  (headers, claims, API keys, CORS) have one record here. A preview is the manifest; its rendering as YAML is left out.
\<close>

section \<open>Configuration\<close>

record JWTPrincipalPolicyConfig =
  jprProvider :: string
  jprClaims :: "JWTRequiredClaim list"

record AuthorizationRulePolicyConfig =
  arpAction :: string
  arpClientCIDRs :: "string list"
  arpJWT :: "JWTPrincipalPolicyConfig option"
  arpHeaders :: "AuthorizationHeaderMatch list"
  arpMethods :: "string list"

record AuthorizationPolicyConfig =
  appDefaultAction :: string
  appRules :: "AuthorizationRulePolicyConfig list"

record JWTProviderPolicyConfig =
  jppName :: string
  jppIssuer :: string
  jppJWKSURL :: string
  jppAudiences :: "string list"
  jppClaimToHeaders :: "(string \<times> string) list"

record OIDCPolicyConfig =
  opcIssuer :: string
  opcClientID :: string
  opcClientSecretName :: string
  opcClientSecretNS :: string
  opcRedirectURL :: string
  opcLogoutPath :: string
  opcScopes :: "string list"
  opcCookieDomain :: string

record SecurityPolicyK8s =
  skName :: string
  skNamespace :: string
  skGatewayID :: string
  skRouteID :: string
  skTargetRef :: BackendTrafficPolicyTargetRef
  skCORS :: "CORSConfig option"
  skAuthorization :: "AuthorizationPolicyConfig option"
  skAPIKeyAuth :: "APIKeyAuthConfig option"
  skJWT :: "JWTProviderPolicyConfig list option"
  skOIDC :: "OIDCPolicyConfig option"
  skExtAuth :: "ExtAuthConfig option"
  skExtAuthBackendName :: string

record ClientAuthCategory =
  cacClientID :: uuid
  cacClientName :: string
  cacEnableIP :: bool
  cacEnableAPIKey :: bool
  cacEnableJWT :: bool
  cacEnableMTLS :: bool
  cacAPIKey :: string
  cacAPIKeyHeaderName :: string
  cacClientIDHeaderName :: string
  cacIPCIDRs :: "string list"
  cacJWTIssuer :: string
  cacJWTJWKSURL :: string
  cacJWTAudiences :: "string list"
  cacJWTRequiredClaims :: "JWTRequiredClaim list"
  cacJWTClaimToHeaders :: "(string \<times> string) list"
  cacEnableHeaderAuth :: bool
  cacHeaderMatches :: "AuthorizationHeaderMatch list"
  cacAllowedMethods :: "string list"
  cacMTLSSANs :: "(string \<times> string) list"
  cacMTLSHashes :: "string list"
  cacMTLSCAPem :: string
  cacRateLimitConfig :: "RateLimitConfig option"
  cacExtAuth :: "ExtAuthConfig option"
  cacExtAuthBackendName :: string

section \<open>Features\<close>

definition allow_rule :: AuthorizationRulePolicyConfig where
  "allow_rule = \<lparr>arpAction = ''Allow'', arpClientCIDRs = [], arpJWT = None, arpHeaders = [], arpMethods = []\<rparr>"

definition persisted_rule :: "AuthorizationRule \<Rightarrow> AuthorizationRulePolicyConfig" where
  "persisted_rule r = \<lparr>arpAction = arAction r, arpClientCIDRs = arClientCIDRs r, arpJWT = None, arpHeaders = arHeaders r,
     arpMethods = (case arMethods r of None \<Rightarrow> [] | Some ms \<Rightarrow> ms)\<rparr>"

definition persisted_provider :: "JWTProvider \<Rightarrow> JWTProviderPolicyConfig" where
  "persisted_provider p = \<lparr>jppName = jpName p, jppIssuer = jpIssuer p, jppJWKSURL = (case jpRemoteJWKS p of None \<Rightarrow> [] | Some u \<Rightarrow> u),
     jppAudiences = jpAudiences p, jppClaimToHeaders = jpClaimToHeaders p\<rparr>"

definition persisted_oidc :: "OIDCConfig \<Rightarrow> OIDCPolicyConfig" where
  "persisted_oidc c =
     (let ns = (case ocClientSecret c of None \<Rightarrow> [] | Some r \<Rightarrow> srNamespace r) in
      \<lparr>opcIssuer = (case ocIssuer c of None \<Rightarrow> [] | Some i \<Rightarrow> i), opcClientID = ocClientID c,
       opcClientSecretName = (case ocClientSecret c of None \<Rightarrow> [] | Some r \<Rightarrow> srName r),
       opcClientSecretNS = (if ns = [] then FastGatewayNamespace else ns), opcRedirectURL = ocRedirectURL c, opcLogoutPath = ocLogoutPath c,
       opcScopes = ocScopes c, opcCookieDomain = ocCookieDomain c\<rparr>)"

definition over :: "'a option \<Rightarrow> 'a option \<Rightarrow> 'a option" where
  "over new old = (case new of None \<Rightarrow> old | Some x \<Rightarrow> Some x)"

definition applyPersistedSecurityFeatures :: "SecurityPolicyConfig \<Rightarrow> SecurityPolicyK8s \<Rightarrow> SecurityPolicyK8s" where
  "applyPersistedSecurityFeatures policy config = config\<lparr>
     skAuthorization := over (map_option (\<lambda>a. \<lparr>appDefaultAction = acDefaultAction a, appRules = map persisted_rule (acRules a)\<rparr>)
       (spcAuthorization policy)) (skAuthorization config),
     skAPIKeyAuth := over (spcAPIKeyAuth policy) (skAPIKeyAuth config),
     skJWT := over (map_option (map persisted_provider) (spcJWT policy)) (skJWT config),
     skOIDC := over (map_option persisted_oidc (spcOIDC policy)) (skOIDC config),
     skExtAuth := over (spcExtAuth policy) (skExtAuth config)\<rparr>"

fun unique_cidrs :: "string list \<Rightarrow> string list \<Rightarrow> string list" where
  "unique_cidrs seen [] = []"
| "unique_cidrs seen (c # cs) = (let n = NormalizeCIDR c in
     if n \<in> set seen then unique_cidrs seen cs else n # unique_cidrs (n # seen) cs)"

definition input_authorization :: "AuthorizationInput \<Rightarrow> AuthorizationPolicyConfig" where
  "input_authorization i = \<lparr>appDefaultAction = ''Deny'', appRules =
     [allow_rule\<lparr>arpClientCIDRs := map NormalizeCIDR (aiAllowedCIDRs i), arpHeaders := aiHeaders i, arpMethods := aiMethods i\<rparr>]\<rparr>"

definition input_oidc :: "OIDCInput \<Rightarrow> OIDCPolicyConfig" where
  "input_oidc i = \<lparr>opcIssuer = oiIssuer i, opcClientID = oiClientID i, opcClientSecretName = oiClientSecretName i,
     opcClientSecretNS = FastGatewayNamespace, opcRedirectURL = oiRedirectURL i, opcLogoutPath = oiLogoutPath i, opcScopes = oiScopes i,
     opcCookieDomain = oiCookieDomain i\<rparr>"

definition applyInputSecurityFeatures :: "SecurityPolicyInput option \<Rightarrow> string list \<Rightarrow> SecurityPolicyK8s \<Rightarrow> SecurityPolicyK8s" where
  "applyInputSecurityFeatures input clientCIDRs config =
     (let auth = Option.bind input siAuthorization in
      config\<lparr>
        skAuthorization := (case auth of
            Some i \<Rightarrow> Some (input_authorization i)
          | None \<Rightarrow> if clientCIDRs \<noteq> []
              then Some \<lparr>appDefaultAction = ''Deny'', appRules = [allow_rule\<lparr>arpClientCIDRs := unique_cidrs [] clientCIDRs\<rparr>]\<rparr>
              else skAuthorization config),
        skAPIKeyAuth := over (map_option (\<lambda>i. \<lparr>akCredentialRefs = [\<lparr>srName = kiSecretName i, srNamespace = FastGatewayNamespace\<rparr>],
          akExtractFrom = [[kiHeaderName i]]\<rparr>) (Option.bind input siAPIKeyAuth)) (skAPIKeyAuth config),
        skJWT := over (map_option (\<lambda>i. [\<lparr>jppName = ''route-jwt'', jppIssuer = jiIssuer i, jppJWKSURL = jiJWKSURL i, jppAudiences = jiAudiences i,
          jppClaimToHeaders = jiClaimToHeaders i\<rparr>]) (Option.bind input siJWT)) (skJWT config),
        skOIDC := over (map_option input_oidc (Option.bind input siOIDC)) (skOIDC config),
        skExtAuth := over (Option.bind input siExtAuth) (skExtAuth config)\<rparr>)"

text \<open>The features of one client: its factors are demanded together, so a rule carries the claims and the ranges at once.\<close>

definition client_provider_name :: "ClientAuthCategory \<Rightarrow> string" where
  "client_provider_name client = ''client-'' @ take 8 (uuid_string (cacClientID client))"

definition has_api_key :: "ClientAuthCategory \<Rightarrow> bool" where
  "has_api_key client \<longleftrightarrow> cacEnableAPIKey client \<and> cacAPIKey client \<noteq> []"

definition has_jwt :: "ClientAuthCategory \<Rightarrow> bool" where
  "has_jwt client \<longleftrightarrow> cacEnableJWT client \<and> cacJWTIssuer client \<noteq> []"

definition client_authorization :: "ClientAuthCategory \<Rightarrow> bool \<Rightarrow> AuthorizationPolicyConfig option \<Rightarrow> AuthorizationPolicyConfig option" where
  "client_authorization client requireIP auth =
     (let ip = (requireIP \<and> cacIPCIDRs client \<noteq> []) in
      if has_jwt client \<and> cacJWTRequiredClaims client \<noteq> []
      then let base = (case auth of None \<Rightarrow> \<lparr>appDefaultAction = ''Deny'', appRules = []\<rparr> | Some a \<Rightarrow> a);
               rule = allow_rule\<lparr>arpJWT := Some \<lparr>jprProvider = client_provider_name client, jprClaims = cacJWTRequiredClaims client\<rparr>,
                 arpClientCIDRs := (if ip then cacIPCIDRs client else [])\<rparr>
           in Some (base\<lparr>appRules := appRules base @ [rule]\<rparr>)
      else if ip then Some \<lparr>appDefaultAction = ''Deny'', appRules = [allow_rule\<lparr>arpClientCIDRs := cacIPCIDRs client\<rparr>]\<rparr>
      else auth)"

definition with_headers_and_methods :: "ClientAuthCategory \<Rightarrow> AuthorizationPolicyConfig option \<Rightarrow> AuthorizationPolicyConfig option" where
  "with_headers_and_methods client auth =
     (let hdrs = (cacEnableHeaderAuth client \<and> cacHeaderMatches client \<noteq> []); meths = (cacAllowedMethods client \<noteq> []) in
      if \<not> hdrs \<and> \<not> meths then auth
      else let base = (case auth of None \<Rightarrow> \<lparr>appDefaultAction = ''Deny'', appRules = [allow_rule]\<rparr> | Some a \<Rightarrow> a)
        in Some (base\<lparr>appRules := map (\<lambda>r. r\<lparr>
             arpHeaders := (if hdrs then arpHeaders r @ cacHeaderMatches client else arpHeaders r),
             arpMethods := (if meths then cacAllowedMethods client else arpMethods r)\<rparr>) (appRules base)\<rparr>))"

definition applyClientSecurityFeatures :: "ClientAuthCategory \<Rightarrow> bool \<Rightarrow> string \<Rightarrow> SecurityPolicyK8s \<Rightarrow> SecurityPolicyK8s" where
  "applyClientSecurityFeatures client requireIP apiKeySecretName config =
     (let ext = (cacExtAuth client \<noteq> None \<and> cacExtAuthBackendName client \<noteq> []) in
      config\<lparr>
        skAPIKeyAuth := (if has_api_key client
          then Some \<lparr>akCredentialRefs = [\<lparr>srName = apiKeySecretName, srNamespace = FastGatewayNamespace\<rparr>],
            akExtractFrom = [[cacAPIKeyHeaderName client]]\<rparr> else skAPIKeyAuth config),
        skJWT := (if has_jwt client
          then Some [\<lparr>jppName = client_provider_name client, jppIssuer = cacJWTIssuer client, jppJWKSURL = cacJWTJWKSURL client,
            jppAudiences = cacJWTAudiences client, jppClaimToHeaders = cacJWTClaimToHeaders client\<rparr>] else skJWT config),
        skAuthorization := with_headers_and_methods client (client_authorization client requireIP (skAuthorization config)),
        skExtAuth := (if ext then cacExtAuth client else skExtAuth config),
        skExtAuthBackendName := (if ext then cacExtAuthBackendName client else skExtAuthBackendName config)\<rparr>)"

section \<open>Assembly\<close>

record SecurityPolicyAssembly =
  saRoute :: Route
  saDomain :: Domain
  saTargetName :: string
  saCORS :: "CORSConfig option"
  saPersisted :: "SecurityPolicyConfig option"
  saInput :: "SecurityPolicyInput option"
  saClientCIDRs :: "string list"
  saAuthorization :: "AuthorizationPolicyConfig option"
  saClient :: "ClientAuthCategory option"
  saRequireIP :: bool
  saAPIKeySecretName :: string

definition assembly :: "Route \<Rightarrow> Domain \<Rightarrow> CORSConfig option \<Rightarrow> SecurityPolicyAssembly" where
  "assembly route domain cors = \<lparr>saRoute = route, saDomain = domain, saTargetName = [], saCORS = cors, saPersisted = None, saInput = None,
     saClientCIDRs = [], saAuthorization = None, saClient = None, saRequireIP = False, saAPIKeySecretName = []\<rparr>"

definition SecurityPolicyName :: "string \<Rightarrow> string" where
  "SecurityPolicyName n = n @ ''-security''"

definition AssembleSecurityPolicyConfig :: "SecurityPolicyAssembly \<Rightarrow> SecurityPolicyK8s" where
  "AssembleSecurityPolicyConfig i =
     (let targetName = (if saTargetName i = [] then rtK8sRouteName (saRoute i) else saTargetName i);
          config = \<lparr>skName = SecurityPolicyName targetName, skNamespace = domNamespace (saDomain i),
            skGatewayID = uuid_string (domID (saDomain i)), skRouteID = uuid_string (rtID (saRoute i)),
            skTargetRef = \<lparr>trGroup = ''gateway.networking.k8s.io'', trKind = GetRouteKind (rtProtocol (saRoute i)), trName = targetName\<rparr>,
            skCORS = saCORS i, skAuthorization = None, skAPIKeyAuth = None, skJWT = None, skOIDC = None, skExtAuth = None,
            skExtAuthBackendName = []\<rparr>;
          config1 = (case saPersisted i of None \<Rightarrow> config | Some p \<Rightarrow> applyPersistedSecurityFeatures p config);
          config2 = (if saInput i \<noteq> None \<or> saClientCIDRs i \<noteq> [] then applyInputSecurityFeatures (saInput i) (saClientCIDRs i) config1 else config1);
          config3 = (case saClient i of None \<Rightarrow> config2
            | Some c \<Rightarrow> applyClientSecurityFeatures c (saRequireIP i) (saAPIKeySecretName i) config2)
      in config3\<lparr>skAuthorization := over (saAuthorization i) (skAuthorization config3)\<rparr>)"

definition SecurityPolicyConfigForDeploy ::
  "Route \<Rightarrow> Domain \<Rightarrow> SecurityPolicyConfig option \<Rightarrow> AuthorizationPolicyConfig option \<Rightarrow> SecurityPolicyK8s" where
  "SecurityPolicyConfigForDeploy route domain policy authConfig =
     AssembleSecurityPolicyConfig ((assembly route domain (Option.bind policy spcCORS))\<lparr>saAuthorization := authConfig\<rparr>)"

definition SecurityPolicyConfigFromDB :: "Route \<Rightarrow> Domain \<Rightarrow> SecurityPolicyConfig option \<Rightarrow> SecurityPolicyK8s option" where
  "SecurityPolicyConfigFromDB route domain policy = (case policy of
     None \<Rightarrow> None
   | Some p \<Rightarrow> if HasAnyConfig p then Some (AssembleSecurityPolicyConfig ((assembly route domain (spcCORS p))\<lparr>saPersisted := Some p\<rparr>)) else None)"

section \<open>The manifest\<close>

definition strings_json :: "string list \<Rightarrow> json" where
  "strings_json ss = JList (map JStr ss)"

definition strings_field :: "string \<Rightarrow> string list \<Rightarrow> (string \<times> json) list" where
  "strings_field k ss = list_field k JStr ss"

definition buildCORSConfig :: "CORSConfig \<Rightarrow> json option" where
  "buildCORSConfig c =
     (if corsAllowOrigins c = [] \<and> corsAllowMethods c = [] \<and> corsAllowHeaders c = [] then None
      else Some (JObj (strings_field ''allowOrigins'' (corsAllowOrigins c) @ strings_field ''allowMethods'' (corsAllowMethods c) @
        strings_field ''allowHeaders'' (corsAllowHeaders c) @ strings_field ''exposeHeaders'' (corsExposeHeaders c) @
        opt_field ''maxAge'' (\<lambda>n. JStr (show_int n @ ''s'')) (corsMaxAge c) @ opt_field ''allowCredentials'' JBool (corsAllowCredentials c))))"

definition claim_json :: "JWTRequiredClaim \<Rightarrow> json" where
  "claim_json c = JObj ([(''name'', JStr (rqName c)), (''values'', strings_json (rqValues c))] @
     (if rqName c = ''scope'' \<or> rqValueType c = ''StringArray'' then [(''valueType'', JStr ''StringArray'')] else []))"

definition rule_jwt :: "AuthorizationRulePolicyConfig \<Rightarrow> JWTPrincipalPolicyConfig option" where
  "rule_jwt r = (case arpJWT r of Some j \<Rightarrow> if jprProvider j \<noteq> [] then Some j else None | None \<Rightarrow> None)"

definition rule_conditional :: "AuthorizationRulePolicyConfig \<Rightarrow> bool" where
  "rule_conditional r \<longleftrightarrow> arpClientCIDRs r \<noteq> [] \<or> rule_jwt r \<noteq> None \<or> arpHeaders r \<noteq> [] \<or> arpMethods r \<noteq> []"

definition header_json :: "AuthorizationHeaderMatch \<Rightarrow> json" where
  "header_json h = JObj [(''name'', JStr (ahmName h)), (''values'', strings_json (ahmValues h))]"

definition rule_json :: "AuthorizationRulePolicyConfig \<Rightarrow> json" where
  "rule_json r = JObj ([(''action'', JStr (arpAction r)),
     (''principal'', JObj (strings_field ''clientCIDRs'' (arpClientCIDRs r) @
        opt_field ''jwt'' (\<lambda>j. JObj ([(''provider'', JStr (jprProvider j))] @ list_field ''claims'' claim_json (jprClaims j))) (rule_jwt r) @
        list_field ''headers'' header_json (arpHeaders r)))] @
     (if arpMethods r = [] then [] else [(''operation'', JObj [(''methods'', strings_json (arpMethods r))])]))"

definition buildAuthorizationConfig :: "AuthorizationPolicyConfig \<Rightarrow> json option" where
  "buildAuthorizationConfig a =
     (if appRules a = [] \<and> appDefaultAction a \<noteq> ''Deny'' then None
      else let rules = filter rule_conditional (appRules a) in
        if rules = [] then (if appDefaultAction a = ''Deny'' then Some (JObj [(''defaultAction'', JStr (appDefaultAction a))]) else None)
        else Some (JObj [(''defaultAction'', JStr (appDefaultAction a)), (''rules'', JList (map rule_json rules))]))"

definition secret_ref_json :: "SecretRef \<Rightarrow> json" where
  "secret_ref_json r = JObj ([(''name'', JStr (srName r))] @ str_field ''namespace'' (srNamespace r))"

definition buildAPIKeyAuthConfig :: "APIKeyAuthConfig \<Rightarrow> json option" where
  "buildAPIKeyAuthConfig a = (if akCredentialRefs a = [] then None
     else Some (JObj ([(''credentialRefs'', JList (map secret_ref_json (akCredentialRefs a)))] @
       list_field ''extractFrom'' (\<lambda>hs. JObj [(''headers'', strings_json hs)]) (filter (\<lambda>hs. hs \<noteq> []) (akExtractFrom a)))))"

definition provider_json :: "JWTProviderPolicyConfig \<Rightarrow> json" where
  "provider_json p = JObj ([(''name'', JStr (jppName p)), (''issuer'', JStr (jppIssuer p))] @
     (if jppJWKSURL p = [] then [] else [(''remoteJWKS'', JObj [(''uri'', JStr (jppJWKSURL p))])]) @
     strings_field ''audiences'' (jppAudiences p) @
     list_field ''claimToHeaders'' (\<lambda>(c, h). JObj [(''claim'', JStr c), (''header'', JStr h)]) (jppClaimToHeaders p))"

definition buildJWTAuthConfig :: "JWTProviderPolicyConfig list \<Rightarrow> json option" where
  "buildJWTAuthConfig ps = (if ps = [] then None else Some (JObj [(''providers'', JList (map provider_json ps))]))"

definition buildOIDCConfig :: "OIDCPolicyConfig \<Rightarrow> json option" where
  "buildOIDCConfig o1 = Some (JObj ([(''provider'', JObj [(''issuer'', JStr (opcIssuer o1))]), (''clientID'', JStr (opcClientID o1)),
     (''clientSecret'', JObj [(''name'', JStr (opcClientSecretName o1)), (''namespace'', JStr (opcClientSecretNS o1))]),
     (''redirectURL'', JStr (opcRedirectURL o1)), (''logoutPath'', JStr (opcLogoutPath o1))] @
     strings_field ''scopes'' (opcScopes o1) @ str_field ''cookieDomain'' (opcCookieDomain o1)))"

definition ext_auth_ref_json :: "ExtAuthBackendRef \<Rightarrow> json" where
  "ext_auth_ref_json r = JObj ([(''name'', JStr (eabName r)), (''port'', JInt (eabPort r))] @ str_field ''namespace'' (eabNamespace r))"

definition ext_auth_service :: "ExtAuthConfig \<Rightarrow> (string \<times> json) list" where
  "ext_auth_service e = (case (eaType e = ''http'', eaHTTP e) of
     (True, Some h) \<Rightarrow> [(''http'', JObj ([(''backendRefs'', JList [ext_auth_ref_json (eahBackendRef h)]), (''path'', JStr (eahPath h))] @
        strings_field ''headersToBackend'' (eahHeadersToBackend h)))]
   | _ \<Rightarrow> (case (eaType e = ''grpc'', eaGRPC e) of
        (True, Some g) \<Rightarrow> [(''grpc'', JObj [(''backendRefs'', JList [ext_auth_ref_json g])])]
      | _ \<Rightarrow> []))"

definition buildExtAuthConfig :: "ExtAuthConfig \<Rightarrow> json option" where
  "buildExtAuthConfig e = Some (JObj (ext_auth_service e @ opt_field ''failOpen'' JBool (eaFailOpen e) @
     strings_field ''headersToExtAuth'' (eaHeadersToExtAuth e) @
     opt_field ''bodyToExtAuth'' (\<lambda>n. JObj [(''maxRequestBytes'', JInt n)]) (eaWithRequestBody e)))"

definition security_features :: "SecurityPolicyK8s \<Rightarrow> (string \<times> json) list" where
  "security_features c = opt_field ''cors'' id (Option.bind (skCORS c) buildCORSConfig) @
     opt_field ''authorization'' id (Option.bind (skAuthorization c) buildAuthorizationConfig) @
     opt_field ''apiKeyAuth'' id (Option.bind (skAPIKeyAuth c) buildAPIKeyAuthConfig) @
     opt_field ''jwt'' id (Option.bind (skJWT c) buildJWTAuthConfig) @
     opt_field ''oidc'' id (Option.bind (skOIDC c) buildOIDCConfig) @
     opt_field ''extAuth'' id (Option.bind (skExtAuth c) buildExtAuthConfig)"

definition labels_json :: "(string \<times> string) list \<Rightarrow> json" where
  "labels_json ls = JObj (map (\<lambda>(k, v). (k, JStr v)) ls)"

definition BuildSecurityPolicy :: "SecurityPolicyK8s \<Rightarrow> json option" where
  "BuildSecurityPolicy c = (if security_features c = [] then None
     else Some (JObj [(''apiVersion'', JStr ''gateway.envoyproxy.io/v1alpha1''), (''kind'', JStr ''SecurityPolicy''),
       (''metadata'', JObj [(''name'', JStr (skName c)), (''namespace'', JStr (skNamespace c)),
          (''labels'', labels_json (ForRoute (skGatewayID c) (skRouteID c)))]),
       (''spec'', JObj ([(''targetRef'', target_json (skTargetRef c))] @ security_features c))]))"

definition GenerateSecurityPolicyYAML :: "Route \<Rightarrow> Domain \<Rightarrow> SecurityPolicyInput option \<Rightarrow> string list \<Rightarrow> json option" where
  "GenerateSecurityPolicyYAML route domain input clientCIDRs =
     (if clientCIDRs = [] \<and> (case input of None \<Rightarrow> True | Some i \<Rightarrow> siCORS i = None \<and> siAuthorization i = None \<and> siAPIKeyAuth i = None \<and>
          siJWT i = None \<and> siOIDC i = None \<and> siExtAuth i = None)
      then None
      else BuildSecurityPolicy (AssembleSecurityPolicyConfig
        ((assembly route domain (Option.bind input siCORS))\<lparr>saInput := input, saClientCIDRs := clientCIDRs\<rparr>)))"

definition GenerateSecurityPolicyYAMLFromDB :: "Route \<Rightarrow> Domain \<Rightarrow> SecurityPolicyConfig option \<Rightarrow> json option" where
  "GenerateSecurityPolicyYAMLFromDB route domain policy = Option.bind (SecurityPolicyConfigFromDB route domain policy) BuildSecurityPolicy"

section \<open>Properties\<close>

text \<open>Reading a value of a manifest by its path.\<close>

fun json_at :: "string list \<Rightarrow> json \<Rightarrow> json option" where
  "json_at [] j = Some j"
| "json_at (k # ks) (JObj fs) = Option.bind (map_of fs k) (json_at ks)"
| "json_at (k # ks) _ = None"

lemma over_simps [simp]: "over None x = x" "over (Some y) x = Some y"
  by (simp_all add: over_def)

lemma map_of_opt_field [simp]: "map_of (opt_field k f x) k' = (if k = k' then map_option f x else None)"
  by (simp add: opt_field_def split: option.splits)

lemma security_features_at:
  "map_of (security_features c) ''authorization'' = Option.bind (skAuthorization c) buildAuthorizationConfig"
  "map_of (security_features c) ''apiKeyAuth'' = Option.bind (skAPIKeyAuth c) buildAPIKeyAuthConfig"
  "map_of (security_features c) ''jwt'' = Option.bind (skJWT c) buildJWTAuthConfig"
  by (simp_all add: security_features_def map_add_def option.map_id split: option.splits)

text \<open>A block that denies by default always reaches the manifest, and its rules are those with a condition.\<close>

lemma deny_reaches_manifest:
  assumes "skAuthorization c = Some a" "appDefaultAction a = ''Deny''"
  shows "\<exists>j. BuildSecurityPolicy c = Some j \<and> json_at [''spec'', ''authorization'', ''defaultAction''] j = Some (JStr ''Deny'') \<and>
    json_at [''spec'', ''authorization'', ''rules''] j =
      (case filter rule_conditional (appRules a) of [] \<Rightarrow> None | rs \<Rightarrow> Some (JList (map rule_json rs)))"
proof -
  obtain x where x: "buildAuthorizationConfig a = Some x" "json_at [''defaultAction''] x = Some (JStr ''Deny'')"
    "json_at [''rules''] x = (case filter rule_conditional (appRules a) of [] \<Rightarrow> None | rs \<Rightarrow> Some (JList (map rule_json rs)))"
  proof (cases "filter rule_conditional (appRules a)")
    case Nil
    show ?thesis by (rule that [of "JObj [(''defaultAction'', JStr ''Deny'')]"]) (simp_all add: buildAuthorizationConfig_def assms(2) Nil)
  next
    case (Cons r rs)
    show ?thesis
      by (rule that [of "JObj [(''defaultAction'', JStr ''Deny''), (''rules'', JList (map rule_json (r # rs)))]"])
        (simp_all add: buildAuthorizationConfig_def assms(2) Cons)
  qed
  have f: "map_of (security_features c) ''authorization'' = Some x" by (simp add: security_features_at assms(1) x(1))
  then have "security_features c \<noteq> []" by auto
  with f x(2,3) show ?thesis by (auto simp: BuildSecurityPolicy_def)
qed

text \<open>C38. In general mode the preview of the security policy of a route is the policy that a deployment of the stored configuration writes,
  provided that the authorization block of the input, if there is one, has a condition and names its methods in upper case.\<close>

theorem preview_is_deployed:
  assumes "case siAuthorization i of None \<Rightarrow> True
    | Some a \<Rightarrow> (aiAllowedCIDRs a \<noteq> [] \<or> aiHeaders a \<noteq> [] \<or> aiMethods a \<noteq> []) \<and> map ToUpper (aiMethods a) = aiMethods a"
  shows "GenerateSecurityPolicyYAML r domain (Some i) [] = GenerateSecurityPolicyYAMLFromDB r domain (Some (security_config True i))"
proof -
  have some: "HasAnyConfig (security_config True i) \<longleftrightarrow> \<not> (siCORS i = None \<and> siAuthorization i = None \<and> siAPIKeyAuth i = None \<and>
      siJWT i = None \<and> siOIDC i = None \<and> siExtAuth i = None)"
    using assms by (auto simp: HasAnyConfig_def security_config_def BuildAuthorizationConfigFromInput_def BuildAPIKeyAuthConfigFromInput_def
        BuildJWTConfigFromInput_def BuildOIDCConfigFromInput_def split: option.splits)
  have auth: "map_option (\<lambda>a. \<lparr>appDefaultAction = acDefaultAction a, appRules = map persisted_rule (acRules a)\<rparr>)
      (BuildAuthorizationConfigFromInput (siAuthorization i)) = map_option input_authorization (siAuthorization i)"
    using assms by (auto simp: BuildAuthorizationConfigFromInput_def input_authorization_def persisted_rule_def allow_rule_def split: option.splits)
  have "AssembleSecurityPolicyConfig ((assembly r domain (siCORS i))\<lparr>saInput := Some i, saClientCIDRs := []\<rparr>) =
      AssembleSecurityPolicyConfig ((assembly r domain (siCORS i))\<lparr>saPersisted := Some (security_config True i)\<rparr>)"
    using auth by (auto simp: AssembleSecurityPolicyConfig_def assembly_def applyInputSecurityFeatures_def applyPersistedSecurityFeatures_def
        security_config_def BuildAPIKeyAuthConfigFromInput_def BuildJWTConfigFromInput_def BuildOIDCConfigFromInput_def over_def
        persisted_provider_def persisted_oidc_def input_oidc_def FastGatewayNamespace_def Let_def split: option.splits)
  then show ?thesis using some
    by (simp add: GenerateSecurityPolicyYAML_def GenerateSecurityPolicyYAMLFromDB_def SecurityPolicyConfigFromDB_def security_config_def)
qed

definition sample_security_input :: SecurityPolicyInput where
  "sample_security_input = \<lparr>siCORS = None, siAuthorization = Some \<lparr>aiAllowedCIDRs = [''10.0.0.1''], aiHeaders = [], aiMethods = [''GET'']\<rparr>,
     siAPIKeyAuth = None, siJWT = None, siOIDC = None, siExtAuth = None\<rparr>"

theorem preview_is_deployed_witness:
  "GenerateSecurityPolicyYAML (sample_route RouteStatusActive) sample_domain (Some sample_security_input) [] =
     GenerateSecurityPolicyYAMLFromDB (sample_route RouteStatusActive) sample_domain (Some (security_config True sample_security_input)) \<and>
   GenerateSecurityPolicyYAML (sample_route RouteStatusActive) sample_domain (Some sample_security_input) [] \<noteq> None"
proof -
  have "case siAuthorization sample_security_input of None \<Rightarrow> True
    | Some a \<Rightarrow> (aiAllowedCIDRs a \<noteq> [] \<or> aiHeaders a \<noteq> [] \<or> aiMethods a \<noteq> []) \<and> map ToUpper (aiMethods a) = aiMethods a"
    "GenerateSecurityPolicyYAML (sample_route RouteStatusActive) sample_domain (Some sample_security_input) [] \<noteq> None" by code_simp+
  with preview_is_deployed show ?thesis by blast
qed

text \<open>What the policy of an attached client demands: one rule that carries every factor at once.\<close>

definition client_rule :: "ClientAuthCategory \<Rightarrow> bool \<Rightarrow> AuthorizationRulePolicyConfig" where
  "client_rule c requireIP = \<lparr>arpAction = ''Allow'', arpClientCIDRs = (if requireIP then cacIPCIDRs c else []),
     arpJWT = (if has_jwt c \<and> cacJWTRequiredClaims c \<noteq> [] then Some \<lparr>jprProvider = client_provider_name c, jprClaims = cacJWTRequiredClaims c\<rparr> else None),
     arpHeaders = (if cacEnableHeaderAuth c then cacHeaderMatches c else []), arpMethods = cacAllowedMethods c\<rparr>"

lemma client_provider_named [simp]: "client_provider_name c \<noteq> []"
  by (simp add: client_provider_name_def)

text \<open>C33. The security policy of the route of one client demands all its factors together: an API key from the secret of the client, a token of its
  issuer, and, behind a default of deny, a single allow rule that requires the source ranges (where they are asked for), the claims, the headers and the
  methods at once. There is no block only when there is nothing to require.\<close>

theorem client_factors_are_conjoined:
  assumes "config = AssembleSecurityPolicyConfig ((assembly r domain cors)\<lparr>saTargetName := n, saClient := Some c, saRequireIP := ip, saAPIKeySecretName := s\<rparr>)"
  shows "skAuthorization config =
      (if rule_conditional (client_rule c ip) then Some \<lparr>appDefaultAction = ''Deny'', appRules = [client_rule c ip]\<rparr> else None) \<and>
    (has_api_key c \<longrightarrow> skAPIKeyAuth config = Some \<lparr>akCredentialRefs = [\<lparr>srName = s, srNamespace = FastGatewayNamespace\<rparr>],
       akExtractFrom = [[cacAPIKeyHeaderName c]]\<rparr>) \<and>
    (has_jwt c \<longrightarrow> (\<exists>p. skJWT config = Some [p] \<and> jppIssuer p = cacJWTIssuer c \<and> jppJWKSURL p = cacJWTJWKSURL c \<and>
       jppAudiences p = cacJWTAudiences c \<and> jppName p = client_provider_name c))"
proof -
  have "with_headers_and_methods c (client_authorization c ip None) =
      (if rule_conditional (client_rule c ip) then Some \<lparr>appDefaultAction = ''Deny'', appRules = [client_rule c ip]\<rparr> else None)"
    by (auto simp: with_headers_and_methods_def client_authorization_def client_rule_def rule_conditional_def rule_jwt_def allow_rule_def Let_def)
  then show ?thesis unfolding assms
    by (auto simp: AssembleSecurityPolicyConfig_def assembly_def applyClientSecurityFeatures_def Let_def)
qed


definition sample_category :: ClientAuthCategory where
  "sample_category = \<lparr>cacClientID = 10, cacClientName = ''mobile'', cacEnableIP = True, cacEnableAPIKey = True, cacEnableJWT = False,
     cacEnableMTLS = False, cacAPIKey = ''key'', cacAPIKeyHeaderName = ''x-api-key'', cacClientIDHeaderName = ''x-client-id'',
     cacIPCIDRs = [''10.0.0.0/8''], cacJWTIssuer = [], cacJWTJWKSURL = [], cacJWTAudiences = [], cacJWTRequiredClaims = [],
     cacJWTClaimToHeaders = [], cacEnableHeaderAuth = False, cacHeaderMatches = [], cacAllowedMethods = [''GET''], cacMTLSSANs = [],
     cacMTLSHashes = [], cacMTLSCAPem = [], cacRateLimitConfig = None, cacExtAuth = None, cacExtAuthBackendName = []\<rparr>"

theorem client_factors_are_conjoined_witness:
  "let c = AssembleSecurityPolicyConfig ((assembly (sample_route RouteStatusActive) sample_domain None)\<lparr>saTargetName := ''orders-ak-10'',
       saClient := Some sample_category, saRequireIP := True, saAPIKeySecretName := ''fastgateway-apikey-10''\<rparr>) in
   skAuthorization c = Some \<lparr>appDefaultAction = ''Deny'', appRules = [client_rule sample_category True]\<rparr> \<and> skAPIKeyAuth c \<noteq> None"
proof -
  have "rule_conditional (client_rule sample_category True)" "has_api_key sample_category" by code_simp+
  with client_factors_are_conjoined [where c = sample_category and ip = True, OF refl] show ?thesis unfolding Let_def by fastforce
qed

end
