(* ===== verification/Base64.thy ===== *)
theory Base64
  imports Prelude
begin

text \<open>
  \<open>encoding/base64\<close> (\<open>StdEncoding\<close>) and \<open>encoding/hex\<close> of Go's library, as \<open>src/internal/services/clients\<close> and \<open>src/internal/cluster\<close> use them:
  the padded standard alphabet, a decoder that skips line breaks and accepts trailing bits.
\<close>

section \<open>The alphabet\<close>

definition b64_char :: "nat \<Rightarrow> char" where
  "b64_char n = char_of (if n < 26 then 65 + n else if n < 52 then 71 + n else if n < 62 then n - 4 else if n = 62 then 43 else (47::nat))"

definition b64_val :: "char \<Rightarrow> nat option" where
  "b64_val c = (let k = of_char c :: nat in
     if 65 \<le> k \<and> k \<le> 90 then Some (k - 65) else if 97 \<le> k \<and> k \<le> 122 then Some (k - 71)
     else if 48 \<le> k \<and> k \<le> 57 then Some (k + 4) else if k = 43 then Some 62 else if k = 47 then Some 63 else None)"

definition pad :: char where
  "pad = CHR ''=''"

section \<open>Encoding and decoding\<close>

text \<open>The four digits of three bytes, and the three bytes of four digits.\<close>

definition b64_digit :: "nat \<Rightarrow> nat \<Rightarrow> nat \<Rightarrow> nat \<Rightarrow> nat" where
  "b64_digit i a b c = (if i = 0 then a div 4 else if i = 1 then (a mod 4) * 16 + b div 16 else if i = 2 then (b mod 16) * 4 + c div 64 else c mod 64)"

definition b64_byte :: "nat \<Rightarrow> nat \<Rightarrow> char" where
  "b64_byte hi lo = char_of ((hi + lo) mod 256)"

fun EncodeToString :: "string \<Rightarrow> string" where
  "EncodeToString [] = []"
| "EncodeToString [a] = [b64_char (b64_digit 0 (of_char a) 0 0), b64_char (b64_digit 1 (of_char a) 0 0), pad, pad]"
| "EncodeToString [a, b] = [b64_char (b64_digit 0 (of_char a) (of_char b) 0), b64_char (b64_digit 1 (of_char a) (of_char b) 0),
     b64_char (b64_digit 2 (of_char a) (of_char b) 0), pad]"
| "EncodeToString (a # b # c # s) = b64_char (b64_digit 0 (of_char a) (of_char b) (of_char c)) #
     b64_char (b64_digit 1 (of_char a) (of_char b) (of_char c)) # b64_char (b64_digit 2 (of_char a) (of_char b) (of_char c)) #
     b64_char (b64_digit 3 (of_char a) (of_char b) (of_char c)) # EncodeToString s"

fun decode_quanta :: "string \<Rightarrow> string option" where
  "decode_quanta [] = Some []"
| "decode_quanta (p # q # r # s # rest) = (case (b64_val p, b64_val q) of
     (Some w, Some x) \<Rightarrow>
       (if r = pad then (if s = pad \<and> rest = [] then Some [b64_byte (w * 4) (x div 16)] else None)
        else case b64_val r of None \<Rightarrow> None
        | Some y \<Rightarrow>
            (if s = pad then (if rest = [] then Some [b64_byte (w * 4) (x div 16), b64_byte ((x mod 16) * 16) (y div 4)] else None)
             else case b64_val s of None \<Rightarrow> None
             | Some z \<Rightarrow> map_option (\<lambda>t. b64_byte (w * 4) (x div 16) # b64_byte ((x mod 16) * 16) (y div 4) # b64_byte ((y mod 4) * 64) z # t)
                 (decode_quanta rest)))
   | _ \<Rightarrow> None)"
| "decode_quanta _ = None"

definition DecodeString :: "string \<Rightarrow> string option" where
  "DecodeString s = decode_quanta (filter (\<lambda>c. c \<noteq> CHR 0x0D \<and> c \<noteq> CHR 0x0A) s)"

text \<open>\<open>hex.EncodeToString\<close>\<close>

definition hex_digit :: "nat \<Rightarrow> char" where
  "hex_digit n = char_of (if n < 10 then 48 + n else 87 + n)"

definition hex_encode :: "string \<Rightarrow> string" where
  "hex_encode s = concat (map (\<lambda>c. [hex_digit (of_char c div 16), hex_digit (of_char c mod 16)]) s)"

section \<open>Round trip\<close>

lemma b64_val_char [simp]: "n < 64 \<Longrightarrow> b64_val (b64_char n) = Some n"
  by (auto simp: b64_val_def b64_char_def Let_def of_char_mod_256 split: if_splits)

lemma b64_char_plain: "n < 64 \<Longrightarrow> b64_char n \<noteq> pad \<and> b64_char n \<noteq> CHR 0x0D \<and> b64_char n \<noteq> CHR 0x0A"
proof -
  assume "n < 64"
  then have "b64_val (b64_char n) = Some n" by simp
  moreover have "b64_val pad = None" "b64_val (CHR 0x0D) = None" "b64_val (CHR 0x0A) = None" by code_simp+
  ultimately show ?thesis by auto
qed

lemma byte_bound [simp]: "(of_char (c::char) :: nat) < 256"
  by (cases c) (simp add: of_char_def horner_sum_simps)

lemma b64_digit_bound [simp]: "a < 256 \<Longrightarrow> b < 256 \<Longrightarrow> c < 256 \<Longrightarrow> b64_digit i a b c < 64"
  by (auto simp: b64_digit_def)

lemmas encoded_plain = b64_char_plain [OF b64_digit_bound]

lemma b64_byte_back: "k < 256 \<Longrightarrow> hi + lo = k \<Longrightarrow> b64_byte hi lo = char_of k"
  by (simp add: b64_byte_def)

lemma digits_bytes:
  assumes "a < 256" "b < 256" "c < 256"
  shows "b64_byte (b64_digit 0 a b c * 4) (b64_digit 1 a b c div 16) = char_of a"
    "b64_byte ((b64_digit 1 a b c mod 16) * 16) (b64_digit 2 a b c div 4) = char_of b"
    "b64_byte ((b64_digit 2 a b c mod 4) * 64) (b64_digit 3 a b c) = char_of c"
proof -
  have 1: "((a mod 4) * 16 + b div 16) div 16 = a mod 4" "((a mod 4) * 16 + b div 16) mod 16 = b div 16" using assms(2) by auto
  have 3: "b div 16 mod 16 = b div 16" "c div 64 mod 4 = c div 64" using assms(2,3) by auto
  have 2: "((b mod 16) * 4 + c div 64) div 4 = b mod 16" "((b mod 16) * 4 + c div 64) mod 4 = c div 64" using assms(3) by auto
  show "b64_byte (b64_digit 0 a b c * 4) (b64_digit 1 a b c div 16) = char_of a"
    by (rule b64_byte_back [OF assms(1)]) (simp add: b64_digit_def 1)
  show "b64_byte ((b64_digit 1 a b c mod 16) * 16) (b64_digit 2 a b c div 4) = char_of b"
    by (rule b64_byte_back [OF assms(2)]) (simp add: b64_digit_def 1 2 3)
  show "b64_byte ((b64_digit 2 a b c mod 4) * 64) (b64_digit 3 a b c) = char_of c"
    by (rule b64_byte_back [OF assms(3)]) (simp add: b64_digit_def 2 3)
qed

lemma decode_quanta_encode: "decode_quanta (EncodeToString s) = Some s"
proof (induction s rule: EncodeToString.induct)
  case (2 a)
  show ?case using digits_bytes [of "of_char a" 0 0] by (simp add: encoded_plain)
next
  case (3 a b)
  show ?case using digits_bytes [of "of_char a" "of_char b" 0] by (simp add: encoded_plain)
next
  case (4 a b c s)
  show ?case using digits_bytes [of "of_char a" "of_char b" "of_char c"] 4 by (simp add: encoded_plain)
qed simp

lemma encoded_no_breaks: "list_all (\<lambda>c. c \<noteq> CHR 0x0D \<and> c \<noteq> CHR 0x0A) (EncodeToString s)"
  by (induction s rule: EncodeToString.induct) (simp_all add: encoded_plain, simp_all add: pad_def)

lemma decode_encode [simp]: "DecodeString (EncodeToString s) = Some s"
  using encoded_no_breaks [of s] by (simp add: DecodeString_def decode_quanta_encode list_all_iff filter_id_conv [THEN iffD2])

end
