(* ===== verification/Clients.thy ===== *)
theory Clients
  imports Attachments Base64 Cluster
begin

text \<open>
  Clients and their credentials: \<open>src/internal/services/clients/client_service.go\<close>, \<open>client_ip.go\<close>, \<open>client_headers.go\<close> and \<open>client_auth.go\<close>, with
  the rows of \<open>src/internal/repository/client_repository.go\<close>, \<open>client_ip_repository.go\<close> and \<open>client_header_repository.go\<close> and the secrets of
  \<open>src/internal/cluster/secret.go\<close>. A change of a credential queues the routes that enforce it (the cascade of \<open>Attachments\<close>).

  What the code takes from outside is an argument: the random bytes of a key (\<open>None\<close> when the source fails), the hash \<open>bcrypt\<close> (\<open>None\<close> for an error),
  \<open>parse_uri\<close>, the scheme that \<open>url.ParseRequestURI\<close> reads (\<open>None\<close> for an error), and \<open>pem_error\<close>, the verdict of the PEM and X.509 parsers on a certificate.
\<close>

section \<open>Rows\<close>

definition ClientRepo_Create :: "Client \<Rightarrow> Client m" where
  "ClientRepo_Create c = inserts ErrDB (\<lambda>d. if list_ex (\<lambda>x. clName x = clName c) (clients d) then Inl ErrDuplicatedKey
     else Inr (c\<lparr>clID := next_id d\<rparr>, d\<lparr>next_id := Suc (next_id d), clients := clients d @ [c\<lparr>clID := next_id d\<rparr>]\<rparr>))"

text \<open>The two counts are not columns.\<close>

definition ClientRepo_Update :: "Client \<Rightarrow> unit m" where
  "ClientRepo_Update c = updates ErrDB (\<lambda>d. if list_ex (\<lambda>x. clName x = clName c \<and> clID x \<noteq> clID c) (clients d) then Inl ErrDuplicatedKey
     else Inr (d\<lparr>clients := row_save clID (c\<lparr>clIPAddressCount := 0, clHeaderCount := 0\<rparr>) (clients d)\<rparr>))"

definition ClientRepo_Delete :: "uuid \<Rightarrow> unit m" where
  "ClientRepo_Delete i =
     bind (exec (\<lambda>d. d\<lparr>client_ips := filter (\<lambda>x. cipClientID x \<noteq> i) (client_ips d)\<rparr>)) (\<lambda>_.
     bind (exec (\<lambda>d. d\<lparr>client_headers := filter (\<lambda>x. chdClientID x \<noteq> i) (client_headers d)\<rparr>)) (\<lambda>_.
     exec (\<lambda>d. d\<lparr>clients := row_delete clID i (clients d), attachments := filter (\<lambda>a. attClientID a \<noteq> i) (attachments d)\<rparr>)))"

definition ClientRepo_ExistsByName :: "string \<Rightarrow> bool m" where
  "ClientRepo_ExistsByName n = query (\<lambda>d. Inr (list_ex (\<lambda>x. clName x = n) (clients d)))"

definition ClientRepo_ExistsByNameExcluding :: "string \<Rightarrow> uuid \<Rightarrow> bool m" where
  "ClientRepo_ExistsByNameExcluding n i = query (\<lambda>d. Inr (list_ex (\<lambda>x. clName x = n \<and> clID x \<noteq> i) (clients d)))"

definition ClientIPRepo_Create :: "ClientIPAddress \<Rightarrow> ClientIPAddress m" where
  "ClientIPRepo_Create x = inserts ErrDB (\<lambda>d. Inr (x\<lparr>cipID := next_id d\<rparr>,
     d\<lparr>next_id := Suc (next_id d), client_ips := client_ips d @ [x\<lparr>cipID := next_id d\<rparr>]\<rparr>))"

definition ClientIPRepo_GetByID :: "uuid \<Rightarrow> ClientIPAddress m" where
  "ClientIPRepo_GetByID i = query (\<lambda>d. found (row_get cipID i (client_ips d)))"

definition ClientIPRepo_Delete :: "uuid \<Rightarrow> unit m" where
  "ClientIPRepo_Delete i = exec (\<lambda>d. d\<lparr>client_ips := row_delete cipID i (client_ips d)\<rparr>)"

definition ClientHeaderRepo_Create :: "ClientHeader \<Rightarrow> ClientHeader m" where
  "ClientHeaderRepo_Create x = inserts ErrDB (\<lambda>d. Inr (x\<lparr>chdID := next_id d\<rparr>,
     d\<lparr>next_id := Suc (next_id d), client_headers := client_headers d @ [x\<lparr>chdID := next_id d\<rparr>]\<rparr>))"

definition ClientHeaderRepo_GetByID :: "uuid \<Rightarrow> ClientHeader m" where
  "ClientHeaderRepo_GetByID i = query (\<lambda>d. found (row_get chdID i (client_headers d)))"

definition ClientHeaderRepo_Delete :: "uuid \<Rightarrow> unit m" where
  "ClientHeaderRepo_Delete i = exec (\<lambda>d. d\<lparr>client_headers := row_delete chdID i (client_headers d)\<rparr>)"

definition TeamRepo_ListTeamProjects :: "uuid \<Rightarrow> ProjectTeamRole list m" where
  "TeamRepo_ListTeamProjects t = query (\<lambda>d. Inr (filter (\<lambda>x. ptrTeamID x = t) (project_team_roles d)))"

section \<open>Secrets\<close>

definition ClientPrefixName :: "string \<Rightarrow> string" where
  "ClientPrefixName s = take 8 s"

definition APIKeySecretForClientName :: "string \<Rightarrow> string" where
  "APIKeySecretForClientName s = ''fastgateway-apikey-'' @ ClientPrefixName s"

definition GetAPIKeySecretName :: "uuid \<Rightarrow> string" where
  "GetAPIKeySecretName i = APIKeySecretForClientName (uuid_string i)"

definition put_secret :: "string \<Rightarrow> string \<Rightarrow> k8s_key \<Rightarrow> k8s_object \<Rightarrow> unit m" where
  "put_secret createMsg updateMsg k secret =
     bind (attempt (k8s_Create k secret)) (\<lambda>r. case r of
       Inr _ \<Rightarrow> ret ()
     | Inl e \<Rightarrow> if errors_Is e ErrK8sAlreadyExists
         then wrap_error updateMsg (bind (k8s_Get k) (\<lambda>_. k8s_Update k secret))
         else throw (Wrap createMsg e))"

definition CreateAPIKeySecret :: "uuid \<Rightarrow> uuid \<Rightarrow> string \<Rightarrow> unit m" where
  "CreateAPIKeySecret p clientID apiKey =
     put_secret ''failed to create api key secret: %w'' ''failed to update api key secret: %w''
       (K8sKey p KSecret FastGatewayNamespace (GetAPIKeySecretName clientID))
       (SecretObj [(''fastgateway.dev/managed-by'', ''fastgateway''), (''fastgateway.dev/client-id'', uuid_string clientID),
          (''fastgateway.dev/type'', ''api-key'')] [(''api-key'', EncodeToString apiKey)])"

definition CreateOrUpdateSecret :: "uuid \<Rightarrow> string \<Rightarrow> string \<Rightarrow> (string \<times> string) list \<Rightarrow> unit m" where
  "CreateOrUpdateSecret p ns name data =
     put_secret ''failed to create secret: %w'' ''failed to update secret: %w'' (K8sKey p KSecret ns name)
       (SecretObj [(''app.kubernetes.io/managed-by'', ''fastgateway''), (''fastgateway.dev/type'', ''mtls-ca'')]
          (map (\<lambda>(k, v). (k, EncodeToString v)) data))"

definition drop_secret :: "string \<Rightarrow> k8s_key \<Rightarrow> unit m" where
  "drop_secret msg k = bind (attempt (k8s_Delete k)) (\<lambda>r. case r of
     Inr _ \<Rightarrow> ret () | Inl e \<Rightarrow> if errors_Is e ErrK8sNotFound then ret () else throw (Wrap msg e))"

definition DeleteAPIKeySecret :: "uuid \<Rightarrow> uuid \<Rightarrow> unit m" where
  "DeleteAPIKeySecret p clientID = drop_secret ''failed to delete api key secret: %w''
     (K8sKey p KSecret FastGatewayNamespace (GetAPIKeySecretName clientID))"

definition DeleteSecret :: "uuid \<Rightarrow> string \<Rightarrow> string \<Rightarrow> unit m" where
  "DeleteSecret p ns name = drop_secret ''failed to delete secret: %w'' (K8sKey p KSecret ns name)"

section \<open>Clients\<close>

record CreateClientInput =
  cciName :: string
  cciDescription :: string
  cciTeamID :: uuid
  cciContactName :: string
  cciContactEmail :: string
  cciClientIDHeaderName :: string

record UpdateClientInput =
  uciName :: string
  uciDescription :: string
  uciContactName :: string
  uciContactEmail :: string
  uciClientIDHeaderName :: string

text \<open>The zero row; two columns have a default in the schema.\<close>

definition new_client :: Client where
  "new_client = \<lparr>clID = 0, clTeamID = 0, clName = [], clDescription = [], clContactName = [], clContactEmail = [], clCreatedBy = 0,
     clAPIKeyEnabled = False, clAPIKeyHash = [], clAPIKeyEncrypted = [], clAPIKeyPrefix = [], clAPIKeyHeaderName = ''x-api-key'',
     clClientIDHeaderName = [], clJWTEnabled = False, clJWTIssuer = [], clJWTJWKSURL = [], clJWTAudiences = [],
     clJWTRequiredClaims = [], clJWTClaimToHeaders = [], clMTLSEnabled = False, clMTLSCAName = [], clMTLSCASecret = [], clMTLSCASecretKey = ''ca.crt'',
     clMTLSCAPem = [], clMTLSSANs = [], clMTLSHashes = [], clAllowedMethods = [], clManagedCertificateID = None, clIPAddressCount = 0,
     clHeaderCount = 0\<rparr>"

definition client_Create :: "CreateClientInput \<Rightarrow> uuid \<Rightarrow> Client m" where
  "client_Create inp createdBy =
     bind (or_error (Msg ''team not found'') (TeamRepo_GetByID (cciTeamID inp))) (\<lambda>_.
     bind (ClientRepo_ExistsByName (cciName inp)) (\<lambda>exists.
     bind (require (\<not> exists) (Msg ''client name already exists'')) (\<lambda>_.
     bind (ClientRepo_Create (new_client\<lparr>clTeamID := cciTeamID inp, clName := cciName inp, clDescription := cciDescription inp,
       clContactName := cciContactName inp, clContactEmail := cciContactEmail inp, clCreatedBy := createdBy,
       clClientIDHeaderName := (if cciClientIDHeaderName inp = [] then ''x-client-id'' else cciClientIDHeaderName inp)\<rparr>)) (\<lambda>c.
     ClientRepo_GetByID (clID c)))))"

definition client_Update :: "uuid \<Rightarrow> UpdateClientInput \<Rightarrow> Client m" where
  "client_Update i inp =
     bind (or_error (Msg ''client not found'') (ClientRepo_GetByID i)) (\<lambda>c.
     bind (if uciName inp \<noteq> [] \<and> uciName inp \<noteq> clName c
           then bind (ClientRepo_ExistsByNameExcluding (uciName inp) i) (\<lambda>exists.
             bind (require (\<not> exists) (Msg ''client name already exists'')) (\<lambda>_. ret (c\<lparr>clName := uciName inp\<rparr>)))
           else ret c) (\<lambda>c'.
     bind (ClientRepo_Update (c'\<lparr>clDescription := uciDescription inp, clContactName := uciContactName inp, clContactEmail := uciContactEmail inp,
       clClientIDHeaderName := (if uciClientIDHeaderName inp \<noteq> [] then uciClientIDHeaderName inp else clClientIDHeaderName c')\<rparr>)) (\<lambda>_.
     ClientRepo_GetByID i)))"

text \<open>The projects whose cluster may hold a secret of the client. The code ranges over a map of them; the model takes them in the order of the roles.\<close>

definition team_project_ids :: "ProjectTeamRole list \<Rightarrow> uuid list" where
  "team_project_ids rs = remdups (filter (\<lambda>p. p \<noteq> 0) (map ptrProjectID rs))"

definition drop_client_secrets :: "Client \<Rightarrow> uuid \<Rightarrow> unit m" where
  "drop_client_secrets c p =
     bind (if clAPIKeyEnabled c then bind (attempt (DeleteAPIKeySecret p (clID c))) (\<lambda>_. ret ()) else ret ()) (\<lambda>_.
     if clMTLSEnabled c \<and> clMTLSCASecret c \<noteq> []
     then bind (attempt (DeleteSecret p FastGatewayNamespace (clMTLSCASecret c))) (\<lambda>_. ret ()) else ret ())"

definition client_Delete :: "uuid \<Rightarrow> unit m" where
  "client_Delete i =
     bind (or_error (Msg ''client not found'') (ClientRepo_GetByID i)) (\<lambda>c.
     bind (if clAPIKeyEnabled c \<or> clMTLSEnabled c
           then bind (attempt (TeamRepo_ListTeamProjects (clTeamID c))) (\<lambda>r.
             for_each (team_project_ids (case r of Inl _ \<Rightarrow> [] | Inr rs \<Rightarrow> rs)) (drop_client_secrets c))
           else ret ()) (\<lambda>_.
     ClientRepo_Delete i))"

definition validMethods :: "string list" where
  "validMethods = [''GET'', ''POST'', ''PUT'', ''DELETE'', ''PATCH'', ''HEAD'', ''OPTIONS'']"

text \<open>The first occurrence of each element.\<close>

fun unseen :: "string list \<Rightarrow> string list \<Rightarrow> string list" where
  "unseen seen [] = []"
| "unseen seen (x # xs) = (if x \<in> set seen then unseen seen xs else x # unseen (x # seen) xs)"

definition SetAllowedMethods :: "uuid \<Rightarrow> string list \<Rightarrow> Client m" where
  "SetAllowedMethods i methods =
     bind (or_error (Msg ''client not found'') (ClientRepo_GetByID i)) (\<lambda>c.
     bind (require (list_all (\<lambda>x. ToUpper x \<in> set validMethods) methods) (Msg ''invalid HTTP method: %s'')) (\<lambda>_.
     bind (ClientRepo_Update (c\<lparr>clAllowedMethods := unseen [] (map ToUpper methods)\<rparr>)) (\<lambda>_.
     bind (cascadeToAttachedRoutes i allAttachments) (\<lambda>_.
     ClientRepo_GetByID i))))"

section \<open>Addresses and headers\<close>

definition validateCIDR :: "string \<Rightarrow> check" where
  "validateCIDR cidr = fail_if (ParseCIDR cidr = None \<and> ParseIP cidr = None) ''invalid CIDR notation or IP address: ''"

definition AddIP :: "uuid \<Rightarrow> string \<Rightarrow> ClientIPAddress m" where
  "AddIP clientID cidr =
     bind (or_error (Msg ''client not found'') (ClientRepo_GetByID clientID)) (\<lambda>_.
     bind (lift_check (validateCIDR (TrimSpace cidr))) (\<lambda>_.
     bind (ClientIPRepo_Create \<lparr>cipID = 0, cipClientID = clientID, cipCIDR = TrimSpace cidr\<rparr>) (\<lambda>x.
     bind (cascadeToAttachedRoutes clientID attachmentsWithIPAllowlist) (\<lambda>_.
     ClientIPRepo_GetByID (cipID x)))))"

definition RemoveIP :: "uuid \<Rightarrow> uuid \<Rightarrow> unit m" where
  "RemoveIP clientID ipID =
     bind (or_error (Msg ''IP address not found'') (ClientIPRepo_GetByID ipID)) (\<lambda>x.
     bind (require (cipClientID x = clientID) (Msg ''IP address does not belong to this client'')) (\<lambda>_.
     bind (ClientIPRepo_Delete ipID) (\<lambda>_.
     cascadeToAttachedRoutes clientID attachmentsWithIPAllowlist)))"

definition AddHeader :: "uuid \<Rightarrow> string \<Rightarrow> string list \<Rightarrow> ClientHeader m" where
  "AddHeader clientID name vals =
     bind (or_error (Msg ''client not found'') (ClientRepo_GetByID clientID)) (\<lambda>_.
     bind (lift_check (checks
       [fail_if (TrimSpace name = []) ''header name is required'',
        fail_if (vals = []) ''at least one header value is required'',
        fail_if (list_ex (\<lambda>v. TrimSpace v = []) vals) ''header values must not be empty''])) (\<lambda>_.
     bind (ClientHeaderRepo_Create \<lparr>chdID = 0, chdClientID = clientID, chdName = TrimSpace name, chdValues = vals\<rparr>) (\<lambda>x.
     bind (cascadeToAttachedRoutes clientID attachmentsWithHeaderAuth) (\<lambda>_.
     ClientHeaderRepo_GetByID (chdID x)))))"

definition RemoveHeader :: "uuid \<Rightarrow> uuid \<Rightarrow> unit m" where
  "RemoveHeader clientID headerID =
     bind (or_error (Msg ''header not found'') (ClientHeaderRepo_GetByID headerID)) (\<lambda>x.
     bind (require (chdClientID x = clientID) (Msg ''header does not belong to this client'')) (\<lambda>_.
     bind (ClientHeaderRepo_Delete headerID) (\<lambda>_.
     cascadeToAttachedRoutes clientID attachmentsWithHeaderAuth)))"

section \<open>Credentials\<close>

definition api_key_of :: "string \<Rightarrow> string" where
  "api_key_of bytes = ''fg_live_'' @ hex_encode bytes"

definition GenerateAPIKey :: "string option \<Rightarrow> (string \<Rightarrow> string option) \<Rightarrow> uuid \<Rightarrow> string option \<Rightarrow> uuid \<Rightarrow> (string \<times> string \<times> string) m" where
  "GenerateAPIKey random bcrypt clientID headerName createdBy =
     bind (or_error (Msg ''client not found'') (ClientRepo_GetByID clientID)) (\<lambda>c.
     let header = (case headerName of Some h \<Rightarrow> if h = [] then ''x-api-key'' else ToLower (TrimSpace h) | None \<Rightarrow> ''x-api-key'') in
     case random of None \<Rightarrow> throw (Msg ''failed to generate random bytes'')
     | Some bytes \<Rightarrow>
         let apiKey = api_key_of bytes; prefix = take 12 apiKey @ ''****'' in
         (case bcrypt apiKey of None \<Rightarrow> throw (Msg ''failed to hash API key'')
          | Some hash \<Rightarrow>
              bind (ClientRepo_Update (c\<lparr>clAPIKeyEnabled := True, clAPIKeyHash := hash, clAPIKeyEncrypted := EncodeToString apiKey,
                clAPIKeyPrefix := prefix, clAPIKeyHeaderName := header\<rparr>)) (\<lambda>_.
              bind (attempt (cascadeToAttachedRoutes clientID attachmentsWithAPIKey)) (\<lambda>_.
              ret (apiKey, prefix, header)))))"

definition RevokeAPIKey :: "uuid \<Rightarrow> unit m" where
  "RevokeAPIKey clientID =
     bind (or_error (Msg ''client not found'') (ClientRepo_GetByID clientID)) (\<lambda>c.
     bind (require (clAPIKeyEnabled c) (Msg ''client does not have an API key'')) (\<lambda>_.
     bind (ClientRepo_Update (c\<lparr>clAPIKeyEnabled := False, clAPIKeyHash := [], clAPIKeyEncrypted := [], clAPIKeyPrefix := []\<rparr>)) (\<lambda>_.
     cascadeToAttachedRoutes clientID attachmentsWithAPIKey)))"

definition GetAPIKeyForDeploy :: "Client \<Rightarrow> error + string" where
  "GetAPIKeyForDeploy c =
     (if \<not> clAPIKeyEnabled c then Inl (Msg ''client does not have an API key enabled'')
      else if clAPIKeyEncrypted c = [] then Inl (Msg ''API key data not found'')
      else case DecodeString (clAPIKeyEncrypted c) of None \<Rightarrow> Inl (Msg ''failed to decode API key'') | Some k \<Rightarrow> Inr k)"

record ConfigureJWTInput =
  cjiIssuer :: string
  cjiJWKSURL :: string
  cjiAudiences :: "string list"
  cjiRequiredClaims :: "JWTRequiredClaim list"
  cjiClaimToHeaders :: "(string \<times> string) list"

fun claims_check :: "JWTRequiredClaim list \<Rightarrow> check" where
  "claims_check [] = Inr ()"
| "claims_check (c # cs) = checks
     [fail_if (rqName c = []) ''claim name is required'', fail_if (rqValues c = []) ''claim values are required'',
      fail_if (rqValueType c \<noteq> [] \<and> rqValueType c \<noteq> ''Exact'' \<and> rqValueType c \<noteq> ''StringContains'') (''claim valueType must be 'Exact' or 'StringContains'' @ [CHR 0x27]),
      claims_check cs]"

fun mappings_check :: "(string \<times> string) list \<Rightarrow> check" where
  "mappings_check [] = Inr ()"
| "mappings_check ((c, h) # ms) = checks
     [fail_if (c = []) ''claim name is required for claim-to-header mapping'', fail_if (h = []) ''header name is required for claim-to-header mapping'',
      mappings_check ms]"

definition jwt_check :: "(string \<Rightarrow> string option) \<Rightarrow> ConfigureJWTInput \<Rightarrow> check" where
  "jwt_check parse_uri inp = checks
     [fail_if (TrimSpace (cjiIssuer inp) = []) ''issuer is required'',
      fail_if (parse_uri (TrimSpace (cjiIssuer inp)) = None) ''invalid issuer URL format'',
      fail_if (TrimSpace (cjiJWKSURL inp) = []) ''jwksUrl is required'',
      (case parse_uri (TrimSpace (cjiJWKSURL inp)) of None \<Rightarrow> Inl (Msg ''invalid JWKS URL format'')
       | Some scheme \<Rightarrow> fail_if (scheme \<noteq> ''https'' \<and> scheme \<noteq> ''http'') ''jwksUrl must use HTTP or HTTPS scheme''),
      claims_check (cjiRequiredClaims inp), mappings_check (cjiClaimToHeaders inp)]"

definition ConfigureJWT :: "(string \<Rightarrow> string option) \<Rightarrow> uuid \<Rightarrow> ConfigureJWTInput \<Rightarrow> unit m" where
  "ConfigureJWT parse_uri clientID inp =
     bind (or_error (Msg ''client not found'') (ClientRepo_GetByID clientID)) (\<lambda>c.
     bind (lift_check (jwt_check parse_uri inp)) (\<lambda>_.
     bind (or_error (Msg ''internal: failed to update client'') (ClientRepo_Update (c\<lparr>clJWTEnabled := True, clJWTIssuer := TrimSpace (cjiIssuer inp),
       clJWTJWKSURL := TrimSpace (cjiJWKSURL inp), clJWTAudiences := cjiAudiences inp, clJWTRequiredClaims := cjiRequiredClaims inp,
       clJWTClaimToHeaders := cjiClaimToHeaders inp\<rparr>))) (\<lambda>_.
     cascadeToAttachedRoutes clientID attachmentsWithJWT)))"

definition RemoveJWT :: "uuid \<Rightarrow> unit m" where
  "RemoveJWT clientID =
     bind (or_error (Msg ''client not found'') (ClientRepo_GetByID clientID)) (\<lambda>c.
     bind (require (clJWTEnabled c) (Msg ''client does not have JWT configured'')) (\<lambda>_.
     bind (or_error (Msg ''internal: failed to update client'') (ClientRepo_Update (c\<lparr>clJWTEnabled := False, clJWTIssuer := [], clJWTJWKSURL := [],
       clJWTAudiences := [], clJWTRequiredClaims := [], clJWTClaimToHeaders := []\<rparr>))) (\<lambda>_.
     cascadeToAttachedRoutes clientID attachmentsWithJWT)))"

record UpdateClientMTLSInput =
  umiEnabled :: bool
  umiCAName :: string
  umiCAPem :: string
  umiSANs :: "(string \<times> string) list"
  umiHashes :: "string list"

fun sans_check :: "(string \<times> string) list \<Rightarrow> check" where
  "sans_check [] = Inr ()"
| "sans_check ((t, v) # ss) = checks
     [fail_if (t \<noteq> ''DNS'' \<and> t \<noteq> ''URI'') (''sans[%d]: type must be 'DNS' or 'URI'' @ [CHR 0x27]), fail_if (v = []) ''sans[%d]: value cannot be empty'', sans_check ss]"

definition mtls_check :: "(string \<Rightarrow> error option) \<Rightarrow> UpdateClientMTLSInput \<Rightarrow> check" where
  "mtls_check pem_error inp = checks
     [fail_if (umiCAPem inp = []) ''CA certificate is required'',
      (case pem_error (umiCAPem inp) of None \<Rightarrow> Inr () | Some e \<Rightarrow> Inl (Wrap ''invalid CA certificate: %w'' e)),
      fail_if (umiSANs inp = [] \<and> umiHashes inp = []) ''at least one SAN or certificate hash is required'',
      sans_check (umiSANs inp), fail_if (list_ex (\<lambda>h. length h \<noteq> 64) (umiHashes inp)) ''hashes[%d]: must be 64 hex characters'']"

definition UpdateClientMTLS :: "(string \<Rightarrow> error option) \<Rightarrow> uuid \<Rightarrow> UpdateClientMTLSInput \<Rightarrow> Client m" where
  "UpdateClientMTLS pem_error clientID inp =
     bind (or_error (Msg ''client not found'') (ClientRepo_GetByID clientID)) (\<lambda>c.
     bind (if umiEnabled inp
           then bind (lift_check (mtls_check pem_error inp)) (\<lambda>_.
             ret (c\<lparr>clMTLSEnabled := True, clMTLSCAName := umiCAName inp,
               clMTLSCASecret := ''fastgateway-client-'' @ take 8 (uuid_string clientID) @ ''-mtls-ca'', clMTLSCASecretKey := ''ca.crt'',
               clMTLSCAPem := umiCAPem inp, clMTLSSANs := umiSANs inp, clMTLSHashes := umiHashes inp\<rparr>))
           else bind (if clMTLSCASecret c \<noteq> []
               then bind (attempt (TeamRepo_ListTeamProjects (clTeamID c))) (\<lambda>r. case r of Inl _ \<Rightarrow> ret ()
                 | Inr rs \<Rightarrow> for_each (filter (\<lambda>p. p \<noteq> 0) (map ptrProjectID rs))
                     (\<lambda>p. bind (attempt (DeleteSecret p FastGatewayNamespace (clMTLSCASecret c))) (\<lambda>_. ret ())))
               else ret ()) (\<lambda>_.
             ret (c\<lparr>clMTLSEnabled := False, clMTLSCAName := [], clMTLSCASecret := [], clMTLSCASecretKey := [], clMTLSCAPem := [], clMTLSSANs := [],
               clMTLSHashes := []\<rparr>))) (\<lambda>c'.
     bind (ClientRepo_Update c') (\<lambda>_. ret c')))"

section \<open>Properties\<close>

lemma cascaded_clients:
  assumes "cascaded d0 d"
  shows "clients d = clients d0" "attachments d = attachments d0"
proof -
  have "d\<lparr>routes := []\<rparr> = d0\<lparr>routes := []\<rparr>" using assms by (simp add: cascaded_def)
  from arg_cong [OF this, of clients] arg_cong [OF this, of attachments] show "clients d = clients d0" "attachments d = attachments d0" by simp_all
qed

text \<open>A cascade over the active attachments with a flag queues their routes.\<close>

lemma hoare_cascade:
  "hoare (\<lambda>d. d = d0) (cascadeToAttachedRoutes i (AttachmentRepo_ListActiveByClientIDWith flag))
     (\<lambda>_ d. cascaded d0 d \<and> (\<forall>a \<in> set (attachments d). attClientID a = i \<and> attStatus a = AttachmentStatusActive \<and> flag a \<longrightarrow> not_active d (attRouteID a)))
     (\<lambda>_ d. cascaded d0 d)"
proof -
  have loop: "hoare (\<lambda>d. d = d1) (cascade_routes as)
      (\<lambda>es d. cascaded d1 d \<and> (es = [] \<longrightarrow> (\<forall>a \<in> set as. attStatus a = AttachmentStatusActive \<longrightarrow> not_active d (attRouteID a)))) (\<lambda>_ _. False)" for as d1
    by (rule hoareI) (auto dest!: cascade_loop)
  show ?thesis unfolding cascadeToAttachedRoutes_def AttachmentRepo_ListActiveByClientIDWith_def
    by (rule hoare_pre, (rule hoare_spec [OF loop] | rule wp)+) (auto dest: cascaded_clients)
qed

lemma hoare_trivial: "hoare P m (\<lambda>_ _. True) (\<lambda>_ _. True)"
  by (rule hoareI) auto

text \<open>C35. Withdrawing a credential reaches the routes that enforce it: when a client loses its API key, its token issuer, an address or a header, and the call
  reports success, every route with an active attachment that uses that kind of credential has left \<open>active\<close>, so that it is redeployed.\<close>

theorem withdrawn_credentials_queue_routes:
  assumes "op \<in> {(RevokeAPIKey i, attEnableAPIKey), (RemoveJWT i, attEnableJWT), (RemoveIP i x, attEnableIPAllowlist), (RemoveHeader i y, attEnableHeaderAuth)}"
    "fst op (d, fs) = (Inr (), (d', fs'))" "a \<in> set (attachments d')" "attClientID a = i" "attStatus a = AttachmentStatusActive" "snd op a"
  shows "not_active d' (attRouteID a)"
proof -
  let ?Q = "\<lambda>flag d. \<forall>a \<in> set (attachments d). attClientID a = i \<and> attStatus a = AttachmentStatusActive \<and> flag a \<longrightarrow> not_active d (attRouteID a)"
  have last: "hoare (\<lambda>_. True) (bind m (\<lambda>_. cascadeToAttachedRoutes i (AttachmentRepo_ListActiveByClientIDWith flag))) (\<lambda>_ d. ?Q flag d) (\<lambda>_ _. True)"
    for m :: "unit m" and flag
    by (rule hoare_bind [OF hoare_pre [OF hoare_spec [OF hoare_cascade]] hoare_trivial]) auto
  have "hoare (\<lambda>_. True) (fst op) (\<lambda>_ d. ?Q (snd op) d) (\<lambda>_ _. True)"
    using assms(1) unfolding RevokeAPIKey_def RemoveJWT_def RemoveIP_def RemoveHeader_def attachmentsWithAPIKey_def attachmentsWithJWT_def
      attachmentsWithIPAllowlist_def attachmentsWithHeaderAuth_def
    by (elim insertE emptyE; simp only: fst_conv snd_conv)
      (rule hoare_bind [OF hoare_bind [OF last hoare_trivial] hoare_trivial])+
  from hoare_Inr [OF this TrueI] assms(2-) show ?thesis by auto
qed

definition sample_revoked :: "(error + unit) \<times> db \<times> bool list" where
  "sample_revoked = RevokeAPIKey 10 (sample_attached True, [])"

theorem withdrawn_credentials_queue_routes_witness:
  "fst sample_revoked = Inr () \<and> not_active (fst (snd sample_revoked)) 6"
proof -
  have ok: "fst sample_revoked = Inr ()" "sample_attachment AttachmentStatusActive \<in> set (attachments (fst (snd sample_revoked)))" by code_simp+
  obtain d' fs' where run: "sample_revoked = (Inr (), (d', fs'))" using ok(1) by (metis prod.collapse)
  have "not_active d' (attRouteID (sample_attachment AttachmentStatusActive))"
    by (rule withdrawn_credentials_queue_routes [of "(RevokeAPIKey 10, attEnableAPIKey)" 10 _ _ "sample_attached True" "[]" d' fs'])
      (use run ok(2) in \<open>simp_all add: sample_revoked_def sample_attachment_def\<close>)
  then show ?thesis by (simp add: run sample_attachment_def)
qed

lemma hoare_ClientRepo_GetByID:
  "hoare (\<lambda>d. d = d0) (ClientRepo_GetByID i) (\<lambda>c d. d = d0 \<and> clID c = i) (\<lambda>_ d. d = d0)"
  unfolding ClientRepo_GetByID_def by (rule hoare_pre, (rule wp)+) (auto dest: row_get_key split: option.splits)

lemma hoare_ClientRepo_Update:
  "hoare (\<lambda>d. d = d0) (ClientRepo_Update c) (\<lambda>_ d. row_get clID (clID c) (clients d) = Some (c\<lparr>clIPAddressCount := 0, clHeaderCount := 0\<rparr>)) (\<lambda>_ d. d = d0)"
  unfolding ClientRepo_Update_def by (rule hoare_pre, (rule wp)+) (auto split: if_splits)

lemma GetAPIKeyForDeploy_stored:
  "clAPIKeyEnabled c \<Longrightarrow> clAPIKeyEncrypted c = EncodeToString (api_key_of b) \<Longrightarrow> GetAPIKeyForDeploy c = Inr (api_key_of b)"
  using decode_encode [of "api_key_of b"] by (auto simp: GetAPIKeyForDeploy_def api_key_of_def DecodeString_def split: option.splits)


definition sample_key :: "string \<Rightarrow> (error + string \<times> string \<times> string) \<times> db \<times> bool list" where
  "sample_key bytes = GenerateAPIKey (Some bytes) Some 10 None 7 (sample_db, [])"

lemma sample_key_runs: "\<exists>d'. sample_key bytes = (Inr (api_key_of bytes, take 12 (api_key_of bytes) @ ''****'', ''x-api-key''), (d', []))"
proof -
  have "row_get clID 10 (clients sample_db) = Some sample_client" "clTeamID sample_client \<noteq> 0" by code_simp+
  moreover have "clients sample_db = [sample_client]" "attachments sample_db = []" by code_simp+
  ultimately show ?thesis
    by (simp add: sample_key_def GenerateAPIKey_def ClientRepo_GetByID_def ClientRepo_Update_def or_error_def run_bind found_def Let_def
        attachmentsWithAPIKey_def cascadeToAttachedRoutes_def AttachmentRepo_ListActiveByClientIDWith_def wrap_error_def attempt_def query_def)
qed


section \<open>Changes that reach no route\<close>

text \<open>New certificates, and a new name of the header that selects a client, are stored and no route is queued: what is deployed stays as it was.\<close>

lemma certificate_change_queues_nothing:
  assumes "UpdateClientMTLS pem i inp (d, fs) = (res, (d', fs'))"
  shows "routes d' = routes d"
proof -
  have "keeps (\<lambda>x. routes x = routes d) (UpdateClientMTLS pem i inp)"
    unfolding UpdateClientMTLS_def DeleteSecret_def drop_secret_def ClientRepo_Update_def ClientRepo_GetByID_def TeamRepo_ListTeamProjects_def
    by (intro keeps_bind keeps_if keeps_or_error keeps_case_sum keeps_attempt keeps_for_each keeps_updates keeps_k8s_verbs)
      (auto simp: k8s_remove_def k8s_put_def split: if_splits)
  from keeps_run [OF this _ assms] show ?thesis by simp
qed

lemma header_change_queues_nothing:
  assumes "client_Update i inp (d, fs) = (res, (d', fs'))"
  shows "routes d' = routes d"
proof -
  have "keeps (\<lambda>x. routes x = routes d) (client_Update i inp)"
    unfolding client_Update_def ClientRepo_Update_def ClientRepo_GetByID_def ClientRepo_ExistsByNameExcluding_def
    by (intro keeps_bind keeps_if keeps_or_error keeps_attempt keeps_updates) (auto split: if_splits)
  from keeps_run [OF this _ assms] show ?thesis by simp
qed

end
