(* ===== verification/ClientSecurity.thy ===== *)
theory ClientSecurity
  imports SecurityPlan Clients
begin

text \<open>
  The security policy of the base route: the collectors of \<open>src/internal/services/route_assembler.go\<close> that gather what the attached clients
  contribute, \<open>buildClientIPAuthorizationConfig\<close> of \<open>route_assembler_config.go\<close>, \<open>deploySecurityPolicy\<close> and its general mode in
  \<open>route_deploy_policies.go\<close>, and the calls of \<open>src/internal/cluster/policy.go\<close> and \<open>backend.go\<close> that they make. The attachments of a route that count
  are the active ones followed by the approved ones.
\<close>

section \<open>The cluster client\<close>

definition sp_key :: "uuid \<Rightarrow> string \<Rightarrow> string \<Rightarrow> k8s_key" where
  "sp_key p ns name = K8sKey p KSecurityPolicy ns name"

definition DeleteSecurityPolicy :: "uuid \<Rightarrow> string \<Rightarrow> string \<Rightarrow> unit m" where
  "DeleteSecurityPolicy p ns name = bind (attempt (k8s_Delete (sp_key p ns name))) (\<lambda>r. case r of
     Inr _ \<Rightarrow> ret () | Inl e \<Rightarrow> if errors_Is e ErrK8sNotFound then ret () else throw (Wrap ''failed to delete securitypolicy: %w'' e))"

text \<open>The fallback of the creation to an update takes a second writer between two calls; in a sequential run the creation follows a \<open>NotFound\<close>.\<close>

definition UpdateSecurityPolicy :: "uuid \<Rightarrow> SecurityPolicyK8s \<Rightarrow> unit m" where
  "UpdateSecurityPolicy p config = (case BuildSecurityPolicy config of
     None \<Rightarrow> DeleteSecurityPolicy p (skNamespace config) (skName config)
   | Some policy \<Rightarrow>
       let k = sp_key p (skNamespace config) (skName config) in
       bind (attempt (k8s_Get k)) (\<lambda>r. case r of
         Inl e \<Rightarrow> if errors_Is e ErrK8sNotFound
           then wrap_error ''failed to create securitypolicy: %w'' (k8s_Create k (PolicyObj policy))
           else throw (Wrap ''failed to get existing securitypolicy: %w'' e)
       | Inr _ \<Rightarrow> wrap_error ''failed to update securitypolicy: %w'' (k8s_Update k (PolicyObj policy))))"

definition backend_object_key :: "uuid \<Rightarrow> string \<Rightarrow> string \<Rightarrow> k8s_key" where
  "backend_object_key p ns name = K8sKey p KBackend ns name"

definition DeleteBackend :: "uuid \<Rightarrow> string \<Rightarrow> string \<Rightarrow> unit m" where
  "DeleteBackend p ns name = bind (attempt (k8s_Delete (backend_object_key p ns name))) (\<lambda>r. case r of
     Inr _ \<Rightarrow> ret () | Inl e \<Rightarrow> if errors_Is e ErrK8sNotFound then ret () else throw (Wrap ''failed to delete backend: %w'' e))"

definition GenerateExtAuthBackendName :: "string \<Rightarrow> string \<Rightarrow> string" where
  "GenerateExtAuthBackendName routeID clientID =
     (if clientID \<noteq> [] then ''fg-extauth-'' @ take 8 routeID @ ''-'' @ take 8 clientID else ''fg-extauth-'' @ take 8 routeID)"

section \<open>Collectors\<close>

definition all_attachments :: "uuid \<Rightarrow> ClientRouteAttachment list m" where
  "all_attachments r =
     bind (wrap_error ''list active client attachments for route %s: %w'' (AttachmentRepo_ListActiveByRouteID r)) (\<lambda>active.
     bind (wrap_error ''list approved client attachments for route %s: %w'' (AttachmentRepo_ListApprovedByRouteID r)) (\<lambda>approved.
     ret (active @ approved)))"

definition per_client_route :: "ClientRouteAttachment \<Rightarrow> bool" where
  "per_client_route a \<longleftrightarrow> attEnableAPIKey a \<or> attEnableJWT a \<or> attEnableMTLS a"

fun headers_of :: "ClientRouteAttachment list \<Rightarrow> AuthorizationHeaderMatch list m" where
  "headers_of [] = ret []"
| "headers_of (a # as) = (if \<not> attEnableHeaderAuth a then headers_of as else if per_client_route a then headers_of as
     else bind (wrap_error ''list headers for client %s: %w'' (ClientHeaderRepo_ListByClientID (attClientID a))) (\<lambda>hs.
       bind (headers_of as) (\<lambda>rest. ret (map (\<lambda>h. \<lparr>ahmName = chdName h, ahmValues = chdValues h\<rparr>) hs @ rest))))"

definition collectClientHeaders :: "uuid \<Rightarrow> AuthorizationHeaderMatch list m" where
  "collectClientHeaders r = bind (all_attachments r) headers_of"

fun cidrs_of :: "ClientRouteAttachment list \<Rightarrow> string list m" where
  "cidrs_of [] = ret []"
| "cidrs_of (a # as) = (if \<not> attEnableIPAllowlist a then cidrs_of as else if attEnableAPIKey a \<or> attEnableJWT a then cidrs_of as
     else bind (wrap_error ''list IPs for client %s: %w'' (ClientIPRepo_ListByClientID (attClientID a))) (\<lambda>ips.
       bind (cidrs_of as) (\<lambda>rest. ret (map cipCIDR ips @ rest))))"

definition collectClientIPCIDRs :: "uuid \<Rightarrow> string list m" where
  "collectClientIPCIDRs r = bind (all_attachments r) cidrs_of"

fun methods_of :: "string list \<Rightarrow> ClientRouteAttachment list \<Rightarrow> string list m" where
  "methods_of seen [] = ret []"
| "methods_of seen (a # as) = (if per_client_route a then methods_of seen as
     else bind (attempt (ClientRepo_GetByID (attClientID a))) (\<lambda>r. case r of
       Inl e \<Rightarrow> if errors_Is e ErrRecordNotFound then methods_of seen as else throw (Wrap ''get client %s: %w'' e)
     | Inr c \<Rightarrow> let new = unseen seen (clAllowedMethods c) in
         bind (methods_of (new @ seen) as) (\<lambda>rest. ret (new @ rest))))"

definition collectClientMethods :: "uuid \<Rightarrow> string list m" where
  "collectClientMethods r = bind (all_attachments r) (methods_of [])"

definition countClientAttachments :: "uuid \<Rightarrow> nat m" where
  "countClientAttachments r = bind (all_attachments r) (\<lambda>as. ret (length as))"

text \<open>The three questions about the kind of clients never fail: an error of the first query answers no, one of the second drops the approved.\<close>

definition has_attachment :: "(ClientRouteAttachment \<Rightarrow> bool) \<Rightarrow> uuid \<Rightarrow> bool m" where
  "has_attachment flag r =
     bind (attempt (AttachmentRepo_ListActiveByRouteID r)) (\<lambda>x. case x of
       Inl _ \<Rightarrow> ret False
     | Inr active \<Rightarrow> bind (attempt (AttachmentRepo_ListApprovedByRouteID r)) (\<lambda>y.
         ret (list_ex flag (active @ (case y of Inr approved \<Rightarrow> approved | Inl _ \<Rightarrow> [])))))"

definition hasAPIKeyClientAttachments :: "uuid \<Rightarrow> bool m" where
  "hasAPIKeyClientAttachments r = has_attachment attEnableAPIKey r"

definition hasJWTClientAttachments :: "uuid \<Rightarrow> bool m" where
  "hasJWTClientAttachments r = has_attachment attEnableJWT r"

definition hasMTLSClientAttachments :: "uuid \<Rightarrow> bool m" where
  "hasMTLSClientAttachments r = has_attachment attEnableMTLS r"

definition has_per_client_auth :: "uuid \<Rightarrow> bool m" where
  "has_per_client_auth r =
     bind (hasAPIKeyClientAttachments r) (\<lambda>a. if a then ret True
     else bind (hasJWTClientAttachments r) (\<lambda>b. if b then ret True else hasMTLSClientAttachments r))"

definition buildClientIPAuthorizationConfig :: "uuid \<Rightarrow> AuthorizationPolicyConfig option m" where
  "buildClientIPAuthorizationConfig r =
     bind (collectClientIPCIDRs r) (\<lambda>cidrs.
     bind (collectClientHeaders r) (\<lambda>hdrs.
     bind (collectClientMethods r) (\<lambda>methods.
     if cidrs = [] \<and> hdrs = [] \<and> methods = [] then ret None
     else ret (Some \<lparr>appDefaultAction = ''Deny'', appRules =
       [allow_rule\<lparr>arpClientCIDRs := unique_cidrs [] cidrs, arpHeaders := hdrs, arpMethods := methods\<rparr>]\<rparr>))))"

section \<open>Deployment\<close>

definition deny_all :: AuthorizationPolicyConfig where
  "deny_all = \<lparr>appDefaultAction = ''Deny'', appRules = []\<rparr>"

text \<open>The effect of the default traffic policy on what the clients contribute.\<close>

definition default_traffic :: "RouteConfig \<Rightarrow> bool \<Rightarrow> AuthorizationPolicyConfig option \<Rightarrow> AuthorizationPolicyConfig option" where
  "default_traffic config hasPerClientAuth auth =
     (if rcDefaultTrafficPolicy config = ''deny''
      then Some ((case auth of None \<Rightarrow> deny_all | Some a \<Rightarrow> a)\<lparr>appDefaultAction := ''Deny''\<rparr>)
      else if rcDefaultTrafficPolicy config = ''require_ip_allowlist''
      then Some \<lparr>appDefaultAction = ''Deny'', appRules =
        (if rcDefaultAllowedCIDRs config = [] then [] else [allow_rule\<lparr>arpClientCIDRs := map NormalizeCIDR (rcDefaultAllowedCIDRs config)\<rparr>]) @
        (case auth of None \<Rightarrow> [] | Some a \<Rightarrow> appRules a)\<rparr>
      else if rcDefaultTrafficPolicy config = ''allow_all'' \<or> rcDefaultTrafficPolicy config = []
      then (if hasPerClientAuth \<and> auth = None then Some deny_all else auth)
      else auth)"

definition deployGeneralSecurityPolicy :: "Route \<Rightarrow> Domain \<Rightarrow> SecurityPolicyConfig option \<Rightarrow> unit m" where
  "deployGeneralSecurityPolicy route domain policy =
     (let p = domProjectID domain; ns = domNamespace domain;
          drop = bind (attempt (DeleteBackend p ns (GenerateExtAuthBackendName (uuid_string (rtID route)) []))) (\<lambda>_. ret ())
      in case SecurityPolicyConfigFromDB route domain policy of
        None \<Rightarrow> bind drop (\<lambda>_. DeleteSecurityPolicy p ns (SecurityPolicyName (rtK8sRouteName route)))
      | Some config \<Rightarrow> bind (if skExtAuth config \<noteq> None then drop else ret ()) (\<lambda>_. UpdateSecurityPolicy p config))"

definition base_authorization :: "Route \<Rightarrow> AuthorizationPolicyConfig option m" where
  "base_authorization route =
     bind (wrap_error ''build client IP authorization config for route %s: %w'' (buildClientIPAuthorizationConfig (rtID route))) (\<lambda>auth.
     bind (wrap_error ''count client attachments for route %s: %w'' (countClientAttachments (rtID route))) (\<lambda>n.
     if 0 < n then bind (has_per_client_auth (rtID route)) (\<lambda>b. ret (default_traffic (rtConfig route) b auth))
     else ret auth))"

definition deploySecurityPolicy :: "Route \<Rightarrow> Domain \<Rightarrow> unit m" where
  "deploySecurityPolicy route domain =
     bind (attempt (policy_Get security_policies (rtID route))) (\<lambda>r.
     bind (case r of
         Inr p \<Rightarrow> ret (Some (prwConfig p))
       | Inl e \<Rightarrow> if errors_Is e ErrRecordNotFound then ret None else throw (Wrap ''load security policy for route %s: %w'' e)) (\<lambda>policy.
     if rtSecurityMode route = SecurityModeGeneral then deployGeneralSecurityPolicy route domain policy
     else bind (base_authorization route) (\<lambda>auth.
       let config = SecurityPolicyConfigForDeploy route domain policy auth in
       if skCORS config = None \<and> skAuthorization config = None
       then DeleteSecurityPolicy (domProjectID domain) (domNamespace domain) (skName config)
       else UpdateSecurityPolicy (domProjectID domain) config)))"

definition deleteSecurityPolicy :: "Route \<Rightarrow> Domain \<Rightarrow> unit m" where
  "deleteSecurityPolicy route domain =
     bind (attempt (DeleteSecurityPolicy (domProjectID domain) (domNamespace domain) (SecurityPolicyName (rtK8sRouteName route)))) (\<lambda>_.
     bind (attempt (policy_Get security_policies (rtID route))) (\<lambda>r. case r of
       Inl _ \<Rightarrow> ret () | Inr _ \<Rightarrow> policy_DeleteByRouteID security_policies put_sp (rtID route)))"

section \<open>What reaches the cluster\<close>

text \<open>What the attachments of a route contribute, read off the tables.\<close>

definition route_attachments :: "db \<Rightarrow> uuid \<Rightarrow> ClientRouteAttachment list" where
  "route_attachments d r = filter (\<lambda>a. attRouteID a = r \<and> attStatus a = AttachmentStatusActive) (attachments d) @
     filter (\<lambda>a. attRouteID a = r \<and> attStatus a = AttachmentStatusApproved) (attachments d)"

definition base_cidrs :: "db \<Rightarrow> ClientRouteAttachment list \<Rightarrow> string list" where
  "base_cidrs d as = concat (map (\<lambda>a. map cipCIDR (filter (\<lambda>x. cipClientID x = attClientID a) (client_ips d)))
     (filter (\<lambda>a. attEnableIPAllowlist a \<and> \<not> attEnableAPIKey a \<and> \<not> attEnableJWT a) as))"

definition base_headers :: "db \<Rightarrow> ClientRouteAttachment list \<Rightarrow> AuthorizationHeaderMatch list" where
  "base_headers d as = concat (map (\<lambda>a. map (\<lambda>h. \<lparr>ahmName = chdName h, ahmValues = chdValues h\<rparr>)
     (filter (\<lambda>x. chdClientID x = attClientID a) (client_headers d))) (filter (\<lambda>a. attEnableHeaderAuth a \<and> \<not> per_client_route a) as))"

definition base_methods :: "db \<Rightarrow> ClientRouteAttachment list \<Rightarrow> string list" where
  "base_methods d as = concat (map (\<lambda>a. case row_get clID (attClientID a) (clients d) of None \<Rightarrow> [] | Some c \<Rightarrow> clAllowedMethods c)
     (filter (\<lambda>a. \<not> per_client_route a) as))"

definition base_rule :: "db \<Rightarrow> uuid \<Rightarrow> AuthorizationRulePolicyConfig" where
  "base_rule d r = (let as = route_attachments d r in allow_rule\<lparr>arpClientCIDRs := unique_cidrs [] (base_cidrs d as),
     arpHeaders := base_headers d as, arpMethods := unseen [] (base_methods d as)\<rparr>)"

lemma hoare_all_attachments:
  "hoare (\<lambda>d. d = d0) (all_attachments r) (\<lambda>as d. d = d0 \<and> as = route_attachments d0 r) (\<lambda>_ d. d = d0)"
  unfolding all_attachments_def AttachmentRepo_ListActiveByRouteID_def AttachmentRepo_ListApprovedByRouteID_def
  by (rule hoare_pre, (rule wp)+) (auto simp: route_attachments_def)

lemma hoare_headers_of: "hoare (\<lambda>d. d = d0) (headers_of as) (\<lambda>x d. d = d0 \<and> x = base_headers d0 as) (\<lambda>_ d. d = d0)"
proof (induction as arbitrary: d0)
  case (Cons a as)
  show ?case unfolding headers_of.simps ClientHeaderRepo_ListByClientID_def
    by (rule hoare_pre, (rule hoare_readonly [OF Cons.IH] | rule wp)+) (auto simp: base_headers_def)
qed (auto simp: base_headers_def intro: hoare_pre [OF hoare_ret])

lemma hoare_cidrs_of: "hoare (\<lambda>d. d = d0) (cidrs_of as) (\<lambda>x d. d = d0 \<and> x = base_cidrs d0 as) (\<lambda>_ d. d = d0)"
proof (induction as arbitrary: d0)
  case (Cons a as)
  show ?case unfolding cidrs_of.simps ClientIPRepo_ListByClientID_def
    by (rule hoare_pre, (rule hoare_readonly [OF Cons.IH] | rule wp)+) (auto simp: base_cidrs_def)
qed (auto simp: base_cidrs_def intro: hoare_pre [OF hoare_ret])

lemma unseen_cong: "set s = set s' \<Longrightarrow> unseen s xs = unseen s' xs"
proof (induction xs arbitrary: s s')
  case (Cons x xs)
  have "set (x # s) = set (x # s')" using Cons.prems by simp
  from Cons.IH [OF this] Cons.IH [OF Cons.prems] Cons.prems show ?case by simp
qed simp

lemma unseen_append: "unseen s (xs @ ys) = unseen s xs @ unseen (unseen s xs @ s) ys"
proof (induction xs arbitrary: s)
  case (Cons x xs)
  have "unseen (unseen (x # s) xs @ x # s) ys = unseen (x # unseen (x # s) xs @ s) ys" by (rule unseen_cong) auto
  then show ?case using Cons.IH by simp
qed simp

lemma hoare_client_methods:
  "hoare (\<lambda>d. d = d0) (ClientRepo_GetByID i)
     (\<lambda>c d. d = d0 \<and> (\<exists>c0. row_get clID i (clients d0) = Some c0 \<and> clAllowedMethods c = clAllowedMethods c0))
     (\<lambda>e d. d = d0 \<and> (errors_Is e ErrRecordNotFound \<longrightarrow> row_get clID i (clients d0) = None))"
  unfolding ClientRepo_GetByID_def by (rule hoare_pre, (rule wp)+) (cases "row_get clID i (clients d0)"; auto)

lemma hoare_methods_of:
  "hoare (\<lambda>d. d = d0) (methods_of seen as) (\<lambda>x d. d = d0 \<and> x = unseen seen (base_methods d0 as)) (\<lambda>_ d. d = d0)"
proof (induction as arbitrary: seen d0)
  case (Cons a as)
  show ?case unfolding methods_of.simps Let_def
    by (rule hoare_pre, (rule hoare_readonly [OF Cons.IH] hoare_spec [OF hoare_client_methods] | rule wp)+)
      (auto simp: base_methods_def unseen_append)
qed (auto simp: base_methods_def intro: hoare_pre [OF hoare_ret])

lemma unique_cidrs_Nil: "unique_cidrs seen cs = [] \<longleftrightarrow> NormalizeCIDR ` set cs \<subseteq> set seen"
  by (induction cs arbitrary: seen) (auto simp: Let_def)

lemma unseen_Nil: "unseen seen ms = [] \<longleftrightarrow> set ms \<subseteq> set seen"
  by (induction ms arbitrary: seen) auto

lemma hoare_buildClientIPAuthorizationConfig:
  "hoare (\<lambda>d. d = d0) (buildClientIPAuthorizationConfig r)
     (\<lambda>x d. d = d0 \<and> x = (if rule_conditional (base_rule d0 r) then Some \<lparr>appDefaultAction = ''Deny'', appRules = [base_rule d0 r]\<rparr> else None)) (\<lambda>_ d. d = d0)"
  unfolding buildClientIPAuthorizationConfig_def collectClientIPCIDRs_def collectClientHeaders_def collectClientMethods_def
  by (rule hoare_pre, (rule hoare_readonly [OF hoare_all_attachments] hoare_readonly [OF hoare_cidrs_of] hoare_readonly [OF hoare_headers_of]
      hoare_readonly [OF hoare_methods_of] | rule wp)+)
    (auto simp: rule_conditional_def base_rule_def Let_def allow_rule_def rule_jwt_def unique_cidrs_Nil unseen_Nil)

lemma hoare_has_attachment: "hoare (\<lambda>d. d = d0) (has_attachment flag r) (\<lambda>_ d. d = d0) (\<lambda>_ d. d = d0)"
  unfolding has_attachment_def AttachmentRepo_ListActiveByRouteID_def AttachmentRepo_ListApprovedByRouteID_def
  by (rule hoare_pre, (rule wp)+) auto

text \<open>The rules that let traffic through to the base route, beside the default.\<close>

definition base_rules :: "Route \<Rightarrow> db \<Rightarrow> AuthorizationRulePolicyConfig list" where
  "base_rules route d =
     (if rcDefaultTrafficPolicy (rtConfig route) = ''require_ip_allowlist'' \<and> rcDefaultAllowedCIDRs (rtConfig route) \<noteq> []
      then [allow_rule\<lparr>arpClientCIDRs := map NormalizeCIDR (rcDefaultAllowedCIDRs (rtConfig route))\<rparr>] else []) @
     filter rule_conditional [base_rule d (rtID route)]"

lemma hoare_base_authorization:
  assumes "rcDefaultTrafficPolicy (rtConfig route) \<in> {''deny'', ''require_ip_allowlist''}"
  shows "hoare (\<lambda>d. d = d0) (base_authorization route)
    (\<lambda>x d. d = d0 \<and> (route_attachments d0 (rtID route) \<noteq> [] \<longrightarrow> x = Some \<lparr>appDefaultAction = ''Deny'', appRules = base_rules route d0\<rparr>)) (\<lambda>_ d. d = d0)"
  unfolding base_authorization_def countClientAttachments_def has_per_client_auth_def hasAPIKeyClientAttachments_def hasJWTClientAttachments_def
    hasMTLSClientAttachments_def
  by (rule hoare_pre, (rule hoare_readonly [OF hoare_buildClientIPAuthorizationConfig] hoare_readonly [OF hoare_all_attachments]
      hoare_spec [OF hoare_has_attachment] | rule wp)+)
    (use assms in \<open>auto simp: default_traffic_def base_rules_def deny_all_def\<close>)


lemma hoare_DeleteSecurityPolicy:
  "hoare (\<lambda>d. d = d0) (DeleteSecurityPolicy p ns n)
     (\<lambda>_ d. only_key (sp_key p ns n) d0 d \<and> k8s_lookup (sp_key p ns n) d = None) (\<lambda>_ d. only_key (sp_key p ns n) d0 d)"
  unfolding DeleteSecurityPolicy_def k8s_Delete_def by (rule hoare_pre, (rule wp)+) (auto split: option.splits)

lemma hoare_UpdateSecurityPolicy:
  "hoare (\<lambda>d. d = d0) (UpdateSecurityPolicy p c)
     (\<lambda>_ d. only_key (sp_key p (skNamespace c) (skName c)) d0 d \<and>
        k8s_lookup (sp_key p (skNamespace c) (skName c)) d = map_option PolicyObj (BuildSecurityPolicy c))
     (\<lambda>_ d. only_key (sp_key p (skNamespace c) (skName c)) d0 d)"
  unfolding UpdateSecurityPolicy_def Let_def k8s_Get_def k8s_Create_def k8s_Update_def
  by (rule hoare_pre, (rule hoare_spec [OF hoare_DeleteSecurityPolicy] | rule wp)+) (auto split: option.splits)

lemma hoare_DeleteBackend:
  "hoare (\<lambda>d. d = d0) (DeleteBackend p ns n) (\<lambda>_ d. only_key (backend_object_key p ns n) d0 d) (\<lambda>_ d. only_key (backend_object_key p ns n) d0 d)"
  unfolding DeleteBackend_def k8s_Delete_def by (rule hoare_pre, (rule wp)+) (auto split: option.splits)

definition route_sp_key :: "Route \<Rightarrow> Domain \<Rightarrow> k8s_key" where
  "route_sp_key route domain = sp_key (domProjectID domain) (domNamespace domain) (SecurityPolicyName (rtK8sRouteName route))"

lemma sp_key_not_backend [simp]: "route_sp_key r x \<noteq> backend_object_key p ns n"
  by (simp add: route_sp_key_def sp_key_def backend_object_key_def)

definition stored_security :: "db \<Rightarrow> Route \<Rightarrow> SecurityPolicyConfig option" where
  "stored_security d route = map_option prwConfig (row_get prwRouteID (rtID route) (security_policies d))"

lemma assembled_key: "skNamespace (AssembleSecurityPolicyConfig i) = domNamespace (saDomain i)"
  "skName (AssembleSecurityPolicyConfig i) = SecurityPolicyName (if saTargetName i = [] then rtK8sRouteName (saRoute i) else saTargetName i)"
  by (simp_all add: AssembleSecurityPolicyConfig_def applyPersistedSecurityFeatures_def applyInputSecurityFeatures_def applyClientSecurityFeatures_def
      Let_def split: option.splits)

lemma from_db_key: "SecurityPolicyConfigFromDB r x p = Some c \<Longrightarrow> sp_key (domProjectID x) (skNamespace c) (skName c) = route_sp_key r x"
  by (auto simp: SecurityPolicyConfigFromDB_def assembled_key assembly_def route_sp_key_def split: option.splits if_splits)

lemma for_deploy_key: "sp_key (domProjectID x) (domNamespace x) (skName (SecurityPolicyConfigForDeploy r x p a)) = route_sp_key r x"
  "skNamespace (SecurityPolicyConfigForDeploy r x p a) = domNamespace x"
  by (simp_all add: SecurityPolicyConfigForDeploy_def assembled_key assembly_def route_sp_key_def)

lemma hoare_deployGeneralSecurityPolicy:
  "hoare (\<lambda>d. d = d0) (deployGeneralSecurityPolicy r x p)
     (\<lambda>_ d. k8s_lookup (route_sp_key r x) d = map_option PolicyObj (GenerateSecurityPolicyYAMLFromDB r x p)) (\<lambda>_ _. True)"
  unfolding deployGeneralSecurityPolicy_def Let_def
  by (rule hoare_pre, (rule hoare_spec [OF hoare_DeleteSecurityPolicy] hoare_spec [OF hoare_UpdateSecurityPolicy] hoare_spec [OF hoare_DeleteBackend] | rule wp)+)
    (cases "SecurityPolicyConfigFromDB r x p"; auto simp: GenerateSecurityPolicyYAMLFromDB_def route_sp_key_def [symmetric] from_db_key)

lemma hoare_load_policy:
  "hoare (\<lambda>d. d = d0) (policy_Get security_policies (rtID r))
     (\<lambda>p d. d = d0 \<and> stored_security d0 r = Some (prwConfig p)) (\<lambda>e d. d = d0 \<and> (errors_Is e ErrRecordNotFound \<longrightarrow> stored_security d0 r = None))"
  unfolding policy_Get_def stored_security_def by (rule hoare_pre, (rule wp)+) (cases "row_get prwRouteID (rtID r) (security_policies d0)"; auto)


lemma hoare_deploySecurityPolicy_general:
  assumes "rtSecurityMode r = SecurityModeGeneral"
  shows "hoare (\<lambda>d. d = d0) (deploySecurityPolicy r x)
     (\<lambda>_ d. k8s_lookup (route_sp_key r x) d = map_option PolicyObj (GenerateSecurityPolicyYAMLFromDB r x (stored_security d0 r))) (\<lambda>_ _. True)"
  unfolding deploySecurityPolicy_def if_P [OF assms]
  by (rule hoare_pre, (rule hoare_spec [OF hoare_load_policy] hoare_spec [OF hoare_deployGeneralSecurityPolicy] | rule wp)+) auto

lemma hoare_deploySecurityPolicy_client:
  assumes "rtSecurityMode r \<noteq> SecurityModeGeneral" "rcDefaultTrafficPolicy (rtConfig r) \<in> {''deny'', ''require_ip_allowlist''}"
    "route_attachments d0 (rtID r) \<noteq> []"
  shows "hoare (\<lambda>d. d = d0) (deploySecurityPolicy r x)
     (\<lambda>_ d. k8s_lookup (route_sp_key r x) d = map_option PolicyObj (BuildSecurityPolicy (SecurityPolicyConfigForDeploy r x (stored_security d0 r)
        (Some \<lparr>appDefaultAction = ''Deny'', appRules = base_rules r d0\<rparr>)))) (\<lambda>_ _. True)"
proof -
  have auth: "skAuthorization (SecurityPolicyConfigForDeploy r x p (Some a)) = Some a" for p a
    by (simp add: SecurityPolicyConfigForDeploy_def AssembleSecurityPolicyConfig_def Let_def)
  show ?thesis unfolding deploySecurityPolicy_def if_not_P [OF assms(1)] Let_def
    by (rule hoare_pre, (rule hoare_spec [OF hoare_load_policy] hoare_readonly [OF hoare_base_authorization [OF assms(2)]]
        hoare_spec [OF hoare_DeleteSecurityPolicy] hoare_spec [OF hoare_UpdateSecurityPolicy] | rule wp)+)
      (use assms(3) in \<open>auto simp: auth for_deploy_key\<close>)
qed



definition sample_client_route :: "string \<Rightarrow> Route" where
  "sample_client_route traffic = (sample_route RouteStatusPendingDeploy)\<lparr>rtSecurityMode := SecurityModeClient,
     rtConfig := sample_config\<lparr>rcDefaultTrafficPolicy := traffic\<rparr>\<rparr>"

text \<open>One client with an allowed range on the route, with or without a certificate.\<close>

definition sample_ip_client :: "bool \<Rightarrow> db" where
  "sample_ip_client mtls = (sample_attached True)\<lparr>
     attachments := [(sample_attachment AttachmentStatusActive)\<lparr>attEnableAPIKey := False, attEnableIPAllowlist := True, attEnableMTLS := mtls\<rparr>],
     client_ips := [\<lparr>cipID = 30, cipClientID = 10, cipCIDR = ''10.0.0.0/8''\<rparr>]\<rparr>"

definition sample_secured :: "(error + unit) \<times> db \<times> bool list" where
  "sample_secured = deploySecurityPolicy (sample_client_route ''deny'') sample_domain (sample_ip_client False, [])"


text \<open>In general mode a deployment writes what the preview of the stored policy shows, and removes the object when there is nothing to show: after a
  successful call the security policy of the route in the cluster is exactly the previewed manifest.\<close>

theorem general_policy_is_preview:
  assumes "deploySecurityPolicy r x (d, fs) = (Inr (), (d', fs'))" "rtSecurityMode r = SecurityModeGeneral"
  shows "k8s_lookup (route_sp_key r x) d' = map_option PolicyObj (GenerateSecurityPolicyYAMLFromDB r x (stored_security d r))"
  using hoare_Inr [OF hoare_deploySecurityPolicy_general [OF assms(2)] refl assms(1)] .

definition sample_general_route :: Route where
  "sample_general_route = (sample_client_route [])\<lparr>rtSecurityMode := SecurityModeGeneral\<rparr>"

definition sample_general :: "(error + unit) \<times> db \<times> bool list" where
  "sample_general = deploySecurityPolicy sample_general_route sample_domain (reached sample_secured, [])"

theorem general_policy_is_preview_witness:
  "\<exists>d'. sample_general = (Inr (), (d', [])) \<and> k8s_lookup (route_sp_key sample_general_route sample_domain) d' = None"
proof -
  have "fst sample_general = Inr ()" "snd (snd sample_general) = []" by code_simp+
  then obtain d' where run: "sample_general = (Inr (), (d', []))" by (metis prod.collapse)
  have "rtSecurityMode sample_general_route = SecurityModeGeneral"
    "GenerateSecurityPolicyYAMLFromDB sample_general_route sample_domain (stored_security (reached sample_secured) sample_general_route) = None" by code_simp+
  with general_policy_is_preview [OF run [unfolded sample_general_def]] run show ?thesis by auto
qed

section \<open>Gaps\<close>

text \<open>The address of a client that must also show a certificate is on the allow rule of the base route, where no certificate is asked for.\<close>

lemma mtls_client_address_opens_base_route:
  "base_rules (sample_client_route ''deny'') (sample_ip_client True) = [allow_rule\<lparr>arpClientCIDRs := [''10.0.0.0/8'']\<rparr>]"
  by code_simp

text \<open>A failed query of the attachments, in each of the three questions whether a client has a route of its own, leaves the base route of an API key
  client without a policy, and the deployment reports success.\<close>

lemma failed_question_opens_base_route:
  "let r = deploySecurityPolicy (sample_client_route ''allow_all'') sample_domain
     (sample_attached True, replicate 9 False @ [True, True, True]) in
   fst r = Inr () \<and> k8s_lookup (route_sp_key (sample_client_route ''allow_all'') sample_domain) (fst (snd r)) = None"
  by code_simp

lemma answered_question_closes_base_route:
  "k8s_lookup (route_sp_key (sample_client_route ''allow_all'') sample_domain)
     (fst (snd (deploySecurityPolicy (sample_client_route ''allow_all'') sample_domain (sample_attached True, [])))) \<noteq> None"
  by code_simp

end
