(* ===== verification/RoutePlan.thy ===== *)
theory RoutePlan
  imports SecurityPlan
begin

text \<open>
  The routes of domains: the plans of \<open>src/internal/routeplan/httproute.go\<close>, \<open>grpcroute.go\<close> and \<open>backend.go\<close>, the per-client variants of
  \<open>src/internal/services/route_assembler_config.go\<close>, and the manifests of \<open>src/internal/kubernetes/httproute.go\<close>, \<open>grpcroute.go\<close>,
  \<open>httproutefilter.go\<close>, \<open>backend.go\<close> and \<open>naming.go\<close>. Structs that are copied field by field into a struct with the same fields (header matches, header
  modifiers, rewrites, redirects) have one record. A preview is the manifest; its rendering as YAML is left out.
\<close>

section \<open>Names\<close>

definition EnvoyExtensionPolicyName :: "string \<Rightarrow> string" where
  "EnvoyExtensionPolicyName n = n @ ''-eep''"

definition HTTPRouteFilterName :: "string \<Rightarrow> string" where
  "HTTPRouteFilterName n = n @ ''-hrf''"

definition client_route_name :: "Route \<Rightarrow> ClientAuthCategory \<Rightarrow> string" where
  "client_route_name route client = rtK8sRouteName route @ ''-ak-'' @ take 8 (uuid_string (cacClientID client))"

text \<open>\<open>strings.Contains(name, PerClientSuffix)\<close>\<close>

fun IsPerClientResource :: "string \<Rightarrow> bool" where
  "IsPerClientResource [] = False"
| "IsPerClientResource (c # s) = (HasPrefix (c # s) ''-ak-'' \<or> IsPerClientResource s)"

definition ExtractClientPrefix :: "string \<Rightarrow> string \<Rightarrow> string" where
  "ExtractClientPrefix name baseName =
     (if \<not> IsPerClientResource name then []
      else let prefix = baseName @ ''-ak-'' in
        if \<not> HasPrefix name prefix then [] else takeWhile (\<lambda>c. c \<noteq> CHR ''-'') (TrimPrefix name prefix))"

section \<open>Backends\<close>

record BackendRef =
  refName :: string
  refNamespace :: string
  refPort :: int
  refWeight :: int
  refIsExternal :: bool
  refGroup :: string
  refKind :: string

record BackendTLSPolicyConfig =
  btpcInsecureSkipVerify :: bool
  btpcSNI :: string
  btpcClientCertificateRef :: "SecretRef option"
  btpcCACertificateRefs :: "CertificateRef list"

record BackendConfig =
  bcName :: string
  bcNamespace :: string
  bcRouteID :: string
  bcGatewayID :: string
  bcAddressType :: string
  bcAddress :: string
  bcPort :: int
  bcFallback :: bool
  bcTLS :: "BackendTLSPolicyConfig option"

definition backend_name :: "Route \<Rightarrow> nat \<Rightarrow> string" where
  "backend_name route i = rtK8sRouteName route @ ''-backend-'' @ show_nat i"

text \<open>A backend that is addressed through a \<open>Backend\<close> object and not as a Service.\<close>

definition needs_backend :: "Route \<Rightarrow> RouteBackend \<Rightarrow> bool" where
  "needs_backend route b \<longleftrightarrow> beType b = ''external'' \<or> HasFailover (rtConfig route) \<or> beTLS b \<noteq> None"

definition backend_ref :: "Route \<Rightarrow> Domain \<Rightarrow> nat \<Rightarrow> RouteBackend \<Rightarrow> BackendRef" where
  "backend_ref route domain i b =
     (if needs_backend route b
      then \<lparr>refName = backend_name route i, refNamespace = domNamespace domain, refPort = bePort b, refWeight = beWeight b, refIsExternal = True,
        refGroup = ''gateway.envoyproxy.io'', refKind = ''Backend''\<rparr>
      else \<lparr>refName = beService b, refNamespace = beNamespace b, refPort = bePort b, refWeight = beWeight b, refIsExternal = False,
        refGroup = [], refKind = []\<rparr>)"

definition backend_refs :: "Route \<Rightarrow> Domain \<Rightarrow> BackendRef list" where
  "backend_refs route domain = map (\<lambda>(i, b). backend_ref route domain i b) (List.enumerate 0 (rcBackends (rtConfig route)))"

definition backend_tls :: "BackendTLSConfig \<Rightarrow> BackendTLSPolicyConfig" where
  "backend_tls t = \<lparr>btpcInsecureSkipVerify = btlsInsecureSkipVerify t, btpcSNI = btlsSNI t, btpcClientCertificateRef = btlsClientCertificateRef t,
     btpcCACertificateRefs = (if btlsInsecureSkipVerify t then [] else btlsCACertificateRefs t)\<rparr>"

definition backend_config :: "Route \<Rightarrow> Domain \<Rightarrow> nat \<Rightarrow> RouteBackend \<Rightarrow> BackendConfig" where
  "backend_config route domain i b =
     (let external = (beType b = ''external'') in
      \<lparr>bcName = backend_name route i, bcNamespace = domNamespace domain, bcRouteID = uuid_string (rtID route), bcGatewayID = uuid_string (domID domain),
       bcAddressType = (if external then beAddressType b else ''fqdn''),
       bcAddress = (if external then beAddress b
         else beService b @ ''.'' @ (if beNamespace b = [] then ''default'' else beNamespace b) @ ''.svc.cluster.local''),
       bcPort = int32_of (bePort b), bcFallback = beFallback b, bcTLS = map_option backend_tls (beTLS b)\<rparr>)"

definition backend_configs :: "Route \<Rightarrow> Domain \<Rightarrow> BackendConfig list" where
  "backend_configs route domain = map (\<lambda>(i, b). backend_config route domain i b)
     (filter (\<lambda>(i, b). needs_backend route b) (List.enumerate 0 (rcBackends (rtConfig route))))"

definition endpoint_json :: "string \<Rightarrow> string \<Rightarrow> int \<Rightarrow> json" where
  "endpoint_json addressType address port =
     (if addressType = ''fqdn'' then JObj [(''fqdn'', JObj [(''hostname'', JStr address), (''port'', JInt port)])]
      else JObj [(''ip'', JObj [(''address'', JStr address), (''port'', JInt port)])])"

definition or_fastgateway :: "string \<Rightarrow> json" where
  "or_fastgateway ns = JStr (if ns = [] then FastGatewayNamespace else ns)"

definition backend_tls_json :: "BackendConfig \<Rightarrow> BackendTLSPolicyConfig \<Rightarrow> json" where
  "backend_tls_json c t = JObj (
     (if btpcInsecureSkipVerify t then [(''insecureSkipVerify'', JBool True)] else []) @
     (if \<not> btpcInsecureSkipVerify t then list_field ''caCertificateRefs'' (\<lambda>r. JObj [(''group'', JStr []), (''kind'', JStr (crKind r)),
        (''name'', JStr (crName r)), (''namespace'', or_fastgateway (crNamespace r))]) (btpcCACertificateRefs t) else []) @
     opt_field ''clientCertificateRef'' (\<lambda>r. JObj [(''group'', JStr []), (''kind'', JStr ''Secret''), (''name'', JStr (srName r)),
        (''namespace'', or_fastgateway (srNamespace r))]) (btpcClientCertificateRef t) @
     (if btpcSNI t \<noteq> [] then [(''sni'', JStr (btpcSNI t))]
      else if bcAddressType c = ''fqdn'' \<and> bcAddress c \<noteq> [] then [(''sni'', JStr (bcAddress c))] else []))"

definition backend_object :: "string \<Rightarrow> string \<Rightarrow> (string \<times> string) list \<Rightarrow> (string \<times> json) list \<Rightarrow> json" where
  "backend_object name ns labels spec = JObj [(''apiVersion'', JStr ''gateway.envoyproxy.io/v1alpha1''), (''kind'', JStr ''Backend''),
     (''metadata'', JObj [(''name'', JStr name), (''namespace'', JStr ns), (''labels'', labels_json labels)]), (''spec'', JObj spec)]"

definition BuildBackend :: "BackendConfig \<Rightarrow> json" where
  "BuildBackend c = backend_object (bcName c) (bcNamespace c) (ForRoute (bcGatewayID c) (bcRouteID c))
     ([(''endpoints'', JList [endpoint_json (bcAddressType c) (bcAddress c) (bcPort c)])] @
      (if bcFallback c then [(''fallback'', JBool True)] else []) @ opt_field ''tls'' (backend_tls_json c) (bcTLS c))"

definition GenerateBackendYAMLs :: "Route \<Rightarrow> Domain \<Rightarrow> json list" where
  "GenerateBackendYAMLs route domain = map BuildBackend (backend_configs route domain)"

definition BuildExtAuthBackend :: "string \<Rightarrow> Domain \<Rightarrow> Route \<Rightarrow> ClientAuthCategory \<Rightarrow> ExtAuthBackendRef \<Rightarrow> json" where
  "BuildExtAuthBackend name domain route client service =
     (let ns = (if eabNamespace service = [] then domNamespace domain else eabNamespace service) in
      backend_object name (domNamespace domain)
        (ForRoute (uuid_string (domID domain)) (uuid_string (rtID route)) @
         [(''fastgateway.dev/type'', ''ext-auth''), (''fastgateway.dev/client-id'', uuid_string (cacClientID client))])
        [(''endpoints'', JList [endpoint_json ''fqdn'' (eabName service @ ''.'' @ ns @ ''.svc.cluster.local'') (eabPort service)])])"

definition GenerateExtProcBackendName :: "string \<Rightarrow> string" where
  "GenerateExtProcBackendName routeID = ''ext-proc-backend-'' @ routeID"

definition BuildExtProcBackend :: "string \<Rightarrow> Domain \<Rightarrow> Route \<Rightarrow> ExtProcBackendRef \<Rightarrow> json" where
  "BuildExtProcBackend name domain route service =
     backend_object name (domNamespace domain)
       [(''app.kubernetes.io/managed-by'', ''fastgateway''), (''fastgateway.dev/gateway-id'', uuid_string (domID domain)),
        (''fastgateway.dev/type'', ''ext-proc''), (''fastgateway.dev/route-id'', uuid_string (rtID route))]
       [(''endpoints'', JList [endpoint_json ''fqdn'' (epbName service @ ''.'' @ epbNamespace service @ ''.svc.cluster.local'') (epbPort service)])]"

section \<open>HTTP routes\<close>

record HTTPRouteRule =
  hrPathType :: string
  hrPathValue :: string
  hrHeaders :: "HeaderMatch list"
  hrMethod :: string
  hrQueryParams :: "QueryParamMatch list"
  hrBackendRefs :: "BackendRef list"

record MirrorRef =
  mrName :: string
  mrNamespace :: string
  mrPort :: int

record HTTPRouteConfig =
  hcName :: string
  hcNamespace :: string
  hcGatewayName :: string
  hcGatewayID :: string
  hcRouteID :: string
  hcHostname :: string
  hcRules :: "HTTPRouteRule list"
  hcMirrors :: "MirrorRef list"
  hcRequestHeaderModifier :: "HeaderModifier option"
  hcResponseHeaderModifier :: "HeaderModifier option"
  hcURLRewrite :: "URLRewrite option"
  hcRedirect :: "RedirectConfig option"
  hcHTTPRouteFilterName :: string

definition convertPathTypeToGatewayAPI :: "string \<Rightarrow> string" where
  "convertPathTypeToGatewayAPI t = (if t = ''Exact'' then ''Exact'' else if t = ''RegularExpression'' then ''RegularExpression'' else ''PathPrefix'')"

text \<open>A route that answers from a backend, and neither redirects nor responds itself.\<close>

definition to_backend :: "RouteConfig \<Rightarrow> bool" where
  "to_backend c \<longleftrightarrow> rcRedirect c = None \<and> rcDirectResponse c = None"

definition http_rule :: "Route \<Rightarrow> Domain \<Rightarrow> RouteMatch \<Rightarrow> HTTPRouteRule" where
  "http_rule route domain match =
     \<lparr>hrPathType = (case rmPath match of None \<Rightarrow> [] | Some p \<Rightarrow> convertPathTypeToGatewayAPI (pmType p)),
      hrPathValue = (case rmPath match of None \<Rightarrow> [] | Some p \<Rightarrow> pmValue p),
      hrHeaders = rmHeaders match, hrMethod = rmMethod match, hrQueryParams = rmQueryParams match,
      hrBackendRefs = (if to_backend (rtConfig route) then backend_refs route domain else [])\<rparr>"

definition mirror_refs :: "RouteConfig \<Rightarrow> MirrorRef list" where
  "mirror_refs c = map (\<lambda>m. \<lparr>mrName = mbService m, mrNamespace = mbNamespace m, mrPort = mbPort m\<rparr>) (rcMirrors c)"

definition BuildHTTPRouteConfig :: "Route \<Rightarrow> Domain \<Rightarrow> HTTPRouteConfig" where
  "BuildHTTPRouteConfig route domain =
     (let c = rtConfig route in
      \<lparr>hcName = rtK8sRouteName route, hcNamespace = domNamespace domain, hcGatewayName = domK8sGatewayName domain,
       hcGatewayID = uuid_string (domID domain), hcRouteID = uuid_string (rtID route), hcHostname = domHostname domain,
       hcRules = map (http_rule route domain) (rcMatches c),
       hcMirrors = (if to_backend c then mirror_refs c else []),
       hcRequestHeaderModifier = (if rcDirectResponse c = None then rcRequestHeaderModifier c else None),
       hcResponseHeaderModifier = rcResponseHeaderModifier c,
       hcURLRewrite = (if to_backend c then rcURLRewrite c else None),
       hcRedirect = rcRedirect c,
       hcHTTPRouteFilterName = (if rcDirectResponse c \<noteq> None then HTTPRouteFilterName (rtK8sRouteName route) else [])\<rparr>)"

definition nonempty :: "'a list \<Rightarrow> 'a list option" where
  "nonempty xs = (if xs = [] then None else Some xs)"

definition http_match :: "HTTPRouteRule \<Rightarrow> HTTPRouteMatch list" where
  "http_match r =
     (if hrPathValue r = [] \<and> hrMethod r = [] \<and> hrHeaders r = [] \<and> hrQueryParams r = [] then []
      else [\<lparr>omPath = (if hrPathValue r = [] then None else Some (hrPathType r, hrPathValue r)), omMethod = nonempty (hrMethod r),
             omHeaders = hrHeaders r, omQueryParams = hrQueryParams r\<rparr>])"

definition path_modifier :: "PathRewrite \<Rightarrow> PathModifier" where
  "path_modifier p =
     (if prType p = ''ReplacePrefixMatch''
      then \<lparr>pathType = ''ReplacePrefixMatch'', pathReplacePrefixMatch = Some (prReplacePrefixMatch p), pathReplaceFullPath = None\<rparr>
      else if prType p = ''ReplaceFullPath''
      then \<lparr>pathType = ''ReplaceFullPath'', pathReplacePrefixMatch = None, pathReplaceFullPath = Some (prReplaceFullPath p)\<rparr>
      else \<lparr>pathType = [], pathReplacePrefixMatch = None, pathReplaceFullPath = None\<rparr>)"

definition modifies :: "HeaderModifier \<Rightarrow> bool" where
  "modifies m \<longleftrightarrow> hdSet m \<noteq> [] \<or> hdAdd m \<noteq> [] \<or> hdRemove m \<noteq> []"

definition buildURLRewriteFilter :: "URLRewrite \<Rightarrow> RouteFilter" where
  "buildURLRewriteFilter u = URLRewriteFilter (Option.bind (urHostname u) nonempty) (map_option path_modifier (urPath u))"

definition buildHTTPRouteFilters :: "HeaderModifier option \<Rightarrow> HeaderModifier option \<Rightarrow> URLRewrite option \<Rightarrow> RouteFilter list" where
  "buildHTTPRouteFilters reqMod resMod urlRewrite =
     (case reqMod of Some m \<Rightarrow> if modifies m then [RequestHeaderModifier m] else [] | None \<Rightarrow> []) @
     (case resMod of Some m \<Rightarrow> if modifies m then [ResponseHeaderModifier m] else [] | None \<Rightarrow> []) @
     (case urlRewrite of Some u \<Rightarrow> if urHostname u \<noteq> None \<or> urPath u \<noteq> None then [buildURLRewriteFilter u] else [] | None \<Rightarrow> [])"

definition buildRedirectFilter :: "RedirectConfig \<Rightarrow> RouteFilter" where
  "buildRedirectFilter r = RequestRedirect (nonempty (rdScheme r)) (nonempty (rdHostname r)) (map_option int32_of (rdPort r))
     (if rdStatusCode r > 0 then Some (rdStatusCode r) else None) (map_option path_modifier (rdPath r))"

definition buildMirrorFilters :: "MirrorRef list \<Rightarrow> RouteFilter list" where
  "buildMirrorFilters ms = map (\<lambda>m. RequestMirror \<lparr>borName = mrName m, borPort = int32_of (mrPort m), borNamespace = nonempty (mrNamespace m),
     borGroup = None, borKind = None, borWeight = None\<rparr>) ms"

definition http_backend_ref :: "BackendRef \<Rightarrow> BackendObjectReference" where
  "http_backend_ref b = \<lparr>borName = refName b, borPort = int32_of (refPort b), borNamespace = nonempty (refNamespace b),
     borGroup = (if refIsExternal b then Some (refGroup b) else None), borKind = (if refIsExternal b then Some (refKind b) else None),
     borWeight = (if refWeight b > 0 then Some (int32_of (refWeight b)) else None)\<rparr>"

definition http_rule_object :: "HTTPRouteConfig \<Rightarrow> HTTPRouteRule \<Rightarrow> HTTPRouteRuleObject" where
  "http_rule_object c r =
     (let direct = (hcHTTPRouteFilterName c \<noteq> []);
          filters = (if direct then buildHTTPRouteFilters None (hcResponseHeaderModifier c) None
            else buildHTTPRouteFilters (hcRequestHeaderModifier c) (hcResponseHeaderModifier c) (hcURLRewrite c))
      in case hcRedirect c of
        Some redirect \<Rightarrow> \<lparr>oruMatches = http_match r, oruFilters = filters @ [buildRedirectFilter redirect], oruBackendRefs = []\<rparr>
      | None \<Rightarrow>
          if direct
          then \<lparr>oruMatches = http_match r, oruFilters = filters @ [ExtensionRef ''gateway.envoyproxy.io'' ''HTTPRouteFilter'' (hcHTTPRouteFilterName c)],
            oruBackendRefs = []\<rparr>
          else \<lparr>oruMatches = http_match r, oruFilters = filters @ buildMirrorFilters (hcMirrors c),
            oruBackendRefs = map http_backend_ref (hrBackendRefs r)\<rparr>)"

definition BuildHTTPRouteObject :: "HTTPRouteConfig \<Rightarrow> HTTPRouteObject" where
  "BuildHTTPRouteObject c = \<lparr>ohrLabels = ForRoute (hcGatewayID c) (hcRouteID c), ohrParentName = hcGatewayName c, ohrParentNamespace = hcNamespace c,
     ohrHostnames = [hcHostname c], ohrRules = map (http_rule_object c) (hcRules c)\<rparr>"

section \<open>gRPC routes\<close>

record GRPCRouteRule =
  grGRPCService :: "GRPCMethodMatch option"
  grGRPCMethod :: "GRPCMethodMatch option"
  grHeaders :: "HeaderMatch list"
  grBackendRefs :: "BackendRef list"

record GRPCRouteConfig =
  gcoName :: string
  gcoNamespace :: string
  gcoGatewayName :: string
  gcoGatewayID :: string
  gcoRouteID :: string
  gcoHostname :: string
  gcoRules :: "GRPCRouteRule list"
  gcoMirrors :: "MirrorRef list"
  gcoRequestHeaderModifier :: "HeaderModifier option"
  gcoResponseHeaderModifier :: "HeaderModifier option"

definition grpc_rule :: "Route \<Rightarrow> Domain \<Rightarrow> RouteMatch \<Rightarrow> GRPCRouteRule" where
  "grpc_rule route domain match = \<lparr>grGRPCService = rmGRPCService match, grGRPCMethod = rmGRPCMethod match, grHeaders = rmHeaders match,
     grBackendRefs = backend_refs route domain\<rparr>"

definition BuildGRPCRouteConfig :: "Route \<Rightarrow> Domain \<Rightarrow> GRPCRouteConfig" where
  "BuildGRPCRouteConfig route domain =
     (let c = rtConfig route in
      \<lparr>gcoName = rtK8sRouteName route, gcoNamespace = domNamespace domain, gcoGatewayName = domK8sGatewayName domain,
       gcoGatewayID = uuid_string (domID domain), gcoRouteID = uuid_string (rtID route), gcoHostname = domHostname domain,
       gcoRules = (if rcMatches c = [] \<and> rcBackends c \<noteq> []
         then [\<lparr>grGRPCService = None, grGRPCMethod = None, grHeaders = [], grBackendRefs = backend_refs route domain\<rparr>]
         else map (grpc_rule route domain) (rcMatches c)),
       gcoMirrors = mirror_refs c, gcoRequestHeaderModifier = rcRequestHeaderModifier c, gcoResponseHeaderModifier = rcResponseHeaderModifier c\<rparr>)"

definition grpc_match_type :: "GRPCMethodMatch \<Rightarrow> string" where
  "grpc_match_type m = (if gmType m = [] then ''Exact'' else gmType m)"

definition grpc_method :: "GRPCRouteRule \<Rightarrow> GRPCMethodMatchObject option" where
  "grpc_method r =
     (let service = (case grGRPCService r of Some s \<Rightarrow> if gmValue s = [] then None else Some s | None \<Rightarrow> None);
          method = (case grGRPCMethod r of Some m \<Rightarrow> if gmValue m = [] then None else Some m | None \<Rightarrow> None)
      in if grGRPCService r = None \<and> grGRPCMethod r = None then None
         else Some \<lparr>ogmType = (case service of Some s \<Rightarrow> Some (grpc_match_type s) | None \<Rightarrow> map_option grpc_match_type method),
           ogmService = map_option gmValue service, ogmMethod = map_option gmValue method\<rparr>)"

definition grpc_match :: "GRPCRouteRule \<Rightarrow> GRPCRouteMatch list" where
  "grpc_match r = (if grpc_method r = None \<and> grHeaders r = [] then [] else [\<lparr>ogMethod = grpc_method r, ogHeaders = grHeaders r\<rparr>])"

definition buildGRPCRouteFilters :: "HeaderModifier option \<Rightarrow> HeaderModifier option \<Rightarrow> RouteFilter list" where
  "buildGRPCRouteFilters reqMod resMod = (case reqMod of Some m \<Rightarrow> [RequestHeaderModifier m] | None \<Rightarrow> []) @
     (case resMod of Some m \<Rightarrow> [ResponseHeaderModifier m] | None \<Rightarrow> [])"

definition grpc_backend_ref :: "BackendRef \<Rightarrow> BackendObjectReference" where
  "grpc_backend_ref b = \<lparr>borName = refName b, borPort = int32_of (refPort b),
     borNamespace = (if refIsExternal b then None else nonempty (refNamespace b)),
     borGroup = (if refIsExternal b then Some (refGroup b) else None), borKind = (if refIsExternal b then Some (refKind b) else None),
     borWeight = (if refWeight b > 0 then Some (int32_of (refWeight b)) else None)\<rparr>"

definition BuildGRPCRouteObject :: "GRPCRouteConfig \<Rightarrow> GRPCRouteObject" where
  "BuildGRPCRouteObject c = \<lparr>ogoLabels = ForRoute (gcoGatewayID c) (gcoRouteID c), ogoParentName = gcoGatewayName c, ogoParentNamespace = gcoNamespace c,
     ogoHostnames = [gcoHostname c],
     ogoRules = map (\<lambda>r. \<lparr>ogrMatches = grpc_match r,
       ogrFilters = buildGRPCRouteFilters (gcoRequestHeaderModifier c) (gcoResponseHeaderModifier c) @
         map (\<lambda>m. RequestMirror \<lparr>borName = mrName m, borPort = int32_of (mrPort m), borNamespace = Some (mrNamespace m), borGroup = None,
           borKind = None, borWeight = None\<rparr>) (gcoMirrors c),
       ogrBackendRefs = map grpc_backend_ref (grBackendRefs r)\<rparr>) (gcoRules c)\<rparr>"

section \<open>Routes of clients\<close>

text \<open>\<open>regexp.QuoteMeta\<close>\<close>

definition QuoteMeta :: "string \<Rightarrow> string" where
  "QuoteMeta s = concat (map (\<lambda>c. if c = CHR 0x5C \<or> c \<in> set ''.+*?()|[]{}^$'' then [CHR 0x5C, c] else [c]) s)"

fun join_with :: "string \<Rightarrow> string list \<Rightarrow> string" where
  "join_with sep [] = []"
| "join_with sep [x] = x"
| "join_with sep (x # xs) = x @ sep @ join_with sep xs"

definition xfcc_patterns :: "ClientAuthCategory \<Rightarrow> string list" where
  "xfcc_patterns client = map (\<lambda>h. ''Hash='' @ QuoteMeta h) (cacMTLSHashes client) @
     map (\<lambda>(t, v). t @ ''='' @ QuoteMeta v) (cacMTLSSANs client)"

definition BuildMTLSXFCCHeaderMatches :: "ClientAuthCategory \<Rightarrow> HeaderMatch list" where
  "BuildMTLSXFCCHeaderMatches client =
     (if \<not> cacEnableMTLS client \<or> xfcc_patterns client = [] then []
      else [\<lparr>hmName = ''x-forwarded-client-cert'', hmType = ''RegularExpression'',
             hmValue = ''.*('' @ join_with ''|'' (xfcc_patterns client) @ '').*''\<rparr>])"

definition client_header_match :: "ClientAuthCategory \<Rightarrow> HeaderMatch" where
  "client_header_match client = \<lparr>hmName = cacClientIDHeaderName client, hmType = ''Exact'', hmValue = uuid_string (cacClientID client)\<rparr>"

definition with_identity :: "ClientAuthCategory \<Rightarrow> HeaderModifier option \<Rightarrow> HeaderModifier option" where
  "with_identity client m =
     (let base = (case m of None \<Rightarrow> \<lparr>hdSet = [], hdAdd = [], hdRemove = []\<rparr> | Some x \<Rightarrow> x) in
      Some (base\<lparr>hdAdd := hdAdd base @ [(''X-Client-ID'', uuid_string (cacClientID client)), (''X-Client-Name'', cacClientName client)]\<rparr>))"

definition buildAPIKeyHTTPRouteConfig :: "Route \<Rightarrow> Domain \<Rightarrow> ClientAuthCategory \<Rightarrow> HTTPRouteConfig" where
  "buildAPIKeyHTTPRouteConfig route domain client =
     (let base = BuildHTTPRouteConfig route domain;
          extra = (if cacEnableAPIKey client \<or> cacEnableJWT client \<or> cacEnableMTLS client then [client_header_match client] else []) @
            BuildMTLSXFCCHeaderMatches client
      in base\<lparr>hcName := client_route_name route client, hcRouteID := uuid_string (rtID route),
        hcRules := map (\<lambda>r. r\<lparr>hrHeaders := hrHeaders r @ extra\<rparr>) (hcRules base),
        hcRequestHeaderModifier := with_identity client (hcRequestHeaderModifier base)\<rparr>)"

definition buildAPIKeyGRPCRouteConfig :: "Route \<Rightarrow> Domain \<Rightarrow> ClientAuthCategory \<Rightarrow> GRPCRouteConfig" where
  "buildAPIKeyGRPCRouteConfig route domain client =
     (let base = BuildGRPCRouteConfig route domain;
          extra = (if cacEnableAPIKey client \<or> cacEnableJWT client then [client_header_match client] else []) @ BuildMTLSXFCCHeaderMatches client
      in base\<lparr>gcoName := client_route_name route client, gcoRouteID := uuid_string (rtID route),
        gcoRules := map (\<lambda>r. r\<lparr>grHeaders := grHeaders r @ extra\<rparr>) (gcoRules base),
        gcoRequestHeaderModifier := with_identity client (gcoRequestHeaderModifier base)\<rparr>)"

section \<open>Direct responses\<close>

definition direct_body :: "DirectResponseConfig \<Rightarrow> string" where
  "direct_body dr = (case drBody dr of None \<Rightarrow> [] | Some b \<Rightarrow> drbInline b)"

definition config_map_name :: "Route \<Rightarrow> string" where
  "config_map_name route = rtK8sRouteName route @ ''-dr-cm''"

definition route_metadata :: "string \<Rightarrow> Route \<Rightarrow> Domain \<Rightarrow> json" where
  "route_metadata name route domain = JObj [(''name'', JStr name), (''namespace'', JStr (domNamespace domain)),
     (''labels'', labels_json (ForRoute (uuid_string (domID domain)) (uuid_string (rtID route))))]"

definition BuildHTTPRouteFilter :: "Route \<Rightarrow> Domain \<Rightarrow> DirectResponseConfig \<Rightarrow> json" where
  "BuildHTTPRouteFilter route domain dr = JObj [(''apiVersion'', JStr ''gateway.envoyproxy.io/v1alpha1''), (''kind'', JStr ''HTTPRouteFilter''),
     (''metadata'', route_metadata (HTTPRouteFilterName (rtK8sRouteName route)) route domain),
     (''spec'', JObj [(''directResponse'', JObj ([(''statusCode'', JInt (drStatusCode dr))] @ str_field ''contentType'' (drContentType dr) @
        (if direct_body dr = [] then [] else [(''body'', JObj [(''type'', JStr ''ValueRef''),
          (''valueRef'', JObj [(''group'', JStr []), (''kind'', JStr ''ConfigMap''), (''name'', JStr (config_map_name route))])])])))])]"

definition BuildDirectResponseConfigMap :: "Route \<Rightarrow> Domain \<Rightarrow> string \<Rightarrow> json" where
  "BuildDirectResponseConfigMap route domain body = JObj [(''apiVersion'', JStr ''v1''), (''kind'', JStr ''ConfigMap''),
     (''metadata'', route_metadata (config_map_name route) route domain), (''data'', JObj [(''response.body'', JStr body)])]"

definition GenerateDirectResponseYAMLs :: "Route \<Rightarrow> Domain \<Rightarrow> json option \<times> json option" where
  "GenerateDirectResponseYAMLs route domain = (case rcDirectResponse (rtConfig route) of
     None \<Rightarrow> (None, None)
   | Some dr \<Rightarrow> (Some (BuildHTTPRouteFilter route domain dr),
       if direct_body dr = [] then None else Some (BuildDirectResponseConfigMap route domain (direct_body dr))))"

section \<open>Properties\<close>

text \<open>The \<open>Backend\<close> objects that a manifest refers to are those that are planned, in the namespace of the route.\<close>

lemma backend_refs_planned:
  assumes "b \<in> set (backend_refs r x)" "refIsExternal b"
  shows "\<exists>c \<in> set (backend_configs r x). bcName c = refName b \<and> bcNamespace c = refNamespace b"
  using assms by (fastforce simp: backend_refs_def backend_configs_def backend_ref_def backend_config_def Let_def split: if_splits)

lemma backend_configs_namespace: "c \<in> set (backend_configs r x) \<Longrightarrow> bcNamespace c = domNamespace x"
  by (auto simp: backend_configs_def backend_config_def Let_def)

lemma backend_config_names: "c \<in> set (backend_configs r x) \<Longrightarrow> \<exists>i < length (rcBackends (rtConfig r)). bcName c = backend_name r i"
  by (auto simp: backend_configs_def backend_config_def in_set_enumerate_eq Let_def)

lemma distinct_backend_names: "distinct (map bcName (backend_configs r x))"
proof -
  have "map bcName (backend_configs r x) = map (backend_name r) (map fst (filter (\<lambda>(i, b). needs_backend r b) (List.enumerate 0 (rcBackends (rtConfig r)))))"
    by (auto simp: backend_configs_def backend_config_def Let_def)
  moreover have "distinct (map fst (filter (\<lambda>(i, b). needs_backend r b) (List.enumerate 0 (rcBackends (rtConfig r)))))"
    by (rule distinct_map_filter) simp
  moreover have "inj (backend_name r)" by (auto simp: inj_def backend_name_def dest: show_nat_inj)
  ultimately show ?thesis by (metis distinct_map inj_on_subset top_greatest)
qed

definition refers_to_backend :: "BackendObjectReference \<Rightarrow> bool" where
  "refers_to_backend b \<longleftrightarrow> borGroup b = Some ''gateway.envoyproxy.io'' \<and> borKind b = Some ''Backend''"

lemma http_backend_refs:
  assumes "o1 \<in> set (ohrRules (BuildHTTPRouteObject (BuildHTTPRouteConfig r x)))" "b \<in> set (oruBackendRefs o1)" "refers_to_backend b"
  shows "\<exists>c \<in> set (backend_configs r x). bcName c = borName b"
proof -
  obtain k where "k \<in> set (backend_refs r x)" "b = http_backend_ref k"
    using assms(1,2) by (auto simp: BuildHTTPRouteObject_def BuildHTTPRouteConfig_def http_rule_object_def http_rule_def Let_def split: option.splits if_splits)
  moreover from this assms(3) have "refIsExternal k" by (auto simp: refers_to_backend_def http_backend_ref_def split: if_splits)
  ultimately show ?thesis using backend_refs_planned by (fastforce simp: http_backend_ref_def)
qed

lemma grpc_backend_refs:
  assumes "o1 \<in> set (ogoRules (BuildGRPCRouteObject (BuildGRPCRouteConfig r x)))" "b \<in> set (ogrBackendRefs o1)" "refers_to_backend b"
  shows "\<exists>c \<in> set (backend_configs r x). bcName c = borName b"
proof -
  obtain k where "k \<in> set (backend_refs r x)" "b = grpc_backend_ref k"
    using assms(1,2) by (auto simp: BuildGRPCRouteObject_def BuildGRPCRouteConfig_def grpc_rule_def Let_def split: if_splits)
  moreover from this assms(3) have "refIsExternal k" by (auto simp: refers_to_backend_def grpc_backend_ref_def split: if_splits)
  ultimately show ?thesis using backend_refs_planned by (fastforce simp: grpc_backend_ref_def)
qed

lemma direct_response_filter:
  assumes "o1 \<in> set (ohrRules (BuildHTTPRouteObject (BuildHTTPRouteConfig r x)))" "ExtensionRef g k n \<in> set (oruFilters o1)"
  shows "rcDirectResponse (rtConfig r) \<noteq> None \<and> n = HTTPRouteFilterName (rtK8sRouteName r)"
  using assms by (auto simp: BuildHTTPRouteObject_def BuildHTTPRouteConfig_def http_rule_object_def buildHTTPRouteFilters_def buildRedirectFilter_def
      buildMirrorFilters_def buildURLRewriteFilter_def HTTPRouteFilterName_def Let_def split: option.splits if_splits)

text \<open>One match of a client's route against the matches of the base route.\<close>

definition narrows :: "HeaderMatch list \<Rightarrow> HTTPRouteRuleObject \<Rightarrow> HTTPRouteRuleObject \<Rightarrow> bool" where
  "narrows extra o1 base \<longleftrightarrow> oruBackendRefs o1 = oruBackendRefs base \<and>
     (\<exists>m. oruMatches o1 = [m] \<and> set extra \<subseteq> set (omHeaders m) \<and>
       (\<forall>m' \<in> set (oruMatches base). omPath m = omPath m' \<and> omMethod m = omMethod m' \<and> omQueryParams m = omQueryParams m' \<and>
          set (omHeaders m') \<subseteq> set (omHeaders m)))"


definition sample_http_route :: Route where
  "sample_http_route = (sample_route RouteStatusPendingDeploy)\<lparr>rtConfig := sample_config\<lparr>rcBackends :=
     [\<lparr>beType = ''external'', beService = [], beNamespace = [], bePort = 443, beWeight = 1, beFallback = False, beAddressType = ''fqdn'',
       beAddress = ''api.example'', beTLS = None\<rparr>]\<rparr>\<rparr>"


text \<open>The gRPC route of a client that has only a certificate asks for nothing when no hash or name of the certificate is registered: it matches what the
  base route matches.\<close>

lemma grpc_certificate_client_unnarrowed:
  assumes "\<not> cacEnableAPIKey c" "\<not> cacEnableJWT c" "cacMTLSHashes c = []" "cacMTLSSANs c = []"
  shows "map ogrMatches (ogoRules (BuildGRPCRouteObject (buildAPIKeyGRPCRouteConfig r x c))) =
    map ogrMatches (ogoRules (BuildGRPCRouteObject (BuildGRPCRouteConfig r x)))"
  using assms by (simp add: BuildGRPCRouteObject_def buildAPIKeyGRPCRouteConfig_def BuildMTLSXFCCHeaderMatches_def xfcc_patterns_def Let_def comp_def)

text \<open>The prefix of a client is read back from the names of the objects of its route.\<close>

lemma IsPerClientResource_append: "IsPerClientResource (n @ ''-ak-'' @ s)"
  by (induction n) (auto simp: HasPrefix_def)

lemma uuid_string_dash: "CHR ''-'' \<notin> set (uuid_string i)"
  using show_nat_digits [of i] by (auto simp: uuid_string_def list_all_iff dest: is_digit_not_sign)

lemma extracted_prefix:
  assumes "suffix = [] \<or> hd suffix = CHR ''-''"
  shows "ExtractClientPrefix (client_route_name r c @ suffix) (rtK8sRouteName r) = take 8 (uuid_string (cacClientID c))"
proof -
  let ?p = "take 8 (uuid_string (cacClientID c))"
  have "CHR ''-'' \<notin> set ?p" using uuid_string_dash [of "cacClientID c"] by (meson in_set_takeD)
  then have p: "\<forall>c \<in> set ?p. c \<noteq> CHR ''-''" by metis
  have "takeWhile (\<lambda>c. c \<noteq> CHR ''-'') (?p @ suffix) = ?p"
    using assms p by (cases suffix) (auto simp: takeWhile_append2)
  moreover have "client_route_name r c @ suffix = rtK8sRouteName r @ ''-ak-'' @ ?p @ suffix" by (simp add: client_route_name_def)
  ultimately show ?thesis using IsPerClientResource_append [of "rtK8sRouteName r" "?p @ suffix"]
    by (simp add: ExtractClientPrefix_def HasPrefix_def TrimPrefix_def Let_def)
qed

end
