(* ===== verification/ExtensionPlan.thy ===== *)
theory ExtensionPlan
  imports RoutePlan
begin

text \<open>
  The \<open>EnvoyExtensionPolicy\<close> of a route: Lua, Wasm, external processing and the WAF. The assembly of
  \<open>src/internal/routeplan/envoyextensionpolicy_config.go\<close>, the directives of \<open>waf_directives.go\<close>, the previews of \<open>envoyextensionpolicy.go\<close> and the
  manifest of \<open>src/internal/kubernetes/envoyextensionpolicy.go\<close>. The configuration of a Wasm module is kept as the JSON value that its text holds, so
  writing the directives as JSON and reading them back, for the manifest, is the identity.
\<close>

section \<open>The WAF\<close>

record WAFConfig =
  wcImage :: string
  wcTag :: string

definition ImageURL :: "WAFConfig \<Rightarrow> string" where
  "ImageURL c = (if wcImage c = [] then ''ghcr.io/corazawaf/coraza-proxy-wasm'' else wcImage c) @ '':'' @ (if wcTag c = [] then ''0.6.0'' else wcTag c)"

definition WafPolicyConfig_IsEmpty :: "WafPolicyConfig \<Rightarrow> bool" where
  "WafPolicyConfig_IsEmpty c \<longleftrightarrow> wafMode c = []"

definition sec_action :: "string \<Rightarrow> string \<Rightarrow> int \<Rightarrow> string" where
  "sec_action i var n = ''SecAction '' @ [CHR 0x22] @ ''id:'' @ i @ '',phase:1,pass,t:none,nolog,setvar:tx.'' @ var @ ''='' @ show_int n @ [CHR 0x22]"

definition coraza_directives :: "WafPolicyConfig \<Rightarrow> string list" where
  "coraza_directives c =
     [if wafMode c = ''block'' then ''SecRuleEngine On'' else ''SecRuleEngine DetectionOnly'',
      sec_action ''900000'' ''blocking_paranoia_level'' (case wafParanoiaLevel c of None \<Rightarrow> 1 | Some n \<Rightarrow> n),
      sec_action ''900110'' ''inbound_anomaly_score_threshold'' (case wafAnomalyThreshold c of None \<Rightarrow> 5 | Some n \<Rightarrow> n)] @
     (if ''owasp-crs'' \<in> set (wafRulesets c) then [''Include @crs-setup-conf'', ''Include @owasp_crs/*.conf''] else []) @
     map (\<lambda>n. ''SecRuleRemoveById '' @ show_int n) (wafDisabledRuleIDs c) @
     filter (\<lambda>s. s \<noteq> []) (map TrimSpace (wafCustomDirectives c))"

definition BuildCorazaDirectives :: "WafPolicyConfig \<Rightarrow> json" where
  "BuildCorazaDirectives c = JObj [(''directives_map'', JObj [(''default'', strings_json (coraza_directives c))]), (''default_directives'', JStr ''default'')]"

section \<open>Assembly\<close>

record EnvoyExtensionPolicyK8s =
  ekName :: string
  ekNamespace :: string
  ekGatewayID :: string
  ekRouteID :: string
  ekDomainID :: string
  ekTargetRef :: BackendTrafficPolicyTargetRef
  ekLua :: "LuaExtensionConfig list"
  ekWasm :: "WasmExtensionConfig list"
  ekExtProc :: "ExtProcExtensionConfig list"

definition EEP_IsEmpty :: "EnvoyExtensionPolicyConfig \<Rightarrow> bool" where
  "EEP_IsEmpty c \<longleftrightarrow> eepLua c = None \<and> eepWasm c = None \<and> eepExtProc c = None"

definition has_extensions :: "EnvoyExtensionPolicyConfig option \<Rightarrow> bool" where
  "has_extensions policy \<longleftrightarrow> (case policy of None \<Rightarrow> False | Some c \<Rightarrow> \<not> EEP_IsEmpty c)"

definition has_waf :: "WafPolicyConfig option \<Rightarrow> bool" where
  "has_waf waf \<longleftrightarrow> (case waf of None \<Rightarrow> False | Some c \<Rightarrow> \<not> WafPolicyConfig_IsEmpty c)"

definition coraza_wasm :: "WAFConfig \<Rightarrow> WafPolicyConfig \<Rightarrow> WasmExtensionConfig" where
  "coraza_wasm img c = \<lparr>wasmName = ''coraza-waf'', wasmRootID = [],
     wasmCode = \<lparr>wcsType = ''Image'', wcsHTTP = None, wcsImage = Some \<lparr>wisURL = ImageURL img, wisSHA256 = [], wisPullSecret = None\<rparr>\<rparr>,
     wasmConfig = Some (Doc (BuildCorazaDirectives c))\<rparr>"

definition list_of :: "'a option \<Rightarrow> 'a list" where
  "list_of x = (case x of None \<Rightarrow> [] | Some y \<Rightarrow> [y])"

definition BuildEnvoyExtensionPolicyK8sConfig ::
  "Route \<Rightarrow> Domain \<Rightarrow> string \<Rightarrow> EnvoyExtensionPolicyConfig option \<Rightarrow> WafPolicyConfig option \<Rightarrow> WAFConfig \<Rightarrow> EnvoyExtensionPolicyK8s" where
  "BuildEnvoyExtensionPolicyK8sConfig route domain targetRouteName policy wafPolicy waf =
     \<lparr>ekName = EnvoyExtensionPolicyName targetRouteName, ekNamespace = domNamespace domain, ekGatewayID = uuid_string (domID domain),
      ekRouteID = uuid_string (rtID route), ekDomainID = [],
      ekTargetRef = \<lparr>trGroup = ''gateway.networking.k8s.io'', trKind = GetRouteKind (rtProtocol route), trName = targetRouteName\<rparr>,
      ekLua = list_of (Option.bind policy eepLua),
      ekWasm = list_of (Option.bind policy eepWasm) @ (if has_waf wafPolicy then list_of (map_option (coraza_wasm waf) wafPolicy) else []),
      ekExtProc = list_of (Option.bind policy eepExtProc)\<rparr>"

definition buildEnvoyExtensionPolicyConfig ::
  "WAFConfig \<Rightarrow> Route \<Rightarrow> Domain \<Rightarrow> EnvoyExtensionPolicyConfig option \<Rightarrow> WafPolicyConfig option \<Rightarrow> EnvoyExtensionPolicyK8s option" where
  "buildEnvoyExtensionPolicyConfig waf route domain policy wafPolicy =
     (if \<not> has_extensions policy \<and> \<not> has_waf wafPolicy then None
      else Some (BuildEnvoyExtensionPolicyK8sConfig route domain (rtK8sRouteName route) policy wafPolicy waf))"

section \<open>The manifest\<close>

definition extension_ref_json :: "ValueRef \<Rightarrow> json" where
  "extension_ref_json v = JObj ([(''kind'', JStr (vrKind v)), (''name'', JStr (vrName v))] @ str_field ''group'' (vrGroup v) @
     str_field ''namespace'' (vrNamespace v))"

definition lua_json :: "LuaExtensionConfig \<Rightarrow> json" where
  "lua_json l = JObj ([(''type'', JStr (luaType l))] @ (if luaType l = ''Inline'' then str_field ''inline'' (luaInline l) else []) @
     (if luaType l = ''ValueRef'' then opt_field ''valueRef'' extension_ref_json (luaValueRef l) else []))"

definition wasm_code_json :: "WasmCodeSource \<Rightarrow> json" where
  "wasm_code_json c = JObj ([(''type'', JStr (wcsType c))] @
     (if wcsType c = ''HTTP'' then opt_field ''http'' (\<lambda>(url, sha). JObj [(''url'', JStr url), (''sha256'', JStr sha)]) (wcsHTTP c) else []) @
     (if wcsType c = ''Image'' then opt_field ''image'' (\<lambda>i. JObj ([(''url'', JStr (wisURL i))] @ str_field ''sha256'' (wisSHA256 i) @
        opt_field ''pullSecretRef'' extension_ref_json (wisPullSecret i))) (wcsImage c) else []))"

definition wasm_json :: "WasmExtensionConfig \<Rightarrow> json" where
  "wasm_json w = JObj ([(''name'', JStr (wasmName w))] @ str_field ''rootID'' (wasmRootID w) @
     (case wasmConfig w of Some (Doc j) \<Rightarrow> [(''config'', j)] | _ \<Rightarrow> []) @ [(''code'', wasm_code_json (wasmCode w))])"

definition body_mode :: "string \<Rightarrow> string option \<Rightarrow> (string \<times> json) list" where
  "body_mode k body = (case body of None \<Rightarrow> []
     | Some b \<Rightarrow> if b = [] \<or> b = ''None'' then [] else [(k, JObj [(''body'', JStr b)])])"

definition GenerateExtProcBackendNameForDomain :: "string \<Rightarrow> string" where
  "GenerateExtProcBackendNameForDomain gatewayName = gatewayName @ ''-eep-extproc''"

definition ext_proc_json :: "EnvoyExtensionPolicyK8s \<Rightarrow> ExtProcExtensionConfig \<Rightarrow> json" where
  "ext_proc_json c e =
     (let name = (if ekRouteID c \<noteq> [] then GenerateExtProcBackendName (ekRouteID c)
            else if ekDomainID c \<noteq> [] then GenerateExtProcBackendNameForDomain (trName (ekTargetRef c)) else []);
          modes = (case epxProcessingMode e of None \<Rightarrow> [] | Some m \<Rightarrow> body_mode ''request'' (epmRequest m) @ body_mode ''response'' (epmResponse m))
      in JObj ([(''backendRefs'', JList [JObj [(''group'', JStr []), (''kind'', JStr ''Backend''), (''name'', JStr name),
            (''namespace'', JStr (ekNamespace c))]])] @
          (if modes = [] then [] else [(''processingMode'', JObj modes)]) @ (if epxFailOpen e then [(''failOpen'', JBool True)] else [])))"

definition BuildEnvoyExtensionPolicy :: "EnvoyExtensionPolicyK8s \<Rightarrow> json option" where
  "BuildEnvoyExtensionPolicy c =
     (let features = list_field ''lua'' lua_json (ekLua c) @ list_field ''wasm'' wasm_json (ekWasm c) @
            list_field ''extProc'' (ext_proc_json c) (ekExtProc c);
          labels = [(''app.kubernetes.io/managed-by'', ''fastgateway''), (''fastgateway.dev/gateway-id'', ekGatewayID c)] @
            (if ekRouteID c = [] then [] else [(''fastgateway.dev/route-id'', ekRouteID c)]) @
            (if ekDomainID c = [] then [] else [(''fastgateway.dev/domain-id'', ekDomainID c)])
      in if features = [] then None
         else Some (JObj [(''apiVersion'', JStr ''gateway.envoyproxy.io/v1alpha1''), (''kind'', JStr ''EnvoyExtensionPolicy''),
           (''metadata'', JObj [(''name'', JStr (ekName c)), (''namespace'', JStr (ekNamespace c)), (''labels'', labels_json labels)]),
           (''spec'', JObj ([(''targetRefs'', JList [target_json (ekTargetRef c)])] @ features))]))"

definition buildAPIKeyEnvoyExtensionPolicyConfig ::
  "Route \<Rightarrow> Domain \<Rightarrow> ClientAuthCategory \<Rightarrow> EnvoyExtensionPolicyConfig option \<Rightarrow> json option" where
  "buildAPIKeyEnvoyExtensionPolicyConfig route domain client policy =
     (if \<not> has_extensions policy then None
      else BuildEnvoyExtensionPolicy (BuildEnvoyExtensionPolicyK8sConfig route domain (client_route_name route client) policy None
        \<lparr>wcImage = [], wcTag = []\<rparr>))"

definition GenerateEnvoyExtensionPolicyYAMLWithWaf ::
  "Route \<Rightarrow> Domain \<Rightarrow> EnvoyExtensionPolicyConfig option \<Rightarrow> WafPolicyConfig option \<Rightarrow> WAFConfig \<Rightarrow> json option" where
  "GenerateEnvoyExtensionPolicyYAMLWithWaf route domain extInput wafInput waf =
     (let hasExtensions = (case extInput of None \<Rightarrow> False | Some i \<Rightarrow> EEP_HasContent i);
          hasWaf = (case wafInput of None \<Rightarrow> False | Some w \<Rightarrow> wafMode w \<noteq> [])
      in if \<not> hasExtensions \<and> \<not> hasWaf then None
         else BuildEnvoyExtensionPolicy (BuildEnvoyExtensionPolicyK8sConfig route domain (rtK8sRouteName route) extInput wafInput waf))"

definition GenerateEnvoyExtensionPolicyYAMLFromSnapshot ::
  "Route \<Rightarrow> Domain \<Rightarrow> EnvoyExtensionPolicyConfig option \<Rightarrow> WafPolicyConfig option \<Rightarrow> WAFConfig \<Rightarrow> json option" where
  "GenerateEnvoyExtensionPolicyYAMLFromSnapshot route domain extPolicy wafPolicy waf =
     (if \<not> has_extensions extPolicy \<and> \<not> has_waf wafPolicy then None
      else BuildEnvoyExtensionPolicy (BuildEnvoyExtensionPolicyK8sConfig route domain (rtK8sRouteName route) extPolicy wafPolicy waf))"

section \<open>Properties\<close>

lemma list_of_simps [simp]: "list_of None = []" "list_of (Some x) = [x]"
  by (simp_all add: list_of_def)

text \<open>The three ways to the extension policy of a route agree: the deployment, the preview of an input and the diff of a snapshot.\<close>

lemma extension_previews_agree:
  "GenerateEnvoyExtensionPolicyYAMLWithWaf r x p w img = Option.bind (buildEnvoyExtensionPolicyConfig img r x p w) BuildEnvoyExtensionPolicy"
  "GenerateEnvoyExtensionPolicyYAMLFromSnapshot r x p w img = Option.bind (buildEnvoyExtensionPolicyConfig img r x p w) BuildEnvoyExtensionPolicy"
  by (auto simp: GenerateEnvoyExtensionPolicyYAMLWithWaf_def GenerateEnvoyExtensionPolicyYAMLFromSnapshot_def buildEnvoyExtensionPolicyConfig_def
      EEP_HasContent_def EEP_IsEmpty_def WafPolicyConfig_IsEmpty_def has_extensions_def has_waf_def split: option.splits)

text \<open>A stored WAF reaches the manifest as its last module, whatever else the route has.\<close>

lemma waf_in_plan:
  assumes "wafMode w \<noteq> []"
  shows "\<exists>j ws. Option.bind (buildEnvoyExtensionPolicyConfig img r x p (Some w)) BuildEnvoyExtensionPolicy = Some j \<and>
    json_at [''spec'', ''wasm''] j = Some (JList (ws @ [wasm_json (coraza_wasm img w)]))"
  using assms by (auto simp: buildEnvoyExtensionPolicyConfig_def BuildEnvoyExtensionPolicyK8sConfig_def BuildEnvoyExtensionPolicy_def has_waf_def
      WafPolicyConfig_IsEmpty_def list_field_def Let_def)

text \<open>The route of a client has the extensions of the route and not its WAF.\<close>

lemma client_route_has_no_waf:
  "buildAPIKeyEnvoyExtensionPolicyConfig r x c None = None"
  "has_extensions (Some p) \<Longrightarrow> ekWasm (BuildEnvoyExtensionPolicyK8sConfig r x n (Some p) None img) = list_of (eepWasm p)"
  by (simp_all add: buildAPIKeyEnvoyExtensionPolicyConfig_def has_extensions_def BuildEnvoyExtensionPolicyK8sConfig_def has_waf_def)

end
