(* ===== verification/ClusterRoutes.thy ===== *)
theory ClusterRoutes
  imports ClientSecurity ExtensionPlan
begin

text \<open>
  The calls of \<open>src/internal/cluster/route.go\<close>, \<open>backend.go\<close>, \<open>policy.go\<close> and \<open>cleanup.go\<close> that the deployment of a route and the policies of a domain
  make: writes that create or replace, deletions that tolerate an absent object, and the clean-up of what a route no longer plans.
\<close>

section \<open>The cluster client\<close>

definition map_error :: "(error \<Rightarrow> error) \<Rightarrow> 'a m \<Rightarrow> 'a m" where
  "map_error f c = bind (attempt c) (\<lambda>r. case r of Inl e \<Rightarrow> throw (f e) | Inr x \<Rightarrow> ret x)"

text \<open>The common shape of a write: read the object, create it when it is absent and replace it when it is there.\<close>

definition upsert_object :: "(error \<Rightarrow> error) \<Rightarrow> (error \<Rightarrow> error) \<Rightarrow> (error \<Rightarrow> error) \<Rightarrow> k8s_key \<Rightarrow> k8s_object \<Rightarrow> unit m" where
  "upsert_object onGet onCreate onUpdate k x =
     bind (attempt (k8s_Get k)) (\<lambda>r. case r of
       Inl e \<Rightarrow> if errors_Is e ErrK8sNotFound then map_error onCreate (k8s_Create k x) else throw (onGet e)
     | Inr _ \<Rightarrow> map_error onUpdate (k8s_Update k x))"

definition delete_object :: "(error \<Rightarrow> error) \<Rightarrow> k8s_key \<Rightarrow> unit m" where
  "delete_object onDelete k = bind (attempt (k8s_Delete k)) (\<lambda>r. case r of
     Inr _ \<Rightarrow> ret () | Inl e \<Rightarrow> if errors_Is e ErrK8sNotFound then ret () else throw (onDelete e))"

definition http_key :: "uuid \<Rightarrow> string \<Rightarrow> string \<Rightarrow> k8s_key" where
  "http_key p ns name = K8sKey p KHTTPRoute ns name"

definition grpc_key :: "uuid \<Rightarrow> string \<Rightarrow> string \<Rightarrow> k8s_key" where
  "grpc_key p ns name = K8sKey p KGRPCRoute ns name"

definition UpdateHTTPRoute :: "uuid \<Rightarrow> HTTPRouteConfig \<Rightarrow> unit m" where
  "UpdateHTTPRoute p config =
     (let k = http_key p (hcNamespace config) (hcName config) in
      bind (wrap_error ''failed to get existing httproute: %w'' (k8s_Get k)) (\<lambda>_.
      wrap_error ''failed to update httproute: %w'' (k8s_Update k (HTTPRouteObj (BuildHTTPRouteObject config)))))"

definition CreateHTTPRoute :: "uuid \<Rightarrow> HTTPRouteConfig \<Rightarrow> unit m" where
  "CreateHTTPRoute p config =
     bind (attempt (k8s_Create (http_key p (hcNamespace config) (hcName config)) (HTTPRouteObj (BuildHTTPRouteObject config)))) (\<lambda>r. case r of
       Inr _ \<Rightarrow> ret ()
     | Inl e \<Rightarrow> if errors_Is e ErrK8sAlreadyExists then UpdateHTTPRoute p config else throw (Wrap ''failed to create httproute: %w'' e))"

definition DeleteHTTPRoute :: "uuid \<Rightarrow> string \<Rightarrow> string \<Rightarrow> unit m" where
  "DeleteHTTPRoute p ns name = delete_object (Wrap ''failed to delete httproute: %w'') (http_key p ns name)"

definition UpdateGRPCRoute :: "uuid \<Rightarrow> GRPCRouteConfig \<Rightarrow> unit m" where
  "UpdateGRPCRoute p config =
     (let k = grpc_key p (gcoNamespace config) (gcoName config) in
      bind (wrap_error ''failed to get existing GRPCRoute: %w'' (k8s_Get k)) (\<lambda>_.
      wrap_error ''failed to update GRPCRoute: %w'' (k8s_Update k (GRPCRouteObj (BuildGRPCRouteObject config)))))"

definition CreateGRPCRoute :: "uuid \<Rightarrow> GRPCRouteConfig \<Rightarrow> unit m" where
  "CreateGRPCRoute p config =
     bind (attempt (k8s_Create (grpc_key p (gcoNamespace config) (gcoName config)) (GRPCRouteObj (BuildGRPCRouteObject config)))) (\<lambda>r. case r of
       Inr _ \<Rightarrow> ret ()
     | Inl e \<Rightarrow> if errors_Is e ErrK8sAlreadyExists then UpdateGRPCRoute p config else throw (Wrap ''failed to create GRPCRoute: %w'' e))"

definition DeleteGRPCRoute :: "uuid \<Rightarrow> string \<Rightarrow> string \<Rightarrow> unit m" where
  "DeleteGRPCRoute p ns name = delete_object id (grpc_key p ns name)"

definition UpdateBackendUnstructured :: "uuid \<Rightarrow> string \<Rightarrow> string \<Rightarrow> json \<Rightarrow> unit m" where
  "UpdateBackendUnstructured p ns name backend = upsert_object (Wrap ''failed to get existing backend: %w'') (Wrap ''failed to create backend: %w'')
     (Wrap ''failed to update backend: %w'') (backend_object_key p ns name) (PolicyObj backend)"

definition UpdateBackend :: "uuid \<Rightarrow> BackendConfig \<Rightarrow> unit m" where
  "UpdateBackend p config = upsert_object (Wrap ''failed to get existing backend: %w'') (Wrap ''failed to create backend: %w'')
     (Wrap ''failed to update backend: %w'') (backend_object_key p (bcNamespace config) (bcName config)) (PolicyObj (BuildBackend config))"

text \<open>The labels that a list request selects by.\<close>

definition object_labels :: "k8s_object \<Rightarrow> (string \<times> string) list" where
  "object_labels x = (case x of
     PolicyObj j \<Rightarrow> (case json_at [''metadata'', ''labels''] j of
         Some (JObj fs) \<Rightarrow> concat (map (\<lambda>(k, v). case v of JStr s \<Rightarrow> [(k, s)] | _ \<Rightarrow> []) fs) | _ \<Rightarrow> [])
   | HTTPRouteObj r \<Rightarrow> ohrLabels r | GRPCRouteObj r \<Rightarrow> ogoLabels r | L4RouteObj r \<Rightarrow> lroLabels r | SecretObj ls _ \<Rightarrow> ls | _ \<Rightarrow> [])"

definition listed_names :: "uuid \<Rightarrow> k8s_kind \<Rightarrow> string \<Rightarrow> string \<Rightarrow> db \<Rightarrow> string list" where
  "listed_names p kind ns routeID d = concat (map (\<lambda>(k, x). case k of K8sKey p' kind' ns' name \<Rightarrow>
     if p' = p \<and> kind' = kind \<and> ns' = ns \<and> (''fastgateway.dev/route-id'', routeID) \<in> set (object_labels x) then [name] else []) (k8s d))"

definition k8s_ListByRoute :: "uuid \<Rightarrow> k8s_kind \<Rightarrow> string \<Rightarrow> string \<Rightarrow> string list m" where
  "k8s_ListByRoute p kind ns routeID = reads ErrK8s (\<lambda>d. Inr (listed_names p kind ns routeID d))"

text \<open>A list request on the \<open>Backend\<close> kind that is answered with \<open>NotFound\<close>, because the kind is not installed, counts as an empty list.\<close>

definition list_backends :: "uuid \<Rightarrow> string \<Rightarrow> string \<Rightarrow> string list m" where
  "list_backends p ns routeID = wrap_error ''failed to list backends: %w'' (k8s_ListByRoute p KBackend ns routeID)"

definition DeleteBackendsByRoute :: "uuid \<Rightarrow> string \<Rightarrow> string \<Rightarrow> unit m" where
  "DeleteBackendsByRoute p ns routeID = bind (list_backends p ns routeID) (\<lambda>names.
     for_each names (\<lambda>n. delete_object (Wrap ''failed to delete backend %s: %w'') (backend_object_key p ns n)))"

definition DeleteStaleBackendsByRoute :: "uuid \<Rightarrow> string \<Rightarrow> string \<Rightarrow> string list \<Rightarrow> unit m" where
  "DeleteStaleBackendsByRoute p ns routeID expectedNames = bind (list_backends p ns routeID) (\<lambda>names.
     for_each (filter (\<lambda>n. n \<notin> set expectedNames) names) (\<lambda>n. delete_object (Wrap ''failed to delete stale backend %s: %w'') (backend_object_key p ns n)))"

definition stale_client_resource :: "string \<Rightarrow> string list \<Rightarrow> string \<Rightarrow> bool" where
  "stale_client_resource baseRouteName expected name \<longleftrightarrow> IsPerClientResource name \<and> ExtractClientPrefix name baseRouteName \<noteq> [] \<and>
     ExtractClientPrefix name baseRouteName \<notin> set expected"

definition deleteStalePerClientResources :: "uuid \<Rightarrow> k8s_kind \<Rightarrow> string \<Rightarrow> string \<Rightarrow> string \<Rightarrow> string list \<Rightarrow> unit m" where
  "deleteStalePerClientResources p kind ns routeID baseRouteName expected =
     bind (wrap_error ''failed to list resources: %w'' (k8s_ListByRoute p kind ns routeID)) (\<lambda>names.
     for_each (filter (stale_client_resource baseRouteName expected) names)
       (\<lambda>n. delete_object (Wrap ''failed to delete stale resource %s: %w'') (K8sKey p kind ns n)))"

definition DeleteStaleAPIKeyResources :: "uuid \<Rightarrow> string \<Rightarrow> string \<Rightarrow> string \<Rightarrow> string list \<Rightarrow> unit m" where
  "DeleteStaleAPIKeyResources p ns routeID baseRouteName expected =
     (let stale = (\<lambda>kind. deleteStalePerClientResources p kind ns routeID baseRouteName expected) in
      bind (wrap_error ''failed to delete stale httproutes: %w'' (stale KHTTPRoute)) (\<lambda>_.
      bind (wrap_error ''failed to delete stale grpcroutes: %w'' (stale KGRPCRoute)) (\<lambda>_.
      bind (wrap_error ''failed to delete stale securitypolicies: %w'' (stale KSecurityPolicy)) (\<lambda>_.
      wrap_error ''failed to delete stale backendtrafficpolicies: %w'' (stale KBackendTrafficPolicy)))))"

definition hrf_key :: "uuid \<Rightarrow> string \<Rightarrow> string \<Rightarrow> k8s_key" where
  "hrf_key p ns name = K8sKey p KHTTPRouteFilter ns name"

definition config_map_key :: "uuid \<Rightarrow> string \<Rightarrow> string \<Rightarrow> k8s_key" where
  "config_map_key p ns name = K8sKey p KConfigMap ns name"

definition ApplyHTTPRouteFilter :: "uuid \<Rightarrow> string \<Rightarrow> string \<Rightarrow> json \<Rightarrow> unit m" where
  "ApplyHTTPRouteFilter p ns name j = upsert_object id id id (hrf_key p ns name) (PolicyObj j)"

definition DeleteHTTPRouteFilter :: "uuid \<Rightarrow> string \<Rightarrow> string \<Rightarrow> unit m" where
  "DeleteHTTPRouteFilter p ns name = delete_object (Wrap ''failed to delete HTTPRouteFilter: %w'') (hrf_key p ns name)"

definition ApplyDirectResponseConfigMap :: "uuid \<Rightarrow> string \<Rightarrow> string \<Rightarrow> json \<Rightarrow> unit m" where
  "ApplyDirectResponseConfigMap p ns name j = upsert_object id id id (config_map_key p ns name) (PolicyObj j)"

definition DeleteDirectResponseConfigMap :: "uuid \<Rightarrow> string \<Rightarrow> string \<Rightarrow> unit m" where
  "DeleteDirectResponseConfigMap p ns name =
     bind (attempt (k8s_Get (config_map_key p ns name))) (\<lambda>r. case r of
       Inl e \<Rightarrow> if errors_Is e ErrK8sNotFound then ret () else throw e
     | Inr x \<Rightarrow> if (''app.kubernetes.io/managed-by'', ''fastgateway'') \<notin> set (object_labels x) then ret ()
         else delete_object (Wrap ''failed to delete ConfigMap: %w'') (config_map_key p ns name))"

definition eep_key :: "uuid \<Rightarrow> string \<Rightarrow> string \<Rightarrow> k8s_key" where
  "eep_key p ns name = K8sKey p KEnvoyExtensionPolicy ns name"

definition UpdateEnvoyExtensionPolicy :: "uuid \<Rightarrow> string \<Rightarrow> string \<Rightarrow> json \<Rightarrow> unit m" where
  "UpdateEnvoyExtensionPolicy p ns name j = upsert_object (Wrap ''failed to get envoyextensionpolicy: %w'') (Wrap ''failed to create envoyextensionpolicy: %w'')
     (Wrap ''failed to update envoyextensionpolicy: %w'') (eep_key p ns name) (PolicyObj j)"

definition DeleteEnvoyExtensionPolicy :: "uuid \<Rightarrow> string \<Rightarrow> string \<Rightarrow> unit m" where
  "DeleteEnvoyExtensionPolicy p ns name = delete_object (Wrap ''failed to delete envoyextensionpolicy: %w'') (eep_key p ns name)"

definition ReferenceGrantExists :: "uuid \<Rightarrow> string \<Rightarrow> string \<Rightarrow> bool m" where
  "ReferenceGrantExists p ns name = bind (attempt (k8s_Get (K8sKey p KReferenceGrant ns name))) (\<lambda>r. case r of
     Inr _ \<Rightarrow> ret True
   | Inl e \<Rightarrow> if errors_Is e ErrK8sNotFound then ret False else throw (Wrap ''failed to get referencegrant: %w'' e))"

section \<open>Frames\<close>

text \<open>A list of objects that are in the cluster; a call keeps them when it writes under other keys.\<close>

definition has_objects :: "(k8s_key \<times> k8s_object) list \<Rightarrow> db \<Rightarrow> bool" where
  "has_objects os d \<longleftrightarrow> (\<forall>(k, x) \<in> set os. k8s_lookup k d = Some x)"

abbreviation keys_of :: "(k8s_key \<times> k8s_object) list \<Rightarrow> k8s_key set" where
  "keys_of os \<equiv> fst ` set os"

lemma has_objects_simps [simp]:
  "has_objects [] d" "has_objects (o1 # os) d \<longleftrightarrow> k8s_lookup (fst o1) d = Some (snd o1) \<and> has_objects os d"
  "has_objects (xs @ ys) d \<longleftrightarrow> has_objects xs d \<and> has_objects ys d"
  by (auto simp: has_objects_def)

lemma has_objects_put: "k \<notin> keys_of os \<Longrightarrow> has_objects os d \<Longrightarrow> has_objects os (k8s_put k x d)"
  "k \<notin> keys_of os \<Longrightarrow> has_objects os d \<Longrightarrow> has_objects os (k8s_remove k d)"
  by (force simp: has_objects_def)+

lemma keeps_verbs_other:
  assumes "k \<notin> keys_of os"
  shows "keeps (has_objects os) (k8s_Get k)" "keeps (has_objects os) (k8s_Create k x)" "keeps (has_objects os) (k8s_Update k x)"
    "keeps (has_objects os) (k8s_Delete k)"
  unfolding k8s_Get_def k8s_Create_def k8s_Update_def k8s_Delete_def
  using assms by (auto split: option.splits intro!: keeps_updates has_objects_put)

lemma keeps_case_prod: "(\<And>x y. keeps I (f x y)) \<Longrightarrow> keeps I (case t of (x, y) \<Rightarrow> f x y)"
  by (cases t) simp

lemma keeps_map_error: "keeps I c \<Longrightarrow> keeps I (map_error f c)"
  unfolding map_error_def by (intro keeps_bind keeps_attempt keeps_case_sum) auto

lemmas keeps_intros = keeps_bind keeps_attempt keeps_wrap_error keeps_map_error keeps_if keeps_case_sum keeps_case_option keeps_for_each keeps_case_prod
  keeps_ret keeps_throw keeps_reads

lemma keeps_upsert_object: "k \<notin> keys_of os \<Longrightarrow> keeps (has_objects os) (upsert_object f g h k x)"
  unfolding upsert_object_def by (intro keeps_intros keeps_verbs_other)

lemma keeps_delete_object: "k \<notin> keys_of os \<Longrightarrow> keeps (has_objects os) (delete_object f k)"
  unfolding delete_object_def by (intro keeps_intros keeps_verbs_other)

lemma keeps_route_calls:
  "http_key p (hcNamespace h) (hcName h) \<notin> keys_of os \<Longrightarrow> keeps (has_objects os) (UpdateHTTPRoute p h)"
  "http_key p (hcNamespace h) (hcName h) \<notin> keys_of os \<Longrightarrow> keeps (has_objects os) (CreateHTTPRoute p h)"
  "grpc_key p (gcoNamespace g) (gcoName g) \<notin> keys_of os \<Longrightarrow> keeps (has_objects os) (UpdateGRPCRoute p g)"
  "grpc_key p (gcoNamespace g) (gcoName g) \<notin> keys_of os \<Longrightarrow> keeps (has_objects os) (CreateGRPCRoute p g)"
  unfolding CreateHTTPRoute_def UpdateHTTPRoute_def CreateGRPCRoute_def UpdateGRPCRoute_def Let_def
  by (intro keeps_intros keeps_verbs_other; assumption)+

lemma keeps_policy_calls:
  "sp_key p (skNamespace c) (skName c) \<notin> keys_of os \<Longrightarrow> keeps (has_objects os) (UpdateSecurityPolicy p c)"
  "sp_key p ns n \<notin> keys_of os \<Longrightarrow> keeps (has_objects os) (DeleteSecurityPolicy p ns n)"
  "backend_object_key p ns n \<notin> keys_of os \<Longrightarrow> keeps (has_objects os) (DeleteBackend p ns n)"
  "btp_key p (bkNamespace b) (bkName b) \<notin> keys_of os \<Longrightarrow> keeps (has_objects os) (UpdateBackendTrafficPolicy p b)"
  unfolding UpdateSecurityPolicy_def DeleteSecurityPolicy_def DeleteBackend_def UpdateBackendTrafficPolicy_def DeleteBackendTrafficPolicy_def Let_def
  by (intro keeps_intros keeps_verbs_other; assumption)+

lemma keeps_secret_calls:
  "\<forall>k \<in> keys_of os. \<forall>p ns n. k \<noteq> K8sKey p KSecret ns n \<Longrightarrow> keeps (has_objects os) (CreateAPIKeySecret p i s)"
  "\<forall>k \<in> keys_of os. \<forall>p ns n. k \<noteq> K8sKey p KSecret ns n \<Longrightarrow> keeps (has_objects os) (CreateOrUpdateSecret p ns n d)"
  unfolding CreateAPIKeySecret_def CreateOrUpdateSecret_def put_secret_def by (intro keeps_intros keeps_verbs_other; blast)+

end
