(* ===== verification/DomainPolicies.thy ===== *)
theory DomainPolicies
  imports ClusterRoutes Domains
begin

text \<open>
  The settings of a domain and what they become in the cluster: \<open>src/internal/services/domain_settings.go\<close>, \<open>domain_mtls.go\<close>, the policies of
  \<open>domain_deploy.go\<close>, the builders of \<open>src/internal/domainplan\<close>, \<open>BuildClientTrafficPolicy\<close> of \<open>src/internal/kubernetes/clienttrafficpolicy.go\<close> and the
  calls of \<open>src/internal/cluster/policy.go\<close> on the client traffic policy.

  Two parsers of packages outside of the sources are arguments: \<open>parse_uri\<close> (\<open>url.ParseRequestURI\<close>, \<open>None\<close> for an error) and \<open>pem_error\<close>, the
  verdict of the PEM and X.509 parsers on a certificate. The identifier of a new authority, eight characters of a random UUID, is an argument as well.
\<close>

section \<open>The client traffic policy\<close>

record ConnectionPolicyConfig =
  cpcBufferLimit :: "string option"
  cpcMaxConnections :: "int option"
  cpcCloseDelay :: "string option"
  cpcMaxConnectionDuration :: "string option"
  cpcMaxRequestsPerConnection :: "int option"

record SecretRefPolicyConfig =
  srpGroup :: string
  srpKind :: string
  srpName :: string

record ClientValidationPolicyConfig =
  cvCACertificateRefs :: "SecretRefPolicyConfig list"
  cvOptional :: bool
  cvSANMatchers :: "MTLSSANEntry list"
  cvCertificateHashes :: "string list"

record XFCCPolicyConfig =
  xfccMode :: string
  xfccCertDetailsToAdd :: "string list"

record ClientTrafficPolicyK8s =
  ctName :: string
  ctNamespace :: string
  ctGatewayID :: string
  ctTargetRef :: BackendTrafficPolicyTargetRef
  ctTCPKeepalive :: "TCPKeepaliveConfig option"
  ctEnableProxyProtocol :: bool
  ctConnection :: "ConnectionPolicyConfig option"
  ctClientIPDetection :: "ClientIPDetectionConfig option"
  ctTimeout :: "HTTPTimeoutConfig option"
  ctHTTP3 :: bool
  ctTLS :: "TLSSettingsConfig option"
  ctClientValidation :: "ClientValidationPolicyConfig option"
  ctHeaders :: "XFCCPolicyConfig option"

definition connection_plan :: "ClientConnectionConfig \<Rightarrow> ConnectionPolicyConfig option" where
  "connection_plan c =
     (if ccConnectionLimit c = None \<and> ccBufferLimit c = None then None
      else Some \<lparr>cpcBufferLimit = ccBufferLimit c, cpcMaxConnections = Option.bind (ccConnectionLimit c) clmMaxConnections,
          cpcCloseDelay = Option.bind (ccConnectionLimit c) clmCloseDelay,
          cpcMaxConnectionDuration = Option.bind (ccConnectionLimit c) clmMaxConnectionDuration,
          cpcMaxRequestsPerConnection = Option.bind (ccConnectionLimit c) clmMaxRequestsPerConnection\<rparr>)"

definition enabled_mtls :: "DomainSettingsConfig \<Rightarrow> DomainMTLSConfig option" where
  "enabled_mtls config = (case dscMTLS config of Some m \<Rightarrow> if dmEnabled m then Some m else None | None \<Rightarrow> None)"

definition BuildClientTrafficPolicyConfig :: "Domain \<Rightarrow> DomainSettingsConfig \<Rightarrow> SecretRefPolicyConfig list \<Rightarrow> ClientTrafficPolicyK8s" where
  "BuildClientTrafficPolicyConfig domain config caSecretRefs =
     \<lparr>ctName = domK8sGatewayName domain @ ''-ctp'', ctNamespace = domNamespace domain, ctGatewayID = uuid_string (domID domain),
      ctTargetRef = \<lparr>trGroup = ''gateway.networking.k8s.io'', trKind = ''Gateway'', trName = domK8sGatewayName domain\<rparr>,
      ctTCPKeepalive = Option.bind (dscClientConnection config) ccTCPKeepalive,
      ctEnableProxyProtocol = (Option.bind (dscClientConnection config) ccProxyProtocol = Some True),
      ctConnection = Option.bind (dscClientConnection config) connection_plan,
      ctClientIPDetection = dscClientIPDetection config,
      ctTimeout = Option.bind (dscTimeout config) tmHTTP,
      ctHTTP3 = (dscHTTP3 config = Some True),
      ctTLS = (case dscTLS config of Some t \<Rightarrow> if TLSSettingsConfig_IsEmpty t then None else Some t | None \<Rightarrow> None),
      ctClientValidation = map_option (\<lambda>m. \<lparr>cvCACertificateRefs = caSecretRefs, cvOptional = dmOptional m, cvSANMatchers = dmSANWhitelist m,
        cvCertificateHashes = dmHashWhitelist m\<rparr>) (enabled_mtls config),
      ctHeaders = map_option (\<lambda>_. \<lparr>xfccMode = ''AppendForward'', xfccCertDetailsToAdd = [''Subject'', ''Cert'', ''DNS'', ''URI'']\<rparr>) (enabled_mtls config)\<rparr>"

definition convertTLSVersionToK8s :: "string \<Rightarrow> string" where
  "convertTLSVersionToK8s v =
     (if v = ''TLS1.0'' \<or> v = ''TLSv1.0'' then ''1.0''
      else if v = ''TLS1.1'' \<or> v = ''TLSv1.1'' then ''1.1''
      else if v = ''TLS1.2'' \<or> v = ''TLSv1.2'' then ''1.2''
      else if v = ''TLS1.3'' \<or> v = ''TLSv1.3'' then ''1.3''
      else if v = ''Auto'' \<or> v = [] then ''Auto'' else v)"

text \<open>A field for a pointer to a string: written when the string is there and not empty.\<close>

definition ptr_field :: "string \<Rightarrow> (string \<Rightarrow> string) \<Rightarrow> string option \<Rightarrow> (string \<times> json) list" where
  "ptr_field k f s = (case s of Some t \<Rightarrow> if t = [] then [] else [(k, JStr (f t))] | None \<Rightarrow> [])"

definition keepalive_fields :: "TCPKeepaliveConfig \<Rightarrow> (string \<times> json) list" where
  "keepalive_fields t = opt_field ''probes'' JInt (tkProbes t) @ ptr_field ''idleTime'' id (tkIdleTime t) @ ptr_field ''interval'' id (tkInterval t)"

definition connection_fields :: "ConnectionPolicyConfig \<Rightarrow> (string \<times> json) list" where
  "connection_fields c = ptr_field ''bufferLimit'' id (cpcBufferLimit c) @
     obj_field ''connectionLimit'' (opt_field ''value'' JInt (cpcMaxConnections c) @ ptr_field ''closeDelay'' id (cpcCloseDelay c) @
       ptr_field ''maxConnectionDuration'' id (cpcMaxConnectionDuration c) @ opt_field ''maxRequestsPerConnection'' JInt (cpcMaxRequestsPerConnection c))"

definition http_timeout_fields :: "HTTPTimeoutConfig \<Rightarrow> (string \<times> json) list" where
  "http_timeout_fields h = ptr_field ''requestReceivedTimeout'' id (htRequestReceivedTimeout h) @ ptr_field ''idleTimeout'' id (htIdleTimeout h)"

definition detection_fields :: "ClientIPDetectionConfig \<Rightarrow> (string \<times> json) list" where
  "detection_fields c = opt_field ''xForwardedFor'' (\<lambda>x. JObj [(''numTrustedHops'', JInt (xfNumTrustedHops x))]) (cidXForwardedFor c) @
     opt_field ''customHeader'' (\<lambda>h. JObj ([(''name'', JStr (cuName h))] @ (if cuFailClosed h then [(''failClosed'', JBool True)] else []))) (cidCustomHeader c)"

definition tls_fields :: "TLSSettingsConfig \<Rightarrow> (string \<times> json) list" where
  "tls_fields t = ptr_field ''minVersion'' convertTLSVersionToK8s (tsMinVersion t) @ ptr_field ''maxVersion'' convertTLSVersionToK8s (tsMaxVersion t) @
     strings_field ''ciphers'' (tsCiphers t) @ strings_field ''ecdhCurves'' (tsECDHCurves t) @ strings_field ''signatureAlgorithms'' (tsSignatureAlgorithms t)"

definition ca_ref_json :: "SecretRefPolicyConfig \<Rightarrow> json" where
  "ca_ref_json s = JObj [(''group'', JStr (srpGroup s)), (''kind'', JStr (srpKind s)), (''name'', JStr (srpName s))]"

definition validation_json :: "ClientValidationPolicyConfig \<Rightarrow> json" where
  "validation_json v = JObj ([(''optional'', JBool (cvOptional v))] @ list_field ''caCertificateRefs'' ca_ref_json (cvCACertificateRefs v) @
     list_field ''subjectAltNames'' (\<lambda>s. JObj [(''type'', JStr (msnType s)), (''match'', JObj [(''exact'', JStr (msnValue s))])]) (cvSANMatchers v) @
     strings_field ''certificateHashes'' (cvCertificateHashes v))"

definition xfcc_json :: "XFCCPolicyConfig \<Rightarrow> json" where
  "xfcc_json x = JObj [(''xForwardedClientCert'', JObj [(''mode'', JStr (xfccMode x)), (''certDetailsToAdd'', strings_json (xfccCertDetailsToAdd x))])]"

definition fields_of :: "('a \<Rightarrow> (string \<times> json) list) \<Rightarrow> 'a option \<Rightarrow> (string \<times> json) list" where
  "fields_of f x = (case x of None \<Rightarrow> [] | Some y \<Rightarrow> f y)"

definition ctp_features :: "ClientTrafficPolicyK8s \<Rightarrow> (string \<times> json) list" where
  "ctp_features c =
     obj_field ''tcpKeepalive'' (fields_of keepalive_fields (ctTCPKeepalive c)) @
     (if ctEnableProxyProtocol c then [(''enableProxyProtocol'', JBool True)] else []) @
     obj_field ''connection'' (fields_of connection_fields (ctConnection c)) @
     obj_field ''timeout'' (obj_field ''http'' (fields_of http_timeout_fields (ctTimeout c))) @
     (if ctHTTP3 c then [(''http3'', JObj [])] else []) @
     obj_field ''clientIPDetection'' (fields_of detection_fields (ctClientIPDetection c)) @
     obj_field ''tls'' (fields_of tls_fields (ctTLS c) @ opt_field ''clientValidation'' validation_json (ctClientValidation c)) @
     opt_field ''headers'' xfcc_json (ctHeaders c)"

definition BuildClientTrafficPolicy :: "ClientTrafficPolicyK8s \<Rightarrow> json option" where
  "BuildClientTrafficPolicy c =
     (if ctp_features c = [] then None
      else Some (JObj [(''apiVersion'', JStr ''gateway.envoyproxy.io/v1alpha1''), (''kind'', JStr ''ClientTrafficPolicy''),
        (''metadata'', JObj [(''name'', JStr (ctName c)), (''namespace'', JStr (ctNamespace c)),
          (''labels'', labels_json [(''app.kubernetes.io/managed-by'', ''fastgateway''), (''fastgateway.dev/gateway-id'', ctGatewayID c)])]),
        (''spec'', JObj ((''targetRef'', JObj [(''group'', JStr (trGroup (ctTargetRef c))), (''kind'', JStr (trKind (ctTargetRef c))),
          (''name'', JStr (trName (ctTargetRef c)))]) # ctp_features c))]))"

section \<open>The cluster client\<close>

definition ctp_key :: "uuid \<Rightarrow> string \<Rightarrow> string \<Rightarrow> k8s_key" where
  "ctp_key p ns name = K8sKey p KClientTrafficPolicy ns name"

definition DeleteClientTrafficPolicy :: "uuid \<Rightarrow> string \<Rightarrow> string \<Rightarrow> unit m" where
  "DeleteClientTrafficPolicy p ns name = delete_object (Wrap ''failed to delete clienttrafficpolicy: %w'') (ctp_key p ns name)"

text \<open>The fallback of the update to a creation takes a second writer between two calls: the update follows a creation that found the object.\<close>

definition UpdateClientTrafficPolicy :: "uuid \<Rightarrow> ClientTrafficPolicyK8s \<Rightarrow> unit m" where
  "UpdateClientTrafficPolicy p config = (case BuildClientTrafficPolicy config of
     None \<Rightarrow> DeleteClientTrafficPolicy p (ctNamespace config) (ctName config)
   | Some policy \<Rightarrow>
       let k = ctp_key p (ctNamespace config) (ctName config) in
       wrap_error ''failed to update clienttrafficpolicy: %w'' (bind (k8s_Get k) (\<lambda>_. k8s_Update k (PolicyObj policy))))"

definition CreateClientTrafficPolicy :: "uuid \<Rightarrow> ClientTrafficPolicyK8s \<Rightarrow> unit m" where
  "CreateClientTrafficPolicy p config = (case BuildClientTrafficPolicy config of
     None \<Rightarrow> ret ()
   | Some policy \<Rightarrow>
       bind (attempt (k8s_Create (ctp_key p (ctNamespace config) (ctName config)) (PolicyObj policy))) (\<lambda>r. case r of
         Inr _ \<Rightarrow> ret ()
       | Inl e \<Rightarrow> if errors_Is e ErrK8sAlreadyExists then UpdateClientTrafficPolicy p config
           else throw (Wrap ''failed to create clienttrafficpolicy: %w'' e)))"

section \<open>Authorities\<close>

definition GetMTLSClientsForDomain :: "uuid \<Rightarrow> Client list m" where
  "GetMTLSClientsForDomain i = query (\<lambda>d. Inr (filter (\<lambda>c. clMTLSEnabled c \<and> list_ex (\<lambda>a. attClientID a = clID c \<and> attEnableMTLS a \<and>
     attStatus a = AttachmentStatusActive \<and> list_ex (\<lambda>r. rtID r = attRouteID a \<and> rtDomainID r = Some i) (routes d)) (attachments d)) (clients d)))"

definition ca_secret :: "string \<Rightarrow> SecretRefPolicyConfig" where
  "ca_secret name = \<lparr>srpGroup = [], srpKind = ''Secret'', srpName = name\<rparr>"

definition collectCASecretRefs :: "Domain \<Rightarrow> DomainSettingsConfig \<Rightarrow> SecretRefPolicyConfig list m" where
  "collectCASecretRefs domain config = (case enabled_mtls config of
     None \<Rightarrow> ret []
   | Some m \<Rightarrow>
       bind (wrap_error ''list mTLS clients for domain %s: %w'' (GetMTLSClientsForDomain (domID domain))) (\<lambda>mtlsClients.
       ret (map (\<lambda>ca. ca_secret (mcaSecretName ca)) (dmCACerts m) @
         map (\<lambda>c. ca_secret (clMTLSCASecret c)) (filter (\<lambda>c. clMTLSCASecret c \<noteq> []) mtlsClients))))"

text \<open>The result tells whether the warning about missing authorities is given.\<close>

definition applyEnvoyGatewayClientTrafficPolicy :: "Domain \<Rightarrow> DomainSettingsConfig \<Rightarrow> bool m" where
  "applyEnvoyGatewayClientTrafficPolicy domain config =
     bind (wrap_error ''collect CA secret refs for domain %s: %w'' (collectCASecretRefs domain config)) (\<lambda>caSecretRefs.
     bind (wrap_error ''failed to apply ClientTrafficPolicy to Kubernetes: %w''
       (CreateClientTrafficPolicy (domProjectID domain) (BuildClientTrafficPolicyConfig domain config caSecretRefs))) (\<lambda>_.
     ret (enabled_mtls config \<noteq> None \<and> caSecretRefs = [])))"

definition EnsureMTLSClientTrafficPolicy :: "Domain \<Rightarrow> unit m" where
  "EnsureMTLSClientTrafficPolicy domain =
     bind (attempt (DomainSettingsRepo_GetByDomainID (domID domain))) (\<lambda>r. case r of
       Inl _ \<Rightarrow> ret ()
     | Inr settings \<Rightarrow> bind (applyEnvoyGatewayClientTrafficPolicy domain (dstConfig settings)) (\<lambda>_. ret ()))"

text \<open>The row is the only one of its domain; any error of the lookup leads to an insert.\<close>

definition DomainSettingsRepo_Upsert :: "DomainSettings \<Rightarrow> DomainSettings m" where
  "DomainSettingsRepo_Upsert s =
     bind (attempt (DomainSettingsRepo_GetByDomainID (dstDomainID s))) (\<lambda>r. case r of
       Inr existing \<Rightarrow>
         let s' = s\<lparr>dstID := dstID existing\<rparr> in
         bind (exec (\<lambda>d. d\<lparr>domain_settings := row_save dstDomainID s' (domain_settings d)\<rparr>)) (\<lambda>_. ret s')
     | Inl _ \<Rightarrow> inserts ErrDB (\<lambda>d.
         if row_get domID (dstDomainID s) (domains d) = None then Inl ErrDB
         else if row_get dstDomainID (dstDomainID s) (domain_settings d) \<noteq> None then Inl ErrDuplicatedKey
         else let s' = s\<lparr>dstID := next_id d\<rparr> in
           Inr (s', d\<lparr>domain_settings := domain_settings d @ [s'], next_id := Suc (next_id d)\<rparr>)))"

definition DomainSettingsRepo_DeleteByDomainID :: "uuid \<Rightarrow> unit m" where
  "DomainSettingsRepo_DeleteByDomainID i = exec (\<lambda>d. d\<lparr>domain_settings := filter (\<lambda>s. dstDomainID s \<noteq> i) (domain_settings d)\<rparr>)"

definition empty_settings :: DomainSettingsConfig where
  "empty_settings = \<lparr>dscClientConnection = None, dscClientIPDetection = None, dscTimeout = None, dscHTTP3 = None, dscTLS = None, dscMTLS = None\<rparr>"

definition empty_mtls :: DomainMTLSConfig where
  "empty_mtls = \<lparr>dmEnabled = False, dmOptional = False, dmCACerts = [], dmSANWhitelist = [], dmHashWhitelist = []\<rparr>"

definition AddDomainMTLSCA :: "(string \<Rightarrow> error option) \<Rightarrow> string \<Rightarrow> uuid \<Rightarrow> string \<Rightarrow> string \<Rightarrow> DomainSettings m" where
  "AddDomainMTLSCA pem_error caID domainID name caPem =
     bind (case pem_error caPem of None \<Rightarrow> ret () | Some e \<Rightarrow> throw (Wrap ''invalid CA certificate: %w'' e)) (\<lambda>_.
     bind (wrap_error ''domain not found: %w'' (DomainRepo_GetByID domainID)) (\<lambda>domain.
     bind (attempt (DomainSettingsRepo_GetByDomainID domainID)) (\<lambda>r.
     bind (case r of
         Inr s \<Rightarrow> ret s
       | Inl e \<Rightarrow> if errors_Is e ErrRecordNotFound
           then ret \<lparr>dstID = 0, dstDomainID = domainID, dstProjectID = domProjectID domain, dstConfig = empty_settings\<rparr>
           else throw (Wrap ''load domain settings for domain %s: %w'' e)) (\<lambda>settings.
     let m = (case dscMTLS (dstConfig settings) of None \<Rightarrow> empty_mtls | Some m \<Rightarrow> m);
         secretName = ''fastgateway-'' @ take 8 (uuid_string domainID) @ ''-mtls-ca-'' @ caID;
         m' = m\<lparr>dmCACerts := dmCACerts m @ [\<lparr>mcaID = caID, mcaName = name, mcaSecretName = secretName, mcaSecretKey = ''ca.crt''\<rparr>]\<rparr>;
         config = (dstConfig settings)\<lparr>dscMTLS := Some m'\<rparr>
     in bind (wrap_error ''failed to create CA secret: %w''
         (CreateOrUpdateSecret (domProjectID domain) (domNamespace domain) secretName [(''ca.crt'', caPem)])) (\<lambda>_.
        bind (wrap_error ''failed to save settings: %w'' (DomainSettingsRepo_Upsert (settings\<lparr>dstConfig := config\<rparr>))) (\<lambda>saved.
        bind (if dmEnabled m' then bind (applyEnvoyGatewayClientTrafficPolicy domain config) (\<lambda>_. ret ()) else ret ()) (\<lambda>_. ret saved)))))))"

definition RemoveDomainMTLSCA :: "uuid \<Rightarrow> string \<Rightarrow> DomainSettings m" where
  "RemoveDomainMTLSCA domainID caID =
     bind (wrap_error ''domain not found: %w'' (DomainRepo_GetByID domainID)) (\<lambda>domain.
     bind (wrap_error ''settings not found: %w'' (DomainSettingsRepo_GetByDomainID domainID)) (\<lambda>settings.
     case dscMTLS (dstConfig settings) of
       None \<Rightarrow> throw (Msg ''mTLS not configured'')
     | Some m \<Rightarrow>
         let newCAs = filter (\<lambda>ca. mcaID ca \<noteq> caID) (dmCACerts m);
             removed = filter (\<lambda>ca. mcaID ca = caID) (dmCACerts m) in
         if removed = [] then throw (Msg ''CA not found'')
         else
           let config = (dstConfig settings)\<lparr>dscMTLS := Some (m\<lparr>dmEnabled := (dmEnabled m \<and> newCAs \<noteq> []), dmCACerts := newCAs\<rparr>)\<rparr> in
           bind (attempt (DeleteSecret (domProjectID domain) (domNamespace domain) (mcaSecretName (last removed)))) (\<lambda>_.
           bind (wrap_error ''failed to save settings: %w'' (DomainSettingsRepo_Upsert (settings\<lparr>dstConfig := config\<rparr>))) (\<lambda>saved.
           bind (applyEnvoyGatewayClientTrafficPolicy domain config) (\<lambda>_. ret saved)))))"

section \<open>Extension policies\<close>

definition LuaExtensionConfig_Validate :: "LuaExtensionConfig \<Rightarrow> check" where
  "LuaExtensionConfig_Validate l = checks
     [fail_if (luaType l \<noteq> ''Inline'' \<and> luaType l \<noteq> ''ValueRef'') ''type must be Inline or ValueRef, got %q'',
      fail_if (luaType l = ''Inline'' \<and> luaInline l = []) ''inline script is required when type is Inline'',
      check_when (luaType l = ''ValueRef'') (case luaValueRef l of
        None \<Rightarrow> Inl (Msg ''valueRef is required when type is ValueRef'')
      | Some v \<Rightarrow> checks
          [fail_if (vrName v = []) ''valueRef.name is required'',
           fail_if (vrKind v \<noteq> ''ConfigMap'' \<and> vrKind v \<noteq> ''Secret'') ''valueRef.kind must be ConfigMap or Secret, got %q''])]"

text \<open>\<open>^[a-z0-9]([-a-z0-9]*[a-z0-9])?$\<close> and \<open>^[a-fA-F0-9]{64}$\<close>\<close>

definition lower_alnum :: "char \<Rightarrow> bool" where
  "lower_alnum c \<longleftrightarrow> is_digit c \<or> (97 \<le> (of_char c :: nat) \<and> (of_char c :: nat) \<le> 122)"

definition wasm_name :: "string \<Rightarrow> bool" where
  "wasm_name s \<longleftrightarrow> s \<noteq> [] \<and> lower_alnum (hd s) \<and> lower_alnum (last s) \<and> list_all (\<lambda>c. lower_alnum c \<or> c = CHR ''-'') s"

definition sha256_hex :: "string \<Rightarrow> bool" where
  "sha256_hex s \<longleftrightarrow> length s = 64 \<and> list_all is_hex s"

definition WasmHTTPSource_Validate :: "(string \<Rightarrow> string option) \<Rightarrow> string \<times> string \<Rightarrow> check" where
  "WasmHTTPSource_Validate parse_uri h = (case h of (url, sha) \<Rightarrow> checks
     [fail_if (url = []) ''url is required'', fail_if (parse_uri url = None) ''url is not valid: %w'',
      fail_if (sha = []) ''sha256 is required for HTTP source'', fail_if (\<not> sha256_hex sha) ''sha256 must be a 64-character hex string''])"

definition WasmImageSource_Validate :: "WasmImageSource \<Rightarrow> check" where
  "WasmImageSource_Validate i = checks
     [fail_if (wisURL i = []) ''url is required'',
      fail_if (wisSHA256 i \<noteq> [] \<and> \<not> sha256_hex (wisSHA256 i)) ''sha256 must be a 64-character hex string'']"

definition WasmCodeSource_Validate :: "(string \<Rightarrow> string option) \<Rightarrow> WasmCodeSource \<Rightarrow> check" where
  "WasmCodeSource_Validate parse_uri w = checks
     [fail_if (wcsType w \<noteq> ''HTTP'' \<and> wcsType w \<noteq> ''Image'') ''type must be HTTP or Image, got %q'',
      check_when (wcsType w = ''HTTP'') (case wcsHTTP w of None \<Rightarrow> Inl (Msg ''http is required when type is HTTP'')
        | Some h \<Rightarrow> wrap_check ''http: %w'' (WasmHTTPSource_Validate parse_uri h)),
      check_when (wcsType w = ''Image'') (case wcsImage w of None \<Rightarrow> Inl (Msg ''image is required when type is Image'')
        | Some i \<Rightarrow> wrap_check ''image: %w'' (WasmImageSource_Validate i))]"

definition WasmExtensionConfig_Validate :: "(string \<Rightarrow> string option) \<Rightarrow> WasmExtensionConfig \<Rightarrow> check" where
  "WasmExtensionConfig_Validate parse_uri w = checks
     [fail_if (wasmName w = []) ''name is required'',
      fail_if (\<not> wasm_name (wasmName w)) ''name must be lowercase alphanumeric with hyphens, got %q'',
      wrap_check ''code: %w'' (WasmCodeSource_Validate parse_uri (wasmCode w))]"

definition ExtProcBackendRef_Validate :: "ExtProcBackendRef \<Rightarrow> check" where
  "ExtProcBackendRef_Validate b = checks
     [fail_if (epbName b = []) ''name is required'', fail_if (epbNamespace b = []) ''namespace is required'',
      fail_if (epbPort b \<le> 0 \<or> 65535 < epbPort b) ''port must be between 1 and 65535'']"

definition ExtProcBodyMode_Validate :: "string \<Rightarrow> check" where
  "ExtProcBodyMode_Validate b = fail_if (b \<notin> {[], ''None'', ''Buffered'', ''Streamed''}) ''body must be one of: None, Buffered, Streamed (got %q)''"

definition ExtProcProcessingMode_Validate :: "ExtProcProcessingMode \<Rightarrow> check" where
  "ExtProcProcessingMode_Validate m = checks
     [wrap_check ''request: %w'' (check_opt ExtProcBodyMode_Validate (epmRequest m)),
      wrap_check ''response: %w'' (check_opt ExtProcBodyMode_Validate (epmResponse m))]"

definition ExtProcExtensionConfig_Validate :: "ExtProcExtensionConfig \<Rightarrow> check" where
  "ExtProcExtensionConfig_Validate c = checks
     [wrap_check ''backendRef: %w'' (ExtProcBackendRef_Validate (epxBackendRef c)),
      wrap_check ''processingMode: %w'' (check_opt ExtProcProcessingMode_Validate (epxProcessingMode c))]"

definition EnvoyExtensionPolicyConfig_Validate :: "(string \<Rightarrow> string option) \<Rightarrow> EnvoyExtensionPolicyConfig \<Rightarrow> check" where
  "EnvoyExtensionPolicyConfig_Validate parse_uri c = checks
     [wrap_check ''lua: %w'' (check_opt LuaExtensionConfig_Validate (eepLua c)),
      wrap_check ''wasm: %w'' (check_opt (WasmExtensionConfig_Validate parse_uri) (eepWasm c)),
      wrap_check ''ext-proc: %w'' (check_opt ExtProcExtensionConfig_Validate (eepExtProc c))]"

section \<open>The policies of a domain\<close>

definition BuildDomainBackendTrafficPolicyConfig :: "Domain \<Rightarrow> BackendTrafficPolicyConfig \<Rightarrow> BackendTrafficPolicyK8s option" where
  "BuildDomainBackendTrafficPolicyConfig domain c =
     (if BackendTrafficPolicyConfig_IsEmpty c then None
      else Some \<lparr>bkName = domK8sGatewayName domain @ ''-btp'', bkNamespace = domNamespace domain, bkGatewayID = uuid_string (domID domain),
        bkRouteID = [], bkDomainID = uuid_string (domID domain),
        bkTargetRef = \<lparr>trGroup = ''gateway.networking.k8s.io'', trKind = ''Gateway'', trName = domK8sGatewayName domain\<rparr>,
        bkCompression = btpCompression c, bkRetry = map_option MapRetryConfigToPolicy (btpRetry c),
        bkLoadBalancer = map_option MapLoadBalancerConfigToPolicy (btpLoadBalancer c),
        bkCircuitBreaker = map_option MapCircuitBreakerConfigToPolicy (btpCircuitBreaker c), bkHealthCheck = None, bkFaultInjection = None,
        bkRateLimit = None, bkRequestBuffer = btpRequestBuffer c, bkResponseOverride = MapResponseOverrideToPolicy (btpResponseOverride c),
        bkTimeout = map_option MapTimeoutConfigToPolicy (btpTimeout c)\<rparr>)"

definition BuildDomainEnvoyExtensionPolicyConfig :: "Domain \<Rightarrow> EnvoyExtensionPolicyConfig \<Rightarrow> EnvoyExtensionPolicyK8s option" where
  "BuildDomainEnvoyExtensionPolicyConfig domain c =
     (if \<not> EEP_HasContent c then None
      else Some \<lparr>ekName = domK8sGatewayName domain @ ''-eep'', ekNamespace = domNamespace domain, ekGatewayID = uuid_string (domID domain),
        ekRouteID = [], ekDomainID = uuid_string (domID domain),
        ekTargetRef = \<lparr>trGroup = ''gateway.networking.k8s.io'', trKind = ''Gateway'', trName = domK8sGatewayName domain\<rparr>,
        ekLua = list_of (eepLua c), ekWasm = list_of (eepWasm c), ekExtProc = list_of (eepExtProc c)\<rparr>)"

definition BuildDomainExtProcBackend :: "string \<Rightarrow> Domain \<Rightarrow> ExtProcBackendRef \<Rightarrow> json" where
  "BuildDomainExtProcBackend name domain service =
     backend_object name (domNamespace domain)
       [(''app.kubernetes.io/managed-by'', ''fastgateway''), (''fastgateway.dev/gateway-id'', uuid_string (domID domain)),
        (''fastgateway.dev/type'', ''ext-proc''), (''fastgateway.dev/domain-id'', uuid_string (domID domain))]
       [(''endpoints'', JList [endpoint_json ''fqdn'' (epbName service @ ''.'' @ epbNamespace service @ ''.svc.cluster.local'') (epbPort service)])]"

text \<open>\<open>Upsert\<close> and \<open>DeleteByDomainID\<close> of the two policy repositories, on the rows that belong to a domain.\<close>

definition domain_policy_Upsert :: "(db \<Rightarrow> 'c PolicyRow list) \<Rightarrow> ('c PolicyRow list \<Rightarrow> db \<Rightarrow> db) \<Rightarrow> 'c PolicyRow \<Rightarrow> unit m" where
  "domain_policy_Upsert rows put p =
     bind (attempt (policy_Get rows (prwRouteID p))) (\<lambda>r. case r of
       Inr _ \<Rightarrow> exec (\<lambda>d. put (row_save prwRouteID p (rows d)) d)
     | Inl _ \<Rightarrow> updates ErrDB (\<lambda>d.
         if row_get domID (prwRouteID p) (domains d) = None then Inl ErrDB
         else if row_get prwRouteID (prwRouteID p) (rows d) \<noteq> None then Inl ErrDuplicatedKey
         else Inr (put (row_save prwRouteID p (rows d)) d)))"

abbreviation put_domain_btp :: "BackendTrafficPolicyConfig PolicyRow list \<Rightarrow> db \<Rightarrow> db" where
  "put_domain_btp x d \<equiv> d\<lparr>domain_traffic_policies := x\<rparr>"

abbreviation put_domain_eep :: "EnvoyExtensionPolicyConfig PolicyRow list \<Rightarrow> db \<Rightarrow> db" where
  "put_domain_eep x d \<equiv> d\<lparr>domain_extension_policies := x\<rparr>"

definition applyDomainBackendTrafficPolicy :: "Domain \<Rightarrow> BackendTrafficPolicyConfig option \<Rightarrow> unit m" where
  "applyDomainBackendTrafficPolicy domain btpConfig =
     (let c = (case btpConfig of Some c \<Rightarrow> if BackendTrafficPolicyConfig_IsEmpty c then None else Some c | None \<Rightarrow> None) in
      case c of
        None \<Rightarrow>
          bind (attempt (policy_DeleteByRouteID domain_traffic_policies put_domain_btp (domID domain))) (\<lambda>_.
          bind (attempt (DeleteBackendTrafficPolicy (domProjectID domain) (domNamespace domain) (domK8sGatewayName domain @ ''-btp''))) (\<lambda>_. ret ()))
      | Some c \<Rightarrow>
          bind (wrap_error ''failed to save domain BTP: %w'' (domain_policy_Upsert domain_traffic_policies put_domain_btp
            \<lparr>prwRouteID = domID domain, prwProjectID = domProjectID domain, prwConfig = c\<rparr>)) (\<lambda>_.
          case BuildDomainBackendTrafficPolicyConfig domain c of None \<Rightarrow> ret ()
          | Some k8sConfig \<Rightarrow> wrap_error ''failed to apply domain BackendTrafficPolicy to Kubernetes: %w''
              (UpdateBackendTrafficPolicy (domProjectID domain) k8sConfig)))"

definition applyDomainEnvoyExtensionPolicy :: "Domain \<Rightarrow> EnvoyExtensionPolicyConfig option \<Rightarrow> unit m" where
  "applyDomainEnvoyExtensionPolicy domain extConfig =
     (let p = domProjectID domain; ns = domNamespace domain; extProcBackendName = GenerateExtProcBackendNameForDomain (domK8sGatewayName domain);
          c = (case extConfig of Some c \<Rightarrow> if EEP_HasContent c then Some c else None | None \<Rightarrow> None) in
      case c of
        None \<Rightarrow>
          bind (attempt (policy_DeleteByRouteID domain_extension_policies put_domain_eep (domID domain))) (\<lambda>_.
          bind (attempt (DeleteBackend p ns extProcBackendName)) (\<lambda>_.
          bind (attempt (DeleteEnvoyExtensionPolicy p ns (domK8sGatewayName domain @ ''-eep''))) (\<lambda>_. ret ())))
      | Some c \<Rightarrow>
          bind (wrap_error ''failed to save domain extension policy: %w'' (domain_policy_Upsert domain_extension_policies put_domain_eep
            \<lparr>prwRouteID = domID domain, prwProjectID = p, prwConfig = c\<rparr>)) (\<lambda>_.
          bind (case eepExtProc c of
              Some e \<Rightarrow> wrap_error ''failed to create/update domain ext-proc Backend: %w''
                (UpdateBackendUnstructured p ns extProcBackendName (BuildDomainExtProcBackend extProcBackendName domain (epxBackendRef e)))
            | None \<Rightarrow> bind (attempt (DeleteBackend p ns extProcBackendName)) (\<lambda>_. ret ())) (\<lambda>_.
          case Option.bind (BuildDomainEnvoyExtensionPolicyConfig domain c) BuildEnvoyExtensionPolicy of None \<Rightarrow> ret ()
          | Some j \<Rightarrow> wrap_error ''failed to apply domain EnvoyExtensionPolicy to Kubernetes: %w''
              (UpdateEnvoyExtensionPolicy p ns (domK8sGatewayName domain @ ''-eep'') j))))"

section \<open>Settings\<close>

record UpdateDomainSettingsInput =
  usiClientConnection :: "ClientConnectionConfig option"
  usiTimeout :: "TimeoutConfig option"
  usiHTTP3 :: "bool option"
  usiTLS :: "TLSSettingsConfig option"
  usiClientIPDetection :: "ClientIPDetectionConfig option"
  usiMTLS :: "DomainMTLSConfig option"
  usiBackendTrafficPolicy :: "BackendTrafficPolicyConfig option"
  usiExtensionPolicy :: "EnvoyExtensionPolicyConfig option"

definition GetDomainSettings :: "uuid \<Rightarrow> DomainSettings m" where
  "GetDomainSettings i = DomainSettingsRepo_GetByDomainID i"

definition domain_traffic_check :: "BackendTrafficPolicyConfig \<Rightarrow> check" where
  "domain_traffic_check b = checks
     [fail_if (btpHealthCheck b \<noteq> None) ''healthCheck is not supported at domain level'',
      fail_if (btpRateLimit b \<noteq> None) ''rateLimit is not supported at domain level'',
      fail_if (btpFaultInjection b \<noteq> None) ''faultInjection is not supported at domain level'',
      wrap_check ''invalid retry config: %w'' (check_opt RetryConfig_Validate (btpRetry b)),
      wrap_check ''invalid loadBalancer config: %w'' (check_opt LoadBalancerConfig_Validate (btpLoadBalancer b)),
      wrap_check ''invalid circuitBreaker config: %w'' (check_opt CircuitBreakerConfig_Validate (btpCircuitBreaker b)),
      wrap_check ''invalid requestBuffer config: %w'' (check_opt RequestBufferConfig_Validate (btpRequestBuffer b)),
      wrap_check ''invalid responseOverride[%d]: %w'' (check_each ResponseOverrideRule_Validate (btpResponseOverride b)),
      wrap_check ''invalid BTP timeout config: %w'' (check_opt BTPTimeoutConfig_Validate (btpTimeout b))]"

definition domain_settings_check :: "(string \<Rightarrow> string option) \<Rightarrow> UpdateDomainSettingsInput \<Rightarrow> check" where
  "domain_settings_check parse_uri i = checks
     [wrap_check ''invalid client connection config: %w'' (check_opt ClientConnectionConfig_Validate (usiClientConnection i)),
      wrap_check ''invalid timeout config: %w'' (check_opt TimeoutConfig_Validate (usiTimeout i)),
      wrap_check ''invalid TLS config: %w'' (check_opt TLSSettingsConfig_Validate (usiTLS i)),
      wrap_check ''invalid clientIPDetection: %w'' (check_opt ClientIPDetectionConfig_Validate (usiClientIPDetection i)),
      wrap_check ''invalid mTLS config: %w'' (check_opt ValidateShape (usiMTLS i)),
      check_opt domain_traffic_check (usiBackendTrafficPolicy i),
      wrap_check ''invalid extension policy config: %w'' (check_opt (EnvoyExtensionPolicyConfig_Validate parse_uri) (usiExtensionPolicy i))]"

definition settings_of :: "UpdateDomainSettingsInput \<Rightarrow> DomainSettingsConfig" where
  "settings_of i = \<lparr>dscClientConnection = usiClientConnection i, dscClientIPDetection = usiClientIPDetection i, dscTimeout = usiTimeout i,
     dscHTTP3 = usiHTTP3 i, dscTLS = usiTLS i, dscMTLS = usiMTLS i\<rparr>"

definition remove_traffic_settings :: "Domain \<Rightarrow> unit m" where
  "remove_traffic_settings domain =
     bind (attempt (DeleteClientTrafficPolicy (domProjectID domain) (domNamespace domain) (domK8sGatewayName domain @ ''-ctp''))) (\<lambda>_.
     bind (attempt (DomainSettingsRepo_DeleteByDomainID (domID domain))) (\<lambda>_. ret ()))"

text \<open>The stored settings, where there are some, and whether the warning about missing authorities is given.\<close>

definition UpdateDomainSettings :: "(string \<Rightarrow> string option) \<Rightarrow> uuid \<Rightarrow> UpdateDomainSettingsInput \<Rightarrow> (DomainSettings option \<times> bool) m" where
  "UpdateDomainSettings parse_uri domainID input =
     bind (wrap_error ''domain not found: %w'' (DomainRepo_GetByID domainID)) (\<lambda>domain.
     bind (lift_check (domain_settings_check parse_uri input)) (\<lambda>_.
     let ctpConfig = settings_of input; ctpEmpty = DomainSettingsConfig_IsEmpty ctpConfig;
         btpEmpty = absent BackendTrafficPolicyConfig_IsEmpty (usiBackendTrafficPolicy input);
         extEmpty = absent (\<lambda>e. \<not> EEP_HasContent e) (usiExtensionPolicy input)
     in if ctpEmpty \<and> btpEmpty \<and> extEmpty
        then bind (remove_traffic_settings domain) (\<lambda>_.
          bind (attempt (applyDomainBackendTrafficPolicy domain None)) (\<lambda>_.
          bind (attempt (applyDomainEnvoyExtensionPolicy domain None)) (\<lambda>_. ret (None, False))))
        else
          bind (if ctpEmpty then bind (remove_traffic_settings domain) (\<lambda>_. ret False)
            else bind (wrap_error ''failed to save domain settings: %w'' (DomainSettingsRepo_Upsert
                \<lparr>dstID = 0, dstDomainID = domainID, dstProjectID = domProjectID domain, dstConfig = ctpConfig\<rparr>)) (\<lambda>_.
              applyEnvoyGatewayClientTrafficPolicy domain ctpConfig)) (\<lambda>warnings.
          bind (applyDomainBackendTrafficPolicy domain (usiBackendTrafficPolicy input)) (\<lambda>_.
          bind (applyDomainEnvoyExtensionPolicy domain (usiExtensionPolicy input)) (\<lambda>_.
          bind (attempt (DomainSettingsRepo_GetByDomainID domainID)) (\<lambda>r.
          ret (case r of Inl _ \<Rightarrow> (None, False) | Inr s \<Rightarrow> (Some s, warnings))))))))"

definition GetDomainBackendTrafficPolicy :: "uuid \<Rightarrow> BackendTrafficPolicyConfig PolicyRow m" where
  "GetDomainBackendTrafficPolicy i = policy_Get domain_traffic_policies i"

definition GetDomainEnvoyExtensionPolicy :: "uuid \<Rightarrow> EnvoyExtensionPolicyConfig PolicyRow m" where
  "GetDomainEnvoyExtensionPolicy i = policy_Get domain_extension_policies i"

section \<open>What reaches the gateway\<close>

text \<open>The authorities of a domain, read off the tables: those of its settings, then those of the clients that are actively attached with a certificate.\<close>

definition domain_authorities :: "db \<Rightarrow> Domain \<Rightarrow> DomainMTLSConfig \<Rightarrow> SecretRefPolicyConfig list" where
  "domain_authorities d x m = map (\<lambda>ca. ca_secret (mcaSecretName ca)) (dmCACerts m) @
     map (\<lambda>c. ca_secret (clMTLSCASecret c)) (filter (\<lambda>c. clMTLSCASecret c \<noteq> [] \<and> clMTLSEnabled c \<and> (\<exists>a \<in> set (attachments d). attClientID a = clID c \<and>
       attEnableMTLS a \<and> attStatus a = AttachmentStatusActive \<and> (\<exists>r \<in> set (routes d). rtID r = attRouteID a \<and> rtDomainID r = Some (domID x)))) (clients d))"

abbreviation domain_ctp :: "Domain \<Rightarrow> k8s_key" where
  "domain_ctp x \<equiv> ctp_key (domProjectID x) (domNamespace x) (domK8sGatewayName x @ ''-ctp'')"

lemma hoare_collectCASecretRefs:
  "hoare (\<lambda>d. d = d0) (collectCASecretRefs x c)
     (\<lambda>rs d. d = d0 \<and> rs = (case enabled_mtls c of None \<Rightarrow> [] | Some m \<Rightarrow> domain_authorities d0 x m)) (\<lambda>_ d. d = d0)"
  unfolding collectCASecretRefs_def GetMTLSClientsForDomain_def query_def
  by (rule hoare_pre, (rule wp)+) (auto simp: domain_authorities_def list_ex_iff conj_commute split: option.splits)

lemma hoare_CreateClientTrafficPolicy:
  "hoare (\<lambda>d. d = d0) (CreateClientTrafficPolicy p c)
     (\<lambda>_ d. same_tables d0 d \<and> (\<forall>j. BuildClientTrafficPolicy c = Some j \<longrightarrow> k8s_lookup (ctp_key p (ctNamespace c) (ctName c)) d = Some (PolicyObj j))) (\<lambda>_ d. same_tables d0 d)"
  unfolding CreateClientTrafficPolicy_def UpdateClientTrafficPolicy_def DeleteClientTrafficPolicy_def delete_object_def Let_def k8s_Get_def k8s_Create_def
    k8s_Update_def k8s_Delete_def
  by (rule hoare_pre, (rule wp)+) (auto split: option.splits)

lemma map_of_fields [simp]:
  "map_of (obj_field k fs) = (if fs = [] then Map.empty else [k \<mapsto> JObj fs])" "map_of (opt_field k f y) = (case y of None \<Rightarrow> Map.empty | Some v \<Rightarrow> [k \<mapsto> f v])"
  "map_of (list_field k f ys) = (if ys = [] then Map.empty else [k \<mapsto> JList (map f ys)])"
  by (simp_all add: obj_field_def opt_field_def list_field_def split: option.splits)

lemma validation_reaches_manifest:
  assumes "ctClientValidation c = Some v"
  shows "\<exists>j. BuildClientTrafficPolicy c = Some j \<and> json_at [''spec'', ''tls'', ''clientValidation''] j = Some (validation_json v)"
proof -
  have tls: "map_of (fields_of tls_fields t) ''clientValidation'' = None" for t
    by (auto simp: fields_of_def tls_fields_def ptr_field_def strings_field_def split: option.splits)
  have "map_of (ctp_features c) ''tls'' = Some (JObj (fields_of tls_fields (ctTLS c) @ [(''clientValidation'', validation_json v)]))"
    using assms by (simp add: ctp_features_def map_add_def opt_field_def split: option.splits)
  moreover from this have "ctp_features c \<noteq> []" by auto
  ultimately show ?thesis by (simp add: BuildClientTrafficPolicy_def tls map_add_def)
qed

text \<open>What the gateway asks of a connection, as the manifest of the policy in the cluster says it.\<close>

definition enforces :: "db \<Rightarrow> Domain \<Rightarrow> DomainMTLSConfig \<Rightarrow> SecretRefPolicyConfig list \<Rightarrow> bool" where
  "enforces d x m refs \<longleftrightarrow> (\<exists>j. k8s_lookup (domain_ctp x) d = Some (PolicyObj j) \<and>
     json_at [''spec'', ''tls'', ''clientValidation''] j = Some (validation_json \<lparr>cvCACertificateRefs = refs, cvOptional = dmOptional m,
       cvSANMatchers = dmSANWhitelist m, cvCertificateHashes = dmHashWhitelist m\<rparr>))"

lemma hoare_applyEnvoyGatewayClientTrafficPolicy:
  assumes "enabled_mtls c = Some m"
  shows "hoare (\<lambda>d. d = d0) (applyEnvoyGatewayClientTrafficPolicy x c)
     (\<lambda>w d. same_tables d0 d \<and> enforces d x m (domain_authorities d0 x m) \<and> w = (domain_authorities d0 x m = [])) (\<lambda>_ d. same_tables d0 d)"
proof -
  have plan: "\<exists>j. BuildClientTrafficPolicy (BuildClientTrafficPolicyConfig x c refs) = Some j \<and>
      json_at [''spec'', ''tls'', ''clientValidation''] j = Some (validation_json \<lparr>cvCACertificateRefs = refs, cvOptional = dmOptional m,
        cvSANMatchers = dmSANWhitelist m, cvCertificateHashes = dmHashWhitelist m\<rparr>)" for refs
    by (rule validation_reaches_manifest) (simp add: BuildClientTrafficPolicyConfig_def assms)
  have key: "ctNamespace (BuildClientTrafficPolicyConfig x c refs) = domNamespace x" "ctName (BuildClientTrafficPolicyConfig x c refs) = domK8sGatewayName x @ ''-ctp''" for refs
    by (simp_all add: BuildClientTrafficPolicyConfig_def)
  show ?thesis unfolding applyEnvoyGatewayClientTrafficPolicy_def
    by (rule hoare_pre, (rule hoare_readonly [OF hoare_collectCASecretRefs] hoare_spec [OF hoare_CreateClientTrafficPolicy] | rule wp)+)
      (use assms plan [of "domain_authorities d0 x m"] in \<open>auto simp: key enforces_def\<close>)
qed

text \<open>The settings row and the policy object of a domain that its other policies leave alone.\<close>

definition settled_ctp :: "Domain \<Rightarrow> DomainSettings list \<Rightarrow> k8s_object option \<Rightarrow> db \<Rightarrow> bool" where
  "settled_ctp x rows y d \<longleftrightarrow> domain_settings d = rows \<and> k8s_lookup (domain_ctp x) d = y"

lemma keeps_settled_verbs:
  assumes "k \<noteq> domain_ctp x"
  shows "keeps (settled_ctp x rows y) (k8s_Get k)" "keeps (settled_ctp x rows y) (k8s_Create k z)" "keeps (settled_ctp x rows y) (k8s_Update k z)"
    "keeps (settled_ctp x rows y) (k8s_Delete k)"
  unfolding k8s_Get_def k8s_Create_def k8s_Update_def k8s_Delete_def
  using assms by (auto simp: settled_ctp_def k8s_put_def k8s_remove_def k8s_lookup_def split: option.splits intro!: keeps_updates)

lemma keeps_settled_policies: "keeps (settled_ctp x rows y) (applyDomainBackendTrafficPolicy x b)" "keeps (settled_ctp x rows y) (applyDomainEnvoyExtensionPolicy x e)"
  unfolding applyDomainBackendTrafficPolicy_def applyDomainEnvoyExtensionPolicy_def domain_policy_Upsert_def policy_Get_def policy_DeleteByRouteID_def query_def exec_def
    UpdateBackendTrafficPolicy_def DeleteBackendTrafficPolicy_def UpdateEnvoyExtensionPolicy_def DeleteEnvoyExtensionPolicy_def DeleteBackend_def
    UpdateBackendUnstructured_def upsert_object_def delete_object_def Let_def
  by (intro keeps_intros keeps_settled_verbs keeps_writes keeps_updates;
      auto simp: settled_ctp_def k8s_lookup_def btp_key_def eep_key_def backend_object_key_def ctp_key_def split: if_splits)+

lemma hoare_settled_policies:
  "hoare (\<lambda>d. d = d0) (applyDomainBackendTrafficPolicy x b) (\<lambda>_ d. settled_ctp x (domain_settings d0) (k8s_lookup (domain_ctp x) d0) d) (\<lambda>_ _. True)"
  "hoare (\<lambda>d. d = d0) (applyDomainEnvoyExtensionPolicy x e) (\<lambda>_ d. settled_ctp x (domain_settings d0) (k8s_lookup (domain_ctp x) d0) d) (\<lambda>_ _. True)"
  by (rule hoare_pre, rule hoare_post [OF keeps_hoare], rule keeps_settled_policies, auto simp: settled_ctp_def)+

definition saved_settings :: "db \<Rightarrow> db \<Rightarrow> bool" where
  "saved_settings d0 d \<longleftrightarrow> d = d0\<lparr>domain_settings := domain_settings d, next_id := next_id d\<rparr>"

lemma hoare_DomainSettingsRepo_Upsert:
  "hoare (\<lambda>d. d = d0) (DomainSettingsRepo_Upsert s)
     (\<lambda>s' d. saved_settings d0 d \<and> row_get dstDomainID (dstDomainID s) (domain_settings d) = Some s' \<and> dstConfig s' = dstConfig s)
     (\<lambda>_ d. d = d0)"
  unfolding DomainSettingsRepo_Upsert_def DomainSettingsRepo_GetByDomainID_def query_def exec_def Let_def
  by (rule hoare_pre, (rule wp)+)
    (auto simp: saved_settings_def found_def row_get_append row_get_def [of _ _ "[_]"] split: option.splits if_splits)

lemma domain_authorities_frame: "saved_settings d d' \<Longrightarrow> domain_authorities d' x m = domain_authorities d x m"
  unfolding saved_settings_def by (erule ssubst) (simp add: domain_authorities_def)

lemma same_tables_settings: "same_tables d0 d \<Longrightarrow> domain_settings d = domain_settings d0"
  by (erule same_tablesE) simp

lemma enforces_settled: "settled_ctp x rows (k8s_lookup (domain_ctp x) d) d' \<Longrightarrow> enforces d x m refs \<Longrightarrow> enforces d' x m refs"
  by (simp add: settled_ctp_def enforces_def)

text \<open>C9. Mutual TLS that an operator switches on is in force: after an update of the settings of a domain that reports success with mTLS enabled, whatever
  calls failed on the way, the settings are stored, and the client traffic policy of the gateway in the cluster validates client certificates against
  exactly the authorities of the domain and of its active clients, with the requested names, hashes and optional flag; where there is no authority
  the block is still there. The settings that are returned come with a warning exactly when there is no authority.\<close>

theorem mtls_is_enforced:
  assumes "UpdateDomainSettings parse_uri i input (d, fs) = (Inr res, (d', fs'))" "usiMTLS input = Some m" "dmEnabled m"
    "row_get domID i (domains d) = Some x"
  shows "enforces d' x m (domain_authorities d x m) \<and> (\<exists>s. row_get dstDomainID i (domain_settings d') = Some s \<and> dstConfig s = settings_of input) \<and>
    (case res of (None, w) \<Rightarrow> \<not> w | (Some s, w) \<Rightarrow> dstConfig s = settings_of input \<and> w = (domain_authorities d x m = []))"
proof -
  have on: "enabled_mtls (settings_of input) = Some m" "\<not> DomainSettingsConfig_IsEmpty (settings_of input)"
    using assms(2,3) by (auto simp: enabled_mtls_def settings_of_def DomainSettingsConfig_IsEmpty_def absent_def)
  have "hoare (\<lambda>e. e = d) (UpdateDomainSettings parse_uri i input) (\<lambda>res e. enforces e x m (domain_authorities d x m) \<and>
      (\<exists>s. row_get dstDomainID i (domain_settings e) = Some s \<and> dstConfig s = settings_of input) \<and>
      (case res of (None, w) \<Rightarrow> \<not> w | (Some s, w) \<Rightarrow> dstConfig s = settings_of input \<and> w = (domain_authorities d x m = []))) (\<lambda>_ _. True)"
    unfolding UpdateDomainSettings_def DomainRepo_GetByID_def DomainSettingsRepo_GetByDomainID_def query_def Let_def lift_check_def
    by (simp only: on(2) simp_thms if_False, rule hoare_pre, (rule hoare_spec [OF hoare_settled_policies(1)] hoare_spec [OF hoare_settled_policies(2)] hoare_spec [OF hoare_DomainSettingsRepo_Upsert]
        hoare_spec [OF hoare_applyEnvoyGatewayClientTrafficPolicy [OF on(1)]] | rule wp)+)
      (use on assms(4) in \<open>auto simp: found_def settled_ctp_def enforces_def same_tables_settings domain_authorities_frame split: sum.splits option.splits\<close>)
  from hoare_Inr [OF this refl assms(1)] show ?thesis .
qed

definition sample_mtls :: DomainMTLSConfig where
  "sample_mtls = empty_mtls\<lparr>dmEnabled := True\<rparr>"

definition sample_settings :: "DomainMTLSConfig \<Rightarrow> UpdateDomainSettingsInput" where
  "sample_settings m = \<lparr>usiClientConnection = None, usiTimeout = None, usiHTTP3 = None, usiTLS = None, usiClientIPDetection = None, usiMTLS = Some m,
     usiBackendTrafficPolicy = None, usiExtensionPolicy = None\<rparr>"

definition sample_one_domain :: db where
  "sample_one_domain = empty_db\<lparr>domains := [sample_domain]\<rparr>"

definition sample_switched_on :: "(error + (DomainSettings option \<times> bool)) \<times> db \<times> bool list" where
  "sample_switched_on = UpdateDomainSettings (\<lambda>_. None) 5 (sample_settings sample_mtls) (sample_one_domain, [])"

theorem mtls_is_enforced_witness:
  "\<exists>d' s. sample_switched_on = (Inr (Some s, True), (d', [])) \<and> enforces d' sample_domain sample_mtls [] \<and> dstConfig s = settings_of (sample_settings sample_mtls)"
proof -
  have ok: "\<not> isl (fst sample_switched_on)" "snd (snd sample_switched_on) = []" "fst (projr (fst sample_switched_on)) \<noteq> None"
    "snd (projr (fst sample_switched_on))" by code_simp+
  have "fst sample_switched_on = Inr (Some (the (fst (projr (fst sample_switched_on)))), True)"
    using ok by (metis (full_types) option.collapse prod.collapse sum.collapse(2))
  then obtain s d' where run: "sample_switched_on = (Inr (Some s, True), (d', []))" using ok(2) by (metis prod.collapse)
  have "usiMTLS (sample_settings sample_mtls) = Some sample_mtls" "dmEnabled sample_mtls" "row_get domID 5 (domains sample_one_domain) = Some sample_domain"
    "domain_authorities sample_one_domain sample_domain sample_mtls = []" by code_simp+
  with mtls_is_enforced [OF run [unfolded sample_switched_on_def]] run show ?thesis by auto
qed

definition with_authority :: "string \<Rightarrow> uuid \<Rightarrow> string \<Rightarrow> DomainMTLSConfig \<Rightarrow> DomainMTLSConfig" where
  "with_authority caID i name m = m\<lparr>dmCACerts := dmCACerts m @ [\<lparr>mcaID = caID, mcaName = name,
     mcaSecretName = ''fastgateway-'' @ take 8 (uuid_string i) @ ''-mtls-ca-'' @ caID, mcaSecretKey = ''ca.crt''\<rparr>]\<rparr>"


definition sample_trusting :: db where
  "sample_trusting = sample_one_domain\<lparr>domain_settings := [\<lparr>dstID = 90, dstDomainID = 5, dstProjectID = 1, dstConfig = empty_settings\<lparr>dscMTLS :=
     Some (with_authority ''ca1'' 5 ''root'' sample_mtls)\<rparr>\<rparr>]\<rparr>"

definition sample_added :: "(error + DomainSettings) \<times> db \<times> bool list" where
  "sample_added = AddDomainMTLSCA (\<lambda>_. None) ''ca2'' 5 ''next'' ''P'' (sample_trusting, [])"


section \<open>Gaps\<close>

text \<open>Removing the last authority switches mTLS off in the stored settings, but the policy in the cluster stays when nothing else is configured: the gateway
  goes on validating against the secret that was just deleted.\<close>

lemma removed_authority_stays_in_cluster:
  "let d1 = reached (EnsureMTLSClientTrafficPolicy sample_domain (sample_trusting, [])); r = RemoveDomainMTLSCA 5 ''ca1'' (d1, []) in
   k8s_lookup (domain_ctp sample_domain) d1 \<noteq> None \<and> map (map_option dmEnabled \<circ> dscMTLS \<circ> dstConfig) (domain_settings (reached r)) = [Some False] \<and>
   k8s_lookup (domain_ctp sample_domain) (reached r) = k8s_lookup (domain_ctp sample_domain) d1"
  by code_simp

text \<open>A reload that fails after everything was written reports success without settings and without the warning.\<close>

lemma failed_reload_drops_warning:
  "fst (UpdateDomainSettings (\<lambda>_. None) 5 (sample_settings sample_mtls) (sample_one_domain, replicate 10 False @ [True])) = Inr (None, False)"
  by code_simp

end
