(* ===== verification/RouteDeploy.thy ===== *)
theory RouteDeploy
  imports DomainPolicies
begin

text \<open>
  Deploying the routes of domains: \<open>Deploy\<close> of \<open>src/internal/services/route_deploy_service.go\<close> with \<open>route_deploy_backends.go\<close>,
  \<open>route_deploy_clients.go\<close> and the extension policy of \<open>route_deploy_policies.go\<close>, and \<open>categorizeClientAttachments\<close> of \<open>route_assembler.go\<close>.

  The image of the WAF module comes from the configuration of the server and is an argument \<open>waf\<close>.
\<close>

section \<open>Backends and direct responses\<close>

definition deployBackends :: "Route \<Rightarrow> Domain \<Rightarrow> unit m" where
  "deployBackends route domain = for_each (backend_configs route domain)
     (\<lambda>c. wrap_error ''failed to create/update Backend CRD for %s: %w'' (UpdateBackend (domProjectID domain) c))"

definition deleteBackends :: "Route \<Rightarrow> Domain \<Rightarrow> unit m" where
  "deleteBackends route domain = DeleteBackendsByRoute (domProjectID domain) (domNamespace domain) (uuid_string (rtID route))"

definition cleanupStaleBackends :: "Route \<Rightarrow> Domain \<Rightarrow> unit m" where
  "cleanupStaleBackends route domain = DeleteStaleBackendsByRoute (domProjectID domain) (domNamespace domain) (uuid_string (rtID route))
     (map bcName (backend_configs route domain))"

definition deployDirectResponse :: "Route \<Rightarrow> Domain \<Rightarrow> unit m" where
  "deployDirectResponse route domain = (case rcDirectResponse (rtConfig route) of
     None \<Rightarrow> ret ()
   | Some dr \<Rightarrow>
       bind (if direct_body dr = [] then ret ()
         else wrap_error ''failed to apply ConfigMap: %w'' (ApplyDirectResponseConfigMap (domProjectID domain) (domNamespace domain)
           (config_map_name route) (BuildDirectResponseConfigMap route domain (direct_body dr)))) (\<lambda>_.
       wrap_error ''failed to apply HTTPRouteFilter: %w'' (ApplyHTTPRouteFilter (domProjectID domain) (domNamespace domain)
         (HTTPRouteFilterName (rtK8sRouteName route)) (BuildHTTPRouteFilter route domain dr))))"

definition deleteDirectResponse :: "Route \<Rightarrow> Domain \<Rightarrow> unit m" where
  "deleteDirectResponse route domain = (case rcDirectResponse (rtConfig route) of
     None \<Rightarrow> ret ()
   | Some _ \<Rightarrow>
       bind (attempt (DeleteHTTPRouteFilter (domProjectID domain) (domNamespace domain) (HTTPRouteFilterName (rtK8sRouteName route)))) (\<lambda>_.
       bind (attempt (DeleteDirectResponseConfigMap (domProjectID domain) (domNamespace domain) (config_map_name route))) (\<lambda>_. ret ())))"

section \<open>Extension policies\<close>

text \<open>A stored policy: absent or present; a failed lookup is an error and never an absence.\<close>

definition load_policy :: "string \<Rightarrow> (db \<Rightarrow> 'c PolicyRow list) \<Rightarrow> uuid \<Rightarrow> 'c option m" where
  "load_policy msg rows i = bind (attempt (policy_Get rows i)) (\<lambda>r. case r of
     Inr p \<Rightarrow> ret (Some (prwConfig p))
   | Inl e \<Rightarrow> if errors_Is e ErrRecordNotFound then ret None else throw (Wrap msg e))"

definition deployEnvoyExtensionPolicy :: "WAFConfig \<Rightarrow> Route \<Rightarrow> Domain \<Rightarrow> unit m" where
  "deployEnvoyExtensionPolicy waf route domain =
     bind (load_policy ''load envoy extension policy for route %s: %w'' envoy_extension_policies (rtID route)) (\<lambda>policy.
     bind (load_policy ''load waf policy for route %s: %w'' waf_policies (rtID route)) (\<lambda>wafPolicy.
     let p = domProjectID domain; ns = domNamespace domain; extProcBackendName = GenerateExtProcBackendName (uuid_string (rtID route)) in
     bind (case Option.bind policy eepExtProc of
         Some e \<Rightarrow> wrap_error ''failed to create/update ext-proc Backend: %w'' (UpdateBackendUnstructured p ns extProcBackendName
           (BuildExtProcBackend extProcBackendName domain route (epxBackendRef e)))
       | None \<Rightarrow> bind (attempt (DeleteBackend p ns extProcBackendName)) (\<lambda>_. ret ())) (\<lambda>_.
     case buildEnvoyExtensionPolicyConfig waf route domain policy wafPolicy of
       None \<Rightarrow> DeleteEnvoyExtensionPolicy p ns (EnvoyExtensionPolicyName (rtK8sRouteName route))
     | Some config \<Rightarrow> (case BuildEnvoyExtensionPolicy config of
         None \<Rightarrow> ret () | Some j \<Rightarrow> UpdateEnvoyExtensionPolicy p (ekNamespace config) (ekName config) j))))"

definition deleteEnvoyExtensionPolicy :: "Route \<Rightarrow> Domain \<Rightarrow> unit m" where
  "deleteEnvoyExtensionPolicy route domain =
     bind (attempt (policy_Get envoy_extension_policies (rtID route))) (\<lambda>policy.
     bind (attempt (policy_Get waf_policies (rtID route))) (\<lambda>wafPolicy.
     case (policy, wafPolicy) of
       (Inl _, Inl _) \<Rightarrow> ret ()
     | _ \<Rightarrow>
         bind (attempt (DeleteBackend (domProjectID domain) (domNamespace domain) (GenerateExtProcBackendName (uuid_string (rtID route))))) (\<lambda>_.
         bind (DeleteEnvoyExtensionPolicy (domProjectID domain) (domNamespace domain) (EnvoyExtensionPolicyName (rtK8sRouteName route))) (\<lambda>_.
         case policy of Inl _ \<Rightarrow> ret () | Inr _ \<Rightarrow> policy_DeleteByRouteID envoy_extension_policies put_eep (rtID route)))))"

section \<open>Clients with a route of their own\<close>

definition client_category :: "ClientRouteAttachment \<Rightarrow> Client \<Rightarrow> string list \<Rightarrow> string \<Rightarrow> AuthorizationHeaderMatch list \<Rightarrow> ClientAuthCategory" where
  "client_category a c cidrs key hdrs =
     (let keyOn = (attEnableAPIKey a \<and> clAPIKeyEnabled c);
          jwtOn = (attEnableJWT a \<and> clJWTEnabled c \<and> clJWTIssuer c \<noteq> [] \<and> clJWTJWKSURL c \<noteq> []);
          mtlsOn = (attEnableMTLS a \<and> clMTLSEnabled c \<and> (clMTLSSANs c \<noteq> [] \<or> clMTLSHashes c \<noteq> []))
      in \<lparr>cacClientID = clID c, cacClientName = clName c, cacEnableIP = attEnableIPAllowlist a, cacEnableAPIKey = attEnableAPIKey a,
          cacEnableJWT = attEnableJWT a, cacEnableMTLS = attEnableMTLS a, cacAPIKey = key,
          cacAPIKeyHeaderName = (if keyOn then if clAPIKeyHeaderName c = [] then ''x-api-key'' else clAPIKeyHeaderName c else []),
          cacClientIDHeaderName = (if per_client_route a then if clClientIDHeaderName c = [] then ''x-client-id'' else clClientIDHeaderName c else []),
          cacIPCIDRs = cidrs,
          cacJWTIssuer = (if jwtOn then clJWTIssuer c else []), cacJWTJWKSURL = (if jwtOn then clJWTJWKSURL c else []),
          cacJWTAudiences = (if jwtOn then clJWTAudiences c else []), cacJWTRequiredClaims = (if jwtOn then clJWTRequiredClaims c else []),
          cacJWTClaimToHeaders = (if jwtOn then clJWTClaimToHeaders c else []),
          cacEnableHeaderAuth = attEnableHeaderAuth a, cacHeaderMatches = hdrs, cacAllowedMethods = clAllowedMethods c,
          cacMTLSSANs = (if mtlsOn then clMTLSSANs c else []), cacMTLSHashes = (if mtlsOn then clMTLSHashes c else []),
          cacMTLSCAPem = (if mtlsOn then clMTLSCAPem c else []), cacRateLimitConfig = attRateLimitConfig a, cacExtAuth = attExtAuth a,
          cacExtAuthBackendName = []\<rparr>)"

definition has_per_client_credential :: "ClientRouteAttachment \<Rightarrow> Client \<Rightarrow> ClientAuthCategory \<Rightarrow> bool" where
  "has_per_client_credential a c cat \<longleftrightarrow> attEnableAPIKey a \<and> clAPIKeyEnabled c \<and> cacAPIKey cat \<noteq> [] \<or>
     attEnableJWT a \<and> clJWTEnabled c \<and> cacJWTIssuer cat \<noteq> [] \<or> attEnableMTLS a \<and> clMTLSEnabled c"

definition category_of :: "ClientRouteAttachment \<Rightarrow> Client \<Rightarrow> ClientAuthCategory m" where
  "category_of a c =
     bind (if attEnableIPAllowlist a
           then bind (wrap_error ''list IP allowlist for client %s: %w'' (ClientIPRepo_ListByClientID (clID c))) (\<lambda>ips. ret (map (\<lambda>x. NormalizeCIDR (cipCIDR x)) ips))
           else ret []) (\<lambda>cidrs.
     bind (if attEnableAPIKey a \<and> clAPIKeyEnabled c \<and> clAPIKeyEncrypted c \<noteq> []
           then (case DecodeString (clAPIKeyEncrypted c) of None \<Rightarrow> throw (Msg ''decode API key for client %s: %w'') | Some key \<Rightarrow> ret key)
           else ret []) (\<lambda>key.
     bind (if attEnableHeaderAuth a
           then bind (wrap_error ''list headers for client %s: %w'' (ClientHeaderRepo_ListByClientID (clID c)))
             (\<lambda>hs. ret (map (\<lambda>h. \<lparr>ahmName = chdName h, ahmValues = chdValues h\<rparr>) hs))
           else ret []) (\<lambda>hdrs. ret (client_category a c cidrs key hdrs))))"

fun categorize :: "ClientRouteAttachment list \<Rightarrow> (ClientAuthCategory list \<times> ClientAuthCategory list \<times> ClientAuthCategory list) m" where
  "categorize [] = ret ([], [], [])"
| "categorize (a # as) =
     (if \<not> attEnableIPAllowlist a \<and> \<not> attEnableAPIKey a \<and> \<not> attEnableJWT a \<and> \<not> attEnableMTLS a \<and> \<not> attEnableHeaderAuth a then categorize as
      else bind (attempt (ClientRepo_GetByID (attClientID a))) (\<lambda>r. case r of
        Inl _ \<Rightarrow> categorize as
      | Inr c \<Rightarrow> bind (category_of a c) (\<lambda>cat. bind (categorize as) (\<lambda>t. case t of (ip, keys, both) \<Rightarrow>
          let credential = has_per_client_credential a c cat in
          ret (if attEnableIPAllowlist a \<and> \<not> credential then (cat # ip, keys, both)
               else if credential \<and> \<not> attEnableIPAllowlist a then (ip, cat # keys, both)
               else if credential then (ip, keys, cat # both) else (ip, keys, both))))))"

definition categorizeClientAttachments :: "uuid \<Rightarrow> (ClientAuthCategory list \<times> ClientAuthCategory list \<times> ClientAuthCategory list) m" where
  "categorizeClientAttachments r =
     bind (wrap_error ''failed to list active attachments: %w'' (AttachmentRepo_ListActiveByRouteID r)) (\<lambda>active.
     bind (attempt (AttachmentRepo_ListApprovedByRouteID r)) (\<lambda>approved.
     categorize (active @ (case approved of Inr as \<Rightarrow> as | Inl _ \<Rightarrow> []))))"

definition empty_traffic_policy :: BackendTrafficPolicyConfig where
  "empty_traffic_policy = \<lparr>btpCompression = [], btpRetry = None, btpLoadBalancer = None, btpCircuitBreaker = None, btpHealthCheck = None,
     btpFaultInjection = None, btpRateLimit = None, btpRequestBuffer = None, btpResponseOverride = [], btpTimeout = None\<rparr>"

definition BuildAPIKeyBackendTrafficPolicyConfig ::
  "Route \<Rightarrow> Domain \<Rightarrow> ClientAuthCategory \<Rightarrow> BackendTrafficPolicyConfig option \<Rightarrow> BackendTrafficPolicyK8s option" where
  "BuildAPIKeyBackendTrafficPolicyConfig route domain client policy =
     (let base = (case policy of Some p \<Rightarrow> if BackendTrafficPolicyConfig_IsEmpty p then None else Some p | None \<Rightarrow> None);
          limit = cacRateLimitConfig client
      in if base = None \<and> limit = None then None
         else let i = (case base of Some p \<Rightarrow> p | None \<Rightarrow> empty_traffic_policy);
                  i' = (if limit \<noteq> None then i\<lparr>btpRateLimit := limit\<rparr> else i)
           in Some (buildBackendTrafficPolicyConfigFromInput (client_route_name route client) (rtProtocol route) (uuid_string (rtID route))
                (domNamespace domain) (uuid_string (domID domain)) i'))"

definition buildAPIKeySecurityPolicyConfig :: "Route \<Rightarrow> Domain \<Rightarrow> ClientAuthCategory \<Rightarrow> bool \<Rightarrow> SecurityPolicyConfig option \<Rightarrow> SecurityPolicyK8s" where
  "buildAPIKeySecurityPolicyConfig route domain client requireIP secPolicy =
     AssembleSecurityPolicyConfig ((assembly route domain (Option.bind secPolicy spcCORS))\<lparr>saTargetName := client_route_name route client,
       saClient := Some client, saRequireIP := requireIP,
       saAPIKeySecretName := (if has_api_key client then GetAPIKeySecretName (cacClientID client) else [])\<rparr>)"

definition ext_auth_backend :: "ClientAuthCategory \<Rightarrow> ExtAuthBackendRef option" where
  "ext_auth_backend client = (case cacExtAuth client of
     None \<Rightarrow> None
   | Some e \<Rightarrow>
       let b = (case (eaType e = ''http'', eaHTTP e) of (True, Some h) \<Rightarrow> Some (eahBackendRef h)
         | _ \<Rightarrow> if eaType e = ''grpc'' then eaGRPC e else None)
       in case b of Some x \<Rightarrow> if eabName x = [] then None else Some x | None \<Rightarrow> None)"

definition deploy_client_ext_auth :: "Route \<Rightarrow> Domain \<Rightarrow> ClientAuthCategory \<Rightarrow> ClientAuthCategory m" where
  "deploy_client_ext_auth route domain client = (case ext_auth_backend client of
     None \<Rightarrow> ret client
   | Some b \<Rightarrow>
       let name = GenerateExtAuthBackendName (uuid_string (rtID route)) (uuid_string (cacClientID client)) in
       bind (wrap_error ''failed to create/update ext-auth Backend for client %s: %w'' (UpdateBackendUnstructured (domProjectID domain) (domNamespace domain)
         name (BuildExtAuthBackend name domain route client b))) (\<lambda>_. ret (client\<lparr>cacExtAuthBackendName := name\<rparr>)))"

definition deploy_client_route :: "Route \<Rightarrow> Domain \<Rightarrow> ClientAuthCategory \<Rightarrow> unit m" where
  "deploy_client_route route domain client =
     (if rtProtocol route = RouteProtocolGRPC
      then let config = buildAPIKeyGRPCRouteConfig route domain client in
        bind (attempt (CreateGRPCRoute (domProjectID domain) config)) (\<lambda>r. case r of Inr _ \<Rightarrow> ret ()
        | Inl _ \<Rightarrow> wrap_error ''failed to create/update per-client GRPCRoute for client %s: %w'' (UpdateGRPCRoute (domProjectID domain) config))
      else let config = buildAPIKeyHTTPRouteConfig route domain client in
        bind (attempt (CreateHTTPRoute (domProjectID domain) config)) (\<lambda>r. case r of Inr _ \<Rightarrow> ret ()
        | Inl _ \<Rightarrow> wrap_error ''failed to create/update per-client HTTPRoute for client %s: %w'' (UpdateHTTPRoute (domProjectID domain) config)))"

definition deploy_client :: "Route \<Rightarrow> Domain \<Rightarrow> bool \<Rightarrow> BackendTrafficPolicyConfig option \<Rightarrow> SecurityPolicyConfig option \<Rightarrow>
    EnvoyExtensionPolicyConfig option \<Rightarrow> ClientAuthCategory \<Rightarrow> unit m" where
  "deploy_client route domain requireIP policy secPolicy extPolicy client0 =
     (if \<not> has_api_key client0 \<and> \<not> has_jwt client0 \<and> \<not> cacEnableMTLS client0 then ret ()
      else
        bind (if has_api_key client0
          then wrap_error ''failed to create API key secret for client %s: %w'' (CreateAPIKeySecret (domProjectID domain) (cacClientID client0) (cacAPIKey client0))
          else ret ()) (\<lambda>_.
        bind (deploy_client_ext_auth route domain client0) (\<lambda>client.
        bind (deploy_client_route route domain client) (\<lambda>_.
        bind (wrap_error ''failed to create/update per-client SecurityPolicy for client %s: %w''
          (UpdateSecurityPolicy (domProjectID domain) (buildAPIKeySecurityPolicyConfig route domain client requireIP secPolicy))) (\<lambda>_.
        bind (case BuildAPIKeyBackendTrafficPolicyConfig route domain client policy of None \<Rightarrow> ret ()
          | Some config \<Rightarrow> wrap_error ''failed to create/update per-client BackendTrafficPolicy for client %s: %w''
              (UpdateBackendTrafficPolicy (domProjectID domain) config)) (\<lambda>_.
        case buildAPIKeyEnvoyExtensionPolicyConfig route domain client extPolicy of None \<Rightarrow> ret ()
        | Some j \<Rightarrow> wrap_error ''failed to create/update per-client EnvoyExtensionPolicy for client %s: %w''
            (UpdateEnvoyExtensionPolicy (domProjectID domain) (domNamespace domain) (EnvoyExtensionPolicyName (client_route_name route client)) j)))))))"

text \<open>The stored policies that the routes of the clients share; a failed lookup counts as no policy.\<close>

definition stored_or_none :: "(db \<Rightarrow> 'c PolicyRow list) \<Rightarrow> uuid \<Rightarrow> 'c option m" where
  "stored_or_none rows i = bind (attempt (policy_Get rows i)) (\<lambda>r. ret (case r of Inr p \<Rightarrow> Some (prwConfig p) | Inl _ \<Rightarrow> None))"

definition deployAPIKeyRoutes :: "Route \<Rightarrow> Domain \<Rightarrow> ClientAuthCategory list \<Rightarrow> bool \<Rightarrow> unit m" where
  "deployAPIKeyRoutes route domain cs requireIP =
     bind (stored_or_none backend_traffic_policies (rtID route)) (\<lambda>policy.
     bind (stored_or_none security_policies (rtID route)) (\<lambda>secPolicy.
     bind (stored_or_none envoy_extension_policies (rtID route)) (\<lambda>extPolicy.
     for_each cs (deploy_client route domain requireIP policy secPolicy extPolicy))))"

text \<open>The certificates of the authorities of the clients; the result tells whether one was written.\<close>

fun deploy_client_cas :: "Domain \<Rightarrow> ClientAuthCategory list \<Rightarrow> bool m" where
  "deploy_client_cas domain [] = ret False"
| "deploy_client_cas domain (c # cs) =
     bind (if cacEnableMTLS c \<and> cacMTLSCAPem c \<noteq> []
       then bind (attempt (CreateOrUpdateSecret (domProjectID domain) FastGatewayNamespace
           (''fastgateway-client-'' @ take 8 (uuid_string (cacClientID c)) @ ''-mtls-ca'') [(''ca.crt'', cacMTLSCAPem c)])) (\<lambda>r. ret (\<not> isl r))
       else ret False) (\<lambda>here.
     bind (deploy_client_cas domain cs) (\<lambda>rest. ret (here \<or> rest)))"

definition deployAPIKeyClients :: "Route \<Rightarrow> Domain \<Rightarrow> unit m" where
  "deployAPIKeyClients route domain =
     bind (categorizeClientAttachments (rtID route)) (\<lambda>t. case t of (_, keys, both) \<Rightarrow>
     bind (deploy_client_cas domain (keys @ both)) (\<lambda>hasMTLSClients.
     bind (if hasMTLSClients then bind (attempt (EnsureMTLSClientTrafficPolicy domain)) (\<lambda>_. ret ()) else ret ()) (\<lambda>_.
     bind (if keys = [] then ret () else deployAPIKeyRoutes route domain keys False) (\<lambda>_.
     if both = [] then ret () else deployAPIKeyRoutes route domain both True))))"

definition cleanupStaleAPIKeyRoutes :: "Route \<Rightarrow> Domain \<Rightarrow> unit m" where
  "cleanupStaleAPIKeyRoutes route domain =
     bind (wrap_error ''failed to list active attachments: %w'' (AttachmentRepo_ListActiveByRouteID (rtID route))) (\<lambda>active.
     bind (attempt (AttachmentRepo_ListApprovedByRouteID (rtID route))) (\<lambda>approved.
     DeleteStaleAPIKeyResources (domProjectID domain) (domNamespace domain) (uuid_string (rtID route)) (rtK8sRouteName route)
       (map (\<lambda>a. take 8 (uuid_string (attClientID a)))
         (filter per_client_route (active @ (case approved of Inr as \<Rightarrow> as | Inl _ \<Rightarrow> []))))))"

definition deleteAllPerClientResources :: "Route \<Rightarrow> Domain \<Rightarrow> unit m" where
  "deleteAllPerClientResources route domain =
     DeleteStaleAPIKeyResources (domProjectID domain) (domNamespace domain) (uuid_string (rtID route)) (rtK8sRouteName route) []"

definition delete_client_objects :: "Route \<Rightarrow> Domain \<Rightarrow> ClientRouteAttachment \<Rightarrow> unit m" where
  "delete_client_objects route domain a =
     (let name = rtK8sRouteName route @ ''-ak-'' @ take 8 (uuid_string (attClientID a)); p = domProjectID domain; ns = domNamespace domain in
      bind (attempt (DeleteBackendTrafficPolicy p ns (BackendTrafficPolicyName name))) (\<lambda>_.
      bind (attempt (DeleteEnvoyExtensionPolicy p ns (EnvoyExtensionPolicyName name))) (\<lambda>_.
      bind (attempt (DeleteSecurityPolicy p ns (SecurityPolicyName name))) (\<lambda>_.
      bind (attempt (if rtProtocol route = RouteProtocolGRPC then DeleteGRPCRoute p ns name else DeleteHTTPRoute p ns name)) (\<lambda>_. ret ())))))"

definition deleteAPIKeyRoutes :: "Route \<Rightarrow> Domain \<Rightarrow> unit m" where
  "deleteAPIKeyRoutes route domain =
     bind (attempt (AttachmentRepo_ListActiveByRouteID (rtID route))) (\<lambda>active.
     bind (attempt (AttachmentRepo_ListApprovedByRouteID (rtID route))) (\<lambda>approved.
     let all = (case active of Inr as \<Rightarrow> as | Inl _ \<Rightarrow> []) @ (case approved of Inr as \<Rightarrow> as | Inl _ \<Rightarrow> []) in
     if all = [] then deleteAllPerClientResources route domain
     else for_each (filter per_client_route all) (delete_client_objects route domain)))"

definition updateClientAttachmentStatuses :: "uuid \<Rightarrow> unit m" where
  "updateClientAttachmentStatuses r =
     bind (attempt (AttachmentRepo_UpdateStatusByRouteID r AttachmentStatusApproved AttachmentStatusActive)) (\<lambda>_. ret ())"

section \<open>Deployment\<close>

definition ensureReferenceGrantsForDomain :: "Route \<Rightarrow> Domain \<Rightarrow> unit m" where
  "ensureReferenceGrantsForDomain route domain =
     for_each (filter (\<lambda>ns. ns \<noteq> [] \<and> ns \<noteq> domNamespace domain) (map beNamespace (rcBackends (rtConfig route))))
       (\<lambda>ns. bind (attempt (ReferenceGrantExists (domProjectID domain) ns (generateReferenceGrantName (domProjectID domain) ns))) (\<lambda>_. ret ()))"

definition apply_base_route :: "Route \<Rightarrow> Domain \<Rightarrow> bool \<Rightarrow> unit m" where
  "apply_base_route route domain create =
     (if rtProtocol route = RouteProtocolGRPC
      then if create then wrap_error ''failed to create GRPCRoute in Kubernetes: %w'' (CreateGRPCRoute (domProjectID domain) (BuildGRPCRouteConfig route domain))
        else wrap_error ''failed to update GRPCRoute in Kubernetes: %w'' (UpdateGRPCRoute (domProjectID domain) (BuildGRPCRouteConfig route domain))
      else if create then wrap_error ''failed to create HTTPRoute in Kubernetes: %w'' (CreateHTTPRoute (domProjectID domain) (BuildHTTPRouteConfig route domain))
        else wrap_error ''failed to update HTTPRoute in Kubernetes: %w'' (UpdateHTTPRoute (domProjectID domain) (BuildHTTPRouteConfig route domain)))"

definition failed_step :: "bool \<Rightarrow> string \<Rightarrow> string" where
  "failed_step create what = ''failed to '' @ (if create then ''create '' else ''update '') @ what @ '' in Kubernetes: %w''"

text \<open>The steps up to the route, and those that follow its security policy.\<close>

definition apply_objects :: "Route \<Rightarrow> Domain \<Rightarrow> bool \<Rightarrow> unit m" where
  "apply_objects route domain create =
     bind (wrap_error (failed_step create ''Backend CRDs'') (deployBackends route domain)) (\<lambda>_.
     bind (if create then ret () else bind (attempt (cleanupStaleBackends route domain)) (\<lambda>_. ret ())) (\<lambda>_.
     bind (wrap_error (failed_step create ''HTTPRouteFilter/ConfigMap'') (deployDirectResponse route domain)) (\<lambda>_.
     apply_base_route route domain create)))"

definition after_route :: "WAFConfig \<Rightarrow> Route \<Rightarrow> Domain \<Rightarrow> bool \<Rightarrow> unit m" where
  "after_route waf route domain create =
     bind (if rtSecurityMode route = SecurityModeClient
       then bind (wrap_error ''failed to deploy API key HTTPRoutes: %w'' (deployAPIKeyClients route domain)) (\<lambda>_.
         bind (attempt (cleanupStaleAPIKeyRoutes route domain)) (\<lambda>_. ret ()))
       else ret ()) (\<lambda>_.
     bind (wrap_error (failed_step create ''BackendTrafficPolicy'')
       (applyBackendTrafficPolicy route (domProjectID domain) (domNamespace domain) (uuid_string (domID domain)))) (\<lambda>_.
     bind (wrap_error (failed_step create ''EnvoyExtensionPolicy'') (deployEnvoyExtensionPolicy waf route domain)) (\<lambda>_.
     updateClientAttachmentStatuses (rtID route))))"

definition apply_route :: "WAFConfig \<Rightarrow> Route \<Rightarrow> Domain \<Rightarrow> bool \<Rightarrow> unit m" where
  "apply_route waf route domain create =
     bind (apply_objects route domain create) (\<lambda>_.
     bind (wrap_error (failed_step create ''SecurityPolicy'') (deploySecurityPolicy route domain)) (\<lambda>_.
     after_route waf route domain create))"

definition remove_route :: "Route \<Rightarrow> Domain \<Rightarrow> unit m" where
  "remove_route route domain =
     (let p = domProjectID domain; ns = domNamespace domain in
      bind (attempt (deleteAPIKeyRoutes route domain)) (\<lambda>_.
      bind (attempt (removeBackendTrafficPolicy route p ns)) (\<lambda>_.
      bind (attempt (deleteEnvoyExtensionPolicy route domain)) (\<lambda>_.
      bind (attempt (deleteSecurityPolicy route domain)) (\<lambda>_.
      bind (if rtProtocol route = RouteProtocolGRPC
        then wrap_error ''failed to delete GRPCRoute from Kubernetes: %w'' (DeleteGRPCRoute p ns (rtK8sRouteName route))
        else wrap_error ''failed to delete HTTPRoute from Kubernetes: %w'' (DeleteHTTPRoute p ns (rtK8sRouteName route))) (\<lambda>_.
      bind (attempt (deleteDirectResponse route domain)) (\<lambda>_.
      bind (attempt (deleteBackends route domain)) (\<lambda>_.
      bind (attempt (ApprovalRepo_DeleteByEntityID ApprovalEntityRoute (rtID route))) (\<lambda>_.
      bind (attempt (AttachmentRepo_ListByRouteID (rtID route))) (\<lambda>r.
      bind (for_each (case r of Inr as \<Rightarrow> as | Inl _ \<Rightarrow> [])
        (\<lambda>a. bind (attempt (ApprovalRepo_DeleteByEntityID ApprovalEntityClientAttachment (attID a))) (\<lambda>_. ret ()))) (\<lambda>_.
      RouteRepo_Delete (rtID route))))))))))))"

definition deploy_route :: "(uuid \<Rightarrow> string \<Rightarrow> bool) \<Rightarrow> WAFConfig \<Rightarrow> Route \<Rightarrow> Approval \<Rightarrow> uuid \<Rightarrow> Route m" where
  "deploy_route has waf route approval deployedBy =
     (if IsL4 route then deployL4 has route approval deployedBy
      else
        bind (deref ''route.DomainID'' (rtDomainID route)) (\<lambda>x.
        bind (DomainRepo_GetByID x) (\<lambda>domain.
        bind (if domNamespace domain = FastGatewayNamespace then ret () else ensureReferenceGrantsForDomain route domain) (\<lambda>_.
        if apAction approval = ApprovalActionDelete then bind (remove_route route domain) (\<lambda>_. ret route)
        else bind (if apAction approval = ApprovalActionCreate \<or> apAction approval = ApprovalActionUpdate
            then apply_route waf route domain (apAction approval = ApprovalActionCreate) else ret ()) (\<lambda>_.
          finishDeploy route approval deployedBy)))))"

definition Deploy :: "(uuid \<Rightarrow> string \<Rightarrow> bool) \<Rightarrow> WAFConfig \<Rightarrow> uuid \<Rightarrow> uuid \<Rightarrow> Route m" where
  "Deploy has waf i deployedBy = bind (deploy_action i) (\<lambda>(route, approval). deploy_route has waf route approval deployedBy)"

section \<open>Frames\<close>

lemma keeps_policy_Get: "keeps I (policy_Get rows i)" "keeps I (load_policy msg rows i)" "keeps I (stored_or_none rows i)"
  unfolding policy_Get_def load_policy_def stored_or_none_def query_def by (intro keeps_intros)+

lemma keeps_attachment_reads: "keeps I (AttachmentRepo_ListActiveByRouteID r)" "keeps I (AttachmentRepo_ListApprovedByRouteID r)" "keeps I (all_attachments r)"
  unfolding AttachmentRepo_ListActiveByRouteID_def AttachmentRepo_ListApprovedByRouteID_def all_attachments_def query_def by (intro keeps_intros)+

lemma keeps_client_reads: "keeps I (ClientRepo_GetByID i)" "keeps I (ClientIPRepo_ListByClientID i)" "keeps I (ClientHeaderRepo_ListByClientID i)"
  unfolding ClientRepo_GetByID_def ClientIPRepo_ListByClientID_def ClientHeaderRepo_ListByClientID_def query_def by (intro keeps_intros)+

lemma keeps_categorize: "keeps I (categorize as)"
  by (induction as) (simp only: categorize.simps category_of_def Let_def, (rule keeps_intros keeps_client_reads | assumption)+)+

lemma keeps_categorizeClientAttachments: "keeps I (categorizeClientAttachments r)"
  unfolding categorizeClientAttachments_def by (intro keeps_intros keeps_attachment_reads keeps_categorize)

lemma keeps_base_authorization: "keeps I (base_authorization r)"
proof -
  have "keeps I (headers_of as)" "keeps I (cidrs_of as)" "keeps I (methods_of seen as)" for as seen
    by (induction as arbitrary: seen) (auto simp: Let_def intro!: keeps_intros keeps_client_reads)
  then show ?thesis
    unfolding base_authorization_def buildClientIPAuthorizationConfig_def collectClientIPCIDRs_def collectClientHeaders_def collectClientMethods_def
      countClientAttachments_def has_per_client_auth_def hasAPIKeyClientAttachments_def hasJWTClientAttachments_def hasMTLSClientAttachments_def
      has_attachment_def
    by (intro keeps_intros keeps_attachment_reads)
qed

section \<open>The objects of a route\<close>

definition route_object :: "Route \<Rightarrow> Domain \<Rightarrow> k8s_key \<times> k8s_object" where
  "route_object r x = (if rtProtocol r = RouteProtocolGRPC
     then (grpc_key (domProjectID x) (domNamespace x) (rtK8sRouteName r), GRPCRouteObj (BuildGRPCRouteObject (BuildGRPCRouteConfig r x)))
     else (http_key (domProjectID x) (domNamespace x) (rtK8sRouteName r), HTTPRouteObj (BuildHTTPRouteObject (BuildHTTPRouteConfig r x))))"

definition backend_objects :: "Route \<Rightarrow> Domain \<Rightarrow> (k8s_key \<times> k8s_object) list" where
  "backend_objects r x = map (\<lambda>c. (backend_object_key (domProjectID x) (bcNamespace c) (bcName c), PolicyObj (BuildBackend c))) (backend_configs r x)"

definition direct_objects :: "Route \<Rightarrow> Domain \<Rightarrow> (k8s_key \<times> k8s_object) list" where
  "direct_objects r x = (case rcDirectResponse (rtConfig r) of None \<Rightarrow> []
   | Some dr \<Rightarrow> (if direct_body dr = [] then [] else [(config_map_key (domProjectID x) (domNamespace x) (config_map_name r),
         PolicyObj (BuildDirectResponseConfigMap r x (direct_body dr)))]) @
       [(hrf_key (domProjectID x) (domNamespace x) (HTTPRouteFilterName (rtK8sRouteName r)), PolicyObj (BuildHTTPRouteFilter r x dr))])"

definition planned_objects :: "Route \<Rightarrow> Domain \<Rightarrow> (k8s_key \<times> k8s_object) list" where
  "planned_objects r x = backend_objects r x @ direct_objects r x @ [route_object r x]"

lemma object_keys_differ [simp]:
  "http_key p ns n \<noteq> backend_object_key p' ns' n'" "grpc_key p ns n \<noteq> backend_object_key p' ns' n'"
  "backend_object_key p' ns' n' \<noteq> http_key p ns n" "backend_object_key p' ns' n' \<noteq> grpc_key p ns n"
  "hrf_key p ns n \<noteq> backend_object_key p' ns' n'" "config_map_key p ns n \<noteq> backend_object_key p' ns' n'"
  "backend_object_key p' ns' n' \<noteq> hrf_key p ns n" "backend_object_key p' ns' n' \<noteq> config_map_key p ns n"
  "hrf_key p ns n \<noteq> config_map_key p' ns' n'" "config_map_key p' ns' n' \<noteq> hrf_key p ns n" "http_key p ns n \<noteq> hrf_key p' ns' n'" "http_key p ns n \<noteq> config_map_key p' ns' n'"
  "grpc_key p ns n \<noteq> hrf_key p' ns' n'" "grpc_key p ns n \<noteq> config_map_key p' ns' n'" "http_key p ns n \<noteq> grpc_key p' ns' n'" "grpc_key p ns n \<noteq> http_key p' ns' n'"
  "sp_key p ns n \<noteq> http_key p' ns' n'" "sp_key p ns n \<noteq> grpc_key p' ns' n'" "sp_key p ns n \<noteq> backend_object_key p' ns' n'" "sp_key p ns n \<noteq> hrf_key p' ns' n'"
  "sp_key p ns n \<noteq> config_map_key p' ns' n'" "http_key p' ns' n' \<noteq> sp_key p ns n" "grpc_key p' ns' n' \<noteq> sp_key p ns n" "backend_object_key p' ns' n' \<noteq> sp_key p ns n"
  "btp_key p ns n \<noteq> http_key p' ns' n'" "btp_key p ns n \<noteq> grpc_key p' ns' n'" "btp_key p ns n \<noteq> backend_object_key p' ns' n'" "btp_key p ns n \<noteq> hrf_key p' ns' n'"
  "btp_key p ns n \<noteq> config_map_key p' ns' n'" "btp_key p ns n \<noteq> sp_key p' ns' n'"
  "eep_key p ns n \<noteq> http_key p' ns' n'" "eep_key p ns n \<noteq> grpc_key p' ns' n'" "eep_key p ns n \<noteq> backend_object_key p' ns' n'" "eep_key p ns n \<noteq> hrf_key p' ns' n'"
  "eep_key p ns n \<noteq> config_map_key p' ns' n'" "eep_key p ns n \<noteq> sp_key p' ns' n'"
  "sp_key p ns n = sp_key p' ns' n' \<longleftrightarrow> p = p' \<and> ns = ns' \<and> n = n'" "http_key p ns n = http_key p' ns' n' \<longleftrightarrow> p = p' \<and> ns = ns' \<and> n = n'"
  "grpc_key p ns n = grpc_key p' ns' n' \<longleftrightarrow> p = p' \<and> ns = ns' \<and> n = n'"
  "backend_object_key p ns n = backend_object_key p' ns' n' \<longleftrightarrow> p = p' \<and> ns = ns' \<and> n = n'"
  by (simp_all add: http_key_def grpc_key_def backend_object_key_def hrf_key_def config_map_key_def sp_key_def btp_key_def eep_key_def)

text \<open>The keys that a deployment of the route protects: those of its own objects and of its security policy.\<close>

definition base_keys :: "Route \<Rightarrow> Domain \<Rightarrow> k8s_key set" where
  "base_keys r x = insert (route_sp_key r x) (keys_of (planned_objects r x))"

lemma backend_config_key:
  assumes "c \<in> set (backend_configs r x)"
  obtains i where "bcNamespace c = domNamespace x" "bcName c = backend_name r i"
  using assms backend_config_names [OF assms] backend_configs_namespace [OF assms] by blast

lemma base_keys_cases:
  assumes "k \<in> base_keys r x"
  shows "k \<in> {route_sp_key r x, http_key (domProjectID x) (domNamespace x) (rtK8sRouteName r), grpc_key (domProjectID x) (domNamespace x) (rtK8sRouteName r)} \<or>
    (\<exists>i. k = backend_object_key (domProjectID x) (domNamespace x) (backend_name r i)) \<or>
    (\<exists>n. k = hrf_key (domProjectID x) (domNamespace x) n \<or> k = config_map_key (domProjectID x) (domNamespace x) n)"
proof -
  consider "k = route_sp_key r x" | "k \<in> keys_of (backend_objects r x)" | "k \<in> keys_of (direct_objects r x)" | "k = fst (route_object r x)"
    using assms by (auto simp: base_keys_def planned_objects_def)
  then show ?thesis
  proof cases
    case 2
    then obtain c where c: "c \<in> set (backend_configs r x)" "k = backend_object_key (domProjectID x) (bcNamespace c) (bcName c)"
      by (auto simp: backend_objects_def)
    from c(1) show ?thesis by (rule backend_config_key) (use c(2) in auto)
  next
    case 3
    then show ?thesis by (auto simp: direct_objects_def split: option.splits if_splits)
  qed (auto simp: route_object_def)
qed

lemma client_names_differ [simp]: "client_route_name r c \<noteq> rtK8sRouteName r" "SecurityPolicyName (client_route_name r c) \<noteq> SecurityPolicyName (rtK8sRouteName r)"
  by (simp_all add: client_route_name_def SecurityPolicyName_def)

lemma k_in_backend_name: "CHR ''k'' \<in> set (backend_name r i)"
  by (simp add: backend_name_def)

lemma k_not_in_digits: "CHR ''k'' \<notin> set (take n (uuid_string i))"
proof -
  have "\<not> is_digit (CHR ''k'')" by code_simp
  then show ?thesis using show_nat_digits [of i] by (auto simp: uuid_string_def list_all_iff dest: in_set_takeD)
qed

lemma ext_auth_name_differs:
  "GenerateExtAuthBackendName (uuid_string i) [] \<noteq> backend_name r j"
  "GenerateExtAuthBackendName (uuid_string i) (uuid_string c) \<noteq> backend_name r j"
proof -
  have "CHR ''k'' \<notin> set (GenerateExtAuthBackendName (uuid_string i) [])" "CHR ''k'' \<notin> set (GenerateExtAuthBackendName (uuid_string i) (uuid_string c))"
    using k_not_in_digits [of 8 i] k_not_in_digits [of 8 c] by (simp_all add: GenerateExtAuthBackendName_def)
  then show "GenerateExtAuthBackendName (uuid_string i) [] \<noteq> backend_name r j"
    "GenerateExtAuthBackendName (uuid_string i) (uuid_string c) \<noteq> backend_name r j"
    using k_in_backend_name [of r j] by (rule_tac [!] notI, simp_all only: refl)
qed

lemma takeWhile_dash: "CHR ''-'' \<notin> set b \<Longrightarrow> takeWhile (\<lambda>c. c \<noteq> CHR ''-'') (b @ CHR ''-'' # a) = b"
  by (induction b) auto

lemma dash_suffix:
  assumes "xs @ CHR ''-'' # ys = us @ CHR ''-'' # vs" "CHR ''-'' \<notin> set ys" "CHR ''-'' \<notin> set vs"
  shows "xs = us"
proof -
  have e: "rev ys @ CHR ''-'' # rev xs = rev vs @ CHR ''-'' # rev us"
    using arg_cong [OF assms(1), of rev] by simp
  have "rev ys = rev vs"
    using takeWhile_dash [of "rev ys" "rev xs"] takeWhile_dash [of "rev vs" "rev us"] assms(2,3) unfolding e by simp
  then show ?thesis using e by simp
qed

lemma ext_proc_name_differs:
  assumes "rtK8sRouteName r \<noteq> ''ext-proc''"
  shows "GenerateExtProcBackendName (uuid_string i) \<noteq> backend_name r j"
proof
  assume eq: "GenerateExtProcBackendName (uuid_string i) = backend_name r j"
  have digits: "CHR ''-'' \<notin> set (uuid_string i)" "CHR ''-'' \<notin> set (show_nat j)"
    using uuid_string_dash [of i] uuid_string_dash [of j] by (simp_all add: uuid_string_def)
  have "''ext-proc-backend'' @ CHR ''-'' # uuid_string i = (rtK8sRouteName r @ ''-backend'') @ CHR ''-'' # show_nat j"
    using eq by (simp add: GenerateExtProcBackendName_def backend_name_def)
  from dash_suffix [OF this digits] have "''ext-proc'' @ ''-backend'' = rtK8sRouteName r @ ''-backend''" by simp
  then show False using assms by (metis append_same_eq)
qed

text \<open>The keys that a deployment writes beside its own objects.\<close>

lemma other_keys:
  "http_key p ns (client_route_name r c) \<notin> base_keys r x" "grpc_key p ns (client_route_name r c) \<notin> base_keys r x"
  "sp_key p ns (SecurityPolicyName (client_route_name r c)) \<notin> base_keys r x" "btp_key p ns n \<notin> base_keys r x" "eep_key p ns n \<notin> base_keys r x"
  "K8sKey p KSecret ns n \<notin> base_keys r x" "ctp_key p ns n \<notin> base_keys r x"
  "backend_object_key p ns (GenerateExtAuthBackendName (uuid_string i) []) \<notin> base_keys r x"
  "backend_object_key p ns (GenerateExtAuthBackendName (uuid_string i) (uuid_string j)) \<notin> base_keys r x"
  "rtK8sRouteName r \<noteq> ''ext-proc'' \<Longrightarrow> backend_object_key p ns (GenerateExtProcBackendName (uuid_string i)) \<notin> base_keys r x"
  by (rule notI, drule base_keys_cases, force simp: route_sp_key_def ext_auth_name_differs ext_proc_name_differs
      http_key_def grpc_key_def sp_key_def btp_key_def eep_key_def ctp_key_def hrf_key_def config_map_key_def backend_object_key_def)+

lemma stale_keys:
  assumes "stale_client_resource (rtK8sRouteName r) expected n" "kind \<in> {KHTTPRoute, KGRPCRoute, KSecurityPolicy, KBackendTrafficPolicy}"
  shows "K8sKey p kind ns n \<notin> base_keys r x"
proof -
  have "HasPrefix n (rtK8sRouteName r @ ''-ak-'')"
    using assms(1) by (auto simp: stale_client_resource_def ExtractClientPrefix_def Let_def split: if_splits)
  then obtain s where n: "n = rtK8sRouteName r @ ''-ak-'' @ s" unfolding HasPrefix_def by (metis append_take_drop_id append_assoc)
  show ?thesis
    using assms(2) by (intro notI, drule_tac base_keys_cases) (auto simp: n route_sp_key_def SecurityPolicyName_def
      http_key_def grpc_key_def sp_key_def hrf_key_def config_map_key_def backend_object_key_def)
qed

text \<open>Every step that follows the route itself keeps the objects under the protected keys.\<close>

lemma not_in_keys: "k \<notin> base_keys r x \<Longrightarrow> keys_of os \<subseteq> base_keys r x \<Longrightarrow> k \<notin> keys_of os"
  by blast

lemmas free_keys = other_keys [THEN not_in_keys]

lemma client_config_names [simp]:
  "hcName (buildAPIKeyHTTPRouteConfig r x c) = client_route_name r c" "gcoName (buildAPIKeyGRPCRouteConfig r x c) = client_route_name r c"
  "skName (buildAPIKeySecurityPolicyConfig r x c q s) = SecurityPolicyName (client_route_name r c)"
  by (simp_all add: buildAPIKeyHTTPRouteConfig_def buildAPIKeyGRPCRouteConfig_def buildAPIKeySecurityPolicyConfig_def assembled_key
      client_route_name_def Let_def)

lemma keeps_deploy_client_ext_auth: "keys_of os \<subseteq> base_keys r x \<Longrightarrow> keeps (has_objects os) (deploy_client_ext_auth r x c)"
  unfolding deploy_client_ext_auth_def UpdateBackendUnstructured_def Let_def by (intro keeps_intros keeps_upsert_object free_keys)

lemma keeps_deploy_client_route: "keys_of os \<subseteq> base_keys r x \<Longrightarrow> keeps (has_objects os) (deploy_client_route r x c)"
  unfolding deploy_client_route_def Let_def by (intro keeps_intros keeps_route_calls) (simp_all add: free_keys)

lemma keeps_deploy_client:
  assumes "keys_of os \<subseteq> base_keys r x"
  shows "keeps (has_objects os) (deploy_client r x q bp sp ep c)"
proof -
  have "\<forall>k \<in> keys_of os. \<forall>p ns n. k \<noteq> K8sKey p KSecret ns n" using assms other_keys(6) by blast
  then show ?thesis
    unfolding deploy_client_def UpdateEnvoyExtensionPolicy_def
    by (intro keeps_intros keeps_secret_calls keeps_policy_calls keeps_deploy_client_ext_auth keeps_deploy_client_route keeps_upsert_object)
      (simp_all add: free_keys(1-9) [OF assms] assms)
qed

lemma keeps_deployAPIKeyRoutes: "keys_of os \<subseteq> base_keys r x \<Longrightarrow> keeps (has_objects os) (deployAPIKeyRoutes r x cs q)"
  unfolding deployAPIKeyRoutes_def by (intro keeps_intros keeps_policy_Get keeps_deploy_client)

lemma keeps_deploy_client_cas:
  assumes "keys_of os \<subseteq> base_keys r x"
  shows "keeps (has_objects os) (deploy_client_cas x cs)"
proof -
  have "\<forall>k \<in> keys_of os. \<forall>p ns n. k \<noteq> K8sKey p KSecret ns n" using assms other_keys(6) by blast
  then show ?thesis by (induction cs) (auto intro!: keeps_intros keeps_secret_calls)
qed

lemma keeps_EnsureMTLSClientTrafficPolicy: "keys_of os \<subseteq> base_keys r x \<Longrightarrow> keeps (has_objects os) (EnsureMTLSClientTrafficPolicy x)"
  unfolding EnsureMTLSClientTrafficPolicy_def applyEnvoyGatewayClientTrafficPolicy_def collectCASecretRefs_def GetMTLSClientsForDomain_def query_def
    DomainSettingsRepo_GetByDomainID_def CreateClientTrafficPolicy_def UpdateClientTrafficPolicy_def DeleteClientTrafficPolicy_def Let_def
  by (intro keeps_intros keeps_delete_object keeps_verbs_other free_keys)

lemma keeps_deployAPIKeyClients: "keys_of os \<subseteq> base_keys r x \<Longrightarrow> keeps (has_objects os) (deployAPIKeyClients r x)"
  unfolding deployAPIKeyClients_def
  by (intro keeps_intros keeps_categorizeClientAttachments keeps_deploy_client_cas keeps_deployAPIKeyRoutes keeps_EnsureMTLSClientTrafficPolicy)

lemma keeps_deleteStale:
  assumes "keys_of os \<subseteq> base_keys r x" "kind \<in> {KHTTPRoute, KGRPCRoute, KSecurityPolicy, KBackendTrafficPolicy}"
  shows "keeps (has_objects os) (deleteStalePerClientResources p kind ns i (rtK8sRouteName r) expected)"
  unfolding deleteStalePerClientResources_def k8s_ListByRoute_def
  by (intro keeps_intros keeps_delete_object not_in_keys [OF _ assms(1)] stale_keys [OF _ assms(2)]) auto

lemma keeps_cleanupStaleAPIKeyRoutes: "keys_of os \<subseteq> base_keys r x \<Longrightarrow> keeps (has_objects os) (cleanupStaleAPIKeyRoutes r x)"
  unfolding cleanupStaleAPIKeyRoutes_def DeleteStaleAPIKeyResources_def Let_def
  by (intro keeps_intros keeps_attachment_reads keeps_deleteStale) auto

lemma keeps_applyBackendTrafficPolicy: "keys_of os \<subseteq> base_keys r x \<Longrightarrow> keeps (has_objects os) (applyBackendTrafficPolicy r p ns g)"
  unfolding applyBackendTrafficPolicy_def by (intro keeps_intros keeps_policy_Get keeps_policy_calls free_keys)

lemma keeps_deployEnvoyExtensionPolicy:
  "keys_of os \<subseteq> base_keys r x \<Longrightarrow> rtK8sRouteName r \<noteq> ''ext-proc'' \<Longrightarrow> keeps (has_objects os) (deployEnvoyExtensionPolicy waf r x)"
  unfolding deployEnvoyExtensionPolicy_def UpdateBackendUnstructured_def DeleteEnvoyExtensionPolicy_def UpdateEnvoyExtensionPolicy_def Let_def
  by (intro keeps_intros keeps_policy_Get keeps_policy_calls keeps_upsert_object keeps_delete_object free_keys)

lemma keeps_updateClientAttachmentStatuses: "keeps (has_objects os) (updateClientAttachmentStatuses i)"
  unfolding updateClientAttachmentStatuses_def AttachmentRepo_UpdateStatusByRouteID_def exec_def
  by (intro keeps_intros keeps_writes) (simp add: has_objects_def k8s_lookup_def)

lemma keeps_deploySecurityPolicy:
  assumes "keys_of os \<subseteq> base_keys r x" "route_sp_key r x \<notin> keys_of os"
  shows "keeps (has_objects os) (deploySecurityPolicy r x)"
proof -
  have "sp_key (domProjectID x) (domNamespace x) (SecurityPolicyName (rtK8sRouteName r)) \<notin> keys_of os" using assms(2) by (simp add: route_sp_key_def)
  then show ?thesis
    unfolding deploySecurityPolicy_def deployGeneralSecurityPolicy_def Let_def
    by (intro keeps_intros keeps_policy_Get keeps_base_authorization keeps_policy_calls)
      (simp_all add: free_keys(1-9) [OF assms(1)] from_db_key for_deploy_key assms(2))
qed

section \<open>What a deployment leaves in the cluster\<close>

text \<open>A call that adds an object to those that are there and writes no table.\<close>

definition adds :: "db \<Rightarrow> (k8s_key \<times> k8s_object) list \<Rightarrow> unit m \<Rightarrow> (k8s_key \<times> k8s_object) list \<Rightarrow> bool" where
  "adds d0 os m os' \<longleftrightarrow> hoare (\<lambda>d. has_objects os d \<and> same_tables d0 d) m (\<lambda>_ d. has_objects os' d \<and> same_tables d0 d) (\<lambda>_ _. True)"

lemma adds_wrap_error: "adds d0 os m os' \<Longrightarrow> adds d0 os (wrap_error f m) os'"
  unfolding adds_def by (rule hoare_wrap_error)

lemma adds_bind: "adds d0 os m os' \<Longrightarrow> (\<And>u. adds d0 os' (f u) os2) \<Longrightarrow> adds d0 os (bind m f) os2"
  unfolding adds_def by (rule hoare_bind)

lemma adds_upsert_object: "k \<notin> keys_of os \<Longrightarrow> adds d0 os (upsert_object f g h k y) ((k, y) # os)"
  unfolding adds_def upsert_object_def map_error_def k8s_Get_def k8s_Create_def k8s_Update_def
  by (rule hoare_pre, (rule wp)+) (auto split: option.splits if_splits simp: has_objects_put)

lemma adds_route_calls:
  "http_key p (hcNamespace h) (hcName h) \<notin> keys_of os \<Longrightarrow>
     adds d0 os (UpdateHTTPRoute p h) ((http_key p (hcNamespace h) (hcName h), HTTPRouteObj (BuildHTTPRouteObject h)) # os)"
  "http_key p (hcNamespace h) (hcName h) \<notin> keys_of os \<Longrightarrow>
     adds d0 os (CreateHTTPRoute p h) ((http_key p (hcNamespace h) (hcName h), HTTPRouteObj (BuildHTTPRouteObject h)) # os)"
  "grpc_key p (gcoNamespace g) (gcoName g) \<notin> keys_of os \<Longrightarrow>
     adds d0 os (UpdateGRPCRoute p g) ((grpc_key p (gcoNamespace g) (gcoName g), GRPCRouteObj (BuildGRPCRouteObject g)) # os)"
  "grpc_key p (gcoNamespace g) (gcoName g) \<notin> keys_of os \<Longrightarrow>
     adds d0 os (CreateGRPCRoute p g) ((grpc_key p (gcoNamespace g) (gcoName g), GRPCRouteObj (BuildGRPCRouteObject g)) # os)"
  unfolding adds_def CreateHTTPRoute_def UpdateHTTPRoute_def CreateGRPCRoute_def UpdateGRPCRoute_def wrap_error_def Let_def k8s_Get_def k8s_Create_def k8s_Update_def
  by (rule hoare_pre, (rule wp)+, auto split: option.splits if_splits simp: has_objects_put)+

lemma adds_for_each:
  assumes "\<And>os c. c \<in> set cs \<Longrightarrow> fst (f c) \<notin> keys_of os \<Longrightarrow> adds d0 os (g c) (f c # os)" "distinct (map (fst \<circ> f) cs)"
    "keys_of os \<inter> (fst \<circ> f) ` set cs = {}"
  shows "adds d0 os (for_each cs g) (rev (map f cs) @ os)"
  using assms
proof (induction cs arbitrary: os)
  case Nil
  then show ?case by (simp add: adds_def hoare_def ret_def)
next
  case (Cons c cs)
  have "adds d0 os (g c) (f c # os)" using Cons.prems by auto
  moreover have "adds d0 (f c # os) (for_each cs g) (rev (map f cs) @ f c # os)"
    by (rule Cons.IH) (use Cons.prems in \<open>auto simp: image_iff\<close>)
  ultimately show ?case by (auto intro: adds_bind)
qed

lemma has_objects_rev [simp]: "has_objects (rev os) d = has_objects os d"
  by (simp add: has_objects_def)

lemma adds_deployBackends: "adds d0 [] (deployBackends r x) (rev (backend_objects r x))"
proof -
  let ?f = "\<lambda>c. (backend_object_key (domProjectID x) (bcNamespace c) (bcName c), PolicyObj (BuildBackend c))"
  let ?n = "\<lambda>k. case k of K8sKey _ _ _ n \<Rightarrow> n"
  have "map ?n (map (fst \<circ> ?f) cs) = map bcName cs" for cs by (simp add: backend_object_key_def)
  then have "distinct (map ?n (map (fst \<circ> ?f) (backend_configs r x)))" using distinct_backend_names [of r x] by (simp only:)
  then have "distinct (map (fst \<circ> ?f) (backend_configs r x))" by (simp only: distinct_map [of ?n])
  from adds_for_each [OF _ this, of d0 _ "[]"] show ?thesis
    unfolding deployBackends_def backend_objects_def by (simp add: adds_wrap_error adds_upsert_object UpdateBackend_def)
qed

lemma adds_keeps: "keeps (has_objects os) m \<Longrightarrow> keeps (same_tables d0) m \<Longrightarrow> adds d0 os m os"
  unfolding adds_def using keeps_conj by (auto simp: keeps_def intro: hoare_post)

lemma adds_cleanupStaleBackends: "adds d0 (rev (backend_objects r x)) (bind (attempt (cleanupStaleBackends r x)) (\<lambda>_. ret ())) (rev (backend_objects r x))"
proof (rule adds_keeps)
  show "keeps (has_objects (rev (backend_objects r x))) (bind (attempt (cleanupStaleBackends r x)) (\<lambda>_. ret ()))"
    unfolding cleanupStaleBackends_def DeleteStaleBackendsByRoute_def list_backends_def k8s_ListByRoute_def
    by (intro keeps_intros keeps_delete_object) (auto simp: backend_objects_def)
  show "keeps (same_tables d0) (bind (attempt (cleanupStaleBackends r x)) (\<lambda>_. ret ()))"
    unfolding cleanupStaleBackends_def DeleteStaleBackendsByRoute_def list_backends_def k8s_ListByRoute_def delete_object_def
    by (intro keeps_intros keeps_k8s_verbs) auto
qed

lemma adds_deployDirectResponse: "adds d0 (rev (backend_objects r x)) (deployDirectResponse r x) (rev (direct_objects r x) @ rev (backend_objects r x))"
proof (cases "rcDirectResponse (rtConfig r)")
  case None
  then show ?thesis by (simp add: deployDirectResponse_def direct_objects_def adds_def hoare_def ret_def)
next
  case (Some dr)
  let ?b = "rev (backend_objects r x)" and ?p = "domProjectID x" and ?ns = "domNamespace x"
  let ?cm = "(config_map_key ?p ?ns (config_map_name r), PolicyObj (BuildDirectResponseConfigMap r x (direct_body dr)))"
  have cm: "adds d0 ?b (if direct_body dr = [] then ret () else wrap_error f (ApplyDirectResponseConfigMap ?p ?ns (config_map_name r)
      (BuildDirectResponseConfigMap r x (direct_body dr)))) ((if direct_body dr = [] then [] else [?cm]) @ ?b)" for f
  proof (cases "direct_body dr = []")
    case False
    have "fst ?cm \<notin> keys_of ?b" by (auto simp: backend_objects_def)
    from adds_wrap_error [OF adds_upsert_object [OF this]] False show ?thesis by (simp add: ApplyDirectResponseConfigMap_def)
  qed (simp add: adds_def hoare_def ret_def)
  have hrf: "hrf_key ?p ?ns (HTTPRouteFilterName (rtK8sRouteName r)) \<notin> keys_of ((if direct_body dr = [] then [] else [?cm]) @ ?b)"
    by (auto simp: backend_objects_def)
  have objects: "rev (direct_objects r x) @ ?b =
      (hrf_key ?p ?ns (HTTPRouteFilterName (rtK8sRouteName r)), PolicyObj (BuildHTTPRouteFilter r x dr)) # (if direct_body dr = [] then [] else [?cm]) @ ?b"
    using Some by (simp add: direct_objects_def)
  show ?thesis unfolding objects deployDirectResponse_def Some option.case ApplyHTTPRouteFilter_def
    by (rule adds_bind [OF cm adds_wrap_error [OF adds_upsert_object [OF hrf]]])
qed

lemma adds_apply_base_route:
  "adds d0 (rev (direct_objects r x) @ rev (backend_objects r x)) (apply_base_route r x create) (rev (planned_objects r x))"
proof -
  have "http_key p ns n \<notin> keys_of (rev (direct_objects r x) @ rev (backend_objects r x))"
    "grpc_key p ns n \<notin> keys_of (rev (direct_objects r x) @ rev (backend_objects r x))" for p ns n
    by (auto simp: backend_objects_def direct_objects_def split: option.splits if_splits)
  moreover have "hcName (BuildHTTPRouteConfig r x) = rtK8sRouteName r" "hcNamespace (BuildHTTPRouteConfig r x) = domNamespace x"
    "gcoName (BuildGRPCRouteConfig r x) = rtK8sRouteName r" "gcoNamespace (BuildGRPCRouteConfig r x) = domNamespace x"
    by (simp_all add: BuildHTTPRouteConfig_def BuildGRPCRouteConfig_def Let_def)
  ultimately show ?thesis
    using adds_route_calls(1,2) [of "domProjectID x" "BuildHTTPRouteConfig r x" "rev (direct_objects r x) @ rev (backend_objects r x)"]
      adds_route_calls(3,4) [of "domProjectID x" "BuildGRPCRouteConfig r x" "rev (direct_objects r x) @ rev (backend_objects r x)"]
    unfolding apply_base_route_def by (auto simp: planned_objects_def route_object_def intro!: adds_wrap_error)
qed

lemma keeps_after_route:
  assumes "keys_of os \<subseteq> base_keys r x" "rtK8sRouteName r \<noteq> ''ext-proc''"
  shows "keeps (has_objects os) (after_route waf r x create)"
  unfolding after_route_def
  by (intro keeps_intros keeps_deployAPIKeyClients [OF assms(1)] keeps_cleanupStaleAPIKeyRoutes [OF assms(1)] keeps_applyBackendTrafficPolicy [OF assms(1)]
      keeps_deployEnvoyExtensionPolicy [OF assms] keeps_updateClientAttachmentStatuses)

lemma sp_key_not_planned: "route_sp_key r x \<notin> keys_of (planned_objects r x)"
  by (auto simp: planned_objects_def backend_objects_def direct_objects_def route_object_def route_sp_key_def split: option.splits if_splits)

lemma adds_apply_objects: "adds d [] (apply_objects r x create) (rev (planned_objects r x))"
proof -
  have "adds d (rev (backend_objects r x)) (if create then ret () else bind (attempt (cleanupStaleBackends r x)) (\<lambda>_. ret ())) (rev (backend_objects r x))"
    using adds_cleanupStaleBackends [of d r x] by (simp add: adds_keeps)
  from adds_bind [OF this adds_bind [OF adds_wrap_error [OF adds_deployDirectResponse] adds_apply_base_route]] show ?thesis
    unfolding apply_objects_def by (rule adds_bind [OF adds_wrap_error [OF adds_deployBackends]])
qed

text \<open>A deployment that succeeds went through a state in which the planned objects were there and the tables untouched.\<close>

lemma apply_route_run:
  assumes "apply_route waf r x create (d, fs) = (Inr (), (d', fs'))"
  obtains d1 fs1 d2 fs2 where "has_objects (planned_objects r x) d1" "same_tables d d1"
    "deploySecurityPolicy r x (d1, fs1) = (Inr (), (d2, fs2))" "after_route waf r x create (d2, fs2) = (Inr (), (d', fs'))"
proof -
  from assms obtain d1 fs1 d2 fs2 where run: "apply_objects r x create (d, fs) = (Inr (), (d1, fs1))"
    "deploySecurityPolicy r x (d1, fs1) = (Inr (), (d2, fs2))" "after_route waf r x create (d2, fs2) = (Inr (), (d', fs'))"
    by (auto simp: apply_route_def run_bind wrap_error_def attempt_def split: prod.splits sum.splits)
  have "has_objects (planned_objects r x) d1 \<and> same_tables d d1"
    using hoare_Inr [OF adds_apply_objects [unfolded adds_def, of d] _ run(1)] by simp
  with run(2,3) that show ?thesis by blast
qed

text \<open>What a route object refers to: backends and filters of the extension.\<close>

fun object_backends :: "k8s_object \<Rightarrow> string list" where
  "object_backends (HTTPRouteObj o1) = map borName (filter refers_to_backend (concat (map oruBackendRefs (ohrRules o1))))"
| "object_backends (GRPCRouteObj o1) = map borName (filter refers_to_backend (concat (map ogrBackendRefs (ogoRules o1))))"
| "object_backends _ = []"

fun object_filters :: "k8s_object \<Rightarrow> string list" where
  "object_filters (HTTPRouteObj o1) = concat (map (\<lambda>u. concat (map (\<lambda>f. case f of ExtensionRef _ _ n \<Rightarrow> [n] | _ \<Rightarrow> []) (oruFilters u))) (ohrRules o1))"
| "object_filters _ = []"

definition resolved :: "Domain \<Rightarrow> k8s_object \<Rightarrow> db \<Rightarrow> bool" where
  "resolved x y d \<longleftrightarrow> (\<forall>n \<in> set (object_backends y). k8s_lookup (backend_object_key (domProjectID x) (domNamespace x) n) d \<noteq> None) \<and>
     (\<forall>n \<in> set (object_filters y). k8s_lookup (hrf_key (domProjectID x) (domNamespace x) n) d \<noteq> None)"

lemma object_backends_planned:
  assumes "n \<in> set (object_backends (snd (route_object r x)))"
  shows "backend_object_key (domProjectID x) (domNamespace x) n \<in> keys_of (planned_objects r x)"
proof -
  have "\<exists>c \<in> set (backend_configs r x). bcName c = n"
    using assms by (auto simp: route_object_def split: if_splits intro: http_backend_refs grpc_backend_refs)
  then show ?thesis using backend_configs_namespace by (force simp: planned_objects_def backend_objects_def)
qed

lemma object_filters_planned:
  assumes "n \<in> set (object_filters (snd (route_object r x)))"
  shows "hrf_key (domProjectID x) (domNamespace x) n \<in> keys_of (planned_objects r x)"
proof -
  have "rcDirectResponse (rtConfig r) \<noteq> None \<and> n = HTTPRouteFilterName (rtK8sRouteName r)"
    using assms direct_response_filter [of _ r x] by (auto simp: route_object_def split: if_splits RouteFilter.splits)
  then obtain dr where "rcDirectResponse (rtConfig r) = Some dr" "n = HTTPRouteFilterName (rtK8sRouteName r)" by blast
  then show ?thesis by (simp add: planned_objects_def direct_objects_def image_Un)
qed

lemma has_object_key: "has_objects os d \<Longrightarrow> k \<in> keys_of os \<Longrightarrow> k8s_lookup k d \<noteq> None"
  by (force simp: has_objects_def)

lemma apply_route_resolves:
  assumes "apply_route waf r x create (d, fs) = (Inr (), (d', fs'))" "rtK8sRouteName r \<noteq> ''ext-proc''"
  shows "k8s_lookup (fst (route_object r x)) d' = Some (snd (route_object r x)) \<and> resolved x (snd (route_object r x)) d'"
proof -
  let ?os = "planned_objects r x"
  have keys: "keys_of ?os \<subseteq> base_keys r x" by (auto simp: base_keys_def)
  from assms(1) obtain d1 fs1 d2 fs2 where run: "has_objects ?os d1" "deploySecurityPolicy r x (d1, fs1) = (Inr (), (d2, fs2))"
    "after_route waf r x create (d2, fs2) = (Inr (), (d', fs'))" by (rule apply_route_run)
  have "has_objects ?os d2" by (rule keeps_run [OF keeps_deploySecurityPolicy [OF keys sp_key_not_planned] run(1,2)])
  then have "has_objects ?os d'" by (rule keeps_run [OF keeps_after_route [OF keys assms(2)] _ run(3)])
  then show ?thesis unfolding resolved_def
    using object_backends_planned [of _ r x] object_filters_planned [of _ r x] has_object_key [of ?os d']
    by (auto simp: planned_objects_def [of r x])
qed

lemma hoare_apply_route:
  assumes "rtK8sRouteName r \<noteq> ''ext-proc''"
  shows "hoare (\<lambda>d. d = d0) (apply_route waf r x create)
    (\<lambda>_ d. k8s_lookup (fst (route_object r x)) d = Some (snd (route_object r x)) \<and> resolved x (snd (route_object r x)) d) (\<lambda>_ _. True)"
  by (rule hoareI) (use apply_route_resolves [OF _ assms] in auto)

lemma resolved_cong: "k8s d = k8s d' \<Longrightarrow> resolved x y d = resolved x y d'"
  by (simp add: resolved_def k8s_lookup_def)

lemma hoare_ensureReferenceGrantsForDomain: "hoare (\<lambda>d. d = d0) (ensureReferenceGrantsForDomain r x) (\<lambda>_ d. d = d0) (\<lambda>_ d. d = d0)"
proof -
  have "keeps (\<lambda>d. d = d0) (ensureReferenceGrantsForDomain r x)"
    unfolding ensureReferenceGrantsForDomain_def ReferenceGrantExists_def k8s_Get_def by (intro keeps_intros)
  then show ?thesis by (simp add: keeps_def)
qed

definition route_change :: "db \<Rightarrow> uuid \<Rightarrow> Approval \<Rightarrow> bool" where
  "route_change d i a \<longleftrightarrow> a = synthetic_approval \<or> (\<exists>a' \<in> set (approvals d). apEntityType a' = ApprovalEntityRoute \<and> apEntityID a' = i \<and> apAction a = apAction a')"

lemma hoare_deploy_action:
  "hoare (\<lambda>d. d = d0) (deploy_action i) (\<lambda>(r, a) d. d = d0 \<and> row_get rtID i (routes d0) = Some r \<and> rtStatus r \<noteq> RouteStatusActive \<and> route_change d0 i a)
    (\<lambda>_ d. d = d0)"
  unfolding deploy_action_def RouteRepo_GetByID_def ApprovalRepo_GetLatestApprovedByEntityID_def query_def
  by (rule hoare_pre, (rule wp)+)
    (auto simp: found_def route_change_def approval_read_def matches_entity_def split: option.splits if_splits dest!: find_Some_mem)

lemma hoare_deploy_route:
  assumes "rtStatus r \<noteq> RouteStatusActive" "\<not> IsL4 r" "rtK8sRouteName r \<noteq> ''ext-proc''" "apAction a \<in> {ApprovalActionCreate, ApprovalActionUpdate}"
  shows "hoare (\<lambda>d. d = d0) (deploy_route has waf r a by) (\<lambda>r' d. \<exists>x. Option.bind (rtDomainID r) (\<lambda>j. row_get domID j (domains d0)) = Some x \<and>
      rtStatus r' = RouteStatusActive \<and> row_get rtID (rtID r) (routes d) = Some r' \<and>
      k8s_lookup (fst (route_object r x)) d = Some (snd (route_object r x)) \<and> resolved x (snd (route_object r x)) d) (\<lambda>_ _. True)"
proof -
  have action: "apAction a \<noteq> ApprovalActionDelete" "apAction a = ApprovalActionCreate \<or> apAction a = ApprovalActionUpdate" using assms(4) by auto
  show ?thesis unfolding deploy_route_def if_not_P [OF assms(2)] if_not_P [OF action(1)] if_P [OF action(2)] DomainRepo_GetByID_def query_def deref_def
    by (rule hoare_pre, (rule hoare_spec [OF hoare_ensureReferenceGrantsForDomain] hoare_spec [OF hoare_apply_route [OF assms(3)]]
        hoare_spec [OF hoare_finishDeploy [OF assms(1)]] | rule wp)+)
      (auto simp: found_def SyncListenerPort_def cong: k8s_lookup_cong resolved_cong split: option.splits)
qed

text \<open>C6. A deployment that reports success of a new or changed HTTP or gRPC route leaves a route that works: whatever calls failed on the way, the stored
  route is active, the cluster holds the planned route object at the end,
  and every backend and every filter that the object refers to exists in its namespace. The clean-up of backends, the routes of the clients, the
  policies and their clean-up have not taken any of them away.\<close>

theorem deployed_route_resolves:
  assumes "Deploy has waf i by (d, fs) = (Inr r', (d', fs'))" "row_get rtID i (routes d) = Some r" "\<not> IsL4 r" "rtK8sRouteName r \<noteq> ''ext-proc''"
    "\<forall>a \<in> set (approvals d). apEntityType a = ApprovalEntityRoute \<and> apEntityID a = i \<longrightarrow> apAction a \<in> {ApprovalActionCreate, ApprovalActionUpdate}"
  shows "\<exists>x. Option.bind (rtDomainID r) (\<lambda>j. row_get domID j (domains d)) = Some x \<and> rtStatus r' = RouteStatusActive \<and> row_get rtID i (routes d') = Some r' \<and>
    k8s_lookup (fst (route_object r x)) d' = Some (snd (route_object r x)) \<and> resolved x (snd (route_object r x)) d'"
proof -
  from assms(1) obtain r0 a d0 fs0 where run: "deploy_action i (d, fs) = (Inr (r0, a), (d0, fs0))" "deploy_route has waf r0 a by (d0, fs0) = (Inr r', (d', fs'))"
    by (auto simp: Deploy_def run_bind split: prod.splits sum.splits)
  have start: "d0 = d" "r0 = r" "rtStatus r \<noteq> RouteStatusActive" "route_change d i a"
    using hoare_Inr [OF hoare_deploy_action refl run(1)] assms(2) by auto
  have "apAction a \<in> {ApprovalActionCreate, ApprovalActionUpdate}"
    using start(4) assms(5) by (auto simp: route_change_def synthetic_approval_def)
  from hoare_Inr [OF hoare_deploy_route [OF start(3) assms(3,4) this] refl run(2) [unfolded start(1,2)]] row_get_key [OF assms(2)] show ?thesis by simp
qed

text \<open>C8. The default of the base route survives its deployment: when clients are attached and the default traffic policy is \<open>deny\<close> or
  \<open>require_ip_allowlist\<close>, the security policy that denies by default is still in the cluster when the whole deployment has reported success, after the routes
  of the clients were deployed and the stale ones removed.\<close>

theorem deployed_route_denies:
  assumes "apply_route waf r x create (d, fs) = (Inr (), (d', fs'))" "rtK8sRouteName r \<noteq> ''ext-proc''" "rtSecurityMode r \<noteq> SecurityModeGeneral"
    "rcDefaultTrafficPolicy (rtConfig r) \<in> {''deny'', ''require_ip_allowlist''}" "route_attachments d (rtID r) \<noteq> []"
  shows "\<exists>j. k8s_lookup (route_sp_key r x) d' = Some (PolicyObj j) \<and> json_at [''spec'', ''authorization'', ''defaultAction''] j = Some (JStr ''Deny'')"
proof -
  from assms(1) obtain d1 fs1 d2 fs2 where run: "same_tables d d1" "deploySecurityPolicy r x (d1, fs1) = (Inr (), (d2, fs2))"
    "after_route waf r x create (d2, fs2) = (Inr (), (d', fs'))" by (rule apply_route_run)
  let ?a = "\<lparr>appDefaultAction = ''Deny'', appRules = base_rules r d1\<rparr>"
  let ?c = "SecurityPolicyConfigForDeploy r x (stored_security d1 r) (Some ?a)"
  have "route_attachments d1 (rtID r) \<noteq> []" using run(1) assms(5) by (elim same_tablesE) (simp add: route_attachments_def)
  then have lookup: "k8s_lookup (route_sp_key r x) d2 = map_option PolicyObj (BuildSecurityPolicy ?c)"
    using hoare_Inr [OF hoare_deploySecurityPolicy_client [OF assms(3,4)] refl run(2)] by blast
  have "skAuthorization ?c = Some ?a" by (simp add: SecurityPolicyConfigForDeploy_def AssembleSecurityPolicyConfig_def Let_def)
  from deny_reaches_manifest [OF this] obtain j where j: "BuildSecurityPolicy ?c = Some j"
    "json_at [''spec'', ''authorization'', ''defaultAction''] j = Some (JStr ''Deny'')" by auto
  let ?os = "[(route_sp_key r x, PolicyObj j)]"
  have keys: "keys_of ?os \<subseteq> base_keys r x" by (simp add: base_keys_def)
  have "has_objects ?os d2" using lookup j(1) by simp
  then have "has_objects ?os d'" by (rule keeps_run [OF keeps_after_route [OF keys assms(2)] _ run(3)])
  with j(2) show ?thesis by simp
qed

definition sample_waf :: WAFConfig where
  "sample_waf = \<lparr>wcImage = ''waf'', wcTag = ''v1''\<rparr>"

definition sample_deployable :: Route where
  "sample_deployable = (sample_client_route ''deny'')\<lparr>rtConfig := (rtConfig (sample_client_route ''deny''))\<lparr>rcBackends := rcBackends (rtConfig sample_http_route)\<rparr>\<rparr>"

definition sample_deploy_db :: db where
  "sample_deploy_db = (sample_ip_client False)\<lparr>routes := [sample_deployable], approvals := [sample_approval ApprovalActionCreate ApprovalStatusApproved]\<rparr>"

definition sample_Deploy :: "(error + Route) \<times> db \<times> bool list" where
  "sample_Deploy = Deploy (\<lambda>_ _. True) sample_waf 6 7 (sample_deploy_db, [])"

definition sample_deployed :: "(error + unit) \<times> db \<times> bool list" where
  "sample_deployed = apply_route sample_waf sample_deployable sample_domain True (sample_ip_client False, [])"

lemma sample_deployed_run: "\<exists>d'. sample_deployed = (Inr (), (d', []))"
proof -
  have "case sample_deployed of (Inr _, (_, fs)) \<Rightarrow> fs = [] | (Inl _, _) \<Rightarrow> False" by code_simp
  then show ?thesis by (auto split: prod.splits sum.splits)
qed

theorem deployed_route_resolves_witness:
  "\<exists>r' d' x. sample_Deploy = (Inr r', (d', [])) \<and> row_get domID 5 (domains sample_deploy_db) = Some x \<and> rtStatus r' = RouteStatusActive \<and>
     k8s_lookup (fst (route_object sample_deployable x)) d' = Some (snd (route_object sample_deployable x)) \<and>
     resolved x (snd (route_object sample_deployable x)) d'"
proof -
  have "case sample_Deploy of (Inr _, (_, fs)) \<Rightarrow> fs = [] | (Inl _, _) \<Rightarrow> False" by code_simp
  then obtain r' d' where run: "sample_Deploy = (Inr r', (d', []))" by (auto split: prod.splits sum.splits)
  have "row_get rtID 6 (routes sample_deploy_db) = Some sample_deployable" by (simp add: sample_deploy_db_def row_get_def sample_deployable_def sample_client_route_def sample_route_def)
  moreover have "\<not> IsL4 sample_deployable" "rtK8sRouteName sample_deployable \<noteq> ''ext-proc''" "rtDomainID sample_deployable = Some 5" by code_simp+
  moreover have "\<forall>a \<in> set (approvals sample_deploy_db). apEntityType a = ApprovalEntityRoute \<and> apEntityID a = 6 \<longrightarrow>
      apAction a \<in> {ApprovalActionCreate, ApprovalActionUpdate}"
    by (simp add: sample_deploy_db_def sample_approval_def)
  ultimately show ?thesis using deployed_route_resolves [OF run [unfolded sample_Deploy_def]] run by auto
qed

theorem deployed_route_denies_witness:
  "\<exists>d' j. sample_deployed = (Inr (), (d', [])) \<and> k8s_lookup (route_sp_key sample_deployable sample_domain) d' = Some (PolicyObj j) \<and>
     json_at [''spec'', ''authorization'', ''defaultAction''] j = Some (JStr ''Deny'')"
proof -
  obtain d' where run: "sample_deployed = (Inr (), (d', []))" using sample_deployed_run by blast
  have "rtK8sRouteName sample_deployable \<noteq> ''ext-proc''" "rtSecurityMode sample_deployable \<noteq> SecurityModeGeneral"
    "rcDefaultTrafficPolicy (rtConfig sample_deployable) \<in> {''deny'', ''require_ip_allowlist''}"
    "route_attachments (sample_ip_client False) (rtID sample_deployable) \<noteq> []" by code_simp+
  from deployed_route_denies [OF run [unfolded sample_deployed_def] this] run show ?thesis by auto
qed

section \<open>Gaps\<close>

text \<open>A client with a certificate, approved for the route of a domain with mTLS on.\<close>

definition sample_certificate_client :: db where
  "sample_certificate_client = (sample_attached True)\<lparr>
     attachments := [(sample_attachment AttachmentStatusApproved)\<lparr>attEnableAPIKey := False, attEnableMTLS := True\<rparr>],
     clients := [sample_client\<lparr>clMTLSEnabled := True, clMTLSCASecret := ''fastgateway-client-10-mtls-ca'', clMTLSCAPem := ''P'', clMTLSHashes := [''h'']\<rparr>],
     domain_settings := [\<lparr>dstID = 90, dstDomainID = 5, dstProjectID = 1, dstConfig = empty_settings\<lparr>dscMTLS := Some sample_mtls\<rparr>\<rparr>]\<rparr>"

definition authorities_in_cluster :: "db \<Rightarrow> json option" where
  "authorities_in_cluster d = (case k8s_lookup (domain_ctp sample_domain) d of
     Some (PolicyObj j) \<Rightarrow> json_at [''spec'', ''tls'', ''clientValidation'', ''caCertificateRefs''] j | _ \<Rightarrow> None)"

text \<open>The deployment that makes the attachment active rebuilds the client traffic policy before it: the authority of the client joins the gateway only with
  the next deployment.\<close>

lemma authority_joins_one_deployment_late:
  "case apply_route sample_waf sample_deployable sample_domain True (sample_certificate_client, []) of (_, (d1, _)) \<Rightarrow>
     map attStatus (attachments d1) = [AttachmentStatusActive] \<and> k8s_lookup (domain_ctp sample_domain) d1 \<noteq> None \<and> authorities_in_cluster d1 = None \<and>
     (case apply_route sample_waf sample_deployable sample_domain False (d1, []) of (_, (d2, _)) \<Rightarrow> authorities_in_cluster d2 \<noteq> None)"
  by code_simp

text \<open>A switch from client mode to general mode leaves the routes of the clients in the cluster.\<close>

lemma mode_switch_leaves_client_routes:
  "case apply_route sample_waf sample_deployable sample_domain True (sample_certificate_client, []) of (_, (d1, _)) \<Rightarrow>
     k8s_lookup (http_key 1 ''shop'' (rtK8sRouteName sample_deployable @ ''-ak-10'')) d1 \<noteq> None \<and>
     (case apply_route sample_waf (sample_deployable\<lparr>rtSecurityMode := SecurityModeGeneral\<rparr>) sample_domain False (d1, []) of (res, (d2, _)) \<Rightarrow>
        res = Inr () \<and> k8s_lookup (http_key 1 ''shop'' (rtK8sRouteName sample_deployable @ ''-ak-10'')) d2 \<noteq> None)"
  by code_simp

text \<open>A route that no longer answers directly leaves its filter in the cluster.\<close>

lemma stale_filter_stays:
  "case apply_route sample_waf (sample_deployable\<lparr>rtConfig := (rtConfig sample_deployable)\<lparr>rcDirectResponse :=
       Some \<lparr>drStatusCode = 200, drContentType = [], drBody = None\<rparr>\<rparr>\<rparr>) sample_domain True (sample_ip_client False, []) of (_, (d1, _)) \<Rightarrow>
     (case apply_route sample_waf sample_deployable sample_domain False (d1, []) of (res, (d2, _)) \<Rightarrow>
        res = Inr () \<and> k8s_lookup (hrf_key 1 ''shop'' (HTTPRouteFilterName (rtK8sRouteName sample_deployable))) d2 \<noteq> None)"
  by code_simp

end
