(* ===== verification/Spec2Isabelle.thy ===== *)
theory Spec2Isabelle
  imports Engine RouteDeploy
begin

text \<open>
  \<^bold>\<open>What the program is.\<close> The repository (\<open>src/\<close>, Go) is the control plane of an API gateway.
  A project connects one Kubernetes cluster and one database scope; inside it, teams write \<^emph>\<open>routes\<close>
  under \<^emph>\<open>domains\<close> (hostname-routed Gateways) and \<^emph>\<open>streams\<close> (TCP/UDP Gateways), both of which take
  their shape from a \<^emph>\<open>gateway template\<close>. Clients are attached to routes, certificates and DNS records
  belong to domains, and most changes wait for an \<^emph>\<open>approval\<close> with one or more stages. A service reads
  and writes the database through repositories and writes objects to the cluster through the client of
  \<open>src/internal/cluster\<close>; it hands proposals to the approval engine, which calls back into the service
  that owns the entity when the proposal is approved, rejected or cancelled.

  \<^bold>\<open>How it is modelled.\<close> Every operation is a function of the error-and-state monad of \<open>Prelude\<close>:
  from the state of the world (the record \<open>db\<close> of \<open>Store\<close>: one list of rows per table, the objects of
  the cluster, the records of the DNS providers, a clock and a supply of keys) and a list of faults to an
  \<open>error + 'a\<close> and the new state. A fault in the list lets the next call of the database or the cluster
  fail, so every \<open>if err != nil\<close> of the sources is a reachable branch, and a theorem with a free fault list
  holds under every pattern of failures. What an operation has already written when it fails stays written,
  as in the code, whose services run without transactions; one call of a repository happens as a whole or not at all. Keys (\<open>uuid.UUID\<close>) are natural numbers,
  with \<open>uuid.Nil\<close> as \<open>0\<close>; strings are lists of bytes; \<open>int\<close> is \<^typ>\<open>int\<close>, and \<open>int32\<close> is a word
  where the conversion may wrap. A check of a service is \<open>require\<close>, an early return is an \<open>if\<close>, a loop
  over rows is a recursion over the list.

  \<^bold>\<open>The foundation.\<close>
  \<^item> \<open>Prelude\<close>: the monad, its Hoare triples (\<open>hoare\<close>, with a postcondition for success and one for
    failure), the frame judgement \<open>keeps\<close>, the rules collected in \<open>wp\<close>, and
    the locale of keyed tables.
  \<^item> \<open>Errors\<close>: error values; \<open>GoLib\<close>: \<open>time.ParseDuration\<close>, \<open>net.ParseIP\<close>, \<open>net.ParseCIDR\<close>; \<open>Base64\<close>:
    \<open>encoding/base64\<close> and \<open>encoding/hex\<close> over byte strings, with the round trip.
  \<^item> \<open>Policies\<close>, \<open>Settings\<close>, \<open>Models\<close>: \<open>internal/models\<close>, one record per struct and one datatype per enumeration,
    the validators of the policy blocks and of the settings of a domain, and the builders of the security policy.
  \<^item> \<open>Kubernetes\<close>: the objects of the cluster and the builders of \<open>internal/kubernetes\<close>;
    \<open>Cluster\<close>: the client of \<open>internal/cluster\<close>.
  \<^item> \<open>Store\<close>: \<open>internal/repository\<close> with the unique indexes, foreign keys and cascades of the migrations.
  \<^item> \<open>Sample\<close>: a small concrete store; the witnesses of the theorems run the operations on it.

  \<^bold>\<open>Approvals and permissions.\<close>
  \<^item> \<open>RouteState\<close> (\<open>internal/routestate\<close>): the table of legal status transitions, \<open>Machine.To\<close> and the
    runs of the machine as an inductive relation (C4, C5).
  \<^item> \<open>TeamAccess\<close> (\<open>models/team.go\<close>, \<open>middleware/permissions.go\<close>): the permission checks fail closed and
    agree with each other (C10, C11). The locale of a check is interpreted for each of them.
  \<^item> \<open>Approval\<close>, \<open>ApprovalInv\<close> (\<open>internal/approval\<close>, \<open>approval_policy_service.go\<close>): planning of stages,
    submission, review, cancellation and the policies (C2, C3, C12). The engine is parameterised by the
    registry of completers; the locale of a completer states what a callback has to keep, and the
    engine's invariant \<open>gate_inv\<close> is proved from these laws.
  \<^item> \<open>RouteApproval\<close>, \<open>Attachments\<close>, \<open>Certificates\<close>: the three completers (routes, client attachments,
    certificates) with the services they belong to (C14 to C17); each interprets the contract.
  \<^item> \<open>Engine\<close> (\<open>cmd/server/main.go\<close>): the registry as the server builds it. C1 and C13, in this theory,
    join engine and completers.

  \<^bold>\<open>Clients.\<close>
  \<^item> \<open>Clients\<close> (\<open>services/clients/client_*.go\<close>, \<open>cluster/secret.go\<close>): the rows of the clients, their API keys, token
    issuers, certificates, addresses, headers and methods. A withdrawn credential queues the routes that use it (C35), and the
    deployment reads the API key that was handed out (C36). The hash of a key, the random bytes and the parsing of URLs and of
    PEM blocks are parameters.

  \<^bold>\<open>Gateways.\<close>
  \<^item> \<open>Ports\<close>, \<open>Streams\<close>, \<open>StreamInv\<close> (\<open>stream_*.go\<close>): port claims and their collision checks, the
    operations of streams, the Gateway as refinement of the claims, convergence of the reconciler, names
    (C26 to C30).
  \<^item> \<open>Templates\<close>, \<open>TemplateInv\<close> (\<open>domain_template_*.go\<close>, \<open>models/template_listener.go\<close>, \<open>models/template_migrate.go\<close>):
    the listener validator accepts exactly the well-formed lists, the invariant of the stored templates,
    deletion, creation, migration of the old columns (C21 to C23).
  \<^item> \<open>DNS\<close> (\<open>dns_record_service.go\<close>): enabling, reconciling and deleting managed records; a record of
    somebody else is not overwritten (C24, C25). The provider is a table of records behind the
    calls of the interface \<open>DNSClient\<close>; domains use the service through the locale \<open>dns_manager\<close>.
  \<^item> \<open>Domains\<close>, \<open>DomainInv\<close> (\<open>domain_service.go\<close>, \<open>domainplan\<close>): the operations of domains and the
    invariant over templates, streams and domains that keeps the listeners of merged Gateways apart
    (C18 to C20).
  \<^item> \<open>DomainPolicies\<close> (\<open>domain_settings.go\<close>, \<open>domain_mtls.go\<close>, \<open>domain_deploy.go\<close>, \<open>domainplan\<close>): the settings of a domain
    and the policies they become: the client traffic policy of the Gateway with the authorities of mutual TLS, the traffic
    policy and the extension policy of the domain. Mutual TLS that is switched on is in force (C9), and adding an authority
    loses no setting (C37).

  \<^bold>\<open>Routes.\<close>
  \<^item> \<open>RouteValidation\<close>, \<open>RouteWrite\<close>, \<open>RouteInv\<close> (\<open>route_validation.go\<close>, \<open>route_write_*.go\<close>): what a write
    checks, the proposals it submits and the path without approvals (C31).
  \<^item> \<open>RouteVersions\<close> (\<open>route_version_service.go\<close>): recording and rolling back (C39).
  \<^item> \<open>TrafficPolicy\<close> (\<open>routeplan/backendtrafficpolicy.go\<close>, \<open>kubernetes/backendtrafficpolicy.go\<close>): plan, gate for
    the transport and manifest (C40).
  \<^item> \<open>SecurityPlan\<close> (\<open>routeplan/securitypolicy*.go\<close>, \<open>kubernetes/securitypolicy.go\<close>): the security policy of a route from its
    input, from the stored row and from one client. The factors of a client are demanded together (C33), and the preview is
    what is deployed (C38).
  \<^item> \<open>RoutePlan\<close> (\<open>routeplan/httproute.go\<close>, \<open>grpcroute.go\<close>, \<open>backend.go\<close> and their builders in \<open>kubernetes\<close>): routes,
    backends, direct responses; the route of a client is the base route narrowed to the client (C34).
  \<^item> \<open>ExtensionPlan\<close> (\<open>routeplan/envoyextensionpolicy*.go\<close>, \<open>waf_directives.go\<close>): Lua, Wasm, external processors and the
    firewall of a route.
  \<^item> \<open>ClusterRoutes\<close> (\<open>cluster/route.go\<close>, \<open>backend.go\<close>, \<open>policy.go\<close>, \<open>cleanup.go\<close>): the calls of the client of the cluster
    that the deployment makes, each with its effect and its frame.
  \<^item> \<open>ClientSecurity\<close> (\<open>route_assembler.go\<close>, \<open>route_deploy_policies.go\<close>): the security policy of the base route in client and in
    general mode; a route that is to deny by default does so (C7).
  \<^item> \<open>Deploy\<close> (\<open>route_deploy_service.go\<close>): the choice of the action from the status, and the deployment of
    routes of streams to the cluster (C32).
  \<^item> \<open>RouteDeploy\<close> (\<open>route_deploy_*.go\<close>): \<open>Deploy\<close> as a whole, for HTTP and gRPC routes: backends, direct responses, the
    routes of clients, all policies, the removal of stale objects and the deletion. A deployed route refers only to objects
    that exist (C6), and the default of deny survives all later steps (C8).

  Beside the numbered properties, lemmas at the end of \<open>StreamInv\<close>, \<open>DomainInv\<close>, \<open>RouteApproval\<close>, \<open>Clients\<close>, \<open>ClientSecurity\<close>, \<open>RoutePlan\<close>,
  \<open>ExtensionPlan\<close>, \<open>DomainPolicies\<close>, \<open>RouteInv\<close>, \<open>RouteVersions\<close>, \<open>Deploy\<close> and \<open>RouteDeploy\<close> run the model on the sample store and show where the code does
  not do what its comments say, for example a deleted route whose traffic policy stays in the cluster.

  \<^bold>\<open>Bounds.\<close> Loops that the code bounds keep their bounds: the poll of a pending DNS record runs 5 times as
  in \<open>Enable\<close>, the deferred retry takes the number of its polls as an argument (the code stops after three
  minutes; the lemmas hold for every number), and the routes of a domain are listed with the limit of 10000. \<open>collapse_dashes\<close>, the loop that ends when no double dash is left, is a \<open>function\<close> with a
  measure (C30); nothing else needs fuel.

  \<^bold>\<open>Not modelled.\<close> The HTTP handlers (decoding of requests, rendering of responses) and the start of the
  process; the printing of objects as YAML, list views and topology, which only read; AI review, metrics, authentication, the
  import of OpenAPI documents, the issue of client certificates and the SDKs of the DNS providers, which rest on external services and libraries; the
  administration of projects, teams, users, zones and certificate issuers, whose rows are tables of the model that its operations only read;
  comments, notifications and the audit log, which no modelled operation reads. The
  operations are sequential: two requests that interleave inside one operation are covered only where a theorem
  quantifies over arbitrary changes between operations (C1), and an optimistic-lock conflict, which
  needs a second writer, does not arise.
\<close>

section \<open>The approval gate\<close>

text \<open>C1. In every state the server can reach, by any sequence of submissions, reviews, cancellations and changes
  outside the approval tables and under any faults, an approval marked approved has at least one stage, and every
  one of its stages is approved by at least the required number of distinct reviewers.\<close>

theorem approved_passed_the_gate:
  assumes "engine_reach main_completers d" "a \<in> set (approvals d)" "apStatus a = ApprovalStatusApproved"
  shows "(\<exists>s \<in> set (approval_stages d). stgApprovalID s = apID a) \<and>
    (\<forall>s \<in> set (approval_stages d). stgApprovalID s = apID a \<longrightarrow>
       stgStatus s = ApprovalStatusApproved \<and>
       EffectiveMinApprovers (stgMinApprovers s) \<le>
         int (card {u. \<exists>r \<in> set (stage_reviews d). revStageID r = stgID s \<and> revReviewerID r = u \<and> revDecision r = ''approved''}))"
proof -
  have inv: "gate_inv d" using assms(1) by (rule main.reach_inv)
  have card: "int (length (approving d i)) =
      int (card {u. \<exists>r \<in> set (stage_reviews d). revStageID r = i \<and> revReviewerID r = u \<and> revDecision r = ''approved''})" for i
  proof -
    have "distinct (map (\<lambda>r. (revStageID r, revReviewerID r)) (approving d i))"
      using inv by (simp add: gate_inv_def approving_def distinct_map_filter)
    then have "distinct (map revReviewerID (approving d i))"
      by (auto simp: distinct_map inj_on_def approving_def)
    then have "length (approving d i) = card (revReviewerID ` set (approving d i))"
      by (metis distinct_card length_map list.set_map)
    also have "revReviewerID ` set (approving d i) =
        {u. \<exists>r \<in> set (stage_reviews d). revStageID r = i \<and> revReviewerID r = u \<and> revDecision r = ''approved''}"
      by (auto simp: approving_def)
    finally show ?thesis by simp
  qed
  have a: "approval_ok d a" and st: "\<forall>s \<in> set (approval_stages d). stage_ok d s"
    using inv assms(2) by (simp_all add: gate_inv_def)
  show ?thesis
    using a st assms(3) unfolding approval_ok_def stage_ok_def card by blast
qed

definition sample_request :: Spec where
  "sample_request = \<lparr>spProjectID = 1, spEntityType = ApprovalEntityRoute, spEntityID = 6, spAction = ApprovalActionCreate,
     spSubmittedBy = 7, spConfigSnapshot = None, spPreviousConfig = None, spAIReview = None, spChangeDescription = []\<rparr>"

text \<open>The sample request, submitted and then approved by the owner.\<close>

definition sample_submitted :: db where
  "sample_submitted = fst (snd (Submit sample_request (sample_routes RouteStatusPendingCreate, [])))"

definition sample_completed :: db where
  "sample_completed = fst (snd (ApproveStage main_completers 20 21 sample_owner (sample_submitted, [])))"

lemma reach_completed: "engine_reach main_completers sample_completed"
proof -
  have "same_gate empty_db (sample_routes RouteStatusPendingCreate)"
    by (simp add: same_gate_def sample_routes_def sample_store_def empty_db_def)
  then have "engine_reach main_completers (sample_routes RouteStatusPendingCreate)"
    by (meson engine_reach.intros engine_step.outside)
  then show ?thesis unfolding sample_completed_def sample_submitted_def by (intro reach_ApproveStage reach_Submit)
qed

theorem approved_passed_the_gate_witness:
  "\<exists>a \<in> set (approvals sample_completed). apStatus a = ApprovalStatusApproved \<and>
     (\<exists>s \<in> set (approval_stages sample_completed). stgApprovalID s = apID a)"
proof -
  have "map apStatus (approvals sample_completed) = [ApprovalStatusApproved]" by code_simp
  then obtain a where "a \<in> set (approvals sample_completed)" "apStatus a = ApprovalStatusApproved"
    by (metis list.set_intros(1) imageE list.set_map)
  then show ?thesis using approved_passed_the_gate [OF reach_completed] by blast
qed

section \<open>Cancellation\<close>

text \<open>When the engine as the server runs it lets a user cancel an approval.\<close>

definition may_cancel :: "db \<Rightarrow> uuid \<Rightarrow> User \<Rightarrow> bool" where
  "may_cancel d i u \<longleftrightarrow> (\<exists>a. read_row d a \<and> apID a = i \<and> apStatus a \<in> {ApprovalStatusPending, ApprovalStatusApproved} \<and>
     (apSubmittedBy a = usrID u \<or> IsOwner u \<or> is_admin d (apProjectID a) (usrID u) \<or>
      apEntityType a = ApprovalEntityRoute \<and>
      (\<exists>r. row_get rtID (apEntityID a) (routes d) = Some r \<and> is_member d (rtTeamID r) (usrID u))))"

lemma hoare_route_CanCancel:
  "hoare (\<lambda>d. d = d0) (route_CanCancel a u)
     (\<lambda>b d. d = d0 \<and> (b \<longrightarrow> apEntityType a = ApprovalEntityRoute \<and>
        (\<exists>r. row_get rtID (apEntityID a) (routes d0) = Some r \<and> is_member d0 (rtTeamID r) (usrID u)))) (\<lambda>_ d. d = d0)"
  unfolding route_CanCancel_def RouteRepo_GetByID_def TeamRepo_IsMember_def deny_on_error_def
  by (rule hoare_pre, (rule wp)+) auto

lemma hoare_cancel_allowed:
  assumes "main_completers (apEntityType a) = Some c"
  shows "hoare (\<lambda>d. d = d0) (cancel_permitted c a u)
    (\<lambda>b d. d = d0 \<and> (b \<longrightarrow> apSubmittedBy a = usrID u \<or> IsOwner u \<or> is_admin d0 (apProjectID a) (usrID u) \<or>
      apEntityType a = ApprovalEntityRoute \<and>
      (\<exists>r. row_get rtID (apEntityID a) (routes d0) = Some r \<and> is_member d0 (rtTeamID r) (usrID u)))) (\<lambda>_ d. d = d0)"
proof -
  have can: "hoare (\<lambda>d. d = d0) (case CanCancel c of None \<Rightarrow> ret False | Some f \<Rightarrow> f a u)
     (\<lambda>b d. d = d0 \<and> (b \<longrightarrow> apEntityType a = ApprovalEntityRoute \<and>
        (\<exists>r. row_get rtID (apEntityID a) (routes d0) = Some r \<and> is_member d0 (rtTeamID r) (usrID u)))) (\<lambda>_ d. d = d0)" for d0
  proof -
    have "CanCancel c \<in> {None, Some route_CanCancel}"
      using assms by (rule main_completers_cases) (simp_all add: route_completer_def attachment_completer_def cert_completer_def)
    then show ?thesis
      by (elim insertE emptyE) (simp_all add: hoare_route_CanCancel hoare_pre [OF hoare_ret])
  qed
  show ?thesis
    unfolding cancel_permitted_def ProjectRepo_IsAdmin_def
    by (rule hoare_pre, (rule hoare_readonly [OF can] | rule wp)+) auto
qed

text \<open>C13. A cancellation by somebody who is not the submitter, an owner, an admin of the project or a
  member of the team of the route, or of an approval that is neither pending nor approved, is refused and
  changes nothing.\<close>

theorem cancel_gate:
  assumes "\<not> may_cancel d i u"
  shows "\<exists>e fs'. Cancel main_completers i u (d, fs) = (Inl e, (d, fs'))"
proof -
  have "hoare (\<lambda>d'. d' = d) (Cancel main_completers i u) (\<lambda>_ _. False) (\<lambda>_ d'. d' = d)"
    unfolding Cancel_def Let_def
    by (rule hoare_pre, rule hoare_bind, rule hoare_bind, rule main.hoare_completerFor, rule hoare_bind, rule hoare_bind,
        rule hoare_False, rule hoare_require, rule hoare_readonly [OF hoare_cancel_allowed], assumption,
      rule hoare_require, rule hoare_readonly [OF hoare_GetByID])
     (use assms in \<open>auto simp: may_cancel_def\<close>)
  then show ?thesis by (rule hoare_refused)
qed

theorem cancel_gate_witness:
  "\<exists>e fs'. Cancel main_completers 12 sample_reviewer (sample_pending RouteStatusPendingUpdate ApprovalActionUpdate, [])
     = (Inl e, (sample_pending RouteStatusPendingUpdate ApprovalActionUpdate, fs'))"
  by (rule cancel_gate)
    (auto simp: may_cancel_def read_row_def sample_pending_def sample_routes_def sample_store_def empty_db_def sample_approval_def
      sample_reviewer_def IsOwner_def is_admin_def is_member_def)

lemma run_GetByID:
  "row_get apID i (approvals d) = Some a \<Longrightarrow> ApprovalRepo_GetByID i (d, []) = (Inr (approval_read d a), (d, []))"
  by (simp add: ApprovalRepo_GetByID_def)

lemma run_cancel_owner:
  assumes "row_get apID i (approvals d) = Some a" "apStatus a \<in> {ApprovalStatusPending, ApprovalStatusApproved}"
    "main_completers (apEntityType a) = Some c" "IsOwner u"
  defines "a' \<equiv> (approval_read d a)\<lparr>apStatus := ApprovalStatusCancelled\<rparr>"
  shows "Cancel main_completers i u (d, []) =
    bind (ApprovalRepo_Update a') (\<lambda>_. bind (OnCancelled c a') (\<lambda>_. ApprovalRepo_GetByID i)) (d, [])"
  using assms by (auto simp: Cancel_def run_GetByID completerFor_def cancel_permitted_def Let_def bind_def)

lemma row_get_cancelled:
  assumes "row_get apID i (approvals d) = Some a"
  shows "row_get apID i (row_save apID ((approval_read d a)\<lparr>apStatus := ApprovalStatusCancelled, apStages := []\<rparr>) (approvals d)) =
    Some ((approval_read d a)\<lparr>apStatus := ApprovalStatusCancelled, apStages := []\<rparr>)"
  using row_get_key [OF assms] by simp

lemma main_completers_route: "main_completers ApprovalEntityRoute = Some route_completer"
  by (simp add: main_completers_def Register_def)

lemma main_completers_cert: "main_completers ApprovalEntityCertificate = Some cert_completer"
  by (simp add: main_completers_def Register_def)

text \<open>Cancelling an approved update or delete that waits for its deploy fails, but only after the
  approval has been stored as cancelled; the route stays queued.\<close>

theorem cancel_after_approval_fails_half_way:
  assumes "row_get apID i (approvals d) = Some a" "apStatus a = ApprovalStatusApproved" "apEntityType a = ApprovalEntityRoute"
    "apAction a \<in> {ApprovalActionUpdate, ApprovalActionDelete}"
    "row_get rtID (apEntityID a) (routes d) = Some r" "rtStatus r = RouteStatusPendingDeploy" "IsOwner u"
  shows "\<exists>e d' a'. Cancel main_completers i u (d, []) = (Inl e, (d', [])) \<and> routes d' = routes d \<and>
    row_get apID i (approvals d') = Some a' \<and> apStatus a' = ApprovalStatusCancelled"
proof -
  have "\<not> legal SiteApprovalCancelled RouteStatusPendingDeploy RouteStatusActive" by (simp add: legal_def)
  then obtain f where to: "To SiteApprovalCancelled r RouteStatusActive s = (Inl (Msg f), s)" for s
    using To_illegal [of r RouteStatusActive SiteApprovalCancelled] assms(6)
    by (auto simp: To_def)
  show ?thesis
    using assms row_get_cancelled [OF assms(1)]
    by (subst run_cancel_owner [where a = a and c = route_completer])
      (auto simp: main_completers_route route_completer_def route_OnCancelled_def ApprovalRepo_Update_def RouteRepo_GetByID_def
        bind_def to)
qed

theorem cancel_after_approval_fails_half_way_witness:
  "\<exists>e d' a'. Cancel main_completers 12 sample_owner (sample_approved RouteStatusPendingDeploy ApprovalActionUpdate, []) = (Inl e, (d', [])) \<and>
    routes d' = [sample_route RouteStatusPendingDeploy] \<and> row_get apID 12 (approvals d') = Some a' \<and> apStatus a' = ApprovalStatusCancelled"
  using cancel_after_approval_fails_half_way [of 12 "sample_approved RouteStatusPendingDeploy ApprovalActionUpdate"
      "sample_approval ApprovalActionUpdate ApprovalStatusApproved" "sample_route RouteStatusPendingDeploy" sample_owner]
  by (simp add: sample_approved_def sample_routes_def sample_approval_def sample_route_def sample_owner_def IsOwner_def row_get_def)

text \<open>Cancelling an approved create deletes the row of the route, also when the route has been
  deployed since.\<close>

theorem cancel_deletes_the_created_route:
  assumes "row_get apID i (approvals d) = Some a" "apStatus a = ApprovalStatusApproved" "apEntityType a = ApprovalEntityRoute"
    "apAction a = ApprovalActionCreate" "IsOwner u"
  shows "\<exists>x d'. Cancel main_completers i u (d, []) = (Inr x, (d', [])) \<and> routes d' = row_delete rtID (apEntityID a) (routes d)"
  using assms row_get_cancelled [OF assms(1)]
  by (subst run_cancel_owner [where a = a and c = route_completer])
    (auto simp: main_completers_route route_completer_def route_OnCancelled_def ApprovalRepo_Update_def RouteRepo_Delete_def
      delete_routes_def row_delete_def ApprovalRepo_GetByID_def bind_def)

theorem cancel_deletes_the_created_route_witness:
  "\<exists>x d'. Cancel main_completers 12 sample_owner (sample_approved RouteStatusActive ApprovalActionCreate, []) = (Inr x, (d', [])) \<and> routes d' = []"
  using cancel_deletes_the_created_route [of 12 "sample_approved RouteStatusActive ApprovalActionCreate"
      "sample_approval ApprovalActionCreate ApprovalStatusApproved" sample_owner]
  by (simp add: sample_approved_def sample_approval_def sample_routes_def sample_route_def row_get_def row_delete_def sample_owner_def IsOwner_def)

text \<open>Cancelling an approved export leaves the grant it minted usable.\<close>

theorem cancelled_export_keeps_its_grant:
  assumes "row_get apID i (approvals d) = Some a" "apStatus a = ApprovalStatusApproved" "apEntityType a = ApprovalEntityCertificate"
    "apAction a = ApprovalActionExport" "IsOwner u"
  shows "\<exists>x d'. Cancel main_completers i u (d, []) = (Inr x, (d', [])) \<and> export_grants d' = export_grants d \<and> clock d' = clock d"
  using assms row_get_cancelled [OF assms(1)]
  by (subst run_cancel_owner [where a = a and c = cert_completer])
    (auto simp: main_completers_cert cert_completer_def cert_OnCancelled_def ApprovalRepo_Update_def
      ApprovalRepo_GetByID_def bind_def)

theorem cancelled_export_keeps_its_grant_witness:
  "\<exists>x d'. Cancel main_completers 12 sample_owner (sample_certs\<lparr>approvals := [(sample_approval ApprovalActionExport ApprovalStatusApproved)
     \<lparr>apEntityType := ApprovalEntityCertificate, apEntityID := 14\<rparr>]\<rparr>, []) = (Inr x, (d', [])) \<and> grants d' 14 7 = 1"
proof -
  have g: "grants sample_certs 14 7 = 1" by code_simp
  let ?a = "(sample_approval ApprovalActionExport ApprovalStatusApproved)\<lparr>apEntityType := ApprovalEntityCertificate, apEntityID := 14\<rparr>"
  let ?d = "sample_certs\<lparr>approvals := [?a]\<rparr>"
  obtain x d' where run: "Cancel main_completers 12 sample_owner (?d, []) = (Inr x, (d', []))"
    and eg: "export_grants d' = export_grants ?d" and ck: "clock d' = clock ?d"
    using cancelled_export_keeps_its_grant [of 12 ?d ?a sample_owner]
    by (auto simp: sample_approval_def row_get_def sample_owner_def IsOwner_def)
  have "usable d' = usable sample_certs" by (rule usable_clock) (simp add: ck)
  then have "grants d' 14 7 = grants sample_certs 14 7" by (simp add: grants_def eg)
  then show ?thesis using g run by auto
qed

end
